(* ===== verification/Prelude.thy ===== *)
theory Prelude
  imports Complex_Main "HOL-Library.Word" "HOL-Library.Char_ord" "HOL-Library.List_Lexorder"
begin

unbundle bit_operations_syntax

text \<open>
  Shared vocabulary of the development: the error monad in which the Python validators are
  written (a raise is \<open>Inl\<close>, a returned value is \<open>Inr\<close>), the state-and-error monad in which the
  store operations and the scheduler are written (the state survives an error, as a database
  does when an exception leaves a method), the list tables that stand for SQL tables, and the
  generic facts about them that the component theories share.
\<close>

section \<open>Collections of rules\<close>

named_theorems err_simps \<open>evaluation of the error monad\<close>
named_theorems preserve_intros \<open>rules that build an invariant of an action from its parts\<close>

section \<open>The error monad\<close>

text \<open>A Python expression that may raise: \<open>Inl\<close> the exception, \<open>Inr\<close> the value.\<close>

definition bindE :: "'e + 'a \<Rightarrow> ('a \<Rightarrow> 'e + 'b) \<Rightarrow> 'e + 'b" where
  "bindE m f = (case m of Inl e \<Rightarrow> Inl e | Inr x \<Rightarrow> f x)"

text \<open>\<^verbatim>\<open>if not b: raise e\<close>.\<close>

definition guardE :: "bool \<Rightarrow> 'e \<Rightarrow> 'e + unit" where
  "guardE b e = (if b then Inr () else Inl e)"

text \<open>Whether the expression returned a value.\<close>

definition isOK :: "'e + 'a \<Rightarrow> bool" where
  "isOK m = (case m of Inl _ \<Rightarrow> False | Inr _ \<Rightarrow> True)"

lemma bindE_simps [simp, err_simps]:
  "bindE (Inl e) f = Inl e"
  "bindE (Inr x) f = f x"
  by (simp_all add: bindE_def)

lemma guardE_simps [simp, err_simps]:
  "guardE True e = Inr ()"
  "guardE False e = Inl e"
  by (simp_all add: guardE_def)

lemma isOK_simps [simp, err_simps]:
  "isOK (Inl e) = False"
  "isOK (Inr x) = True"
  by (simp_all add: isOK_def)

lemma bindE_eq_Inr_iff: "bindE m f = Inr y \<longleftrightarrow> (\<exists>x. m = Inr x \<and> f x = Inr y)"
  by (cases m) simp_all

lemma bindE_eq_Inl_iff: "bindE m f = Inl e \<longleftrightarrow> m = Inl e \<or> (\<exists>x. m = Inr x \<and> f x = Inl e)"
  by (cases m) simp_all

lemma guardE_eq_Inr_iff: "guardE b e = Inr u \<longleftrightarrow> b"
  by (cases b) simp_all

lemma guardE_eq_Inl_iff: "guardE b e = Inl e' \<longleftrightarrow> \<not> b \<and> e' = e"
  by (cases b) auto

lemmas err_iffs = bindE_eq_Inr_iff bindE_eq_Inl_iff guardE_eq_Inr_iff guardE_eq_Inl_iff

lemma isOK_bindE: "isOK (bindE m f) \<longleftrightarrow> (\<exists>x. m = Inr x \<and> isOK (f x))"
  by (cases m) simp_all

lemma isOK_guardE [simp]: "isOK (guardE b e) = b"
  by (cases b) simp_all

lemma isOK_iff: "isOK m \<longleftrightarrow> (\<exists>x. m = Inr x)"
  by (cases m) simp_all

lemma bindE_guardE_OK: "isOK (bindE (guardE b e) (\<lambda>u. f u)) \<longleftrightarrow> b \<and> isOK (f ())"
  by (cases b) simp_all

text \<open>A sequence of checks whose results are not used passes when each check passes.\<close>

lemma isOK_bindE_const: "isOK (bindE m (\<lambda>_. n)) \<longleftrightarrow> isOK m \<and> isOK n"
  by (cases m) simp_all

text \<open>\<^verbatim>\<open>for x in xs: f(x)\<close> of a validating loop: the first error ends it.\<close>

fun checkE_all :: "('a \<Rightarrow> 'e + unit) \<Rightarrow> 'a list \<Rightarrow> 'e + unit" where
  "checkE_all f [] = Inr ()"
| "checkE_all f (x # xs) = bindE (f x) (\<lambda>_. checkE_all f xs)"

lemma isOK_checkE_all [simp]: "isOK (checkE_all f xs) \<longleftrightarrow> (\<forall>x\<in>set xs. isOK (f x))"
  by (induction xs) (auto simp: isOK_bindE, auto simp: isOK_iff)

section \<open>The state-and-error monad\<close>

text \<open>
  A method of a stateful object: it maps the state to its result (or exception) and the state
  it leaves behind. The state it leaves is kept when it raises.
\<close>

type_synonym ('s, 'e, 'a) action = "'s \<Rightarrow> ('e + 'a) \<times> 's"

definition returnS :: "'a \<Rightarrow> ('s, 'e, 'a) action" where
  "returnS x = (\<lambda>s. (Inr x, s))"

definition raiseS :: "'e \<Rightarrow> ('s, 'e, 'a) action" where
  "raiseS e = (\<lambda>s. (Inl e, s))"

definition bindS :: "('s, 'e, 'a) action \<Rightarrow> ('a \<Rightarrow> ('s, 'e, 'b) action) \<Rightarrow> ('s, 'e, 'b) action" where
  "bindS m f = (\<lambda>s. case m s of (Inl e, s') \<Rightarrow> (Inl e, s') | (Inr x, s') \<Rightarrow> f x s')"

text \<open>\<^verbatim>\<open>try: m except E as e: h(e)\<close>, where \<open>caught\<close> says which exceptions \<open>E\<close> catches.\<close>

definition catchS :: "('s, 'e, 'a) action \<Rightarrow> ('e \<Rightarrow> bool) \<Rightarrow> ('e \<Rightarrow> ('s, 'e, 'a) action)
    \<Rightarrow> ('s, 'e, 'a) action" where
  "catchS m caught h =
     (\<lambda>s. case m s of (Inl e, s') \<Rightarrow> (if caught e then h e s' else (Inl e, s')) | (Inr x, s') \<Rightarrow> (Inr x, s'))"

text \<open>A read of the state: it returns a value of the state or raises, and changes nothing.\<close>

definition readS :: "('s \<Rightarrow> 'e + 'a) \<Rightarrow> ('s, 'e, 'a) action" where
  "readS f = (\<lambda>s. (f s, s))"

text \<open>\<^verbatim>\<open>for x in xs: acc = f(x, acc)\<close>; an exception ends the loop.\<close>

fun foldS :: "('x \<Rightarrow> 'a \<Rightarrow> ('s, 'e, 'a) action) \<Rightarrow> 'x list \<Rightarrow> 'a \<Rightarrow> ('s, 'e, 'a) action" where
  "foldS f [] acc = returnS acc"
| "foldS f (x # xs) acc = bindS (f x acc) (\<lambda>acc'. foldS f xs acc')"

text \<open>\<^verbatim>\<open>[f(x) for x in xs]\<close> with effects, in order.\<close>

fun mapS :: "('x \<Rightarrow> ('s, 'e, 'a) action) \<Rightarrow> 'x list \<Rightarrow> ('s, 'e, 'a list) action" where
  "mapS f [] = returnS []"
| "mapS f (x # xs) = bindS (f x) (\<lambda>y. bindS (mapS f xs) (\<lambda>ys. returnS (y # ys)))"

lemma action_apply [simp, err_simps]:
  "returnS x s = (Inr x, s)"
  "raiseS e s = (Inl e, s)"
  "readS f s = (f s, s)"
  by (simp_all add: returnS_def raiseS_def readS_def)

lemma bindS_apply [err_simps]:
  "bindS m f s = (case m s of (Inl e, s') \<Rightarrow> (Inl e, s') | (Inr x, s') \<Rightarrow> f x s')"
  by (simp add: bindS_def)

lemma catchS_apply [err_simps]:
  "catchS m c h s =
    (case m s of (Inl e, s') \<Rightarrow> (if c e then h e s' else (Inl e, s')) | (Inr x, s') \<Rightarrow> (Inr x, s'))"
  by (simp add: catchS_def)

lemma bindS_Inr: "m s = (Inr x, s') \<Longrightarrow> bindS m f s = f x s'"
  by (simp add: bindS_def)

lemma bindS_Inl: "m s = (Inl e, s') \<Longrightarrow> bindS m f s = (Inl e, s')"
  by (simp add: bindS_def)

lemma bindS_eq_Inr_iff:
  "bindS m f s = (Inr y, t) \<longleftrightarrow> (\<exists>x s'. m s = (Inr x, s') \<and> f x s' = (Inr y, t))"
  by (simp add: bindS_def split: prod.splits sum.splits)

subsection \<open>Invariants of actions\<close>

text \<open>
  \<open>preserves I m\<close>: whatever the action returns or raises, it keeps \<open>I\<close>. The rules below build
  the invariant of a composed action from those of its parts.
\<close>

definition preserves :: "('s \<Rightarrow> bool) \<Rightarrow> ('s, 'e, 'a) action \<Rightarrow> bool" where
  "preserves I m \<longleftrightarrow> (\<forall>s. I s \<longrightarrow> I (snd (m s)))"

lemma preservesI: "(\<And>s. I s \<Longrightarrow> I (snd (m s))) \<Longrightarrow> preserves I m"
  by (simp add: preserves_def)

lemma preservesD: "preserves I m \<Longrightarrow> I s \<Longrightarrow> I (snd (m s))"
  by (simp add: preserves_def)

lemma preservesE: "preserves I m \<Longrightarrow> I s \<Longrightarrow> m s = (r, s') \<Longrightarrow> I s'"
  by (drule (1) preservesD) simp

lemma preserves_returnS [preserve_intros]: "preserves I (returnS x)"
  by (simp add: preserves_def)

lemma preserves_raiseS [preserve_intros]: "preserves I (raiseS e)"
  by (simp add: preserves_def)

lemma preserves_readS [preserve_intros]: "preserves I (readS f)"
  by (simp add: preserves_def)

lemma preserves_bindS [preserve_intros]:
  "preserves I m \<Longrightarrow> (\<And>x. preserves I (f x)) \<Longrightarrow> preserves I (bindS m f)"
  by (fastforce simp: preserves_def bindS_def split: prod.splits sum.splits)

lemma preserves_catchS [preserve_intros]:
  "preserves I m \<Longrightarrow> (\<And>e. preserves I (h e)) \<Longrightarrow> preserves I (catchS m c h)"
  by (fastforce simp: preserves_def catchS_def split: prod.splits sum.splits)

lemma preserves_if [preserve_intros]:
  "(b \<Longrightarrow> preserves I m) \<Longrightarrow> (\<not> b \<Longrightarrow> preserves I n) \<Longrightarrow> preserves I (if b then m else n)"
  by simp

lemma preserves_case_option [preserve_intros]:
  "(x = None \<Longrightarrow> preserves I m) \<Longrightarrow> (\<And>y. x = Some y \<Longrightarrow> preserves I (n y))
    \<Longrightarrow> preserves I (case x of None \<Rightarrow> m | Some y \<Rightarrow> n y)"
  by (simp split: option.split)

lemma preserves_case_sum:
  "(\<And>y. x = Inl y \<Longrightarrow> preserves I (m y)) \<Longrightarrow> (\<And>y. x = Inr y \<Longrightarrow> preserves I (n y))
    \<Longrightarrow> preserves I (case x of Inl y \<Rightarrow> m y | Inr y \<Rightarrow> n y)"
  by (simp split: sum.split)

lemma preserves_case_prod [preserve_intros]:
  "(\<And>y z. x = (y, z) \<Longrightarrow> preserves I (n y z)) \<Longrightarrow> preserves I (case x of (y, z) \<Rightarrow> n y z)"
  by (simp split: prod.split)

lemma preserves_Let [preserve_intros]:
  "(\<And>y. y = x \<Longrightarrow> preserves I (f y)) \<Longrightarrow> preserves I (Let x f)"
  by simp

lemma preserves_foldS [preserve_intros]:
  "(\<And>x acc. x \<in> set xs \<Longrightarrow> preserves I (f x acc)) \<Longrightarrow> preserves I (foldS f xs acc)"
  by (induction xs arbitrary: acc) (auto intro!: preserve_intros)

lemma preserves_mapS [preserve_intros]:
  "(\<And>x. x \<in> set xs \<Longrightarrow> preserves I (f x)) \<Longrightarrow> preserves I (mapS f xs)"
  by (induction xs) (auto intro!: preserve_intros)

section \<open>List tables\<close>

text \<open>
  An SQL table is the list of its rows in insertion order. \<open>find_row\<close> is a lookup by primary key,
  \<open>update_rows\<close> an \<^verbatim>\<open>UPDATE ... WHERE\<close>, and \<open>filter\<close> a \<^verbatim>\<open>SELECT ... WHERE\<close>.
\<close>

definition find_row :: "('r \<Rightarrow> 'k) \<Rightarrow> 'k \<Rightarrow> 'r list \<Rightarrow> 'r option" where
  "find_row key k rows = find (\<lambda>r. key r = k) rows"

definition update_rows :: "('r \<Rightarrow> bool) \<Rightarrow> ('r \<Rightarrow> 'r) \<Rightarrow> 'r list \<Rightarrow> 'r list" where
  "update_rows p f rows = map (\<lambda>r. if p r then f r else r) rows"

definition keys_distinct :: "('r \<Rightarrow> 'k) \<Rightarrow> 'r list \<Rightarrow> bool" where
  "keys_distinct key rows = distinct (map key rows)"

lemma find_row_Nil [simp]: "find_row key k [] = None"
  by (simp add: find_row_def)

lemma find_row_Cons [simp]:
  "find_row key k (r # rows) = (if key r = k then Some r else find_row key k rows)"
  by (simp add: find_row_def)

lemma find_row_append:
  "find_row key k (xs @ ys) = (case find_row key k xs of None \<Rightarrow> find_row key k ys | Some r \<Rightarrow> Some r)"
  by (induction xs) auto

lemma find_row_None_iff: "find_row key k rows = None \<longleftrightarrow> k \<notin> key ` set rows"
  by (induction rows) auto

lemma find_row_Some_key: "find_row key k rows = Some r \<Longrightarrow> key r = k \<and> r \<in> set rows"
  by (induction rows) (auto split: if_splits)

lemma find_row_mem: "keys_distinct key rows \<Longrightarrow> r \<in> set rows \<Longrightarrow> find_row key (key r) rows = Some r"
  by (induction rows) (auto simp: keys_distinct_def)

lemma find_row_eq_iff:
  "keys_distinct key rows \<Longrightarrow> find_row key k rows = Some r \<longleftrightarrow> r \<in> set rows \<and> key r = k"
  using find_row_mem find_row_Some_key by metis

lemma update_rows_simps [simp]:
  "update_rows p f [] = []"
  "update_rows p f (r # rows) = (if p r then f r else r) # update_rows p f rows"
  by (simp_all add: update_rows_def)

lemma length_update_rows [simp]: "length (update_rows p f rows) = length rows"
  by (simp add: update_rows_def)

lemma set_update_rows: "set (update_rows p f rows) = (\<lambda>r. if p r then f r else r) ` set rows"
  by (simp add: update_rows_def)

lemma update_rows_cong_map: "(\<And>r. g (f r) = g r) \<Longrightarrow> map g (update_rows p f rows) = map g rows"
  by (simp add: update_rows_def)

lemma update_rows_nop: "(\<And>r. r \<in> set rows \<Longrightarrow> p r \<Longrightarrow> f r = r) \<Longrightarrow> update_rows p f rows = rows"
  by (induction rows) auto

lemma update_rows_none: "(\<And>r. r \<in> set rows \<Longrightarrow> \<not> p r) \<Longrightarrow> update_rows p f rows = rows"
  by (induction rows) auto

lemma keys_distinct_update [simp]:
  "(\<And>r. key (f r) = key r) \<Longrightarrow> keys_distinct key (update_rows p f rows) = keys_distinct key rows"
  by (simp add: keys_distinct_def update_rows_cong_map)

lemma keys_distinct_snoc:
  "keys_distinct key (rows @ [r]) \<longleftrightarrow> keys_distinct key rows \<and> find_row key (key r) rows = None"
  by (auto simp: keys_distinct_def find_row_None_iff)

lemma find_row_update:
  "(\<And>r. key (f r) = key r) \<Longrightarrow>
    find_row key k (update_rows p f rows) =
      map_option (\<lambda>r. if p r then f r else r) (find_row key k rows)"
  by (induction rows) auto

lemma filter_update_rows_length:
  "(\<And>r. p r \<Longrightarrow> q (f r) = q r) \<Longrightarrow>
    length (filter q (update_rows p f rows)) = length (filter q rows)"
  by (induction rows) auto

end
