(* ===== verification/Timestamps.thy ===== *)
theory Timestamps
  imports Prelude
begin

text \<open>
  The time stamps of the operational store. \<^verbatim>\<open>_timestamp\<close> writes an aware \<^verbatim>\<open>datetime\<close> as its UTC
  \<^verbatim>\<open>isoformat()\<close> text and SQLite compares, sorts and takes the minimum of these texts, byte by
  byte. This theory models the text and shows that the order and the equality of the texts are those
  of the moments, so that the store theories may keep moments as integers of microseconds.
\<close>

section \<open>UTC moments and their text\<close>

text \<open>The fields of a \<^verbatim>\<open>datetime\<close> in UTC.\<close>

record utc_time =
  year :: nat
  month :: nat
  day :: nat
  hour :: nat
  minute :: nat
  second :: nat
  micro :: nat

definition utc_valid :: "utc_time \<Rightarrow> bool" where
  "utc_valid t \<longleftrightarrow> 1 \<le> year t \<and> year t \<le> 9999 \<and> 1 \<le> month t \<and> month t \<le> 12 \<and> 1 \<le> day t \<and> day t \<le> 31
     \<and> hour t \<le> 23 \<and> minute t \<le> 59 \<and> second t \<le> 59 \<and> micro t \<le> 999999"

text \<open>\<^verbatim>\<open>datetime\<close> values of one time zone compare field by field, from the year to the microsecond.\<close>

definition utc_fields :: "utc_time \<Rightarrow> nat list" where
  "utc_fields t = [year t, month t, day t, hour t, minute t, second t, micro t]"

text \<open>\<^verbatim>\<open>f"{n:0{width}d}"\<close>: the decimal digits, padded with zeros.\<close>

fun digits :: "nat \<Rightarrow> nat \<Rightarrow> string" where
  "digits 0 n = []"
| "digits (Suc w) n = char_of (48 + n div 10 ^ w mod 10) # digits w n"

definition iso_offset :: string where
  "iso_offset = ''+00:00''"

definition iso_micro :: "nat \<Rightarrow> string" where
  "iso_micro n = (if n = 0 then [] else CHR ''.'' # digits 6 n)"

definition isoformat :: "utc_time \<Rightarrow> string" where
  "isoformat t = digits 4 (year t) @ ''-'' @ digits 2 (month t) @ ''-'' @ digits 2 (day t) @ ''T''
     @ digits 2 (hour t) @ '':'' @ digits 2 (minute t) @ '':'' @ digits 2 (second t)
     @ iso_micro (micro t) @ iso_offset"

text \<open>
  \<^verbatim>\<open>_parse_timestamp\<close> on the texts that \<^verbatim>\<open>_timestamp\<close> writes: fixed positions, and the fraction only when
  a full stop follows the seconds.
\<close>

definition digits_value :: "string \<Rightarrow> nat" where
  "digits_value cs = foldl (\<lambda>acc c. acc * 10 + (of_char c - 48)) 0 cs"

definition parse_iso :: "string \<Rightarrow> utc_time" where
  "parse_iso cs =
     \<lparr>year = digits_value (take 4 cs), month = digits_value (take 2 (drop 5 cs)),
      day = digits_value (take 2 (drop 8 cs)), hour = digits_value (take 2 (drop 11 cs)),
      minute = digits_value (take 2 (drop 14 cs)), second = digits_value (take 2 (drop 17 cs)),
      micro = (if take 1 (drop 19 cs) = ''.'' then digits_value (take 6 (drop 20 cs)) else 0)\<rparr>"

section \<open>Fixed-width decimals keep the order\<close>

lemma length_digits [simp]: "length (digits w n) = w"
  by (induction w) simp_all

lemma of_char_digit: "d < 10 \<Longrightarrow> of_char (char_of (48 + d :: nat)) = (48 + d :: nat)"
  by simp

lemma char_digit_less: "d < 10 \<Longrightarrow> e < 10 \<Longrightarrow>
    (char_of (48 + d :: nat) :: char) < char_of (48 + e) \<longleftrightarrow> d < e"
  by (simp add: less_char_def)

lemma char_digit_eq: "d < 10 \<Longrightarrow> e < 10 \<Longrightarrow>
    (char_of (48 + d :: nat) :: char) = char_of (48 + e) \<longleftrightarrow> d = e"
  by (metis add_left_cancel of_char_digit)

lemma digits_mod: "digits w (n mod 10 ^ w) = digits w n"
proof -
  have "w \<le> v \<Longrightarrow> digits w (n mod 10 ^ v) = digits w n" for v
  proof (induction w)
    case 0
    then show ?case by simp
  next
    case (Suc w)
    then have "10 ^ v = (10::nat) ^ w * 10 ^ (v - w)" by (simp add: power_add [symmetric])
    then have "n mod 10 ^ v div 10 ^ w = n div 10 ^ w mod 10 ^ (v - w)"
      by (simp add: mod_mult2_eq)
    moreover have "v - w = Suc (v - w - 1)" using Suc.prems by simp
    then have "10 ^ (v - w) = 10 * (10::nat) ^ (v - w - 1)" by (metis power_Suc)
    ultimately have "n mod 10 ^ v div 10 ^ w mod 10 = n div 10 ^ w mod 10"
      by (simp add: mod_mult2_eq)
    with Suc show ?case by simp
  qed
  then show ?thesis by simp
qed

lemma digits_split:
  assumes "n < 10 ^ Suc w"
  shows "digits (Suc w) n = char_of (48 + n div 10 ^ w) # digits w (n mod 10 ^ w)"
    and "n div 10 ^ w < 10"
proof -
  show lt: "n div 10 ^ w < 10" using assms by (simp add: less_mult_imp_div_less)
  then show "digits (Suc w) n = char_of (48 + n div 10 ^ w) # digits w (n mod 10 ^ w)"
    by (simp add: digits_mod)
qed

lemma less_div_mod:
  assumes "0 < (p::nat)"
  shows "n < m \<longleftrightarrow> n div p < m div p \<or> n div p = m div p \<and> n mod p < m mod p"
proof (cases "n div p" "m div p" rule: linorder_cases)
  case less
  then have "n < m" using div_le_mono [of m n p] by linarith
  with less show ?thesis by simp
next
  case equal
  have "n = n div p * p + n mod p" "m = m div p * p + m mod p" by simp_all
  then have "n < m \<longleftrightarrow> n mod p < m mod p" using equal by (metis add_less_cancel_left)
  with equal show ?thesis by simp
next
  case greater
  then have "m < n" using div_le_mono [of n m p] by linarith
  with greater show ?thesis by simp
qed

lemma digits_less_iff: "n < 10 ^ w \<Longrightarrow> m < 10 ^ w \<Longrightarrow> digits w n < digits w m \<longleftrightarrow> n < m"
  and digits_eq_iff: "n < 10 ^ w \<Longrightarrow> m < 10 ^ w \<Longrightarrow> digits w n = digits w m \<longleftrightarrow> n = m"
proof (induction w arbitrary: n m)
  case 0
  { case 1 then show ?case by simp }
  { case 2 then show ?case by simp }
next
  case (Suc w)
  have mods: "n mod 10 ^ w < 10 ^ w" "m mod 10 ^ w < 10 ^ w" for n m :: nat by simp_all
  note dm = less_div_mod [of "10 ^ w"]
  have de: "n = m \<longleftrightarrow> n div 10 ^ w = m div 10 ^ w \<and> n mod 10 ^ w = m mod 10 ^ w" for n m :: nat
    by (metis div_mult_mod_eq)
  { case 1
    then show ?case
      using digits_split [of n w] digits_split [of m w] Suc.IH mods dm [of n m]
      by (simp del: digits.simps add: char_digit_less char_digit_eq) }
  { case 2
    then show ?case
      using digits_split [of n w] digits_split [of m w] Suc.IH mods de [of n m]
      by (simp del: digits.simps add: char_digit_eq) }
qed

section \<open>The text order is the order of the moments\<close>

lemma append_less_append:
  "length xs = length ys \<Longrightarrow>
    (xs @ us < ys @ vs) \<longleftrightarrow> xs < ys \<or> xs = ys \<and> us < (vs :: 'a :: linorder list)"
  by (induction xs ys rule: list_induct2) auto

lemma iso_micro_less:
  assumes "n \<le> 999999" "m \<le> 999999"
  shows "iso_micro n @ iso_offset < iso_micro m @ iso_offset \<longleftrightarrow> n < m"
proof -
  have dot: "CHR ''+'' < CHR ''.''" by (simp add: less_char_def)
  have nm: "n < 10 ^ 6" "m < 10 ^ 6" using assms by simp_all
  have z: "iso_offset = CHR ''+'' # ''00:00''" by (simp add: iso_offset_def)
  consider "n = 0" "m = 0" | "n = 0" "m \<noteq> 0" | "n \<noteq> 0" "m = 0" | "n \<noteq> 0" "m \<noteq> 0" by blast
  then show ?thesis
  proof cases
    case 4
    then show ?thesis
      by (simp add: iso_micro_def append_less_append digits_less_iff [OF nm] del: digits.simps)
  qed (use dot in \<open>simp_all add: iso_micro_def z less_char_def\<close>)
qed

lemma iso_micro_inject:
  assumes "n \<le> 999999" "m \<le> 999999"
  shows "iso_micro n @ iso_offset = iso_micro m @ iso_offset \<longleftrightarrow> n = m"
  using iso_micro_less [OF assms] iso_micro_less [OF assms(2,1)] by (metis less_irrefl linorder_neqE_nat)

lemma utc_field_bounds:
  assumes "utc_valid t"
  shows "year t < 10 ^ 4" "month t < 10 ^ 2" "day t < 10 ^ 2" "hour t < 10 ^ 2" "minute t < 10 ^ 2"
    "second t < 10 ^ 2" "micro t \<le> 999999"
  using assms by (simp_all add: utc_valid_def)

lemma isoformat_less:
  assumes "utc_valid t" "utc_valid u"
  shows "isoformat t < isoformat u \<longleftrightarrow> utc_fields t < utc_fields u"
  using utc_field_bounds [OF assms(1)] utc_field_bounds [OF assms(2)]
  by (simp add: isoformat_def utc_fields_def append_less_append digits_less_iff digits_eq_iff
      iso_micro_less del: digits.simps)

lemma isoformat_inject:
  assumes "utc_valid t" "utc_valid u"
  shows "isoformat t = isoformat u \<longleftrightarrow> utc_fields t = utc_fields u"
  using isoformat_less [OF assms] isoformat_less [OF assms(2,1)] by (metis less_irrefl linorder_neqE)

text \<open>
  C33. The texts that the store compares in SQL are ordered exactly as the moments they stand for, also
  when one text has a fraction of a second and the other has none, and equal texts are equal moments.
\<close>

theorem timestamp_text_order:
  assumes "utc_valid t" "utc_valid u"
  shows "(isoformat t < isoformat u \<longleftrightarrow> utc_fields t < utc_fields u)
    \<and> (isoformat t = isoformat u \<longleftrightarrow> utc_fields t = utc_fields u)"
  using isoformat_less [OF assms] isoformat_inject [OF assms] by blast

theorem timestamp_text_order_witness:
  "isoformat \<lparr>year = 2026, month = 2, day = 3, hour = 4, minute = 5, second = 6, micro = 0\<rparr>
   < isoformat \<lparr>year = 2026, month = 2, day = 3, hour = 4, minute = 5, second = 6, micro = 500000\<rparr>"
proof -
  let ?t = "\<lparr>year = 2026, month = 2, day = 3, hour = 4, minute = 5, second = 6, micro = 0\<rparr>"
  let ?u = "\<lparr>year = 2026, month = 2, day = 3, hour = 4, minute = 5, second = 6, micro = 500000\<rparr>"
  have "utc_valid ?t" "utc_valid ?u" by (simp_all add: utc_valid_def)
  from timestamp_text_order [OF this] show ?thesis by (simp add: utc_fields_def)
qed

section \<open>Reading a time stamp back\<close>

lemma digits_value_snoc: "digits_value (cs @ [c]) = digits_value cs * 10 + (of_char c - 48)"
  by (simp add: digits_value_def)

lemma digits_snoc: "digits (Suc w) n = digits w (n div 10) @ [char_of (48 + n mod 10)]"
proof (induction w arbitrary: n)
  case 0
  then show ?case by simp
next
  case (Suc w)
  have "n div 10 ^ Suc w mod 10 = n div 10 div 10 ^ w mod 10" by (simp add: div_mult2_eq)
  then show ?case using Suc by (simp add: div_mult2_eq)
qed

lemma digits_value_digits: "n < 10 ^ w \<Longrightarrow> digits_value (digits w n) = n"
proof (induction w arbitrary: n)
  case 0
  then show ?case by (simp add: digits_value_def)
next
  case (Suc w)
  then have "n div 10 < 10 ^ w" by (simp add: less_mult_imp_div_less mult.commute)
  then have "digits_value (digits (Suc w) n) = n div 10 * 10 + (of_char (char_of (48 + n mod 10)) - 48)"
    by (simp only: digits_snoc digits_value_snoc Suc.IH)
  then show ?case by (simp add: of_char_digit)
qed

lemma take_drop_appends:
  "length xs = n \<Longrightarrow> take n (xs @ ys) = xs"
  "length xs = n \<Longrightarrow> drop (n + k) (xs @ ys) = drop k ys"
  by simp_all

lemma parse_isoformat: "utc_valid t \<Longrightarrow> parse_iso (isoformat t) = t"
  using utc_field_bounds [of t]
  by (cases t) (simp add: parse_iso_def isoformat_def digits_value_digits iso_micro_def iso_offset_def
      del: digits.simps)

text \<open>
  C34. Round trip: the store reads back exactly the moment it wrote, whether or not the text carries a
  fraction of a second.
\<close>

theorem timestamp_roundtrip: "utc_valid t \<Longrightarrow> parse_iso (isoformat t) = t"
  by (rule parse_isoformat)

theorem timestamp_roundtrip_witness:
  "parse_iso (isoformat \<lparr>year = 2026, month = 2, day = 28, hour = 23, minute = 59, second = 7, micro = 1200\<rparr>)
   = \<lparr>year = 2026, month = 2, day = 28, hour = 23, minute = 59, second = 7, micro = 1200\<rparr>"
  by (rule timestamp_roundtrip) (simp add: utc_valid_def)

end
