(* ===== verification/Identity.thy ===== *)
theory Identity
  imports Prelude
begin

text \<open>
  The identity contracts of \<^verbatim>\<open>contracts/identity.py\<close>: UUID version 7 values, entity keys,
  portable relative paths, identities. A UUID is its 128-bit integer (\<^verbatim>\<open>UUID.int\<close>); the canonical
  text of a UUID is in bijection with it and is not modelled. A \<^typ>\<open>string\<close> is a list of code
  points below 256. A validator returns the value or the message of the \<^verbatim>\<open>ValueError\<close> it raises.
\<close>

section \<open>UUID version 7\<close>

type_synonym uuid = "128 word"

definition uuid_is_rfc4122 :: "uuid \<Rightarrow> bool" where
  "uuid_is_rfc4122 u \<longleftrightarrow> bit u 63 \<and> \<not> bit u 62"

text \<open>\<^verbatim>\<open>UUID.version\<close> is \<^verbatim>\<open>None\<close> outside the RFC 4122 variant.\<close>

definition uuid_version :: "uuid \<Rightarrow> nat option" where
  "uuid_version u = (if uuid_is_rfc4122 u then Some (unat (take_bit 4 (drop_bit 76 u))) else None)"

definition validate_uuidv7 :: "uuid \<Rightarrow> string + uuid" where
  "validate_uuidv7 u =
     bindE (guardE (uuid_version u = Some 7 \<and> uuid_is_rfc4122 u)
       ''entity ID must be an RFC 9562 UUIDv7'') (\<lambda>_. Inr u)"

definition build_uuidv7 :: "int \<Rightarrow> int \<Rightarrow> int \<Rightarrow> string + uuid" where
  "build_uuidv7 timestamp_ms random_a random_b =
     bindE (guardE (0 \<le> timestamp_ms \<and> timestamp_ms < 2 ^ 48) ''UUIDv7 timestamp must fit in 48 bits'') (\<lambda>_.
     bindE (guardE (0 \<le> random_a \<and> random_a < 2 ^ 12) ''UUIDv7 rand_a must fit in 12 bits'') (\<lambda>_.
     bindE (guardE (0 \<le> random_b \<and> random_b < 2 ^ 62) ''UUIDv7 rand_b must fit in 62 bits'') (\<lambda>_.
       Inr (push_bit 80 (word_of_int timestamp_ms) OR push_bit 76 7 OR push_bit 64 (word_of_int random_a)
              OR push_bit 62 2 OR word_of_int random_b))))"

text \<open>The kinds of \<^verbatim>\<open>EntityKind\<close>; an unknown label is refused before the clock is read.\<close>

datatype entity_kind = Task_Kind | Agent_Condition_Kind | Experiment_Kind | Run_Kind | Plan_Kind
  | Trial_Kind | Work_Item_Kind | Attempt_Kind | Lease_Kind | Backend_Submission_Kind
  | Artifact_Kind | World_Kind | World_Profile_Kind | Lifecycle_Kind | Variant_Kind | Study_Kind
  | Receipt_Kind | Catalogue_Release_Kind

definition entity_kind_of_label :: "string \<Rightarrow> entity_kind option" where
  "entity_kind_of_label = map_of
     [(''task'', Task_Kind), (''agent_condition'', Agent_Condition_Kind),
      (''experiment'', Experiment_Kind), (''run'', Run_Kind), (''plan'', Plan_Kind),
      (''trial'', Trial_Kind), (''work_item'', Work_Item_Kind), (''attempt'', Attempt_Kind),
      (''lease'', Lease_Kind), (''backend_submission'', Backend_Submission_Kind),
      (''artifact'', Artifact_Kind), (''world'', World_Kind),
      (''world_profile'', World_Profile_Kind), (''lifecycle'', Lifecycle_Kind),
      (''variant'', Variant_Kind), (''study'', Study_Kind), (''receipt'', Receipt_Kind),
      (''catalogue_release'', Catalogue_Release_Kind)]"

text \<open>
  \<^verbatim>\<open>new_entity_id\<close> reads the clock (nanoseconds) and two random fields; they are arguments.
\<close>

definition new_entity_id :: "string \<Rightarrow> int \<Rightarrow> int \<Rightarrow> int \<Rightarrow> string + uuid" where
  "new_entity_id kind time_ns random_a random_b =
     (case entity_kind_of_label kind of
        None \<Rightarrow> Inl ''unsupported entity kind''
      | Some _ \<Rightarrow> build_uuidv7 (time_ns div 1000000) random_a random_b)"

definition uuidv7_ok :: "uuid \<Rightarrow> bool" where
  "uuidv7_ok u \<longleftrightarrow> isOK (validate_uuidv7 u)"

lemma validate_uuidv7_cases:
  "validate_uuidv7 u = (if uuidv7_ok u then Inr u else Inl ''entity ID must be an RFC 9562 UUIDv7'')"
  by (cases "validate_uuidv7 u") (auto simp: uuidv7_ok_def validate_uuidv7_def err_iffs)

lemma build_uuidv7_Inr:
  assumes "build_uuidv7 t a b = Inr u"
  shows "0 \<le> t" "t < 2 ^ 48" "0 \<le> a" "a < 2 ^ 12" "0 \<le> b" "b < 2 ^ 62"
    "u = push_bit 80 (word_of_int t) OR push_bit 76 7 OR push_bit 64 (word_of_int a)
           OR push_bit 62 2 OR word_of_int b"
  using assms by (auto simp: build_uuidv7_def err_iffs)

lemma int_bit_out_of_range: "0 \<le> (x::int) \<Longrightarrow> x < 2 ^ n \<Longrightarrow> n \<le> k \<Longrightarrow> \<not> bit x k"
proof -
  assume x: "0 \<le> x" "x < 2 ^ n" "n \<le> k"
  then have "x = take_bit n x" by (simp add: take_bit_int_eq_self)
  with x(3) show ?thesis by (metis bit_take_bit_iff leD)
qed

lemma bit_seven: "bit (7::uuid) k \<longleftrightarrow> k < 3"
proof -
  have "(7::uuid) = mask 3" by (simp add: mask_eq_exp_minus_1)
  then have "bit (7::uuid) k \<longleftrightarrow> bit (mask 3 :: uuid) k" by (rule arg_cong)
  also have "\<dots> \<longleftrightarrow> k < 3" by (auto simp: bit_mask_iff)
  finally show ?thesis .
qed

lemma bit_two: "bit (2::uuid) k \<longleftrightarrow> k = 1"
proof -
  have "(2::uuid) = push_bit 1 1" by simp
  then have "bit (2::uuid) k \<longleftrightarrow> bit (push_bit 1 1 :: uuid) k" by (rule arg_cong)
  also have "\<dots> \<longleftrightarrow> k = 1" by (subst bit_push_bit_iff) (auto simp: bit_1_iff)
  finally show ?thesis .
qed

lemma bit_build_uuidv7:
  assumes "build_uuidv7 t a b = Inr u" and "k < 128"
  shows "bit u k \<longleftrightarrow>
    (if 80 \<le> k then bit t (k - 80) else if 76 \<le> k then k < 79 else if 64 \<le> k then bit a (k - 64)
     else if 62 \<le> k then k = 63 else bit b k)"
proof -
  note r = build_uuidv7_Inr [OF assms(1)]
  have out: "48 \<le> k \<Longrightarrow> \<not> bit t k" "12 \<le> k \<Longrightarrow> \<not> bit a k" "62 \<le> k \<Longrightarrow> \<not> bit b k" for k
    using r int_bit_out_of_range by blast+
  have "bit u k \<longleftrightarrow> (80 \<le> k \<and> bit t (k - 80)) \<or> (76 \<le> k \<and> k < 79) \<or> (64 \<le> k \<and> bit a (k - 64))
      \<or> k = 63 \<or> bit b k"
    unfolding r(7) bit_or_iff bit_push_bit_iff bit_seven bit_two
    using assms(2) by (auto simp: bit_word_of_int_iff)
  then show ?thesis using out [of k] out(2) [of "k - 64"] by auto
qed

lemma build_uuidv7_rfc4122:
  assumes "build_uuidv7 t a b = Inr u"
  shows "uuid_is_rfc4122 u"
  by (simp add: uuid_is_rfc4122_def bit_build_uuidv7 [OF assms])

lemma build_uuidv7_fields:
  assumes "build_uuidv7 t a b = Inr u"
  shows "drop_bit 80 u = word_of_int t"
    and "take_bit 4 (drop_bit 76 u) = 7"
    and "take_bit 12 (drop_bit 64 u) = word_of_int a"
    and "take_bit 62 u = word_of_int b"
proof -
  note r = build_uuidv7_Inr [OF assms(1)] and bits = bit_build_uuidv7 [OF assms]
  have out: "48 \<le> k \<Longrightarrow> \<not> bit t k" "12 \<le> k \<Longrightarrow> \<not> bit a k" "62 \<le> k \<Longrightarrow> \<not> bit b k" for k
    using r int_bit_out_of_range by blast+
  note bit_rules = bit_take_bit_iff bit_drop_bit_eq bit_word_of_int_iff
  show "drop_bit 80 u = word_of_int t"
  proof (rule bit_word_eqI)
    fix n :: nat
    show "bit (drop_bit 80 u) n = bit (word_of_int t :: uuid) n" if "n < LENGTH(128)"
      using bits [of "80 + n"] out(1) [of n] that
      by (cases "80 + n < 128") (auto simp: bit_rules dest: bit_imp_le_length)
  qed
  show "take_bit 4 (drop_bit 76 u) = 7"
  proof (rule bit_word_eqI)
    fix n :: nat
    show "bit (take_bit 4 (drop_bit 76 u)) n = bit (7 :: uuid) n" if "n < LENGTH(128)"
      using bits [of "76 + n"] bit_seven [of n] that by (cases "n < 4") (auto simp: bit_rules)
  qed
  show "take_bit 12 (drop_bit 64 u) = word_of_int a"
  proof (rule bit_word_eqI)
    fix n :: nat
    show "bit (take_bit 12 (drop_bit 64 u)) n = bit (word_of_int a :: uuid) n" if "n < LENGTH(128)"
      using bits [of "64 + n"] out(2) [of n] that by (cases "n < 12") (auto simp: bit_rules)
  qed
  show "take_bit 62 u = word_of_int b"
  proof (rule bit_word_eqI)
    fix n :: nat
    show "bit (take_bit 62 u) n = bit (word_of_int b :: uuid) n" if "n < LENGTH(128)"
      using bits [of n] out(3) [of n] that by (cases "n < 62") (auto simp: bit_rules)
  qed
qed

lemma build_uuidv7_uuidv7_ok: "build_uuidv7 t a b = Inr u \<Longrightarrow> uuidv7_ok u"
  by (simp add: uuidv7_ok_def validate_uuidv7_def uuid_version_def build_uuidv7_rfc4122
      build_uuidv7_fields(2))

lemma uint_word_of_int_bounded: "0 \<le> t \<Longrightarrow> t < 2 ^ 48 \<Longrightarrow> uint (word_of_int t :: uuid) = t"
  by (simp add: uint_word_of_int)

text \<open>
  C31. Every identity the factory builds is a valid version 7 UUID, and its three fields are the
  timestamp and the two random values it was built from, so no bit of one field leaks into another.
\<close>

theorem build_uuidv7_roundtrip:
  assumes "build_uuidv7 timestamp_ms random_a random_b = Inr u"
  shows "validate_uuidv7 u = Inr u \<and> drop_bit 80 u = word_of_int timestamp_ms
    \<and> take_bit 12 (drop_bit 64 u) = word_of_int random_a \<and> take_bit 62 u = word_of_int random_b"
  using build_uuidv7_fields [OF assms] build_uuidv7_uuidv7_ok [OF assms]
  by (simp add: validate_uuidv7_cases)

lemma build_uuidv7_demo: "\<exists>u. build_uuidv7 1700000000000 5 9 = Inr u"
  by (simp add: build_uuidv7_def)

theorem build_uuidv7_roundtrip_witness:
  "\<exists>u. build_uuidv7 1700000000000 5 9 = Inr u \<and> validate_uuidv7 u = Inr u \<and> drop_bit 80 u = 1700000000000"
proof -
  obtain u where u: "build_uuidv7 1700000000000 5 9 = Inr u" using build_uuidv7_demo by blast
  from build_uuidv7_roundtrip [OF u] u show ?thesis by simp
qed

lemma build_uuidv7_time_order:
  assumes "build_uuidv7 t a b = Inr u" "build_uuidv7 t' a' b' = Inr u'" "t < t'"
  shows "u < u'"
proof -
  note r = build_uuidv7_Inr [OF assms(1)] and r' = build_uuidv7_Inr [OF assms(2)]
  have "uint (drop_bit 80 u) = t" "uint (drop_bit 80 u') = t'"
    using build_uuidv7_fields(1) [OF assms(1)] build_uuidv7_fields(1) [OF assms(2)] r(1,2) r'(1,2)
    by (simp_all only: uint_word_of_int_bounded)
  then have "unat (drop_bit 80 u) = nat t" "unat (drop_bit 80 u') = nat t'"
    by (simp_all add: unat_eq_nat_uint)
  then have "drop_bit 80 (unat u) = nat t" "drop_bit 80 (unat u') = nat t'"
    by (simp_all only: unat_drop_bit_eq)
  then have "unat u div 2 ^ 80 = nat t" "unat u' div 2 ^ 80 = nat t'"
    by (simp_all only: drop_bit_eq_div)
  moreover have "nat t < nat t'" using assms(3) r(1) by simp
  ultimately have "unat u < unat u'"
    by (metis div_le_mono linorder_not_less)
  then show ?thesis by (simp add: word_less_nat_alt)
qed

section \<open>Entity keys\<close>

definition is_lower_alnum :: "char \<Rightarrow> bool" where
  "is_lower_alnum c \<longleftrightarrow> (CHR ''a'' \<le> c \<and> c \<le> CHR ''z'') \<or> (CHR ''0'' \<le> c \<and> c \<le> CHR ''9'')"

definition is_key_char :: "char \<Rightarrow> bool" where
  "is_key_char c \<longleftrightarrow> is_lower_alnum c \<or> c = CHR ''_'' \<or> c = CHR ''-''"

text \<open>
  \<^verbatim>\<open>[a-z0-9][a-z0-9_-]*(?:/[a-z0-9][a-z0-9_-]*)*\<close>, matched in full: the automaton of the
  pattern, whose flag says that a component must start here.
\<close>

fun key_pattern :: "bool \<Rightarrow> string \<Rightarrow> bool" where
  "key_pattern True [] = False"
| "key_pattern True (c # cs) = (is_lower_alnum c \<and> key_pattern False cs)"
| "key_pattern False [] = True"
| "key_pattern False (c # cs) =
     (if c = CHR ''/'' then key_pattern True cs else is_key_char c \<and> key_pattern False cs)"

definition validate_entity_key :: "string \<Rightarrow> string + string" where
  "validate_entity_key value =
     bindE (guardE (key_pattern True value) ''entity key must use lowercase ASCII letters, numbers,
hyphens, underscores, and non-empty slash-separated components'') (\<lambda>_. Inr value)"

text \<open>The language of the pattern, as its regular expression reads.\<close>

inductive key_component :: "string \<Rightarrow> bool" where
  component: "is_lower_alnum c \<Longrightarrow> \<forall>d\<in>set cs. is_key_char d \<Longrightarrow> key_component (c # cs)"

inductive key_language :: "string \<Rightarrow> bool" where
  one: "key_component w \<Longrightarrow> key_language w"
| more: "key_component w \<Longrightarrow> key_language v \<Longrightarrow> key_language (w @ CHR ''/'' # v)"

inductive_simps key_component_Cons: "key_component (c # cs)"
inductive_cases key_languageE: "key_language w"

lemma slash_not_key_char: "\<not> is_key_char CHR ''/''"
  by code_simp

lemma key_pattern_False_chars:
  "\<forall>d\<in>set cs. is_key_char d \<Longrightarrow> key_pattern False (cs @ v) = key_pattern False v"
  by (induction cs) (auto simp: slash_not_key_char)

lemma key_language_sound: "key_language w \<Longrightarrow> key_pattern True w"
  by (induction rule: key_language.induct)
    (auto elim!: key_component.cases simp: key_pattern_False_chars [where v = "[]", simplified]
      key_pattern_False_chars)

lemma key_pattern_False_split:
  assumes "key_pattern False w"
  shows "\<exists>cs v. w = cs @ v \<and> (\<forall>d\<in>set cs. is_key_char d)
    \<and> (v = [] \<or> (\<exists>u. v = CHR ''/'' # u \<and> key_pattern True u))"
  using assms
proof (induction w)
  case Nil
  then show ?case by auto
next
  case (Cons c w)
  show ?case
  proof (cases "c = CHR ''/''")
    case True
    with Cons.prems show ?thesis by (intro exI [of _ "[]"] exI [of _ "c # w"]) auto
  next
    case False
    with Cons obtain cs v where "w = cs @ v" "\<forall>d\<in>set cs. is_key_char d"
      "v = [] \<or> (\<exists>u. v = CHR ''/'' # u \<and> key_pattern True u)" by auto
    with False Cons.prems show ?thesis by (intro exI [of _ "c # cs"] exI [of _ v]) auto
  qed
qed

lemma key_language_complete: "key_pattern True w \<Longrightarrow> key_language w"
proof (induction w rule: length_induct)
  case (1 w)
  then obtain c w' where w: "w = c # w'" "is_lower_alnum c" "key_pattern False w'"
    by (cases w) auto
  obtain cs v where cs: "w' = cs @ v" "\<forall>d\<in>set cs. is_key_char d"
    "v = [] \<or> (\<exists>u. v = CHR ''/'' # u \<and> key_pattern True u)"
    using key_pattern_False_split [OF w(3)] by blast
  have comp: "key_component (c # cs)" using w(2) cs(2) by (rule key_component.intros)
  show ?case
  proof (cases "v = []")
    case True
    with comp w cs show ?thesis by (auto intro: key_language.one)
  next
    case False
    with cs obtain u where "v = CHR ''/'' # u" "key_pattern True u" by auto
    with 1 w cs comp show ?thesis using key_language.more [OF comp, of u] by auto
  qed
qed

text \<open>
  A key is accepted exactly when it is in the language of the documented pattern: components of
  lowercase letters, digits, hyphens and underscores that start with a letter or a digit, joined by
  single slashes.
\<close>

theorem validate_entity_key_language:
  "validate_entity_key value = Inr value \<longleftrightarrow> key_language value"
  using key_language_sound key_language_complete by (auto simp: validate_entity_key_def err_iffs)

lemma validate_entity_key_Inr: "validate_entity_key v = Inr w \<longleftrightarrow> w = v \<and> key_pattern True v"
  by (auto simp: validate_entity_key_def err_iffs)

section \<open>Portable relative paths\<close>

text \<open>Python's \<^verbatim>\<open>str.split(sep)\<close> for a one-character separator, and its inverse \<^verbatim>\<open>sep.join\<close>.\<close>

fun split_on :: "char \<Rightarrow> string \<Rightarrow> string list" where
  "split_on sep [] = [[]]"
| "split_on sep (c # cs) =
     (if c = sep then [] # split_on sep cs
      else (case split_on sep cs of [] \<Rightarrow> [[c]] | w # ws \<Rightarrow> (c # w) # ws))"

fun join_with :: "char \<Rightarrow> string list \<Rightarrow> string" where
  "join_with sep [] = []"
| "join_with sep [w] = w"
| "join_with sep (w # ws) = w @ sep # join_with sep ws"

lemma split_on_nonempty [simp]: "split_on sep cs \<noteq> []"
  by (induction cs) (auto split: list.splits)

lemma join_split [simp]: "join_with sep (split_on sep cs) = cs"
proof (induction cs)
  case Nil
  then show ?case by simp
next
  case (Cons c cs)
  obtain w ws where ws: "split_on sep cs = w # ws" by (cases "split_on sep cs") auto
  then show ?case using Cons by (cases ws) auto
qed

text \<open>UTF-8 length of a string of code points below 256.\<close>

definition utf8_length :: "string \<Rightarrow> nat" where
  "utf8_length cs = sum_list (map (\<lambda>c. if of_char c < (128::nat) then 1 else 2) cs)"

definition ascii_upper :: "string \<Rightarrow> string" where
  "ascii_upper = map (\<lambda>c. if CHR ''a'' \<le> c \<and> c \<le> CHR ''z'' then char_of (of_char c - (32::nat)) else c)"

definition windows_reserved_names :: "string list" where
  "windows_reserved_names =
     [''CON'', ''PRN'', ''AUX'', ''NUL'']
     @ map (\<lambda>d. ''COM'' @ [d]) ''123456789'' @ map (\<lambda>d. ''LPT'' @ [d]) ''123456789''"

definition windows_forbidden_chars :: "char list" where
  "windows_forbidden_chars = [CHR ''<'', CHR ''>'', CHR '':'', CHR 0x22, CHR ''|'', CHR ''?'', CHR ''*'']"

definition max_component_bytes :: nat where
  "max_component_bytes = 255"

definition check_path_component :: "string \<Rightarrow> string + unit" where
  "check_path_component component =
     bindE (guardE (utf8_length component \<le> max_component_bytes)
       ''portable relative path component exceeds 255 UTF-8 bytes'') (\<lambda>_.
     bindE (guardE (\<not> (last component \<in> {CHR ''.'', CHR '' ''}
         \<or> (\<exists>c\<in>set component. c \<in> set windows_forbidden_chars)))
       ''portable relative path contains a Windows-incompatible component'') (\<lambda>_.
     guardE (ascii_upper (takeWhile (\<lambda>c. c \<noteq> CHR ''.'') component) \<notin> set windows_reserved_names)
       ''portable relative path contains a Windows-reserved component''))"

text \<open>
  \<^verbatim>\<open>PureWindowsPath(value).drive\<close> of a path that does not start with a slash or a backslash: it is
  non-empty exactly when the second character is a colon.
\<close>

definition windows_drive :: "string \<Rightarrow> string" where
  "windows_drive value = (case value of c # d # _ \<Rightarrow> if d = CHR '':'' then [c, d] else [] | _ \<Rightarrow> [])"

definition drive_message :: string where
  "drive_message = ''portable relative path must not be drive-qualified''"

definition validate_portable_relative_path :: "string \<Rightarrow> string + string" where
  "validate_portable_relative_path value =
     bindE (guardE (value \<noteq> [] \<and> (\<forall>c\<in>set value. \<not> of_char c < (0x20::nat)) \<and> CHR 0x5C \<notin> set value)
       ''portable relative path must be non-empty and must not contain control characters or backslashes'') (\<lambda>_.
     bindE (guardE (take 1 value \<noteq> ''/'') ''portable relative path must not be absolute'') (\<lambda>_.
     let components = split_on CHR ''/'' value in
     bindE (guardE (\<not> (\<exists>c\<in>set components. c \<in> {'''', ''.'', ''..''}))
       ''portable relative path must contain only non-empty ordinary components'') (\<lambda>_.
     bindE (checkE_all check_path_component components) (\<lambda>_.
     bindE (guardE (windows_drive value = []) drive_message) (\<lambda>_.
       Inr value)))))"

definition path_parts :: "string \<Rightarrow> string list" where
  "path_parts value = split_on CHR ''/'' value"

text \<open>
  \<^verbatim>\<open>resolve_below\<close>: \<open>resolve\<close> is \<^verbatim>\<open>Path.resolve\<close> on absolute paths given as their component lists; it
  follows the symbolic links of the file system, so it is an argument.
\<close>

definition is_relative_to :: "string list \<Rightarrow> string list \<Rightarrow> bool" where
  "is_relative_to p trusted \<longleftrightarrow> take (length trusted) p = trusted"

definition resolve_below :: "(string list \<Rightarrow> string list) \<Rightarrow> string list \<Rightarrow> string \<Rightarrow> string + string list" where
  "resolve_below resolve trusted relative =
     bindE (validate_portable_relative_path relative) (\<lambda>validated.
     let resolved_root = resolve trusted;
         candidate = resolve (resolved_root @ path_parts validated)
     in bindE (guardE (is_relative_to candidate resolved_root) ''path escapes its trusted root'') (\<lambda>_.
          Inr candidate))"

text \<open>Lexical normalisation, which is what \<^verbatim>\<open>resolve\<close> does where no component is a symbolic link.\<close>

fun normalise_onto :: "string list \<Rightarrow> string list \<Rightarrow> string list" where
  "normalise_onto acc [] = rev acc"
| "normalise_onto acc (c # cs) =
     (if c = '''' \<or> c = ''.'' then normalise_onto acc cs
      else if c = ''..'' then normalise_onto (drop 1 acc) cs
      else normalise_onto (c # acc) cs)"

definition normalise :: "string list \<Rightarrow> string list" where
  "normalise = normalise_onto []"

definition ordinary :: "string list \<Rightarrow> bool" where
  "ordinary cs \<longleftrightarrow> (\<forall>c\<in>set cs. c \<notin> {'''', ''.'', ''..''})"

lemma normalise_onto_ordinary: "ordinary cs \<Longrightarrow> normalise_onto acc cs = rev acc @ cs"
  by (induction cs arbitrary: acc) (auto simp: ordinary_def)

lemma normalise_ordinary: "ordinary cs \<Longrightarrow> normalise cs = cs"
  by (simp add: normalise_def normalise_onto_ordinary)

lemma ordinary_simps [simp]:
  "ordinary []"
  "ordinary (c # cs) \<longleftrightarrow> c \<notin> {[], ''.'', ''..''} \<and> ordinary cs"
  "ordinary (cs @ ds) \<longleftrightarrow> ordinary cs \<and> ordinary ds"
  "ordinary (rev cs) \<longleftrightarrow> ordinary cs"
  by (simp_all add: ordinary_def ball_Un)

lemma ordinary_drop: "ordinary cs \<Longrightarrow> ordinary (drop n cs)"
  unfolding ordinary_def by (blast dest: in_set_dropD)

lemma ordinary_normalise_onto: "ordinary acc \<Longrightarrow> ordinary (normalise_onto acc cs)"
proof (induction cs arbitrary: acc)
  case Nil
  then show ?case by simp
next
  case (Cons c cs)
  from Cons.prems have "ordinary (drop 1 acc)" by (rule ordinary_drop)
  with Cons show ?case by simp
qed

lemma ordinary_normalise: "ordinary (normalise cs)"
  by (simp add: normalise_def ordinary_normalise_onto)

lemma checkE_all_Inr: "checkE_all f xs = Inr u \<longleftrightarrow> (\<forall>x\<in>set xs. isOK (f x))"
  by (subst isOK_checkE_all [symmetric]) (simp add: isOK_iff)

lemma validate_path_Inr:
  assumes "validate_portable_relative_path v = Inr w"
  shows "w = v" "v \<noteq> []" "take 1 v \<noteq> ''/''" "ordinary (path_parts v)"
    "\<forall>c\<in>set (path_parts v). isOK (check_path_component c)"
  using assms
  by (auto simp: validate_portable_relative_path_def Let_def err_iffs path_parts_def ordinary_def
      checkE_all_Inr)

lemma check_path_component_OK:
  "isOK (check_path_component c) \<Longrightarrow> CHR '':'' \<notin> set c \<and> utf8_length c \<le> 255"
  by (auto simp: check_path_component_def isOK_bindE guardE_eq_Inr_iff
      windows_forbidden_chars_def max_component_bytes_def)

lemma set_join_with: "d \<in> set (join_with sep ws) \<Longrightarrow> d = sep \<or> (\<exists>w\<in>set ws. d \<in> set w)"
  by (induction sep ws rule: join_with.induct) auto

lemma components_no_colon:
  assumes "\<forall>c\<in>set (split_on CHR ''/'' v). isOK (check_path_component c)"
  shows "CHR '':'' \<notin> set v"
proof
  assume "CHR '':'' \<in> set v"
  then have "CHR '':'' \<in> set (join_with CHR ''/'' (split_on CHR ''/'' v))" by simp
  then obtain w where "w \<in> set (split_on CHR ''/'' v)" "CHR '':'' \<in> set w"
    using set_join_with [of "CHR '':''" "CHR ''/''" "split_on CHR ''/'' v"] by auto
  with assms show False using check_path_component_OK by blast
qed

lemma windows_drive_no_colon: "CHR '':'' \<notin> set v \<Longrightarrow> windows_drive v = []"
  by (auto simp: windows_drive_def split: list.splits)

lemma component_check_message:
  "checkE_all check_path_component cs = Inl e \<Longrightarrow> e \<noteq> drive_message"
  by (induction cs) (auto simp: check_path_component_def err_iffs drive_message_def)

text \<open>
  The drive check of the path validator can never fire: a drive needs a colon, and every component
  with a colon has been refused before.
\<close>

theorem drive_check_unreachable: "validate_portable_relative_path value \<noteq> Inl drive_message"
proof
  assume a: "validate_portable_relative_path value = Inl drive_message"
  then have "\<exists>u. checkE_all check_path_component (split_on CHR ''/'' value) = Inr u"
    and "windows_drive value \<noteq> []"
    by (auto simp: validate_portable_relative_path_def Let_def err_iffs drive_message_def
        dest: component_check_message)
  then show False using components_no_colon windows_drive_no_colon by (auto simp: checkE_all_Inr)
qed

text \<open>
  C32. Containment: a path that \<^verbatim>\<open>resolve_below\<close> returns lies below the resolved root whatever the
  file system does, and where no symbolic link is involved every accepted relative path resolves:
  the result is the root followed by the components of the path.
\<close>

theorem resolve_below_contained:
  "(\<forall>p. resolve_below resolve trusted relative = Inr p \<longrightarrow> is_relative_to p (resolve trusted))
   \<and> (isOK (validate_portable_relative_path relative) \<longrightarrow>
        resolve_below normalise trusted relative = Inr (normalise trusted @ path_parts relative))"
proof (intro conjI allI impI)
  fix p assume "resolve_below resolve trusted relative = Inr p"
  then show "is_relative_to p (resolve trusted)" by (auto simp: resolve_below_def Let_def err_iffs)
next
  assume "isOK (validate_portable_relative_path relative)"
  then have v: "validate_portable_relative_path relative = Inr relative"
    using validate_path_Inr(1) by (auto simp: isOK_iff)
  have "ordinary (normalise trusted @ path_parts relative)"
    using validate_path_Inr(4) [OF v] ordinary_normalise by simp
  then show "resolve_below normalise trusted relative = Inr (normalise trusted @ path_parts relative)"
    by (simp add: resolve_below_def v Let_def normalise_ordinary ordinary_normalise is_relative_to_def)
qed

lemma demo_relative_path: "validate_portable_relative_path ''runs/a.json'' = Inr ''runs/a.json''"
  by code_simp

theorem resolve_below_contained_witness:
  "\<exists>p. resolve_below normalise [''srv'', ''data''] ''runs/a.json'' = Inr p
    \<and> is_relative_to p (normalise [''srv'', ''data''])"
proof -
  have ok: "isOK (validate_portable_relative_path ''runs/a.json'')" by (simp add: demo_relative_path isOK_iff)
  note facts = resolve_below_contained [where resolve = normalise and trusted = "[''srv'', ''data'']"
      and relative = "''runs/a.json''"]
  show ?thesis using facts [THEN conjunct2, rule_format, OF ok] facts [THEN conjunct1] by blast
qed

section \<open>Identities\<close>

text \<open>\<^verbatim>\<open>not value.strip()\<close>: every code point is white space (below 256).\<close>

definition is_py_space :: "char \<Rightarrow> bool" where
  "is_py_space c \<longleftrightarrow>
     (let n = of_char c :: nat in (9 \<le> n \<and> n \<le> 13) \<or> (28 \<le> n \<and> n \<le> 32) \<or> n = 0x85 \<or> n = 0xA0)"

definition py_blank :: "string \<Rightarrow> bool" where
  "py_blank value \<longleftrightarrow> list_all is_py_space value"

record entity_identity =
  ei_id :: uuid
  ei_key :: string
  ei_version :: int
  ei_aliases :: "string list"

record member_identity = entity_identity +
  mi_parent_id :: uuid
  mi_registration_id :: string

definition validate_identity_fields :: "'a entity_identity_scheme \<Rightarrow> string + unit" where
  "validate_identity_fields e =
     bindE (validate_uuidv7 (ei_id e)) (\<lambda>_.
     bindE (validate_entity_key (ei_key e)) (\<lambda>_.
     bindE (guardE (0 < ei_version e) ''greater than 0'') (\<lambda>_.
     bindE (checkE_all (\<lambda>a. bindE (validate_entity_key a) (\<lambda>_. Inr ())) (ei_aliases e)) (\<lambda>_.
     bindE (guardE (ei_key e \<notin> set (ei_aliases e))
       ''entity aliases must not include the canonical key'') (\<lambda>_.
     guardE (distinct (ei_aliases e)) ''entity aliases must be unique'')))))"

definition validate_entity_identity :: "entity_identity \<Rightarrow> string + entity_identity" where
  "validate_entity_identity e = bindE (validate_identity_fields e) (\<lambda>_. Inr e)"

definition validate_member_identity :: "member_identity \<Rightarrow> string + member_identity" where
  "validate_member_identity m =
     bindE (validate_identity_fields m) (\<lambda>_.
     bindE (validate_uuidv7 (mi_parent_id m)) (\<lambda>_.
     bindE (guardE (\<not> py_blank (mi_registration_id m)) ''member registration ID must be non-empty'') (\<lambda>_.
     bindE (guardE (mi_parent_id m \<noteq> ei_id m) ''member identity must differ from its parent identity'') (\<lambda>_.
       Inr m))))"

end
