(* ===== verification/Execution_Policy.thy ===== *)
theory Execution_Policy
  imports Identity
begin

text \<open>
  The execution policy of one run, \<^verbatim>\<open>contracts/execution_policy.py\<close>: the failure vocabulary, the
  retry policy and the concurrency limits, with the validators of the models. The \<^verbatim>\<open>float\<close> seconds of
  the source are rationals here; a mapping from keys to limits is an association list.
\<close>

section \<open>Failures\<close>

datatype failure_class = Infrastructure | Benchmark | Invalidating | Unknown_Class

datatype failure_kind = Provider_Unavailable | Transport_Unavailable | Submission_Rejected
  | Worker_Lost_Before_Submission | Result_Import_Failed | Storage_Busy | Invalid_Output
  | Verifier_Failure | Task_Failure | Budget_Exhausted | Identity_Mismatch | Hidden_Data_Exposure
  | Limit_Not_Enforced | Authority_Evidence_Missing | Conflicting_Final_Record
  | Unknown_External_State

fun failure_class_for_kind :: "failure_kind \<Rightarrow> failure_class" where
  "failure_class_for_kind Provider_Unavailable = Infrastructure"
| "failure_class_for_kind Transport_Unavailable = Infrastructure"
| "failure_class_for_kind Submission_Rejected = Infrastructure"
| "failure_class_for_kind Worker_Lost_Before_Submission = Infrastructure"
| "failure_class_for_kind Result_Import_Failed = Infrastructure"
| "failure_class_for_kind Storage_Busy = Infrastructure"
| "failure_class_for_kind Invalid_Output = Benchmark"
| "failure_class_for_kind Verifier_Failure = Benchmark"
| "failure_class_for_kind Task_Failure = Benchmark"
| "failure_class_for_kind Budget_Exhausted = Benchmark"
| "failure_class_for_kind Identity_Mismatch = Invalidating"
| "failure_class_for_kind Hidden_Data_Exposure = Invalidating"
| "failure_class_for_kind Limit_Not_Enforced = Invalidating"
| "failure_class_for_kind Authority_Evidence_Missing = Invalidating"
| "failure_class_for_kind Conflicting_Final_Record = Invalidating"
| "failure_class_for_kind Unknown_External_State = Unknown_Class"

section \<open>Retry policy\<close>

datatype unknown_state_policy = Reconcile_Before_Retry | Never_Retry

record retry_policy =
  rp_maximum_attempts :: int
  rp_retryable_failure_kinds :: "failure_kind list"
  rp_backoff_seconds :: rat
  rp_maximum_elapsed_seconds :: "rat option"
  rp_unknown_state_policy :: unknown_state_policy

definition default_retry_policy :: retry_policy where
  "default_retry_policy =
     \<lparr>rp_maximum_attempts = 1, rp_retryable_failure_kinds = [], rp_backoff_seconds = 0,
      rp_maximum_elapsed_seconds = None, rp_unknown_state_policy = Reconcile_Before_Retry\<rparr>"

definition validate_unique_failure_kinds :: "failure_kind list \<Rightarrow> string + failure_kind list" where
  "validate_unique_failure_kinds kinds =
     bindE (guardE (distinct kinds) ''retryable failure kinds must be unique'') (\<lambda>_.
     bindE (guardE (\<not> (\<exists>k\<in>set kinds. failure_class_for_kind k \<noteq> Infrastructure))
       ''automatic retry kinds must be infrastructure failures'') (\<lambda>_.
       Inr kinds))"

definition validate_retry_policy :: "retry_policy \<Rightarrow> string + retry_policy" where
  "validate_retry_policy p =
     bindE (guardE (0 < rp_maximum_attempts p) ''maximum_attempts: greater than 0'') (\<lambda>_.
     bindE (validate_unique_failure_kinds (rp_retryable_failure_kinds p)) (\<lambda>_.
     bindE (guardE (0 \<le> rp_backoff_seconds p) ''backoff_seconds: greater than or equal to 0'') (\<lambda>_.
     bindE (guardE (case rp_maximum_elapsed_seconds p of None \<Rightarrow> True | Some m \<Rightarrow> 0 < m)
       ''maximum_elapsed_seconds: greater than 0'') (\<lambda>_.
     bindE (guardE (\<not> (rp_maximum_attempts p = 1 \<and> rp_retryable_failure_kinds p \<noteq> []))
       ''single-attempt policy must not declare retryable failure kinds'') (\<lambda>_.
     bindE (guardE (\<not> (1 < rp_maximum_attempts p \<and> rp_retryable_failure_kinds p = []))
       ''multi-attempt policy requires retryable failure kinds'') (\<lambda>_.
       Inr p))))))"

definition retry_policy_ok :: "retry_policy \<Rightarrow> bool" where
  "retry_policy_ok p \<longleftrightarrow> isOK (validate_retry_policy p)"

lemma validate_retry_policy_Inr: "validate_retry_policy p = Inr q \<Longrightarrow> q = p"
  by (auto simp: validate_retry_policy_def err_iffs)

lemma retry_policy_ok_iff:
  "retry_policy_ok p \<longleftrightarrow>
     0 < rp_maximum_attempts p \<and> distinct (rp_retryable_failure_kinds p)
     \<and> (\<forall>k\<in>set (rp_retryable_failure_kinds p). failure_class_for_kind k = Infrastructure)
     \<and> 0 \<le> rp_backoff_seconds p
     \<and> (case rp_maximum_elapsed_seconds p of None \<Rightarrow> True | Some m \<Rightarrow> 0 < m)
     \<and> (rp_maximum_attempts p = 1 \<longleftrightarrow> rp_retryable_failure_kinds p = [])"
proof -
  have "retry_policy_ok p \<longleftrightarrow>
     0 < rp_maximum_attempts p \<and> distinct (rp_retryable_failure_kinds p)
     \<and> (\<forall>k\<in>set (rp_retryable_failure_kinds p). failure_class_for_kind k = Infrastructure)
     \<and> 0 \<le> rp_backoff_seconds p
     \<and> (case rp_maximum_elapsed_seconds p of None \<Rightarrow> True | Some m \<Rightarrow> 0 < m)
     \<and> \<not> (rp_maximum_attempts p = 1 \<and> rp_retryable_failure_kinds p \<noteq> [])
     \<and> \<not> (1 < rp_maximum_attempts p \<and> rp_retryable_failure_kinds p = [])"
    by (auto simp: retry_policy_ok_def validate_retry_policy_def validate_unique_failure_kinds_def
        isOK_bindE_const)
  then show ?thesis by auto
qed

lemma default_retry_policy_ok: "retry_policy_ok default_retry_policy"
  by (simp add: retry_policy_ok_iff default_retry_policy_def)

section \<open>Execution policy\<close>

type_synonym limits = "(string \<times> int) list"
type_synonym run_limits = "(uuid \<times> int) list"

record execution_policy =
  ep_max_concurrency :: int
  ep_retry_policy :: retry_policy
  ep_lease_ttl_seconds :: int
  ep_lease_heartbeat_seconds :: int
  ep_priority_aging_seconds :: int
  ep_run_limits :: run_limits
  ep_backend_limits :: limits
  ep_provider_route_limits :: limits
  ep_model_route_limits :: limits
  ep_resource_class_limits :: limits
  ep_execution_family_limits :: limits

definition default_execution_policy :: "int \<Rightarrow> execution_policy" where
  "default_execution_policy max_concurrency =
     \<lparr>ep_max_concurrency = max_concurrency, ep_retry_policy = default_retry_policy,
      ep_lease_ttl_seconds = 300, ep_lease_heartbeat_seconds = 30, ep_priority_aging_seconds = 300,
      ep_run_limits = [], ep_backend_limits = [], ep_provider_route_limits = [],
      ep_model_route_limits = [], ep_resource_class_limits = [], ep_execution_family_limits = []\<rparr>"

definition limit_values :: "execution_policy \<Rightarrow> int list" where
  "limit_values p = map snd (ep_run_limits p) @ map snd (ep_backend_limits p)
     @ map snd (ep_provider_route_limits p) @ map snd (ep_model_route_limits p)
     @ map snd (ep_resource_class_limits p) @ map snd (ep_execution_family_limits p)"

definition named_limits :: "execution_policy \<Rightarrow> limits" where
  "named_limits p = ep_backend_limits p @ ep_provider_route_limits p @ ep_model_route_limits p
     @ ep_resource_class_limits p @ ep_execution_family_limits p"

definition validate_limit_keys :: "execution_policy \<Rightarrow> string + unit" where
  "validate_limit_keys p =
     bindE (guardE (\<forall>(k, v)\<in>set (named_limits p). \<not> py_blank k)
       ''concurrency limit keys must not be blank'') (\<lambda>_.
     checkE_all (\<lambda>(k, v). bindE (validate_uuidv7 k) (\<lambda>_. Inr ())) (ep_run_limits p))"

definition validate_execution_policy :: "execution_policy \<Rightarrow> string + execution_policy" where
  "validate_execution_policy p =
     bindE (guardE (0 < ep_max_concurrency p) ''max_concurrency: greater than 0'') (\<lambda>_.
     bindE (validate_retry_policy (ep_retry_policy p)) (\<lambda>_.
     bindE (guardE (0 < ep_lease_ttl_seconds p) ''lease_ttl_seconds: greater than 0'') (\<lambda>_.
     bindE (guardE (0 < ep_lease_heartbeat_seconds p) ''lease_heartbeat_seconds: greater than 0'') (\<lambda>_.
     bindE (guardE (0 < ep_priority_aging_seconds p) ''priority_aging_seconds: greater than 0'') (\<lambda>_.
     bindE (guardE (\<forall>v\<in>set (limit_values p). 0 < v) ''limit: greater than 0'') (\<lambda>_.
     bindE (validate_limit_keys p) (\<lambda>_.
     bindE (guardE (ep_lease_heartbeat_seconds p < ep_lease_ttl_seconds p)
       ''lease heartbeat interval must be shorter than lease ttl'') (\<lambda>_.
     bindE (guardE (\<not> (\<exists>v\<in>set (limit_values p). v > ep_max_concurrency p))
       ''a concurrency limit must not exceed max_concurrency'') (\<lambda>_.
       Inr p)))))))))"

definition execution_policy_ok :: "execution_policy \<Rightarrow> bool" where
  "execution_policy_ok p \<longleftrightarrow> isOK (validate_execution_policy p)"

lemma execution_policy_ok_iff:
  "execution_policy_ok p \<longleftrightarrow>
     0 < ep_max_concurrency p \<and> retry_policy_ok (ep_retry_policy p)
     \<and> 0 < ep_lease_heartbeat_seconds p \<and> ep_lease_heartbeat_seconds p < ep_lease_ttl_seconds p
     \<and> 0 < ep_priority_aging_seconds p
     \<and> (\<forall>v\<in>set (limit_values p). 0 < v \<and> v \<le> ep_max_concurrency p)
     \<and> (\<forall>(k, v)\<in>set (named_limits p). \<not> py_blank k) \<and> (\<forall>(k, v)\<in>set (ep_run_limits p). uuidv7_ok k)"
proof -
  have keys: "isOK (validate_limit_keys p) \<longleftrightarrow> (\<forall>(k, v)\<in>set (named_limits p). \<not> py_blank k)
      \<and> (\<forall>(k, v)\<in>set (ep_run_limits p). uuidv7_ok k)"
    unfolding validate_limit_keys_def isOK_bindE_const isOK_guardE isOK_checkE_all uuidv7_ok_def
    by (simp add: isOK_bindE_const split: prod.splits)
  show ?thesis
    unfolding execution_policy_ok_def validate_execution_policy_def isOK_bindE_const isOK_guardE keys
      isOK_simps retry_policy_ok_def [symmetric]
    by auto
qed

end
