(* ===== verification/Runtime_Observation.thy ===== *)
theory Runtime_Observation
  imports Execution_Policy
begin

text \<open>
  Runtime observations, \<^verbatim>\<open>contracts/runtime_observation.py\<close>: what a provider reported about the runtime
  that served a trial, the typed differences from what was requested, and the status that follows.
  A dictionary is the list of its entries, with distinct keys; two dictionaries are equal when they
  have the same entries. JSON values are their canonical text.
\<close>

section \<open>Time stamps with and without a zone\<close>

text \<open>A Python \<^verbatim>\<open>datetime\<close>: aware values are the moment in microseconds, naive ones have no zone.\<close>

datatype py_datetime = Naive int | Aware int

fun is_aware :: "py_datetime \<Rightarrow> bool" where
  "is_aware (Aware _) = True"
| "is_aware (Naive _) = False"

fun instant :: "py_datetime \<Rightarrow> int" where
  "instant (Aware t) = t"
| "instant (Naive t) = t"

definition aware_value :: "py_datetime \<Rightarrow> string \<Rightarrow> string + int" where
  "aware_value v message = bindE (guardE (is_aware v) message) (\<lambda>_. Inr (instant v))"

lemma aware_value_simps [simp, err_simps]:
  "aware_value (Aware t) m = Inr t"
  "aware_value (Naive t) m = Inl m"
  by (simp_all add: aware_value_def)

definition optional_ok :: "('a \<Rightarrow> bool) \<Rightarrow> 'a option \<Rightarrow> bool" where
  "optional_ok p x = (case x of None \<Rightarrow> True | Some y \<Rightarrow> p y)"

lemma optional_ok_simps [simp]: "optional_ok p None" "optional_ok p (Some y) = p y"
  by (simp_all add: optional_ok_def)

section \<open>The contracts\<close>

type_synonym dict = "(string \<times> string) list"

definition dict_eq :: "dict \<Rightarrow> dict \<Rightarrow> bool" where
  "dict_eq a b \<longleftrightarrow> set a = set b"

record provider_route =
  pr_provider :: string
  pr_route :: string

datatype runtime_status = Complete | Incomplete | Invalid_Status

datatype resolution_kind = Identity_Resolution | Declared_Alias | Declared_Dated

datatype mismatch_kind = Provider_Route_Mismatch | Model_Family_Mismatch | Model_Identity_Mismatch
  | Tools_Mismatch | Limits_Mismatch | Resolved_Identity_Mismatch

record resolution_mapping =
  rm_mapping_id :: string
  rm_mapping_version :: int
  rm_requested_route :: provider_route
  rm_resolved_route :: provider_route
  rm_requested_model :: string
  rm_resolved_model :: string
  rm_requested_model_family :: string
  rm_resolved_model_family :: string
  rm_kind :: resolution_kind

definition validate_resolution_mapping :: "resolution_mapping \<Rightarrow> string + resolution_mapping" where
  "validate_resolution_mapping m =
     bindE (guardE (0 < rm_mapping_version m) ''mapping_version: greater than 0'') (\<lambda>_.
     if rm_kind m = Identity_Resolution then
       bindE (guardE (\<not> (rm_requested_route m \<noteq> rm_resolved_route m
           \<or> rm_requested_model m \<noteq> rm_resolved_model m
           \<or> rm_requested_model_family m \<noteq> rm_resolved_model_family m))
         ''identity provider resolution must preserve route, model, and model family'') (\<lambda>_. Inr m)
     else
       bindE (guardE (rm_requested_model_family m = rm_resolved_model_family m)
         ''declared provider resolution must preserve model family'') (\<lambda>_. Inr m))"

datatype json_value = Json_Text string | Json_Dict dict

record runtime_mismatch =
  mm_kind :: mismatch_kind
  mm_requested :: "json_value option"
  mm_observed :: "json_value option"
  mm_detail :: string

record runtime_observation =
  ro_observation_id :: uuid
  ro_trial_id :: uuid
  ro_attempt_id :: uuid
  ro_backend :: string
  ro_runtime_image :: string
  ro_runtime_version :: string
  ro_requested_route :: provider_route
  ro_resolved_route :: "provider_route option"
  ro_requested_model :: string
  ro_resolved_model :: "string option"
  ro_requested_model_family :: string
  ro_resolved_model_family :: "string option"
  ro_adapter_version :: string
  ro_requested_tool_versions :: dict
  ro_observed_tool_versions :: dict
  ro_requested_limits :: dict
  ro_observed_limits :: dict
  ro_resource_observations :: dict
  ro_resolution :: "resolution_mapping option"
  ro_status :: runtime_status
  ro_mismatches :: "runtime_mismatch list"
  ro_started_at :: py_datetime
  ro_finished_at :: "py_datetime option"

section \<open>The validator\<close>

text \<open>The differences that the recorded identities, tools and limits imply.\<close>

definition incomplete_identity :: "runtime_observation \<Rightarrow> bool" where
  "incomplete_identity ob \<longleftrightarrow>
     ro_resolved_route ob = None \<or> ro_resolved_model ob = None \<or> ro_resolved_model_family ob = None"

definition route_changed :: "runtime_observation \<Rightarrow> bool" where
  "route_changed ob \<longleftrightarrow> ro_resolved_route ob \<noteq> None
     \<and> ro_resolved_route ob \<noteq> Some (ro_requested_route ob) \<and> ro_resolution ob = None"

definition family_changed :: "runtime_observation \<Rightarrow> bool" where
  "family_changed ob \<longleftrightarrow> ro_resolved_model_family ob \<noteq> None
     \<and> ro_resolved_model_family ob \<noteq> Some (ro_requested_model_family ob)"

definition model_changed :: "runtime_observation \<Rightarrow> bool" where
  "model_changed ob \<longleftrightarrow> ro_resolved_model ob \<noteq> None
     \<and> ro_resolved_model ob \<noteq> Some (ro_requested_model ob) \<and> ro_resolution ob = None"

definition tools_changed :: "runtime_observation \<Rightarrow> bool" where
  "tools_changed ob \<longleftrightarrow> \<not> dict_eq (ro_requested_tool_versions ob) (ro_observed_tool_versions ob)"

definition limits_changed :: "runtime_observation \<Rightarrow> bool" where
  "limits_changed ob \<longleftrightarrow> \<not> dict_eq (ro_requested_limits ob) (ro_observed_limits ob)"

text \<open>\<^verbatim>\<open>if b: xs.append(x)\<close>.\<close>

definition only_if :: "bool \<Rightarrow> 'a \<Rightarrow> 'a list" where
  "only_if b x = (if b then [x] else [])"

definition expected_mismatches :: "runtime_observation \<Rightarrow> mismatch_kind set" where
  "expected_mismatches ob =
     set (only_if (incomplete_identity ob) Resolved_Identity_Mismatch
       @ only_if (route_changed ob) Provider_Route_Mismatch
       @ only_if (family_changed ob) Model_Family_Mismatch
       @ only_if (model_changed ob) Model_Identity_Mismatch
       @ only_if (tools_changed ob) Tools_Mismatch
       @ only_if (limits_changed ob) Limits_Mismatch)"

definition expected_status :: "mismatch_kind set \<Rightarrow> runtime_status" where
  "expected_status ms =
     (if ms = {} then Complete else if ms = {Resolved_Identity_Mismatch} then Incomplete
      else Invalid_Status)"

definition check_resolution :: "runtime_observation \<Rightarrow> string + unit" where
  "check_resolution ob =
     (case ro_resolution ob of
        None \<Rightarrow> Inr ()
      | Some m \<Rightarrow>
          bindE (guardE (\<not> incomplete_identity ob)
            ''provider resolution mapping requires a complete observed identity'') (\<lambda>_.
          bindE (guardE (rm_requested_route m = ro_requested_route ob)
            ''provider resolution mapping requested route does not match observation'') (\<lambda>_.
          bindE (guardE (rm_requested_model m = ro_requested_model ob)
            ''provider resolution mapping requested model does not match observation'') (\<lambda>_.
          bindE (guardE (rm_requested_model_family m = ro_requested_model_family ob)
            ''provider resolution mapping requested model family does not match observation'') (\<lambda>_.
          bindE (guardE (ro_resolved_route ob = None \<or> ro_resolved_route ob = Some (rm_resolved_route m))
            ''provider resolution mapping resolved route does not match observation'') (\<lambda>_.
          bindE (guardE (ro_resolved_model ob = None \<or> ro_resolved_model ob = Some (rm_resolved_model m))
            ''provider resolution mapping resolved model does not match observation'') (\<lambda>_.
          guardE (ro_resolved_model_family ob = None
              \<or> ro_resolved_model_family ob = Some (rm_resolved_model_family m))
            ''provider resolution mapping resolved model family does not match observation'')))))))"

definition check_tool_versions :: "dict \<Rightarrow> string + unit" where
  "check_tool_versions d =
     guardE (\<not> (\<exists>(name, version)\<in>set d. py_blank name \<or> py_blank version))
       ''runtime observation tool names and versions must not be blank''"

definition observation_texts :: "runtime_observation \<Rightarrow> string list" where
  "observation_texts ob =
     [ro_backend ob, ro_runtime_image ob, ro_runtime_version ob, ro_requested_model ob,
      ro_requested_model_family ob, ro_adapter_version ob]
     @ (case ro_resolved_model ob of None \<Rightarrow> [] | Some m \<Rightarrow> [m])
     @ (case ro_resolved_model_family ob of None \<Rightarrow> [] | Some f \<Rightarrow> [f])"

definition check_observation_fields :: "runtime_observation \<Rightarrow> string + unit" where
  "check_observation_fields ob =
     bindE (checkE_all (\<lambda>u. bindE (validate_uuidv7 u) (\<lambda>_. Inr ()))
       [ro_observation_id ob, ro_trial_id ob, ro_attempt_id ob]) (\<lambda>_.
     bindE (guardE (\<not> (\<exists>v\<in>set (observation_texts ob). py_blank v)) ''value must not be blank'') (\<lambda>_.
     bindE (guardE (is_aware (ro_started_at ob) \<and> optional_ok is_aware (ro_finished_at ob))
       ''runtime observation timestamps must include a timezone'') (\<lambda>_.
     bindE (check_tool_versions (ro_requested_tool_versions ob)) (\<lambda>_.
       check_tool_versions (ro_observed_tool_versions ob)))))"

definition validate_observation :: "runtime_observation \<Rightarrow> string + runtime_observation" where
  "validate_observation ob =
     bindE (check_observation_fields ob) (\<lambda>_.
     bindE (guardE (optional_ok (\<lambda>f. \<not> instant f < instant (ro_started_at ob)) (ro_finished_at ob))
       ''runtime observation cannot finish before it starts'') (\<lambda>_.
     bindE (guardE (distinct (map mm_kind (ro_mismatches ob)))
       ''runtime observation mismatch kinds must be unique'') (\<lambda>_.
     bindE (guardE (set (map mm_kind (ro_mismatches ob)) = expected_mismatches ob)
       ''runtime observation mismatches must exactly describe observed differences'') (\<lambda>_.
     bindE (guardE (ro_status ob = expected_status (expected_mismatches ob))
       ''runtime observation differences require status'') (\<lambda>_.
     bindE (check_resolution ob) (\<lambda>_.
       Inr ob))))))"

section \<open>Classifying an observed runtime\<close>

definition route_json :: "provider_route \<Rightarrow> json_value" where
  "route_json r = Json_Dict [(''provider'', pr_provider r), (''route'', pr_route r)]"

text \<open>
  \<^verbatim>\<open>observe_runtime\<close> gets the fields of the observation but its status and mismatches; the argument
  carries them, and its two remaining fields are overwritten.
\<close>

definition observed_mismatches :: "runtime_observation \<Rightarrow> runtime_mismatch list" where
  "observed_mismatches ob =
     only_if (incomplete_identity ob)
       \<lparr>mm_kind = Resolved_Identity_Mismatch, mm_requested = None, mm_observed = None,
        mm_detail = ''provider did not return a complete identity''\<rparr>
     @ only_if (route_changed ob)
       \<lparr>mm_kind = Provider_Route_Mismatch, mm_requested = Some (route_json (ro_requested_route ob)),
        mm_observed = map_option route_json (ro_resolved_route ob),
        mm_detail = ''provider route changed without a declared mapping''\<rparr>
     @ only_if (family_changed ob)
       \<lparr>mm_kind = Model_Family_Mismatch, mm_requested = Some (Json_Text (ro_requested_model_family ob)),
        mm_observed = map_option Json_Text (ro_resolved_model_family ob),
        mm_detail = ''resolved model family differs from the requested family''\<rparr>
     @ only_if (model_changed ob)
       \<lparr>mm_kind = Model_Identity_Mismatch, mm_requested = Some (Json_Text (ro_requested_model ob)),
        mm_observed = map_option Json_Text (ro_resolved_model ob),
        mm_detail = ''resolved model differs without a declared mapping''\<rparr>
     @ only_if (tools_changed ob)
       \<lparr>mm_kind = Tools_Mismatch, mm_requested = Some (Json_Dict (ro_requested_tool_versions ob)),
        mm_observed = Some (Json_Dict (ro_observed_tool_versions ob)),
        mm_detail = ''runtime tool versions differ from the requested tool set''\<rparr>
     @ only_if (limits_changed ob)
       \<lparr>mm_kind = Limits_Mismatch, mm_requested = Some (Json_Dict (ro_requested_limits ob)),
        mm_observed = Some (Json_Dict (ro_observed_limits ob)),
        mm_detail = ''runtime limits differ from the requested limits''\<rparr>"

definition observe_runtime :: "runtime_observation \<Rightarrow> string + runtime_observation" where
  "observe_runtime args =
     (let mismatches = observed_mismatches args;
          status = (if incomplete_identity args then Incomplete else Complete);
          status' = (if mismatches \<noteq> [] \<and> set (map mm_kind mismatches) \<noteq> {Resolved_Identity_Mismatch}
                     then Invalid_Status else status)
      in validate_observation (args\<lparr>ro_status := status', ro_mismatches := mismatches\<rparr>))"

lemma map_only_if [simp]: "map f (only_if b x) = only_if b (f x)"
  by (simp add: only_if_def)

lemma set_only_if [simp]: "set (only_if b x) = (if b then {x} else {})"
  by (cases b) (simp_all add: only_if_def)

lemma distinct_only_if [simp]: "distinct (only_if b x)"
  by (simp add: only_if_def)

lemma observed_mismatches_map:
  "map mm_kind (observed_mismatches ob) =
     only_if (incomplete_identity ob) Resolved_Identity_Mismatch
       @ only_if (route_changed ob) Provider_Route_Mismatch
       @ only_if (family_changed ob) Model_Family_Mismatch
       @ only_if (model_changed ob) Model_Identity_Mismatch
       @ only_if (tools_changed ob) Tools_Mismatch
       @ only_if (limits_changed ob) Limits_Mismatch"
  by (simp only: observed_mismatches_def map_append map_only_if runtime_mismatch.select_convs)

lemma observed_mismatches_kinds: "set (map mm_kind (observed_mismatches ob)) = expected_mismatches ob"
  by (simp only: observed_mismatches_map expected_mismatches_def)

lemma observed_mismatches_distinct: "distinct (map mm_kind (observed_mismatches ob))"
  unfolding observed_mismatches_map by (simp split: if_splits)

lemma observed_mismatches_Nil: "observed_mismatches ob = [] \<longleftrightarrow> expected_mismatches ob = {}"
  using observed_mismatches_kinds [of ob] by (metis list.map_disc_iff set_empty)

lemma expected_mismatches_incomplete:
  "Resolved_Identity_Mismatch \<in> expected_mismatches ob \<longleftrightarrow> incomplete_identity ob"
  by (simp add: expected_mismatches_def)

lemma observation_frame [simp]:
  "expected_mismatches (ob\<lparr>ro_status := st, ro_mismatches := ms\<rparr>) = expected_mismatches ob"
  "check_resolution (ob\<lparr>ro_status := st, ro_mismatches := ms\<rparr>) = check_resolution ob"
  "check_observation_fields (ob\<lparr>ro_status := st, ro_mismatches := ms\<rparr>) = check_observation_fields ob"
  by (simp_all add: expected_mismatches_def incomplete_identity_def route_changed_def
      family_changed_def model_changed_def tools_changed_def limits_changed_def check_resolution_def
      check_observation_fields_def observation_texts_def cong: option.case_cong)

text \<open>
  Classification is complete and never contradicts the validator: whenever the fields are well
  formed, the times are in order and a declared mapping describes the observation, the classifier
  returns an observation, its mismatch kinds are exactly the differences, and its status is complete
  without a difference, incomplete when only the identity is missing, and invalid otherwise.
\<close>

theorem observe_runtime_classifies:
  assumes "isOK (check_observation_fields ob)"
    and "optional_ok (\<lambda>f. \<not> instant f < instant (ro_started_at ob)) (ro_finished_at ob)"
    and "isOK (check_resolution ob)"
  shows "\<exists>r. observe_runtime ob = Inr r
    \<and> set (map mm_kind (ro_mismatches r)) = expected_mismatches ob
    \<and> ro_status r = expected_status (expected_mismatches ob)"
proof -
  let ?status = "if observed_mismatches ob \<noteq> []
      \<and> set (map mm_kind (observed_mismatches ob)) \<noteq> {Resolved_Identity_Mismatch}
    then Invalid_Status else if incomplete_identity ob then Incomplete else Complete"
  have st: "?status = expected_status (expected_mismatches ob)"
    using expected_mismatches_incomplete [of ob]
    by (auto simp: expected_status_def observed_mismatches_Nil observed_mismatches_kinds
        simp del: set_map)
  let ?r = "ob\<lparr>ro_status := ?status, ro_mismatches := observed_mismatches ob\<rparr>"
  have "validate_observation ?r = Inr ?r"
    using assms observed_mismatches_kinds [of ob] observed_mismatches_distinct [of ob] st
    by (auto simp: validate_observation_def isOK_iff)
  then have "observe_runtime ob = Inr ?r" by (simp only: observe_runtime_def Let_def)
  then show ?thesis using st observed_mismatches_kinds [of ob] by simp
qed

definition demo_observation :: runtime_observation where
  "demo_observation = \<lparr>ro_observation_id = 7 * 2 ^ 76 + 2 ^ 63 + 1, ro_trial_id = 7 * 2 ^ 76 + 2 ^ 63 + 2,
     ro_attempt_id = 7 * 2 ^ 76 + 2 ^ 63 + 3, ro_backend = ''modal'', ro_runtime_image = ''image'',
     ro_runtime_version = ''1'', ro_requested_route = \<lparr>pr_provider = ''openai'', pr_route = ''direct''\<rparr>,
     ro_resolved_route = Some \<lparr>pr_provider = ''openai'', pr_route = ''direct''\<rparr>,
     ro_requested_model = ''m'', ro_resolved_model = None, ro_requested_model_family = ''f'',
     ro_resolved_model_family = Some ''f'', ro_adapter_version = ''2'', ro_requested_tool_versions = [],
     ro_observed_tool_versions = [], ro_requested_limits = [(''turns'', ''5'')],
     ro_observed_limits = [(''turns'', ''5'')], ro_resource_observations = [], ro_resolution = None,
     ro_status = Complete, ro_mismatches = [], ro_started_at = Aware 10, ro_finished_at = Some (Aware 20)\<rparr>"

lemma demo_observation_ids:
  "uuidv7_ok (7 * 2 ^ 76 + 2 ^ 63 + 1)" "uuidv7_ok (7 * 2 ^ 76 + 2 ^ 63 + 2)" "uuidv7_ok (7 * 2 ^ 76 + 2 ^ 63 + 3)"
  by (simp_all add: uuidv7_ok_def validate_uuidv7_def uuid_is_rfc4122_def uuid_version_def isOK_bindE)

lemma demo_observation_fields: "isOK (check_observation_fields demo_observation)"
  using demo_observation_ids
  by (simp add: check_observation_fields_def demo_observation_def observation_texts_def validate_uuidv7_cases
      check_tool_versions_def py_blank_def is_py_space_def isOK_iff)

theorem observe_runtime_classifies_witness:
  "\<exists>r. observe_runtime demo_observation = Inr r \<and> set (map mm_kind (ro_mismatches r)) = {Resolved_Identity_Mismatch}
    \<and> ro_status r = Incomplete"
proof -
  have "expected_mismatches demo_observation = {Resolved_Identity_Mismatch}"
    by (simp add: expected_mismatches_def incomplete_identity_def route_changed_def family_changed_def
        model_changed_def tools_changed_def limits_changed_def dict_eq_def demo_observation_def)
  moreover have "optional_ok (\<lambda>f. \<not> instant f < instant (ro_started_at demo_observation)) (ro_finished_at demo_observation)"
    and "isOK (check_resolution demo_observation)"
    by (simp_all add: check_resolution_def demo_observation_def)
  ultimately show ?thesis using observe_runtime_classifies [OF demo_observation_fields]
    by (simp add: expected_status_def)
qed

end
