(* ===== verification/Execution_Models.thy ===== *)
theory Execution_Models
  imports Runtime_Observation
begin

text \<open>
  The provider-neutral contracts of \<^verbatim>\<open>execution/models.py\<close>: work items, attempts, leases, submissions,
  receipts, finalizations and worker outcomes, each with its states and its validators. Artifact and
  authority references come from \<^verbatim>\<open>contracts/artifacts.py\<close> and \<^verbatim>\<open>contracts/authority_evidence.py\<close>.
\<close>

section \<open>States\<close>

datatype work_state = W_Planned | W_Queued | W_Leased | W_Running | W_Cancel_Requested | W_Succeeded
  | W_Failed | W_Cancelled | W_Invalid | W_Unknown

datatype attempt_state = A_Created | A_Submitted | A_Running | A_Succeeded | A_Failed | A_Cancelled
  | A_Unknown

datatype lease_state = L_Active | L_Expired | L_Released

datatype submission_state = S_Submitted | S_Accepted | S_Running | S_Completed | S_Failed
  | S_Cancelled | S_Unknown

datatype reconciliation_state = R_Not_Required | R_Pending | R_Reconciled | R_Unknown

datatype finalization_state = F_Current | F_Superseded

datatype process_status = P_Succeeded | P_Failed | P_Cancelled | P_Unknown

datatype cancellation_status = C_Not_Requested | C_Requested | C_Confirmed | C_Rejected
  | C_Unsupported | C_Unknown

datatype task_kind = Artifact_Task | Lifecycle_Task | World_Task

section \<open>References\<close>

definition is_lower_hex :: "char \<Rightarrow> bool" where
  "is_lower_hex c \<longleftrightarrow> c \<in> set ''0123456789abcdef''"

definition is_sha256 :: "string \<Rightarrow> bool" where
  "is_sha256 value \<longleftrightarrow> length value = 64 \<and> list_all is_lower_hex value"

record artifact_ref =
  ar_artifact_id :: string
  ar_sha256 :: string
  ar_size_bytes :: int
  ar_media_type :: string

datatype authority_kind = Actor_Invocation | World_Authority | Lifecycle_Authority
  | Provider_Authority | Evaluation_Authority

record authority_evidence_ref =
  ae_authority_kind :: authority_kind
  ae_protocol :: string
  ae_artifact :: artifact_ref

definition actor_invocation_protocols :: "string list" where
  "actor_invocation_protocols =
     [''aec-bench/actor-invocation-evidence/1'', ''aec-bench/actor-invocation-manifest/1'']"

definition validate_artifact_ref :: "artifact_ref \<Rightarrow> string + artifact_ref" where
  "validate_artifact_ref a =
     bindE (guardE (\<not> py_blank (ar_artifact_id a) \<and> \<not> py_blank (ar_media_type a))
       ''value must not be blank'') (\<lambda>_.
     bindE (guardE (is_sha256 (ar_sha256 a)) ''sha256'') (\<lambda>_.
     bindE (guardE (0 < ar_size_bytes a) ''size_bytes: greater than 0'') (\<lambda>_.
       Inr a)))"

definition validate_authority_evidence :: "authority_evidence_ref \<Rightarrow> string + authority_evidence_ref" where
  "validate_authority_evidence r =
     bindE (guardE (\<not> py_blank (ae_protocol r)) ''value must not be blank'') (\<lambda>_.
     bindE (validate_artifact_ref (ae_artifact r)) (\<lambda>_.
     bindE (guardE (\<not> (ae_authority_kind r = Actor_Invocation
         \<and> ae_protocol r \<notin> set actor_invocation_protocols))
       ''actor invocation evidence protocol is not supported'') (\<lambda>_.
       Inr r)))"

section \<open>Failure classification and cancellation results\<close>

record failure_classification =
  fc_class :: failure_class
  fc_kind :: failure_kind
  fc_message :: string

definition validate_failure :: "failure_classification \<Rightarrow> string + failure_classification" where
  "validate_failure f =
     bindE (guardE (\<not> py_blank (fc_message f)) ''value must not be blank'') (\<lambda>_.
     bindE (guardE (fc_class f = failure_class_for_kind (fc_kind f)) ''failure kind requires class'') (\<lambda>_.
       Inr f))"

datatype backend_cancel_status = Cancel_Confirmed | Cancel_Rejected | Cancel_Unsupported | Cancel_Unknown

record backend_cancellation_result =
  bc_status :: backend_cancel_status
  bc_message :: string

section \<open>Work items\<close>

record trial_work_item =
  tw_work_id :: uuid
  tw_work_key :: string
  tw_run_id :: uuid
  tw_plan_id :: uuid
  tw_trial_id :: uuid
  tw_ordinal :: int
  tw_execution_family :: task_kind
  tw_backend :: string
  tw_provider_route :: string
  tw_model_route :: string
  tw_resource_class :: string
  tw_priority :: int
  tw_retry_policy :: retry_policy
  tw_state :: work_state
  tw_created_at :: py_datetime
  tw_available_at :: py_datetime
  tw_current_attempt_number :: int

definition check_ids :: "uuid list \<Rightarrow> string + unit" where
  "check_ids us = checkE_all (\<lambda>u. bindE (validate_uuidv7 u) (\<lambda>_. Inr ())) us"

definition check_texts :: "string list \<Rightarrow> string + unit" where
  "check_texts vs = checkE_all (\<lambda>v. guardE (\<not> py_blank v) ''value must not be blank'') vs"

definition check_aware :: "string \<Rightarrow> py_datetime list \<Rightarrow> string + unit" where
  "check_aware message ts = checkE_all (\<lambda>t. guardE (is_aware t) message) ts"

lemma isOK_check_ids [simp]: "isOK (check_ids us) \<longleftrightarrow> (\<forall>u\<in>set us. uuidv7_ok u)"
  by (simp add: check_ids_def isOK_bindE_const uuidv7_ok_def)

lemma isOK_check_texts [simp]: "isOK (check_texts vs) \<longleftrightarrow> (\<forall>v\<in>set vs. \<not> py_blank v)"
  by (simp add: check_texts_def)

lemma isOK_check_aware [simp]: "isOK (check_aware m ts) \<longleftrightarrow> (\<forall>t\<in>set ts. is_aware t)"
  by (simp add: check_aware_def)

definition validate_work_item :: "trial_work_item \<Rightarrow> string + trial_work_item" where
  "validate_work_item w =
     bindE (check_ids [tw_work_id w, tw_run_id w, tw_plan_id w, tw_trial_id w]) (\<lambda>_.
     bindE (validate_entity_key (tw_work_key w)) (\<lambda>_.
     bindE (guardE (0 < tw_ordinal w \<and> 0 \<le> tw_current_attempt_number w) ''greater than 0'') (\<lambda>_.
     bindE (check_texts [tw_backend w, tw_provider_route w, tw_model_route w, tw_resource_class w]) (\<lambda>_.
     bindE (validate_retry_policy (tw_retry_policy w)) (\<lambda>_.
     bindE (check_aware ''work item timestamp must include a timezone'' [tw_created_at w, tw_available_at w]) (\<lambda>_.
     bindE (guardE (\<not> instant (tw_available_at w) < instant (tw_created_at w))
       ''work item available_at must not precede created_at'') (\<lambda>_.
       Inr w)))))))"

section \<open>Attempts\<close>

text \<open>The part of a verifier receipt that the execution contracts read: its identity.\<close>

type_synonym verifier_receipt_id = uuid

record attempt =
  am_attempt_id :: uuid
  am_attempt_key :: string
  am_version :: int
  am_run_id :: uuid
  am_trial_id :: uuid
  am_work_id :: uuid
  am_attempt_number :: int
  am_candidate_index :: int
  am_retry_number :: int
  am_backend_submission_id :: "uuid option"
  am_lease_id :: "uuid option"
  am_worker_id :: "string option"
  am_started_at :: "py_datetime option"
  am_finished_at :: "py_datetime option"
  am_state :: attempt_state
  am_failure :: "failure_classification option"
  am_runtime_observation :: "runtime_observation option"
  am_verifier_receipt :: "verifier_receipt_id option"
  am_result_ref :: "string option"

text \<open>The values of an optional field, as a list.\<close>

definition opt_list :: "'a option \<Rightarrow> 'a list" where
  "opt_list x = (case x of None \<Rightarrow> [] | Some y \<Rightarrow> [y])"

definition precedes :: "py_datetime option \<Rightarrow> py_datetime option \<Rightarrow> bool" where
  "precedes a b = (case (a, b) of (Some x, Some y) \<Rightarrow> instant x < instant y | _ \<Rightarrow> False)"

definition check_attempt_fields :: "attempt \<Rightarrow> string + unit" where
  "check_attempt_fields a =
     bindE (check_ids ([am_attempt_id a, am_run_id a, am_trial_id a, am_work_id a]
       @ opt_list (am_backend_submission_id a) @ opt_list (am_lease_id a))) (\<lambda>_.
     bindE (validate_entity_key (am_attempt_key a)) (\<lambda>_.
     bindE (checkE_all (\<lambda>w. bindE (validate_entity_key w) (\<lambda>_. Inr ())) (opt_list (am_worker_id a))) (\<lambda>_.
     bindE (guardE (0 < am_version a \<and> 0 < am_attempt_number a \<and> 0 < am_candidate_index a
         \<and> 0 \<le> am_retry_number a) ''greater than 0'') (\<lambda>_.
     bindE (checkE_all (\<lambda>r. bindE (validate_portable_relative_path r) (\<lambda>_. Inr ())) (opt_list (am_result_ref a))) (\<lambda>_.
     bindE (checkE_all (\<lambda>f. bindE (validate_failure f) (\<lambda>_. Inr ())) (opt_list (am_failure a))) (\<lambda>_.
       check_aware ''attempt timestamp must include a timezone''
         (opt_list (am_started_at a) @ opt_list (am_finished_at a))))))))"

definition validate_attempt :: "attempt \<Rightarrow> string + attempt" where
  "validate_attempt a =
     bindE (check_attempt_fields a) (\<lambda>_.
     bindE (guardE (\<not> precedes (am_finished_at a) (am_started_at a))
       ''attempt finished_at must not precede started_at'') (\<lambda>_.
     bindE (guardE (\<not> (am_state a = A_Created \<and> (am_started_at a \<noteq> None \<or> am_finished_at a \<noteq> None)))
       ''created attempt must not have execution timestamps'') (\<lambda>_.
     bindE (guardE (\<not> (am_state a \<in> {A_Running, A_Succeeded, A_Failed, A_Cancelled} \<and> am_started_at a = None))
       ''attempt requires started_at'') (\<lambda>_.
     bindE (guardE (\<not> (am_state a \<in> {A_Succeeded, A_Failed, A_Cancelled, A_Unknown} \<and> am_finished_at a = None))
       ''attempt requires finished_at'') (\<lambda>_.
     bindE (guardE (\<not> (am_state a = A_Running \<and> am_finished_at a \<noteq> None))
       ''running attempt must not have finished_at'') (\<lambda>_.
     bindE (guardE (\<not> (am_state a \<in> {A_Submitted, A_Running, A_Succeeded} \<and> am_backend_submission_id a = None))
       ''attempt requires backend_submission_id'') (\<lambda>_.
     bindE (guardE (\<not> (am_state a \<in> {A_Failed, A_Unknown} \<and> am_failure a = None))
       ''failed or unknown attempt requires a failure classification'') (\<lambda>_.
     bindE (guardE (\<not> (am_state a = A_Succeeded \<and> am_failure a \<noteq> None))
       ''succeeded attempt must not carry a failure classification'') (\<lambda>_.
     bindE (guardE (\<not> (am_state a = A_Succeeded \<and> am_result_ref a = None))
       ''succeeded attempt requires result_ref'') (\<lambda>_.
     bindE (guardE (\<not> (am_state a = A_Cancelled \<and> am_failure a \<noteq> None))
       ''cancelled attempt must not carry a failure classification'') (\<lambda>_.
     bindE (guardE (\<not> (optional_ok (\<lambda>f. fc_kind f = Unknown_External_State) (am_failure a)
         \<and> am_failure a \<noteq> None \<and> am_backend_submission_id a = None))
       ''unknown external state requires backend_submission_id'') (\<lambda>_.
     bindE (guardE (optional_ok (\<lambda>ob. ro_attempt_id ob = am_attempt_id a) (am_runtime_observation a))
       ''runtime observation attempt_id must match attempt'') (\<lambda>_.
     bindE (guardE (optional_ok (\<lambda>ob. ro_trial_id ob = am_trial_id a) (am_runtime_observation a))
       ''runtime observation trial_id must match attempt'') (\<lambda>_.
       Inr a))))))))))))))"

section \<open>Leases and submissions\<close>

record lease =
  lm_lease_id :: uuid
  lm_work_id :: uuid
  lm_worker_id :: string
  lm_acquired_at :: py_datetime
  lm_expires_at :: py_datetime
  lm_heartbeat_at :: py_datetime
  lm_state :: lease_state
  lm_released_at :: "py_datetime option"

definition validate_lease :: "lease \<Rightarrow> string + lease" where
  "validate_lease l =
     bindE (check_ids [lm_lease_id l, lm_work_id l]) (\<lambda>_.
     bindE (check_texts [lm_worker_id l]) (\<lambda>_.
     bindE (check_aware ''lease timestamp must include a timezone''
       ([lm_acquired_at l, lm_expires_at l, lm_heartbeat_at l] @ opt_list (lm_released_at l))) (\<lambda>_.
     bindE (guardE (\<not> instant (lm_expires_at l) \<le> instant (lm_acquired_at l))
       ''lease expires_at must be after acquired_at'') (\<lambda>_.
     bindE (guardE (\<not> instant (lm_heartbeat_at l) < instant (lm_acquired_at l))
       ''lease heartbeat_at must not precede acquired_at'') (\<lambda>_.
     bindE (guardE (\<not> instant (lm_heartbeat_at l) > instant (lm_expires_at l))
       ''lease heartbeat_at must not follow expires_at'') (\<lambda>_.
     bindE (guardE (\<not> precedes (lm_released_at l) (Some (lm_acquired_at l)))
       ''lease released_at must not precede acquired_at'') (\<lambda>_.
     bindE (guardE (\<not> (lm_state l = L_Active \<and> lm_released_at l \<noteq> None))
       ''active lease must not have released_at'') (\<lambda>_.
     bindE (guardE (\<not> (lm_state l \<noteq> L_Active \<and> lm_released_at l = None))
       ''inactive lease requires released_at'') (\<lambda>_.
       Inr l)))))))))"

record backend_submission =
  sm_submission_id :: uuid
  sm_attempt_id :: uuid
  sm_backend :: string
  sm_external_id :: "string option"
  sm_state :: submission_state
  sm_submitted_at :: py_datetime
  sm_updated_at :: py_datetime

definition validate_submission :: "backend_submission \<Rightarrow> string + backend_submission" where
  "validate_submission b =
     bindE (check_ids [sm_submission_id b, sm_attempt_id b]) (\<lambda>_.
     bindE (check_texts (sm_backend b # opt_list (sm_external_id b))) (\<lambda>_.
     bindE (check_aware ''submission timestamp must include a timezone'' [sm_submitted_at b, sm_updated_at b]) (\<lambda>_.
     bindE (guardE (\<not> instant (sm_updated_at b) < instant (sm_submitted_at b))
       ''submission updated_at must not precede submitted_at'') (\<lambda>_.
     bindE (guardE (\<not> (sm_state b \<in> {S_Accepted, S_Running, S_Completed} \<and> sm_external_id b = None))
       ''submission requires external_id'') (\<lambda>_.
       Inr b)))))"

section \<open>Receipts, finalizations and outcomes\<close>

record resource_usage =
  us_wall_seconds :: rat
  us_cpu_seconds :: "rat option"
  us_peak_memory_bytes :: "int option"
  us_input_tokens :: "int option"
  us_output_tokens :: "int option"
  us_estimated_cost_usd :: "rat option"

definition validate_usage :: "resource_usage \<Rightarrow> string + resource_usage" where
  "validate_usage u =
     bindE (guardE (0 \<le> us_wall_seconds u \<and> optional_ok (\<lambda>c. 0 \<le> c) (us_cpu_seconds u)
         \<and> optional_ok (\<lambda>c. 0 \<le> c) (us_peak_memory_bytes u) \<and> optional_ok (\<lambda>c. 0 \<le> c) (us_input_tokens u)
         \<and> optional_ok (\<lambda>c. 0 \<le> c) (us_output_tokens u) \<and> optional_ok (\<lambda>c. 0 \<le> c) (us_estimated_cost_usd u))
       ''greater than or equal to 0'') (\<lambda>_. Inr u)"

record attempt_receipt =
  rc_receipt_id :: uuid
  rc_receipt_key :: string
  rc_version :: int
  rc_attempt_id :: uuid
  rc_backend :: string
  rc_submission_id :: uuid
  rc_requested_condition :: entity_identity
  rc_runtime_observation :: "runtime_observation option"
  rc_started_at :: py_datetime
  rc_finished_at :: py_datetime
  rc_process_status :: process_status
  rc_cancellation_status :: cancellation_status
  rc_resource_usage :: resource_usage
  rc_output_references :: "artifact_ref list"
  rc_verifier_receipt :: "verifier_receipt_id option"
  rc_authority_evidence :: "authority_evidence_ref list"
  rc_failure :: "failure_classification option"
  rc_reconciliation_status :: reconciliation_state

definition check_receipt_fields :: "attempt_receipt \<Rightarrow> string + unit" where
  "check_receipt_fields r =
     bindE (check_ids [rc_receipt_id r, rc_attempt_id r, rc_submission_id r]) (\<lambda>_.
     bindE (validate_entity_key (rc_receipt_key r)) (\<lambda>_.
     bindE (guardE (0 < rc_version r) ''greater than 0'') (\<lambda>_.
     bindE (check_texts [rc_backend r]) (\<lambda>_.
     bindE (validate_entity_identity (rc_requested_condition r)) (\<lambda>_.
     bindE (check_aware ''receipt timestamp must include a timezone'' [rc_started_at r, rc_finished_at r]) (\<lambda>_.
     bindE (validate_usage (rc_resource_usage r)) (\<lambda>_.
     bindE (checkE_all (\<lambda>a. bindE (validate_artifact_ref a) (\<lambda>_. Inr ())) (rc_output_references r)) (\<lambda>_.
     bindE (checkE_all (\<lambda>a. bindE (validate_authority_evidence a) (\<lambda>_. Inr ())) (rc_authority_evidence r)) (\<lambda>_.
       checkE_all (\<lambda>f. bindE (validate_failure f) (\<lambda>_. Inr ())) (opt_list (rc_failure r)))))))))))"

text \<open>\<^verbatim>\<open>AttemptReceipt.validate_receipt\<close>, check by check.\<close>

definition validate_receipt :: "attempt_receipt \<Rightarrow> string + attempt_receipt" where
  "validate_receipt r =
     bindE (check_receipt_fields r) (\<lambda>_.
     bindE (guardE (\<not> instant (rc_finished_at r) < instant (rc_started_at r))
       ''receipt finished_at must not precede started_at'') (\<lambda>_.
     bindE (guardE (optional_ok (\<lambda>ob. ro_attempt_id ob = rc_attempt_id r) (rc_runtime_observation r))
       ''runtime observation attempt_id must match receipt'') (\<lambda>_.
     bindE (guardE (\<not> (rc_process_status r \<in> {P_Failed, P_Unknown} \<and> rc_failure r = None))
       ''failed or unknown receipt requires a failure classification'') (\<lambda>_.
     bindE (guardE (\<not> (rc_process_status r = P_Succeeded \<and> rc_failure r \<noteq> None))
       ''succeeded receipt must not carry a failure classification'') (\<lambda>_.
     bindE (guardE (\<not> (rc_process_status r = P_Succeeded \<and> rc_output_references r = []
         \<and> rc_verifier_receipt r = None \<and> rc_authority_evidence r = []))
       ''succeeded receipt requires retained output or authority evidence'') (\<lambda>_.
     bindE (guardE (\<not> (rc_process_status r = P_Cancelled
         \<and> rc_cancellation_status r \<notin> {C_Confirmed, C_Unknown}))
       ''cancelled receipt requires confirmed or unknown cancellation status'') (\<lambda>_.
     bindE (guardE (distinct (map ar_artifact_id (rc_output_references r)))
       ''attempt receipt output references must be unique'') (\<lambda>_.
     bindE (guardE (distinct (map (\<lambda>a. (ae_authority_kind a, ae_protocol a, ar_artifact_id (ae_artifact a)))
         (rc_authority_evidence r)))
       ''attempt receipt authority evidence references must be unique'') (\<lambda>_.
       Inr r)))))))))"

record trial_finalization =
  fz_finalization_id :: uuid
  fz_trial_id :: uuid
  fz_attempt_id :: uuid
  fz_record_version :: int
  fz_trial_record_ref :: string
  fz_published_at :: py_datetime
  fz_supersedes_finalization_id :: "uuid option"
  fz_state :: finalization_state

definition validate_finalization :: "trial_finalization \<Rightarrow> string + trial_finalization" where
  "validate_finalization z =
     bindE (check_ids ([fz_finalization_id z, fz_trial_id z, fz_attempt_id z]
       @ opt_list (fz_supersedes_finalization_id z))) (\<lambda>_.
     bindE (guardE (0 < fz_record_version z) ''greater than 0'') (\<lambda>_.
     bindE (validate_portable_relative_path (fz_trial_record_ref z)) (\<lambda>_.
     bindE (check_aware ''finalization timestamp must include a timezone'' [fz_published_at z]) (\<lambda>_.
     bindE (guardE (fz_supersedes_finalization_id z \<noteq> Some (fz_finalization_id z))
       ''finalization must not supersede itself'') (\<lambda>_.
       Inr z)))))"

datatype outcome_state = Outcome_Succeeded | Outcome_Failed | Outcome_Unknown

record worker_outcome =
  wo_terminal_state :: outcome_state
  wo_receipts :: "attempt_receipt list"
  wo_finalization :: "trial_finalization option"

definition has_infrastructure_failure :: "attempt_receipt list \<Rightarrow> bool" where
  "has_infrastructure_failure rs \<longleftrightarrow>
     list_ex (\<lambda>r. case rc_failure r of None \<Rightarrow> False | Some f \<Rightarrow> fc_class f = Infrastructure) rs"

text \<open>\<^verbatim>\<open>WorkerOutcome.validate_receipts\<close>, after the parts have been validated.\<close>

definition check_outcome :: "worker_outcome \<Rightarrow> string + worker_outcome" where
  "check_outcome w =
     bindE (guardE (wo_receipts w \<noteq> []) ''worker outcome requires at least one attempt receipt'') (\<lambda>_.
     bindE (guardE (\<not> (wo_terminal_state w = Outcome_Unknown \<and> wo_finalization w \<noteq> None))
       ''unknown worker outcome must not have a finalization'') (\<lambda>_.
     bindE (guardE (\<not> (wo_terminal_state w = Outcome_Succeeded \<and> wo_finalization w = None))
       ''succeeded worker outcome requires a finalization'') (\<lambda>_.
     case wo_finalization w of
       None \<Rightarrow>
         bindE (guardE (wo_terminal_state w = Outcome_Failed \<longrightarrow> has_infrastructure_failure (wo_receipts w))
           ''failed worker outcome without finalization requires an infrastructure failure'') (\<lambda>_. Inr w)
     | Some z \<Rightarrow>
         (case find (\<lambda>r. rc_attempt_id r = fz_attempt_id z) (wo_receipts w) of
            None \<Rightarrow> Inl ''worker outcome finalization attempt must have a receipt''
          | Some selected \<Rightarrow>
              bindE (guardE (\<not> (wo_terminal_state w = Outcome_Succeeded \<and> rc_process_status selected \<noteq> P_Succeeded))
                ''succeeded worker outcome requires a succeeded finalization receipt'') (\<lambda>_. Inr w)))))"

definition validate_outcome :: "worker_outcome \<Rightarrow> string + worker_outcome" where
  "validate_outcome w =
     bindE (checkE_all (\<lambda>r. bindE (validate_receipt r) (\<lambda>_. Inr ())) (wo_receipts w)) (\<lambda>_.
     bindE (checkE_all (\<lambda>z. bindE (validate_finalization z) (\<lambda>_. Inr ())) (opt_list (wo_finalization w))) (\<lambda>_.
       check_outcome w))"

end
