(* ===== verification/Store_Tables.thy ===== *)
theory Store_Tables
  imports Execution_Models "HOL-Library.Product_Lexorder"
begin

text \<open>
  The state of the operational store: the rows of its seven tables (\<^verbatim>\<open>execution/operational/schema.py\<close>
  and the row classes of \<^verbatim>\<open>execution/operational/store.py\<close>), the constraints that SQLite enforces on
  every insert, transactions, and the argument checks that the public methods share.

  Times are the UTC instants that the time stamps stand for (theory Timestamps shows that the texts
  sort as the instants do); a status column is a datatype with exactly the values its \<^verbatim>\<open>CHECK\<close> and
  \<^verbatim>\<open>_checked_status\<close> admit; the retry policy is kept as the record its JSON encodes; messages omit the
  identifiers the source interpolates.
\<close>

section \<open>Exceptions\<close>

datatype store_error = Value_Error string | Type_Error string | Store_Error string
  | Store_Conflict string | Store_Not_Found string | Lease_Unavailable string

text \<open>\<^verbatim>\<open>except OperationalStoreError\<close> catches the class and its three subclasses.\<close>

fun is_store_error :: "store_error \<Rightarrow> bool" where
  "is_store_error (Store_Error m) = True"
| "is_store_error (Store_Conflict m) = True"
| "is_store_error (Store_Not_Found m) = True"
| "is_store_error (Lease_Unavailable m) = True"
| "is_store_error (Value_Error m) = False"
| "is_store_error (Type_Error m) = False"

section \<open>Rows\<close>

datatype run_status = Run_Created | Run_Ready | Run_Running | Run_Completed | Run_Failed | Run_Cancelled

datatype plan_status = Plan_Draft | Plan_Ready | Plan_Started | Plan_Closed

datatype trial_state = T_Planned | T_Queued | T_Running | T_Succeeded | T_Failed | T_Cancelled
  | T_Invalid | T_Unknown

record run_row =
  rr_run_id :: uuid
  rr_status :: run_status
  rr_spec_ref :: string
  rr_created_at :: int
  rr_started_at :: "int option"
  rr_finished_at :: "int option"
  rr_updated_at :: int
  rr_cancellation_requested_at :: "int option"

record plan_row =
  pr_plan_id :: uuid
  pr_run_id :: uuid
  pr_state :: plan_status
  pr_plan_ref :: string
  pr_created_at :: int
  pr_updated_at :: int

record trial_row =
  tr_trial_id :: uuid
  tr_plan_id :: uuid
  tr_run_id :: uuid
  tr_ordinal :: int
  tr_state :: trial_state
  tr_created_at :: int
  tr_updated_at :: int

record work_row =
  wi_work_id :: uuid
  wi_work_key :: string
  wi_run_id :: uuid
  wi_trial_id :: uuid
  wi_kind :: string
  wi_state :: work_state
  wi_priority :: int
  wi_created_at :: int
  wi_updated_at :: int
  wi_plan_id :: uuid
  wi_ordinal :: int
  wi_execution_family :: string
  wi_backend :: string
  wi_provider_route :: string
  wi_model_route :: string
  wi_resource_class :: string
  wi_available_at :: int
  wi_retry_policy :: retry_policy

record lease_row =
  le_lease_id :: uuid
  le_work_id :: uuid
  le_owner :: string
  le_acquired_at :: int
  le_expires_at :: int
  le_heartbeat_at :: int
  le_state :: lease_state
  le_released_at :: "int option"

record attempt_row =
  at_attempt_id :: uuid
  at_work_id :: uuid
  at_run_id :: uuid
  at_trial_id :: uuid
  at_attempt_number :: int
  at_candidate_index :: int
  at_retry_number :: int
  at_lease_id :: "uuid option"
  at_state :: attempt_state
  at_created_at :: int
  at_started_at :: "int option"
  at_finished_at :: "int option"
  at_updated_at :: int
  at_failure_kind :: "failure_kind option"
  at_failure_class :: "failure_class option"
  at_failure_message :: "string option"
  at_reconciliation_state :: reconciliation_state
  at_cancellation_status :: cancellation_status

record submission_row =
  su_submission_id :: uuid
  su_attempt_id :: uuid
  su_backend :: string
  su_external_id :: "string option"
  su_external_work_id :: "string option"
  su_state :: submission_state
  su_submitted_at :: int
  su_updated_at :: int
  su_cancellation_status :: cancellation_status
  su_reconciliation_state :: reconciliation_state

record store =
  st_read_only :: bool
  st_runs :: "run_row list"
  st_plans :: "plan_row list"
  st_trials :: "trial_row list"
  st_work :: "work_row list"
  st_leases :: "lease_row list"
  st_attempts :: "attempt_row list"
  st_submissions :: "submission_row list"

definition empty_store :: store where
  "empty_store = \<lparr>st_read_only = False, st_runs = [], st_plans = [], st_trials = [], st_work = [],
     st_leases = [], st_attempts = [], st_submissions = []\<rparr>"

section \<open>Transactions\<close>

type_synonym 'a store_op = "(store, store_error, 'a) action"
type_synonym 'a txn = "store \<Rightarrow> store_error + ('a \<times> store)"

text \<open>
  \<^verbatim>\<open>_connection(immediate=True)\<close>: a read-only store refuses; otherwise the body runs alone, commits
  when it returns and is rolled back when it raises. \<^verbatim>\<open>_connection()\<close> only reads.
\<close>

definition write_txn :: "'a txn \<Rightarrow> 'a store_op" where
  "write_txn body st =
     (if st_read_only st then (Inl (Store_Error ''read-only operational store rejects write transactions''), st)
      else case body st of Inl e \<Rightarrow> (Inl e, st) | Inr (x, st') \<Rightarrow> (Inr x, st'))"

text \<open>The checks before the transaction run on the arguments only; then the transaction runs.\<close>

definition checked :: "store_error + 'b \<Rightarrow> ('b \<Rightarrow> 'a store_op) \<Rightarrow> 'a store_op" where
  "checked m f = bindS (readS (\<lambda>_. m)) f"

lemma checked_apply [err_simps]: "checked m f st = (case m of Inl e \<Rightarrow> (Inl e, st) | Inr x \<Rightarrow> f x st)"
  by (simp add: checked_def bindS_def)

text \<open>A method keeps an invariant when its transaction's body does.\<close>

definition txn_preserves :: "(store \<Rightarrow> bool) \<Rightarrow> 'a txn \<Rightarrow> bool" where
  "txn_preserves I body \<longleftrightarrow> (\<forall>st x st'. I st \<longrightarrow> body st = Inr (x, st') \<longrightarrow> I st')"

lemma txn_preservesI: "(\<And>st x st'. I st \<Longrightarrow> body st = Inr (x, st') \<Longrightarrow> I st') \<Longrightarrow> txn_preserves I body"
  unfolding txn_preserves_def by blast

lemma preserves_write_txn [preserve_intros]: "txn_preserves I body \<Longrightarrow> preserves I (write_txn body)"
  unfolding txn_preserves_def preserves_def write_txn_def by (auto split: sum.splits)

lemma preserves_checked [preserve_intros]:
  "(\<And>x. m = Inr x \<Longrightarrow> preserves I (f x)) \<Longrightarrow> preserves I (checked m f)"
  unfolding preserves_def by (auto simp: checked_apply split: sum.splits)

lemma write_txn_ro: "st_read_only st \<Longrightarrow> write_txn body st =
    (Inl (Store_Error ''read-only operational store rejects write transactions''), st)"
  by (simp add: write_txn_def)

lemma write_txn_Inr_iff:
  "write_txn body st = (Inr x, st') \<longleftrightarrow> \<not> st_read_only st \<and> body st = Inr (x, st')"
  by (auto simp: write_txn_def split: sum.splits)

lemma write_txn_Inl: "write_txn body st = (Inl e, st') \<Longrightarrow> st' = st"
  by (auto simp: write_txn_def split: sum.splits if_splits)

lemma checked_Inr_iff: "checked m f st = (Inr x, st') \<longleftrightarrow> (\<exists>y. m = Inr y \<and> f y st = (Inr x, st'))"
  by (cases m) (simp_all add: checked_apply)

section \<open>Argument checks\<close>

definition checked_id :: "string \<Rightarrow> uuid \<Rightarrow> store_error + uuid" where
  "checked_id label u =
     (case validate_uuidv7 u of Inl _ \<Rightarrow> Inl (Value_Error (label @ '' must be a UUIDv7'')) | Inr v \<Rightarrow> Inr v)"

definition checked_optional_id :: "string \<Rightarrow> uuid option \<Rightarrow> store_error + uuid option" where
  "checked_optional_id label u =
     (case u of None \<Rightarrow> Inr None | Some v \<Rightarrow> bindE (checked_id label v) (\<lambda>w. Inr (Some w)))"

definition required_text :: "string \<Rightarrow> string \<Rightarrow> store_error + string" where
  "required_text label v = bindE (guardE (\<not> py_blank v) (Value_Error (label @ '' must not be blank''))) (\<lambda>_. Inr v)"

definition required_optional_text :: "string \<Rightarrow> string option \<Rightarrow> store_error + string option" where
  "required_optional_text label v =
     (case v of None \<Rightarrow> Inr None | Some t \<Rightarrow> bindE (required_text label t) (\<lambda>w. Inr (Some w)))"

definition required_key :: "string \<Rightarrow> string \<Rightarrow> store_error + string" where
  "required_key label v =
     (case validate_entity_key v of Inl _ \<Rightarrow> Inl (Value_Error (label @ '' must be a valid entity key'')) | Inr k \<Rightarrow> Inr k)"

definition required_ref :: "string \<Rightarrow> string \<Rightarrow> store_error + string" where
  "required_ref label v =
     (case bindE (required_text label v) (\<lambda>t. case validate_portable_relative_path t of
          Inl m \<Rightarrow> Inl (Value_Error m) | Inr p \<Rightarrow> Inr p) of
        Inl _ \<Rightarrow> Inl (Value_Error (label @ '' must be a portable relative reference''))
      | Inr p \<Rightarrow> Inr p)"

definition aware :: "string \<Rightarrow> py_datetime \<Rightarrow> store_error + int" where
  "aware label t =
     (case aware_value t (label @ '' must include a timezone'') of Inl m \<Rightarrow> Inl (Value_Error m) | Inr i \<Rightarrow> Inr i)"

text \<open>\<^verbatim>\<open>_aware(now or datetime.now(UTC), "now")\<close>, with the clock's reading as an argument.\<close>

definition now_or_clock :: "int \<Rightarrow> py_datetime option \<Rightarrow> store_error + int" where
  "now_or_clock clock now = aware ''now'' (case now of None \<Rightarrow> Aware clock | Some t \<Rightarrow> t)"

definition checked_limits :: "('k \<Rightarrow> bool) \<Rightarrow> ('k \<times> int) list \<Rightarrow> store_error + ('k \<times> int) list" where
  "checked_limits blank limits =
     bindE (checkE_all (\<lambda>(k, v).
       bindE (guardE (\<not> blank k) (Value_Error ''concurrency limit keys must not be blank'')) (\<lambda>_.
       guardE (0 < v) (Value_Error ''concurrency limits must be positive integers''))) limits) (\<lambda>_. Inr limits)"

lemma checked_id_Inr [simp]: "checked_id label u = Inr v \<longleftrightarrow> uuidv7_ok u \<and> v = u"
  using validate_uuidv7_cases [of u]
  by (auto simp: checked_id_def uuidv7_ok_def isOK_iff split: sum.splits)

lemma required_text_Inr [simp]: "required_text label t = Inr v \<longleftrightarrow> \<not> py_blank t \<and> v = t"
  by (auto simp: required_text_def err_iffs)

lemma required_key_Inr [simp]: "required_key label t = Inr v \<longleftrightarrow> key_pattern True t \<and> v = t"
  by (cases "key_pattern True t") (auto simp: required_key_def validate_entity_key_def)

lemma aware_simps [simp]: "aware label (Aware t) = Inr t"
  "aware label (Naive t) = Inl (Value_Error (label @ '' must include a timezone''))"
  by (simp_all add: aware_def)

lemma now_or_clock_simps [simp]: "now_or_clock clock None = Inr clock"
  "now_or_clock clock (Some t) = aware ''now'' t"
  by (simp_all add: now_or_clock_def)

lemma checked_limits_Inr:
  assumes "checked_limits blank limits = Inr ls"
  shows "ls = limits \<and> (\<forall>(k, v)\<in>set limits. 0 < v)"
proof -
  have eq: "ls = limits"
    using assms by (simp add: checked_limits_def bindE_eq_Inr_iff)
  have "isOK (checked_limits blank limits)"
    by (simp only: assms isOK_simps)
  then show ?thesis
    unfolding checked_limits_def isOK_bindE_const isOK_checkE_all
    using eq by (auto simp only: isOK_bindE_const isOK_guardE split: prod.splits)
qed

section \<open>Statements\<close>

text \<open>
  \<^verbatim>\<open>INSERT\<close> under the schema's constraints: primary keys, foreign keys (\<^verbatim>\<open>PRAGMA foreign_keys = ON\<close>),
  unique columns and the unique index on the active lease of a work item. A violation is an
  \<^verbatim>\<open>sqlite3.IntegrityError\<close>, which the connection turns into an \<open>OperationalStoreError\<close>.
\<close>

abbreviation integrity_error :: store_error where
  "integrity_error \<equiv> Store_Error ''operational database operation failed''"

definition insert_row :: "bool \<Rightarrow> (store \<Rightarrow> store) \<Rightarrow> store \<Rightarrow> store_error + store" where
  "insert_row ok f st = bindE (guardE ok integrity_error) (\<lambda>_. Inr (f st))"

definition insert_run :: "run_row \<Rightarrow> store \<Rightarrow> store_error + store" where
  "insert_run r st = insert_row (find_row rr_run_id (rr_run_id r) (st_runs st) = None)
     (\<lambda>st. st\<lparr>st_runs := st_runs st @ [r]\<rparr>) st"

definition insert_plan :: "plan_row \<Rightarrow> store \<Rightarrow> store_error + store" where
  "insert_plan p st = insert_row (find_row pr_plan_id (pr_plan_id p) (st_plans st) = None
       \<and> find_row rr_run_id (pr_run_id p) (st_runs st) \<noteq> None)
     (\<lambda>st. st\<lparr>st_plans := st_plans st @ [p]\<rparr>) st"

definition insert_trial :: "trial_row \<Rightarrow> store \<Rightarrow> store_error + store" where
  "insert_trial t st = insert_row (find_row tr_trial_id (tr_trial_id t) (st_trials st) = None
       \<and> find_row pr_plan_id (tr_plan_id t) (st_plans st) \<noteq> None
       \<and> find_row rr_run_id (tr_run_id t) (st_runs st) \<noteq> None
       \<and> 0 < tr_ordinal t
       \<and> \<not> list_ex (\<lambda>u. tr_plan_id u = tr_plan_id t \<and> tr_ordinal u = tr_ordinal t) (st_trials st))
     (\<lambda>st. st\<lparr>st_trials := st_trials st @ [t]\<rparr>) st"

definition insert_work :: "work_row \<Rightarrow> store \<Rightarrow> store_error + store" where
  "insert_work w st = insert_row (find_row wi_work_id (wi_work_id w) (st_work st) = None
       \<and> find_row rr_run_id (wi_run_id w) (st_runs st) \<noteq> None
       \<and> find_row tr_trial_id (wi_trial_id w) (st_trials st) \<noteq> None
       \<and> find_row pr_plan_id (wi_plan_id w) (st_plans st) \<noteq> None
       \<and> 0 < wi_ordinal w
       \<and> \<not> list_ex (\<lambda>v. wi_trial_id v = wi_trial_id w) (st_work st)
       \<and> \<not> list_ex (\<lambda>v. wi_run_id v = wi_run_id w \<and> wi_work_key v = wi_work_key w) (st_work st))
     (\<lambda>st. st\<lparr>st_work := st_work st @ [w]\<rparr>) st"

definition insert_lease :: "lease_row \<Rightarrow> store \<Rightarrow> store_error + store" where
  "insert_lease l st = insert_row (find_row le_lease_id (le_lease_id l) (st_leases st) = None
       \<and> find_row wi_work_id (le_work_id l) (st_work st) \<noteq> None
       \<and> \<not> (le_state l = L_Active
            \<and> list_ex (\<lambda>k. le_work_id k = le_work_id l \<and> le_state k = L_Active) (st_leases st)))
     (\<lambda>st. st\<lparr>st_leases := st_leases st @ [l]\<rparr>) st"

definition insert_attempt :: "attempt_row \<Rightarrow> store \<Rightarrow> store_error + store" where
  "insert_attempt a st = insert_row (find_row at_attempt_id (at_attempt_id a) (st_attempts st) = None
       \<and> find_row wi_work_id (at_work_id a) (st_work st) \<noteq> None
       \<and> find_row rr_run_id (at_run_id a) (st_runs st) \<noteq> None
       \<and> find_row tr_trial_id (at_trial_id a) (st_trials st) \<noteq> None
       \<and> optional_ok (\<lambda>l. find_row le_lease_id l (st_leases st) \<noteq> None) (at_lease_id a)
       \<and> 0 < at_attempt_number a \<and> 0 < at_candidate_index a \<and> 0 \<le> at_retry_number a
       \<and> \<not> list_ex (\<lambda>b. at_work_id b = at_work_id a \<and> at_attempt_number b = at_attempt_number a) (st_attempts st)
       \<and> \<not> list_ex (\<lambda>b. at_work_id b = at_work_id a \<and> at_candidate_index b = at_candidate_index a
            \<and> at_retry_number b = at_retry_number a) (st_attempts st))
     (\<lambda>st. st\<lparr>st_attempts := st_attempts st @ [a]\<rparr>) st"

definition insert_submission :: "submission_row \<Rightarrow> store \<Rightarrow> store_error + store" where
  "insert_submission s st = insert_row (find_row su_submission_id (su_submission_id s) (st_submissions st) = None
       \<and> find_row at_attempt_id (su_attempt_id s) (st_attempts st) \<noteq> None
       \<and> \<not> list_ex (\<lambda>t. su_attempt_id t = su_attempt_id s \<and> su_backend t = su_backend s) (st_submissions st))
     (\<lambda>st. st\<lparr>st_submissions := st_submissions st @ [s]\<rparr>) st"

text \<open>\<^verbatim>\<open>_require_row\<close> and the row that a method reads back before it returns.\<close>

definition require_row :: "string \<Rightarrow> 'r option \<Rightarrow> store_error + 'r" where
  "require_row table row =
     (case row of None \<Rightarrow> Inl (Store_Not_Found (table @ '' record not found'')) | Some r \<Rightarrow> Inr r)"

definition reread :: "'r option \<Rightarrow> store \<Rightarrow> store_error + ('r \<times> store)" where
  "reread row st = (case row of None \<Rightarrow> Inl (Type_Error ''NoneType'') | Some r \<Rightarrow> Inr (r, st))"

abbreviation the_run :: "uuid \<Rightarrow> store \<Rightarrow> run_row option" where
  "the_run k st \<equiv> find_row rr_run_id k (st_runs st)"
abbreviation the_plan :: "uuid \<Rightarrow> store \<Rightarrow> plan_row option" where
  "the_plan k st \<equiv> find_row pr_plan_id k (st_plans st)"
abbreviation the_trial :: "uuid \<Rightarrow> store \<Rightarrow> trial_row option" where
  "the_trial k st \<equiv> find_row tr_trial_id k (st_trials st)"
abbreviation the_work :: "uuid \<Rightarrow> store \<Rightarrow> work_row option" where
  "the_work k st \<equiv> find_row wi_work_id k (st_work st)"
abbreviation the_lease :: "uuid \<Rightarrow> store \<Rightarrow> lease_row option" where
  "the_lease k st \<equiv> find_row le_lease_id k (st_leases st)"
abbreviation the_attempt :: "uuid \<Rightarrow> store \<Rightarrow> attempt_row option" where
  "the_attempt k st \<equiv> find_row at_attempt_id k (st_attempts st)"
abbreviation the_submission :: "uuid \<Rightarrow> store \<Rightarrow> submission_row option" where
  "the_submission k st \<equiv> find_row su_submission_id k (st_submissions st)"

text \<open>\<^verbatim>\<open>COALESCE(x, y)\<close>.\<close>

definition coalesce :: "'a option \<Rightarrow> 'a option \<Rightarrow> 'a option" where
  "coalesce x y = (case x of None \<Rightarrow> y | Some v \<Rightarrow> Some v)"

lemma coalesce_simps [simp]: "coalesce None y = y" "coalesce (Some v) y = Some v"
  by (simp_all add: coalesce_def)

lemma require_row_Inr [simp]: "require_row t row = Inr r \<longleftrightarrow> row = Some r"
  by (cases row) (simp_all add: require_row_def)

lemma reread_Inr [simp]: "reread row st = Inr (r, st') \<longleftrightarrow> row = Some r \<and> st' = st"
  by (cases row) (auto simp add: reread_def)

lemma insert_row_Inr [simp]: "insert_row ok f st = Inr st' \<longleftrightarrow> ok \<and> st' = f st"
  by (cases ok) (auto simp: insert_row_def)

text \<open>\<^verbatim>\<open>UPDATE ... SET ... WHERE\<close> on each table.\<close>

definition upd_runs :: "(run_row \<Rightarrow> bool) \<Rightarrow> (run_row \<Rightarrow> run_row) \<Rightarrow> store \<Rightarrow> store" where
  "upd_runs p f st = st\<lparr>st_runs := update_rows p f (st_runs st)\<rparr>"
definition upd_plans :: "(plan_row \<Rightarrow> bool) \<Rightarrow> (plan_row \<Rightarrow> plan_row) \<Rightarrow> store \<Rightarrow> store" where
  "upd_plans p f st = st\<lparr>st_plans := update_rows p f (st_plans st)\<rparr>"
definition upd_trials :: "(trial_row \<Rightarrow> bool) \<Rightarrow> (trial_row \<Rightarrow> trial_row) \<Rightarrow> store \<Rightarrow> store" where
  "upd_trials p f st = st\<lparr>st_trials := update_rows p f (st_trials st)\<rparr>"
definition upd_work :: "(work_row \<Rightarrow> bool) \<Rightarrow> (work_row \<Rightarrow> work_row) \<Rightarrow> store \<Rightarrow> store" where
  "upd_work p f st = st\<lparr>st_work := update_rows p f (st_work st)\<rparr>"
definition upd_leases :: "(lease_row \<Rightarrow> bool) \<Rightarrow> (lease_row \<Rightarrow> lease_row) \<Rightarrow> store \<Rightarrow> store" where
  "upd_leases p f st = st\<lparr>st_leases := update_rows p f (st_leases st)\<rparr>"
definition upd_attempts :: "(attempt_row \<Rightarrow> bool) \<Rightarrow> (attempt_row \<Rightarrow> attempt_row) \<Rightarrow> store \<Rightarrow> store" where
  "upd_attempts p f st = st\<lparr>st_attempts := update_rows p f (st_attempts st)\<rparr>"
definition upd_submissions :: "(submission_row \<Rightarrow> bool) \<Rightarrow> (submission_row \<Rightarrow> submission_row) \<Rightarrow> store \<Rightarrow> store" where
  "upd_submissions p f st = st\<lparr>st_submissions := update_rows p f (st_submissions st)\<rparr>"

lemma upd_runs_fields [simp]:
  "st_read_only (upd_runs p f st) = st_read_only st"
  "st_runs (upd_runs p f st) = update_rows p f (st_runs st)"
  "st_plans (upd_runs p f st) = st_plans st"
  "st_trials (upd_runs p f st) = st_trials st"
  "st_work (upd_runs p f st) = st_work st"
  "st_leases (upd_runs p f st) = st_leases st"
  "st_attempts (upd_runs p f st) = st_attempts st"
  "st_submissions (upd_runs p f st) = st_submissions st"
  by (simp_all add: upd_runs_def)

lemma upd_plans_fields [simp]:
  "st_read_only (upd_plans p f st) = st_read_only st"
  "st_runs (upd_plans p f st) = st_runs st"
  "st_plans (upd_plans p f st) = update_rows p f (st_plans st)"
  "st_trials (upd_plans p f st) = st_trials st"
  "st_work (upd_plans p f st) = st_work st"
  "st_leases (upd_plans p f st) = st_leases st"
  "st_attempts (upd_plans p f st) = st_attempts st"
  "st_submissions (upd_plans p f st) = st_submissions st"
  by (simp_all add: upd_plans_def)

lemma upd_trials_fields [simp]:
  "st_read_only (upd_trials p f st) = st_read_only st"
  "st_runs (upd_trials p f st) = st_runs st"
  "st_plans (upd_trials p f st) = st_plans st"
  "st_trials (upd_trials p f st) = update_rows p f (st_trials st)"
  "st_work (upd_trials p f st) = st_work st"
  "st_leases (upd_trials p f st) = st_leases st"
  "st_attempts (upd_trials p f st) = st_attempts st"
  "st_submissions (upd_trials p f st) = st_submissions st"
  by (simp_all add: upd_trials_def)

lemma upd_work_fields [simp]:
  "st_read_only (upd_work p f st) = st_read_only st"
  "st_runs (upd_work p f st) = st_runs st"
  "st_plans (upd_work p f st) = st_plans st"
  "st_trials (upd_work p f st) = st_trials st"
  "st_work (upd_work p f st) = update_rows p f (st_work st)"
  "st_leases (upd_work p f st) = st_leases st"
  "st_attempts (upd_work p f st) = st_attempts st"
  "st_submissions (upd_work p f st) = st_submissions st"
  by (simp_all add: upd_work_def)

lemma upd_leases_fields [simp]:
  "st_read_only (upd_leases p f st) = st_read_only st"
  "st_runs (upd_leases p f st) = st_runs st"
  "st_plans (upd_leases p f st) = st_plans st"
  "st_trials (upd_leases p f st) = st_trials st"
  "st_work (upd_leases p f st) = st_work st"
  "st_leases (upd_leases p f st) = update_rows p f (st_leases st)"
  "st_attempts (upd_leases p f st) = st_attempts st"
  "st_submissions (upd_leases p f st) = st_submissions st"
  by (simp_all add: upd_leases_def)

lemma upd_attempts_fields [simp]:
  "st_read_only (upd_attempts p f st) = st_read_only st"
  "st_runs (upd_attempts p f st) = st_runs st"
  "st_plans (upd_attempts p f st) = st_plans st"
  "st_trials (upd_attempts p f st) = st_trials st"
  "st_work (upd_attempts p f st) = st_work st"
  "st_leases (upd_attempts p f st) = st_leases st"
  "st_attempts (upd_attempts p f st) = update_rows p f (st_attempts st)"
  "st_submissions (upd_attempts p f st) = st_submissions st"
  by (simp_all add: upd_attempts_def)

lemma upd_submissions_fields [simp]:
  "st_read_only (upd_submissions p f st) = st_read_only st"
  "st_runs (upd_submissions p f st) = st_runs st"
  "st_plans (upd_submissions p f st) = st_plans st"
  "st_trials (upd_submissions p f st) = st_trials st"
  "st_work (upd_submissions p f st) = st_work st"
  "st_leases (upd_submissions p f st) = st_leases st"
  "st_attempts (upd_submissions p f st) = st_attempts st"
  "st_submissions (upd_submissions p f st) = update_rows p f (st_submissions st)"
  by (simp_all add: upd_submissions_def)

section \<open>Tables as an interface\<close>

text \<open>
  What the methods rely on of every table: a row written is the row read, an insert or an update of one
  table is seen by a lookup in it, and lookups by other keys are not disturbed.
\<close>

locale keyed_table =
  fixes rows :: "store \<Rightarrow> 'r list"
    and update :: "('r \<Rightarrow> bool) \<Rightarrow> ('r \<Rightarrow> 'r) \<Rightarrow> store \<Rightarrow> store"
    and add :: "'r \<Rightarrow> store \<Rightarrow> store_error + store"
    and key :: "'r \<Rightarrow> uuid"
  assumes rows_update: "rows (update p f st) = update_rows p f (rows st)"
    and rows_add: "add r st = Inr st' \<Longrightarrow> rows st' = rows st @ [r] \<and> find_row key (key r) (rows st) = None"
begin

lemma read_update:
  "(\<And>r. key (f r) = key r) \<Longrightarrow>
    find_row key k (rows (update p f st)) = map_option (\<lambda>r. if p r then f r else r) (find_row key k (rows st))"
  by (simp add: rows_update find_row_update)

lemma read_add: "add r st = Inr st' \<Longrightarrow> find_row key (key r) (rows st') = Some r"
  by (drule rows_add) (simp add: find_row_append)

lemma read_add_other: "add r st = Inr st' \<Longrightarrow> k \<noteq> key r \<Longrightarrow> find_row key k (rows st') = find_row key k (rows st)"
  by (drule rows_add) (simp add: find_row_append split: option.split)

lemma keys_add: "add r st = Inr st' \<Longrightarrow> keys_distinct key (rows st) \<Longrightarrow> keys_distinct key (rows st')"
  by (drule rows_add) (simp add: keys_distinct_snoc)

lemma keys_update:
  "(\<And>r. key (f r) = key r) \<Longrightarrow> keys_distinct key (rows (update p f st)) = keys_distinct key (rows st)"
  by (simp add: rows_update)

end

interpretation runs: keyed_table st_runs upd_runs insert_run rr_run_id
  by unfold_locales (auto simp: insert_run_def)

interpretation plans: keyed_table st_plans upd_plans insert_plan pr_plan_id
  by unfold_locales (auto simp: insert_plan_def)

interpretation trials: keyed_table st_trials upd_trials insert_trial tr_trial_id
  by unfold_locales (auto simp: insert_trial_def)

interpretation work: keyed_table st_work upd_work insert_work wi_work_id
  by unfold_locales (auto simp: insert_work_def)

interpretation leases: keyed_table st_leases upd_leases insert_lease le_lease_id
  by unfold_locales (auto simp: insert_lease_def)

interpretation attempts: keyed_table st_attempts upd_attempts insert_attempt at_attempt_id
  by unfold_locales (auto simp: insert_attempt_def)

interpretation submissions: keyed_table st_submissions upd_submissions insert_submission su_submission_id
  by unfold_locales (auto simp: insert_submission_def)

text \<open>What a method reads back after its update.\<close>

lemmas read_updates = runs.read_update plans.read_update trials.read_update work.read_update leases.read_update attempts.read_update submissions.read_update

lemmas read_adds = runs.read_add plans.read_add trials.read_add work.read_add leases.read_add attempts.read_add submissions.read_add

section \<open>The order of the queue\<close>

text \<open>
  \<^verbatim>\<open>_work_item_priority_key\<close>: a Python tuple \<open>(0, created_at, ordinal, work_id)\<close> for aged work and
  \<open>(1, -priority, created_at, ordinal, work_id)\<close> for the rest, compared lexicographically.
\<close>

datatype priority_key = Aged int int uuid | Fresh int int int uuid

fun priority_rank :: "priority_key \<Rightarrow> nat \<times> int \<times> int \<times> int \<times> uuid" where
  "priority_rank (Aged created ordinal work) = (0, created, ordinal, 0, work)"
| "priority_rank (Fresh priority created ordinal work) = (1, priority, created, ordinal, work)"

lemma priority_rank_inject: "priority_rank a = priority_rank b \<longleftrightarrow> a = b"
  by (cases a; cases b) auto

instantiation priority_key :: linorder
begin

definition less_eq_priority_key :: "priority_key \<Rightarrow> priority_key \<Rightarrow> bool" where
  "less_eq_priority_key a b \<longleftrightarrow> priority_rank a \<le> priority_rank b"

definition less_priority_key :: "priority_key \<Rightarrow> priority_key \<Rightarrow> bool" where
  "less_priority_key a b \<longleftrightarrow> priority_rank a < priority_rank b"

instance
  by standard (auto simp: less_eq_priority_key_def less_priority_key_def less_le_not_le
    priority_rank_inject [symmetric] simp del: less_eq_prod_simp less_prod_simp)

end

definition work_item_priority_key :: "int \<Rightarrow> int \<Rightarrow> work_row \<Rightarrow> priority_key" where
  "work_item_priority_key now starvation_after_seconds w =
     (if starvation_after_seconds * 1000000 \<le> now - wi_created_at w
      then Aged (wi_created_at w) (wi_ordinal w) (wi_work_id w)
      else Fresh (- wi_priority w) (wi_created_at w) (wi_ordinal w) (wi_work_id w))"

end
