(* ===== verification/Store_Schema.thy ===== *)
theory Store_Schema
  imports Store_Tables
begin

text \<open>
  The invariant of the operational store. The structural part says what the columns that no \<^verbatim>\<open>UPDATE\<close>
  touches promise: the keys and unique columns of the schema, every reference, and the agreement of the
  columns that the tables repeat (a work item's run, plan and ordinal are its trial's). The state part
  speaks of the columns that the methods change: the active lease of a work item, the release time of a
  lease, the failure columns of an attempt. A method keeps the invariant because its updates leave the
  structural columns alone and its guards establish the columns of the rows that it inserts.
\<close>

section \<open>Structural columns\<close>

definition plan_cols :: "plan_row \<Rightarrow> uuid \<times> uuid" where
  "plan_cols p = (pr_plan_id p, pr_run_id p)"

definition trial_cols :: "trial_row \<Rightarrow> uuid \<times> uuid \<times> uuid \<times> int" where
  "trial_cols t = (tr_trial_id t, tr_plan_id t, tr_run_id t, tr_ordinal t)"

definition work_cols :: "work_row \<Rightarrow> uuid \<times> (uuid \<times> uuid \<times> uuid \<times> int) \<times> string" where
  "work_cols w = (wi_work_id w, (wi_trial_id w, wi_plan_id w, wi_run_id w, wi_ordinal w), wi_work_key w)"

definition lease_cols :: "lease_row \<Rightarrow> uuid \<times> uuid" where
  "lease_cols l = (le_lease_id l, le_work_id l)"

definition attempt_cols :: "attempt_row \<Rightarrow> uuid \<times> (uuid \<times> uuid \<times> uuid) \<times> int \<times> (int \<times> int) \<times> uuid option" where
  "attempt_cols a = (at_attempt_id a, (at_work_id a, at_trial_id a, at_run_id a), at_attempt_number a,
     (at_candidate_index a, at_retry_number a), at_lease_id a)"

definition submission_cols :: "submission_row \<Rightarrow> uuid \<times> uuid \<times> string" where
  "submission_cols s = (su_submission_id s, su_attempt_id s, su_backend s)"

text \<open>The conditions, table by table, over the structural columns.\<close>

definition plans_ok :: "uuid list \<Rightarrow> (uuid \<times> uuid) list \<Rightarrow> bool" where
  "plans_ok runs plans \<longleftrightarrow> distinct (map fst plans) \<and> (\<forall>(p, r)\<in>set plans. r \<in> set runs)"

definition trials_ok :: "(uuid \<times> uuid) list \<Rightarrow> (uuid \<times> uuid \<times> uuid \<times> int) list \<Rightarrow> bool" where
  "trials_ok plans trials \<longleftrightarrow> distinct (map fst trials)
     \<and> distinct (map (\<lambda>(t, p, r, n). (p, n)) trials)
     \<and> (\<forall>(t, p, r, n)\<in>set trials. (p, r) \<in> set plans \<and> 0 < n)"

definition work_ok :: "(uuid \<times> uuid \<times> uuid \<times> int) list
    \<Rightarrow> (uuid \<times> (uuid \<times> uuid \<times> uuid \<times> int) \<times> string) list \<Rightarrow> bool" where
  "work_ok trials work \<longleftrightarrow> distinct (map fst work)
     \<and> distinct (map (\<lambda>(w, t, k). fst t) work)
     \<and> distinct (map (\<lambda>(w, (t, p, r, n), k). (r, k)) work)
     \<and> (\<forall>(w, t, k)\<in>set work. t \<in> set trials)"

definition leases_ok :: "uuid list \<Rightarrow> (uuid \<times> uuid) list \<Rightarrow> bool" where
  "leases_ok works leases \<longleftrightarrow> distinct (map fst leases) \<and> (\<forall>(l, w)\<in>set leases. w \<in> set works)"

definition attempts_ok :: "(uuid \<times> uuid \<times> uuid) list \<Rightarrow> (uuid \<times> uuid) list
    \<Rightarrow> (uuid \<times> (uuid \<times> uuid \<times> uuid) \<times> int \<times> (int \<times> int) \<times> uuid option) list \<Rightarrow> bool" where
  "attempts_ok works leases attempts \<longleftrightarrow> distinct (map fst attempts)
     \<and> distinct (map (\<lambda>(a, w, n, c, l). (fst w, n)) attempts)
     \<and> distinct (map (\<lambda>(a, w, n, c, l). (fst w, c)) attempts)
     \<and> (\<forall>(a, w, n, c, l)\<in>set attempts. w \<in> set works \<and> 0 < n \<and> 0 < fst c \<and> 0 \<le> snd c
          \<and> optional_ok (\<lambda>k. (k, fst w) \<in> set leases) l)"

definition submissions_ok :: "uuid list \<Rightarrow> (uuid \<times> uuid \<times> string) list \<Rightarrow> bool" where
  "submissions_ok attempts subs \<longleftrightarrow> distinct (map fst subs) \<and> distinct (map snd subs)
     \<and> (\<forall>(s, a, b)\<in>set subs. a \<in> set attempts)"

definition work_refs :: "work_row \<Rightarrow> uuid \<times> uuid \<times> uuid" where
  "work_refs w = (wi_work_id w, wi_trial_id w, wi_run_id w)"

definition structure_ok :: "store \<Rightarrow> bool" where
  "structure_ok st \<longleftrightarrow> distinct (map rr_run_id (st_runs st))
     \<and> plans_ok (map rr_run_id (st_runs st)) (map plan_cols (st_plans st))
     \<and> trials_ok (map plan_cols (st_plans st)) (map trial_cols (st_trials st))
     \<and> work_ok (map trial_cols (st_trials st)) (map work_cols (st_work st))
     \<and> leases_ok (map wi_work_id (st_work st)) (map lease_cols (st_leases st))
     \<and> attempts_ok (map work_refs (st_work st)) (map lease_cols (st_leases st)) (map attempt_cols (st_attempts st))
     \<and> submissions_ok (map at_attempt_id (st_attempts st)) (map submission_cols (st_submissions st))"

section \<open>State columns\<close>

definition is_active :: "lease_row \<Rightarrow> bool" where
  "is_active l \<longleftrightarrow> le_state l = L_Active"

definition one_active :: "lease_row list \<Rightarrow> bool" where
  "one_active ls \<longleftrightarrow> distinct (map le_work_id (filter is_active ls))"

definition release_ok :: "lease_row \<Rightarrow> bool" where
  "release_ok l \<longleftrightarrow> (is_active l \<longleftrightarrow> le_released_at l = None)"

definition failure_ok :: "attempt_row \<Rightarrow> bool" where
  "failure_ok a \<longleftrightarrow>
     at_failure_class a = map_option failure_class_for_kind (at_failure_kind a)
     \<and> (at_failure_kind a = None \<longleftrightarrow> at_failure_message a = None)
     \<and> (at_state a \<in> {A_Succeeded, A_Cancelled} \<longrightarrow> at_failure_kind a = None)"

definition states_ok :: "store \<Rightarrow> bool" where
  "states_ok st \<longleftrightarrow> one_active (st_leases st) \<and> list_all release_ok (st_leases st)
     \<and> list_all failure_ok (st_attempts st)"

definition store_inv :: "store \<Rightarrow> bool" where
  "store_inv st \<longleftrightarrow> structure_ok st \<and> states_ok st"

lemma store_inv_empty: "store_inv empty_store"
  by (simp add: store_inv_def structure_ok_def states_ok_def empty_store_def one_active_def
      plans_ok_def trials_ok_def work_ok_def leases_ok_def attempts_ok_def submissions_ok_def)

section \<open>Updates keep the structure\<close>

named_theorems inv_update \<open>an update that leaves the structural columns alone keeps the invariant\<close>

lemma inv_upd_runs [inv_update]:
  "(\<And>r. rr_run_id (f r) = rr_run_id r) \<Longrightarrow> store_inv (upd_runs p f st) = store_inv st"
  by (simp add: store_inv_def structure_ok_def states_ok_def update_rows_cong_map)

lemma inv_upd_plans [inv_update]:
  "(\<And>r. plan_cols (f r) = plan_cols r) \<Longrightarrow> store_inv (upd_plans p f st) = store_inv st"
  by (simp add: store_inv_def structure_ok_def states_ok_def update_rows_cong_map)

lemma inv_upd_trials [inv_update]:
  "(\<And>r. trial_cols (f r) = trial_cols r) \<Longrightarrow> store_inv (upd_trials p f st) = store_inv st"
  by (simp add: store_inv_def structure_ok_def states_ok_def update_rows_cong_map)

lemma inv_upd_work [inv_update]:
  assumes "\<And>r. work_cols (f r) = work_cols r"
  shows "store_inv (upd_work p f st) = store_inv st"
proof -
  have "wi_work_id (f r) = wi_work_id r" "work_refs (f r) = work_refs r" for r
    using assms [of r] by (simp_all add: work_cols_def work_refs_def)
  then show ?thesis using assms
    by (simp add: store_inv_def structure_ok_def states_ok_def update_rows_cong_map)
qed

lemma inv_upd_submissions [inv_update]:
  "(\<And>r. submission_cols (f r) = submission_cols r) \<Longrightarrow> store_inv (upd_submissions p f st) = store_inv st"
  by (simp add: store_inv_def structure_ok_def states_ok_def update_rows_cong_map)

lemma list_all_update_rows:
  "list_all q rows \<Longrightarrow> (\<And>r. r \<in> set rows \<Longrightarrow> p r \<Longrightarrow> q r \<Longrightarrow> q (f r)) \<Longrightarrow> list_all q (update_rows p f rows)"
  by (auto simp: list_all_iff set_update_rows)

lemma one_active_update:
  assumes "one_active ls" and "\<And>l. le_work_id (f l) = le_work_id l" and "\<And>l. p l \<Longrightarrow> is_active (f l) \<Longrightarrow> is_active l"
  shows "one_active (update_rows p f ls)"
proof -
  have sub: "set (map le_work_id (filter is_active (update_rows p f xs))) \<subseteq> set (map le_work_id (filter is_active xs))"
    for xs
    using assms(2,3) by (induction xs) auto
  show ?thesis using assms(1)
  proof (induction ls)
    case Nil
    then show ?case by (simp add: one_active_def)
  next
    case (Cons l ls)
    then have IH: "one_active (update_rows p f ls)"
      by (simp add: one_active_def split: if_splits)
    have "is_active l \<Longrightarrow> le_work_id l \<notin> set (map le_work_id (filter is_active (update_rows p f ls)))"
      using Cons.prems sub [of ls] by (auto simp: one_active_def)
    then show ?case using IH assms(2,3) by (auto simp: one_active_def)
  qed
qed

text \<open>An update of leases may end leases or move their times; it may not revive one.\<close>

lemma inv_upd_leases:
  assumes "store_inv st" and "\<And>l. lease_cols (f l) = lease_cols l"
    and "\<And>l. p l \<Longrightarrow> is_active (f l) \<Longrightarrow> is_active l"
    and "\<And>l. p l \<Longrightarrow> release_ok l \<Longrightarrow> release_ok (f l)"
  shows "store_inv (upd_leases p f st)"
proof -
  have "le_work_id (f l) = le_work_id l" for l using assms(2) [of l] by (simp add: lease_cols_def)
  then show ?thesis using assms
    by (auto simp: store_inv_def structure_ok_def states_ok_def update_rows_cong_map
        intro!: one_active_update list_all_update_rows)
qed

lemma inv_upd_attempts:
  assumes "store_inv st" and "\<And>a. attempt_cols (f a) = attempt_cols a"
    and "\<And>a. a \<in> set (st_attempts st) \<Longrightarrow> p a \<Longrightarrow> failure_ok a \<Longrightarrow> failure_ok (f a)"
  shows "store_inv (upd_attempts p f st)"
proof -
  have "at_attempt_id (f a) = at_attempt_id a" for a using assms(2) [of a] by (simp add: attempt_cols_def)
  then show ?thesis using assms
    by (auto simp: store_inv_def structure_ok_def states_ok_def update_rows_cong_map
        intro!: list_all_update_rows)
qed

section \<open>Inserts that keep the structure\<close>

text \<open>A row more in a referenced table breaks no reference.\<close>

lemma refs_grow [intro]:
  "plans_ok rs ps \<Longrightarrow> plans_ok (rs @ [r]) ps"
  "trials_ok ps ts \<Longrightarrow> trials_ok (ps @ [p]) ts"
  "work_ok ts ws \<Longrightarrow> work_ok (ts @ [t]) ws"
  "leases_ok us ls \<Longrightarrow> leases_ok (us @ [u]) ls"
  "attempts_ok vs ls as \<Longrightarrow> attempts_ok (vs @ [v]) ls as"
  "attempts_ok vs ls as \<Longrightarrow> attempts_ok vs (ls @ [l]) as"
  "submissions_ok us ss \<Longrightarrow> submissions_ok (us @ [u]) ss"
  by (fastforce simp: plans_ok_def trials_ok_def work_ok_def leases_ok_def attempts_ok_def submissions_ok_def
      optional_ok_def split: option.splits)+

text \<open>A row more in the table itself.\<close>

lemma plans_ok_snoc: "plans_ok rs (ps @ [(p, r)]) \<longleftrightarrow> plans_ok rs ps \<and> p \<notin> fst ` set ps \<and> r \<in> set rs"
  by (auto simp: plans_ok_def)

lemma trials_ok_snoc: "trials_ok ps (ts @ [(t, p, r, n)]) \<longleftrightarrow>
    trials_ok ps ts \<and> t \<notin> fst ` set ts \<and> (p, n) \<notin> (\<lambda>(t, p, r, n). (p, n)) ` set ts \<and> (p, r) \<in> set ps \<and> 0 < n"
  by (auto simp: trials_ok_def)

lemma work_ok_snoc: "work_ok ts (ws @ [(w, (t, p, r, n), k)]) \<longleftrightarrow>
    work_ok ts ws \<and> w \<notin> fst ` set ws \<and> t \<notin> (\<lambda>(w, t, k). fst t) ` set ws
    \<and> (r, k) \<notin> (\<lambda>(w, (t, p, r, n), k). (r, k)) ` set ws \<and> (t, p, r, n) \<in> set ts"
  by (auto simp: work_ok_def)

lemma leases_ok_snoc: "leases_ok us (ls @ [(l, w)]) \<longleftrightarrow> leases_ok us ls \<and> l \<notin> fst ` set ls \<and> w \<in> set us"
  by (auto simp: leases_ok_def)

lemma attempts_ok_snoc: "attempts_ok vs ls (as @ [(a, (w, t, r), n, c, k)]) \<longleftrightarrow>
    attempts_ok vs ls as \<and> a \<notin> fst ` set as
    \<and> (w, n) \<notin> (\<lambda>(a, w, n, c, l). (fst w, n)) ` set as \<and> (w, c) \<notin> (\<lambda>(a, w, n, c, l). (fst w, c)) ` set as
    \<and> (w, t, r) \<in> set vs \<and> 0 < n \<and> 0 < fst c \<and> 0 \<le> snd c \<and> optional_ok (\<lambda>l. (l, w) \<in> set ls) k"
  by (auto simp: attempts_ok_def)

lemma submissions_ok_snoc: "submissions_ok us (ss @ [(s, a, b)]) \<longleftrightarrow>
    submissions_ok us ss \<and> s \<notin> fst ` set ss \<and> (a, b) \<notin> snd ` set ss \<and> a \<in> set us"
  by (auto simp: submissions_ok_def)

lemma one_active_snoc:
  "one_active (ls @ [l]) \<longleftrightarrow> one_active ls
     \<and> \<not> (is_active l \<and> list_ex (\<lambda>k. le_work_id k = le_work_id l \<and> is_active k) ls)"
  by (auto simp: one_active_def list_ex_iff image_iff)

lemmas snocs = plans_ok_snoc trials_ok_snoc work_ok_snoc leases_ok_snoc attempts_ok_snoc submissions_ok_snoc

lemma inv_insert_run: "store_inv st \<Longrightarrow> insert_run r st = Inr st' \<Longrightarrow> store_inv st'"
  by (auto simp: insert_run_def store_inv_def structure_ok_def states_ok_def find_row_None_iff)

lemma inv_insert_plan: "store_inv st \<Longrightarrow> insert_plan p st = Inr st' \<Longrightarrow> store_inv st'"
  by (auto simp: insert_plan_def store_inv_def structure_ok_def states_ok_def snocs plan_cols_def
      find_row_None_iff image_image dest: find_row_Some_key)

lemma inv_insert_trial:
  assumes "insert_trial t st = Inr st'" "store_inv st" "the_plan (tr_plan_id t) st = Some p"
    "pr_run_id p = tr_run_id t"
  shows "store_inv st'"
proof -
  have "plan_cols p = (tr_plan_id t, tr_run_id t)" "p \<in> set (st_plans st)"
    using assms(3,4) by (auto simp: plan_cols_def dest: find_row_Some_key)
  then have "(tr_plan_id t, tr_run_id t) \<in> plan_cols ` set (st_plans st)" by force
  then show ?thesis using assms(1,2)
    by (auto simp: insert_trial_def store_inv_def structure_ok_def states_ok_def snocs
        find_row_None_iff trial_cols_def list_ex_iff)
qed

lemma inv_insert_work:
  assumes "insert_work w st = Inr st'" "store_inv st" "the_trial (wi_trial_id w) st = Some t"
    "tr_plan_id t = wi_plan_id w" "tr_run_id t = wi_run_id w" "tr_ordinal t = wi_ordinal w"
  shows "store_inv st'"
proof -
  have "trial_cols t = (wi_trial_id w, wi_plan_id w, wi_run_id w, wi_ordinal w)" "t \<in> set (st_trials st)"
    using assms(3-) by (auto simp: trial_cols_def dest: find_row_Some_key)
  then have "(wi_trial_id w, wi_plan_id w, wi_run_id w, wi_ordinal w) \<in> trial_cols ` set (st_trials st)" by force
  then show ?thesis using assms(1,2)
    by (auto simp: insert_work_def store_inv_def structure_ok_def states_ok_def snocs
        find_row_None_iff work_cols_def list_ex_iff)
qed

lemma inv_insert_lease:
  assumes "insert_lease l st = Inr st'" "store_inv st" "release_ok l"
  shows "store_inv st'"
proof -
  have "le_work_id l \<in> wi_work_id ` set (st_work st)"
    using assms(1) find_row_None_iff [of wi_work_id "le_work_id l" "st_work st"] by (simp add: insert_lease_def)
  then show ?thesis using assms
    by (auto simp: insert_lease_def store_inv_def structure_ok_def states_ok_def snocs
        find_row_None_iff lease_cols_def one_active_snoc is_active_def list_ex_iff)
qed

lemma inv_insert_attempt:
  assumes "insert_attempt a st = Inr st'" "store_inv st" "the_work (at_work_id a) st = Some w"
    "wi_trial_id w = at_trial_id a" "wi_run_id w = at_run_id a"
    "\<And>k. at_lease_id a = Some k \<Longrightarrow> \<exists>l. the_lease k st = Some l \<and> le_work_id l = at_work_id a"
    "failure_ok a"
  shows "store_inv st'"
proof -
  have "work_refs w = (at_work_id a, at_trial_id a, at_run_id a)" "w \<in> set (st_work st)"
    using assms(3-5) by (auto simp: work_refs_def dest: find_row_Some_key)
  then have ref: "(at_work_id a, at_trial_id a, at_run_id a) \<in> work_refs ` set (st_work st)" by force
  have lease: "optional_ok (\<lambda>k. (k, at_work_id a) \<in> lease_cols ` set (st_leases st)) (at_lease_id a)"
    using assms(6) by (fastforce simp: optional_ok_def lease_cols_def image_iff split: option.split
        dest!: find_row_Some_key)
  have fresh: "at_attempt_id a \<notin> fst ` attempt_cols ` set (st_attempts st)"
    "(at_work_id a, at_attempt_number a) \<notin> (\<lambda>(a, w, n, c, l). (fst w, n)) ` attempt_cols ` set (st_attempts st)"
    "(at_work_id a, at_candidate_index a, at_retry_number a)
       \<notin> (\<lambda>(a, w, n, c, l). (fst w, c)) ` attempt_cols ` set (st_attempts st)"
    "0 < at_attempt_number a" "0 < at_candidate_index a" "0 \<le> at_retry_number a"
    "st' = st\<lparr>st_attempts := st_attempts st @ [a]\<rparr>"
    using assms(1) by (auto simp: insert_attempt_def find_row_None_iff attempt_cols_def list_ex_iff)
  have cols: "attempt_cols a = (at_attempt_id a, (at_work_id a, at_trial_id a, at_run_id a), at_attempt_number a,
     (at_candidate_index a, at_retry_number a), at_lease_id a)"
    by (simp add: attempt_cols_def)
  show ?thesis using assms(2,7) ref lease fresh
    by (auto simp: store_inv_def structure_ok_def states_ok_def attempts_ok_snoc cols)
qed

lemma inv_insert_submission: "store_inv st \<Longrightarrow> insert_submission s st = Inr st' \<Longrightarrow> store_inv st'"
  by (auto simp: insert_submission_def store_inv_def structure_ok_def states_ok_def snocs
      find_row_None_iff submission_cols_def list_ex_iff dest: find_row_Some_key)

end
