(* ===== verification/Store_Runs.thy ===== *)
theory Store_Runs
  imports Store_Schema
begin

text \<open>
  The methods of \<^verbatim>\<open>OperationalStore\<close> on runs, plans, planned trials and work items. A method is a
  transaction body (\<open>..._txn\<close>) behind its argument checks. \<open>clock\<close> is the reading of
  \<^verbatim>\<open>datetime.now(UTC)\<close>, used when the caller passes no \<open>now\<close>.
\<close>

section \<open>Runs\<close>

definition create_run_txn :: "uuid \<Rightarrow> run_status \<Rightarrow> string \<Rightarrow> int \<Rightarrow> run_row txn" where
  "create_run_txn run_id status spec_ref stamp st =
     (case the_run run_id st of
        Some existing \<Rightarrow>
          if rr_spec_ref existing \<noteq> spec_ref
          then Inl (Store_Conflict ''run identity already has different content'')
          else reread (the_run run_id st) st
      | None \<Rightarrow>
          bindE (insert_run
            \<lparr>rr_run_id = run_id, rr_status = status, rr_spec_ref = spec_ref, rr_created_at = stamp,
             rr_started_at = None, rr_finished_at = None, rr_updated_at = stamp,
             rr_cancellation_requested_at = None\<rparr> st) (\<lambda>st'.
          reread (the_run run_id st') st'))"

definition create_run :: "int \<Rightarrow> uuid \<Rightarrow> string \<Rightarrow> run_status \<Rightarrow> py_datetime option \<Rightarrow> run_row store_op" where
  "create_run clock run_id spec_ref status now =
     checked (bindE (checked_id ''run_id'' run_id) (\<lambda>rid.
              bindE (now_or_clock clock now) (\<lambda>stamp.
              bindE (required_ref ''spec_ref'' spec_ref) (\<lambda>ref. Inr (rid, stamp, ref)))))
       (\<lambda>(rid, stamp, ref). write_txn (create_run_txn rid status ref stamp))"

definition update_run_txn :: "uuid \<Rightarrow> run_status \<Rightarrow> int \<Rightarrow> run_row txn" where
  "update_run_txn run_id status stamp st =
     bindE (require_row ''operational_runs'' (the_run run_id st)) (\<lambda>_.
       let started_at = (if status = Run_Running then Some stamp else None);
           finished_at = (if status \<in> {Run_Completed, Run_Failed, Run_Cancelled} then Some stamp else None);
           st' = upd_runs (\<lambda>r. rr_run_id r = run_id)
             (\<lambda>r. r\<lparr>rr_status := status, rr_started_at := coalesce (rr_started_at r) started_at,
                rr_finished_at := coalesce (rr_finished_at r) finished_at, rr_updated_at := stamp\<rparr>) st
       in reread (the_run run_id st') st')"

definition update_run :: "int \<Rightarrow> uuid \<Rightarrow> run_status \<Rightarrow> py_datetime option \<Rightarrow> run_row store_op" where
  "update_run clock run_id status now =
     checked (bindE (checked_id ''run_id'' run_id) (\<lambda>rid.
              bindE (now_or_clock clock now) (\<lambda>stamp. Inr (rid, stamp))))
       (\<lambda>(rid, stamp). write_txn (update_run_txn rid status stamp))"

definition get_run :: "uuid \<Rightarrow> run_row store_op" where
  "get_run run_id = readS (\<lambda>st. bindE (checked_id ''run_id'' run_id) (\<lambda>rid.
     require_row ''operational_runs'' (the_run rid st)))"

section \<open>Cancellation\<close>

fun terminal_trial :: "trial_state \<Rightarrow> bool" where
  "terminal_trial s \<longleftrightarrow> s \<in> {T_Succeeded, T_Failed, T_Cancelled, T_Invalid}"

fun terminal_work :: "work_state \<Rightarrow> bool" where
  "terminal_work s \<longleftrightarrow> s \<in> {W_Succeeded, W_Failed, W_Cancelled, W_Invalid}"

fun terminal_run :: "run_status \<Rightarrow> bool" where
  "terminal_run s \<longleftrightarrow> s \<in> {Run_Completed, Run_Failed, Run_Cancelled}"

text \<open>\<^verbatim>\<open>CASE WHEN state = 'queued' THEN 'cancelled' WHEN state IN ('leased', 'running') ...\<close>\<close>

definition cancel_work_state :: "work_state \<Rightarrow> work_state" where
  "cancel_work_state s = (if s = W_Queued then W_Cancelled
     else if s \<in> {W_Leased, W_Running} then W_Cancel_Requested else s)"

definition cancel_rows :: "(work_row \<Rightarrow> bool) \<Rightarrow> (trial_row \<Rightarrow> bool) \<Rightarrow> int \<Rightarrow> store \<Rightarrow> store" where
  "cancel_rows works trials stamp st =
     upd_trials (\<lambda>t. trials t \<and> tr_state t \<in> {T_Planned, T_Queued})
         (\<lambda>t. t\<lparr>tr_state := T_Cancelled, tr_updated_at := stamp\<rparr>)
       (upd_work (\<lambda>w. works w \<and> wi_state w \<in> {W_Queued, W_Leased, W_Running})
         (\<lambda>w. w\<lparr>wi_state := cancel_work_state (wi_state w), wi_updated_at := stamp\<rparr>) st)"

definition close_terminal_plans :: "uuid \<Rightarrow> int \<Rightarrow> store \<Rightarrow> store" where
  "close_terminal_plans run_id stamp st =
     upd_plans (\<lambda>p. pr_run_id p = run_id
         \<and> \<not> list_ex (\<lambda>t. tr_plan_id t = pr_plan_id p \<and> \<not> terminal_trial (tr_state t)) (st_trials st)
         \<and> \<not> list_ex (\<lambda>w. wi_plan_id w = pr_plan_id p \<and> \<not> terminal_work (wi_state w)) (st_work st))
       (\<lambda>p. p\<lparr>pr_state := Plan_Closed, pr_updated_at := stamp\<rparr>) st"

definition open_rows :: "uuid \<Rightarrow> store \<Rightarrow> nat" where
  "open_rows run_id st =
     length (filter (\<lambda>t. tr_run_id t = run_id \<and> \<not> terminal_trial (tr_state t)) (st_trials st))
     + length (filter (\<lambda>w. wi_run_id w = run_id \<and> \<not> terminal_work (wi_state w)) (st_work st))"

definition mark_run_cancelled :: "uuid \<Rightarrow> int \<Rightarrow> store \<Rightarrow> store" where
  "mark_run_cancelled run_id stamp st =
     upd_runs (\<lambda>r. rr_run_id r = run_id)
       (\<lambda>r. r\<lparr>rr_status := Run_Cancelled, rr_finished_at := coalesce (rr_finished_at r) (Some stamp),
          rr_updated_at := stamp\<rparr>) st"

definition request_cancellation_txn :: "uuid \<Rightarrow> uuid option \<Rightarrow> int \<Rightarrow> run_row txn" where
  "request_cancellation_txn run_id trial_id stamp st =
     bindE (require_row ''operational_runs'' (the_run run_id st)) (\<lambda>run.
       if terminal_run (rr_status run) then Inr (run, st)
       else bindE (case trial_id of
           None \<Rightarrow> Inr (cancel_rows (\<lambda>w. wi_run_id w = run_id) (\<lambda>t. tr_run_id t = run_id) stamp
             (upd_runs (\<lambda>r. rr_run_id r = run_id)
               (\<lambda>r. r\<lparr>rr_cancellation_requested_at := coalesce (rr_cancellation_requested_at r) (Some stamp),
                  rr_updated_at := stamp\<rparr>) st))
         | Some tid \<Rightarrow>
             bindE (require_row ''operational_planned_trials'' (the_trial tid st)) (\<lambda>trial.
             bindE (guardE (tr_run_id trial = run_id) (Store_Conflict ''trial belongs to a different run'')) (\<lambda>_.
             Inr (cancel_rows (\<lambda>w. wi_trial_id w = tid) (\<lambda>t. tr_trial_id t = tid) stamp st))))
       (\<lambda>st1. let st2 = close_terminal_plans run_id stamp st1;
                  st3 = (if open_rows run_id st2 = 0 then mark_run_cancelled run_id stamp st2 else st2)
              in reread (the_run run_id st3) st3))"

definition request_cancellation :: "int \<Rightarrow> uuid \<Rightarrow> uuid option \<Rightarrow> py_datetime option \<Rightarrow> run_row store_op" where
  "request_cancellation clock run_id trial_id now =
     checked (bindE (checked_id ''run_id'' run_id) (\<lambda>rid.
              bindE (checked_optional_id ''trial_id'' trial_id) (\<lambda>tid.
              bindE (now_or_clock clock now) (\<lambda>stamp. Inr (rid, tid, stamp)))))
       (\<lambda>(rid, tid, stamp). write_txn (request_cancellation_txn rid tid stamp))"

section \<open>Plans and planned trials\<close>

definition put_plan_txn :: "uuid \<Rightarrow> uuid \<Rightarrow> string \<Rightarrow> plan_status \<Rightarrow> int \<Rightarrow> plan_row txn" where
  "put_plan_txn plan_id run_id plan_ref state stamp st =
     bindE (require_row ''operational_runs'' (the_run run_id st)) (\<lambda>_.
       case the_plan plan_id st of
         Some existing \<Rightarrow>
           if pr_run_id existing \<noteq> run_id \<or> pr_plan_ref existing \<noteq> plan_ref
           then Inl (Store_Conflict ''plan identity already has different content'')
           else Inr (existing, st)
       | None \<Rightarrow>
           bindE (insert_plan
             \<lparr>pr_plan_id = plan_id, pr_run_id = run_id, pr_state = state, pr_plan_ref = plan_ref,
              pr_created_at = stamp, pr_updated_at = stamp\<rparr> st) (\<lambda>st'.
           reread (the_plan plan_id st') st'))"

definition put_plan :: "int \<Rightarrow> uuid \<Rightarrow> uuid \<Rightarrow> string \<Rightarrow> plan_status \<Rightarrow> py_datetime option \<Rightarrow> plan_row store_op" where
  "put_plan clock plan_id run_id plan_ref state now =
     checked (bindE (checked_id ''plan_id'' plan_id) (\<lambda>pid.
              bindE (checked_id ''run_id'' run_id) (\<lambda>rid.
              bindE (required_ref ''plan_ref'' plan_ref) (\<lambda>ref.
              bindE (now_or_clock clock now) (\<lambda>stamp. Inr (pid, rid, ref, stamp))))))
       (\<lambda>(pid, rid, ref, stamp). write_txn (put_plan_txn pid rid ref state stamp))"

definition get_plan :: "uuid \<Rightarrow> plan_row store_op" where
  "get_plan plan_id = readS (\<lambda>st. bindE (checked_id ''plan_id'' plan_id) (\<lambda>pid.
     require_row ''operational_plans'' (the_plan pid st)))"

definition update_plan_txn :: "uuid \<Rightarrow> plan_status \<Rightarrow> int \<Rightarrow> plan_row txn" where
  "update_plan_txn plan_id state stamp st =
     bindE (require_row ''operational_plans'' (the_plan plan_id st)) (\<lambda>_.
       let st' = upd_plans (\<lambda>p. pr_plan_id p = plan_id) (\<lambda>p. p\<lparr>pr_state := state, pr_updated_at := stamp\<rparr>) st
       in reread (the_plan plan_id st') st')"

definition update_plan :: "int \<Rightarrow> uuid \<Rightarrow> plan_status \<Rightarrow> py_datetime option \<Rightarrow> plan_row store_op" where
  "update_plan clock plan_id state now =
     checked (bindE (checked_id ''plan_id'' plan_id) (\<lambda>pid.
              bindE (now_or_clock clock now) (\<lambda>stamp. Inr (pid, stamp))))
       (\<lambda>(pid, stamp). write_txn (update_plan_txn pid state stamp))"

definition put_planned_trial_txn :: "uuid \<Rightarrow> uuid \<Rightarrow> uuid \<Rightarrow> int \<Rightarrow> trial_state \<Rightarrow> int \<Rightarrow> trial_row txn" where
  "put_planned_trial_txn trial_id plan_id run_id ordinal state stamp st =
     bindE (require_row ''operational_plans'' (the_plan plan_id st)) (\<lambda>plan.
     bindE (require_row ''operational_runs'' (the_run run_id st)) (\<lambda>_.
     bindE (guardE (pr_run_id plan = run_id) (Store_Conflict ''planned trial plan belongs to a different run'')) (\<lambda>_.
       case the_trial trial_id st of
         Some existing \<Rightarrow>
           if (tr_plan_id existing, tr_run_id existing, tr_ordinal existing) \<noteq> (plan_id, run_id, ordinal)
           then Inl (Store_Conflict ''trial identity already has different content'')
           else Inr (existing, st)
       | None \<Rightarrow>
           bindE (guardE (\<not> list_ex (\<lambda>t. tr_plan_id t = plan_id \<and> tr_ordinal t = ordinal) (st_trials st))
             (Store_Conflict ''plan ordinal already belongs to another trial'')) (\<lambda>_.
           bindE (insert_trial
             \<lparr>tr_trial_id = trial_id, tr_plan_id = plan_id, tr_run_id = run_id, tr_ordinal = ordinal,
              tr_state = state, tr_created_at = stamp, tr_updated_at = stamp\<rparr> st) (\<lambda>st'.
           reread (the_trial trial_id st') st')))))"

definition put_planned_trial :: "int \<Rightarrow> uuid \<Rightarrow> uuid \<Rightarrow> uuid \<Rightarrow> int \<Rightarrow> trial_state \<Rightarrow> py_datetime option
    \<Rightarrow> trial_row store_op" where
  "put_planned_trial clock trial_id plan_id run_id ordinal state now =
     checked (bindE (checked_id ''trial_id'' trial_id) (\<lambda>tid.
              bindE (checked_id ''plan_id'' plan_id) (\<lambda>pid.
              bindE (checked_id ''run_id'' run_id) (\<lambda>rid.
              bindE (guardE (0 < ordinal) (Value_Error ''ordinal must be greater than zero'')) (\<lambda>_.
              bindE (now_or_clock clock now) (\<lambda>stamp. Inr (tid, pid, rid, stamp)))))))
       (\<lambda>(tid, pid, rid, stamp). write_txn (put_planned_trial_txn tid pid rid ordinal state stamp))"

definition get_planned_trial :: "uuid \<Rightarrow> trial_row store_op" where
  "get_planned_trial trial_id = readS (\<lambda>st. bindE (checked_id ''trial_id'' trial_id) (\<lambda>tid.
     require_row ''operational_planned_trials'' (the_trial tid st)))"

definition update_planned_trial_txn :: "uuid \<Rightarrow> trial_state \<Rightarrow> int \<Rightarrow> trial_row txn" where
  "update_planned_trial_txn trial_id state stamp st =
     bindE (require_row ''operational_planned_trials'' (the_trial trial_id st)) (\<lambda>_.
       let st' = upd_trials (\<lambda>t. tr_trial_id t = trial_id) (\<lambda>t. t\<lparr>tr_state := state, tr_updated_at := stamp\<rparr>) st
       in reread (the_trial trial_id st') st')"

definition update_planned_trial :: "int \<Rightarrow> uuid \<Rightarrow> trial_state \<Rightarrow> py_datetime option \<Rightarrow> trial_row store_op" where
  "update_planned_trial clock trial_id state now =
     checked (bindE (checked_id ''trial_id'' trial_id) (\<lambda>tid.
              bindE (now_or_clock clock now) (\<lambda>stamp. Inr (tid, stamp))))
       (\<lambda>(tid, stamp). write_txn (update_planned_trial_txn tid state stamp))"

text \<open>
  The two counts of \<^verbatim>\<open>complete_plan_if_terminal\<close>, for the rows that belong to a plan or to a run:
  every planned trial and every work item is terminal, and each trial has its work item.
\<close>

definition rows_complete :: "(trial_row \<Rightarrow> bool) \<Rightarrow> (work_row \<Rightarrow> bool) \<Rightarrow> store \<Rightarrow> bool" where
  "rows_complete trials works st \<longleftrightarrow>
     (let planned = filter trials (st_trials st); work = filter works (st_work st)
      in length planned \<noteq> 0 \<and> length work = length planned
         \<and> length (filter (\<lambda>t. \<not> terminal_trial (tr_state t)) planned) = 0
         \<and> length (filter (\<lambda>w. \<not> terminal_work (wi_state w)) work) = 0)"

definition complete_plan_if_terminal_txn :: "uuid \<Rightarrow> uuid \<Rightarrow> int \<Rightarrow> (plan_row \<times> run_row) option txn" where
  "complete_plan_if_terminal_txn plan_id run_id stamp st =
     bindE (require_row ''operational_plans'' (the_plan plan_id st)) (\<lambda>plan.
     bindE (guardE (pr_run_id plan = run_id) (Store_Conflict ''plan belongs to a different run'')) (\<lambda>_.
       if \<not> rows_complete (\<lambda>t. tr_plan_id t = plan_id) (\<lambda>w. wi_plan_id w = plan_id) st then Inr (None, st)
       else
         let st1 = upd_plans (\<lambda>p. pr_plan_id p = plan_id)
               (\<lambda>p. p\<lparr>pr_state := Plan_Closed, pr_updated_at := stamp\<rparr>) st in
         bindE (if rows_complete (\<lambda>t. tr_run_id t = run_id) (\<lambda>w. wi_run_id w = run_id) st1
           then bindE (reread (the_run run_id st1) st1) (\<lambda>(run, _).
             let run_status = (if rr_cancellation_requested_at run \<noteq> None then Run_Cancelled else Run_Completed)
             in Inr (upd_runs (\<lambda>r. rr_run_id r = run_id)
                  (\<lambda>r. r\<lparr>rr_status := run_status, rr_finished_at := coalesce (rr_finished_at r) (Some stamp),
                     rr_updated_at := stamp\<rparr>) st1))
           else Inr st1) (\<lambda>st2.
         bindE (reread (the_plan plan_id st2) st2) (\<lambda>(plan', _).
         bindE (reread (the_run run_id st2) st2) (\<lambda>(run', _).
         Inr (Some (plan', run'), st2))))))"

definition complete_plan_if_terminal :: "int \<Rightarrow> uuid \<Rightarrow> uuid \<Rightarrow> py_datetime option
    \<Rightarrow> (plan_row \<times> run_row) option store_op" where
  "complete_plan_if_terminal clock plan_id run_id now =
     checked (bindE (checked_id ''plan_id'' plan_id) (\<lambda>pid.
              bindE (checked_id ''run_id'' run_id) (\<lambda>rid.
              bindE (now_or_clock clock now) (\<lambda>stamp. Inr (pid, rid, stamp)))))
       (\<lambda>(pid, rid, stamp). write_txn (complete_plan_if_terminal_txn pid rid stamp))"

section \<open>Work items\<close>

text \<open>The columns that the identity of a work item fixes.\<close>

definition work_immutable :: "work_row \<Rightarrow> (string \<times> uuid \<times> uuid \<times> string \<times> int \<times> uuid \<times> int)
    \<times> (string \<times> string \<times> string \<times> string \<times> string) \<times> int \<times> retry_policy" where
  "work_immutable w =
     ((wi_work_key w, wi_run_id w, wi_trial_id w, wi_kind w, wi_priority w, wi_plan_id w, wi_ordinal w),
      (wi_execution_family w, wi_backend w, wi_provider_route w, wi_model_route w, wi_resource_class w),
      wi_available_at w, wi_retry_policy w)"

definition create_work_item_txn :: "work_row \<Rightarrow> work_row txn" where
  "create_work_item_txn w st =
     bindE (require_row ''operational_runs'' (the_run (wi_run_id w) st)) (\<lambda>_.
     bindE (require_row ''operational_planned_trials'' (the_trial (wi_trial_id w) st)) (\<lambda>trial.
     bindE (require_row ''operational_plans'' (the_plan (wi_plan_id w) st)) (\<lambda>plan.
     bindE (guardE (\<not> (pr_run_id plan \<noteq> wi_run_id w \<or> tr_plan_id trial \<noteq> wi_plan_id w
         \<or> tr_run_id trial \<noteq> wi_run_id w))
       (Store_Conflict ''work item trial belongs to a different run'')) (\<lambda>_.
     bindE (guardE (tr_ordinal trial = wi_ordinal w)
       (Store_Conflict ''work item ordinal does not match planned trial'')) (\<lambda>_.
       case the_work (wi_work_id w) st of
         Some existing \<Rightarrow>
           if work_immutable existing \<noteq> work_immutable w
           then Inl (Store_Conflict ''work item identity already has different content'')
           else Inr (existing, st)
       | None \<Rightarrow>
           bindE (guardE (\<not> list_ex (\<lambda>v. wi_trial_id v = wi_trial_id w) (st_work st))
             (Store_Conflict ''trial already belongs to another work item'')) (\<lambda>_.
           bindE (guardE (\<not> list_ex (\<lambda>v. wi_run_id v = wi_run_id w \<and> wi_work_key v = wi_work_key w) (st_work st))
             (Store_Conflict ''work key already belongs to another work item'')) (\<lambda>_.
           bindE (insert_work w st) (\<lambda>st'.
           reread (the_work (wi_work_id w) st') st'))))))))"

text \<open>
  The arguments of \<^verbatim>\<open>create_work_item\<close> are the columns of the requested row; the state and the time
  stamps of the row given are replaced. \<open>available_at\<close> and \<open>now\<close> are the caller's time stamps.
\<close>

definition check_work_item :: "int \<Rightarrow> work_row \<Rightarrow> py_datetime \<Rightarrow> py_datetime option \<Rightarrow> store_error + work_row" where
  "check_work_item clock w available_at now =
     bindE (checked_id ''work_id'' (wi_work_id w)) (\<lambda>_.
     bindE (required_key ''work_key'' (wi_work_key w)) (\<lambda>_.
     bindE (checked_id ''run_id'' (wi_run_id w)) (\<lambda>_.
     bindE (checked_id ''trial_id'' (wi_trial_id w)) (\<lambda>_.
     bindE (required_text ''kind'' (wi_kind w)) (\<lambda>_.
     bindE (checked_id ''plan_id'' (wi_plan_id w)) (\<lambda>_.
     bindE (guardE (0 < wi_ordinal w) (Value_Error ''ordinal must be greater than zero'')) (\<lambda>_.
     bindE (required_text ''execution_family'' (wi_execution_family w)) (\<lambda>_.
     bindE (required_key ''backend'' (wi_backend w)) (\<lambda>_.
     bindE (required_key ''provider_route'' (wi_provider_route w)) (\<lambda>_.
     bindE (required_key ''model_route'' (wi_model_route w)) (\<lambda>_.
     bindE (required_key ''resource_class'' (wi_resource_class w)) (\<lambda>_.
     bindE (now_or_clock clock now) (\<lambda>created_at.
     bindE (aware ''available_at'' available_at) (\<lambda>available.
     bindE (guardE (\<not> available < created_at)
       (Value_Error ''work item available_at must not precede created_at'')) (\<lambda>_.
       Inr (w\<lparr>wi_state := W_Queued, wi_created_at := created_at, wi_updated_at := created_at,
              wi_available_at := available\<rparr>))))))))))))))))"

definition create_work_item :: "int \<Rightarrow> work_row \<Rightarrow> py_datetime \<Rightarrow> py_datetime option \<Rightarrow> work_row store_op" where
  "create_work_item clock w available_at now =
     checked (check_work_item clock w available_at now) (\<lambda>w'. write_txn (create_work_item_txn w'))"

definition update_work_item_txn :: "uuid \<Rightarrow> work_state \<Rightarrow> py_datetime option \<Rightarrow> int \<Rightarrow> work_row txn" where
  "update_work_item_txn work_id state available_at stamp st =
     bindE (require_row ''operational_work_items'' (the_work work_id st)) (\<lambda>item.
     bindE (case available_at of
         None \<Rightarrow> Inr None
       | Some t \<Rightarrow> bindE (aware ''available_at'' t) (\<lambda>value.
           bindE (guardE (\<not> value < wi_created_at item)
             (Value_Error ''work item available_at must not precede created_at'')) (\<lambda>_. Inr (Some value))))
     (\<lambda>selected.
       let st' = upd_work (\<lambda>w. wi_work_id w = work_id)
             (\<lambda>w. w\<lparr>wi_state := state, wi_updated_at := stamp,
                wi_available_at := (case selected of None \<Rightarrow> wi_available_at w | Some a \<Rightarrow> a)\<rparr>) st
       in reread (the_work work_id st') st'))"

definition update_work_item :: "int \<Rightarrow> uuid \<Rightarrow> work_state \<Rightarrow> py_datetime option \<Rightarrow> py_datetime option
    \<Rightarrow> work_row store_op" where
  "update_work_item clock work_id state available_at now =
     checked (bindE (checked_id ''work_id'' work_id) (\<lambda>wid.
              bindE (now_or_clock clock now) (\<lambda>stamp. Inr (wid, stamp))))
       (\<lambda>(wid, stamp). write_txn (update_work_item_txn wid state available_at stamp))"

definition get_work_item :: "uuid \<Rightarrow> work_row store_op" where
  "get_work_item work_id = readS (\<lambda>st. bindE (checked_id ''work_id'' work_id) (\<lambda>wid.
     require_row ''operational_work_items'' (the_work wid st)))"

section \<open>Every method keeps the invariant\<close>

lemma cols_updates [simp]:
  "plan_cols (p\<lparr>pr_state := a, pr_updated_at := b\<rparr>) = plan_cols p"
  "trial_cols (t\<lparr>tr_state := c, tr_updated_at := d\<rparr>) = trial_cols t"
  "work_cols (w\<lparr>wi_state := e, wi_updated_at := f\<rparr>) = work_cols w"
  "work_cols (w\<lparr>wi_state := e, wi_updated_at := f, wi_available_at := g\<rparr>) = work_cols w"
  by (simp_all add: plan_cols_def trial_cols_def work_cols_def)

lemma create_run_inv [preserve_intros]: "preserves store_inv (create_run c r s u n)"
  unfolding create_run_def
  by (auto simp: create_run_txn_def bindE_eq_Inr_iff split: option.splits if_splits
      intro!: preserve_intros txn_preservesI dest: inv_insert_run)

lemma update_run_inv [preserve_intros]: "preserves store_inv (update_run c r s n)"
  unfolding update_run_def
  by (auto simp: update_run_txn_def bindE_eq_Inr_iff Let_def inv_update
      intro!: preserve_intros txn_preservesI)

lemma cancel_rows_inv [simp]: "store_inv (cancel_rows p q t st) = store_inv st"
  by (simp add: cancel_rows_def inv_update)

lemma close_terminal_plans_inv [simp]: "store_inv (close_terminal_plans r t st) = store_inv st"
  by (simp add: close_terminal_plans_def inv_update)

lemma mark_run_cancelled_inv [simp]: "store_inv (mark_run_cancelled r t st) = store_inv st"
  by (simp add: mark_run_cancelled_def inv_update)

lemma request_cancellation_inv [preserve_intros]: "preserves store_inv (request_cancellation c r t n)"
  unfolding request_cancellation_def
  by (auto simp: request_cancellation_txn_def err_iffs Let_def inv_update split: option.splits if_splits
      intro!: preserve_intros txn_preservesI)

lemma put_plan_inv [preserve_intros]: "preserves store_inv (put_plan c p r s u n)"
  unfolding put_plan_def
  by (auto simp: put_plan_txn_def err_iffs split: option.splits if_splits
      intro!: preserve_intros txn_preservesI dest: inv_insert_plan)

lemma update_plan_inv [preserve_intros]: "preserves store_inv (update_plan c p s n)"
  unfolding update_plan_def
  by (auto simp: update_plan_txn_def err_iffs Let_def inv_update intro!: preserve_intros txn_preservesI)

lemma put_planned_trial_inv [preserve_intros]: "preserves store_inv (put_planned_trial c t p r k s n)"
  unfolding put_planned_trial_def
  by (auto simp: put_planned_trial_txn_def err_iffs split: option.splits if_splits
      intro!: preserve_intros txn_preservesI elim!: inv_insert_trial)

lemma update_planned_trial_inv [preserve_intros]: "preserves store_inv (update_planned_trial c t s n)"
  unfolding update_planned_trial_def
  by (auto simp: update_planned_trial_txn_def err_iffs Let_def inv_update intro!: preserve_intros txn_preservesI)

lemma complete_plan_inv [preserve_intros]: "preserves store_inv (complete_plan_if_terminal c p r n)"
  unfolding complete_plan_if_terminal_def
  by (auto simp: complete_plan_if_terminal_txn_def err_iffs Let_def inv_update split: if_splits
      intro!: preserve_intros txn_preservesI)

lemma create_work_item_inv [preserve_intros]: "preserves store_inv (create_work_item c w a n)"
  unfolding create_work_item_def
  by (auto simp: create_work_item_txn_def err_iffs split: option.splits if_splits
      intro!: preserve_intros txn_preservesI elim!: inv_insert_work)

lemma update_work_item_inv [preserve_intros]: "preserves store_inv (update_work_item c w s a n)"
  unfolding update_work_item_def
  by (auto simp: update_work_item_txn_def err_iffs Let_def inv_update intro!: preserve_intros txn_preservesI)

end
