(* ===== verification/Store_Attempts.thy ===== *)
theory Store_Attempts
  imports Store_Runs
begin

text \<open>
  The methods of \<^verbatim>\<open>OperationalStore\<close> on attempts and backend submissions, the retry of a work item,
  and the listings of every table.
\<close>

section \<open>Attempts\<close>

definition attempt_immutable :: "attempt_row \<Rightarrow> uuid \<times> uuid \<times> int \<times> int \<times> int \<times> uuid option" where
  "attempt_immutable a = (at_work_id a, at_trial_id a, at_attempt_number a, at_candidate_index a,
     at_retry_number a, at_lease_id a)"

definition new_attempt :: "uuid \<Rightarrow> work_row \<Rightarrow> int \<Rightarrow> int \<Rightarrow> int \<Rightarrow> uuid option \<Rightarrow> attempt_state \<Rightarrow> int \<Rightarrow> attempt_row" where
  "new_attempt attempt_id item number candidate_index retry_number lease_id state stamp =
     \<lparr>at_attempt_id = attempt_id, at_work_id = wi_work_id item, at_run_id = wi_run_id item,
      at_trial_id = wi_trial_id item, at_attempt_number = number, at_candidate_index = candidate_index,
      at_retry_number = retry_number, at_lease_id = lease_id, at_state = state, at_created_at = stamp,
      at_started_at = None, at_finished_at = None, at_updated_at = stamp, at_failure_kind = None,
      at_failure_class = None, at_failure_message = None, at_reconciliation_state = R_Not_Required,
      at_cancellation_status = C_Not_Requested\<rparr>"

text \<open>The guards on the work item and its trial, shared by both ways to create an attempt.\<close>

definition attempt_target :: "uuid \<Rightarrow> uuid \<Rightarrow> store \<Rightarrow> store_error + work_row" where
  "attempt_target work_id trial_id st =
     bindE (require_row ''operational_work_items'' (the_work work_id st)) (\<lambda>item.
     bindE (require_row ''operational_planned_trials'' (the_trial trial_id st)) (\<lambda>trial.
     bindE (guardE (\<not> (wi_trial_id item \<noteq> trial_id \<or> tr_run_id trial \<noteq> wi_run_id item))
       (Store_Conflict ''attempt work item and trial do not match'')) (\<lambda>_.
     Inr item)))"

definition check_attempt_lease :: "uuid option \<Rightarrow> uuid \<Rightarrow> int \<Rightarrow> store \<Rightarrow> store_error + unit" where
  "check_attempt_lease lease_id work_id stamp st =
     (case lease_id of
        None \<Rightarrow> Inr ()
      | Some lid \<Rightarrow>
          bindE (require_row ''operational_leases'' (the_lease lid st)) (\<lambda>lease.
          bindE (guardE (le_work_id lease = work_id)
            (Store_Conflict ''attempt lease belongs to a different work item'')) (\<lambda>_.
          bindE (guardE (le_state lease = L_Active) (Store_Conflict ''attempt lease is not active'')) (\<lambda>_.
          guardE (\<not> le_expires_at lease \<le> stamp) (Store_Conflict ''attempt lease has expired'')))))"

definition create_attempt_txn :: "uuid \<Rightarrow> uuid \<Rightarrow> uuid \<Rightarrow> int \<Rightarrow> int \<Rightarrow> int \<Rightarrow> uuid option \<Rightarrow> attempt_state \<Rightarrow> int
    \<Rightarrow> attempt_row txn" where
  "create_attempt_txn attempt_id work_id trial_id number candidate_index retry_number lease_id state stamp st =
     bindE (attempt_target work_id trial_id st) (\<lambda>item.
     bindE (check_attempt_lease lease_id work_id stamp st) (\<lambda>_.
       case the_attempt attempt_id st of
         Some existing \<Rightarrow>
           if attempt_immutable existing \<noteq> (work_id, trial_id, number, candidate_index, retry_number, lease_id)
           then Inl (Store_Conflict ''attempt identity already has different content'')
           else Inr (existing, st)
       | None \<Rightarrow>
           bindE (guardE (\<not> list_ex (\<lambda>a. at_work_id a = work_id \<and> at_attempt_number a = number) (st_attempts st))
             (Store_Conflict ''attempt number already belongs to another attempt'')) (\<lambda>_.
           bindE (insert_attempt
             (new_attempt attempt_id item number candidate_index retry_number lease_id state stamp) st) (\<lambda>st'.
           reread (the_attempt attempt_id st') st'))))"

definition create_attempt :: "int \<Rightarrow> uuid \<Rightarrow> uuid \<Rightarrow> uuid \<Rightarrow> int \<Rightarrow> int \<Rightarrow> int \<Rightarrow> uuid option \<Rightarrow> attempt_state
    \<Rightarrow> py_datetime option \<Rightarrow> attempt_row store_op" where
  "create_attempt clock attempt_id work_id trial_id number candidate_index retry_number lease_id state now =
     checked (bindE (checked_id ''attempt_id'' attempt_id) (\<lambda>aid.
              bindE (checked_id ''work_id'' work_id) (\<lambda>wid.
              bindE (checked_id ''trial_id'' trial_id) (\<lambda>tid.
              bindE (checked_optional_id ''lease_id'' lease_id) (\<lambda>lid.
              bindE (guardE (0 < number) (Value_Error ''attempt_number must be greater than zero'')) (\<lambda>_.
              bindE (guardE (0 < candidate_index) (Value_Error ''candidate_index must be greater than zero'')) (\<lambda>_.
              bindE (guardE (0 \<le> retry_number) (Value_Error ''retry_number must not be negative'')) (\<lambda>_.
              bindE (now_or_clock clock now) (\<lambda>stamp. Inr (aid, wid, tid, lid, stamp))))))))))
       (\<lambda>(aid, wid, tid, lid, stamp).
          write_txn (create_attempt_txn aid wid tid number candidate_index retry_number lid state stamp))"

definition get_attempt :: "uuid \<Rightarrow> attempt_row store_op" where
  "get_attempt attempt_id = readS (\<lambda>st. bindE (checked_id ''attempt_id'' attempt_id) (\<lambda>aid.
     require_row ''operational_attempts'' (the_attempt aid st)))"

text \<open>\<^verbatim>\<open>SELECT COALESCE(MAX(attempt_number), 0) + 1\<close>.\<close>

definition next_attempt_number :: "uuid \<Rightarrow> store \<Rightarrow> int" where
  "next_attempt_number work_id st =
     (case map at_attempt_number (filter (\<lambda>a. at_work_id a = work_id) (st_attempts st)) of
        [] \<Rightarrow> 1
      | n # ns \<Rightarrow> fold max ns n + 1)"

definition create_attempt_for_lease_txn :: "uuid \<Rightarrow> uuid \<Rightarrow> uuid \<Rightarrow> uuid \<Rightarrow> int \<Rightarrow> int \<Rightarrow> int \<Rightarrow> attempt_row txn" where
  "create_attempt_for_lease_txn attempt_id work_id trial_id lease_id candidate_index retry_number stamp st =
     bindE (attempt_target work_id trial_id st) (\<lambda>item.
     bindE (require_row ''operational_leases'' (the_lease lease_id st)) (\<lambda>lease.
     bindE (guardE (le_work_id lease = work_id)
       (Store_Conflict ''attempt lease belongs to a different work item'')) (\<lambda>_.
     bindE (guardE (\<not> (le_state lease \<noteq> L_Active \<or> le_expires_at lease \<le> stamp))
       (Store_Conflict ''attempt lease is not active'')) (\<lambda>_.
     bindE (insert_attempt (new_attempt attempt_id item (next_attempt_number work_id st)
       candidate_index retry_number (Some lease_id) A_Created stamp) st) (\<lambda>st'.
     reread (the_attempt attempt_id st') st')))))"

text \<open>\<open>fresh\<close> is the identity that \<^verbatim>\<open>new_entity_id(EntityKind.ATTEMPT)\<close> returns.\<close>

definition create_attempt_for_lease :: "int \<Rightarrow> uuid \<Rightarrow> uuid \<Rightarrow> uuid \<Rightarrow> uuid \<Rightarrow> int \<Rightarrow> int \<Rightarrow> py_datetime option
    \<Rightarrow> attempt_row store_op" where
  "create_attempt_for_lease clock fresh work_id trial_id lease_id candidate_index retry_number now =
     checked (bindE (checked_id ''work_id'' work_id) (\<lambda>wid.
              bindE (checked_id ''trial_id'' trial_id) (\<lambda>tid.
              bindE (checked_id ''lease_id'' lease_id) (\<lambda>lid.
              bindE (now_or_clock clock now) (\<lambda>stamp.
              bindE (guardE (0 < candidate_index) (Value_Error ''candidate_index must be greater than zero'')) (\<lambda>_.
              bindE (guardE (0 \<le> retry_number) (Value_Error ''retry_number must not be negative'')) (\<lambda>_.
              Inr (wid, tid, lid, stamp))))))))
       (\<lambda>(wid, tid, lid, stamp).
          write_txn (create_attempt_for_lease_txn fresh wid tid lid candidate_index retry_number stamp))"

definition transition_row :: "attempt_state \<Rightarrow> int \<Rightarrow> failure_classification option
    \<Rightarrow> reconciliation_state option \<Rightarrow> cancellation_status option \<Rightarrow> attempt_row \<Rightarrow> attempt_row" where
  "transition_row state stamp failure reconciliation cancellation a =
     (let clear = state \<in> {A_Succeeded, A_Cancelled}
      in a\<lparr>at_state := state,
           at_started_at := (if state = A_Running then Some stamp else at_started_at a),
           at_finished_at := (if state \<in> {A_Succeeded, A_Failed, A_Cancelled, A_Unknown}
             then Some stamp else at_finished_at a),
           at_updated_at := stamp,
           at_failure_kind := (if clear then None else coalesce (map_option fc_kind failure) (at_failure_kind a)),
           at_failure_class := (if clear then None else coalesce (map_option fc_class failure) (at_failure_class a)),
           at_failure_message :=
             (if clear then None else coalesce (map_option fc_message failure) (at_failure_message a)),
           at_reconciliation_state :=
             (case reconciliation of None \<Rightarrow> at_reconciliation_state a | Some r \<Rightarrow> r),
           at_cancellation_status :=
             (case cancellation of None \<Rightarrow> at_cancellation_status a | Some c \<Rightarrow> c)\<rparr>)"

definition transition_attempt_txn :: "uuid \<Rightarrow> attempt_state \<Rightarrow> int \<Rightarrow> failure_classification option
    \<Rightarrow> reconciliation_state option \<Rightarrow> cancellation_status option \<Rightarrow> attempt_row txn" where
  "transition_attempt_txn attempt_id state stamp failure reconciliation cancellation st =
     bindE (require_row ''operational_attempts'' (the_attempt attempt_id st)) (\<lambda>_.
       let st' = upd_attempts (\<lambda>a. at_attempt_id a = attempt_id)
             (transition_row state stamp failure reconciliation cancellation) st
       in reread (the_attempt attempt_id st') st')"

text \<open>
  A \<^verbatim>\<open>FailureClassification\<close> is validated when it is built, so no other value reaches the method: the
  model checks it here.
\<close>

definition built_failure :: "failure_classification option \<Rightarrow> store_error + unit" where
  "built_failure failure =
     (case failure of None \<Rightarrow> Inr ()
      | Some f \<Rightarrow> (case validate_failure f of Inl m \<Rightarrow> Inl (Value_Error m) | Inr _ \<Rightarrow> Inr ()))"

definition transition_attempt :: "int \<Rightarrow> uuid \<Rightarrow> attempt_state \<Rightarrow> py_datetime option
    \<Rightarrow> failure_classification option \<Rightarrow> reconciliation_state option \<Rightarrow> cancellation_status option
    \<Rightarrow> attempt_row store_op" where
  "transition_attempt clock attempt_id state now failure reconciliation cancellation =
     checked (bindE (built_failure failure) (\<lambda>_.
              bindE (checked_id ''attempt_id'' attempt_id) (\<lambda>aid.
              bindE (now_or_clock clock now) (\<lambda>stamp. Inr (aid, stamp)))))
       (\<lambda>(aid, stamp). write_txn (transition_attempt_txn aid state stamp failure reconciliation cancellation))"

section \<open>Backend submissions\<close>

definition record_backend_submission_txn :: "submission_row \<Rightarrow> submission_row txn" where
  "record_backend_submission_txn s st =
     bindE (require_row ''operational_attempts'' (the_attempt (su_attempt_id s) st)) (\<lambda>_.
       case the_submission (su_submission_id s) st of
         Some existing \<Rightarrow>
           if (su_attempt_id existing, su_backend existing, su_external_id existing, su_external_work_id existing)
              \<noteq> (su_attempt_id s, su_backend s, su_external_id s, su_external_work_id s)
           then Inl (Store_Conflict ''submission identity already has different content'')
           else Inr (existing, st)
       | None \<Rightarrow>
           bindE (guardE (\<not> list_ex (\<lambda>t. su_attempt_id t = su_attempt_id s \<and> su_backend t = su_backend s)
               (st_submissions st))
             (Store_Conflict ''backend already has another submission for attempt'')) (\<lambda>_.
           bindE (insert_submission s st) (\<lambda>st'.
           reread (the_submission (su_submission_id s) st') st')))"

definition record_backend_submission :: "int \<Rightarrow> uuid \<Rightarrow> uuid \<Rightarrow> string \<Rightarrow> string option \<Rightarrow> string option
    \<Rightarrow> submission_state \<Rightarrow> py_datetime option \<Rightarrow> submission_row store_op" where
  "record_backend_submission clock submission_id attempt_id backend external_id external_work_id state now =
     checked (bindE (checked_id ''submission_id'' submission_id) (\<lambda>sid.
              bindE (checked_id ''attempt_id'' attempt_id) (\<lambda>aid.
              bindE (required_text ''backend'' backend) (\<lambda>bk.
              bindE (required_optional_text ''external_id'' external_id) (\<lambda>eid.
              bindE (required_optional_text ''external_work_id'' external_work_id) (\<lambda>ewid.
              bindE (now_or_clock clock now) (\<lambda>stamp.
              Inr \<lparr>su_submission_id = sid, su_attempt_id = aid, su_backend = bk, su_external_id = eid,
                   su_external_work_id = ewid, su_state = state, su_submitted_at = stamp,
                   su_updated_at = stamp, su_cancellation_status = C_Not_Requested,
                   su_reconciliation_state = R_Not_Required\<rparr>)))))))
       (\<lambda>s. write_txn (record_backend_submission_txn s))"

definition transition_backend_submission_txn :: "uuid \<Rightarrow> submission_state \<Rightarrow> int \<Rightarrow> cancellation_status option
    \<Rightarrow> reconciliation_state option \<Rightarrow> submission_row txn" where
  "transition_backend_submission_txn submission_id state stamp cancellation reconciliation st =
     bindE (require_row ''operational_backend_submissions'' (the_submission submission_id st)) (\<lambda>_.
       let st' = upd_submissions (\<lambda>s. su_submission_id s = submission_id)
             (\<lambda>s. s\<lparr>su_state := state, su_updated_at := stamp,
                su_cancellation_status := (case cancellation of None \<Rightarrow> su_cancellation_status s | Some c \<Rightarrow> c),
                su_reconciliation_state := (case reconciliation of None \<Rightarrow> su_reconciliation_state s | Some r \<Rightarrow> r)\<rparr>) st
       in reread (the_submission submission_id st') st')"

definition transition_backend_submission :: "int \<Rightarrow> uuid \<Rightarrow> submission_state \<Rightarrow> py_datetime option
    \<Rightarrow> cancellation_status option \<Rightarrow> reconciliation_state option \<Rightarrow> submission_row store_op" where
  "transition_backend_submission clock submission_id state now cancellation reconciliation =
     checked (bindE (checked_id ''submission_id'' submission_id) (\<lambda>sid.
              bindE (now_or_clock clock now) (\<lambda>stamp. Inr (sid, stamp))))
       (\<lambda>(sid, stamp). write_txn (transition_backend_submission_txn sid state stamp cancellation reconciliation))"

definition bind_external_ids_txn :: "uuid \<Rightarrow> string \<Rightarrow> string option \<Rightarrow> int \<Rightarrow> submission_row txn" where
  "bind_external_ids_txn submission_id external_id external_work_id stamp st =
     bindE (require_row ''operational_backend_submissions'' (the_submission submission_id st)) (\<lambda>current.
     bindE (guardE (\<not> (su_external_id current \<noteq> None \<and> su_external_id current \<noteq> Some external_id))
       (Store_Conflict ''submission already has a different external ID'')) (\<lambda>_.
     bindE (guardE (\<not> (su_external_work_id current \<noteq> None \<and> su_external_work_id current \<noteq> external_work_id))
       (Store_Conflict ''submission already has a different external work ID'')) (\<lambda>_.
     bindE (guardE (\<not> list_ex (\<lambda>s. su_external_id s = Some external_id \<and> su_submission_id s \<noteq> submission_id)
         (st_submissions st))
       (Store_Conflict ''external ID already belongs to another submission'')) (\<lambda>_.
       let st' = upd_submissions (\<lambda>s. su_submission_id s = submission_id)
             (\<lambda>s. s\<lparr>su_external_id := Some external_id, su_external_work_id := external_work_id,
                su_updated_at := stamp\<rparr>) st
       in reread (the_submission submission_id st') st'))))"

definition bind_backend_submission_external_ids :: "int \<Rightarrow> uuid \<Rightarrow> string \<Rightarrow> string option \<Rightarrow> py_datetime option
    \<Rightarrow> submission_row store_op" where
  "bind_backend_submission_external_ids clock submission_id external_id external_work_id now =
     checked (bindE (checked_id ''submission_id'' submission_id) (\<lambda>sid.
              bindE (required_text ''external_id'' external_id) (\<lambda>eid.
              bindE (required_optional_text ''external_work_id'' external_work_id) (\<lambda>ewid.
              bindE (now_or_clock clock now) (\<lambda>stamp. Inr (sid, eid, ewid, stamp))))))
       (\<lambda>(sid, eid, ewid, stamp). write_txn (bind_external_ids_txn sid eid ewid stamp))"

definition get_backend_submission :: "uuid \<Rightarrow> submission_row store_op" where
  "get_backend_submission submission_id = readS (\<lambda>st. bindE (checked_id ''submission_id'' submission_id) (\<lambda>sid.
     require_row ''operational_backend_submissions'' (the_submission sid st)))"

section \<open>Listings\<close>

definition listing :: "uuid \<Rightarrow> string \<Rightarrow> (uuid \<Rightarrow> store \<Rightarrow> 'r list) \<Rightarrow> 'r list store_op" where
  "listing k label f = readS (\<lambda>st. bindE (checked_id label k) (\<lambda>k'. Inr (f k' st)))"

definition list_planned_trials :: "uuid \<Rightarrow> trial_row list store_op" where
  "list_planned_trials plan_id = listing plan_id ''plan_id'' (\<lambda>p st.
     sort_key tr_ordinal (filter (\<lambda>t. tr_plan_id t = p) (st_trials st)))"

definition list_work_items :: "uuid \<Rightarrow> work_row list store_op" where
  "list_work_items run_id = listing run_id ''run_id'' (\<lambda>r st.
     sort_key (\<lambda>w. (- wi_priority w, wi_created_at w, wi_ordinal w, wi_work_id w))
       (filter (\<lambda>w. wi_run_id w = r) (st_work st)))"

definition list_attempts :: "uuid \<Rightarrow> attempt_row list store_op" where
  "list_attempts trial_id = listing trial_id ''trial_id'' (\<lambda>t st.
     sort_key (\<lambda>a. (at_attempt_number a, at_attempt_id a)) (filter (\<lambda>a. at_trial_id a = t) (st_attempts st)))"

definition list_attempts_for_work :: "uuid \<Rightarrow> attempt_row list store_op" where
  "list_attempts_for_work work_id = listing work_id ''work_id'' (\<lambda>w st.
     sort_key (\<lambda>a. (at_attempt_number a, at_attempt_id a)) (filter (\<lambda>a. at_work_id a = w) (st_attempts st)))"

definition list_attempts_for_run :: "uuid \<Rightarrow> attempt_row list store_op" where
  "list_attempts_for_run run_id = listing run_id ''run_id'' (\<lambda>r st.
     sort_key (\<lambda>a. (at_trial_id a, at_attempt_number a, at_attempt_id a))
       (filter (\<lambda>a. at_run_id a = r) (st_attempts st)))"

definition list_backend_submissions :: "uuid \<Rightarrow> submission_row list store_op" where
  "list_backend_submissions attempt_id = listing attempt_id ''attempt_id'' (\<lambda>a st.
     sort_key (\<lambda>s. (su_submitted_at s, su_submission_id s)) (filter (\<lambda>s. su_attempt_id s = a) (st_submissions st)))"

definition list_backend_submissions_for_run :: "uuid \<Rightarrow> submission_row list store_op" where
  "list_backend_submissions_for_run run_id = listing run_id ''run_id'' (\<lambda>r st.
     sort_key (\<lambda>s. (su_submitted_at s, su_submission_id s))
       (filter (\<lambda>s. list_ex (\<lambda>a. at_attempt_id a = su_attempt_id s \<and> at_run_id a = r) (st_attempts st))
         (st_submissions st)))"

definition list_leases_for_run :: "uuid \<Rightarrow> lease_row list store_op" where
  "list_leases_for_run run_id = listing run_id ''run_id'' (\<lambda>r st.
     sort_key (\<lambda>l. (le_acquired_at l, le_lease_id l))
       (filter (\<lambda>l. list_ex (\<lambda>w. wi_work_id w = le_work_id l \<and> wi_run_id w = r) (st_work st)) (st_leases st)))"

text \<open>\<^verbatim>\<open>GROUP BY run_id, backend, state\<close>, with the states under their database labels.\<close>

fun work_state_label :: "work_state \<Rightarrow> string" where
  "work_state_label W_Planned = ''planned''"
| "work_state_label W_Queued = ''queued''"
| "work_state_label W_Leased = ''leased''"
| "work_state_label W_Running = ''running''"
| "work_state_label W_Cancel_Requested = ''cancel_requested''"
| "work_state_label W_Succeeded = ''succeeded''"
| "work_state_label W_Failed = ''failed''"
| "work_state_label W_Cancelled = ''cancelled''"
| "work_state_label W_Invalid = ''invalid''"
| "work_state_label W_Unknown = ''unknown''"

record queue_count =
  qc_run_id :: uuid
  qc_backend :: string
  qc_state :: string
  qc_count :: int

definition queue_group :: "work_row \<Rightarrow> uuid \<times> string \<times> string" where
  "queue_group w = (wi_run_id w, wi_backend w, work_state_label (wi_state w))"

definition queue_counts :: "work_row list \<Rightarrow> queue_count list" where
  "queue_counts rows =
     map (\<lambda>(r, b, s). \<lparr>qc_run_id = r, qc_backend = b, qc_state = s,
          qc_count = int (length (filter (\<lambda>w. queue_group w = (r, b, s)) rows))\<rparr>)
       (sort (remdups (map queue_group rows)))"

definition list_queue_counts :: "uuid option \<Rightarrow> queue_count list store_op" where
  "list_queue_counts run_id = readS (\<lambda>st. bindE (checked_optional_id ''run_id'' run_id) (\<lambda>rid.
     Inr (queue_counts (case rid of None \<Rightarrow> st_work st | Some r \<Rightarrow> filter (\<lambda>w. wi_run_id w = r) (st_work st)))))"

definition minimum_time :: "int list \<Rightarrow> int option" where
  "minimum_time ts = (case ts of [] \<Rightarrow> None | t # us \<Rightarrow> Some (fold min us t))"

definition next_available_at :: "py_datetime \<Rightarrow> uuid option \<Rightarrow> int option store_op" where
  "next_available_at now run_id = readS (\<lambda>st.
     bindE (aware ''now'' now) (\<lambda>stamp.
     bindE (checked_optional_id ''run_id'' run_id) (\<lambda>rid.
     Inr (minimum_time (map wi_available_at (filter (\<lambda>w. (case rid of None \<Rightarrow> True | Some r \<Rightarrow> wi_run_id w = r)
       \<and> wi_state w = W_Queued \<and> stamp < wi_available_at w) (st_work st)))))))"

section \<open>Retry\<close>

definition schedule_retry_txn :: "uuid \<Rightarrow> int \<Rightarrow> int \<Rightarrow> work_row txn" where
  "schedule_retry_txn work_id available stamp st =
     bindE (require_row ''operational_work_items'' (the_work work_id st)) (\<lambda>item.
     bindE (require_row ''operational_runs'' (the_run (wi_run_id item) st)) (\<lambda>run.
     bindE (guardE (rr_cancellation_requested_at run = None)
       (Store_Conflict ''cannot retry work after cancellation was requested'')) (\<lambda>_.
       let st1 = upd_work (\<lambda>w. wi_work_id w = work_id \<and> wi_state w \<in> {W_Failed, W_Unknown, W_Cancel_Requested})
             (\<lambda>w. w\<lparr>wi_state := W_Queued, wi_updated_at := stamp, wi_available_at := available\<rparr>) st;
           st2 = upd_trials (\<lambda>t. tr_trial_id t = wi_trial_id item \<and> tr_state t \<in> {T_Failed, T_Unknown})
             (\<lambda>t. t\<lparr>tr_state := T_Queued, tr_updated_at := stamp\<rparr>) st1
       in reread (the_work work_id st2) st2)))"

definition schedule_retry :: "int \<Rightarrow> uuid \<Rightarrow> py_datetime \<Rightarrow> py_datetime option \<Rightarrow> work_row store_op" where
  "schedule_retry clock work_id available_at now =
     checked (bindE (checked_id ''work_id'' work_id) (\<lambda>wid.
              bindE (now_or_clock clock now) (\<lambda>stamp.
              bindE (aware ''available_at'' available_at) (\<lambda>available.
              bindE (guardE (\<not> available < stamp) (Value_Error ''retry available_at must not precede now'')) (\<lambda>_.
              Inr (wid, available, stamp))))))
       (\<lambda>(wid, available, stamp). write_txn (schedule_retry_txn wid available stamp))"

section \<open>Every method keeps the invariant\<close>

lemma submission_cols_updates [simp]:
  "submission_cols (s\<lparr>su_state := a, su_updated_at := b, su_cancellation_status := c, su_reconciliation_state := d\<rparr>)
     = submission_cols s"
  "submission_cols (s\<lparr>su_external_id := e, su_external_work_id := f, su_updated_at := b\<rparr>) = submission_cols s"
  "submission_cols (s\<lparr>su_state := a, su_updated_at := b, su_reconciliation_state := d\<rparr>) = submission_cols s"
  by (simp_all add: submission_cols_def)

lemma attempt_target_Inr:
  "attempt_target w t st = Inr item \<longleftrightarrow> the_work w st = Some item \<and> w = wi_work_id item
     \<and> wi_trial_id item = t \<and> (\<exists>trial. the_trial t st = Some trial \<and> tr_run_id trial = wi_run_id item)"
  by (auto simp: attempt_target_def err_iffs dest: find_row_Some_key)

lemma check_attempt_lease_Inr:
  "check_attempt_lease l w stamp st = Inr u \<longleftrightarrow>
     (\<forall>k. l = Some k \<longrightarrow> (\<exists>lease. the_lease k st = Some lease \<and> le_work_id lease = w
        \<and> le_state lease = L_Active \<and> stamp < le_expires_at lease))"
  by (auto simp: check_attempt_lease_def err_iffs split: option.split)

lemma new_attempt_fields [simp]:
  "at_attempt_id (new_attempt i w n c r l s t) = i" "at_work_id (new_attempt i w n c r l s t) = wi_work_id w"
  "at_trial_id (new_attempt i w n c r l s t) = wi_trial_id w" "at_run_id (new_attempt i w n c r l s t) = wi_run_id w"
  "at_attempt_number (new_attempt i w n c r l s t) = n" "at_lease_id (new_attempt i w n c r l s t) = l"
  "failure_ok (new_attempt i w n c r l s t)"
  by (simp_all add: new_attempt_def failure_ok_def)

lemma create_attempt_txn_inv: "txn_preserves store_inv (create_attempt_txn i w t n c r l s stamp)"
  by (rule txn_preservesI)
    (auto simp: create_attempt_txn_def err_iffs attempt_target_Inr check_attempt_lease_Inr
      split: option.splits if_splits elim!: inv_insert_attempt dest: find_row_Some_key)

lemma create_attempt_inv [preserve_intros]: "preserves store_inv (create_attempt k i w t n c r l s m)"
  unfolding create_attempt_def by (auto intro!: preserve_intros create_attempt_txn_inv)

lemma create_attempt_for_lease_txn_inv: "txn_preserves store_inv (create_attempt_for_lease_txn i w t l c r stamp)"
  by (rule txn_preservesI)
    (auto simp: create_attempt_for_lease_txn_def err_iffs attempt_target_Inr
      elim!: inv_insert_attempt dest: find_row_Some_key)

lemma create_attempt_for_lease_inv [preserve_intros]:
  "preserves store_inv (create_attempt_for_lease k f w t l c r n)"
  unfolding create_attempt_for_lease_def by (auto intro!: preserve_intros create_attempt_for_lease_txn_inv)

lemma attempt_cols_transition [simp]: "attempt_cols (transition_row s t f r c a) = attempt_cols a"
  by (simp add: attempt_cols_def transition_row_def Let_def)

lemma failure_ok_transition:
  assumes "isOK (built_failure f)" "failure_ok a"
  shows "failure_ok (transition_row s t f r c a)"
  using assms
  by (cases f) (auto simp: failure_ok_def transition_row_def Let_def built_failure_def validate_failure_def
      bindE_def guardE_def isOK_def split: if_splits)

lemma transition_attempt_inv [preserve_intros]: "preserves store_inv (transition_attempt k i s n f r c)"
proof -
  have "txn_preserves store_inv (transition_attempt_txn i s t f r c)" if "isOK (built_failure f)" for t
    by (rule txn_preservesI)
      (auto simp: transition_attempt_txn_def err_iffs Let_def intro!: inv_upd_attempts failure_ok_transition that)
  then show ?thesis unfolding transition_attempt_def
    by (intro preserve_intros) (auto simp: bindE_eq_Inr_iff isOK_iff intro!: preserve_intros)
qed

lemma record_backend_submission_inv [preserve_intros]:
  "preserves store_inv (record_backend_submission k i a b e w s n)"
  unfolding record_backend_submission_def
  by (auto simp: record_backend_submission_txn_def err_iffs split: option.splits if_splits
      intro!: preserve_intros txn_preservesI dest: inv_insert_submission)

lemma transition_backend_submission_inv [preserve_intros]:
  "preserves store_inv (transition_backend_submission k i s n c r)"
  unfolding transition_backend_submission_def
  by (auto simp: transition_backend_submission_txn_def err_iffs Let_def inv_update
      intro!: preserve_intros txn_preservesI)

lemma bind_external_ids_inv [preserve_intros]:
  "preserves store_inv (bind_backend_submission_external_ids k i e w n)"
  unfolding bind_backend_submission_external_ids_def
  by (auto simp: bind_external_ids_txn_def err_iffs Let_def inv_update intro!: preserve_intros txn_preservesI)

lemma schedule_retry_inv [preserve_intros]: "preserves store_inv (schedule_retry k w a n)"
  unfolding schedule_retry_def
  by (auto simp: schedule_retry_txn_def err_iffs Let_def inv_update intro!: preserve_intros txn_preservesI)

end
