(* ===== verification/Store_Leases.thy ===== *)
theory Store_Leases
  imports Store_Attempts
begin

text \<open>
  Leases of \<^verbatim>\<open>OperationalStore\<close>: how they expire, how a worker takes the next eligible work item or a
  named one, renews it and gives it back.
\<close>

section \<open>Expiry\<close>

text \<open>The body of the loop of \<^verbatim>\<open>_expire_leases\<close> for one expired lease, statement by statement.\<close>

definition lease_has_attempt :: "uuid \<Rightarrow> store \<Rightarrow> bool" where
  "lease_has_attempt lease_id st \<longleftrightarrow> list_ex (\<lambda>a. at_lease_id a = Some lease_id) (st_attempts st)"

definition expire_lease_row :: "uuid \<Rightarrow> store \<Rightarrow> store" where
  "expire_lease_row lease_id st =
     upd_leases (\<lambda>l. le_lease_id l = lease_id)
       (\<lambda>l. l\<lparr>le_state := L_Expired, le_released_at := Some (le_expires_at l)\<rparr>) st"

definition expire_work_row :: "uuid \<Rightarrow> bool \<Rightarrow> int \<Rightarrow> store \<Rightarrow> store" where
  "expire_work_row work_id attempt_exists stamp st =
     upd_work (\<lambda>w. wi_work_id w = work_id \<and> wi_state w \<in> {W_Leased, W_Running, W_Cancel_Requested})
       (\<lambda>w. w\<lparr>wi_state := (if attempt_exists then W_Unknown else W_Queued), wi_updated_at := stamp\<rparr>) st"

definition expire_trial_row :: "uuid \<Rightarrow> bool \<Rightarrow> int \<Rightarrow> store \<Rightarrow> store" where
  "expire_trial_row work_id attempt_exists stamp st =
     upd_trials (\<lambda>t. map_option wi_trial_id (the_work work_id st) = Some (tr_trial_id t)
         \<and> tr_state t \<in> {T_Running, T_Queued, T_Planned} \<and> attempt_exists)
       (\<lambda>t. t\<lparr>tr_state := T_Unknown, tr_updated_at := stamp\<rparr>) st"

definition expire_attempt_rows :: "uuid \<Rightarrow> int \<Rightarrow> store \<Rightarrow> store" where
  "expire_attempt_rows lease_id stamp st =
     upd_attempts (\<lambda>a. at_lease_id a = Some lease_id \<and> at_state a \<in> {A_Created, A_Submitted, A_Running})
       (\<lambda>a. a\<lparr>at_state := A_Unknown, at_finished_at := Some stamp, at_updated_at := stamp,
          at_failure_kind := Some Unknown_External_State, at_failure_class := Some Unknown_Class,
          at_failure_message := Some ''lease expired before reconciliation'',
          at_reconciliation_state := R_Pending\<rparr>) st"

definition expire_submission_rows :: "uuid \<Rightarrow> int \<Rightarrow> store \<Rightarrow> store" where
  "expire_submission_rows lease_id stamp st =
     upd_submissions (\<lambda>s. list_ex (\<lambda>a. at_attempt_id a = su_attempt_id s \<and> at_lease_id a = Some lease_id) (st_attempts st))
       (\<lambda>s. s\<lparr>su_state := S_Unknown, su_updated_at := stamp, su_reconciliation_state := R_Pending\<rparr>) st"

definition expire_one :: "int \<Rightarrow> lease_row \<Rightarrow> store \<Rightarrow> store" where
  "expire_one stamp l st =
     (let st1 = expire_lease_row (le_lease_id l) st;
          attempt_exists = lease_has_attempt (le_lease_id l) st1;
          st2 = expire_work_row (le_work_id l) attempt_exists stamp st1;
          st3 = expire_trial_row (le_work_id l) attempt_exists stamp st2;
          st4 = expire_attempt_rows (le_lease_id l) stamp st3
      in expire_submission_rows (le_lease_id l) stamp st4)"

definition is_expired :: "int \<Rightarrow> uuid option \<Rightarrow> store \<Rightarrow> lease_row \<Rightarrow> bool" where
  "is_expired stamp run_id st l \<longleftrightarrow> is_active l \<and> le_expires_at l \<le> stamp
     \<and> (case run_id of None \<Rightarrow> True
        | Some r \<Rightarrow> list_ex (\<lambda>w. wi_work_id w = le_work_id l \<and> wi_run_id w = r) (st_work st))"

definition expired_leases :: "int \<Rightarrow> uuid option \<Rightarrow> store \<Rightarrow> lease_row list" where
  "expired_leases stamp run_id st = filter (is_expired stamp run_id st) (st_leases st)"

definition expire_all :: "int \<Rightarrow> uuid option \<Rightarrow> store \<Rightarrow> store" where
  "expire_all stamp run_id st = fold (expire_one stamp) (expired_leases stamp run_id st) st"

definition expire_leases_txn :: "int \<Rightarrow> uuid option \<Rightarrow> int txn" where
  "expire_leases_txn stamp run_id st =
     Inr (int (length (expired_leases stamp run_id st)), expire_all stamp run_id st)"

definition expire_leases :: "uuid option \<Rightarrow> py_datetime \<Rightarrow> int store_op" where
  "expire_leases run_id now =
     checked (bindE (aware ''now'' now) (\<lambda>stamp.
              bindE (checked_optional_id ''run_id'' run_id) (\<lambda>rid. Inr (stamp, rid))))
       (\<lambda>(stamp, rid). write_txn (expire_leases_txn stamp rid))"

section \<open>The next eligible work item\<close>

record lease_limits =
  ll_global :: "int option"
  ll_run :: run_limits
  ll_backend :: limits
  ll_provider_route :: limits
  ll_model_route :: limits
  ll_resource_class :: limits
  ll_execution_family :: limits

definition count_values :: "('r \<Rightarrow> 'k) \<Rightarrow> 'r list \<Rightarrow> 'k \<Rightarrow> int" where
  "count_values f rows value = int (length (filter (\<lambda>r. f r = value) rows))"

definition under_limit :: "'k \<Rightarrow> ('k \<times> int) list \<Rightarrow> ('k \<Rightarrow> int) \<Rightarrow> bool" where
  "under_limit value limits counts =
     (case map_of limits value of None \<Rightarrow> True | Some limit \<Rightarrow> counts value < limit)"

text \<open>\<^verbatim>\<open>work_items JOIN leases WHERE leases.state = 'active'\<close>: a work item once for each active lease.\<close>

definition active_rows :: "store \<Rightarrow> work_row list" where
  "active_rows st = concat (map (\<lambda>w. map (\<lambda>l. w)
     (filter (\<lambda>l. le_work_id l = wi_work_id w \<and> is_active l) (st_leases st))) (st_work st))"

definition queue_eligible :: "int \<Rightarrow> store \<Rightarrow> work_row \<Rightarrow> bool" where
  "queue_eligible stamp st w \<longleftrightarrow> wi_state w = W_Queued \<and> wi_available_at w \<le> stamp
     \<and> list_ex (\<lambda>r. rr_run_id r = wi_run_id w \<and> rr_cancellation_requested_at r = None) (st_runs st)"

definition queue_candidates :: "int \<Rightarrow> int \<Rightarrow> store \<Rightarrow> work_row list" where
  "queue_candidates stamp aging st =
     sort_key (work_item_priority_key stamp aging)
       (sort_key (\<lambda>w. (wi_available_at w, wi_created_at w, wi_ordinal w, wi_work_id w))
         (filter (queue_eligible stamp st) (st_work st)))"

definition under_limits :: "lease_limits \<Rightarrow> work_row list \<Rightarrow> work_row \<Rightarrow> bool" where
  "under_limits caps active w \<longleftrightarrow>
     under_limit (wi_run_id w) (ll_run caps) (count_values wi_run_id active)
     \<and> under_limit (wi_backend w) (ll_backend caps) (count_values wi_backend active)
     \<and> under_limit (wi_provider_route w) (ll_provider_route caps) (count_values wi_provider_route active)
     \<and> under_limit (wi_model_route w) (ll_model_route caps) (count_values wi_model_route active)
     \<and> under_limit (wi_resource_class w) (ll_resource_class caps) (count_values wi_resource_class active)
     \<and> under_limit (wi_execution_family w) (ll_execution_family caps) (count_values wi_execution_family active)"

definition global_reached :: "lease_limits \<Rightarrow> work_row list \<Rightarrow> bool" where
  "global_reached caps active = (case ll_global caps of None \<Rightarrow> False | Some g \<Rightarrow> g \<le> int (length active))"

text \<open>The loop over the candidates: \<^verbatim>\<open>break\<close> at the global cap, \<^verbatim>\<open>continue\<close> over a capped dimension.\<close>

fun select_candidate :: "lease_limits \<Rightarrow> work_row list \<Rightarrow> work_row list \<Rightarrow> work_row option" where
  "select_candidate caps active [] = None"
| "select_candidate caps active (w # ws) =
     (if global_reached caps active then None
      else if \<not> under_limits caps active w then select_candidate caps active ws
      else Some w)"

definition new_lease :: "uuid \<Rightarrow> uuid \<Rightarrow> string \<Rightarrow> int \<Rightarrow> int \<Rightarrow> lease_row" where
  "new_lease lease_id work_id owner acquired expires =
     \<lparr>le_lease_id = lease_id, le_work_id = work_id, le_owner = owner, le_acquired_at = acquired,
      le_expires_at = expires, le_heartbeat_at = acquired, le_state = L_Active, le_released_at = None\<rparr>"

definition mark_leased :: "uuid \<Rightarrow> int \<Rightarrow> store \<Rightarrow> store" where
  "mark_leased work_id stamp st =
     upd_work (\<lambda>w. wi_work_id w = work_id) (\<lambda>w. w\<lparr>wi_state := W_Leased, wi_updated_at := stamp\<rparr>) st"

definition lease_next_txn :: "uuid \<Rightarrow> string \<Rightarrow> int \<Rightarrow> int \<Rightarrow> lease_limits \<Rightarrow> int \<Rightarrow> (work_row \<times> lease_row) option txn" where
  "lease_next_txn lease_id owner acquired expires caps aging st =
     (let st1 = expire_all acquired None st in
      case select_candidate caps (active_rows st1) (queue_candidates acquired aging st1) of
        None \<Rightarrow> Inr (None, st1)
      | Some candidate \<Rightarrow>
          bindE (insert_lease (new_lease lease_id (wi_work_id candidate) owner acquired expires) st1) (\<lambda>st2.
          let st3 = mark_leased (wi_work_id candidate) acquired st2 in
          case (the_work (wi_work_id candidate) st3, the_lease lease_id st3) of
            (Some work_row, Some lease_row) \<Rightarrow> Inr (Some (work_row, lease_row), st3)
          | _ \<Rightarrow> Inl (Store_Error ''leased work item disappeared before repository read'')))"

definition check_lease_limits :: "lease_limits \<Rightarrow> store_error + lease_limits" where
  "check_lease_limits caps =
     bindE (checked_limits (\<lambda>k. False) (ll_run caps)) (\<lambda>_.
     bindE (checked_limits (\<lambda>k. k = []) (ll_backend caps)) (\<lambda>_.
     bindE (checked_limits (\<lambda>k. k = []) (ll_provider_route caps)) (\<lambda>_.
     bindE (checked_limits (\<lambda>k. k = []) (ll_model_route caps)) (\<lambda>_.
     bindE (checked_limits (\<lambda>k. k = []) (ll_resource_class caps)) (\<lambda>_.
     bindE (checked_limits (\<lambda>k. k = []) (ll_execution_family caps)) (\<lambda>_.
     Inr caps))))))"

text \<open>
  \<open>fresh\<close> is the identity that \<^verbatim>\<open>_new_id(EntityKind.LEASE)\<close> returns; it is used when the caller passes
  no \<open>lease_id\<close>. \<open>ttl\<close> is in microseconds.
\<close>

definition lease_next_work_item :: "uuid \<Rightarrow> string \<Rightarrow> py_datetime \<Rightarrow> int \<Rightarrow> lease_limits \<Rightarrow> int \<Rightarrow> uuid option
    \<Rightarrow> (work_row \<times> lease_row) option store_op" where
  "lease_next_work_item fresh owner now ttl caps aging lease_id =
     checked (bindE (required_text ''owner'' owner) (\<lambda>who.
              bindE (aware ''now'' now) (\<lambda>acquired.
              bindE (guardE (0 < ttl) (Value_Error ''lease ttl must be greater than zero'')) (\<lambda>_.
              bindE (guardE (optional_ok (\<lambda>g. 0 < g) (ll_global caps)) (Value_Error ''global_limit must be positive'')) (\<lambda>_.
              bindE (guardE (0 < aging) (Value_Error ''priority_aging_seconds must be positive'')) (\<lambda>_.
              bindE (check_lease_limits caps) (\<lambda>_.
              bindE (checked_id ''lease_id'' (case lease_id of None \<Rightarrow> fresh | Some l \<Rightarrow> l)) (\<lambda>lid.
              Inr (lid, who, acquired)))))))))
       (\<lambda>(lid, who, acquired). write_txn (lease_next_txn lid who acquired (acquired + ttl) caps aging))"

section \<open>A named work item\<close>

definition acquire_lease_txn :: "uuid \<Rightarrow> uuid \<Rightarrow> string \<Rightarrow> int \<Rightarrow> int \<Rightarrow> (string + lease_row) txn" where
  "acquire_lease_txn lease_id work_id owner acquired expires st =
     (let st1 = expire_all acquired None st in
      bindE (require_row ''operational_work_items'' (the_work work_id st1)) (\<lambda>item.
      let existing = find (\<lambda>l. le_work_id l = work_id \<and> is_active l) (st_leases st1);
          take = (\<lambda>st2.
            bindE (insert_lease (new_lease lease_id work_id owner acquired expires) st2) (\<lambda>st3.
            let st4 = mark_leased work_id acquired st3 in
            bindE (reread (the_lease lease_id st4) st4) (\<lambda>(l, _). Inr (Inr l, st4))))
      in case existing of
           Some l \<Rightarrow>
             if acquired < le_expires_at l then Inr (Inl ''work item lease is held by its owner'', st1)
             else take (expire_lease_row (le_lease_id l) st1)
         | None \<Rightarrow>
             if wi_state item \<noteq> W_Queued then Inr (Inl ''work item is not queued'', st1)
             else take st1))"

text \<open>
  The reason why the lease is unavailable is raised after the transaction has committed, so that the
  expiry it made stays.
\<close>

definition acquire_lease :: "uuid \<Rightarrow> uuid \<Rightarrow> string \<Rightarrow> py_datetime \<Rightarrow> int \<Rightarrow> uuid option \<Rightarrow> lease_row store_op" where
  "acquire_lease fresh work_id owner now ttl lease_id =
     checked (bindE (checked_id ''work_id'' work_id) (\<lambda>wid.
              bindE (required_text ''owner'' owner) (\<lambda>who.
              bindE (guardE (0 < ttl) (Value_Error ''lease ttl must be greater than zero'')) (\<lambda>_.
              bindE (aware ''now'' now) (\<lambda>acquired.
              bindE (checked_id ''lease_id'' (case lease_id of None \<Rightarrow> fresh | Some l \<Rightarrow> l)) (\<lambda>lid.
              Inr (wid, who, acquired, lid)))))))
       (\<lambda>(wid, who, acquired, lid).
          bindS (write_txn (acquire_lease_txn lid wid who acquired (acquired + ttl))) (\<lambda>outcome.
          case outcome of Inl reason \<Rightarrow> raiseS (Lease_Unavailable reason) | Inr l \<Rightarrow> returnS l))"

section \<open>Renewal and release\<close>

definition renew_lease_txn :: "uuid \<Rightarrow> string \<Rightarrow> int \<Rightarrow> int \<Rightarrow> lease_row txn" where
  "renew_lease_txn lease_id owner now ttl st =
     bindE (require_row ''operational_leases'' (the_lease lease_id st)) (\<lambda>lease.
     bindE (guardE (le_state lease = L_Active) (Lease_Unavailable ''lease is not active'')) (\<lambda>_.
     bindE (guardE (le_owner lease = owner) (Lease_Unavailable ''lease owner does not match'')) (\<lambda>_.
     bindE (guardE (\<not> le_expires_at lease \<le> now) (Lease_Unavailable ''lease has expired'')) (\<lambda>_.
       let st' = upd_leases (\<lambda>l. le_lease_id l = lease_id \<and> le_state l = L_Active)
             (\<lambda>l. l\<lparr>le_expires_at := now + ttl, le_heartbeat_at := now\<rparr>) st
       in reread (the_lease lease_id st') st'))))"

definition renew_lease :: "uuid \<Rightarrow> string \<Rightarrow> py_datetime \<Rightarrow> int \<Rightarrow> lease_row store_op" where
  "renew_lease lease_id owner now ttl =
     checked (bindE (checked_id ''lease_id'' lease_id) (\<lambda>lid.
              bindE (required_text ''owner'' owner) (\<lambda>who.
              bindE (aware ''now'' now) (\<lambda>stamp.
              bindE (guardE (0 < ttl) (Value_Error ''lease ttl must be greater than zero'')) (\<lambda>_.
              Inr (lid, who, stamp))))))
       (\<lambda>(lid, who, stamp). write_txn (renew_lease_txn lid who stamp ttl))"

definition release_lease_txn :: "uuid \<Rightarrow> string \<Rightarrow> int \<Rightarrow> lease_row txn" where
  "release_lease_txn lease_id owner released_at st =
     bindE (require_row ''operational_leases'' (the_lease lease_id st)) (\<lambda>lease.
     bindE (guardE (le_state lease = L_Active) (Lease_Unavailable ''lease is not active'')) (\<lambda>_.
     bindE (guardE (le_owner lease = owner) (Lease_Unavailable ''lease owner does not match'')) (\<lambda>_.
       let st1 = upd_leases (\<lambda>l. le_lease_id l = lease_id)
             (\<lambda>l. l\<lparr>le_state := L_Released, le_released_at := Some released_at\<rparr>) st;
           st2 = upd_work (\<lambda>w. wi_work_id w = le_work_id lease \<and> wi_state w \<in> {W_Leased, W_Running})
             (\<lambda>w. w\<lparr>wi_state := W_Queued, wi_updated_at := released_at\<rparr>) st1
       in reread (the_lease lease_id st2) st2)))"

definition release_lease :: "int \<Rightarrow> uuid \<Rightarrow> string \<Rightarrow> py_datetime option \<Rightarrow> lease_row store_op" where
  "release_lease clock lease_id owner now =
     checked (bindE (checked_id ''lease_id'' lease_id) (\<lambda>lid.
              bindE (required_text ''owner'' owner) (\<lambda>who.
              bindE (now_or_clock clock now) (\<lambda>stamp. Inr (lid, who, stamp)))))
       (\<lambda>(lid, who, stamp). write_txn (release_lease_txn lid who stamp))"

definition get_lease :: "uuid \<Rightarrow> lease_row store_op" where
  "get_lease lease_id = readS (\<lambda>st. bindE (checked_id ''lease_id'' lease_id) (\<lambda>lid.
     require_row ''operational_leases'' (the_lease lid st)))"

section \<open>Every method keeps the invariant\<close>

text \<open>The ways in which a branching transaction returns.\<close>

lemma case_option_Inr_iff:
  "(case x of None \<Rightarrow> a | Some y \<Rightarrow> f y) = Inr z \<longleftrightarrow> (x = None \<and> a = Inr z) \<or> (\<exists>y. x = Some y \<and> f y = Inr z)"
  by (cases x) simp_all

lemma if_Inr_iff: "(if b then m else n) = Inr z \<longleftrightarrow> (b \<and> m = Inr z) \<or> (\<not> b \<and> n = Inr z)"
  by simp

lemmas txn_iffs = bindE_eq_Inr_iff guardE_eq_Inr_iff case_option_Inr_iff if_Inr_iff

lemma expire_lease_row_inv: "store_inv st \<Longrightarrow> store_inv (expire_lease_row l st)"
  unfolding expire_lease_row_def
  by (rule inv_upd_leases) (auto simp: lease_cols_def is_active_def release_ok_def)

lemma expire_attempt_rows_inv: "store_inv st \<Longrightarrow> store_inv (expire_attempt_rows l t st)"
  unfolding expire_attempt_rows_def
  by (rule inv_upd_attempts) (auto simp: attempt_cols_def failure_ok_def)

lemma expire_one_inv: "store_inv st \<Longrightarrow> store_inv (expire_one t l st)"
  unfolding expire_one_def Let_def expire_submission_rows_def expire_trial_row_def expire_work_row_def
  by (simp add: inv_update expire_attempt_rows_inv expire_lease_row_inv)

lemma fold_inv: "(\<And>x st. I st \<Longrightarrow> I (f x st)) \<Longrightarrow> I st \<Longrightarrow> I (fold f xs st)"
  by (induction xs arbitrary: st) auto

lemma expire_all_inv: "store_inv st \<Longrightarrow> store_inv (expire_all t r st)"
  unfolding expire_all_def by (rule fold_inv) (rule expire_one_inv)

lemma release_ok_new_lease [simp]: "release_ok (new_lease i w own a e)"
  by (simp add: release_ok_def new_lease_def is_active_def)

lemma mark_leased_inv [simp]: "store_inv (mark_leased w t st) = store_inv st"
  by (simp add: mark_leased_def inv_update)

lemma expire_leases_inv [preserve_intros]: "preserves store_inv (expire_leases r n)"
  unfolding expire_leases_def
  by (auto simp: expire_leases_txn_def intro!: preserve_intros txn_preservesI expire_all_inv)

lemma lease_next_txn_inv: "txn_preserves store_inv (lease_next_txn i own a e caps g)"
proof (rule txn_preservesI)
  fix st x st'
  assume inv: "store_inv st" and run: "lease_next_txn i own a e caps g st = Inr (x, st')"
  have "store_inv (expire_all a None st)" using inv by (rule expire_all_inv)
  then show "store_inv st'"
    using run
    by (auto simp: lease_next_txn_def Let_def txn_iffs elim!: inv_insert_lease)
qed

lemma lease_next_inv [preserve_intros]: "preserves store_inv (lease_next_work_item f own n t caps g l)"
  unfolding lease_next_work_item_def by (auto intro!: preserve_intros lease_next_txn_inv)

lemma acquire_lease_txn_inv: "txn_preserves store_inv (acquire_lease_txn i w own a e)"
proof (rule txn_preservesI)
  fix st x st'
  assume inv: "store_inv st" and run: "acquire_lease_txn i w own a e st = Inr (x, st')"
  have "store_inv (expire_all a None st)" using inv by (rule expire_all_inv)
  moreover have "store_inv (expire_lease_row l (expire_all a None st))" for l
    using inv by (intro expire_lease_row_inv expire_all_inv)
  ultimately show "store_inv st'"
    using run
    by (auto simp: acquire_lease_txn_def Let_def txn_iffs elim!: inv_insert_lease)
qed

declare preserves_case_sum [preserve_intros]

lemma acquire_lease_inv [preserve_intros]: "preserves store_inv (acquire_lease f w own n t l)"
  unfolding acquire_lease_def by (auto intro!: preserve_intros acquire_lease_txn_inv)

lemma renew_lease_inv [preserve_intros]: "preserves store_inv (renew_lease l own n t)"
  unfolding renew_lease_def
  by (auto simp: renew_lease_txn_def err_iffs Let_def lease_cols_def is_active_def release_ok_def
      intro!: preserve_intros txn_preservesI inv_upd_leases)

lemma release_lease_inv [preserve_intros]: "preserves store_inv (release_lease k l own n)"
  unfolding release_lease_def
  by (auto simp: release_lease_txn_def err_iffs Let_def inv_update lease_cols_def is_active_def release_ok_def
      intro!: preserve_intros txn_preservesI inv_upd_leases)

end
