(* ===== verification/Store_Reachable.thy ===== *)
theory Store_Reachable
  imports Store_Leases
begin

text \<open>
  The store as a state machine: one step per call of a mutating method of \<^verbatim>\<open>OperationalStore\<close>, with any
  arguments and whatever it returns or raises; reachable stores; atomicity; read-only stores; what no
  step undoes.
\<close>

section \<open>Steps\<close>

inductive store_step :: "store \<Rightarrow> store \<Rightarrow> bool" where
  Create_Run: "store_step st (snd (create_run c r ref s n st))"
| Update_Run: "store_step st (snd (update_run c r s n st))"
| Request_Cancellation: "store_step st (snd (request_cancellation c r t n st))"
| Put_Plan: "store_step st (snd (put_plan c p r ref s n st))"
| Update_Plan: "store_step st (snd (update_plan c p s n st))"
| Put_Planned_Trial: "store_step st (snd (put_planned_trial c t p r k s n st))"
| Update_Planned_Trial: "store_step st (snd (update_planned_trial c t s n st))"
| Complete_Plan: "store_step st (snd (complete_plan_if_terminal c p r n st))"
| Create_Work_Item: "store_step st (snd (create_work_item c w a n st))"
| Update_Work_Item: "store_step st (snd (update_work_item c w s a n st))"
| Create_Attempt: "store_step st (snd (create_attempt c i w t k ci rn l s n st))"
| Create_Attempt_For_Lease: "store_step st (snd (create_attempt_for_lease c i w t l ci rn n st))"
| Transition_Attempt: "store_step st (snd (transition_attempt c i s n f re ca st))"
| Record_Submission: "store_step st (snd (record_backend_submission c i a b e w s n st))"
| Transition_Submission: "store_step st (snd (transition_backend_submission c i s n ca re st))"
| Bind_External_Ids: "store_step st (snd (bind_backend_submission_external_ids c i e w n st))"
| Schedule_Retry: "store_step st (snd (schedule_retry c w a n st))"
| Expire_Leases: "store_step st (snd (expire_leases r now st))"
| Lease_Next: "store_step st (snd (lease_next_work_item i own now ttl caps g l st))"
| Acquire_Lease: "store_step st (snd (acquire_lease i w own now ttl l st))"
| Renew_Lease: "store_step st (snd (renew_lease l own now ttl st))"
| Release_Lease: "store_step st (snd (release_lease c l own n st))"

inductive reachable :: "store \<Rightarrow> bool" where
  Initial: "reachable empty_store"
| Step: "reachable st \<Longrightarrow> store_step st st' \<Longrightarrow> reachable st'"

inductive store_steps :: "store \<Rightarrow> store \<Rightarrow> bool" where
  Refl: "store_steps st st"
| Then: "store_steps st st' \<Longrightarrow> store_step st' st'' \<Longrightarrow> store_steps st st''"

lemma store_step_inv:
  assumes "store_step st st'" "store_inv st"
  shows "store_inv st'"
  using assms by (induction rule: store_step.induct) (rule preservesD, rule preserve_intros, assumption)+

lemma reachable_inv: "reachable st \<Longrightarrow> store_inv st"
  by (induction rule: reachable.induct) (auto intro: store_inv_empty store_step_inv)

lemma store_steps_inv: "store_steps st st' \<Longrightarrow> store_inv st \<Longrightarrow> store_inv st'"
  by (induction rule: store_steps.induct) (auto intro: store_step_inv)

section \<open>Atomic methods\<close>

text \<open>A method is atomic when an exception leaves the store as it was.\<close>

definition atomic :: "'a store_op \<Rightarrow> bool" where
  "atomic m \<longleftrightarrow> (\<forall>st e st'. m st = (Inl e, st') \<longrightarrow> st' = st)"

lemma atomic_write_txn: "atomic (write_txn body)"
  unfolding atomic_def by (auto dest: write_txn_Inl)

lemma atomic_checked: "(\<And>x. m = Inr x \<Longrightarrow> atomic (f x)) \<Longrightarrow> atomic (checked m f)"
  unfolding atomic_def by (auto simp: checked_apply split: sum.splits)

lemma atomic_case_prod: "(\<And>y z. x = (y, z) \<Longrightarrow> atomic (f y z)) \<Longrightarrow> atomic (case x of (y, z) \<Rightarrow> f y z)"
  by (simp split: prod.split)

lemmas atomic_intros = atomic_checked atomic_case_prod atomic_write_txn

text \<open>A method on a read-only store changes nothing.\<close>

definition refuses_read_only :: "'a store_op \<Rightarrow> bool" where
  "refuses_read_only m \<longleftrightarrow> (\<forall>st. st_read_only st \<longrightarrow> snd (m st) = st \<and> \<not> isOK (fst (m st)))"

lemma ro_write_txn: "refuses_read_only (write_txn body)"
  by (simp add: refuses_read_only_def write_txn_ro)

lemma ro_checked: "(\<And>x. m = Inr x \<Longrightarrow> refuses_read_only (f x)) \<Longrightarrow> refuses_read_only (checked m f)"
  by (auto simp: refuses_read_only_def checked_apply split: sum.split)

lemma ro_case_prod: "(\<And>y z. x = (y, z) \<Longrightarrow> refuses_read_only (f y z)) \<Longrightarrow> refuses_read_only (case x of (y, z) \<Rightarrow> f y z)"
  by (simp split: prod.split)

lemma ro_bindS: "refuses_read_only m \<Longrightarrow> refuses_read_only (bindS m f)"
  by (fastforce simp: refuses_read_only_def bindS_def isOK_def split: prod.splits sum.splits)

lemmas ro_intros = ro_checked ro_case_prod ro_bindS ro_write_txn

lemmas method_defs = create_run_def update_run_def request_cancellation_def put_plan_def update_plan_def
  put_planned_trial_def update_planned_trial_def complete_plan_if_terminal_def create_work_item_def
  update_work_item_def create_attempt_def create_attempt_for_lease_def transition_attempt_def
  record_backend_submission_def transition_backend_submission_def bind_backend_submission_external_ids_def
  schedule_retry_def expire_leases_def lease_next_work_item_def renew_lease_def release_lease_def

lemma refuses_read_onlyD: "refuses_read_only m \<Longrightarrow> st_read_only st \<Longrightarrow> snd (m st) = st"
  by (simp add: refuses_read_only_def)

lemma store_step_read_only: "store_step st st' \<Longrightarrow> st_read_only st \<Longrightarrow> st' = st"
  by (induction rule: store_step.induct; erule refuses_read_onlyD [rotated]; unfold method_defs acquire_lease_def;
      intro ro_intros)

section \<open>What no step undoes\<close>

text \<open>A run whose cancellation was requested.\<close>

definition cancel_flag :: "uuid \<Rightarrow> store \<Rightarrow> bool" where
  "cancel_flag run_id st \<longleftrightarrow> optional_ok (\<lambda>r. rr_cancellation_requested_at r \<noteq> None) (the_run run_id st)
     \<and> the_run run_id st \<noteq> None"

lemma cancel_flag_iff:
  "cancel_flag run_id st \<longleftrightarrow> (\<exists>r. the_run run_id st = Some r \<and> rr_cancellation_requested_at r \<noteq> None)"
  by (auto simp: cancel_flag_def)

lemma cancel_flag_upd_runs [intro]:
  assumes "cancel_flag k st" "\<And>r. rr_run_id (f r) = rr_run_id r"
    and "\<And>r. rr_cancellation_requested_at r \<noteq> None \<Longrightarrow> rr_cancellation_requested_at (f r) \<noteq> None"
  shows "cancel_flag k (upd_runs p f st)"
proof -
  obtain r where r: "the_run k st = Some r" "rr_cancellation_requested_at r \<noteq> None"
    using assms(1) unfolding cancel_flag_iff by blast
  have "the_run k (upd_runs p f st) = Some (if p r then f r else r)"
    using r(1) assms(2) by (simp add: find_row_update)
  then show ?thesis using r(2) assms(3) unfolding cancel_flag_iff by auto
qed

lemma cancel_flag_updates [simp]:
  "cancel_flag k (upd_plans p1 f1 st) = cancel_flag k st" "cancel_flag k (upd_trials p2 f2 st) = cancel_flag k st"
  "cancel_flag k (upd_work p3 f3 st) = cancel_flag k st" "cancel_flag k (upd_leases p4 f4 st) = cancel_flag k st"
  "cancel_flag k (upd_attempts p5 f5 st) = cancel_flag k st"
  "cancel_flag k (upd_submissions p6 f6 st) = cancel_flag k st"
  by (simp_all add: cancel_flag_def)

lemma cancel_flag_inserts:
  "insert_run r st = Inr st' \<Longrightarrow> cancel_flag k st \<Longrightarrow> cancel_flag k st'"
  "insert_plan p st = Inr st' \<Longrightarrow> cancel_flag k st \<Longrightarrow> cancel_flag k st'"
  "insert_trial t st = Inr st' \<Longrightarrow> cancel_flag k st \<Longrightarrow> cancel_flag k st'"
  "insert_work w st = Inr st' \<Longrightarrow> cancel_flag k st \<Longrightarrow> cancel_flag k st'"
  "insert_lease l st = Inr st' \<Longrightarrow> cancel_flag k st \<Longrightarrow> cancel_flag k st'"
  "insert_attempt a st = Inr st' \<Longrightarrow> cancel_flag k st \<Longrightarrow> cancel_flag k st'"
  "insert_submission s st = Inr st' \<Longrightarrow> cancel_flag k st \<Longrightarrow> cancel_flag k st'"
  by (auto simp: insert_run_def insert_plan_def insert_trial_def insert_work_def insert_lease_def
      insert_attempt_def insert_submission_def cancel_flag_iff find_row_append split: option.split)

lemma coalesce_neq_None: "x \<noteq> None \<Longrightarrow> coalesce x y \<noteq> None"
  by (cases x) simp_all

lemma cancel_flag_expire [simp]: "cancel_flag k (expire_all t r st) = cancel_flag k st"
proof -
  have "cancel_flag k (fold (expire_one t) ls st) = cancel_flag k st" for ls
    by (induction ls arbitrary: st)
      (simp_all add: expire_one_def Let_def expire_lease_row_def expire_work_row_def expire_trial_row_def
        expire_attempt_rows_def expire_submission_rows_def)
  then show ?thesis by (simp add: expire_all_def)
qed

lemma cancel_flag_marks [simp]:
  "cancel_flag k (mark_leased w t st) = cancel_flag k st"
  "cancel_flag k (expire_lease_row l st) = cancel_flag k st"
  "cancel_flag k (cancel_rows p q t st) = cancel_flag k st"
  "cancel_flag k (close_terminal_plans r t st) = cancel_flag k st"
  by (simp_all add: mark_leased_def expire_lease_row_def cancel_rows_def close_terminal_plans_def)

lemma cancel_flag_mark_cancelled: "cancel_flag k st \<Longrightarrow> cancel_flag k (mark_run_cancelled r t st)"
  unfolding mark_run_cancelled_def by (rule cancel_flag_upd_runs) simp_all

lemmas txn_defs = create_run_txn_def update_run_txn_def request_cancellation_txn_def put_plan_txn_def
  update_plan_txn_def put_planned_trial_txn_def update_planned_trial_txn_def complete_plan_if_terminal_txn_def
  create_work_item_txn_def update_work_item_txn_def create_attempt_txn_def create_attempt_for_lease_txn_def
  transition_attempt_txn_def record_backend_submission_txn_def transition_backend_submission_txn_def
  bind_external_ids_txn_def schedule_retry_txn_def expire_leases_txn_def renew_lease_txn_def release_lease_txn_def

lemma case_prod_Inr_iff: "(case x of (a, b) \<Rightarrow> f a b) = Inr z \<longleftrightarrow> (\<exists>a b. x = (a, b) \<and> f a b = Inr z)"
  by (cases x) simp

lemma cancel_flag_txns:
  "txn_preserves (cancel_flag k) (create_run_txn a1 b1 c1 d1)"
  "txn_preserves (cancel_flag k) (update_run_txn a1 b1 d1)"
  "txn_preserves (cancel_flag k) (request_cancellation_txn a1 e1 d1)"
  "txn_preserves (cancel_flag k) (put_plan_txn a1 a2 c1 f1 d1)"
  "txn_preserves (cancel_flag k) (update_plan_txn a1 f1 d1)"
  "txn_preserves (cancel_flag k) (put_planned_trial_txn a1 a2 a3 g1 h1 d1)"
  "txn_preserves (cancel_flag k) (update_planned_trial_txn a1 h1 d1)"
  "txn_preserves (cancel_flag k) (complete_plan_if_terminal_txn a1 a2 d1)"
  "txn_preserves (cancel_flag k) (create_work_item_txn w1)"
  "txn_preserves (cancel_flag k) (update_work_item_txn a1 ws1 av1 d1)"
  by (rule txn_preservesI; force simp: txn_defs txn_iffs case_prod_Inr_iff Let_def coalesce_neq_None
      intro: cancel_flag_mark_cancelled dest: cancel_flag_inserts)+

lemma cancel_flag_txns_more:
  "txn_preserves (cancel_flag k) (create_attempt_txn i1 w1 t1 n1 c1 r1 l1 s1 m1)"
  "txn_preserves (cancel_flag k) (create_attempt_for_lease_txn i1 w1 t1 l2 c1 r1 m1)"
  "txn_preserves (cancel_flag k) (transition_attempt_txn i1 s1 m1 f1 re1 ca1)"
  "txn_preserves (cancel_flag k) (record_backend_submission_txn sr1)"
  "txn_preserves (cancel_flag k) (transition_backend_submission_txn i1 ss1 m1 ca1 re1)"
  "txn_preserves (cancel_flag k) (bind_external_ids_txn i1 e1 ew1 m1)"
  "txn_preserves (cancel_flag k) (schedule_retry_txn w1 n1 m1)"
  "txn_preserves (cancel_flag k) (expire_leases_txn m1 ro1)"
  "txn_preserves (cancel_flag k) (renew_lease_txn l2 own1 m1 n1)"
  "txn_preserves (cancel_flag k) (release_lease_txn l2 own1 m1)"
  by (rule txn_preservesI; force simp: txn_defs txn_iffs case_prod_Inr_iff Let_def dest: cancel_flag_inserts)+

lemma cancel_flag_lease_next: "txn_preserves (cancel_flag k) (lease_next_txn i own a e caps g)"
  by (rule txn_preservesI)
    (auto simp: lease_next_txn_def txn_iffs case_prod_Inr_iff Let_def split: option.splits dest: cancel_flag_inserts)

lemma cancel_flag_acquire: "txn_preserves (cancel_flag k) (acquire_lease_txn i w own a e)"
  by (rule txn_preservesI)
    (auto simp: acquire_lease_txn_def txn_iffs case_prod_Inr_iff Let_def dest!: cancel_flag_inserts)

lemmas cancel_flag_intros = cancel_flag_txns cancel_flag_txns_more cancel_flag_lease_next cancel_flag_acquire
  preserves_checked preserves_write_txn preserves_case_prod preserves_case_sum preserves_bindS
  preserves_returnS preserves_raiseS

lemma store_step_cancel_flag: "store_step st st' \<Longrightarrow> cancel_flag k st \<Longrightarrow> cancel_flag k st'"
  by (induction rule: store_step.induct; erule preservesD [rotated]; unfold method_defs acquire_lease_def;
      intro cancel_flag_intros)

lemma store_steps_cancel_flag: "store_steps st st' \<Longrightarrow> cancel_flag k st \<Longrightarrow> cancel_flag k st'"
  by (induction rule: store_steps.induct) (auto intro: store_step_cancel_flag)

end
