(* ===== verification/Store_Queue.thy ===== *)
theory Store_Queue
  imports Store_Reachable
begin

text \<open>
  What the store promises to the workers: mutual exclusion of leases, the concurrency caps, the order of
  the queue, cancellation. The example store at the start is the input of the closed instances.
\<close>

section \<open>An example store\<close>

definition demo_id :: "uuid \<Rightarrow> uuid" where
  "demo_id n = 7 * 2 ^ 76 + 2 ^ 63 + n"

definition demo_run :: run_row where
  "demo_run = \<lparr>rr_run_id = demo_id 1, rr_status = Run_Running, rr_spec_ref = ''spec.json'', rr_created_at = 0,
     rr_started_at = Some 0, rr_finished_at = None, rr_updated_at = 0, rr_cancellation_requested_at = None\<rparr>"

definition demo_plan :: plan_row where
  "demo_plan = \<lparr>pr_plan_id = demo_id 2, pr_run_id = demo_id 1, pr_state = Plan_Started, pr_plan_ref = ''plan.json'',
     pr_created_at = 0, pr_updated_at = 0\<rparr>"

definition demo_trial :: "uuid \<Rightarrow> int \<Rightarrow> trial_state \<Rightarrow> trial_row" where
  "demo_trial n k s = \<lparr>tr_trial_id = demo_id n, tr_plan_id = demo_id 2, tr_run_id = demo_id 1, tr_ordinal = k,
     tr_state = s, tr_created_at = 0, tr_updated_at = 0\<rparr>"

definition demo_work :: "uuid \<Rightarrow> string \<Rightarrow> uuid \<Rightarrow> int \<Rightarrow> work_state \<Rightarrow> work_row" where
  "demo_work n key t k s = \<lparr>wi_work_id = demo_id n, wi_work_key = key, wi_run_id = demo_id 1,
     wi_trial_id = demo_id t, wi_kind = ''trial'', wi_state = s, wi_priority = 0, wi_created_at = 0,
     wi_updated_at = 0, wi_plan_id = demo_id 2, wi_ordinal = k, wi_execution_family = ''artifact'',
     wi_backend = ''local'', wi_provider_route = ''route'', wi_model_route = ''model'',
     wi_resource_class = ''small'', wi_available_at = 0, wi_retry_policy = default_retry_policy\<rparr>"

definition demo_lease :: lease_row where
  "demo_lease = new_lease (demo_id 7) (demo_id 6) ''worker-a'' 0 100"

definition demo_attempt :: attempt_row where
  "demo_attempt = new_attempt (demo_id 8) (demo_work 6 ''w/b'' 4 2 W_Running) 1 1 0 (Some (demo_id 7)) A_Running 0"

definition demo_submission :: submission_row where
  "demo_submission = \<lparr>su_submission_id = demo_id 9, su_attempt_id = demo_id 8, su_backend = ''local'',
     su_external_id = Some ''x1'', su_external_work_id = None, su_state = S_Running, su_submitted_at = 0,
     su_updated_at = 0, su_cancellation_status = C_Not_Requested, su_reconciliation_state = R_Not_Required\<rparr>"

text \<open>Two work items: one waits in the queue, the other runs under a lease.\<close>

definition demo_store :: store where
  "demo_store = \<lparr>st_read_only = False, st_runs = [demo_run], st_plans = [demo_plan],
     st_trials = [demo_trial 3 1 T_Queued, demo_trial 4 2 T_Running],
     st_work = [demo_work 5 ''w/a'' 3 1 W_Queued, demo_work 6 ''w/b'' 4 2 W_Running],
     st_leases = [demo_lease], st_attempts = [demo_attempt], st_submissions = [demo_submission]\<rparr>"

definition demo_caps :: lease_limits where
  "demo_caps = \<lparr>ll_global = Some 2, ll_run = [], ll_backend = [(''local'', 2)], ll_provider_route = [],
     ll_model_route = [], ll_resource_class = [], ll_execution_family = []\<rparr>"

lemma demo_id_inject [simp]: "demo_id m = demo_id n \<longleftrightarrow> m = n"
  by (simp add: demo_id_def)

lemma demo_id_ok [simp]:
  "uuidv7_ok (demo_id 1)" "uuidv7_ok (demo_id 2)" "uuidv7_ok (demo_id 3)" "uuidv7_ok (demo_id 4)"
  "uuidv7_ok (demo_id 5)" "uuidv7_ok (demo_id 6)" "uuidv7_ok (demo_id 7)" "uuidv7_ok (demo_id 8)"
  "uuidv7_ok (demo_id 9)" "uuidv7_ok (demo_id 10)"
  by (simp_all add: uuidv7_ok_def validate_uuidv7_def uuid_is_rfc4122_def uuid_version_def demo_id_def isOK_bindE)

lemma checked_id_ok [simp]: "uuidv7_ok u \<Longrightarrow> checked_id label u = Inr u"
  by simp

lemma checked_optional_id_simps [simp]: "checked_optional_id label None = Inr None"
  "uuidv7_ok u \<Longrightarrow> checked_optional_id label (Some u) = Inr (Some u)"
  by (simp_all add: checked_optional_id_def)

lemma required_text_ok [simp]: "\<not> py_blank t \<Longrightarrow> required_text label t = Inr t"
  by simp

lemmas demo_defs = demo_store_def demo_run_def demo_plan_def demo_trial_def demo_work_def demo_lease_def
  demo_attempt_def demo_submission_def new_lease_def new_attempt_def

lemmas inv_defs = store_inv_def structure_ok_def states_ok_def plans_ok_def trials_ok_def work_ok_def
  leases_ok_def attempts_ok_def submissions_ok_def plan_cols_def trial_cols_def work_cols_def lease_cols_def
  attempt_cols_def submission_cols_def work_refs_def one_active_def is_active_def release_ok_def failure_ok_def

lemma demo_store_inv: "store_inv demo_store"
  by (simp add: demo_defs inv_defs)

section \<open>Reachable stores\<close>

lemma one_activeD:
  assumes "one_active ls" "l \<in> set ls" "k \<in> set ls" "is_active l" "is_active k" "le_work_id l = le_work_id k"
  shows "l = k"
  using assms inj_onD [of le_work_id "set (filter is_active ls)" l k]
  by (simp add: one_active_def distinct_map)

text \<open>
  C1. Mutual exclusion: whatever methods were called, in whatever order and with whatever arguments, two
  active leases of one work item are the same lease; a lease is active exactly while it has no release
  time.
\<close>

theorem reachable_leases_exclusive:
  assumes "reachable st" and "l \<in> set (st_leases st)" and "k \<in> set (st_leases st)"
    and "is_active l" "is_active k" "le_work_id l = le_work_id k"
  shows "l = k \<and> le_released_at l = None"
proof -
  have "one_active (st_leases st)" "release_ok l"
    using reachable_inv [OF assms(1)] assms(2) by (simp_all add: store_inv_def states_ok_def list_all_iff)
  then show ?thesis using one_activeD [OF _ assms(2,3,4,5,6)] assms(4) by (simp add: release_ok_def)
qed

definition demo_reached :: store where
  "demo_reached =
     snd (acquire_lease (demo_id 7) (demo_id 5) ''worker-a'' (Aware 10) 100 None
       (snd (create_work_item 0 (demo_work 5 ''w/a'' 3 1 W_Queued) (Aware 0) None
         (snd (put_planned_trial 0 (demo_id 3) (demo_id 2) (demo_id 1) 1 T_Planned None
           (snd (put_plan 0 (demo_id 2) (demo_id 1) ''plan.json'' Plan_Ready None
             (snd (create_run 0 (demo_id 1) ''spec.json'' Run_Ready None empty_store)))))))))"

lemma demo_reached_reachable: "reachable demo_reached"
  unfolding demo_reached_def
  by (intro reachable.Step [OF _ Acquire_Lease] reachable.Step [OF _ Create_Work_Item]
      reachable.Step [OF _ Put_Planned_Trial] reachable.Step [OF _ Put_Plan] reachable.Step [OF _ Create_Run]
      reachable.Initial)

lemmas demo_eval = checked_apply write_txn_def txn_defs guardE_def bindE_def require_row_def reread_def
  insert_run_def insert_plan_def insert_trial_def insert_work_def insert_lease_def insert_attempt_def insert_row_def

lemma demo_ref_ok: "required_ref ''spec_ref'' ''spec.json'' = Inr ''spec.json''"
  "required_ref ''plan_ref'' ''plan.json'' = Inr ''plan.json''"
  by code_simp+

lemma demo_keys: "key_pattern True ''w/a''" "key_pattern True ''local''" "key_pattern True ''route''"
  "key_pattern True ''model''" "key_pattern True ''small''"
  by code_simp+

lemma demo_text_ok [simp]:
  "required_key label ''w/a'' = Inr ''w/a''" "required_key label ''local'' = Inr ''local''"
  "required_key label ''route'' = Inr ''route''" "required_key label ''model'' = Inr ''model''"
  "required_key label ''small'' = Inr ''small''"
  "\<not> py_blank ''trial''" "\<not> py_blank ''artifact''" "\<not> py_blank ''local''"
  "\<not> py_blank ''worker-a''" "\<not> py_blank ''worker-b''"
  by (simp_all only: required_key_Inr demo_keys) code_simp+

lemma demo_reached_leases: "st_leases demo_reached = [new_lease (demo_id 7) (demo_id 5) ''worker-a'' 10 110]"
  unfolding demo_reached_def
  by (simp add: demo_eval demo_ref_ok create_run_def empty_store_def put_plan_def put_planned_trial_def
      create_work_item_def check_work_item_def acquire_lease_def acquire_lease_txn_def expire_all_def
      expired_leases_def demo_work_def mark_leased_def bindS_def new_lease_def)

theorem reachable_leases_exclusive_witness:
  "\<exists>l. st_leases demo_reached = [l] \<and> le_released_at l = None"
proof -
  let ?l = "new_lease (demo_id 7) (demo_id 5) ''worker-a'' 10 110"
  have "?l = ?l \<and> le_released_at ?l = None"
    by (rule reachable_leases_exclusive [OF demo_reached_reachable])
      (simp_all add: demo_reached_leases is_active_def new_lease_def)
  then show ?thesis by (simp add: demo_reached_leases)
qed

text \<open>
  C24. The tables agree in every reachable store: a work item carries the plan, the run and the ordinal of
  its planned trial; an attempt the trial and the run of its work item, and its lease is a lease of that
  work item; numbers of attempts are unique within a work item.
\<close>

theorem reachable_references_agree:
  assumes "reachable st"
  shows "(\<forall>w\<in>set (st_work st). \<exists>t\<in>set (st_trials st). tr_trial_id t = wi_trial_id w
      \<and> tr_plan_id t = wi_plan_id w \<and> tr_run_id t = wi_run_id w \<and> tr_ordinal t = wi_ordinal w)
    \<and> (\<forall>a\<in>set (st_attempts st). (\<exists>w\<in>set (st_work st). wi_work_id w = at_work_id a
      \<and> wi_trial_id w = at_trial_id a \<and> wi_run_id w = at_run_id a)
      \<and> (\<forall>k. at_lease_id a = Some k \<longrightarrow>
          (\<exists>l\<in>set (st_leases st). le_lease_id l = k \<and> le_work_id l = at_work_id a)))
    \<and> distinct (map (\<lambda>a. (at_work_id a, at_attempt_number a)) (st_attempts st))"
proof -
  have ok: "structure_ok st" using reachable_inv [OF assms] by (simp add: store_inv_def)
  have "\<forall>w\<in>set (st_work st). \<exists>t\<in>set (st_trials st). tr_trial_id t = wi_trial_id w
      \<and> tr_plan_id t = wi_plan_id w \<and> tr_run_id t = wi_run_id w \<and> tr_ordinal t = wi_ordinal w"
    using ok by (fastforce simp: structure_ok_def work_ok_def work_cols_def trial_cols_def image_iff)
  moreover have "\<forall>a\<in>set (st_attempts st). (\<exists>w\<in>set (st_work st). wi_work_id w = at_work_id a
      \<and> wi_trial_id w = at_trial_id a \<and> wi_run_id w = at_run_id a)
      \<and> (\<forall>k. at_lease_id a = Some k \<longrightarrow>
          (\<exists>l\<in>set (st_leases st). le_lease_id l = k \<and> le_work_id l = at_work_id a))"
    using ok by (fastforce simp: structure_ok_def attempts_ok_def attempt_cols_def work_refs_def lease_cols_def image_iff)
  moreover have "distinct (map (\<lambda>a. (at_work_id a, at_attempt_number a)) (st_attempts st))"
    using ok by (simp add: structure_ok_def attempts_ok_def attempt_cols_def comp_def)
  ultimately show ?thesis by blast
qed

theorem reachable_references_agree_witness:
  "\<exists>w\<in>set (st_work demo_reached). \<exists>t\<in>set (st_trials demo_reached). tr_trial_id t = wi_trial_id w \<and> tr_ordinal t = 1"
proof -
  have "st_work demo_reached = [(demo_work 5 ''w/a'' 3 1 W_Leased)\<lparr>wi_updated_at := 10\<rparr>]"
    unfolding demo_reached_def
    by (simp add: demo_eval demo_ref_ok create_run_def empty_store_def put_plan_def put_planned_trial_def
      create_work_item_def check_work_item_def acquire_lease_def acquire_lease_txn_def expire_all_def
      expired_leases_def demo_work_def mark_leased_def bindS_def new_lease_def)
  then show ?thesis
    using reachable_references_agree [OF demo_reached_reachable] by (auto simp: demo_work_def)
qed

section \<open>Counting active leases\<close>

text \<open>The active leases whose work item satisfies \<open>p\<close>: what a concurrency cap counts.\<close>

definition active_on :: "(work_row \<Rightarrow> bool) \<Rightarrow> store \<Rightarrow> int" where
  "active_on p st = int (length (filter (\<lambda>l. is_active l \<and> (case the_work (le_work_id l) st of
     None \<Rightarrow> False | Some w \<Rightarrow> p w)) (st_leases st)))"

lemma length_filter_concat: "length (filter p (concat xss)) = sum_list (map (\<lambda>xs. length (filter p xs)) xss)"
  by (induction xss) simp_all

lemma length_join:
  "length (filter p (concat (map (\<lambda>w. map (\<lambda>l. w) (filter (q w) ls)) ws)))
     = sum_list (map (\<lambda>w. if p w then length (filter (q w) ls) else 0) ws)"
  by (induction ws) simp_all

lemma sum_matching:
  assumes "distinct (map wi_work_id ws)"
  shows "sum_list (map (\<lambda>w. if p w \<and> k = wi_work_id w then (1::nat) else 0) ws)
     = (case find_row wi_work_id k ws of None \<Rightarrow> 0 | Some w \<Rightarrow> if p w then 1 else 0)"
proof -
  have none: "k \<notin> set (map wi_work_id vs) \<Longrightarrow>
      sum_list (map (\<lambda>w. if p w \<and> k = wi_work_id w then (1::nat) else 0) vs) = 0" for vs
    by (induction vs) auto
  show ?thesis using assms
    by (induction ws) (auto simp: none find_row_None_iff [THEN iffD2])
qed

lemma length_active_rows:
  assumes "distinct (map wi_work_id (st_work st))"
  shows "int (length (filter p (active_rows st))) = active_on p st"
proof -
  let ?ws = "st_work st"
  have "sum_list (map (\<lambda>w. if p w then length (filter (\<lambda>l. le_work_id l = wi_work_id w \<and> is_active l) ls) else 0) ?ws)
      = length (filter (\<lambda>l. is_active l \<and> (case the_work (le_work_id l) st of None \<Rightarrow> False | Some w \<Rightarrow> p w)) ls)"
    for ls
  proof (induction ls)
    case Nil
    then show ?case by (simp add: sum_list_0 cong: if_cong)
  next
    case (Cons l ls)
    have split: "(if p w then length (filter (\<lambda>l. le_work_id l = wi_work_id w \<and> is_active l) (l # ls)) else 0)
        = (if is_active l then (if p w \<and> le_work_id l = wi_work_id w then 1 else 0) else 0)
          + (if p w then length (filter (\<lambda>l. le_work_id l = wi_work_id w \<and> is_active l) ls) else 0)" for w
      by simp
    show ?case
      unfolding split sum_list_addf Cons.IH using sum_matching [OF assms, of p "le_work_id l"]
      by (cases "is_active l") (auto split: option.split)
  qed
  then show ?thesis by (simp add: active_rows_def length_join active_on_def)
qed

section \<open>Leasing the next work item\<close>

lemma store_inv_works: "store_inv st \<Longrightarrow> distinct (map wi_work_id (st_work st))"
  by (simp add: store_inv_def structure_ok_def work_ok_def work_cols_def comp_def)

lemma select_candidate_Some:
  assumes "select_candidate caps active ws = Some w"
  shows "w \<in> set ws \<and> \<not> global_reached caps active \<and> under_limits caps active w
    \<and> (\<exists>us vs. ws = us @ w # vs \<and> (\<forall>u\<in>set us. \<not> under_limits caps active u))"
  using assms
proof (induction ws)
  case (Cons v ws)
  show ?case
  proof (cases "under_limits caps active v")
    case True
    then show ?thesis using Cons.prems by (auto split: if_splits intro: exI [of _ "[]"])
  next
    case False
    then have "select_candidate caps active ws = Some w" "\<not> global_reached caps active"
      using Cons.prems by (auto split: if_splits)
    with Cons.IH obtain us vs where "ws = us @ w # vs" "\<forall>u\<in>set us. \<not> under_limits caps active u"
      "under_limits caps active w" by blast
    moreover from this have "v # ws = (v # us) @ w # vs \<and> (\<forall>u\<in>set (v # us). \<not> under_limits caps active u)"
      using False by simp
    ultimately show ?thesis using \<open>\<not> global_reached caps active\<close> by (metis in_set_conv_decomp)
  qed
qed simp

lemma select_candidate_None:
  "select_candidate caps active ws = None \<longleftrightarrow>
     ws = [] \<or> global_reached caps active \<or> (\<forall>w\<in>set ws. \<not> under_limits caps active w)"
  by (induction ws) auto

lemma sorted_select:
  fixes key :: "work_row \<Rightarrow> 'k::linorder"
  assumes "sorted (map key ws)" "select_candidate caps active ws = Some w"
    and "d \<in> set ws" "under_limits caps active d"
  shows "key w \<le> key d"
proof -
  obtain us vs where "ws = us @ w # vs" "\<forall>u\<in>set us. \<not> under_limits caps active u"
    using select_candidate_Some [OF assms(2)] by blast
  then have "d = w \<or> d \<in> set vs" using assms(3,4) by auto
  then show ?thesis using assms(1) \<open>ws = us @ w # vs\<close> by (auto simp: sorted_append)
qed

lemma queue_candidates_sorted:
  "sorted (map (work_item_priority_key stamp aging) (queue_candidates stamp aging st))"
  unfolding queue_candidates_def by (rule sorted_sort_key)

lemma set_queue_candidates: "set (queue_candidates stamp aging st) = {w \<in> set (st_work st). queue_eligible stamp st w}"
  by (auto simp: queue_candidates_def)

text \<open>What a successful call did, stated once for the properties below.\<close>

definition leased_from :: "store \<Rightarrow> lease_limits \<Rightarrow> int \<Rightarrow> int \<Rightarrow> work_row \<Rightarrow> bool" where
  "leased_from st1 caps g stamp c \<longleftrightarrow>
     select_candidate caps (active_rows st1) (queue_candidates stamp g st1) = Some c"

lemma lease_next_Some:
  assumes "lease_next_work_item f own now ttl caps g lid st = (Inr (Some (w, l)), st')" and "store_inv st"
  defines "stamp \<equiv> instant now"
  defines "st1 \<equiv> expire_all stamp None st"
  shows "\<exists>c k. leased_from st1 caps g stamp c \<and> c \<in> set (st_work st1)
    \<and> w = c\<lparr>wi_state := W_Leased, wi_updated_at := stamp\<rparr>
    \<and> l = new_lease k (wi_work_id c) own stamp (stamp + ttl)
    \<and> st_leases st' = st_leases st1 @ [l]
    \<and> st' = mark_leased (wi_work_id c) stamp (st1\<lparr>st_leases := st_leases st1 @ [l]\<rparr>)
    \<and> \<not> list_ex (\<lambda>m. le_work_id m = wi_work_id c \<and> is_active m) (st_leases st1)"
proof -
  obtain who acquired k where args: "who = own" "now = Aware acquired"
    and run: "lease_next_txn k who acquired (acquired + ttl) caps g st = Inr (Some (w, l), st')"
    using assms(1) unfolding lease_next_work_item_def
    by (cases now) (auto simp: checked_Inr_iff write_txn_Inr_iff err_iffs)
  have stamp: "stamp = acquired" using args by (simp add: stamp_def)
  then obtain c st2 where c: "leased_from st1 caps g stamp c"
    and ins: "insert_lease (new_lease k (wi_work_id c) own stamp (stamp + ttl)) st1 = Inr st2"
    and st': "st' = mark_leased (wi_work_id c) stamp st2"
    and rows: "the_work (wi_work_id c) st' = Some w" "the_lease k st' = Some l"
    using run args unfolding lease_next_txn_def Let_def leased_from_def st1_def
    by (auto simp: txn_iffs split: option.splits)
  have inv1: "store_inv st1" unfolding st1_def using assms(2) by (rule expire_all_inv)
  have mem: "c \<in> set (st_work st1)"
    using select_candidate_Some c set_queue_candidates unfolding leased_from_def by blast
  then have "the_work (wi_work_id c) st1 = Some c"
    using store_inv_works [OF inv1] by (simp add: find_row_mem keys_distinct_def)
  then have w: "w = c\<lparr>wi_state := W_Leased, wi_updated_at := stamp\<rparr>"
    using rows(1) ins unfolding st' by (auto simp: mark_leased_def find_row_update insert_lease_def)
  have l: "l = new_lease k (wi_work_id c) own stamp (stamp + ttl)"
    using rows(2) ins unfolding st' by (auto simp: mark_leased_def insert_lease_def find_row_append new_lease_def)
  have "\<not> list_ex (\<lambda>m. le_work_id m = wi_work_id c \<and> is_active m) (st_leases st1)"
    using ins by (auto simp: insert_lease_def new_lease_def is_active_def)
  then show ?thesis
    using c mem w l ins unfolding st' by (auto simp: insert_lease_def mark_leased_def)
qed

lemma active_on_leased:
  assumes "\<And>w s t. p (w\<lparr>wi_state := s, wi_updated_at := t\<rparr>) = p w" and "the_work (wi_work_id c) st = Some c"
  shows "active_on p (mark_leased (wi_work_id c) t (st\<lparr>st_leases := st_leases st @ [new_lease k (wi_work_id c) own a e]\<rparr>))
     = active_on p st + (if p c then 1 else 0)"
proof -
  have work: "the_work v (mark_leased (wi_work_id c) t st2) =
      map_option (\<lambda>w. if wi_work_id w = wi_work_id c then w\<lparr>wi_state := W_Leased, wi_updated_at := t\<rparr> else w)
        (the_work v st2)" for v st2
    by (simp add: mark_leased_def find_row_update)
  have test: "(case map_option (\<lambda>w. if wi_work_id w = wi_work_id c
        then w\<lparr>wi_state := W_Leased, wi_updated_at := t\<rparr> else w) x of None \<Rightarrow> False | Some w \<Rightarrow> p w)
      = (case x of None \<Rightarrow> False | Some w \<Rightarrow> p w)" for x
    using assms(1) by (cases x) simp_all
  show ?thesis unfolding active_on_def work test
    using assms(2) by (simp add: mark_leased_def is_active_def new_lease_def)
qed

lemma under_limit_bound:
  assumes "under_limit v limits (count_values f (active_rows st))" "map_of limits v = Some n" "store_inv st"
  shows "active_on (\<lambda>w. f w = v) st < n"
  using assms length_active_rows [OF store_inv_works [OF assms(3)], of "\<lambda>w. f w = v"]
  by (simp add: under_limit_def count_values_def)

text \<open>
  A lease that \<^verbatim>\<open>lease_next_work_item\<close> grants keeps every concurrency cap: afterwards the active leases
  in the store number at most the global cap, and those of the work item's run, backend, provider route,
  model route, resource class and execution family at most the cap configured for it.
\<close>

theorem lease_next_respects_caps:
  assumes "lease_next_work_item f own now ttl caps g lid st = (Inr (Some (w, l)), st')" and "store_inv st"
  shows "(\<forall>n. ll_global caps = Some n \<longrightarrow> active_on (\<lambda>_. True) st' \<le> n)
    \<and> (\<forall>n. map_of (ll_run caps) (wi_run_id w) = Some n \<longrightarrow> active_on (\<lambda>v. wi_run_id v = wi_run_id w) st' \<le> n)
    \<and> (\<forall>n. map_of (ll_backend caps) (wi_backend w) = Some n \<longrightarrow> active_on (\<lambda>v. wi_backend v = wi_backend w) st' \<le> n)
    \<and> (\<forall>n. map_of (ll_provider_route caps) (wi_provider_route w) = Some n \<longrightarrow>
        active_on (\<lambda>v. wi_provider_route v = wi_provider_route w) st' \<le> n)
    \<and> (\<forall>n. map_of (ll_model_route caps) (wi_model_route w) = Some n \<longrightarrow>
        active_on (\<lambda>v. wi_model_route v = wi_model_route w) st' \<le> n)
    \<and> (\<forall>n. map_of (ll_resource_class caps) (wi_resource_class w) = Some n \<longrightarrow>
        active_on (\<lambda>v. wi_resource_class v = wi_resource_class w) st' \<le> n)
    \<and> (\<forall>n. map_of (ll_execution_family caps) (wi_execution_family w) = Some n \<longrightarrow>
        active_on (\<lambda>v. wi_execution_family v = wi_execution_family w) st' \<le> n)"
proof -
  define stamp where "stamp = instant now"
  define st1 where "st1 = expire_all stamp None st"
  obtain c k where c: "leased_from st1 caps g stamp c" "c \<in> set (st_work st1)"
    and w: "w = c\<lparr>wi_state := W_Leased, wi_updated_at := stamp\<rparr>"
    and st': "st' = mark_leased (wi_work_id c) stamp
      (st1\<lparr>st_leases := st_leases st1 @ [new_lease k (wi_work_id c) own stamp (stamp + ttl)]\<rparr>)"
    using lease_next_Some [OF assms] unfolding stamp_def st1_def by blast
  have inv1: "store_inv st1" unfolding st1_def using assms(2) by (rule expire_all_inv)
  have row: "the_work (wi_work_id c) st1 = Some c"
    using c(2) store_inv_works [OF inv1] by (simp add: find_row_mem keys_distinct_def)
  have sel: "\<not> global_reached caps (active_rows st1)" "under_limits caps (active_rows st1) c"
    using select_candidate_Some c(1) unfolding leased_from_def by blast+
  have "length (active_rows st1) = active_on (\<lambda>_. True) st1"
    using length_active_rows [OF store_inv_works [OF inv1], of "\<lambda>_. True"] by simp
  then have global: "ll_global caps = Some n \<Longrightarrow> active_on (\<lambda>_. True) st1 + 1 \<le> n" for n
    using sel(1) by (simp add: global_reached_def)
  have bound: "map_of limits (d c) = Some n \<Longrightarrow> under_limit (d c) limits (count_values d (active_rows st1))
      \<Longrightarrow> active_on (\<lambda>v. d v = d c) st1 + 1 \<le> n" for limits n and d :: "work_row \<Rightarrow> 'k"
    using under_limit_bound [OF _ _ inv1] by fastforce
  show ?thesis
    unfolding st' w using sel(2) global unfolding under_limits_def
    by (simp add: active_on_leased [OF _ row] bound)
qed

definition demo_leased :: work_row where
  "demo_leased = (demo_work 5 ''w/a'' 3 1 W_Leased)\<lparr>wi_updated_at := 50\<rparr>"

definition demo_leased_store :: store where
  "demo_leased_store = demo_store\<lparr>st_work := [demo_leased, demo_work 6 ''w/b'' 4 2 W_Running],
     st_leases := [demo_lease, new_lease (demo_id 10) (demo_id 5) ''worker-b'' 50 150]\<rparr>"

lemma demo_lease_next:
  "lease_next_work_item (demo_id 10) ''worker-b'' (Aware 50) 100 demo_caps 300 None demo_store
     = (Inr (Some (demo_leased, new_lease (demo_id 10) (demo_id 5) ''worker-b'' 50 150)), demo_leased_store)"
  by (simp add: lease_next_work_item_def demo_eval demo_defs demo_caps_def check_lease_limits_def checked_limits_def
      lease_next_txn_def expire_all_def expired_leases_def is_expired_def is_active_def queue_candidates_def
      queue_eligible_def active_rows_def under_limits_def under_limit_def count_values_def global_reached_def
      mark_leased_def demo_leased_def demo_leased_store_def)

theorem lease_next_respects_caps_witness: "active_on (\<lambda>_. True) demo_leased_store \<le> 2"
  using lease_next_respects_caps [OF demo_lease_next demo_store_inv] by (simp add: demo_caps_def)

text \<open>
  C2. The work item leased is the first of the queue: it was queued, available and of a run without a
  cancellation request; no eligible item below its caps has a smaller priority key, so an aged item goes
  before every fresh one and the older of two aged ones first; it becomes leased under a lease of the
  caller that runs for \<open>ttl\<close> from \<open>now\<close>, and had no other active lease.
\<close>

theorem lease_next_takes_first:
  assumes "lease_next_work_item f own now ttl caps g lid st = (Inr (Some (w, l)), st')" and "store_inv st"
  defines "st1 \<equiv> expire_all (instant now) None st"
  shows "\<exists>c\<in>set (st_work st1). queue_eligible (instant now) st1 c
    \<and> w = c\<lparr>wi_state := W_Leased, wi_updated_at := instant now\<rparr>
    \<and> (\<forall>d\<in>set (st_work st1). queue_eligible (instant now) st1 d \<and> under_limits caps (active_rows st1) d \<longrightarrow>
        work_item_priority_key (instant now) g c \<le> work_item_priority_key (instant now) g d
        \<and> (g * 1000000 \<le> instant now - wi_created_at d \<longrightarrow>
            g * 1000000 \<le> instant now - wi_created_at c \<and> wi_created_at c \<le> wi_created_at d))
    \<and> le_work_id l = wi_work_id c \<and> le_owner l = own \<and> is_active l
    \<and> le_acquired_at l = instant now \<and> le_expires_at l = instant now + ttl
    \<and> st_leases st' = st_leases st1 @ [l]
    \<and> (\<forall>m\<in>set (st_leases st1). le_work_id m = wi_work_id c \<longrightarrow> \<not> is_active m)"
proof -
  obtain c k where c: "leased_from st1 caps g (instant now) c" "c \<in> set (st_work st1)"
    and w: "w = c\<lparr>wi_state := W_Leased, wi_updated_at := instant now\<rparr>"
    and l: "l = new_lease k (wi_work_id c) own (instant now) (instant now + ttl)"
    and leases: "st_leases st' = st_leases st1 @ [l]"
    and free: "\<not> list_ex (\<lambda>m. le_work_id m = wi_work_id c \<and> is_active m) (st_leases st1)"
    using lease_next_Some [OF assms(1,2)] unfolding st1_def by blast
  have mem: "c \<in> set (queue_candidates (instant now) g st1)"
    using select_candidate_Some c(1) unfolding leased_from_def by blast
  then have elig: "queue_eligible (instant now) st1 c" by (simp add: set_queue_candidates)
  have first: "work_item_priority_key (instant now) g c \<le> work_item_priority_key (instant now) g d"
    if "d \<in> set (st_work st1)" "queue_eligible (instant now) st1 d" "under_limits caps (active_rows st1) d" for d
    using sorted_select [OF queue_candidates_sorted c(1) [unfolded leased_from_def]] that
    by (simp add: set_queue_candidates)
  have aged: "g * 1000000 \<le> instant now - wi_created_at c \<and> wi_created_at c \<le> wi_created_at d"
    if "work_item_priority_key (instant now) g c \<le> work_item_priority_key (instant now) g d"
      "g * 1000000 \<le> instant now - wi_created_at d" for d
    using that unfolding work_item_priority_key_def
    by (auto simp: less_eq_priority_key_def split: if_splits)
  show ?thesis using c(2) elig w l leases free first aged
    by (intro bexI [of _ c]) (auto simp: new_lease_def is_active_def list_ex_iff)
qed

theorem lease_next_takes_first_witness:
  "\<exists>c\<in>set (st_work demo_store). demo_leased = c\<lparr>wi_state := W_Leased, wi_updated_at := 50\<rparr>"
proof -
  have "expire_all 50 None demo_store = demo_store"
    by (simp add: expire_all_def expired_leases_def is_expired_def demo_store_def demo_lease_def new_lease_def)
  then show ?thesis
    using lease_next_takes_first [OF demo_lease_next demo_store_inv] by auto
qed

lemma lease_next_None:
  assumes "lease_next_work_item f own now ttl caps g lid st = (Inr None, st')"
  shows "st' = expire_all (instant now) None st
    \<and> select_candidate caps (active_rows st') (queue_candidates (instant now) g st') = None"
  using assms unfolding lease_next_work_item_def lease_next_txn_def
  by (cases now) (auto simp: checked_Inr_iff write_txn_Inr_iff txn_iffs Let_def split: option.splits)

text \<open>
  When \<^verbatim>\<open>lease_next_work_item\<close> returns nothing, nothing could be leased: the global cap is reached, or
  every queued and available item of a run that is not being cancelled is at one of its caps. Only the
  expiry of old leases was written.
\<close>

theorem lease_next_none_justified:
  assumes "lease_next_work_item f own now ttl caps g lid st = (Inr None, st')" and "store_inv st"
  shows "st' = expire_all (instant now) None st
    \<and> ((\<exists>n. ll_global caps = Some n \<and> n \<le> active_on (\<lambda>_. True) st')
       \<or> (\<forall>d\<in>set (st_work st'). queue_eligible (instant now) st' d \<longrightarrow> \<not> under_limits caps (active_rows st') d))"
proof -
  have st': "st' = expire_all (instant now) None st" using lease_next_None [OF assms(1)] by blast
  then have inv: "store_inv st'" using assms(2) by (simp add: expire_all_inv)
  have "length (active_rows st') = active_on (\<lambda>_. True) st'"
    using length_active_rows [OF store_inv_works [OF inv], of "\<lambda>_. True"] by simp
  moreover have "queue_candidates (instant now) g st' = [] \<or> global_reached caps (active_rows st')
      \<or> (\<forall>d\<in>set (queue_candidates (instant now) g st'). \<not> under_limits caps (active_rows st') d)"
    using lease_next_None [OF assms(1)] unfolding select_candidate_None by blast
  ultimately have "(\<exists>n. ll_global caps = Some n \<and> n \<le> active_on (\<lambda>_. True) st')
      \<or> (\<forall>d\<in>set (queue_candidates (instant now) g st'). \<not> under_limits caps (active_rows st') d)"
    by (auto simp: global_reached_def split: option.splits)
  then show ?thesis using st' by (auto simp: set_queue_candidates)
qed

lemma demo_lease_next_none:
  "lease_next_work_item (demo_id 10) ''worker-b'' (Aware 50) 100 (demo_caps\<lparr>ll_global := Some 1\<rparr>) 300 None demo_store
     = (Inr None, demo_store)"
  by (simp add: lease_next_work_item_def demo_eval demo_defs demo_caps_def check_lease_limits_def checked_limits_def
      lease_next_txn_def expire_all_def expired_leases_def is_expired_def is_active_def queue_candidates_def
      queue_eligible_def active_rows_def global_reached_def)

theorem lease_next_none_justified_witness:
  "1 \<le> active_on (\<lambda>_. True) demo_store"
proof -
  have "under_limits (demo_caps\<lparr>ll_global := Some 1\<rparr>) (active_rows demo_store) (demo_work 5 ''w/a'' 3 1 W_Queued)"
    by (simp add: under_limits_def under_limit_def demo_caps_def count_values_def active_rows_def demo_defs is_active_def)
  moreover have "queue_eligible 50 demo_store (demo_work 5 ''w/a'' 3 1 W_Queued)"
    by (simp add: queue_eligible_def demo_defs)
  ultimately show ?thesis
    using lease_next_none_justified [OF demo_lease_next_none demo_store_inv] by (auto simp: demo_store_def demo_caps_def)
qed

end
