(* ===== verification/Store_Contracts.thy ===== *)
theory Store_Contracts
  imports Store_Queue
begin

text \<open>
  The contracts of the remaining methods of the store: expiry, acquisition, renewal and release of
  leases; cancellation and completion; work items, attempts and retries; atomicity.
\<close>

section \<open>Expiry\<close>

lemma update_rows_again:
  "(\<And>r. f (f r) = f r) \<Longrightarrow> update_rows p f (update_rows q f rows) = update_rows (\<lambda>r. q r \<or> p r) f rows"
  by (induction rows) auto

lemma leases_expire_fold:
  "st_leases (fold (expire_one t) ls st) =
     update_rows (\<lambda>l. le_lease_id l \<in> le_lease_id ` set ls)
       (\<lambda>l. l\<lparr>le_state := L_Expired, le_released_at := Some (le_expires_at l)\<rparr>) (st_leases st)"
proof (induction ls arbitrary: st)
  case Nil
  then show ?case by (simp add: update_rows_none)
next
  case (Cons k ls)
  have one: "st_leases (expire_one t k st) = update_rows (\<lambda>l. le_lease_id l = le_lease_id k)
      (\<lambda>l. l\<lparr>le_state := L_Expired, le_released_at := Some (le_expires_at l)\<rparr>) (st_leases st)"
    by (simp add: expire_one_def Let_def expire_lease_row_def expire_work_row_def expire_trial_row_def
        expire_attempt_rows_def expire_submission_rows_def)
  show ?case
    by (simp add: Cons.IH one update_rows_again)
qed

lemma attempts_expire_fold:
  "st_attempts (fold (expire_one t) ls st) =
     update_rows (\<lambda>a. (\<exists>l\<in>set ls. at_lease_id a = Some (le_lease_id l)) \<and> at_state a \<in> {A_Created, A_Submitted, A_Running})
       (\<lambda>a. a\<lparr>at_state := A_Unknown, at_finished_at := Some t, at_updated_at := t,
          at_failure_kind := Some Unknown_External_State, at_failure_class := Some Unknown_Class,
          at_failure_message := Some ''lease expired before reconciliation'',
          at_reconciliation_state := R_Pending\<rparr>) (st_attempts st)"
proof (induction ls arbitrary: st)
  case Nil
  then show ?case by (simp add: update_rows_none)
next
  case (Cons k ls)
  have one: "st_attempts (expire_one t k st) = update_rows
      (\<lambda>a. at_lease_id a = Some (le_lease_id k) \<and> at_state a \<in> {A_Created, A_Submitted, A_Running})
      (\<lambda>a. a\<lparr>at_state := A_Unknown, at_finished_at := Some t, at_updated_at := t,
          at_failure_kind := Some Unknown_External_State, at_failure_class := Some Unknown_Class,
          at_failure_message := Some ''lease expired before reconciliation'',
          at_reconciliation_state := R_Pending\<rparr>) (st_attempts st)"
    by (simp add: expire_one_def Let_def expire_lease_row_def expire_work_row_def expire_trial_row_def
        expire_attempt_rows_def expire_submission_rows_def)
  show ?case
    by (simp add: Cons.IH one update_rows_again) (simp add: update_rows_def conj_disj_distribR)
qed

lemma work_expire_one:
  "st_work (expire_one t k st) = update_rows
     (\<lambda>w. wi_work_id w = le_work_id k \<and> wi_state w \<in> {W_Leased, W_Running, W_Cancel_Requested})
     (\<lambda>w. w\<lparr>wi_state := (if lease_has_attempt (le_lease_id k) (expire_lease_row (le_lease_id k) st)
         then W_Unknown else W_Queued), wi_updated_at := t\<rparr>) (st_work st)"
  by (simp add: expire_one_def Let_def expire_lease_row_def expire_work_row_def expire_trial_row_def
      expire_attempt_rows_def expire_submission_rows_def)

lemma work_expire_fold:
  "map work_cols (st_work (fold (expire_one t) ls st)) = map work_cols (st_work st)
   \<and> (\<forall>w\<in>set (st_work (fold (expire_one t) ls st)). wi_work_id w \<in> D \<union> le_work_id ` set ls \<longrightarrow>
        wi_state w \<notin> {W_Leased, W_Running, W_Cancel_Requested})"
  if "\<forall>w\<in>set (st_work st). wi_work_id w \<in> D \<longrightarrow> wi_state w \<notin> {W_Leased, W_Running, W_Cancel_Requested}"
  using that
proof (induction ls arbitrary: st D)
  case (Cons k ls)
  have "\<forall>w\<in>set (st_work (expire_one t k st)). wi_work_id w \<in> insert (le_work_id k) D \<longrightarrow>
      wi_state w \<notin> {W_Leased, W_Running, W_Cancel_Requested}"
    using Cons.prems by (auto simp: work_expire_one set_update_rows)
  moreover have "map work_cols (st_work (expire_one t k st)) = map work_cols (st_work st)"
    by (simp add: work_expire_one update_rows_cong_map)
  ultimately show ?case using Cons.IH [of "expire_one t k st" "insert (le_work_id k) D"] by simp
qed simp

lemma expire_all_leases:
  assumes "distinct (map le_lease_id (st_leases st))"
  shows "st_leases (expire_all t r st) = update_rows (is_expired t r st)
     (\<lambda>l. l\<lparr>le_state := L_Expired, le_released_at := Some (le_expires_at l)\<rparr>) (st_leases st)"
proof -
  have "le_lease_id l \<in> le_lease_id ` set (expired_leases t r st) \<longleftrightarrow> is_expired t r st l"
    if "l \<in> set (st_leases st)" for l
    using that assms by (auto simp: expired_leases_def distinct_map dest: inj_onD)
  then show ?thesis
    unfolding expire_all_def leases_expire_fold by (simp add: update_rows_def)
qed

lemma is_expired_expire_all: "is_expired t r (expire_all u q st) l = is_expired t r st l"
proof -
  have "map (\<lambda>w. (wi_work_id w, wi_run_id w)) (st_work (expire_all u q st))
      = map (\<lambda>w. (wi_work_id w, wi_run_id w)) (st_work st)"
  proof -
    have "map work_cols (st_work (expire_all u q st)) = map work_cols (st_work st)"
      using work_expire_fold [of st "{}"] by (simp add: expire_all_def)
    then have "map (\<lambda>(w, (t, p, r, n), k). (w, r)) (map work_cols (st_work (expire_all u q st)))
        = map (\<lambda>(w, (t, p, r, n), k). (w, r)) (map work_cols (st_work st))" by simp
    then show ?thesis by (simp add: work_cols_def comp_def)
  qed
  then have cols: "(\<lambda>w. (wi_work_id w, wi_run_id w)) ` set (st_work (expire_all u q st))
      = (\<lambda>w. (wi_work_id w, wi_run_id w)) ` set (st_work st)" by (simp only: set_map [symmetric])
  have test: "list_ex (\<lambda>w. wi_work_id w = i \<and> wi_run_id w = k) ws
      = ((i, k) \<in> (\<lambda>w. (wi_work_id w, wi_run_id w)) ` set ws)" for i k ws
    unfolding list_ex_iff by blast
  have "list_ex (\<lambda>w. wi_work_id w = i \<and> wi_run_id w = k) (st_work (expire_all u q st))
      = list_ex (\<lambda>w. wi_work_id w = i \<and> wi_run_id w = k) (st_work st)" for i k
    by (simp only: test cols)
  then show ?thesis by (simp add: is_expired_def split: option.split)
qed

lemma expired_leases_expire_all:
  assumes "distinct (map le_lease_id (st_leases st))"
  shows "expired_leases t r (expire_all t r st) = []"
proof -
  have "\<not> is_expired t r st (l\<lparr>le_state := L_Expired, le_released_at := Some (le_expires_at l)\<rparr>)" for l
    by (simp add: is_expired_def is_active_def)
  then show ?thesis
    by (auto simp: expired_leases_def expire_all_leases [OF assms] is_expired_expire_all set_update_rows filter_empty_conv)
qed

lemma store_inv_leases: "store_inv st \<Longrightarrow> distinct (map le_lease_id (st_leases st))"
  by (simp add: store_inv_def structure_ok_def leases_ok_def lease_cols_def comp_def)


lemma demo_expire: "expire_leases None (Aware 200) demo_store = (Inr 1, expire_all 200 None demo_store)"
  by (simp add: demo_defs expire_leases_def checked_apply write_txn_def expire_leases_txn_def expired_leases_def
      is_expired_def is_active_def)


section \<open>Acquiring, renewing, releasing\<close>

lemma expire_fold_other_work:
  "(\<forall>l\<in>set ls. le_work_id l \<noteq> w) \<Longrightarrow> the_work w (fold (expire_one t) ls st) = the_work w st"
proof (induction ls arbitrary: st)
  case (Cons k ls)
  have "le_work_id k \<noteq> w" using Cons.prems by simp
  then have "\<not> wi_work_id x = le_work_id k" if "the_work w st = Some x" for x
    using find_row_Some_key [OF that] by metis
  then have "the_work w (expire_one t k st) = the_work w st"
    unfolding work_expire_one by (subst find_row_update) (auto intro!: option.map_ident_strong)
  then show ?case using Cons by simp
qed simp

lemma active_after_expiry:
  assumes "store_inv st" "l \<in> set (st_leases (expire_all t None st))" "is_active l"
  shows "t < le_expires_at l \<and> l \<in> set (st_leases st)"
  using assms(2,3) unfolding expire_all_leases [OF store_inv_leases [OF assms(1)]] set_update_rows
  by (auto simp: is_expired_def is_active_def split: if_splits)

lemma active_survives_expiry:
  assumes "store_inv st" "l \<in> set (st_leases st)" "t < le_expires_at l"
  shows "l \<in> set (st_leases (expire_all t None st))"
proof -
  have "\<not> is_expired t None st l" using assms(3) by (simp add: is_expired_def)
  then show ?thesis
    using assms(2) unfolding expire_all_leases [OF store_inv_leases [OF assms(1)]] set_update_rows by force
qed

lemma find_active_None: "find (\<lambda>l. le_work_id l = w \<and> is_active l) ls = None
    \<longleftrightarrow> (\<forall>l\<in>set ls. le_work_id l = w \<longrightarrow> \<not> is_active l)"
  by (auto simp: find_None_iff)

lemma outcome_Inr: "(case x of Inl r \<Rightarrow> raiseS (e r) | Inr y \<Rightarrow> returnS y) s = (Inr l, s') \<longleftrightarrow> x = Inr l \<and> s' = s"
  by (cases x) auto

text \<open>
  A lease that \<^verbatim>\<open>acquire_lease\<close> grants is exclusive: the work item was queued once the old leases had
  expired and is leased now; the new lease belongs to the caller, runs from \<open>now\<close> for \<open>ttl\<close>, and is the
  only active lease of the work item.
\<close>

theorem acquire_lease_exclusive:
  assumes "acquire_lease f w own now ttl lid st = (Inr l, st')" and "store_inv st"
  shows "is_active l \<and> le_work_id l = w \<and> le_owner l = own \<and> le_acquired_at l = instant now
    \<and> le_expires_at l = instant now + ttl
    \<and> (\<exists>item. the_work w (expire_all (instant now) None st) = Some item \<and> wi_state item = W_Queued)
    \<and> (\<exists>item. the_work w st' = Some item \<and> wi_state item = W_Leased)
    \<and> filter (\<lambda>k. le_work_id k = w \<and> is_active k) (st_leases st') = [l]"
proof -
  obtain t k where now: "now = Aware t" and run: "acquire_lease_txn k w own t (t + ttl) st = Inr (Inr l, st')"
    using assms(1) unfolding acquire_lease_def
    by (cases now) (auto simp: checked_Inr_iff write_txn_Inr_iff err_iffs bindS_eq_Inr_iff outcome_Inr)
  define st1 where "st1 = expire_all t None st"
  have inv1: "store_inv st1" unfolding st1_def using assms(2) by (rule expire_all_inv)
  have fresh: "t < le_expires_at m" if "find (\<lambda>l. le_work_id l = w \<and> is_active l) (st_leases st1) = Some m" for m
    using that active_after_expiry [OF assms(2), of m t] unfolding st1_def by (auto simp: find_Some_iff)
  obtain item st2 where item: "the_work w st1 = Some item" "wi_state item = W_Queued"
    and none: "find (\<lambda>l. le_work_id l = w \<and> is_active l) (st_leases st1) = None"
    and ins: "insert_lease (new_lease k w own t (t + ttl)) st1 = Inr st2"
    and st': "st' = mark_leased w t st2" and l: "the_lease k st' = Some l"
    using run fresh unfolding acquire_lease_txn_def Let_def st1_def [symmetric]
    by (auto simp: txn_iffs case_prod_Inr_iff)
  have l': "l = new_lease k w own t (t + ttl)" and leases: "st_leases st' = st_leases st1 @ [l]"
    using l ins unfolding st' by (auto simp: mark_leased_def insert_lease_def find_row_append new_lease_def)
  have "filter (\<lambda>k. le_work_id k = w \<and> is_active k) (st_leases st1) = []"
    using none by (simp add: find_active_None filter_empty_conv)
  moreover have "\<exists>item. the_work w st' = Some item \<and> wi_state item = W_Leased"
    using item ins unfolding st'
    by (auto simp: mark_leased_def insert_lease_def find_row_update dest: find_row_Some_key)
  ultimately show ?thesis
    using item l' leases unfolding now st1_def by (auto simp: new_lease_def is_active_def)
qed

lemma demo_acquire:
  "acquire_lease (demo_id 10) (demo_id 5) ''worker-b'' (Aware 50) 100 None demo_store
     = (Inr (new_lease (demo_id 10) (demo_id 5) ''worker-b'' 50 150), demo_leased_store)"
  by (simp add: demo_eval demo_defs acquire_lease_def acquire_lease_txn_def expire_all_def bindS_def
      expired_leases_def is_expired_def is_active_def mark_leased_def demo_leased_def demo_leased_store_def)

theorem acquire_lease_exclusive_witness:
  "filter (\<lambda>k. le_work_id k = demo_id 5 \<and> is_active k) (st_leases demo_leased_store)
     = [new_lease (demo_id 10) (demo_id 5) ''worker-b'' 50 150]"
  using acquire_lease_exclusive [OF demo_acquire demo_store_inv] by simp



end
