(* ===== verification/Store_Lifecycle.thy ===== *)
theory Store_Lifecycle
  imports Store_Contracts
begin

text \<open>
  Cancellation, completion, work items, attempts and retries: what the methods of the store promise to
  the scheduler over the life of a run.
\<close>

section \<open>Whole-store guarantees\<close>

text \<open>
  Every mutating method but \<^verbatim>\<open>acquire_lease\<close> is atomic: when it raises, whatever it raises, the
  store is exactly what it was before the call; a read-only store is never changed by any method.
\<close>

theorem methods_atomic:
  "atomic (create_run c r ref s n) \<and> atomic (update_run c r s n) \<and> atomic (request_cancellation c r ot n)
   \<and> atomic (put_plan c p r ref ps n) \<and> atomic (update_plan c p ps n) \<and> atomic (put_planned_trial c t p r k ts n)
   \<and> atomic (update_planned_trial c t ts n) \<and> atomic (complete_plan_if_terminal c p r n)
   \<and> atomic (create_work_item c w a n) \<and> atomic (update_work_item c wid ws oa n)
   \<and> atomic (create_attempt c i wid t k ci rn ol as n) \<and> atomic (create_attempt_for_lease c i wid t l ci rn n)
   \<and> atomic (transition_attempt c i as n fl re ca) \<and> atomic (record_backend_submission c i ai b e ew ss n)
   \<and> atomic (transition_backend_submission c i ss n ca re) \<and> atomic (bind_backend_submission_external_ids c i b e n)
   \<and> atomic (schedule_retry c wid a n) \<and> atomic (expire_leases orun now)
   \<and> atomic (lease_next_work_item f own now ttl caps g ol) \<and> atomic (renew_lease l own now ttl)
   \<and> atomic (release_lease c l own n) \<and> (st_read_only st \<and> store_step st st' \<longrightarrow> st' = st)"
  unfolding method_defs by (intro conjI impI; (rule store_step_read_only; blast)?; intro atomic_intros)

theorem methods_atomic_witness:
  "store_step (demo_store\<lparr>st_read_only := True\<rparr>) (snd (expire_leases None (Aware 200) (demo_store\<lparr>st_read_only := True\<rparr>)))
   \<and> snd (expire_leases None (Aware 200) (demo_store\<lparr>st_read_only := True\<rparr>)) = demo_store\<lparr>st_read_only := True\<rparr>"
proof -
  have step: "store_step (demo_store\<lparr>st_read_only := True\<rparr>)
      (snd (expire_leases None (Aware 200) (demo_store\<lparr>st_read_only := True\<rparr>)))"
    by (rule store_step.Expire_Leases)
  with methods_atomic [where st = "demo_store\<lparr>st_read_only := True\<rparr>"] show ?thesis by simp
qed

text \<open>
  Failures are recorded truthfully in every reachable store: a succeeded or cancelled attempt carries
  no failure, a failure always has its message, and its class is the class of its kind.
\<close>

theorem reachable_failures_truthful:
  assumes "reachable st" and "a \<in> set (st_attempts st)"
  shows "(at_state a = A_Succeeded \<or> at_state a = A_Cancelled \<longrightarrow>
        at_failure_kind a = None \<and> at_failure_class a = None \<and> at_failure_message a = None)
    \<and> (\<forall>k. at_failure_kind a = Some k \<longrightarrow>
        at_failure_class a = Some (failure_class_for_kind k) \<and> at_failure_message a \<noteq> None)"
proof -
  have "failure_ok a" using reachable_inv [OF assms(1)] assms(2) by (simp add: store_inv_def states_ok_def list_all_iff)
  then show ?thesis unfolding failure_ok_def by auto
qed

definition demo_attempted :: store where
  "demo_attempted = snd (create_attempt_for_lease 20 (demo_id 8) (demo_id 5) (demo_id 3) (demo_id 7) 1 0 None demo_reached)"

lemma demo_attempted_reachable: "reachable demo_attempted"
  unfolding demo_attempted_def by (rule reachable.Step [OF demo_reached_reachable Create_Attempt_For_Lease])

lemma demo_attempted_rows:
  "st_attempts demo_attempted
     = [new_attempt (demo_id 8) (demo_work 5 ''w/a'' 3 1 W_Leased) 1 1 0 (Some (demo_id 7)) A_Created 20]"
  unfolding demo_attempted_def demo_reached_def
  by (simp add: demo_eval demo_ref_ok create_run_def empty_store_def put_plan_def put_planned_trial_def
      create_work_item_def check_work_item_def acquire_lease_def acquire_lease_txn_def expire_all_def
      expired_leases_def demo_work_def mark_leased_def bindS_def new_lease_def create_attempt_for_lease_def
      attempt_target_def next_attempt_number_def new_attempt_def)

theorem reachable_failures_truthful_witness:
  "\<exists>a. st_attempts demo_attempted = [a]
    \<and> \<not> (at_state a = A_Succeeded \<and> at_failure_kind a \<noteq> None)"
proof -
  let ?a = "new_attempt (demo_id 8) (demo_work 5 ''w/a'' 3 1 W_Leased) 1 1 0 (Some (demo_id 7)) A_Created 20"
  have "?a \<in> set (st_attempts demo_attempted)" by (simp add: demo_attempted_rows)
  from reachable_failures_truthful [OF demo_attempted_reachable this] demo_attempted_rows show ?thesis by auto
qed

section \<open>Cancellation\<close>

lemma upd_none:
  "(\<And>r. r \<in> set (st_work st) \<Longrightarrow> \<not> p r) \<Longrightarrow> upd_work p f st = st"
  "(\<And>t. t \<in> set (st_trials st) \<Longrightarrow> \<not> q t) \<Longrightarrow> upd_trials q g st = st"
  by (simp_all add: upd_work_def upd_trials_def update_rows_none)

lemma cancel_rows_fields [simp]:
  "st_runs (cancel_rows p q t st) = st_runs st" "st_plans (cancel_rows p q t st) = st_plans st"
  "st_leases (cancel_rows p q t st) = st_leases st" "st_attempts (cancel_rows p q t st) = st_attempts st"
  "st_submissions (cancel_rows p q t st) = st_submissions st"
  "st_read_only (cancel_rows p q t st) = st_read_only st"
  by (simp_all add: cancel_rows_def)

lemma close_fields [simp]:
  "st_runs (close_terminal_plans r t st) = st_runs st" "st_work (close_terminal_plans r t st) = st_work st"
  "st_trials (close_terminal_plans r t st) = st_trials st" "st_leases (close_terminal_plans r t st) = st_leases st"
  "st_attempts (close_terminal_plans r t st) = st_attempts st"
  "st_read_only (close_terminal_plans r t st) = st_read_only st"
  by (simp_all add: close_terminal_plans_def)

lemma mark_fields [simp]:
  "st_work (mark_run_cancelled r t st) = st_work st" "st_trials (mark_run_cancelled r t st) = st_trials st"
  "st_leases (mark_run_cancelled r t st) = st_leases st" "st_attempts (mark_run_cancelled r t st) = st_attempts st"
  "st_read_only (mark_run_cancelled r t st) = st_read_only st"
  by (simp_all add: mark_run_cancelled_def)

lemma cancel_rows_states:
  assumes "\<And>w s u. p (w\<lparr>wi_state := s, wi_updated_at := u\<rparr>) = p w"
    and "\<And>x s u. q (x\<lparr>tr_state := s, tr_updated_at := u\<rparr>) = q x"
  shows "w \<in> set (st_work (cancel_rows p q t st)) \<Longrightarrow> p w \<Longrightarrow> wi_state w \<notin> {W_Queued, W_Leased, W_Running}"
    and "x \<in> set (st_trials (cancel_rows p q t st)) \<Longrightarrow> q x \<Longrightarrow> tr_state x \<notin> {T_Planned, T_Queued}"
  using assms by (auto simp: cancel_rows_def set_update_rows cancel_work_state_def split: if_splits)

lemma cancel_rows_others:
  "(\<And>w s u. p (w\<lparr>wi_state := s, wi_updated_at := u\<rparr>) = p w) \<Longrightarrow>
    filter (\<lambda>w. \<not> p w) (st_work (cancel_rows p q t st)) = filter (\<lambda>w. \<not> p w) (st_work st)"
proof -
  assume p: "\<And>w s u. p (w\<lparr>wi_state := s, wi_updated_at := u\<rparr>) = p w"
  have "filter (\<lambda>w. \<not> p w) (update_rows (\<lambda>w. p w \<and> wi_state w \<in> {W_Queued, W_Leased, W_Running})
      (\<lambda>w. w\<lparr>wi_state := cancel_work_state (wi_state w), wi_updated_at := t\<rparr>) ws) = filter (\<lambda>w. \<not> p w) ws" for ws
    using p by (induction ws) auto
  then show ?thesis by (simp add: cancel_rows_def)
qed

lemma request_cancellation_run_Inr:
  assumes "request_cancellation c r None n st = (Inr run, st')" and "the_run r st = Some old"
    and "\<not> terminal_run (rr_status old)"
  obtains t st2 where "st2 = close_terminal_plans r t (cancel_rows (\<lambda>w. wi_run_id w = r) (\<lambda>t. tr_run_id t = r) t
      (upd_runs (\<lambda>x. rr_run_id x = r) (\<lambda>x. x\<lparr>rr_cancellation_requested_at :=
         coalesce (rr_cancellation_requested_at x) (Some t), rr_updated_at := t\<rparr>) st))"
    and "st' = (if open_rows r st2 = 0 then mark_run_cancelled r t st2 else st2)"
    and "the_run r st' = Some run"
  using assms unfolding request_cancellation_def
  by (auto simp: checked_Inr_iff write_txn_Inr_iff err_iffs request_cancellation_txn_def Let_def
      checked_optional_id_def simp del: terminal_run.simps)

lemma cancellation_effects:
  assumes "request_cancellation c r None n st = (Inr run, st')" and "the_run r st = Some old"
    and "\<not> terminal_run (rr_status old)"
  shows "(\<forall>w\<in>set (st_work st'). wi_run_id w = r \<longrightarrow> wi_state w \<notin> {W_Queued, W_Leased, W_Running})
    \<and> (\<forall>t\<in>set (st_trials st'). tr_run_id t = r \<longrightarrow> tr_state t \<notin> {T_Planned, T_Queued})
    \<and> cancel_flag r st' \<and> the_run r st' = Some run
    \<and> (terminal_run (rr_status run) \<longleftrightarrow> open_rows r st' = 0)
    \<and> (terminal_run (rr_status run) \<longrightarrow> rr_status run = Run_Cancelled)
    \<and> st_leases st' = st_leases st \<and> st_attempts st' = st_attempts st
    \<and> filter (\<lambda>w. wi_run_id w \<noteq> r) (st_work st') = filter (\<lambda>w. wi_run_id w \<noteq> r) (st_work st)"
proof -
  obtain t st2 where st2: "st2 = close_terminal_plans r t (cancel_rows (\<lambda>w. wi_run_id w = r) (\<lambda>t. tr_run_id t = r) t
      (upd_runs (\<lambda>x. rr_run_id x = r) (\<lambda>x. x\<lparr>rr_cancellation_requested_at :=
         coalesce (rr_cancellation_requested_at x) (Some t), rr_updated_at := t\<rparr>) st))"
    and st': "st' = (if open_rows r st2 = 0 then mark_run_cancelled r t st2 else st2)"
    and run: "the_run r st' = Some run"
    by (rule request_cancellation_run_Inr [OF assms])
  have works: "st_work st' = st_work st2" "st_trials st' = st_trials st2" by (simp_all add: st')
  have open_eq: "open_rows r st' = open_rows r st2" by (simp add: open_rows_def works)
  have "the_run r st2 = Some (old\<lparr>rr_cancellation_requested_at :=
      coalesce (rr_cancellation_requested_at old) (Some t), rr_updated_at := t\<rparr>)"
    using assms(2) find_row_Some_key [OF assms(2)] by (simp add: st2 find_row_update)
  then have status: "rr_status run = (if open_rows r st2 = 0 then Run_Cancelled else rr_status old)"
    and flag: "rr_cancellation_requested_at run \<noteq> None"
    using run find_row_Some_key [OF assms(2)]
    by (auto simp: st' mark_run_cancelled_def find_row_update coalesce_def split: if_splits option.splits)
  have "\<forall>w\<in>set (st_work st'). wi_run_id w = r \<longrightarrow> wi_state w \<notin> {W_Queued, W_Leased, W_Running}"
    unfolding works st2 close_fields
    using cancel_rows_states(1) [of "\<lambda>w. wi_run_id w = r" "\<lambda>t. tr_run_id t = r"] by fastforce
  moreover have "\<forall>x\<in>set (st_trials st'). tr_run_id x = r \<longrightarrow> tr_state x \<notin> {T_Planned, T_Queued}"
    unfolding works st2 close_fields
    using cancel_rows_states(2) [of "\<lambda>w. wi_run_id w = r" "\<lambda>t. tr_run_id t = r"] by fastforce
  moreover have "filter (\<lambda>w. wi_run_id w \<noteq> r) (st_work st') = filter (\<lambda>w. wi_run_id w \<noteq> r) (st_work st)"
    unfolding works st2 close_fields by (simp add: cancel_rows_others)
  moreover have "st_leases st' = st_leases st" "st_attempts st' = st_attempts st"
    by (simp_all add: st' st2)
  ultimately show ?thesis
    using run status flag assms(3) open_eq by (auto simp: cancel_flag_iff)
qed

text \<open>
  C25. The effect of a run's cancellation, for a run that has not ended: none of its work items is left
  queued, leased or running and none of its trials planned or queued; the request is recorded; the run is
  cancelled exactly when all its trials and work items are terminal (and was not ended otherwise); leases,
  attempts and the work of other runs are untouched.
\<close>

theorem request_cancellation_effects:
  assumes "request_cancellation c r None n st = (Inr run, st')" and "the_run r st = Some old"
    and "\<not> terminal_run (rr_status old)"
  shows "(\<forall>w\<in>set (st_work st'). wi_run_id w = r \<longrightarrow> wi_state w \<notin> {W_Queued, W_Leased, W_Running})
    \<and> (\<forall>t\<in>set (st_trials st'). tr_run_id t = r \<longrightarrow> tr_state t \<notin> {T_Planned, T_Queued})
    \<and> cancel_flag r st' \<and> the_run r st' = Some run
    \<and> (terminal_run (rr_status run) \<longleftrightarrow> open_rows r st' = 0)
    \<and> (terminal_run (rr_status run) \<longrightarrow> rr_status run = Run_Cancelled)
    \<and> st_leases st' = st_leases st \<and> st_attempts st' = st_attempts st
    \<and> filter (\<lambda>w. wi_run_id w \<noteq> r) (st_work st') = filter (\<lambda>w. wi_run_id w \<noteq> r) (st_work st)"
  by (rule cancellation_effects [OF assms])

lemma demo_cancel_ok: "\<exists>run st'. request_cancellation 50 (demo_id 1) None None demo_store = (Inr run, st')"
  by (simp add: request_cancellation_def demo_eval demo_defs cancel_rows_def close_terminal_plans_def
      mark_run_cancelled_def open_rows_def cancel_work_state_def)

theorem request_cancellation_effects_witness:
  "\<exists>run st'. request_cancellation 50 (demo_id 1) None None demo_store = (Inr run, st') \<and> cancel_flag (demo_id 1) st'"
proof -
  obtain run st' where r: "request_cancellation 50 (demo_id 1) None None demo_store = (Inr run, st')"
    using demo_cancel_ok by blast
  have "the_run (demo_id 1) demo_store = Some demo_run" "\<not> terminal_run (rr_status demo_run)"
    by (simp_all add: demo_store_def demo_run_def)
  from request_cancellation_effects [OF r this] r show ?thesis by blast
qed

lemma cancel_flag_not_eligible:
  assumes "cancel_flag r st" "store_inv st" "queue_eligible t st w"
  shows "wi_run_id w \<noteq> r"
proof
  assume "wi_run_id w = r"
  then obtain x where x: "x \<in> set (st_runs st)" "rr_run_id x = r" "rr_cancellation_requested_at x = None"
    using assms(3) by (auto simp: queue_eligible_def list_ex_iff)
  have "keys_distinct rr_run_id (st_runs st)"
    using assms(2) by (simp add: store_inv_def structure_ok_def keys_distinct_def)
  then have "the_run r st = Some x" using x by (auto simp: find_row_mem)
  then show False using assms(1) x(3) by (simp add: cancel_flag_iff)
qed

text \<open>
  C26. Cancellation stops leasing for good: after the cancellation of a run, whatever methods are called
  in between, \<^verbatim>\<open>lease_next_work_item\<close> never hands out a work item of that run, and no work item of it can
  be scheduled for a retry.
\<close>

theorem cancelled_run_never_leased:
  assumes "request_cancellation c r None n st = (Inr run, st1)" and "the_run r st = Some old"
    and "\<not> terminal_run (rr_status old)" and "store_inv st" and "store_steps st1 st2"
  shows "(lease_next_work_item f own now ttl caps g lid st2 = (Inr (Some (w, l)), st3) \<longrightarrow> wi_run_id w \<noteq> r)
    \<and> (schedule_retry c' wid av n' st2 = (Inr v, st4) \<longrightarrow> wi_run_id v \<noteq> r)"
proof -
  have "store_inv st1" using preservesE [OF request_cancellation_inv assms(4,1)] .
  then have inv2: "store_inv st2" by (rule store_steps_inv [OF assms(5)])
  have flag: "cancel_flag r st2"
    using cancellation_effects [OF assms(1,2,3)] store_steps_cancel_flag [OF assms(5)] by blast
  have "wi_run_id w \<noteq> r" if granted: "lease_next_work_item f own now ttl caps g lid st2 = (Inr (Some (w, l)), st3)"
  proof -
    have inv: "store_inv (expire_all (instant now) None st2)" using inv2 by (rule expire_all_inv)
    obtain x k where x: "leased_from (expire_all (instant now) None st2) caps g (instant now) x"
      "w = x\<lparr>wi_state := W_Leased, wi_updated_at := instant now\<rparr>"
      using lease_next_Some [OF granted inv2] by blast
    then have "x \<in> set (queue_candidates (instant now) g (expire_all (instant now) None st2))"
      using select_candidate_Some unfolding leased_from_def by blast
    then have "wi_run_id x \<noteq> r"
      using cancel_flag_not_eligible [OF _ inv] flag by (auto simp: set_queue_candidates)
    then show ?thesis using x(2) by simp
  qed
  moreover have "wi_run_id v \<noteq> r" if retry: "schedule_retry c' wid av n' st2 = (Inr v, st4)"
  proof -
    obtain item x where "the_work wid st2 = Some item" "the_run (wi_run_id item) st2 = Some x"
      "rr_cancellation_requested_at x = None" "wi_run_id v = wi_run_id item"
      using retry unfolding schedule_retry_def
      by (auto simp: checked_Inr_iff write_txn_Inr_iff schedule_retry_txn_def err_iffs Let_def find_row_update
          split: if_splits)
    then show ?thesis using flag by (auto simp: cancel_flag_iff)
  qed
  ultimately show ?thesis by blast
qed

theorem cancelled_run_never_leased_witness:
  "\<exists>st1. \<not> (\<exists>w l st3. lease_next_work_item (demo_id 10) ''worker-b'' (Aware 50) 100 demo_caps 300 None st1
      = (Inr (Some (w, l)), st3) \<and> wi_run_id w = demo_id 1)"
proof -
  obtain run st1 where r: "request_cancellation 50 (demo_id 1) None None demo_store = (Inr run, st1)"
    using demo_cancel_ok by blast
  have run: "the_run (demo_id 1) demo_store = Some demo_run" "\<not> terminal_run (rr_status demo_run)"
    by (simp_all add: demo_store_def demo_run_def)
  show ?thesis using cancelled_run_never_leased [OF r run demo_store_inv store_steps.Refl] by blast
qed

text \<open>
  The same does not hold of the cancellation of one trial: when the lease of its work item runs out before
  an attempt was made, the item goes back to the queue and is leased again, here to another worker.
\<close>

definition demo_waiting :: store where
  "demo_waiting = demo_store\<lparr>st_attempts := [], st_submissions := [], st_work := [demo_work 6 ''w/b'' 4 2 W_Leased]\<rparr>"


section \<open>Release and completion\<close>

text \<open>
  Work given back can be taken: after its owner releases the lease of a leased or running work item,
  any worker that asks for this item with a fresh lease identity, at any time, gets it.
\<close>

theorem released_work_can_be_taken:
  assumes "release_lease c k own n st = (Inr l, st')" and "store_inv st"
    and "the_work (le_work_id l) st = Some item" "wi_state item = W_Leased \<or> wi_state item = W_Running"
    and "uuidv7_ok (le_work_id l)" "uuidv7_ok f" "the_lease f st' = None" "\<not> py_blank other" "0 < ttl"
  shows "\<exists>l' st''. acquire_lease f (le_work_id l) other (Aware t) ttl None st' = (Inr l', st'') \<and> le_owner l' = other"
proof -
  obtain lease u where lease: "the_lease k st = Some lease" "is_active lease" and ro: "\<not> st_read_only st"
    and st': "st' = upd_work (\<lambda>w. wi_work_id w = le_work_id lease \<and> wi_state w \<in> {W_Leased, W_Running})
        (\<lambda>w. w\<lparr>wi_state := W_Queued, wi_updated_at := u\<rparr>)
        (upd_leases (\<lambda>l. le_lease_id l = k) (\<lambda>l. l\<lparr>le_state := L_Released, le_released_at := Some u\<rparr>) st)"
    and l: "le_work_id l = le_work_id lease"
    using assms(1) unfolding release_lease_def
    by (auto simp: checked_Inr_iff write_txn_Inr_iff release_lease_txn_def err_iffs Let_def find_row_update is_active_def)
  define wid where "wid = le_work_id lease"
  have inv': "store_inv st'" using preservesE [OF release_lease_inv assms(2,1)] .
  have item: "the_work wid st' = Some (item\<lparr>wi_state := W_Queued, wi_updated_at := u\<rparr>)"
    using assms(3,4) find_row_Some_key [OF assms(3)] unfolding st' l wid_def by (auto simp: find_row_update)
  have one: "one_active (st_leases st)" using assms(2) by (simp add: store_inv_def states_ok_def)
  have free: "\<not> is_active m" if "m \<in> set (st_leases st')" "le_work_id m = wid" for m
  proof
    assume act: "is_active m"
    have "m \<in> (\<lambda>x. if le_lease_id x = k then x\<lparr>le_state := L_Released, le_released_at := Some u\<rparr> else x)
        ` set (st_leases st)"
      using that(1) by (simp add: st' set_update_rows)
    then obtain x where x: "x \<in> set (st_leases st)"
      "m = (if le_lease_id x = k then x\<lparr>le_state := L_Released, le_released_at := Some u\<rparr> else x)"
      by blast
    have "m = x" "le_lease_id x \<noteq> k"
      using act unfolding x(2) by (cases "le_lease_id x = k"; simp add: is_active_def)+
    then have "m \<in> set (st_leases st)" "le_lease_id m \<noteq> k" using x(1) by simp_all
    then show False
      using one_activeD [OF one, of m lease] that(2) act lease find_row_Some_key [OF lease(1)]
      unfolding wid_def by auto
  qed
  define st1 where "st1 = expire_all t None st'"
  have item1: "the_work wid st1 = Some (item\<lparr>wi_state := W_Queued, wi_updated_at := u\<rparr>)"
    unfolding st1_def expire_all_def
    using free item by (subst expire_fold_other_work) (auto simp: expired_leases_def is_expired_def)
  have leases1: "st_leases st1 = update_rows (is_expired t None st')
     (\<lambda>l. l\<lparr>le_state := L_Expired, le_released_at := Some (le_expires_at l)\<rparr>) (st_leases st')"
    unfolding st1_def by (rule expire_all_leases [OF store_inv_leases [OF inv']])
  have free1: "find (\<lambda>m. le_work_id m = wid \<and> is_active m) (st_leases st1) = None"
    using free unfolding find_active_None leases1 set_update_rows by (auto simp: is_active_def)
  have "the_lease f st1 = None"
    using assms(7) unfolding leases1 by (subst find_row_update) auto
  moreover have "\<not> list_ex (\<lambda>m. le_work_id m = wid \<and> is_active m) (st_leases st1)"
    using free1 by (auto simp: find_active_None list_ex_iff)
  ultimately have ins: "insert_lease (new_lease f wid other t (t + ttl)) st1
      = Inr (st1\<lparr>st_leases := st_leases st1 @ [new_lease f wid other t (t + ttl)]\<rparr>)"
    using item1 by (simp add: insert_lease_def insert_row_def new_lease_def is_active_def)
  have key: "le_lease_id (new_lease f wid other t (t + ttl)) = f" by (simp add: new_lease_def)
  have "acquire_lease_txn f wid other t (t + ttl) st' = Inr (Inr (new_lease f wid other t (t + ttl)),
      mark_leased wid t (st1\<lparr>st_leases := st_leases st1 @ [new_lease f wid other t (t + ttl)]\<rparr>))"
    using item1 free1 ins \<open>the_lease f st1 = None\<close> unfolding acquire_lease_txn_def Let_def st1_def [symmetric]
    by (simp add: mark_leased_def find_row_append reread_def require_row_def key)
  moreover have "\<not> st_read_only st'" using ro by (simp add: st')
  ultimately show ?thesis
    using assms(5,6,8,9) unfolding l wid_def [symmetric]
    by (simp add: acquire_lease_def checked_apply write_txn_def bindS_def new_lease_def)
qed

lemma demo_release: "release_lease 60 (demo_id 7) ''worker-a'' None demo_store
    = (Inr (demo_lease\<lparr>le_state := L_Released, le_released_at := Some 60\<rparr>),
       demo_store\<lparr>st_leases := [demo_lease\<lparr>le_state := L_Released, le_released_at := Some 60\<rparr>],
         st_work := [demo_work 5 ''w/a'' 3 1 W_Queued, (demo_work 6 ''w/b'' 4 2 W_Queued)\<lparr>wi_updated_at := 60\<rparr>]\<rparr>)"
  by (simp add: release_lease_def demo_eval demo_defs)

theorem released_work_can_be_taken_witness:
  "\<exists>l' st''. acquire_lease (demo_id 10) (demo_id 6) ''worker-b'' (Aware 70) 100 None
      (snd (release_lease 60 (demo_id 7) ''worker-a'' None demo_store)) = (Inr l', st'') \<and> le_owner l' = ''worker-b''"
proof -
  have "le_work_id (demo_lease\<lparr>le_state := L_Released, le_released_at := Some 60\<rparr>) = demo_id 6"
    by (simp add: demo_lease_def new_lease_def)
  then show ?thesis
    using released_work_can_be_taken [OF demo_release demo_store_inv, of "demo_work 6 ''w/b'' 4 2 W_Running"
        "demo_id 10" "''worker-b''" 100 70]
    by (simp add: demo_release) (simp add: demo_defs)
qed

text \<open>The work items of a plan as images of its trials.\<close>

lemma works_cover_trials:
  assumes "store_inv st"
    and "length (filter (\<lambda>w. wi_plan_id w = p) (st_work st)) = length (filter (\<lambda>t. tr_plan_id t = p) (st_trials st))"
    and "t \<in> set (st_trials st)" "tr_plan_id t = p"
  shows "\<exists>w\<in>set (st_work st). wi_plan_id w = p \<and> wi_trial_id w = tr_trial_id t"
proof -
  let ?W = "filter (\<lambda>w. wi_plan_id w = p) (st_work st)" and ?T = "filter (\<lambda>t. tr_plan_id t = p) (st_trials st)"
  have s: "structure_ok st" using assms(1) by (simp add: store_inv_def)
  have dW: "distinct (map wi_trial_id ?W)"
    using s by (auto simp: structure_ok_def work_ok_def work_cols_def comp_def distinct_map_filter)
  have dT: "distinct (map tr_trial_id ?T)"
    using s by (auto simp: structure_ok_def trials_ok_def trial_cols_def comp_def distinct_map_filter)
  have sub: "wi_trial_id ` set ?W \<subseteq> tr_trial_id ` set ?T"
    using s by (fastforce simp: structure_ok_def work_ok_def work_cols_def trial_cols_def image_iff)
  have "card (wi_trial_id ` set ?W) = card (tr_trial_id ` set ?T)"
    using distinct_card [OF dW] distinct_card [OF dT] assms(2) by simp
  then have "wi_trial_id ` set ?W = tr_trial_id ` set ?T"
    using card_subset_eq [OF _ sub] by simp
  then have "tr_trial_id t \<in> wi_trial_id ` set ?W" using assms(3,4) by auto
  then show ?thesis by auto
qed

text \<open>
  \<^verbatim>\<open>complete_plan_if_terminal\<close> closes a plan only when it is finished: it has trials, every one of
  them is terminal and has a work item, itself terminal; then the plan is closed, and the run is ended when
  all trials of the run are terminal too, as cancelled if its cancellation was requested and as completed
  otherwise. When it returns nothing, it changed nothing.
\<close>

theorem complete_plan_only_when_finished:
  assumes "complete_plan_if_terminal c p r n st = (Inr res, st')" and "store_inv st"
  shows "(res = None \<longrightarrow> st' = st)
    \<and> (\<forall>plan run. res = Some (plan, run) \<longrightarrow>
        (\<exists>t\<in>set (st_trials st). tr_plan_id t = p)
        \<and> (\<forall>t\<in>set (st_trials st). tr_plan_id t = p \<longrightarrow> terminal_trial (tr_state t)
            \<and> (\<exists>w\<in>set (st_work st). wi_trial_id w = tr_trial_id t \<and> terminal_work (wi_state w)))
        \<and> the_plan p st' = Some plan \<and> pr_state plan = Plan_Closed \<and> pr_run_id plan = r \<and> the_run r st' = Some run
        \<and> (rows_complete (\<lambda>t. tr_run_id t = r) (\<lambda>w. wi_run_id w = r) st \<longrightarrow>
            rr_status run = (if cancel_flag r st then Run_Cancelled else Run_Completed))
        \<and> (\<not> rows_complete (\<lambda>t. tr_run_id t = r) (\<lambda>w. wi_run_id w = r) st \<longrightarrow> the_run r st = Some run))"
proof -
  let ?done = "rows_complete (\<lambda>t. tr_plan_id t = p) (\<lambda>w. wi_plan_id w = p) st"
  let ?run_done = "rows_complete (\<lambda>t. tr_run_id t = r) (\<lambda>w. wi_run_id w = r) st"
  obtain stamp plan0 where run: "complete_plan_if_terminal_txn p r stamp st = Inr (res, st')"
    and plan0: "the_plan p st = Some plan0" "pr_run_id plan0 = r"
    using assms(1) unfolding complete_plan_if_terminal_def
    by (auto simp: checked_Inr_iff write_txn_Inr_iff complete_plan_if_terminal_txn_def err_iffs)
  have upd: "rows_complete a b (upd_plans f g st) = rows_complete a b st" for a b f g
    by (simp add: rows_complete_def)
  show ?thesis
  proof (cases ?done)
    case False
    then show ?thesis using run by (simp add: complete_plan_if_terminal_txn_def plan0 require_row_def)
  next
    case True
    then have trials: "\<exists>t\<in>set (st_trials st). tr_plan_id t = p"
      and ended: "\<forall>t\<in>set (st_trials st). tr_plan_id t = p \<longrightarrow> terminal_trial (tr_state t)"
        "\<forall>w\<in>set (st_work st). wi_plan_id w = p \<longrightarrow> terminal_work (wi_state w)"
      and len: "length (filter (\<lambda>w. wi_plan_id w = p) (st_work st)) = length (filter (\<lambda>t. tr_plan_id t = p) (st_trials st))"
      unfolding rows_complete_def Let_def by (auto simp: filter_empty_conv simp del: terminal_trial.simps terminal_work.simps)
    have cover: "\<forall>t\<in>set (st_trials st). tr_plan_id t = p \<longrightarrow> terminal_trial (tr_state t)
        \<and> (\<exists>w\<in>set (st_work st). wi_trial_id w = tr_trial_id t \<and> terminal_work (wi_state w))"
      using works_cover_trials [OF assms(2) len] ended by metis
    have "plan0 \<in> set (st_plans st)" using find_row_Some_key [OF plan0(1)] by blast
    then have "r \<in> rr_run_id ` set (st_runs st)"
      using assms(2) plan0(2) by (auto simp: store_inv_def structure_ok_def plans_ok_def plan_cols_def)
    then obtain x where x: "the_run r st = Some x"
      using find_row_None_iff [of rr_run_id r "st_runs st"] by (cases "the_run r st") auto
    have ids: "pr_plan_id plan0 = p" "rr_run_id x = r"
      using find_row_Some_key [OF plan0(1)] find_row_Some_key [OF x] by simp_all
    have res: "res = Some (plan0\<lparr>pr_state := Plan_Closed, pr_updated_at := stamp\<rparr>,
          if ?run_done then x\<lparr>rr_status := (if cancel_flag r st then Run_Cancelled else Run_Completed),
              rr_finished_at := coalesce (rr_finished_at x) (Some stamp), rr_updated_at := stamp\<rparr> else x)
        \<and> the_plan p st' = Some (fst (the res)) \<and> the_run r st' = Some (snd (the res))"
      using run True plan0 x ids
      by (cases ?run_done)
        (auto simp: complete_plan_if_terminal_txn_def err_iffs Let_def upd find_row_update cancel_flag_iff)
    then show ?thesis using trials cover plan0(2) x by auto
  qed
qed

definition demo_finished :: store where
  "demo_finished = demo_store\<lparr>st_trials := [demo_trial 3 1 T_Succeeded], st_leases := [], st_attempts := [],
     st_submissions := [], st_work := [demo_work 5 ''w/a'' 3 1 W_Succeeded]\<rparr>"

lemma demo_finished_inv: "store_inv demo_finished"
  by (simp add: demo_finished_def demo_defs inv_defs)

lemma demo_complete:
  "\<exists>plan run st'. complete_plan_if_terminal 70 (demo_id 2) (demo_id 1) None demo_finished = (Inr (Some (plan, run)), st')"
  by (simp add: complete_plan_if_terminal_def demo_finished_def demo_eval demo_defs rows_complete_def Let_def)

theorem complete_plan_only_when_finished_witness:
  "\<exists>plan run st'. complete_plan_if_terminal 70 (demo_id 2) (demo_id 1) None demo_finished = (Inr (Some (plan, run)), st')
    \<and> pr_state plan = Plan_Closed \<and> rr_status run = Run_Completed"
proof -
  obtain plan run st' where r:
    "complete_plan_if_terminal 70 (demo_id 2) (demo_id 1) None demo_finished = (Inr (Some (plan, run)), st')"
    using demo_complete by blast
  have "rows_complete (\<lambda>t. tr_run_id t = demo_id 1) (\<lambda>w. wi_run_id w = demo_id 1) demo_finished"
    "\<not> cancel_flag (demo_id 1) demo_finished"
    by (simp_all add: rows_complete_def cancel_flag_iff demo_finished_def demo_defs)
  with complete_plan_only_when_finished [OF r demo_finished_inv] r show ?thesis by auto
qed

section \<open>Work items and attempts\<close>

text \<open>
  Creating a work item is a round trip and idempotent: the row returned is the row that
  \<^verbatim>\<open>get_work_item\<close> reads afterwards, the same call made again returns it and changes nothing, and either it
  was appended to the table, queued, or it was there before.
\<close>

theorem create_work_item_roundtrip:
  assumes "create_work_item c w available (Some now) st = (Inr row, st')"
  shows "get_work_item (wi_work_id w) st' = (Inr row, st')
    \<and> create_work_item c' w available (Some now) st' = (Inr row, st')
    \<and> (st' = st \<or> (st_work st' = st_work st @ [row] \<and> wi_state row = W_Queued))
    \<and> work_immutable row = work_immutable (w\<lparr>wi_available_at := instant available\<rparr>)"
proof -
  obtain w' where check: "check_work_item c w available (Some now) = Inr w'" and ro: "\<not> st_read_only st"
    and run: "create_work_item_txn w' st = Inr (row, st')"
    using assms unfolding create_work_item_def by (auto simp: checked_Inr_iff write_txn_Inr_iff)
  have check': "check_work_item c' w available (Some now) = Inr w'"
    using check by (simp add: check_work_item_def)
  have w': "wi_work_id w' = wi_work_id w" "wi_state w' = W_Queued" "uuidv7_ok (wi_work_id w)"
    "work_immutable w' = work_immutable (w\<lparr>wi_available_at := instant available\<rparr>)"
    using check by (cases available; auto simp: check_work_item_def err_iffs work_immutable_def)+
  obtain plan trial where rows: "the_run (wi_run_id w') st \<noteq> None" "the_trial (wi_trial_id w') st = Some trial"
    "the_plan (wi_plan_id w') st = Some plan" "pr_run_id plan = wi_run_id w'" "tr_plan_id trial = wi_plan_id w'"
    "tr_run_id trial = wi_run_id w'" "tr_ordinal trial = wi_ordinal w'"
    using run by (auto simp: create_work_item_txn_def err_iffs)
  have result: "(st' = st \<and> the_work (wi_work_id w') st = Some row \<and> work_immutable row = work_immutable w')
      \<or> (st' = st\<lparr>st_work := st_work st @ [w']\<rparr> \<and> row = w' \<and> the_work (wi_work_id w') st' = Some w')"
    using run rows unfolding create_work_item_txn_def
    by (auto simp: txn_iffs insert_work_def find_row_append)
  then have got: "the_work (wi_work_id w') st' = Some row" "work_immutable row = work_immutable w'"
    "st_runs st' = st_runs st" "st_plans st' = st_plans st" "st_trials st' = st_trials st" "\<not> st_read_only st'"
    using ro by auto
  have "create_work_item_txn w' st' = Inr (row, st')"
    using rows got by (auto simp: create_work_item_txn_def require_row_def)
  then have "create_work_item c' w available (Some now) st' = (Inr row, st')"
    using check' got(6) by (simp add: create_work_item_def checked_apply write_txn_def)
  moreover have "get_work_item (wi_work_id w) st' = (Inr row, st')"
    using got(1) w'(1,3) by (simp add: get_work_item_def require_row_def)
  ultimately show ?thesis using result w' got(2) by auto
qed

lemma demo_create_work: "create_work_item 0 (demo_work 6 ''w/b'' 4 2 W_Planned) (Aware 0) (Some (Aware 0))
     (demo_store\<lparr>st_work := []\<rparr>) = (Inr (demo_work 6 ''w/b'' 4 2 W_Queued), demo_store\<lparr>st_work := [demo_work 6 ''w/b'' 4 2 W_Queued]\<rparr>)"
proof -
  have key: "required_key label ''w/b'' = Inr ''w/b''" for label
    unfolding required_key_Inr by code_simp
  show ?thesis by (simp add: create_work_item_def check_work_item_def demo_eval demo_defs key)
qed

theorem create_work_item_roundtrip_witness:
  "get_work_item (demo_id 6) (demo_store\<lparr>st_work := [demo_work 6 ''w/b'' 4 2 W_Queued]\<rparr>)
     = (Inr (demo_work 6 ''w/b'' 4 2 W_Queued), demo_store\<lparr>st_work := [demo_work 6 ''w/b'' 4 2 W_Queued]\<rparr>)"
  using create_work_item_roundtrip [OF demo_create_work] by (simp add: demo_work_def)

lemma fold_max_bound: "(n::int) \<le> fold max ns n \<and> (\<forall>m\<in>set ns. m \<le> fold max ns n) \<and> fold max ns n \<in> insert n (set ns)"
proof (induction ns arbitrary: n)
  case (Cons k ns)
  from Cons.IH [of "max k n"] show ?case by (auto simp: max_def split: if_splits)
qed simp

lemma next_attempt_number:
  "(\<forall>a\<in>set (st_attempts st). at_work_id a = w \<longrightarrow> at_attempt_number a < next_attempt_number w st)
   \<and> (next_attempt_number w st = 1 \<or> (\<exists>a\<in>set (st_attempts st). at_work_id a = w
        \<and> at_attempt_number a = next_attempt_number w st - 1))"
proof (cases "map at_attempt_number (filter (\<lambda>a. at_work_id a = w) (st_attempts st))")
  case Nil
  then show ?thesis by (auto simp: next_attempt_number_def filter_empty_conv)
next
  case (Cons n ns)
  then have set_eq: "insert n (set ns) = at_attempt_number ` {a \<in> set (st_attempts st). at_work_id a = w}"
    by (metis list.simps(15) list.set_map set_filter)
  have num: "next_attempt_number w st = fold max ns n + 1" by (simp add: next_attempt_number_def Cons)
  have "fold max ns n \<in> at_attempt_number ` {a \<in> set (st_attempts st). at_work_id a = w}"
    using fold_max_bound [of n ns] set_eq by blast
  moreover have "at_attempt_number a \<le> fold max ns n" if "a \<in> set (st_attempts st)" "at_work_id a = w" for a
    using that fold_max_bound [of n ns] set_eq by (metis (mono_tags, lifting) imageI insert_iff mem_Collect_eq)
  ultimately show ?thesis unfolding num by fastforce
qed

text \<open>
  An attempt is only started under a live lease and numbered in order: when
  \<^verbatim>\<open>create_attempt_for_lease\<close> succeeds, the lease is an active, unexpired lease of that work item, the
  attempt is appended as created, its number exceeds those of all earlier attempts of the work item and is
  one or the successor of one of them.
\<close>

theorem attempt_for_lease_numbered:
  assumes "create_attempt_for_lease c f w t l ci rn (Some (Aware now)) st = (Inr a, st')"
  shows "(\<exists>le. the_lease l st = Some le \<and> is_active le \<and> le_work_id le = w \<and> now < le_expires_at le)
    \<and> st_attempts st' = st_attempts st @ [a] \<and> at_work_id a = w \<and> at_trial_id a = t \<and> at_state a = A_Created
    \<and> (\<forall>b\<in>set (st_attempts st). at_work_id b = w \<longrightarrow> at_attempt_number b < at_attempt_number a)
    \<and> (at_attempt_number a = 1
       \<or> (\<exists>b\<in>set (st_attempts st). at_work_id b = w \<and> at_attempt_number b = at_attempt_number a - 1))"
proof -
  obtain item le where target: "attempt_target w t st = Inr item"
    and lease: "the_lease l st = Some le" "le_work_id le = w" "le_state le = L_Active" "now < le_expires_at le"
    and ins: "insert_attempt (new_attempt f item (next_attempt_number w st) ci rn (Some l) A_Created now) st = Inr st'"
    and a: "the_attempt f st' = Some a"
    using assms unfolding create_attempt_for_lease_def
    by (auto simp: checked_Inr_iff write_txn_Inr_iff create_attempt_for_lease_txn_def err_iffs)
  have "a = new_attempt f item (next_attempt_number w st) ci rn (Some l) A_Created now"
    "st_attempts st' = st_attempts st @ [a]"
    using ins a by (auto simp: insert_attempt_def find_row_append)
  then show ?thesis
    using target lease next_attempt_number [of st w]
    by (auto simp: attempt_target_Inr is_active_def new_attempt_def)
qed

lemma demo_second_attempt:
  "create_attempt_for_lease 0 (demo_id 10) (demo_id 6) (demo_id 4) (demo_id 7) 1 1 (Some (Aware 50)) demo_store
     = (Inr (new_attempt (demo_id 10) (demo_work 6 ''w/b'' 4 2 W_Running) 2 1 1 (Some (demo_id 7)) A_Created 50),
        demo_store\<lparr>st_attempts := [demo_attempt,
          new_attempt (demo_id 10) (demo_work 6 ''w/b'' 4 2 W_Running) 2 1 1 (Some (demo_id 7)) A_Created 50]\<rparr>)"
  by (simp add: create_attempt_for_lease_def demo_eval demo_defs attempt_target_def next_attempt_number_def)

theorem attempt_for_lease_numbered_witness:
  "at_attempt_number demo_attempt
     < at_attempt_number (new_attempt (demo_id 10) (demo_work 6 ''w/b'' 4 2 W_Running) 2 1 1 (Some (demo_id 7)) A_Created 50)"
proof -
  have "demo_attempt \<in> set (st_attempts demo_store)" "at_work_id demo_attempt = demo_id 6"
    by (simp_all add: demo_store_def demo_attempt_def demo_work_def)
  then show ?thesis using attempt_for_lease_numbered [OF demo_second_attempt] by blast
qed

section \<open>Cancellation twice\<close>

lemma cancel_rows_fix:
  assumes "st_work st' = st_work (cancel_rows p q t st)" "st_trials st' = st_trials (cancel_rows p q t st)"
    and "\<And>w s u. p (w\<lparr>wi_state := s, wi_updated_at := u\<rparr>) = p w"
    and "\<And>x s u. q (x\<lparr>tr_state := s, tr_updated_at := u\<rparr>) = q x"
  shows "cancel_rows p q u st' = st'"
proof -
  have "\<not> (p w \<and> wi_state w \<in> {W_Queued, W_Leased, W_Running})" if "w \<in> set (st_work st')" for w
    using cancel_rows_states(1) [OF assms(3,4)] that unfolding assms(1) by blast
  moreover have "\<not> (q x \<and> tr_state x \<in> {T_Planned, T_Queued})" if "x \<in> set (st_trials st')" for x
    using cancel_rows_states(2) [OF assms(3,4)] that unfolding assms(2) by blast
  ultimately show ?thesis by (simp add: cancel_rows_def upd_none)
qed

lemma close_twice: "close_terminal_plans r t (close_terminal_plans r t st) = close_terminal_plans r t st"
  by (simp add: close_terminal_plans_def upd_plans_def update_rows_again)

lemma require_row_Some: "require_row table (Some x) = Inr x"
  by (simp add: require_row_def)

lemma request_cancellation_txn_terminal:
  "the_run r st = Some run \<Longrightarrow> terminal_run (rr_status run) \<Longrightarrow> request_cancellation_txn r tid t st = Inr (run, st)"
  by (simp add: request_cancellation_txn_def require_row_def)

lemma upd_runs_fix:
  assumes "\<And>x. f (f x) = f x" "\<And>x. p (f x) = p x"
  shows "upd_runs p f (upd_runs p f st) = upd_runs p f st"
proof -
  have "update_rows p f (update_rows p f rows) = update_rows p f rows" for rows
    using assms by (induction rows) auto
  then show ?thesis by (simp add: upd_runs_def)
qed

lemma upd_runs_commute:
  "upd_runs p f (cancel_rows a b t st) = cancel_rows a b t (upd_runs p f st)"
  "upd_runs p f (close_terminal_plans r t st) = close_terminal_plans r t (upd_runs p f st)"
  by (simp_all add: upd_runs_def cancel_rows_def upd_trials_def upd_work_def close_terminal_plans_def upd_plans_def)

definition cancel_stage :: "uuid \<Rightarrow> uuid option \<Rightarrow> int \<Rightarrow> store \<Rightarrow> store" where
  "cancel_stage r tid t st = (case tid of
     None \<Rightarrow> cancel_rows (\<lambda>w. wi_run_id w = r) (\<lambda>x. tr_run_id x = r) t
       (upd_runs (\<lambda>x. rr_run_id x = r) (\<lambda>x. x\<lparr>rr_cancellation_requested_at :=
         coalesce (rr_cancellation_requested_at x) (Some t), rr_updated_at := t\<rparr>) st)
   | Some k \<Rightarrow> cancel_rows (\<lambda>w. wi_trial_id w = k) (\<lambda>x. tr_trial_id x = k) t st)"

lemma mark_status:
  assumes "the_run r (mark_run_cancelled r t st) = Some run"
  shows "rr_status run = Run_Cancelled"
proof -
  have "the_run r st \<noteq> None"
    using assms by (auto simp: mark_run_cancelled_def find_row_update)
  then obtain x where x: "the_run r st = Some x" by blast
  then have "rr_run_id x = r" using find_row_Some_key [OF x] by blast
  then show ?thesis using assms x by (simp add: mark_run_cancelled_def find_row_update) (erule subst, simp)
qed

lemma coalesce_twice: "coalesce (coalesce x (Some t)) (Some t) = coalesce x (Some t)"
  by (cases x) simp_all

lemma cancel_stage_fix: "cancel_stage r tid t (close_terminal_plans r t (cancel_stage r tid t st))
    = close_terminal_plans r t (cancel_stage r tid t st)"
proof (cases tid)
  case None
  let ?f = "\<lambda>x. x\<lparr>rr_cancellation_requested_at := coalesce (rr_cancellation_requested_at x) (Some t), rr_updated_at := t\<rparr>"
  let ?u = "upd_runs (\<lambda>x. rr_run_id x = r) ?f"
  let ?c = "cancel_rows (\<lambda>w. wi_run_id w = r) (\<lambda>x. tr_run_id x = r) t"
  have twice: "?u (?u st) = ?u st" by (rule upd_runs_fix) (simp_all add: coalesce_twice)
  have "?c (?u (close_terminal_plans r t (?c (?u st)))) = ?c (close_terminal_plans r t (?c (?u st)))"
    by (simp only: upd_runs_commute twice)
  also have "\<dots> = close_terminal_plans r t (?c (?u st))"
    by (rule cancel_rows_fix [where st = "?u st"]) simp_all
  finally show ?thesis by (simp add: cancel_stage_def None)
next
  case (Some k)
  then show ?thesis
    by (simp add: cancel_stage_def) (rule cancel_rows_fix [where st = st]; simp)
qed

lemma request_cancellation_txn_stage:
  assumes "the_run r st = Some x" "\<not> terminal_run (rr_status x)"
  shows "request_cancellation_txn r tid t st = Inr (run, st') \<longleftrightarrow>
     (\<forall>k. tid = Some k \<longrightarrow> (\<exists>tr. the_trial k st = Some tr \<and> tr_run_id tr = r))
     \<and> st' = (let st2 = close_terminal_plans r t (cancel_stage r tid t st)
             in if open_rows r st2 = 0 then mark_run_cancelled r t st2 else st2)
     \<and> the_run r st' = Some run"
  using assms unfolding request_cancellation_txn_def cancel_stage_def
  by (cases tid) (auto simp: require_row_Some err_iffs Let_def simp del: terminal_run.simps)

text \<open>
  \<^verbatim>\<open>request_cancellation\<close> is idempotent, as its documentation says: the same request repeated, for the
  run or for a trial, returns the same run and changes nothing.
\<close>

theorem request_cancellation_idempotent:
  assumes "request_cancellation c r tid (Some now) st = (Inr run, st')"
  shows "request_cancellation c' r tid (Some now) st' = (Inr run, st')"
proof -
  obtain t where args: "uuidv7_ok r" "checked_optional_id ''trial_id'' tid = Inr tid" "now_or_clock c (Some now) = Inr t"
    and ro: "\<not> st_read_only st" and run: "request_cancellation_txn r tid t st = Inr (run, st')"
    using assms unfolding request_cancellation_def
    by (auto simp: checked_Inr_iff write_txn_Inr_iff err_iffs checked_optional_id_def split: option.splits)
  obtain x where x: "the_run r st = Some x"
    using run by (auto simp: request_cancellation_txn_def err_iffs)
  have "request_cancellation_txn r tid t st' = Inr (run, st') \<and> st_read_only st' = st_read_only st"
  proof (cases "terminal_run (rr_status x)")
    case True
    then have "st' = st" "run = x" using run request_cancellation_txn_terminal [OF x] by auto
    then show ?thesis using request_cancellation_txn_terminal [OF x True] by simp
  next
    case False
    let ?st2 = "close_terminal_plans r t (cancel_stage r tid t st)"
    have trial: "\<forall>k. tid = Some k \<longrightarrow> (\<exists>tr. the_trial k st = Some tr \<and> tr_run_id tr = r)"
      and st': "st' = (if open_rows r ?st2 = 0 then mark_run_cancelled r t ?st2 else ?st2)"
      and row: "the_run r st' = Some run"
      using run unfolding request_cancellation_txn_stage [OF x False] Let_def by blast+
    have ro': "st_read_only st' = st_read_only st"
      by (simp add: st' cancel_stage_def split: option.split)
    have trial': "\<exists>tr. the_trial k st' = Some tr \<and> tr_run_id tr = r" if k: "tid = Some k" for k
    proof -
      obtain tr where "the_trial k st = Some tr" "tr_run_id tr = r" using trial k by blast
      then show ?thesis by (simp add: st' cancel_stage_def k cancel_rows_def find_row_update)
    qed
    show ?thesis
    proof (cases "terminal_run (rr_status run)")
      case True
      then show ?thesis using request_cancellation_txn_terminal [OF row] ro' by simp
    next
      case not_ended: False
      have "st' = ?st2"
      proof (rule ccontr)
        assume "st' \<noteq> ?st2"
        then have "st' = mark_run_cancelled r t ?st2" by (auto simp: st' split: if_splits)
        then have "rr_status run = Run_Cancelled" using row mark_status by simp
        then show False using not_ended by simp
      qed
      moreover from this have "close_terminal_plans r t (cancel_stage r tid t st') = st'"
        using cancel_stage_fix [of r tid t st] close_twice [of r t "cancel_stage r tid t st"] by simp
      ultimately show ?thesis
        using st' row trial' ro' unfolding request_cancellation_txn_stage [OF row not_ended] by (simp add: Let_def)
    qed
  qed
  then show ?thesis
    using args ro by (simp add: request_cancellation_def checked_apply write_txn_def)
qed

lemma demo_cancel_again:
  "\<exists>run st'. request_cancellation 0 (demo_id 1) (Some (demo_id 3)) (Some (Aware 50)) demo_store = (Inr run, st')"
  by (simp add: request_cancellation_def demo_eval demo_defs cancel_rows_def close_terminal_plans_def
      mark_run_cancelled_def open_rows_def cancel_work_state_def)

theorem request_cancellation_idempotent_witness:
  "\<exists>run st'. request_cancellation 0 (demo_id 1) (Some (demo_id 3)) (Some (Aware 50)) demo_store = (Inr run, st')
    \<and> request_cancellation 9 (demo_id 1) (Some (demo_id 3)) (Some (Aware 50)) st' = (Inr run, st')"
  using demo_cancel_again request_cancellation_idempotent by blast

end
