(* ===== verification/Store_Caps.thy ===== *)
theory Store_Caps
  imports Store_Lifecycle
begin

text \<open>
  Concurrency caps as an invariant of the whole store: \<^verbatim>\<open>lease_next_work_item\<close> checks a cap when it grants a
  lease; here every other method (but \<^verbatim>\<open>acquire_lease\<close>, which takes no caps) is shown never to raise the
  number of active leases under a cap, so that a store within its caps stays within them.
\<close>

section \<open>Caps as bounds on active leases\<close>

text \<open>A cap: the work items it counts, and its bound.\<close>

inductive cap_of :: "lease_limits \<Rightarrow> (work_row \<Rightarrow> bool) \<Rightarrow> int \<Rightarrow> bool" where
  Global: "ll_global caps = Some n \<Longrightarrow> cap_of caps (\<lambda>_. True) n"
| Run: "map_of (ll_run caps) k = Some n \<Longrightarrow> cap_of caps (\<lambda>w. wi_run_id w = k) n"
| Backend: "map_of (ll_backend caps) b = Some n \<Longrightarrow> cap_of caps (\<lambda>w. wi_backend w = b) n"
| Provider: "map_of (ll_provider_route caps) b = Some n \<Longrightarrow> cap_of caps (\<lambda>w. wi_provider_route w = b) n"
| Model: "map_of (ll_model_route caps) b = Some n \<Longrightarrow> cap_of caps (\<lambda>w. wi_model_route w = b) n"
| Resource: "map_of (ll_resource_class caps) b = Some n \<Longrightarrow> cap_of caps (\<lambda>w. wi_resource_class w = b) n"
| Family: "map_of (ll_execution_family caps) b = Some n \<Longrightarrow> cap_of caps (\<lambda>w. wi_execution_family w = b) n"

definition within_caps :: "lease_limits \<Rightarrow> store \<Rightarrow> bool" where
  "within_caps caps st \<longleftrightarrow> (\<forall>p n. cap_of caps p n \<longrightarrow> active_on p st \<le> n)"

text \<open>What caps look at is never updated.\<close>

definition fixed_column :: "(work_row \<Rightarrow> bool) \<Rightarrow> bool" where
  "fixed_column p \<longleftrightarrow> (\<forall>w s t a. p (w\<lparr>wi_state := s, wi_updated_at := t, wi_available_at := a\<rparr>) = p w)"

lemma cap_of_fixed: "cap_of caps p n \<Longrightarrow> fixed_column p"
  by (induction rule: cap_of.induct) (simp_all add: fixed_column_def)

lemma fixed_columnD:
  assumes "fixed_column p"
  shows "p (w\<lparr>wi_state := s, wi_updated_at := t\<rparr>) = p w"
    and "p (w\<lparr>wi_state := s, wi_updated_at := t, wi_available_at := a\<rparr>) = p w"
proof -
  show "p (w\<lparr>wi_state := s, wi_updated_at := t, wi_available_at := a\<rparr>) = p w" for a
    using assms by (simp add: fixed_column_def)
  from this [of "wi_available_at w"] show "p (w\<lparr>wi_state := s, wi_updated_at := t\<rparr>) = p w" by simp
qed

section \<open>No update adds an active lease\<close>

lemma active_on_mono:
  assumes "\<And>l. l \<in> set (st_leases st) \<Longrightarrow> le_work_id (g l) = le_work_id l \<and> (is_active (g l) \<longrightarrow> is_active l)"
    and "st_leases st' = map g (st_leases st)" "\<And>k. map_option p (the_work k st') = map_option p (the_work k st)"
  shows "active_on p st' \<le> active_on p st"
proof -
  let ?q = "\<lambda>s l. is_active l \<and> (case the_work (le_work_id l) s of None \<Rightarrow> False | Some w \<Rightarrow> p w)"
  have eq: "(case the_work k st' of None \<Rightarrow> False | Some w \<Rightarrow> p w) = (case the_work k st of None \<Rightarrow> False | Some w \<Rightarrow> p w)"
    for k using assms(3) [of k] by (cases "the_work k st'"; cases "the_work k st") simp_all
  have "length (filter (?q st') (map g ls)) \<le> length (filter (?q st) ls)" if "set ls \<subseteq> set (st_leases st)" for ls
    using that assms(1) by (induction ls) (simp_all add: eq)
  then show ?thesis by (simp add: active_on_def assms(2))
qed

lemma active_on_updates [simp]:
  "active_on p (upd_runs p1 f1 st) = active_on p st" "active_on p (upd_plans p2 f2 st) = active_on p st"
  "active_on p (upd_trials p3 f3 st) = active_on p st" "active_on p (upd_attempts p4 f4 st) = active_on p st"
  "active_on p (upd_submissions p5 f5 st) = active_on p st"
  by (simp_all add: active_on_def)

lemma active_on_upd_work:
  assumes "\<And>w. wi_work_id (f w) = wi_work_id w" "\<And>w. p (f w) = p w"
  shows "active_on p (upd_work q f st) = active_on p st"
proof -
  have "(case map_option (\<lambda>r. if q r then f r else r) x of None \<Rightarrow> False | Some w \<Rightarrow> p w)
      = (case x of None \<Rightarrow> False | Some w \<Rightarrow> p w)" for x
    using assms(2) by (cases x) simp_all
  then show ?thesis by (simp add: active_on_def find_row_update assms(1))
qed

lemma active_on_upd_leases:
  assumes "\<And>l. le_work_id (f l) = le_work_id l" "\<And>l. is_active (f l) \<Longrightarrow> is_active l"
  shows "active_on p (upd_leases q f st) \<le> active_on p st"
  by (rule active_on_mono [where g = "\<lambda>l. if q l then f l else l"]) (auto simp: assms update_rows_def)

lemma active_on_inserts:
  "insert_run r st = Inr st' \<Longrightarrow> active_on p st' = active_on p st"
  "insert_plan pl st = Inr st' \<Longrightarrow> active_on p st' = active_on p st"
  "insert_trial t st = Inr st' \<Longrightarrow> active_on p st' = active_on p st"
  "insert_attempt a st = Inr st' \<Longrightarrow> active_on p st' = active_on p st"
  "insert_submission s st = Inr st' \<Longrightarrow> active_on p st' = active_on p st"
  by (auto simp: insert_run_def insert_plan_def insert_trial_def insert_attempt_def insert_submission_def active_on_def)

text \<open>A new work item has no lease: leases refer to work items.\<close>

lemma active_on_insert_work:
  assumes "insert_work w st = Inr st'" "store_inv st"
  shows "active_on p st' = active_on p st"
proof -
  have st': "st' = st\<lparr>st_work := st_work st @ [w]\<rparr>" using assms(1) by (auto simp: insert_work_def)
  have "the_work (le_work_id l) st \<noteq> None" if "l \<in> set (st_leases st)" for l
    using assms(2) that
    by (auto simp: store_inv_def structure_ok_def leases_ok_def lease_cols_def list_all_iff find_row_None_iff)
  then have "the_work (le_work_id l) st' = the_work (le_work_id l) st" if "l \<in> set (st_leases st)" for l
    using that by (fastforce simp: st' find_row_append)
  then show ?thesis by (simp add: active_on_def st' cong: filter_cong)
qed

section \<open>No method but the leasing ones adds an active lease\<close>

definition never_adds :: "(work_row \<Rightarrow> bool) \<Rightarrow> 'a store_op \<Rightarrow> bool" where
  "never_adds p m \<longleftrightarrow> (\<forall>st. store_inv st \<longrightarrow> active_on p (snd (m st)) \<le> active_on p st)"

lemma never_adds_write_txn:
  "(\<And>st x st'. store_inv st \<Longrightarrow> body st = Inr (x, st') \<Longrightarrow> active_on p st' \<le> active_on p st)
    \<Longrightarrow> never_adds p (write_txn body)"
  by (auto simp: never_adds_def write_txn_def split: sum.split)

lemma never_adds_checked: "(\<And>x. m = Inr x \<Longrightarrow> never_adds p (f x)) \<Longrightarrow> never_adds p (checked m f)"
  by (cases m) (auto simp: never_adds_def checked_apply)

lemma never_adds_case_prod: "(\<And>y z. x = (y, z) \<Longrightarrow> never_adds p (f y z)) \<Longrightarrow> never_adds p (case x of (y, z) \<Rightarrow> f y z)"
  by (cases x) simp

lemma never_adds_case_sum: "(\<And>y. x = Inl y \<Longrightarrow> never_adds p (f y)) \<Longrightarrow> (\<And>y. x = Inr y \<Longrightarrow> never_adds p (g y))
    \<Longrightarrow> never_adds p (case x of Inl y \<Rightarrow> f y | Inr y \<Rightarrow> g y)"
  by (cases x) simp_all

lemmas never_adds_intros = never_adds_checked never_adds_case_prod never_adds_write_txn

lemma active_on_closing [simp]:
  "active_on p (close_terminal_plans r t st) = active_on p st"
  "active_on p (mark_run_cancelled r t st) = active_on p st"
  by (simp_all add: close_terminal_plans_def mark_run_cancelled_def)

lemma active_on_cancel_rows:
  "fixed_column p \<Longrightarrow> active_on p (cancel_rows q1 q2 t st) = active_on p st"
  by (simp add: cancel_rows_def active_on_upd_work fixed_columnD)

lemma active_on_release:
  "active_on p (upd_leases q (\<lambda>l. l\<lparr>le_state := L_Released, le_released_at := t\<rparr>) st) \<le> active_on p st"
  "active_on p (upd_leases q (\<lambda>l. l\<lparr>le_state := L_Expired, le_released_at := Some (le_expires_at l)\<rparr>) st) \<le> active_on p st"
  "active_on p (upd_leases q (\<lambda>l. l\<lparr>le_expires_at := e, le_heartbeat_at := b\<rparr>) st) \<le> active_on p st"
  by (rule active_on_upd_leases; simp add: is_active_def)+

lemma active_on_expire:
  assumes "fixed_column p"
  shows "active_on p (expire_all t r st) \<le> active_on p st"
proof -
  have one: "active_on p (expire_one t l st) \<le> active_on p st" for l st
    by (simp add: expire_one_def Let_def expire_lease_row_def expire_work_row_def expire_trial_row_def
        expire_attempt_rows_def expire_submission_rows_def active_on_upd_work fixed_columnD [OF assms] active_on_release)
  have "active_on p (fold (expire_one t) ls st) \<le> active_on p st" for ls
    by (induction ls arbitrary: st) (auto intro: order_trans one)
  then show ?thesis by (simp add: expire_all_def)
qed

definition adds_none :: "(work_row \<Rightarrow> bool) \<Rightarrow> 'a txn \<Rightarrow> bool" where
  "adds_none p body \<longleftrightarrow> (\<forall>st x st'. store_inv st \<longrightarrow> body st = Inr (x, st') \<longrightarrow> active_on p st' \<le> active_on p st)"

lemma adds_noneI:
  "(\<And>st x st'. store_inv st \<Longrightarrow> body st = Inr (x, st') \<Longrightarrow> active_on p st' \<le> active_on p st) \<Longrightarrow> adds_none p body"
  by (simp add: adds_none_def)

lemma never_adds_txn: "adds_none p body \<Longrightarrow> never_adds p (write_txn body)"
  by (rule never_adds_write_txn) (simp add: adds_none_def)

lemma adds_none_run_txns:
  assumes "fixed_column p"
  shows "adds_none p (create_run_txn a1 b1 c1 d1)"
    "adds_none p (update_run_txn a1 b1 d1)"
    "adds_none p (request_cancellation_txn a1 e1 d1)"
    "adds_none p (put_plan_txn a1 a2 c1 f1 d1)"
    "adds_none p (update_plan_txn a1 f1 d1)"
    "adds_none p (put_planned_trial_txn a1 a2 a3 g1 h1 d1)"
    "adds_none p (update_planned_trial_txn a1 h1 d1)"
    "adds_none p (complete_plan_if_terminal_txn a1 a2 d1)"
    "adds_none p (update_work_item_txn a1 ws1 av1 d1)"
  by (rule adds_noneI; auto simp: txn_defs txn_iffs case_prod_Inr_iff Let_def active_on_cancel_rows
      active_on_upd_work fixed_columnD assms active_on_inserts)+

lemma adds_none_create_work: "adds_none p (create_work_item_txn w)"
  by (rule adds_noneI)
    (auto simp: create_work_item_txn_def txn_iffs case_prod_Inr_iff Let_def dest: active_on_insert_work [where p = p])

lemma adds_none_attempt_txns:
  assumes "fixed_column p"
  shows "adds_none p (create_attempt_txn i1 w1 t1 n1 c1 r1 l1 s1 m1)"
    "adds_none p (create_attempt_for_lease_txn i1 w1 t1 l2 c1 r1 m1)"
    "adds_none p (transition_attempt_txn i1 s1 m1 f1 re1 ca1)"
    "adds_none p (record_backend_submission_txn sr1)"
    "adds_none p (transition_backend_submission_txn i1 ss1 m1 ca1 re1)"
    "adds_none p (bind_external_ids_txn i1 e1 ew1 m1)"
    "adds_none p (schedule_retry_txn w1 n1 m1)"
    "adds_none p (renew_lease_txn l2 own1 m1 n1)"
    "adds_none p (release_lease_txn l2 own1 m1)"
    "adds_none p (expire_leases_txn m1 ro1)"
  by (rule adds_noneI; auto simp: txn_defs txn_iffs case_prod_Inr_iff Let_def active_on_upd_work
      fixed_columnD assms active_on_inserts active_on_release active_on_expire)+

lemmas adds_none_intros = adds_none_run_txns adds_none_create_work adds_none_attempt_txns

lemma never_adds_raise: "never_adds p (raiseS e)" "never_adds p (returnS x)"
  by (simp_all add: never_adds_def)

lemmas method_adds_intros = never_adds_checked never_adds_case_prod never_adds_case_sum never_adds_raise never_adds_txn

lemma never_adds_methods:
  assumes "fixed_column p"
  shows "never_adds p (create_run c r ref rs n)" "never_adds p (update_run c r rs n)"
    "never_adds p (request_cancellation c r ot n)" "never_adds p (put_plan c pl r ref ps n)"
    "never_adds p (update_plan c pl ps n)" "never_adds p (put_planned_trial c t pl r k ts n)"
    "never_adds p (update_planned_trial c t ts n)" "never_adds p (complete_plan_if_terminal c pl r n)"
    "never_adds p (create_work_item c wr av n)" "never_adds p (update_work_item c w ws oa n)"
    "never_adds p (create_attempt c i w t k ci rn ol as n)"
    "never_adds p (create_attempt_for_lease c i w t l ci rn n)"
    "never_adds p (transition_attempt c i as n fl ore oca)"
    "never_adds p (record_backend_submission c i a b oe ow ss n)"
    "never_adds p (transition_backend_submission c i ss n oca ore)"
    "never_adds p (bind_backend_submission_external_ids c i ex ow n)"
    "never_adds p (schedule_retry c w av n)" "never_adds p (expire_leases orr nw)"
    "never_adds p (renew_lease l own nw ttl)" "never_adds p (release_lease c l own n)"
  unfolding method_defs by (intro method_adds_intros adds_none_intros assms)+

section \<open>Leasing keeps the caps\<close>

lemma under_limits_cap:
  assumes "cap_of caps p n" "under_limits caps (active_rows st) w" "\<not> global_reached caps (active_rows st)"
    and "p w" "store_inv st"
  shows "active_on p st + 1 \<le> n"
proof -
  have bound: "map_of limits (d w) = Some n \<Longrightarrow> under_limit (d w) limits (count_values d (active_rows st))
      \<Longrightarrow> active_on (\<lambda>v. d v = d w) st + 1 \<le> n" for limits n and d :: "work_row \<Rightarrow> 'k"
    using under_limit_bound [OF _ _ assms(5)] by fastforce
  have "length (active_rows st) = active_on (\<lambda>_. True) st"
    using length_active_rows [OF store_inv_works [OF assms(5)], of "\<lambda>_. True"] by simp
  with assms(1-4) show ?thesis
    by (cases rule: cap_of.cases) (auto simp: under_limits_def global_reached_def bound)
qed

lemma lease_next_atomic: "atomic (lease_next_work_item f own now ttl caps g lid)"
  unfolding lease_next_work_item_def by (intro atomic_intros)

lemma lease_next_within_caps:
  "preserves (\<lambda>st. store_inv st \<and> within_caps caps st) (lease_next_work_item f own now ttl caps g lid)"
proof (rule preservesI)
  fix st assume st: "store_inv st \<and> within_caps caps st"
  let ?m = "lease_next_work_item f own now ttl caps g lid"
  let ?st1 = "expire_all (instant now) None st"
  have inv1: "store_inv ?st1" using st by (simp add: expire_all_inv)
  have le1: "active_on p ?st1 \<le> active_on p st" if "cap_of caps p n" for p n
    using active_on_expire [OF cap_of_fixed [OF that]] .
  obtain r st' where r: "?m st = (r, st')" by fastforce
  have "within_caps caps st'"
  proof (cases r)
    case (Inl e)
    then have "st' = st" using r lease_next_atomic by (fastforce simp: atomic_def)
    then show ?thesis using st by simp
  next
    case (Inr x)
    show ?thesis
    proof (cases x)
      case None
      then show ?thesis using lease_next_None [of f own now ttl caps g lid st st'] r Inr st le1
        unfolding within_caps_def by (metis order_trans)
    next
      case (Some y)
      obtain w l where y: "y = (w, l)" by fastforce
      obtain c k where c: "leased_from ?st1 caps g (instant now) c" "c \<in> set (st_work ?st1)"
        and st': "st' = mark_leased (wi_work_id c) (instant now)
          (?st1\<lparr>st_leases := st_leases ?st1 @ [new_lease k (wi_work_id c) own (instant now) (instant now + ttl)]\<rparr>)"
        using lease_next_Some [of f own now ttl caps g lid st w l st'] r Inr Some y st by blast
      have row: "the_work (wi_work_id c) ?st1 = Some c"
        using c(2) store_inv_works [OF inv1] by (simp add: find_row_mem keys_distinct_def)
      have sel: "\<not> global_reached caps (active_rows ?st1)" "under_limits caps (active_rows ?st1) c"
        using select_candidate_Some c(1) unfolding leased_from_def by blast+
      show ?thesis unfolding within_caps_def
      proof (intro allI impI)
        fix p n assume cap: "cap_of caps p n"
        have "active_on p st' = active_on p ?st1 + (if p c then 1 else 0)"
          unfolding st' by (rule active_on_leased [OF fixed_columnD(1) [OF cap_of_fixed [OF cap]] row])
        then show "active_on p st' \<le> n"
          using under_limits_cap [OF cap sel(2,1) _ inv1] le1 [OF cap] st cap
          unfolding within_caps_def by (cases "p c") fastforce+
      qed
    qed
  qed
  then show "store_inv (snd (?m st)) \<and> within_caps caps (snd (?m st))"
    using r st preservesD [OF lease_next_inv] by (metis snd_conv)
qed

text \<open>The invariant of every other method.\<close>

lemma preserves_within_caps:
  assumes "preserves store_inv m" "\<And>p. fixed_column p \<Longrightarrow> never_adds p m"
  shows "preserves (\<lambda>st. store_inv st \<and> within_caps caps st) m"
proof (rule preservesI)
  fix st assume st: "store_inv st \<and> within_caps caps st"
  then have "active_on p (snd (m st)) \<le> active_on p st" if "cap_of caps p n" for p n
    using assms(2) [OF cap_of_fixed [OF that]] by (simp add: never_adds_def)
  with st have "within_caps caps (snd (m st))" unfolding within_caps_def by (meson order_trans)
  then show "store_inv (snd (m st)) \<and> within_caps caps (snd (m st))"
    using st preservesD [OF assms(1)] by blast
qed

end
