(* ===== verification/Scheduler.thy ===== *)
theory Scheduler
  imports Store_Caps
begin

text \<open>
  The local scheduler, \<^verbatim>\<open>execution/scheduler.py\<close>, as actions on the operational store. The clock, the
  fresh identities, the backends and the workers are inputs: a backend is a function to its answer (or
  the text of the exception it raises), and a dispatch takes the list of its rounds, each with what other
  threads did to the store while it waited, the futures that were done and the readings of the clock. A
  store error that the source does not catch leaves the method, with the store as it is then.
\<close>

section \<open>Reports\<close>

record scheduler_report =
  sr_leased :: int
  sr_succeeded :: int
  sr_failed :: int
  sr_retried :: int
  sr_cancelled :: int
  sr_unknown :: int
  sr_idle :: bool
  sr_next_available_at :: "int option"

definition validate_report :: "scheduler_report \<Rightarrow> store_error + scheduler_report" where
  "validate_report r =
     bindE (guardE (0 \<le> sr_leased r \<and> 0 \<le> sr_succeeded r \<and> 0 \<le> sr_failed r \<and> 0 \<le> sr_retried r
         \<and> 0 \<le> sr_cancelled r \<and> 0 \<le> sr_unknown r) (Value_Error ''greater than or equal to 0'')) (\<lambda>_.
     bindE (guardE (\<not> sr_leased r < sr_succeeded r + sr_failed r)
       (Value_Error ''scheduler completion counts must not exceed leased count'')) (\<lambda>_.
     bindE (guardE (sr_idle r = (sr_leased r = 0))
       (Value_Error ''scheduler idle flag must match leased count'')) (\<lambda>_.
       Inr r)))"

section \<open>Failures\<close>

definition infrastructure_failure :: "failure_kind \<Rightarrow> string \<Rightarrow> failure_classification" where
  "infrastructure_failure kind message = \<lparr>fc_class = Infrastructure, fc_kind = kind, fc_message = message\<rparr>"

definition unknown_failure :: "string \<Rightarrow> failure_classification" where
  "unknown_failure message = \<lparr>fc_class = Unknown_Class, fc_kind = Unknown_External_State, fc_message = message\<rparr>"

text \<open>\<^verbatim>\<open>_failure_from_record\<close>; the classification is validated as it is built.\<close>

definition failure_from_record :: "attempt_row \<Rightarrow> store_error + failure_classification option" where
  "failure_from_record a =
     (case (at_failure_kind a, at_failure_class a, at_failure_message a) of
        (Some k, Some c, Some m) \<Rightarrow>
          (case validate_failure \<lparr>fc_class = c, fc_kind = k, fc_message = m\<rparr> of
             Inl msg \<Rightarrow> Inl (Value_Error msg) | Inr f \<Rightarrow> Inr (Some f))
      | _ \<Rightarrow> Inr None)"

section \<open>Retry\<close>

text \<open>\<^verbatim>\<open>timedelta(seconds=x)\<close> rounds to microseconds, ties to even.\<close>

definition timedelta_seconds :: "rat \<Rightarrow> int" where
  "timedelta_seconds x =
     (let y = x * 1000000; n = \<lfloor>y\<rfloor>; d = y - of_int n
      in if d < 1 / 2 \<or> (d = 1 / 2 \<and> even n) then n else n + 1)"

text \<open>\<^verbatim>\<open>max((record.retry_number ...), default=-1) + 1\<close>.\<close>

definition next_retry_number :: "attempt_row list \<Rightarrow> int" where
  "next_retry_number as = fold max (map at_retry_number as) (-1) + 1"

definition elapsed_exceeded :: "retry_policy \<Rightarrow> int \<Rightarrow> attempt_row list \<Rightarrow> store_error + bool" where
  "elapsed_exceeded p now attempts =
     (case rp_maximum_elapsed_seconds p of
        None \<Rightarrow> Inr False
      | Some maximum \<Rightarrow>
          (case minimum_time (map at_created_at attempts) of
             None \<Rightarrow> Inl (Value_Error ''min() arg is an empty sequence'')
           | Some first \<Rightarrow>
               Inr (maximum < of_int (now + timedelta_seconds (rp_backoff_seconds p) - first) / 1000000)))"

text \<open>\<^verbatim>\<open>_schedule_retry\<close>: whether a retry was scheduled. \<open>now\<close> is the (aware) time of the pass.\<close>

definition schedule_work_retry :: "bool \<Rightarrow> int \<Rightarrow> work_row \<Rightarrow> failure_classification \<Rightarrow> bool store_op" where
  "schedule_work_retry after_unknown now item failure =
     (let p = wi_retry_policy item in
      if after_unknown \<and> rp_unknown_state_policy p = Never_Retry then returnS False
      else if fc_class failure \<noteq> Infrastructure \<or> fc_kind failure \<notin> set (rp_retryable_failure_kinds p)
      then returnS False
      else bindS (list_attempts_for_work (wi_work_id item)) (\<lambda>attempts.
        if rp_maximum_attempts p \<le> next_retry_number attempts then returnS False
        else checked (elapsed_exceeded p now attempts) (\<lambda>exceeded.
          if exceeded then returnS False
          else bindS (schedule_retry now (wi_work_id item)
                 (Aware (now + timedelta_seconds (rp_backoff_seconds p))) (Some (Aware now))) (\<lambda>_.
               returnS True))))"

section \<open>Shared steps\<close>

text \<open>\<^verbatim>\<open>update_planned_trial\<close> and \<^verbatim>\<open>update_work_item\<close> with the same state, in one order or the other.\<close>

definition mark_trial_then_work :: "int \<Rightarrow> py_datetime option \<Rightarrow> uuid \<Rightarrow> trial_state \<Rightarrow> uuid \<Rightarrow> work_state \<Rightarrow> unit store_op" where
  "mark_trial_then_work clock now trial_id ts work_id ws =
     bindS (update_planned_trial clock trial_id ts now) (\<lambda>_.
     bindS (update_work_item clock work_id ws None now) (\<lambda>_. returnS ()))"

definition mark_work_then_trial :: "int \<Rightarrow> py_datetime option \<Rightarrow> uuid \<Rightarrow> trial_state \<Rightarrow> uuid \<Rightarrow> work_state \<Rightarrow> unit store_op" where
  "mark_work_then_trial clock now trial_id ts work_id ws =
     bindS (update_work_item clock work_id ws None now) (\<lambda>_.
     bindS (update_planned_trial clock trial_id ts now) (\<lambda>_. returnS ()))"

fun outcome_attempt :: "outcome_state \<Rightarrow> attempt_state" where
  "outcome_attempt Outcome_Succeeded = A_Succeeded"
| "outcome_attempt Outcome_Failed = A_Failed"
| "outcome_attempt Outcome_Unknown = A_Unknown"

fun outcome_trial :: "outcome_state \<Rightarrow> trial_state" where
  "outcome_trial Outcome_Succeeded = T_Succeeded"
| "outcome_trial Outcome_Failed = T_Failed"
| "outcome_trial Outcome_Unknown = T_Unknown"

fun outcome_work :: "outcome_state \<Rightarrow> work_state" where
  "outcome_work Outcome_Succeeded = W_Succeeded"
| "outcome_work Outcome_Failed = W_Failed"
| "outcome_work Outcome_Unknown = W_Unknown"

section \<open>Cancellation of active work\<close>

fun cancel_label :: "backend_cancel_status \<Rightarrow> string" where
  "cancel_label Cancel_Confirmed = ''confirmed''"
| "cancel_label Cancel_Rejected = ''rejected''"
| "cancel_label Cancel_Unsupported = ''unsupported''"
| "cancel_label Cancel_Unknown = ''unknown''"

fun cancel_status :: "backend_cancel_status \<Rightarrow> cancellation_status" where
  "cancel_status Cancel_Confirmed = C_Confirmed"
| "cancel_status Cancel_Rejected = C_Rejected"
| "cancel_status Cancel_Unsupported = C_Unsupported"
| "cancel_status Cancel_Unknown = C_Unknown"

text \<open>
  \<^verbatim>\<open>ExecutionBackendControl\<close>: the answer of a backend, or the text of the exception it raised. No entry
  means no backend of that name, or one without \<^verbatim>\<open>cancel\<close>.
\<close>

type_synonym cancel_call = "work_row \<Rightarrow> attempt_row \<Rightarrow> submission_row \<Rightarrow> string + backend_cancellation_result"
type_synonym reconcile_call = "work_row \<Rightarrow> attempt_row \<Rightarrow> submission_row \<Rightarrow> string + worker_outcome"

definition built_cancellation :: "backend_cancel_status \<Rightarrow> string \<Rightarrow> store_error + backend_cancellation_result" where
  "built_cancellation status message =
     bindE (guardE (\<not> py_blank message) (Value_Error ''value must not be blank'')) (\<lambda>_.
       Inr \<lparr>bc_status = status, bc_message = message\<rparr>)"

definition cancellation_result :: "(string \<Rightarrow> cancel_call option) \<Rightarrow> work_row \<Rightarrow> attempt_row \<Rightarrow> submission_row option
    \<Rightarrow> store_error + backend_cancellation_result" where
  "cancellation_result backends item attempt submission =
     (case submission of
        None \<Rightarrow> built_cancellation Cancel_Confirmed ''no external submission exists''
      | Some sub \<Rightarrow>
          (case backends (wi_backend item) of
             None \<Rightarrow> built_cancellation Cancel_Unsupported ''backend does not support cancellation''
           | Some cancel \<Rightarrow>
               (case cancel item attempt sub of
                  Inr result \<Rightarrow> Inr result
                | Inl text \<Rightarrow> built_cancellation Cancel_Unknown text)))"

definition last_option :: "'a list \<Rightarrow> 'a option" where
  "last_option xs = (if xs = [] then None else Some (last xs))"

definition record_cancellation :: "int \<Rightarrow> work_row \<Rightarrow> attempt_row \<Rightarrow> submission_row option
    \<Rightarrow> backend_cancellation_result \<Rightarrow> unit store_op" where
  "record_cancellation now item attempt submission result =
     (if bc_status result = Cancel_Confirmed then
        bindS (transition_attempt now (at_attempt_id attempt) A_Cancelled (Some (Aware now)) None None (Some C_Confirmed)) (\<lambda>_.
        bindS (case submission of
            None \<Rightarrow> returnS ()
          | Some s \<Rightarrow> bindS (transition_backend_submission now (su_submission_id s) S_Cancelled (Some (Aware now))
              (Some C_Confirmed) None) (\<lambda>_. returnS ())) (\<lambda>_.
        mark_work_then_trial now (Some (Aware now)) (wi_trial_id item) T_Cancelled (wi_work_id item) W_Cancelled))
      else
        bindS (transition_attempt now (at_attempt_id attempt) A_Unknown (Some (Aware now))
          (Some (unknown_failure (''cancellation '' @ cancel_label (bc_status result) @ '': '' @ bc_message result)))
          (Some R_Pending) (Some (cancel_status (bc_status result)))) (\<lambda>_.
        bindS (case submission of
            None \<Rightarrow> returnS ()
          | Some s \<Rightarrow> bindS (transition_backend_submission now (su_submission_id s) S_Unknown (Some (Aware now))
              (Some (cancel_status (bc_status result))) (Some R_Pending)) (\<lambda>_. returnS ())) (\<lambda>_.
        mark_work_then_trial now (Some (Aware now)) (wi_trial_id item) T_Unknown (wi_work_id item) W_Unknown)))"

text \<open>\<^verbatim>\<open>except (OperationalStoreError, StopIteration): pass\<close> around the release of the active lease.\<close>

definition release_active_lease :: "int \<Rightarrow> uuid \<Rightarrow> string \<Rightarrow> work_row \<Rightarrow> unit store_op" where
  "release_active_lease now run_id owner item =
     catchS (bindS (list_leases_for_run run_id) (\<lambda>leases.
       case find (\<lambda>l. le_work_id l = wi_work_id item \<and> le_state l = L_Active) leases of
         None \<Rightarrow> returnS ()
       | Some l \<Rightarrow> bindS (release_lease now (le_lease_id l) owner (Some (Aware now))) (\<lambda>_. returnS ())))
     is_store_error (\<lambda>_. returnS ())"

definition cancel_item :: "int \<Rightarrow> uuid \<Rightarrow> string \<Rightarrow> (string \<Rightarrow> cancel_call option) \<Rightarrow> work_row \<Rightarrow> int \<times> int
    \<Rightarrow> (int \<times> int) store_op" where
  "cancel_item now run_id owner backends item counts =
     (if wi_state item \<noteq> W_Cancel_Requested then returnS counts
      else bindS (list_attempts_for_work (wi_work_id item)) (\<lambda>attempts.
        case last_option attempts of
          None \<Rightarrow> returnS counts
        | Some attempt \<Rightarrow>
            bindS (list_backend_submissions (at_attempt_id attempt)) (\<lambda>submissions.
            checked (cancellation_result backends item attempt (last_option submissions)) (\<lambda>result.
            bindS (record_cancellation now item attempt (last_option submissions) result) (\<lambda>_.
            bindS (complete_plan_if_terminal now (wi_plan_id item) (wi_run_id item) (Some (Aware now))) (\<lambda>_.
            bindS (release_active_lease now run_id owner item) (\<lambda>_.
            returnS (if bc_status result = Cancel_Confirmed then (fst counts + 1, snd counts)
              else (fst counts, snd counts + 1)))))))))"

definition cancel_active :: "int \<Rightarrow> uuid \<Rightarrow> string \<Rightarrow> (string \<Rightarrow> cancel_call option) \<Rightarrow> scheduler_report store_op" where
  "cancel_active now run_id owner backends =
     bindS (request_cancellation now run_id None (Some (Aware now))) (\<lambda>run.
     bindS (list_work_items (rr_run_id run)) (\<lambda>items.
     bindS (foldS (cancel_item now (rr_run_id run) owner backends) items (0, 0)) (\<lambda>counts.
     readS (\<lambda>_. validate_report
       \<lparr>sr_leased = 0, sr_succeeded = 0, sr_failed = 0, sr_retried = 0, sr_cancelled = fst counts,
        sr_unknown = snd counts, sr_idle = True, sr_next_available_at = None\<rparr>))))"

section \<open>Reconciliation\<close>

text \<open>
  One item of \<^verbatim>\<open>reconcile_unknown\<close>; the counts are of retried and unknown items (the source's third
  count, of resolved items, is not reported).
\<close>

definition own_receipt :: "uuid \<Rightarrow> worker_outcome \<Rightarrow> attempt_receipt option" where
  "own_receipt attempt_id outcome = find (\<lambda>r. rc_attempt_id r = attempt_id) (wo_receipts outcome)"

text \<open>What is recorded once a backend has answered with a known state.\<close>

definition resolve_item :: "int \<Rightarrow> int \<Rightarrow> work_row \<Rightarrow> attempt_row \<Rightarrow> worker_outcome \<Rightarrow> int \<times> int \<Rightarrow> (int \<times> int) store_op" where
  "resolve_item clock now item attempt outcome counts =
     (let state = wo_terminal_state outcome;
          failure = Option.bind (own_receipt (at_attempt_id attempt) outcome) rc_failure in
      bindS (transition_attempt clock (at_attempt_id attempt) (outcome_attempt state) None failure
        (Some R_Reconciled) None) (\<lambda>_.
      bindS (mark_trial_then_work now (Some (Aware now)) (wi_trial_id item) (outcome_trial state)
        (wi_work_id item) (outcome_work state)) (\<lambda>_.
      bindS (case (state, wo_finalization outcome, failure) of
          (Outcome_Failed, None, Some f) \<Rightarrow> schedule_work_retry True now item f
        | _ \<Rightarrow> returnS False) (\<lambda>retried.
      if retried then returnS (fst counts + 1, snd counts)
      else bindS (complete_plan_if_terminal now (wi_plan_id item) (wi_run_id item) (Some (Aware now)))
        (\<lambda>_. returnS counts)))))"

definition reconcile_item :: "int \<Rightarrow> int \<Rightarrow> (string \<Rightarrow> reconcile_call option) \<Rightarrow> work_row \<Rightarrow> int \<times> int
    \<Rightarrow> (int \<times> int) store_op" where
  "reconcile_item clock now backends item counts =
     (if wi_state item \<noteq> W_Unknown then returnS counts
      else bindS (list_attempts_for_work (wi_work_id item)) (\<lambda>attempts.
      bindS (case last_option attempts of None \<Rightarrow> returnS [] | Some a \<Rightarrow> list_backend_submissions (at_attempt_id a)) (\<lambda>submissions.
        case (last_option attempts, last_option submissions, backends (wi_backend item)) of
          (Some attempt, Some submission, Some reconcile) \<Rightarrow>
            (case reconcile item attempt submission of
               Inl _ \<Rightarrow> returnS (fst counts, snd counts + 1)
             | Inr outcome \<Rightarrow>
                 if wo_terminal_state outcome = Outcome_Unknown then returnS (fst counts, snd counts + 1)
                 else resolve_item clock now item attempt outcome counts)
        | _ \<Rightarrow> returnS (fst counts, snd counts + 1))))"

definition reconcile_unknown :: "int \<Rightarrow> int \<Rightarrow> uuid \<Rightarrow> (string \<Rightarrow> reconcile_call option) \<Rightarrow> scheduler_report store_op" where
  "reconcile_unknown clock now run_id backends =
     bindS (list_work_items run_id) (\<lambda>items.
     bindS (foldS (reconcile_item clock now backends) items (0, 0)) (\<lambda>counts.
     readS (\<lambda>_. validate_report
       \<lparr>sr_leased = 0, sr_succeeded = 0, sr_failed = 0, sr_retried = fst counts, sr_cancelled = 0,
        sr_unknown = snd counts, sr_idle = True, sr_next_available_at = None\<rparr>)))"

section \<open>Dispatch\<close>

definition policy_caps :: "execution_policy \<Rightarrow> lease_limits" where
  "policy_caps p = \<lparr>ll_global = Some (ep_max_concurrency p), ll_run = ep_run_limits p,
     ll_backend = ep_backend_limits p, ll_provider_route = ep_provider_route_limits p,
     ll_model_route = ep_model_route_limits p, ll_resource_class = ep_resource_class_limits p,
     ll_execution_family = ep_execution_family_limits p\<rparr>"

definition lease_ttl :: "execution_policy \<Rightarrow> int" where
  "lease_ttl p = ep_lease_ttl_seconds p * 1000000"

text \<open>
  \<^verbatim>\<open>for _ in range(max_concurrency)\<close>: lease until the queue gives nothing. \<open>ids n\<close> is the fresh lease
  identity of the call with \<open>n\<close> calls to go.
\<close>

fun lease_batch :: "execution_policy \<Rightarrow> string \<Rightarrow> int \<Rightarrow> (nat \<Rightarrow> uuid) \<Rightarrow> nat \<Rightarrow> (work_row \<times> lease_row) list store_op" where
  "lease_batch p owner now ids 0 = returnS []"
| "lease_batch p owner now ids (Suc n) =
     bindS (lease_next_work_item (ids n) owner (Aware now) (lease_ttl p) (policy_caps p)
       (ep_priority_aging_seconds p) None) (\<lambda>selected.
     case selected of
       None \<Rightarrow> returnS []
     | Some x \<Rightarrow> bindS (lease_batch p owner now ids n) (\<lambda>xs. returnS (x # xs)))"

type_synonym running = "work_row \<times> attempt_row \<times> lease_row"

definition start_item :: "int \<Rightarrow> uuid \<Rightarrow> work_row \<times> lease_row \<Rightarrow> running store_op" where
  "start_item now fresh = (\<lambda>(item, lease).
     bindS (list_attempts_for_work (wi_work_id item)) (\<lambda>prior.
     bindS (create_attempt_for_lease now fresh (wi_work_id item) (wi_trial_id item) (le_lease_id lease) 1
       (next_retry_number prior) (Some (Aware now))) (\<lambda>attempt.
     bindS (update_work_item now (wi_work_id item) W_Running None (Some (Aware now))) (\<lambda>item'.
     bindS (update_planned_trial now (wi_trial_id item') T_Running (Some (Aware now))) (\<lambda>_.
     bindS (transition_attempt now (at_attempt_id attempt) A_Running (Some (Aware now)) None None None) (\<lambda>attempt'.
     returnS (item', attempt', lease)))))))"

text \<open>
  The runs and plans of the batch are marked (in the order of a Python set, here that of first
  appearance), then each item gets its attempt.
\<close>

definition start_batch :: "int \<Rightarrow> (nat \<Rightarrow> uuid) \<Rightarrow> (work_row \<times> lease_row) list \<Rightarrow> running list store_op" where
  "start_batch now ids leased =
     bindS (mapS (\<lambda>r. update_run now r Run_Running (Some (Aware now))) (remdups (map (\<lambda>x. wi_run_id (fst x)) leased))) (\<lambda>_.
     bindS (mapS (\<lambda>p. update_plan now p Plan_Started (Some (Aware now))) (remdups (map (\<lambda>x. wi_plan_id (fst x)) leased))) (\<lambda>_.
     mapS (\<lambda>(i, x). start_item now (ids i) x) (enumerate 0 leased)))"

record dispatch_counts =
  dc_succeeded :: int
  dc_failed :: int
  dc_retried :: int
  dc_unknown :: int

definition no_counts :: dispatch_counts where
  "no_counts = \<lparr>dc_succeeded = 0, dc_failed = 0, dc_retried = 0, dc_unknown = 0\<rparr>"

definition add_succeeded :: "int \<Rightarrow> dispatch_counts \<Rightarrow> dispatch_counts" where
  "add_succeeded k c = c\<lparr>dc_succeeded := dc_succeeded c + k\<rparr>"
definition add_failed :: "int \<Rightarrow> dispatch_counts \<Rightarrow> dispatch_counts" where
  "add_failed k c = c\<lparr>dc_failed := dc_failed c + k\<rparr>"
definition add_retried :: "int \<Rightarrow> dispatch_counts \<Rightarrow> dispatch_counts" where
  "add_retried k c = c\<lparr>dc_retried := dc_retried c + k\<rparr>"
definition add_unknown :: "int \<Rightarrow> dispatch_counts \<Rightarrow> dispatch_counts" where
  "add_unknown k c = c\<lparr>dc_unknown := dc_unknown c + k\<rparr>"

text \<open>What a worker did: it raised, or returned an outcome or something else (\<open>None\<close>).\<close>

datatype worker_result = Worker_Raised | Worker_Returned "worker_outcome option"

definition worker_lost :: "int \<Rightarrow> string \<Rightarrow> work_row \<Rightarrow> attempt_row \<Rightarrow> unit store_op" where
  "worker_lost clock message item attempt =
     bindS (transition_attempt clock (at_attempt_id attempt) A_Unknown None (Some (unknown_failure message))
       (Some R_Pending) None) (\<lambda>_.
     mark_trial_then_work clock None (wi_trial_id item) T_Unknown (wi_work_id item) W_Unknown)"

definition worker_raised :: "int \<Rightarrow> int \<Rightarrow> work_row \<Rightarrow> attempt_row \<Rightarrow> dispatch_counts \<Rightarrow> dispatch_counts store_op" where
  "worker_raised clock now item attempt c =
     bindS (get_attempt (at_attempt_id attempt)) (\<lambda>current.
     bindS (list_backend_submissions (at_attempt_id attempt)) (\<lambda>submissions.
     checked (failure_from_record current) (\<lambda>recorded.
     let has_submission = submissions \<noteq> [];
         failure = (case recorded of Some f \<Rightarrow> f
           | None \<Rightarrow> if has_submission then unknown_failure ''worker failed after backend submission''
               else infrastructure_failure Worker_Lost_Before_Submission ''worker failed before backend submission'');
         ended = (if at_state current = A_Failed then Outcome_Failed
           else if has_submission then Outcome_Unknown else Outcome_Failed) in
     bindS (transition_attempt clock (at_attempt_id attempt) (outcome_attempt ended) None (Some failure)
       (Some (if has_submission then R_Pending else R_Not_Required)) None) (\<lambda>_.
     bindS (mark_trial_then_work clock None (wi_trial_id item) (outcome_trial ended) (wi_work_id item)
       (outcome_work ended)) (\<lambda>_.
     if ended = Outcome_Unknown then returnS (add_unknown 1 c)
     else bindS (schedule_work_retry False now item failure) (\<lambda>retried.
       returnS (if retried then add_retried 1 c else add_failed 1 c)))))))"

definition worker_outcome_recorded :: "int \<Rightarrow> int \<Rightarrow> work_row \<Rightarrow> attempt_row \<Rightarrow> worker_outcome \<Rightarrow> dispatch_counts
    \<Rightarrow> dispatch_counts store_op" where
  "worker_outcome_recorded clock now item attempt outcome c =
     (let state = wo_terminal_state outcome;
          receipt = own_receipt (at_attempt_id attempt) outcome;
          failure = Option.bind receipt rc_failure;
          finalizes = (case wo_finalization outcome of None \<Rightarrow> True
            | Some z \<Rightarrow> fz_attempt_id z = at_attempt_id attempt) in
      bindS (case receipt of
          Some r \<Rightarrow> if finalizes then
              bindS (transition_attempt clock (at_attempt_id attempt) (outcome_attempt state) None failure
                (Some (rc_reconciliation_status r)) (Some (rc_cancellation_status r))) (\<lambda>_. returnS ())
            else returnS ()
        | None \<Rightarrow> returnS ()) (\<lambda>_.
      bindS (mark_trial_then_work clock None (wi_trial_id item) (outcome_trial state) (wi_work_id item)
        (outcome_work state)) (\<lambda>_.
      case state of
        Outcome_Succeeded \<Rightarrow> returnS (add_succeeded 1 c)
      | Outcome_Failed \<Rightarrow>
          bindS (case (wo_finalization outcome, failure) of
              (None, Some f) \<Rightarrow> schedule_work_retry False now item f
            | _ \<Rightarrow> returnS False) (\<lambda>retried.
          returnS (if retried then add_retried 1 c else add_failed 1 c))
      | Outcome_Unknown \<Rightarrow> returnS (add_unknown 1 c))))"

definition worker_finished :: "int \<Rightarrow> work_row \<Rightarrow> attempt_row \<Rightarrow> dispatch_counts \<Rightarrow> dispatch_counts store_op" where
  "worker_finished clock item attempt c =
     bindS (transition_attempt clock (at_attempt_id attempt) A_Succeeded None None None None) (\<lambda>_.
     bindS (mark_trial_then_work clock None (wi_trial_id item) T_Succeeded (wi_work_id item) W_Succeeded) (\<lambda>_.
     returnS (add_succeeded 1 c)))"

text \<open>The release after a result, and what the counts become when it fails.\<close>

definition release_failed :: "int \<Rightarrow> work_row \<Rightarrow> attempt_row \<Rightarrow> dispatch_counts \<Rightarrow> dispatch_counts store_op" where
  "release_failed clock item attempt c =
     bindS (get_work_item (wi_work_id item)) (\<lambda>current.
     let s = wi_state current;
         c1 = (if s = W_Succeeded then add_succeeded (-1) c
           else if s = W_Failed then add_failed (-1) c
           else if s = W_Queued then add_retried (-1) c else c);
         c2 = (if s \<noteq> W_Unknown then add_unknown 1 c1 else c1) in
     bindS (worker_lost clock ''lease release status is unknown'' item attempt) (\<lambda>_. returnS c2))"

definition release_after_result :: "int \<Rightarrow> string \<Rightarrow> running \<Rightarrow> dispatch_counts \<Rightarrow> dispatch_counts store_op" where
  "release_after_result clock owner = (\<lambda>(item, attempt, lease) c.
     catchS (bindS (release_lease clock (le_lease_id lease) owner None) (\<lambda>_. returnS c))
       is_store_error (\<lambda>_. release_failed clock item attempt c))"

definition record_result :: "int \<Rightarrow> int \<Rightarrow> work_row \<Rightarrow> attempt_row \<Rightarrow> worker_result \<Rightarrow> dispatch_counts
    \<Rightarrow> dispatch_counts store_op" where
  "record_result clock now item attempt result c =
     (case result of
        Worker_Raised \<Rightarrow> worker_raised clock now item attempt c
      | Worker_Returned (Some outcome) \<Rightarrow> worker_outcome_recorded clock now item attempt outcome c
      | Worker_Returned None \<Rightarrow> worker_finished clock item attempt c)"

text \<open>One completed future: the body of \<^verbatim>\<open>for future in done\<close>.\<close>

definition complete_future :: "int \<Rightarrow> int \<Rightarrow> string \<Rightarrow> uuid list \<Rightarrow> running \<Rightarrow> worker_result \<Rightarrow> dispatch_counts
    \<Rightarrow> dispatch_counts store_op" where
  "complete_future clock now owner lost r result c =
     (case r of (item, attempt, lease) \<Rightarrow>
      bindS (get_work_item (wi_work_id item)) (\<lambda>current.
      if wi_state current \<in> {W_Cancelled, W_Unknown} then
        bindS (catchS (bindS (release_lease clock (le_lease_id lease) owner None) (\<lambda>_. returnS ()))
          is_store_error (\<lambda>_. returnS ())) (\<lambda>_. returnS (if wi_state current = W_Unknown then add_unknown 1 c else c))
      else
        bindS (if le_lease_id lease \<in> set lost
          then bindS (worker_lost clock ''lease expired before worker completion'' item attempt) (\<lambda>_.
            returnS (add_unknown 1 c))
          else bindS (record_result clock now item attempt result c) (release_after_result clock owner r)) (\<lambda>c'.
        bindS (complete_plan_if_terminal clock (wi_plan_id item) (wi_run_id item) None) (\<lambda>_.
        returnS c'))))"

text \<open>
  One turn of the waiting loop: what other threads did to the store meanwhile, the futures that are done
  (by their index in the batch, with what their worker did), the clock in this turn and at its heartbeat.
\<close>

record dispatch_round =
  rd_env :: "store \<Rightarrow> store"
  rd_done :: "(nat \<times> worker_result) list"
  rd_clock :: int
  rd_heartbeat :: int

definition env_step :: "(store \<Rightarrow> store) \<Rightarrow> unit store_op" where
  "env_step f = (\<lambda>st. (Inr (), f st))"

definition heartbeat_one :: "execution_policy \<Rightarrow> string \<Rightarrow> int \<Rightarrow> running \<Rightarrow> uuid list \<Rightarrow> uuid list store_op" where
  "heartbeat_one p owner beat = (\<lambda>(item, attempt, lease) lost.
     if le_lease_id lease \<in> set lost then returnS lost
     else catchS (bindS (renew_lease (le_lease_id lease) owner (Aware beat) (lease_ttl p)) (\<lambda>_. returnS lost))
       is_store_error (\<lambda>_. returnS (le_lease_id lease # lost)))"

definition round_ok :: "nat list \<Rightarrow> dispatch_round \<Rightarrow> bool" where
  "round_ok pending rd \<longleftrightarrow> distinct (map fst (rd_done rd)) \<and> set (map fst (rd_done rd)) \<subseteq> set pending"

text \<open>
  \<^verbatim>\<open>while pending\<close>: one round after the other; \<open>None\<close> when the rounds given end before the workers do
  (or are not turns of this loop).
\<close>

fun dispatch_rounds :: "execution_policy \<Rightarrow> string \<Rightarrow> int \<Rightarrow> running list \<Rightarrow> dispatch_round list \<Rightarrow> nat list \<Rightarrow> uuid list
    \<Rightarrow> dispatch_counts \<Rightarrow> dispatch_counts option store_op" where
  "dispatch_rounds p owner now rs [] pending lost c = returnS (if pending = [] then Some c else None)"
| "dispatch_rounds p owner now rs (rd # rds) pending lost c =
     (if pending = [] then returnS (Some c)
      else if \<not> round_ok pending rd then returnS None
      else
        bindS (env_step (rd_env rd)) (\<lambda>_.
        bindS (foldS (\<lambda>(i, result) c'. complete_future (rd_clock rd) now owner lost (rs ! i) result c') (rd_done rd) c) (\<lambda>c'.
        let pending' = filter (\<lambda>i. i \<notin> set (map fst (rd_done rd))) pending in
        bindS (foldS (\<lambda>i. heartbeat_one p owner (rd_heartbeat rd) (rs ! i)) pending' lost) (\<lambda>lost'.
        dispatch_rounds p owner now rs rds pending' lost' c'))))"

definition dispatch_report :: "nat \<Rightarrow> dispatch_counts \<Rightarrow> scheduler_report" where
  "dispatch_report n c = \<lparr>sr_leased = int n, sr_succeeded = dc_succeeded c, sr_failed = dc_failed c,
     sr_retried = dc_retried c, sr_cancelled = 0, sr_unknown = dc_unknown c, sr_idle = False,
     sr_next_available_at = None\<rparr>"

text \<open>
  \<^verbatim>\<open>dispatch_once\<close>: \<open>lease_ids\<close> and \<open>attempt_ids\<close> are the fresh identities it draws; the result is \<open>None\<close>
  while workers are still running when the rounds end.
\<close>

definition dispatch_once :: "execution_policy \<Rightarrow> string \<Rightarrow> int \<Rightarrow> (nat \<Rightarrow> uuid) \<Rightarrow> (nat \<Rightarrow> uuid) \<Rightarrow> dispatch_round list
    \<Rightarrow> scheduler_report option store_op" where
  "dispatch_once p owner now lease_ids attempt_ids rounds =
     bindS (lease_batch p owner now lease_ids (nat (ep_max_concurrency p))) (\<lambda>leased.
     if leased = [] then
       bindS (next_available_at (Aware now) None) (\<lambda>t.
       checked (validate_report
         \<lparr>sr_leased = 0, sr_succeeded = 0, sr_failed = 0, sr_retried = 0, sr_cancelled = 0, sr_unknown = 0,
          sr_idle = True, sr_next_available_at = t\<rparr>) (\<lambda>r. returnS (Some r)))
     else
       bindS (start_batch now attempt_ids leased) (\<lambda>rs.
       bindS (dispatch_rounds p owner now rs rounds [0..<length rs] [] no_counts) (\<lambda>counts.
       case counts of
         None \<Rightarrow> returnS None
       | Some c \<Rightarrow> checked (validate_report (dispatch_report (length leased) c)) (\<lambda>r. returnS (Some r)))))"

section \<open>The store as the scheduler sees it\<close>

lemma preserves_case_outcome:
  "preserves I a \<Longrightarrow> preserves I b \<Longrightarrow> preserves I d \<Longrightarrow>
    preserves I (case s of Outcome_Succeeded \<Rightarrow> a | Outcome_Failed \<Rightarrow> b | Outcome_Unknown \<Rightarrow> d)"
  by (cases s) simp_all

lemma preserves_case_result:
  "preserves I a \<Longrightarrow> (\<And>x. preserves I (b x)) \<Longrightarrow>
    preserves I (case s of Worker_Raised \<Rightarrow> a | Worker_Returned x \<Rightarrow> b x)"
  by (cases s) simp_all

text \<open>
  The interface on which the scheduler rests: the calls it makes on the store, each of which keeps an
  invariant \<open>I\<close> of the store, leasing under the caps that \<open>C\<close> allows. Every pass of the scheduler then
  keeps \<open>I\<close>, whatever the backends, the workers and the clock do, as long as the other threads keep it too.
\<close>

locale scheduler_store =
  fixes I :: "store \<Rightarrow> bool" and C :: "lease_limits \<Rightarrow> bool"
  assumes lease_next_I: "C caps \<Longrightarrow> preserves I (lease_next_work_item f own now ttl caps g l)"
    and update_run_I: "preserves I (update_run c r s n)"
    and update_plan_I: "preserves I (update_plan c p ps n)"
    and create_attempt_I: "preserves I (create_attempt_for_lease c f w t lid ci rn n)"
    and update_work_I: "preserves I (update_work_item c w ws oa n)"
    and update_trial_I: "preserves I (update_planned_trial c t ts n)"
    and transition_attempt_I: "preserves I (transition_attempt c i as n fl re ca)"
    and transition_submission_I: "preserves I (transition_backend_submission c i ss n ca re)"
    and schedule_retry_I: "preserves I (schedule_retry c w av n)"
    and release_I: "preserves I (release_lease c lid own n)"
    and renew_I: "preserves I (renew_lease lid own now ttl)"
    and complete_I: "preserves I (complete_plan_if_terminal c p r n)"
    and cancel_I: "preserves I (request_cancellation c r ot n)"
begin

lemmas call_I = update_run_I update_plan_I create_attempt_I update_work_I update_trial_I
  transition_attempt_I transition_submission_I schedule_retry_I release_I renew_I complete_I cancel_I

lemma reads_I: "preserves I (list_attempts_for_work w)" "preserves I (list_backend_submissions a)"
  "preserves I (list_work_items r)" "preserves I (list_leases_for_run r)" "preserves I (get_work_item w)"
  "preserves I (get_attempt a)" "preserves I (next_available_at t r')"
  by (simp_all add: list_attempts_for_work_def list_backend_submissions_def list_work_items_def
      list_leases_for_run_def get_work_item_def get_attempt_def next_available_at_def listing_def preserves_readS)

lemma retry_I: "preserves I (schedule_work_retry u now item f)"
  unfolding schedule_work_retry_def by (intro preserve_intros call_I reads_I)

lemma marks_I: "preserves I (mark_trial_then_work c n t ts w ws)" "preserves I (mark_work_then_trial c n t ts w ws)"
  unfolding mark_trial_then_work_def mark_work_then_trial_def by (intro preserve_intros call_I)+

lemma cancel_item_I: "preserves I (cancel_item now r own b item counts)"
  unfolding cancel_item_def record_cancellation_def release_active_lease_def
  by (intro preserve_intros call_I reads_I marks_I)

lemma cancel_active_I: "preserves I (cancel_active now r own b)"
  unfolding cancel_active_def by (intro preserve_intros call_I reads_I cancel_item_I)

lemma reconcile_item_I: "preserves I (reconcile_item c now b item counts)"
  unfolding reconcile_item_def resolve_item_def
  by (intro preserve_intros preserves_case_outcome call_I reads_I marks_I retry_I)

lemma reconcile_I: "preserves I (reconcile_unknown c now r b)"
  unfolding reconcile_unknown_def by (intro preserve_intros reads_I reconcile_item_I)

lemma lease_batch_I:
  assumes "C (policy_caps p)"
  shows "preserves I (lease_batch p own now ids n)"
proof (induction n)
  case 0
  show ?case by (simp only: lease_batch.simps preserves_returnS)
next
  case (Suc n)
  show ?case by (simp only: lease_batch.simps) (intro preserve_intros lease_next_I assms Suc.IH)
qed

lemma start_batch_I: "preserves I (start_batch now ids leased)"
  unfolding start_batch_def start_item_def by (intro preserve_intros call_I reads_I)

lemma worker_lost_I: "preserves I (worker_lost c m item a)"
  unfolding worker_lost_def by (intro preserve_intros call_I marks_I)

lemma record_result_I: "preserves I (record_result c now item a res n)"
  unfolding record_result_def worker_raised_def worker_outcome_recorded_def worker_finished_def
  by (intro preserve_intros preserves_case_outcome preserves_case_result call_I reads_I marks_I retry_I)

lemma release_after_I: "preserves I (release_after_result c own r n)"
  by (cases r)
    (simp only: release_after_result_def release_failed_def prod.case,
      intro preserve_intros call_I reads_I worker_lost_I)

lemma complete_future_I: "preserves I (complete_future c now own lost r res n)"
  unfolding complete_future_def
  by (intro preserve_intros call_I reads_I worker_lost_I record_result_I release_after_I)

lemma complete_done_I:
  "preserves I ((case x of (i, res) \<Rightarrow> \<lambda>co. complete_future c now own lost (rs ! i) res co) acc)"
  by (cases x) (simp only: prod.case complete_future_I)

lemma heartbeat_I: "preserves I (heartbeat_one p own b r lost)"
  by (cases r) (simp only: heartbeat_one_def prod.case, intro preserve_intros call_I)

lemma env_step_I: "(\<And>st. I st \<Longrightarrow> I (f st)) \<Longrightarrow> preserves I (env_step f)"
  by (simp add: env_step_def preserves_def)

lemma dispatch_rounds_I:
  assumes "\<And>rd st. rd \<in> set rounds \<Longrightarrow> I st \<Longrightarrow> I (rd_env rd st)"
  shows "preserves I (dispatch_rounds p own now rs rounds pending lost c)"
  using assms
proof (induction rounds arbitrary: pending lost c)
  case Nil
  show ?case by (simp only: dispatch_rounds.simps preserves_returnS)
next
  case (Cons rd rds)
  have "preserves I (env_step (rd_env rd))" by (rule env_step_I) (simp add: Cons.prems)
  moreover have "preserves I (dispatch_rounds p own now rs rds pe lo co)" for pe lo co
    using Cons.prems by (intro Cons.IH) auto
  ultimately show ?case
    by (simp only: dispatch_rounds.simps) (intro preserve_intros complete_done_I complete_future_I heartbeat_I)
qed

lemma dispatch_once_I:
  assumes "C (policy_caps p)" and "\<And>rd st. rd \<in> set rounds \<Longrightarrow> I st \<Longrightarrow> I (rd_env rd st)"
  shows "preserves I (dispatch_once p own now lids aids rounds)"
  unfolding dispatch_once_def
  by (intro preserve_intros lease_batch_I start_batch_I reads_I dispatch_rounds_I assms)

end

text \<open>
  The operational store provides the interface for its own invariant, for reachability, for the persistence
  of a run's cancellation and, when all leasing is under the same caps, for the caps.
\<close>

lemma store_step_preserves:
  "(\<And>st. I st \<Longrightarrow> store_step st (snd (m st))) \<Longrightarrow> (\<And>st st'. store_step st st' \<Longrightarrow> I st \<Longrightarrow> I st') \<Longrightarrow> preserves I m"
  unfolding preserves_def by blast

interpretation store_scheduler: scheduler_store store_inv "\<lambda>_. True"
  by unfold_locales (rule preserve_intros)+

interpretation reachable_scheduler: scheduler_store reachable "\<lambda>_. True"
  by unfold_locales (rule store_step_preserves, rule store_step.intros, erule (1) reachable.Step [rotated])+

interpretation cancelled_scheduler: scheduler_store "cancel_flag k" "\<lambda>_. True" for k
  by unfold_locales (rule store_step_preserves, rule store_step.intros, erule (1) store_step_cancel_flag)+

interpretation caps_scheduler: scheduler_store "\<lambda>st. store_inv st \<and> within_caps caps st" "\<lambda>c. c = caps" for caps
  by unfold_locales
    (simp_all only: lease_next_within_caps, (intro preserves_within_caps never_adds_methods preserve_intros; assumption)+)

end
