(* ===== verification/Scheduler_Passes.thy ===== *)
theory Scheduler_Passes
  imports Scheduler
begin

text \<open>
  What a pass of the scheduler does to the store as a whole: it stays within the reachable stores and within
  the concurrency caps of the policy, it leases only work of runs that are not being cancelled, and its
  report accounts for every worker.
\<close>

section \<open>Invariants of a pass\<close>

lemma store_steps_reachable: "store_steps st st' \<Longrightarrow> reachable st \<Longrightarrow> reachable st'"
  by (induction rule: store_steps.induct) (auto intro: reachable.Step)


definition demo_policy :: execution_policy where
  "demo_policy = default_execution_policy 2"

definition demo_round :: dispatch_round where
  "demo_round = \<lparr>rd_env = (\<lambda>st. st), rd_done = [(0, Worker_Returned None)], rd_clock = 60, rd_heartbeat = 60\<rparr>"



lemma demo_store_caps: "within_caps (policy_caps demo_policy) demo_store"
proof -
  have "active_on q demo_store \<le> 2" for q
    by (simp add: active_on_def demo_defs is_active_def)
  then show ?thesis
    unfolding within_caps_def
    by (auto elim!: cap_of.cases simp: policy_caps_def demo_policy_def default_execution_policy_def)
qed


section \<open>The batch of a pass\<close>

lemma live_lease_kept:
  assumes "store_inv st" "m \<in> set (st_leases st)" "t < le_expires_at m"
  shows "m \<in> set (st_leases (expire_all t r st))"
  using assms(2,3) unfolding expire_all_leases [OF store_inv_leases [OF assms(1)]] set_update_rows
  by (force simp: is_expired_def)

lemma cancel_flag_not_granted:
  assumes "lease_next_work_item f own now ttl caps g lid st = (Inr (Some (w, l)), st')" "store_inv st"
    and "cancel_flag r st"
  shows "wi_run_id w \<noteq> r"
proof -
  let ?st1 = "expire_all (instant now) None st"
  have inv: "store_inv ?st1" using assms(2) by (rule expire_all_inv)
  obtain x k where x: "leased_from ?st1 caps g (instant now) x" "w = x\<lparr>wi_state := W_Leased, wi_updated_at := instant now\<rparr>"
    using lease_next_Some [OF assms(1,2)] by blast
  then have "x \<in> set (queue_candidates (instant now) g ?st1)"
    using select_candidate_Some unfolding leased_from_def by blast
  then show ?thesis
    using cancel_flag_not_eligible [OF _ inv] assms(3) x(2) by (auto simp: set_queue_candidates)
qed

lemma lease_next_granted:
  assumes "lease_next_work_item f own now ttl caps g lid st = (Inr (Some (w, l)), st')" "store_inv st"
  shows "l \<in> set (st_leases st')" "is_active l" "le_owner l = own" "le_work_id l = wi_work_id w"
    "le_expires_at l = instant now + ttl" "0 < ttl" "wi_state w = W_Leased"
    "m \<in> set (st_leases st) \<Longrightarrow> is_active m \<Longrightarrow> instant now < le_expires_at m
      \<Longrightarrow> m \<in> set (st_leases st') \<and> le_work_id m \<noteq> le_work_id l"
proof -
  let ?st1 = "expire_all (instant now) None st"
  obtain c k where c: "w = c\<lparr>wi_state := W_Leased, wi_updated_at := instant now\<rparr>"
    and l: "l = new_lease k (wi_work_id c) own (instant now) (instant now + ttl)"
    and leases: "st_leases st' = st_leases ?st1 @ [l]"
    and free: "\<not> list_ex (\<lambda>m. le_work_id m = wi_work_id c \<and> is_active m) (st_leases ?st1)"
    using lease_next_Some [OF assms] by blast
  show "l \<in> set (st_leases st')" "is_active l" "le_owner l = own" "le_work_id l = wi_work_id w"
    "le_expires_at l = instant now + ttl" "wi_state w = W_Leased"
    by (simp_all add: leases l c new_lease_def is_active_def)
  show "0 < ttl" using assms(1) unfolding lease_next_work_item_def
    by (cases now) (auto simp: checked_Inr_iff err_iffs)
  assume m: "m \<in> set (st_leases st)" "is_active m" "instant now < le_expires_at m"
  have "m \<in> set (st_leases ?st1)" using live_lease_kept [OF assms(2) m(1,3)] .
  then show "m \<in> set (st_leases st') \<and> le_work_id m \<noteq> le_work_id l"
    using free m(2) by (auto simp: leases l list_ex_iff new_lease_def)
qed

text \<open>The last call of a batch, which finds nothing, keeps the live leases too.\<close>

lemma lease_next_none_live:
  assumes "lease_next_work_item f own now ttl caps g lid st = (Inr None, st')" "store_inv st"
    and "m \<in> set (st_leases st)" "instant now < le_expires_at m"
  shows "m \<in> set (st_leases st')"
  using lease_next_None [OF assms(1)] live_lease_kept [OF assms(2-4)] by simp

text \<open>
  What a batch is: different work items, each marked as leased under a live lease of the owner that is in the
  store, of runs that are not being cancelled, and none that was already leased.
\<close>

definition granted :: "string \<Rightarrow> int \<Rightarrow> store \<Rightarrow> store \<Rightarrow> work_row \<times> lease_row \<Rightarrow> bool" where
  "granted own now st st' = (\<lambda>(w, l). l \<in> set (st_leases st') \<and> is_active l \<and> le_owner l = own
     \<and> le_work_id l = wi_work_id w \<and> now < le_expires_at l \<and> wi_state w = W_Leased
     \<and> \<not> cancel_flag (wi_run_id w) st)"

definition live_kept :: "int \<Rightarrow> store \<Rightarrow> store \<Rightarrow> (work_row \<times> lease_row) list \<Rightarrow> bool" where
  "live_kept now st st' xs \<longleftrightarrow> (\<forall>m\<in>set (st_leases st). is_active m \<and> now < le_expires_at m \<longrightarrow>
     m \<in> set (st_leases st') \<and> (\<forall>x\<in>set xs. wi_work_id (fst x) \<noteq> le_work_id m))"

lemma lease_batch_granted:
  assumes "lease_batch p own now ids n st = (Inr xs, st')" "store_inv st"
  shows "length xs \<le> n \<and> distinct (map (\<lambda>x. wi_work_id (fst x)) xs) \<and> (\<forall>x\<in>set xs. granted own now st st' x)
    \<and> live_kept now st st' xs"
  using assms
proof (induction n arbitrary: st xs)
  case 0
  then show ?case by (simp add: live_kept_def)
next
  case (Suc n)
  obtain y st1 where y: "lease_next_work_item (ids n) own (Aware now) (lease_ttl p) (policy_caps p)
      (ep_priority_aging_seconds p) None st = (Inr y, st1)"
    and rest: "(case y of None \<Rightarrow> returnS [] | Some x \<Rightarrow> bindS (lease_batch p own now ids n) (\<lambda>xs. returnS (x # xs))) st1
      = (Inr xs, st')"
    using Suc.prems(1) by (auto simp: bindS_eq_Inr_iff)
  show ?case
  proof (cases y)
    case None
    then show ?thesis
      using rest lease_next_none_live [OF y [unfolded None] Suc.prems(2)] by (simp add: live_kept_def)
  next
    case (Some x)
    obtain w l where x: "x = (w, l)" by fastforce
    note g = lease_next_granted [OF y [unfolded Some x] Suc.prems(2), simplified]
    obtain ys where ys: "lease_batch p own now ids n st1 = (Inr ys, st')" "xs = (w, l) # ys"
      using rest Some x by (auto simp: bindS_eq_Inr_iff)
    have inv1: "store_inv st1" using preservesE [OF lease_next_inv Suc.prems(2) y] .
    note IH = Suc.IH [OF ys(1) inv1]
    have "cancel_flag k st \<Longrightarrow> cancel_flag k st1" for k
      using preservesE [OF cancelled_scheduler.lease_next_I [OF TrueI] _ y] .
    then have "\<forall>x\<in>set ys. granted own now st st' x" using IH by (auto simp: granted_def)
    moreover have kept: "l \<in> set (st_leases st') \<and> (\<forall>x\<in>set ys. wi_work_id (fst x) \<noteq> le_work_id l)"
      using IH g(1,2,5,6) by (simp add: live_kept_def)
    moreover have "granted own now st st' (w, l)"
      using kept g(2-7) cancel_flag_not_granted [OF y [unfolded Some x] Suc.prems(2)]
      by (auto simp: granted_def)
    moreover have "live_kept now st st' ys \<and> (\<forall>m\<in>set (st_leases st). is_active m \<and> now < le_expires_at m \<longrightarrow>
        le_work_id m \<noteq> wi_work_id w)"
      using g(4,8) IH by (simp add: live_kept_def)
    ultimately show ?thesis using IH ys(2) g(4) by (auto simp: live_kept_def)
  qed
qed

text \<open>
  The batch of a dispatch pass: at most \<^verbatim>\<open>max_concurrency\<close> items, all different, each in state leased under
  a lease of this owner that is active and unexpired when the batch is complete; none belongs to a run whose
  cancellation was requested before the pass, and none was leased by another scheduler whose lease is live.
\<close>

theorem dispatch_batch_exclusive:
  assumes "lease_batch p own now ids (nat (ep_max_concurrency p)) st = (Inr xs, st')" and "store_inv st"
    and "0 < ep_max_concurrency p"
  shows "int (length xs) \<le> ep_max_concurrency p \<and> distinct (map (\<lambda>(w, l). wi_work_id w) xs)
    \<and> (\<forall>(w, l)\<in>set xs. wi_state w = W_Leased \<and> \<not> cancel_flag (wi_run_id w) st
        \<and> l \<in> set (st_leases st') \<and> is_active l \<and> le_owner l = own \<and> le_work_id l = wi_work_id w \<and> now < le_expires_at l)
    \<and> (\<forall>m\<in>set (st_leases st). is_active m \<and> now < le_expires_at m \<longrightarrow>
        m \<in> set (st_leases st') \<and> le_work_id m \<notin> wi_work_id ` fst ` set xs)"
proof -
  have eq: "(\<lambda>(w::work_row, l::lease_row). wi_work_id w) = (\<lambda>x. wi_work_id (fst x))" by (simp add: fun_eq_iff)
  note batch = lease_batch_granted [OF assms(1,2)]
  have "int (length xs) \<le> ep_max_concurrency p" using batch assms(3) by linarith
  moreover have "\<forall>(w, l)\<in>set xs. wi_state w = W_Leased \<and> \<not> cancel_flag (wi_run_id w) st
      \<and> l \<in> set (st_leases st') \<and> is_active l \<and> le_owner l = own \<and> le_work_id l = wi_work_id w \<and> now < le_expires_at l"
    using batch by (auto simp: granted_def)
  moreover have "\<forall>m\<in>set (st_leases st). is_active m \<and> now < le_expires_at m \<longrightarrow>
      m \<in> set (st_leases st') \<and> le_work_id m \<notin> wi_work_id ` fst ` set xs"
    using batch unfolding live_kept_def by fastforce
  ultimately show ?thesis unfolding eq using batch by blast
qed

definition demo_batch_lease :: lease_row where
  "demo_batch_lease = new_lease (demo_id 10) (demo_id 5) ''worker-b'' 50 300000050"

definition demo_batch_store :: store where
  "demo_batch_store = demo_store\<lparr>st_work := [demo_leased, demo_work 6 ''w/b'' 4 2 W_Running],
     st_leases := [demo_lease, demo_batch_lease]\<rparr>"

lemmas demo_lease_eval = lease_next_work_item_def demo_eval demo_defs check_lease_limits_def checked_limits_def
  lease_next_txn_def expire_all_def expired_leases_def is_expired_def is_active_def queue_candidates_def
  queue_eligible_def active_rows_def under_limits_def under_limit_def count_values_def global_reached_def
  mark_leased_def demo_leased_def policy_caps_def demo_policy_def default_execution_policy_def lease_ttl_def

lemma demo_batch_first: "lease_next_work_item (demo_id 10) ''worker-b'' (Aware 50) (lease_ttl demo_policy)
     (policy_caps demo_policy) (ep_priority_aging_seconds demo_policy) None demo_store
   = (Inr (Some (demo_leased, demo_batch_lease)), demo_batch_store)"
  by (simp add: demo_lease_eval demo_batch_store_def demo_batch_lease_def)

lemma demo_batch_second: "lease_next_work_item (demo_id 10) ''worker-b'' (Aware 50) (lease_ttl demo_policy)
     (policy_caps demo_policy) (ep_priority_aging_seconds demo_policy) None demo_batch_store = (Inr None, demo_batch_store)"
  by (simp add: demo_lease_eval demo_batch_store_def demo_batch_lease_def)

lemma demo_batch: "lease_batch demo_policy ''worker-b'' 50 (\<lambda>_. demo_id 10) (nat (ep_max_concurrency demo_policy)) demo_store
    = (Inr [(demo_leased, demo_batch_lease)], demo_batch_store)"
proof -
  have two: "nat (ep_max_concurrency demo_policy) = Suc (Suc 0)"
    by (simp add: demo_policy_def default_execution_policy_def)
  show ?thesis unfolding two by (simp add: bindS_apply demo_batch_first demo_batch_second)
qed

theorem dispatch_batch_exclusive_witness:
  "le_work_id demo_lease \<notin> wi_work_id ` fst ` {(demo_leased, demo_batch_lease)} \<and> demo_lease \<in> set (st_leases demo_batch_store)"
proof -
  have "demo_lease \<in> set (st_leases demo_store)" "is_active demo_lease" "50 < le_expires_at demo_lease"
    "0 < ep_max_concurrency demo_policy"
    by (simp_all add: demo_store_def demo_lease_def new_lease_def is_active_def demo_policy_def default_execution_policy_def)
  with dispatch_batch_exclusive [OF demo_batch demo_store_inv] show ?thesis by simp
qed

end
