(* ===== verification/Scheduler_Results.thy ===== *)
theory Scheduler_Results
  imports Scheduler_Passes
begin

text \<open>
  What the scheduler makes of results: retries within the policy of the work item, the counts of a pass,
  unknown work left alone until its state is known, and two places where the code falls short.
\<close>

section \<open>Retries\<close>

lemma fold_max_ge: "(a::int) \<le> fold max xs a \<and> (\<forall>x\<in>set xs. x \<le> fold max xs a)"
proof (induction xs arbitrary: a)
  case (Cons y xs)
  from Cons.IH [of "max y a"] show ?case by (auto simp: max.commute)
qed simp

lemma next_retry_number_gt: "a \<in> set as \<Longrightarrow> at_retry_number a < next_retry_number as"
  using fold_max_ge [of "-1" "map at_retry_number as"] by (fastforce simp: next_retry_number_def)

lemma next_retry_number_nonneg: "0 \<le> next_retry_number as"
  using fold_max_ge [of "-1" "map at_retry_number as"] by (simp add: next_retry_number_def)

lemma fold_min_le: "fold min xs a \<le> (a::int) \<and> (\<forall>x\<in>set xs. fold min xs a \<le> x)"
proof (induction xs arbitrary: a)
  case (Cons y xs)
  from Cons.IH [of "min y a"] show ?case by (auto simp: min.commute)
qed simp

lemma minimum_time_le: "minimum_time ts = Some t \<Longrightarrow> x \<in> set ts \<Longrightarrow> t \<le> x"
  using fold_min_le by (cases ts) (auto simp: minimum_time_def)

lemma list_attempts_for_work_Inr:
  assumes "list_attempts_for_work w st = (Inr as, s')"
  shows "s' = st \<and> set as = {a \<in> set (st_attempts st). at_work_id a = w}"
  using assms by (auto simp: list_attempts_for_work_def listing_def err_iffs)

lemma elapsed_exceeded_False:
  assumes "elapsed_exceeded p now as = Inr False" "rp_maximum_elapsed_seconds p = Some m" "a \<in> set as"
  shows "of_int (now + timedelta_seconds (rp_backoff_seconds p) - at_created_at a) / 1000000 \<le> m"
proof -
  obtain t where t: "minimum_time (map at_created_at as) = Some t"
    "of_int (now + timedelta_seconds (rp_backoff_seconds p) - t) / 1000000 \<le> m"
    using assms(1,2) by (auto simp: elapsed_exceeded_def not_less split: option.splits)
  have "t \<le> at_created_at a" using minimum_time_le [OF t(1)] assms(3) by simp
  then have "of_int (now + timedelta_seconds (rp_backoff_seconds p) - at_created_at a) / (1000000::rat)
      \<le> of_int (now + timedelta_seconds (rp_backoff_seconds p) - t) / 1000000" by (simp add: divide_right_mono)
  then show ?thesis using t(2) by (rule order_trans)
qed

lemma schedule_retry_Inr:
  assumes "schedule_retry c w av n st = (Inr v, st')"
  shows "\<exists>u r. the_work w st = Some u \<and> the_run (wi_run_id u) st = Some r \<and> rr_cancellation_requested_at r = None
    \<and> v = (if wi_state u \<in> {W_Failed, W_Unknown, W_Cancel_Requested}
        then u\<lparr>wi_state := W_Queued, wi_updated_at := (case n of None \<Rightarrow> c | Some t \<Rightarrow> instant t), wi_available_at := instant av\<rparr>
        else u) \<and> the_work w st' = Some v \<and> st_leases st' = st_leases st \<and> st_attempts st' = st_attempts st"
proof -
  obtain stamp available where args: "now_or_clock c n = Inr stamp" "av = Aware available"
    and run: "schedule_retry_txn w available stamp st = Inr (v, st')"
    using assms unfolding schedule_retry_def
    by (cases av) (auto simp: checked_Inr_iff write_txn_Inr_iff err_iffs)
  have stamp: "stamp = (case n of None \<Rightarrow> c | Some t \<Rightarrow> instant t)"
    using args(1) by (cases n rule: option.exhaust; cases "the n") (auto simp: now_or_clock_def)
  obtain u r where u: "the_work w st = Some u" "the_run (wi_run_id u) st = Some r" "rr_cancellation_requested_at r = None"
    using run by (auto simp: schedule_retry_txn_def txn_iffs Let_def)
  have "wi_work_id u = w" using find_row_Some_key [OF u(1)] by simp
  then show ?thesis using run u args(2) stamp
    by (auto simp: schedule_retry_txn_def txn_iffs Let_def find_row_update)
qed

text \<open>
  C16. A retry is only scheduled within the policy of the work item: the failure is an infrastructure failure
  of a kind the policy lists; after an unknown state the policy does not forbid it; every attempt made so far
  leaves room below the maximum number of attempts, and the retry would start within the maximum time since
  each of them; the run is not being cancelled. A failed item is then queued again, available after the
  back-off, and no attempt or lease is touched.
\<close>

theorem retry_within_policy:
  assumes "schedule_work_retry after_unknown now item f st = (Inr True, st')"
  defines "p \<equiv> wi_retry_policy item"
  shows "fc_class f = Infrastructure \<and> fc_kind f \<in> set (rp_retryable_failure_kinds p)
    \<and> (after_unknown \<longrightarrow> rp_unknown_state_policy p \<noteq> Never_Retry)
    \<and> (\<forall>a\<in>set (st_attempts st). at_work_id a = wi_work_id item \<longrightarrow> at_retry_number a + 1 < rp_maximum_attempts p
        \<and> (\<forall>m. rp_maximum_elapsed_seconds p = Some m \<longrightarrow>
             of_int (now + timedelta_seconds (rp_backoff_seconds p) - at_created_at a) / 1000000 \<le> m))
    \<and> (\<exists>u r. the_work (wi_work_id item) st = Some u \<and> the_run (wi_run_id u) st = Some r
        \<and> rr_cancellation_requested_at r = None
        \<and> (wi_state u = W_Failed \<longrightarrow> the_work (wi_work_id item) st' = Some (u\<lparr>wi_state := W_Queued,
             wi_updated_at := now, wi_available_at := now + timedelta_seconds (rp_backoff_seconds p)\<rparr>)))
    \<and> st_leases st' = st_leases st \<and> st_attempts st' = st_attempts st"
proof -
  obtain as s where as: "list_attempts_for_work (wi_work_id item) st = (Inr as, s)"
    and pol: "fc_class f = Infrastructure" "fc_kind f \<in> set (rp_retryable_failure_kinds p)"
      "after_unknown \<longrightarrow> rp_unknown_state_policy p \<noteq> Never_Retry"
    and room: "next_retry_number as < rp_maximum_attempts p" and time: "elapsed_exceeded p now as = Inr False"
    and retry: "\<exists>v. schedule_retry now (wi_work_id item) (Aware (now + timedelta_seconds (rp_backoff_seconds p)))
      (Some (Aware now)) s = (Inr v, st')"
    using assms(1) unfolding schedule_work_retry_def Let_def p_def [symmetric]
    by (auto simp: bindS_eq_Inr_iff checked_Inr_iff not_le split: if_splits)
  have s: "s = st" using list_attempts_for_work_Inr [OF as] by simp
  have set: "set as = {a \<in> set (st_attempts st). at_work_id a = wi_work_id item}"
    using list_attempts_for_work_Inr [OF as] by blast
  have "at_retry_number a + 1 < rp_maximum_attempts p" if "a \<in> set as" for a
    using next_retry_number_gt [OF that] room by linarith
  moreover obtain v where "schedule_retry now (wi_work_id item) (Aware (now + timedelta_seconds (rp_backoff_seconds p)))
      (Some (Aware now)) st = (Inr v, st')" using retry unfolding s by blast
  note schedule_retry_Inr [OF this, simplified]
  ultimately show ?thesis using pol set elapsed_exceeded_False [OF time] by auto
qed

section \<open>The counts of a pass\<close>

text \<open>Which count a work item left in a state adds to.\<close>

definition recorded :: "work_state \<Rightarrow> dispatch_counts \<Rightarrow> dispatch_counts \<Rightarrow> bool" where
  "recorded s c c' \<longleftrightarrow> (s = W_Succeeded \<and> c' = add_succeeded 1 c) \<or> (s = W_Failed \<and> c' = add_failed 1 c)
     \<or> (s = W_Queued \<and> c' = add_retried 1 c) \<or> (s = W_Unknown \<and> c' = add_unknown 1 c)"

lemma update_work_item_Inr:
  assumes "update_work_item c w s None n st = (Inr v, st')"
  shows "the_work w st' = Some v \<and> wi_state v = s \<and> wi_work_id v = w"
proof -
  obtain stamp u where u: "the_work w st = Some u"
    and run: "update_work_item_txn w s None stamp st = Inr (v, st')"
    using assms unfolding update_work_item_def
    by (auto simp: checked_Inr_iff write_txn_Inr_iff err_iffs update_work_item_txn_def Let_def)
  then show ?thesis using find_row_Some_key [OF u]
    by (auto simp: update_work_item_txn_def txn_iffs Let_def find_row_update)
qed

lemma mark_trial_then_work_Inr:
  assumes "mark_trial_then_work c n t ts w ws st = (Inr u, st')"
  shows "\<exists>v. the_work w st' = Some v \<and> wi_state v = ws"
  using assms update_work_item_Inr unfolding mark_trial_then_work_def by (fastforce simp: bindS_eq_Inr_iff)

lemma schedule_work_retry_state:
  assumes "schedule_work_retry u now item f st = (Inr b, st')"
    and "the_work (wi_work_id item) st = Some w" "wi_state w = W_Failed"
  shows "\<exists>v. the_work (wi_work_id item) st' = Some v \<and> wi_state v = (if b then W_Queued else W_Failed)"
proof (cases b)
  case True
  then obtain s as v where "list_attempts_for_work (wi_work_id item) st = (Inr as, s)"
    "schedule_retry now (wi_work_id item) (Aware (now + timedelta_seconds (rp_backoff_seconds (wi_retry_policy item))))
      (Some (Aware now)) s = (Inr v, st')"
    using assms(1) unfolding schedule_work_retry_def Let_def
    by (auto simp: bindS_eq_Inr_iff checked_Inr_iff split: if_splits)
  then show ?thesis using True assms(2,3) list_attempts_for_work_Inr schedule_retry_Inr by fastforce
next
  case False
  then have "st' = st" using assms(1) unfolding schedule_work_retry_def Let_def
    by (auto simp: bindS_eq_Inr_iff checked_Inr_iff dest!: list_attempts_for_work_Inr split: if_splits)
  then show ?thesis using False assms(2,3) by simp
qed

lemma retry_recorded:
  assumes "(if wanted then schedule_work_retry False now item f else returnS False) st = (Inr b, st')"
    and "the_work (wi_work_id item) st = Some w" "wi_state w = W_Failed"
  shows "\<exists>v. the_work (wi_work_id item) st' = Some v \<and> recorded (wi_state v) c (if b then add_retried 1 c else add_failed 1 c)"
  using assms schedule_work_retry_state [of False now item f st b st'] by (auto simp: recorded_def split: if_splits)

lemma bindS_InrE:
  assumes "bindS m f s = (Inr y, t)"
  obtains x s' where "m s = (Inr x, s')" "f x s' = (Inr y, t)"
  using assms by (auto simp: bindS_eq_Inr_iff)

lemma checked_InrE:
  assumes "checked m f st = (Inr x, st')"
  obtains y where "m = Inr y" "f y st = (Inr x, st')"
  using assms by (auto simp: checked_Inr_iff)

lemma raised_finish:
  assumes "mark_trial_then_work clock n t (outcome_trial ended) (wi_work_id item) (outcome_work ended) st = (Inr u, st1)"
    and "(if ended = Outcome_Unknown then returnS (add_unknown 1 c)
      else bindS (schedule_work_retry False now item f) (\<lambda>retried.
        returnS (if retried then add_retried 1 c else add_failed 1 c))) st1 = (Inr c', st')"
    and "ended = Outcome_Failed \<or> ended = Outcome_Unknown"
  shows "\<exists>w. the_work (wi_work_id item) st' = Some w \<and> recorded (wi_state w) c c'"
proof -
  obtain v where v: "the_work (wi_work_id item) st1 = Some v" "wi_state v = outcome_work ended"
    using mark_trial_then_work_Inr [OF assms(1)] by blast
  show ?thesis
  proof (cases "ended = Outcome_Unknown")
    case True
    then show ?thesis using assms(2) v by (simp add: recorded_def)
  next
    case False
    then obtain b where "schedule_work_retry False now item f st1 = (Inr b, st')"
      "c' = (if b then add_retried 1 c else add_failed 1 c)"
      using assms(2) by (auto simp: bindS_eq_Inr_iff)
    then show ?thesis using retry_recorded [where wanted = True and f = f] v False assms(3) by auto
  qed
qed

lemma worker_raised_recorded:
  assumes "worker_raised clock now item a c st = (Inr c', st')"
  shows "\<exists>w. the_work (wi_work_id item) st' = Some w \<and> recorded (wi_state w) c c'"
  using assms unfolding worker_raised_def Let_def
  by (elim bindS_InrE checked_InrE) (rule raised_finish, assumption, assumption, simp)

lemma worker_outcome_recorded_recorded:
  assumes "worker_outcome_recorded clock now item a out c st = (Inr c', st')"
  shows "\<exists>w. the_work (wi_work_id item) st' = Some w \<and> recorded (wi_state w) c c'"
proof -
  let ?s = "wo_terminal_state out"
  let ?f = "Option.bind (own_receipt (at_attempt_id a) out) rc_failure"
  obtain st1 where mark: "\<exists>s. mark_trial_then_work clock None (wi_trial_id item) (outcome_trial ?s) (wi_work_id item)
      (outcome_work ?s) s = (Inr (), st1)"
    and rest: "(case ?s of Outcome_Succeeded \<Rightarrow> returnS (add_succeeded 1 c)
      | Outcome_Failed \<Rightarrow> bindS (case (wo_finalization out, ?f) of
          (None, Some f) \<Rightarrow> schedule_work_retry False now item f | _ \<Rightarrow> returnS False) (\<lambda>retried.
          returnS (if retried then add_retried 1 c else add_failed 1 c))
      | Outcome_Unknown \<Rightarrow> returnS (add_unknown 1 c)) st1 = (Inr c', st')"
    using assms unfolding worker_outcome_recorded_def Let_def by (elim bindS_InrE) (rule that, auto)
  obtain v where v: "the_work (wi_work_id item) st1 = Some v" "wi_state v = outcome_work ?s"
    using mark mark_trial_then_work_Inr by blast
  show ?thesis
  proof (cases ?s)
    case Outcome_Failed
    obtain b where b: "(case (wo_finalization out, ?f) of
          (None, Some f) \<Rightarrow> schedule_work_retry False now item f | _ \<Rightarrow> returnS False) st1 = (Inr b, st')"
      and c': "c' = (if b then add_retried 1 c else add_failed 1 c)"
      using rest Outcome_Failed by (auto elim!: bindS_InrE)
    have "\<exists>wanted f. (if wanted then schedule_work_retry False now item f else returnS False) st1 = (Inr b, st')"
      using b by (auto split: option.splits intro: exI [of _ True] exI [of _ False])
    then show ?thesis using retry_recorded v Outcome_Failed c' by fastforce
  qed (use rest v in \<open>auto simp: recorded_def\<close>)
qed

lemma worker_finished_recorded:
  assumes "worker_finished clock item a c st = (Inr c', st')"
  shows "\<exists>w. the_work (wi_work_id item) st' = Some w \<and> recorded (wi_state w) c c'"
  using assms unfolding worker_finished_def
  by (elim bindS_InrE) (drule mark_trial_then_work_Inr, auto simp: recorded_def)

lemma record_result_recorded:
  assumes "record_result clock now item a res c st = (Inr c', st')"
  shows "\<exists>w. the_work (wi_work_id item) st' = Some w \<and> recorded (wi_state w) c c'"
  using assms unfolding record_result_def
  by (auto split: worker_result.splits option.splits
      dest: worker_raised_recorded worker_outcome_recorded_recorded worker_finished_recorded)

text \<open>A future adds one to one of the counts, or nothing.\<close>

definition counted :: "dispatch_counts \<Rightarrow> dispatch_counts \<Rightarrow> bool" where
  "counted c c' \<longleftrightarrow> c' \<in> {c, add_succeeded 1 c, add_failed 1 c, add_retried 1 c, add_unknown 1 c}"

definition counts_within :: "int \<Rightarrow> dispatch_counts \<Rightarrow> bool" where
  "counts_within k c \<longleftrightarrow> 0 \<le> dc_succeeded c \<and> 0 \<le> dc_failed c \<and> 0 \<le> dc_retried c \<and> 0 \<le> dc_unknown c
     \<and> dc_succeeded c + dc_failed c + dc_retried c + dc_unknown c \<le> k"

lemmas add_defs = add_succeeded_def add_failed_def add_retried_def add_unknown_def

lemma counted_within: "counted c c' \<Longrightarrow> counts_within k c \<Longrightarrow> counts_within (k + 1) c'"
  by (auto simp: counted_def counts_within_def add_defs)

lemma release_lease_atomic: "atomic (release_lease c l own n)"
  unfolding release_lease_def by (intro atomic_intros)

lemma get_work_item_Inr: "get_work_item w st = (Inr v, st') \<Longrightarrow> st' = st \<and> the_work w st = Some v"
  by (auto simp: get_work_item_def err_iffs)

lemma recorded_unbump:
  assumes "recorded s c c'"
  shows "(let c1 = (if s = W_Succeeded then add_succeeded (-1) c' else if s = W_Failed then add_failed (-1) c'
      else if s = W_Queued then add_retried (-1) c' else c') in if s \<noteq> W_Unknown then add_unknown 1 c1 else c1)
    = add_unknown 1 c"
  using assms by (auto simp: recorded_def add_defs)

lemma release_after_result_counted:
  assumes "release_after_result clock own (item, a, l) c1 st = (Inr c2, st')"
    and "the_work (wi_work_id item) st = Some w" "recorded (wi_state w) c c1"
  shows "counted c c2"
proof (cases "bindS (release_lease clock (le_lease_id l) own None) (\<lambda>_. returnS c1) st")
  case (Pair r st1)
  show ?thesis
  proof (cases r)
    case (Inr x)
    then have "x = c1" using Pair by (auto elim: bindS_InrE)
    then show ?thesis using assms(1,3) Pair Inr
      by (auto simp: release_after_result_def catchS_apply recorded_def counted_def)
  next
    case (Inl e)
    then have "st1 = st" using Pair release_lease_atomic [of clock "le_lease_id l" own None]
      by (fastforce simp: bindS_apply atomic_def split: prod.splits sum.splits)
    then have "release_failed clock item a c1 st = (Inr c2, st')"
      using assms(1) Pair Inl by (auto simp: release_after_result_def catchS_apply split: if_splits)
    then have "c2 = add_unknown 1 c"
      using assms(2) recorded_unbump [OF assms(3)] unfolding release_failed_def Let_def
      by (auto elim!: bindS_InrE dest!: get_work_item_Inr)
    then show ?thesis by (simp add: counted_def)
  qed
qed

lemma complete_future_counted:
  assumes "complete_future clock now own lost (item, a, l) res c st = (Inr c', st')"
  shows "counted c c'"
proof -
  obtain v where v: "get_work_item (wi_work_id item) st = (Inr v, st)"
    and body: "(if wi_state v \<in> {W_Cancelled, W_Unknown} then
        bindS (catchS (bindS (release_lease clock (le_lease_id l) own None) (\<lambda>_. returnS ()))
          is_store_error (\<lambda>_. returnS ())) (\<lambda>_. returnS (if wi_state v = W_Unknown then add_unknown 1 c else c))
      else
        bindS (if le_lease_id l \<in> set lost
          then bindS (worker_lost clock ''lease expired before worker completion'' item a) (\<lambda>_. returnS (add_unknown 1 c))
          else bindS (record_result clock now item a res c) (release_after_result clock own (item, a, l))) (\<lambda>c'.
        bindS (complete_plan_if_terminal clock (wi_plan_id item) (wi_run_id item) None) (\<lambda>_. returnS c'))) st = (Inr c', st')"
    using assms unfolding complete_future_def prod.case
    by (elim bindS_InrE) (frule get_work_item_Inr, blast)
  show ?thesis
  proof (cases "wi_state v \<in> {W_Cancelled, W_Unknown}")
    case True
    then show ?thesis using body by (auto elim!: bindS_InrE simp: counted_def)
  next
    case False
    then obtain st1 where first: "(if le_lease_id l \<in> set lost
          then bindS (worker_lost clock ''lease expired before worker completion'' item a) (\<lambda>_. returnS (add_unknown 1 c))
          else bindS (record_result clock now item a res c) (release_after_result clock own (item, a, l))) st = (Inr c', st1)"
      using body by (auto elim!: bindS_InrE)
    show ?thesis
    proof (cases "le_lease_id l \<in> set lost")
      case True
      then show ?thesis using first by (auto elim!: bindS_InrE simp: counted_def)
    next
      case False
      then obtain c1 st2 where "record_result clock now item a res c st = (Inr c1, st2)"
        "release_after_result clock own (item, a, l) c1 st2 = (Inr c', st1)"
        using first by (auto elim!: bindS_InrE)
      then show ?thesis using record_result_recorded release_after_result_counted by blast
    qed
  qed
qed

lemma futures_counted:
  assumes "foldS (\<lambda>(i, res) c'. complete_future clock now own lost (rs ! i) res c') xs c st = (Inr c', st')"
    and "counts_within k c"
  shows "counts_within (k + int (length xs)) c'"
  using assms
proof (induction xs arbitrary: c st k)
  case (Cons x xs)
  obtain i res where x: "x = (i, res)" by fastforce
  obtain item a l where r: "rs ! i = (item, a, l)" by (cases "rs ! i") auto
  obtain c1 st1 where one: "complete_future clock now own lost (rs ! i) res c st = (Inr c1, st1)"
    and rest: "foldS (\<lambda>(i, res) c'. complete_future clock now own lost (rs ! i) res c') xs c1 st1 = (Inr c', st')"
    using Cons.prems(1) x by (auto elim!: bindS_InrE)
  have "counts_within (k + 1) c1"
    using counted_within [OF complete_future_counted Cons.prems(2)] one r by simp
  from Cons.IH [OF rest this] show ?case by (simp add: algebra_simps)
qed simp

lemma rounds_counted:
  assumes "dispatch_rounds p own now rs rounds pending lost c st = (Inr (Some c'), st')"
    and "counts_within k c" "distinct pending"
  shows "counts_within (k + int (length pending)) c'"
  using assms
proof (induction rounds arbitrary: pending lost c st k)
  case Nil
  then show ?case by (auto split: if_splits)
next
  case (Cons rd rds)
  show ?case
  proof (cases "pending = []")
    case True
    then show ?thesis using Cons.prems by simp
  next
    case False
    let ?done = "map fst (rd_done rd)"
    let ?left = "filter (\<lambda>i. i \<notin> set ?done) pending"
    have ok: "round_ok pending rd" using Cons.prems(1) False by (auto split: if_splits)
    obtain c1 s1 s2 lost' s3 where futures: "foldS (\<lambda>(i, result) c'. complete_future (rd_clock rd) now own lost (rs ! i) result c')
        (rd_done rd) c s1 = (Inr c1, s2)"
      and rest: "dispatch_rounds p own now rs rds ?left lost' c1 s3 = (Inr (Some c'), st')"
      using Cons.prems(1) False ok by (auto simp: Let_def elim!: bindS_InrE)
    have "length ?done + length ?left = length pending"
    proof -
      have "set (filter (\<lambda>i. i \<in> set ?done) pending) = set ?done"
        using ok by (auto simp: round_ok_def)
      then have "length (filter (\<lambda>i. i \<in> set ?done) pending) = length ?done"
        using ok Cons.prems(3) by (metis distinct_card distinct_filter round_ok_def)
      then show ?thesis using sum_length_filter_compl [of "\<lambda>i. i \<in> set ?done" pending] by simp
    qed
    then have len: "int (length (rd_done rd)) + int (length ?left) = int (length pending)" by simp
    from Cons.IH [OF rest futures_counted [OF futures Cons.prems(2)]] Cons.prems(3) len show ?thesis
      by (simp add: algebra_simps)
  qed
qed


definition demo_running :: running where
  "demo_running = (demo_work 6 ''w/b'' 4 2 W_Running, demo_attempt, demo_lease)"

definition demo_owner_round :: dispatch_round where
  "demo_owner_round = \<lparr>rd_env = (\<lambda>st. st), rd_done = [(0, Worker_Returned None)], rd_clock = 60, rd_heartbeat = 60\<rparr>"

lemma demo_rounds: "\<exists>st'. dispatch_rounds demo_policy ''worker-a'' 50 [demo_running] [demo_owner_round]
    [0..<length [demo_running]] [] no_counts demo_store = (Inr (Some (add_succeeded 1 no_counts)), st')"
  by (simp add: demo_running_def demo_owner_round_def round_ok_def env_step_def complete_future_def bindS_apply
      get_work_item_def demo_eval demo_defs record_result_def worker_finished_def transition_attempt_def built_failure_def
      now_or_clock_def transition_row_def mark_trial_then_work_def update_planned_trial_def update_work_item_def
      release_after_result_def release_lease_def catchS_apply complete_plan_if_terminal_def rows_complete_def
      add_succeeded_def no_counts_def)


section \<open>Reconciliation\<close>

lemma complete_plan_work:
  assumes "complete_plan_if_terminal c p r n st = (Inr x, st')"
  shows "st_work st' = st_work st"
  using assms unfolding complete_plan_if_terminal_def
  by (auto simp: checked_Inr_iff write_txn_Inr_iff err_iffs complete_plan_if_terminal_txn_def Let_def txn_iffs split: if_splits)

lemma retry_allowed:
  assumes "schedule_work_retry True now item f st = (Inr True, st')"
  shows "rp_unknown_state_policy (wi_retry_policy item) \<noteq> Never_Retry"
  using assms by (auto simp: schedule_work_retry_def Let_def split: if_splits)

text \<open>The end of one reconciled item, after its state is recorded.\<close>

lemma reconcile_finish:
  assumes "mark_trial_then_work clock n t ts (wi_work_id item) (outcome_work s) st0 = (Inr u, st)"
    and "(case (s, fin, failure) of (Outcome_Failed, None, Some f) \<Rightarrow> schedule_work_retry True now item f
        | _ \<Rightarrow> returnS False) st = (Inr retried, st1)"
    and "(if retried then returnS (fst counts + 1, snd counts)
      else bindS (complete_plan_if_terminal now (wi_plan_id item) (wi_run_id item) (Some (Aware now)))
        (\<lambda>_. returnS counts)) st1 = (Inr counts', st')"
  shows "\<exists>w. the_work (wi_work_id item) st' = Some w \<and> (if retried
    then s = Outcome_Failed \<and> rp_unknown_state_policy (wi_retry_policy item) \<noteq> Never_Retry \<and> wi_state w = W_Queued
      \<and> counts' = (fst counts + 1, snd counts)
    else wi_state w = outcome_work s \<and> counts' = counts)"
proof -
  obtain v where v: "the_work (wi_work_id item) st = Some v" "wi_state v = outcome_work s"
    using mark_trial_then_work_Inr [OF assms(1)] by blast
  show ?thesis
  proof (cases "\<exists>f. s = Outcome_Failed \<and> fin = None \<and> failure = Some f")
    case True
    then obtain f where f: "s = Outcome_Failed" "schedule_work_retry True now item f st = (Inr retried, st1)"
      using assms(2) by auto
    obtain w where w: "the_work (wi_work_id item) st1 = Some w" "wi_state w = (if retried then W_Queued else W_Failed)"
      using schedule_work_retry_state [OF f(2) v(1)] v(2) f(1) by auto
    show ?thesis
    proof (cases retried)
      case True
      then show ?thesis using assms(3) f(1,2) w retry_allowed by auto
    next
      case False
      then show ?thesis using assms(3) f(1) w by (auto elim!: bindS_InrE dest!: complete_plan_work)
    qed
  next
    case False
    then have "\<not> retried \<and> st1 = st"
      using assms(2) by (cases s; cases fin; cases failure) auto
    then show ?thesis using assms(3) v by (auto elim!: bindS_InrE dest!: complete_plan_work)
  qed
qed

lemma list_submissions_Inr: "list_backend_submissions a st = (Inr ss, st') \<Longrightarrow> st' = st"
  by (auto simp: list_backend_submissions_def listing_def err_iffs)

lemma case_three_None:
  "(case (a, b, c) of (Some x, Some y, Some z) \<Rightarrow> f x y z | _ \<Rightarrow> d)
     = (if a \<noteq> None \<and> b \<noteq> None \<and> c \<noteq> None then f (the a) (the b) (the c) else d)"
  by (cases a; cases b; cases c) simp_all


section \<open>Instances\<close>

definition demo_retry_policy :: retry_policy where
  "demo_retry_policy = \<lparr>rp_maximum_attempts = 3, rp_retryable_failure_kinds = [Worker_Lost_Before_Submission],
     rp_backoff_seconds = 0, rp_maximum_elapsed_seconds = Some 600, rp_unknown_state_policy = Reconcile_Before_Retry\<rparr>"

definition demo_failed_item :: work_row where
  "demo_failed_item = (demo_work 6 ''w/b'' 4 2 W_Failed)\<lparr>wi_retry_policy := demo_retry_policy\<rparr>"

definition demo_failed_store :: store where
  "demo_failed_store = demo_store\<lparr>st_work := [demo_failed_item], st_trials := [demo_trial 4 2 T_Failed]\<rparr>"

definition demo_requeued_store :: store where
  "demo_requeued_store = demo_failed_store\<lparr>
     st_work := [demo_failed_item\<lparr>wi_state := W_Queued, wi_updated_at := 50, wi_available_at := 50\<rparr>],
     st_trials := [(demo_trial 4 2 T_Queued)\<lparr>tr_updated_at := 50\<rparr>]\<rparr>"

lemma demo_retry: "schedule_work_retry False 50 demo_failed_item
    (infrastructure_failure Worker_Lost_Before_Submission ''lost'') demo_failed_store = (Inr True, demo_requeued_store)"
  by (simp add: schedule_work_retry_def Let_def bindS_apply list_attempts_for_work_def listing_def demo_failed_item_def
      demo_retry_policy_def infrastructure_failure_def demo_failed_store_def demo_requeued_store_def demo_defs demo_eval
      next_retry_number_def elapsed_exceeded_def minimum_time_def timedelta_seconds_def schedule_retry_def now_or_clock_def)

theorem retry_within_policy_witness:
  "at_retry_number demo_attempt + 1 < rp_maximum_attempts demo_retry_policy"
  using retry_within_policy [OF demo_retry]
  by (simp add: demo_failed_item_def demo_retry_policy_def demo_failed_store_def demo_defs)


definition blank_error :: cancel_call where
  "blank_error item attempt submission = Inl ''''"

text \<open>
  \<^verbatim>\<open>cancel_active\<close> is meant to survive a backend that raises: the text of the exception becomes the message
  of an unknown result. For an exception without a text (such as \<^verbatim>\<open>TimeoutError()\<close>) that message is refused as
  blank, so the method raises instead: the cancellation has been requested, but the item keeps waiting for
  it under its lease, and no later item of the run is looked at.
\<close>

theorem cancel_active_blank_error:
  "\<exists>st'. cancel_active 50 (demo_id 1) ''worker-a'' (\<lambda>_. Some blank_error) demo_store
      = (Inl (Value_Error ''value must not be blank''), st')
    \<and> cancel_flag (demo_id 1) st' \<and> st_leases st' = st_leases demo_store
    \<and> map wi_state (st_work st') = [W_Cancelled, W_Cancel_Requested]"
  by (simp add: cancel_active_def bindS_apply request_cancellation_def demo_eval demo_defs cancel_rows_def
      close_terminal_plans_def mark_run_cancelled_def open_rows_def cancel_work_state_def list_work_items_def
      listing_def now_or_clock_def cancel_item_def list_attempts_for_work_def list_backend_submissions_def
      last_option_def cancellation_result_def built_cancellation_def blank_error_def py_blank_def cancel_flag_iff)

definition demo_unknown_item :: work_row where
  "demo_unknown_item = demo_work 6 ''w/b'' 4 2 W_Unknown"

definition demo_unknown_store :: store where
  "demo_unknown_store = demo_store\<lparr>st_work := [demo_unknown_item], st_trials := [demo_trial 4 2 T_Unknown]\<rparr>"

definition demo_outcome :: worker_outcome where
  "demo_outcome = \<lparr>wo_terminal_state = Outcome_Succeeded, wo_receipts = [], wo_finalization = None\<rparr>"

definition demo_reconcile :: "string \<Rightarrow> reconcile_call option" where
  "demo_reconcile backend = (if backend = ''local'' then Some (\<lambda>_ _ _. Inr demo_outcome) else None)"

lemma demo_reconciled: "\<exists>st'. reconcile_item 60 50 demo_reconcile demo_unknown_item (0, 0) demo_unknown_store = (Inr (0, 0), st')"
  by (simp add: reconcile_item_def resolve_item_def demo_reconcile_def demo_outcome_def demo_unknown_item_def
      demo_unknown_store_def Let_def bindS_apply list_attempts_for_work_def list_backend_submissions_def listing_def
      demo_eval demo_defs last_option_def own_receipt_def transition_attempt_def built_failure_def now_or_clock_def
      transition_row_def mark_trial_then_work_def update_planned_trial_def update_work_item_def
      complete_plan_if_terminal_def rows_complete_def)


end
