(* ===== verification/Json.thy ===== *)
theory Json
  imports Runtime_Observation
begin

text \<open>
  JSON-like Python values (\<^verbatim>\<open>Any\<close> fields of the contracts), their equality, the text functions used
  on their keys, \<^verbatim>\<open>int()\<close> of such a value, decimal text, and the secret scan \<^verbatim>\<open>_reject_secret_values\<close> of
  \<^verbatim>\<open>contracts/resolved_run.py\<close>. A dictionary is the list of its entries in insertion order, with
  distinct keys; a float is a finite one, kept as the rational it denotes.
\<close>

section \<open>Values\<close>

datatype json = J_Null | J_Bool bool | J_Int int | J_Float rat | J_Text string | J_Uuid uuid
  | J_List "json list" | J_Dict "(string \<times> json) list"

type_synonym json_dict = "(string \<times> json) list"

text \<open>Numbers compare by value in Python, also across \<^verbatim>\<open>bool\<close>, \<^verbatim>\<open>int\<close> and \<^verbatim>\<open>float\<close>.\<close>

fun json_number :: "json \<Rightarrow> rat option" where
  "json_number (J_Bool b) = Some (if b then 1 else 0)"
| "json_number (J_Int i) = Some (of_int i)"
| "json_number (J_Float r) = Some r"
| "json_number _ = None"

text \<open>\<^verbatim>\<open>a == b\<close>: lists by position, dictionaries by key in any order.\<close>

fun json_eq :: "json \<Rightarrow> json \<Rightarrow> bool" where
  "json_eq (J_List xs) (J_List ys) = list_all2 json_eq xs ys"
| "json_eq (J_Dict xs) (J_Dict ys) =
     (length xs = length ys
      \<and> list_all (\<lambda>(k, v). case map_of ys k of None \<Rightarrow> False | Some w \<Rightarrow> json_eq v w) xs)"
| "json_eq (J_Text s) (J_Text t) = (s = t)"
| "json_eq (J_Uuid s) (J_Uuid t) = (s = t)"
| "json_eq J_Null J_Null = True"
| "json_eq x y = (json_number x \<noteq> None \<and> json_number x = json_number y)"

definition json_dict_eq :: "json_dict \<Rightarrow> json_dict \<Rightarrow> bool" where
  "json_dict_eq xs ys = json_eq (J_Dict xs) (J_Dict ys)"


section \<open>Text\<close>

definition py_lower_char :: "char \<Rightarrow> char" where
  "py_lower_char c =
     (let n = of_char c :: nat
      in if (65 \<le> n \<and> n \<le> 90) \<or> (192 \<le> n \<and> n \<le> 222 \<and> n \<noteq> 215) then char_of (n + 32) else c)"

definition py_lower :: "string \<Rightarrow> string" where
  "py_lower = map py_lower_char"

definition starts_with :: "string \<Rightarrow> string \<Rightarrow> bool" where
  "starts_with p s \<longleftrightarrow> take (length p) s = p"

definition ends_with :: "string \<Rightarrow> string \<Rightarrow> bool" where
  "ends_with p s \<longleftrightarrow> drop (length s - length p) s = p"

lemma starts_with_iff: "starts_with p s \<longleftrightarrow> (\<exists>r. s = p @ r)"
  unfolding starts_with_def by (metis append_eq_conv_conj append_take_drop_id)

lemma ends_with_iff: "ends_with p s \<longleftrightarrow> (\<exists>r. s = r @ p)"
proof
  assume "ends_with p s"
  then show "\<exists>r. s = r @ p" unfolding ends_with_def by (metis append_take_drop_id)
qed (auto simp: ends_with_def)

text \<open>Decimal text of a natural number, \<^verbatim>\<open>str(n)\<close>.\<close>

definition digit_char :: "nat \<Rightarrow> char" where
  "digit_char d = char_of (48 + d)"

fun show_nat :: "nat \<Rightarrow> string" where
  "show_nat n = (if n < 10 then [digit_char n] else show_nat (n div 10) @ [digit_char (n mod 10)])"

declare show_nat.simps [simp del]

text \<open>\<^verbatim>\<open>f"{n:02d}"\<close>.\<close>

definition show_two :: "nat \<Rightarrow> string" where
  "show_two n = (if n < 10 then ''0'' @ show_nat n else show_nat n)"

text \<open>The number a digit text denotes; a left inverse of \<^const>\<open>show_nat\<close>.\<close>

definition read_digits :: "string \<Rightarrow> nat" where
  "read_digits s = foldl (\<lambda>a c. a * 10 + (of_char c - 48)) 0 s"

lemma of_digit_char: "d < 10 \<Longrightarrow> (of_char (digit_char d) :: nat) = 48 + d"
  by (simp add: digit_char_def of_char_of)

lemma read_digits_show_nat: "read_digits (show_nat n) = n"
proof (induction n rule: show_nat.induct)
  case (1 n)
  show ?case
    using 1 of_digit_char [of n] of_digit_char [of "n mod 10"]
    by (subst show_nat.simps) (auto simp: read_digits_def)
qed

lemma show_nat_inj: "show_nat m = show_nat n \<Longrightarrow> m = n"
  by (metis read_digits_show_nat)

lemma read_digits_show_two: "read_digits (show_two n) = n"
  using read_digits_show_nat [of n] by (simp add: show_two_def read_digits_def)

lemma show_two_inj: "show_two m = show_two n \<Longrightarrow> m = n"
  by (metis read_digits_show_two)

section \<open>\<^verbatim>\<open>int()\<close> of a value\<close>

definition is_digit_char :: "char \<Rightarrow> bool" where
  "is_digit_char c \<longleftrightarrow> (let n = of_char c :: nat in 48 \<le> n \<and> n \<le> 57)"

text \<open>Digits with single underscores between them; \<open>seen\<close> says that the last character was a digit.\<close>

fun int_digits :: "bool \<Rightarrow> nat \<Rightarrow> string \<Rightarrow> nat option" where
  "int_digits seen acc [] = (if seen then Some acc else None)"
| "int_digits seen acc (c # cs) =
     (if is_digit_char c then int_digits True (acc * 10 + (of_char c - 48)) cs
      else if c = CHR ''_'' \<and> seen then int_digits False acc cs
      else None)"

definition py_strip :: "string \<Rightarrow> string" where
  "py_strip s = rev (dropWhile is_py_space (rev (dropWhile is_py_space s)))"

definition int_of_text :: "string \<Rightarrow> int option" where
  "int_of_text s =
     (case py_strip s of
        [] \<Rightarrow> None
      | c # cs \<Rightarrow>
          if c = CHR ''-'' then map_option (\<lambda>n. - int n) (int_digits False 0 cs)
          else if c = CHR ''+'' then map_option int (int_digits False 0 cs)
          else map_option int (int_digits False 0 (c # cs)))"

definition truncate_rat :: "rat \<Rightarrow> int" where
  "truncate_rat r = (if 0 \<le> r then floor r else ceiling r)"

text \<open>\<^verbatim>\<open>int(value)\<close>, with its \<^verbatim>\<open>ValueError\<close> and \<^verbatim>\<open>TypeError\<close>.\<close>

fun py_int :: "json \<Rightarrow> string + int" where
  "py_int (J_Bool b) = Inr (if b then 1 else 0)"
| "py_int (J_Int i) = Inr i"
| "py_int (J_Float r) = Inr (truncate_rat r)"
| "py_int (J_Text s) = (case int_of_text s of None \<Rightarrow> Inl ''invalid literal for int()'' | Some i \<Rightarrow> Inr i)"
| "py_int _ = Inl ''int() argument must be a string or a real number''"

lemma int_digits_digits:
  "list_all is_digit_char cs \<Longrightarrow> seen \<or> cs \<noteq> [] \<Longrightarrow>
    int_digits seen acc cs = Some (foldl (\<lambda>a c. a * 10 + (of_char c - 48)) acc cs)"
  by (induction cs arbitrary: seen acc) auto

lemma digit_char_is_digit: "d < 10 \<Longrightarrow> is_digit_char (digit_char d)"
  by (simp add: is_digit_char_def of_digit_char)

lemma show_nat_digits: "list_all is_digit_char (show_nat n) \<and> show_nat n \<noteq> []"
proof (induction n rule: show_nat.induct)
  case (1 n)
  then show ?case
    by (subst (1 2) show_nat.simps) (auto simp: digit_char_is_digit)
qed

lemma digit_not_space: "is_digit_char c \<Longrightarrow> \<not> is_py_space c"
  by (simp add: is_digit_char_def is_py_space_def Let_def)

lemma py_strip_id:
  assumes "list_all (\<lambda>c. \<not> is_py_space c) s"
  shows "py_strip s = s"
proof -
  have "dropWhile is_py_space xs = xs" if "list_all (\<lambda>c. \<not> is_py_space c) xs" for xs
    using that by (cases xs) auto
  from this [of s] this [of "rev s"] assms show ?thesis by (simp add: py_strip_def)
qed

text \<open>\<^verbatim>\<open>int(str(n)) == n\<close>.\<close>

lemma int_of_text_show_nat: "int_of_text (show_nat n) = Some (int n)"
proof -
  have digits: "list_all is_digit_char (show_nat n)" and ne: "show_nat n \<noteq> []"
    using show_nat_digits by auto
  have strip: "py_strip (show_nat n) = show_nat n"
    using digits digit_not_space by (intro py_strip_id) (auto simp: list_all_iff)
  obtain c cs where s: "show_nat n = c # cs" using ne by (cases "show_nat n") auto
  have "c \<noteq> CHR ''-''" "c \<noteq> CHR ''+''" using digits by (auto simp: s is_digit_char_def)
  moreover have "int_digits False 0 (show_nat n) = Some n"
    using int_digits_digits [OF digits] ne read_digits_show_nat by (simp add: read_digits_def)
  ultimately show ?thesis unfolding int_of_text_def strip by (simp add: s)
qed

section \<open>Secrets\<close>

definition sensitive_names :: "string list" where
  "sensitive_names = [''secret'', ''password'', ''token'', ''api_key'', ''access_token'',
     ''refresh_token'', ''client_secret'']"

definition sensitive_suffixes :: "string list" where
  "sensitive_suffixes = [''_secret'', ''_password'', ''_token'', ''_api_key'']"

definition sensitive_key :: "string \<Rightarrow> bool" where
  "sensitive_key key \<longleftrightarrow>
     (let text = py_lower key
      in text \<in> set sensitive_names \<or> list_ex (\<lambda>s. ends_with s text) sensitive_suffixes)"

fun is_env_ref :: "json \<Rightarrow> bool" where
  "is_env_ref (J_Text s) = starts_with ''env:'' s"
| "is_env_ref _ = False"

text \<open>The scan carries the path of the value for its message, as the code does.\<close>

fun reject_secret_values :: "json \<Rightarrow> string \<Rightarrow> string + unit"
  and reject_entries :: "json_dict \<Rightarrow> string \<Rightarrow> string + unit"
  and reject_items :: "nat \<Rightarrow> json list \<Rightarrow> string \<Rightarrow> string + unit" where
  "reject_secret_values (J_Dict entries) path = reject_entries entries path"
| "reject_secret_values (J_List items) path = reject_items 0 items path"
| "reject_secret_values _ path = Inr ()"
| "reject_entries [] path = Inr ()"
| "reject_entries ((key, child) # entries) path =
     (let child_path = path @ ''.'' @ key
      in if sensitive_key key \<and> \<not> ends_with ''_env'' (py_lower key)
         then (if is_env_ref child then reject_entries entries path
               else Inl (''resolved run cannot retain a secret value at '' @ child_path))
         else bindE (reject_secret_values child child_path) (\<lambda>_. reject_entries entries path))"
| "reject_items index [] path = Inr ()"
| "reject_items index (child # items) path =
     bindE (reject_secret_values child (path @ ''['' @ show_nat index @ '']''))
       (\<lambda>_. reject_items (Suc index) items path)"

text \<open>An entry \<^verbatim>\<open>key: value\<close> somewhere inside a value.\<close>

inductive json_entry :: "json \<Rightarrow> string \<Rightarrow> json \<Rightarrow> bool" where
  here: "(k, v) \<in> set es \<Longrightarrow> json_entry (J_Dict es) k v"
| in_dict: "(k', v') \<in> set es \<Longrightarrow> json_entry v' k v \<Longrightarrow> json_entry (J_Dict es) k v"
| in_list: "x \<in> set xs \<Longrightarrow> json_entry x k v \<Longrightarrow> json_entry (J_List xs) k v"

inductive_simps json_entry_dict: "json_entry (J_Dict es) k v"
inductive_simps json_entry_list: "json_entry (J_List xs) k v"
inductive_simps json_entry_text: "json_entry (J_Text s) k v"

definition env_reference :: "json \<Rightarrow> bool" where
  "env_reference v \<longleftrightarrow> (\<exists>name. v = J_Text (''env:'' @ name))"

definition no_secret_inside :: "json \<Rightarrow> bool" where
  "no_secret_inside j \<longleftrightarrow> (\<forall>k v. json_entry j k v \<longrightarrow> sensitive_key k \<longrightarrow> env_reference v)"

lemma is_env_ref_iff: "is_env_ref v \<longleftrightarrow> env_reference v"
  by (cases v) (auto simp: env_reference_def starts_with_iff)

lemma last_of_suffix: "ends_with (p @ [c]) t \<Longrightarrow> t \<noteq> [] \<and> last t = c"
  by (auto simp: ends_with_iff)

text \<open>The exception for keys in \<^verbatim>\<open>_env\<close> is dead: such a key is not sensitive.\<close>

lemma env_suffix_not_sensitive: "ends_with ''_env'' (py_lower key) \<Longrightarrow> \<not> sensitive_key key"
proof
  assume e: "ends_with ''_env'' (py_lower key)" and s: "sensitive_key key"
  have l: "last (py_lower key) = CHR ''v''" using last_of_suffix [of "''_en''" "CHR ''v''"] e by simp
  show False
    using s l last_of_suffix [of "''_secre''" "CHR ''t''"] last_of_suffix [of "''_passwor''" "CHR ''d''"]
      last_of_suffix [of "''_toke''" "CHR ''n''"] last_of_suffix [of "''_api_ke''" "CHR ''y''"]
    by (auto simp: sensitive_key_def sensitive_names_def sensitive_suffixes_def Let_def)
qed

lemma no_secret_dict:
  "no_secret_inside (J_Dict es) \<longleftrightarrow>
     (\<forall>(k, v)\<in>set es. (sensitive_key k \<longrightarrow> env_reference v) \<and> no_secret_inside v)"
  unfolding no_secret_inside_def json_entry_dict by (auto split: prod.splits)

lemma no_secret_list: "no_secret_inside (J_List xs) \<longleftrightarrow> (\<forall>x\<in>set xs. no_secret_inside x)"
  unfolding no_secret_inside_def json_entry_list by auto

lemma no_secret_atom:
  "no_secret_inside J_Null" "no_secret_inside (J_Bool b)" "no_secret_inside (J_Int i)"
  "no_secret_inside (J_Float r)" "no_secret_inside (J_Text s)" "no_secret_inside (J_Uuid u)"
  by (auto simp: no_secret_inside_def elim: json_entry.cases)

lemma env_reference_clean: "env_reference v \<Longrightarrow> no_secret_inside v"
  by (auto simp: env_reference_def no_secret_atom)

lemma reject_secret_values_iff:
  "isOK (reject_secret_values j path) \<longleftrightarrow> no_secret_inside j"
  "isOK (reject_entries es path) \<longleftrightarrow> no_secret_inside (J_Dict es)"
  "isOK (reject_items n xs path) \<longleftrightarrow> (\<forall>x\<in>set xs. no_secret_inside x)"
  by (induction j path and es path and n xs path
      rule: reject_secret_values_reject_entries_reject_items.induct)
    (auto simp: no_secret_atom no_secret_list no_secret_dict isOK_bindE_const is_env_ref_iff Let_def
      env_suffix_not_sensitive dest: env_reference_clean)

end
