(* ===== verification/Dataset_Contracts.thy ===== *)
theory Dataset_Contracts
  imports Json Execution_Models
begin

text \<open>
  The contracts that name what a run executes: \<^verbatim>\<open>contracts/task_definition.py\<close> (metadata and its
  enumerations), \<^verbatim>\<open>contracts/dataset.py\<close>, \<^verbatim>\<open>contracts/task_snapshot.py\<close>, \<^verbatim>\<open>contracts/evaluation_refs.py\<close>,
  \<^verbatim>\<open>contracts/interactive_world.py\<close> and \<^verbatim>\<open>contracts/execution_release.py\<close>, each with its validators.
\<close>

section \<open>Portable paths\<close>

text \<open>A relative \<^verbatim>\<open>PurePosixPath\<close>: empty and dot components disappear, and no component at all reads as a dot.\<close>

definition posix_parts :: "string \<Rightarrow> string list" where
  "posix_parts value = filter (\<lambda>p. p \<noteq> [] \<and> p \<noteq> ''.'') (split_on (CHR ''/'') value)"

definition posix_absolute :: "string \<Rightarrow> bool" where
  "posix_absolute value = starts_with ''/'' value"

definition as_posix :: "string \<Rightarrow> string" where
  "as_posix value = (if posix_parts value = [] then ''.'' else join_with (CHR ''/'') (posix_parts value))"

definition validate_posix_path :: "string \<Rightarrow> string \<Rightarrow> string + string" where
  "validate_posix_path name value =
     bindE (guardE (CHR 0x5C \<notin> set value) (name @ '' must use portable forward slashes'')) (\<lambda>_.
     bindE (guardE (\<not> (posix_absolute value
         \<or> list_ex (\<lambda>p. p \<in> {'''', ''.'', ''..''}) (posix_parts value)))
       (name @ '' must be a portable relative path'')) (\<lambda>_.
     bindE (guardE (as_posix value = value) (name @ '' must be a normalized portable relative path'')) (\<lambda>_.
       Inr value)))"

text \<open>\<^verbatim>\<open>[A-Za-z0-9][A-Za-z0-9._-]*\<close>, matched against the whole text.\<close>

definition is_alnum_char :: "char \<Rightarrow> bool" where
  "is_alnum_char c \<longleftrightarrow>
     (let n = of_char c :: nat in (48 \<le> n \<and> n \<le> 57) \<or> (65 \<le> n \<and> n \<le> 90) \<or> (97 \<le> n \<and> n \<le> 122))"

definition safe_segment :: "string \<Rightarrow> bool" where
  "safe_segment value \<longleftrightarrow>
     (case value of [] \<Rightarrow> False
      | c # cs \<Rightarrow> is_alnum_char c \<and> list_all (\<lambda>d. is_alnum_char d \<or> d \<in> set ''._-'') cs)"

definition git_sha :: "string \<Rightarrow> bool" where
  "git_sha value \<longleftrightarrow> length value = 40 \<and> list_all is_lower_hex value"

section \<open>Tasks\<close>

datatype difficulty = Easy | Medium | Hard

datatype task_lifecycle = Lc_Proposed | Lc_Active | Lc_Deprecated | Lc_Retired

datatype visibility = Vis_Public | Vis_Private | Vis_Holdout

record task_metadata =
  tm_identity :: entity_identity
  tm_lifecycle :: task_lifecycle
  tm_visibility :: visibility

definition validate_task_metadata :: "task_metadata \<Rightarrow> string + task_metadata" where
  "validate_task_metadata m = bindE (validate_entity_identity (tm_identity m)) (\<lambda>_. Inr m)"

section \<open>Datasets\<close>

definition validate_dataset_id :: "string \<Rightarrow> string + string" where
  "validate_dataset_id value =
     bindE (guardE (safe_segment value)
       ''dataset_id must use only letters, numbers, dot, underscore, and hyphen'') (\<lambda>_. Inr value)"

record dataset_task_entry =
  dt_task_id :: string
  dt_path :: string
  dt_task_kind :: task_kind

definition validate_task_entry :: "dataset_task_entry \<Rightarrow> string + dataset_task_entry" where
  "validate_task_entry t =
     bindE (check_texts [dt_task_id t, dt_path t]) (\<lambda>_.
     bindE (validate_posix_path ''path'' (dt_path t)) (\<lambda>_. Inr t))"

record dataset_generation =
  dg_seed :: "int option"
  dg_config_ref :: "string option"

definition validate_generation :: "dataset_generation \<Rightarrow> string + dataset_generation" where
  "validate_generation g =
     bindE (case dg_config_ref g of None \<Rightarrow> Inr ()
       | Some c \<Rightarrow> bindE (check_texts [c]) (\<lambda>_. bindE (validate_posix_path ''path'' c) (\<lambda>_. Inr ()))) (\<lambda>_.
     bindE (guardE (\<not> (dg_seed g = None \<and> dg_config_ref g = None))
       ''generation must declare a seed, config_ref, or both'') (\<lambda>_. Inr g))"

record dataset_manifest =
  dm_dataset_id :: string
  dm_description :: string
  dm_tasks :: "dataset_task_entry list"
  dm_generation :: "dataset_generation option"

text \<open>The loop over neighbours of the sorted paths.\<close>

fun no_adjacent_prefix :: "'a list list \<Rightarrow> bool" where
  "no_adjacent_prefix (x # y # rest) = (take (length x) y \<noteq> x \<and> no_adjacent_prefix (y # rest))"
| "no_adjacent_prefix _ = True"

definition validate_unique_tasks :: "dataset_manifest \<Rightarrow> string + unit" where
  "validate_unique_tasks m =
     bindE (guardE (distinct (map dt_task_id (dm_tasks m))) ''task_id values must be unique'') (\<lambda>_.
     bindE (guardE (distinct (map dt_path (dm_tasks m))) ''task paths must be unique'') (\<lambda>_.
     guardE (no_adjacent_prefix (sort (map (\<lambda>t. posix_parts (dt_path t)) (dm_tasks m))))
       ''task paths must not overlap''))"

definition validate_dataset_manifest :: "dataset_manifest \<Rightarrow> string + dataset_manifest" where
  "validate_dataset_manifest m =
     bindE (check_texts [dm_dataset_id m, dm_description m]) (\<lambda>_.
     bindE (validate_dataset_id (dm_dataset_id m)) (\<lambda>_.
     bindE (checkE_all (\<lambda>t. bindE (validate_task_entry t) (\<lambda>_. Inr ())) (dm_tasks m)) (\<lambda>_.
     bindE (guardE (dm_tasks m \<noteq> []) ''tasks list must contain at least one task'') (\<lambda>_.
     bindE (case dm_generation m of None \<Rightarrow> Inr ()
       | Some g \<Rightarrow> bindE (validate_generation g) (\<lambda>_. Inr ())) (\<lambda>_.
     bindE (validate_unique_tasks m) (\<lambda>_. Inr m))))))"

datatype dataset_ref =
    Repository_Dataset (rd_dataset_id: string) (rd_source_revision: string) (rd_manifest_path: string)
  | Bundle_Dataset (rd_dataset_id: string) (rd_artifact: artifact_ref)

fun validate_dataset_ref :: "dataset_ref \<Rightarrow> string + dataset_ref" where
  "validate_dataset_ref (Repository_Dataset i r p) =
     bindE (check_texts [i, r, p]) (\<lambda>_.
     bindE (validate_dataset_id i) (\<lambda>_.
     bindE (guardE (git_sha r) ''source_revision must be a lowercase 40-character Git commit'') (\<lambda>_.
     bindE (validate_posix_path ''path'' p) (\<lambda>_. Inr (Repository_Dataset i r p)))))"
| "validate_dataset_ref (Bundle_Dataset i a) =
     bindE (check_texts [i]) (\<lambda>_.
     bindE (validate_dataset_id i) (\<lambda>_.
     bindE (validate_artifact_ref a) (\<lambda>_. Inr (Bundle_Dataset i a))))"

fun dataset_reference_key :: "dataset_ref \<Rightarrow> string" where
  "dataset_reference_key (Repository_Dataset i r p) = ''repository:'' @ i @ ''@'' @ r @ '':'' @ p"
| "dataset_reference_key (Bundle_Dataset i a) = ''bundle:'' @ i @ ''@'' @ ar_sha256 a"

record dataset_publication =
  dp_dataset_ref :: dataset_ref
  dp_label :: string
  dp_published_at :: py_datetime

text \<open>A label that passed the id pattern is ASCII, where \<^verbatim>\<open>casefold\<close> is \<^verbatim>\<open>lower\<close>.\<close>

definition validate_publication :: "dataset_publication \<Rightarrow> string + dataset_publication" where
  "validate_publication p =
     bindE (validate_dataset_ref (dp_dataset_ref p)) (\<lambda>_.
     bindE (check_texts [dp_label p]) (\<lambda>_.
     bindE (validate_dataset_id (dp_label p)) (\<lambda>_.
     bindE (guardE (py_lower (dp_label p) \<noteq> ''latest'')
       ''latest is a mutable selector and cannot be a persisted publication label'') (\<lambda>_.
     bindE (guardE (is_aware (dp_published_at p)) ''published_at must include a timezone'') (\<lambda>_. Inr p)))))"

section \<open>Task snapshots\<close>

datatype task_snapshot_ref =
    Repository_Snapshot (sn_task_id: string) (sn_task_identity: entity_identity)
      (sn_source_revision: string) (sn_task_path: string)
  | Artifact_Snapshot (sn_task_id: string) (sn_task_identity: entity_identity) (sn_artifact: artifact_ref)

fun validate_snapshot :: "task_snapshot_ref \<Rightarrow> string + task_snapshot_ref" where
  "validate_snapshot (Repository_Snapshot i e r p) =
     bindE (check_texts [i, r, p]) (\<lambda>_.
     bindE (validate_entity_identity e) (\<lambda>_.
     bindE (guardE (git_sha r) ''source_revision must be a lowercase 40-character Git commit'') (\<lambda>_.
     bindE (validate_posix_path ''task_path'' p) (\<lambda>_.
     bindE (guardE (ei_key e = i) ''task identity key must match task_id'') (\<lambda>_.
       Inr (Repository_Snapshot i e r p))))))"
| "validate_snapshot (Artifact_Snapshot i e a) =
     bindE (check_texts [i]) (\<lambda>_.
     bindE (validate_entity_identity e) (\<lambda>_.
     bindE (validate_artifact_ref a) (\<lambda>_.
     bindE (guardE (ei_key e = i) ''task identity key must match task_id'') (\<lambda>_.
       Inr (Artifact_Snapshot i e a)))))"

text \<open>The exact retained source, without the task id.\<close>

datatype source_key = Repository_Source string string | Artifact_Source string string int string

fun task_snapshot_source_key :: "task_snapshot_ref \<Rightarrow> source_key" where
  "task_snapshot_source_key (Repository_Snapshot i e r p) = Repository_Source r p"
| "task_snapshot_source_key (Artifact_Snapshot i e a) =
     Artifact_Source (ar_artifact_id a) (ar_sha256 a) (ar_size_bytes a) (ar_media_type a)"

section \<open>Evaluation regimes and family releases\<close>

record evaluation_regime_ref =
  er_regime_id :: string
  er_artifact :: artifact_ref

definition validate_regime :: "evaluation_regime_ref \<Rightarrow> string + evaluation_regime_ref" where
  "validate_regime r =
     bindE (check_texts [er_regime_id r]) (\<lambda>_. bindE (validate_artifact_ref (er_artifact r)) (\<lambda>_. Inr r))"

record world_build_ref =
  wb_task_world_id :: string
  wb_entry_point :: string
  wb_artifact_sha256 :: string

record world_profile_ref =
  wp_task_world_id :: string
  wp_profile_id :: string
  wp_profile_content_sha256 :: string

definition validate_world_build :: "world_build_ref \<Rightarrow> string + world_build_ref" where
  "validate_world_build b =
     bindE (guardE (\<not> py_blank (wb_task_world_id b) \<and> \<not> py_blank (wb_entry_point b))
       ''world-build identity values must be non-empty'') (\<lambda>_.
     bindE (guardE (is_sha256 (wb_artifact_sha256 b)) ''sha256'') (\<lambda>_. Inr b))"

definition validate_world_profile :: "world_profile_ref \<Rightarrow> string + world_profile_ref" where
  "validate_world_profile p =
     bindE (guardE (\<not> py_blank (wp_task_world_id p) \<and> \<not> py_blank (wp_profile_id p))
       ''Interactive World profile identity values must be non-empty'') (\<lambda>_.
     bindE (guardE (is_sha256 (wp_profile_content_sha256 p)) ''sha256'') (\<lambda>_. Inr p))"

datatype release_visibility = Release_Public | Release_Holdout

record world_release =
  we_world_identity :: entity_identity
  we_profile_identity :: entity_identity
  we_world_build :: world_build_ref
  we_profile :: world_profile_ref

record lifecycle_release =
  lr_lifecycle_identity :: entity_identity
  lr_variant_identity :: "entity_identity option"
  lr_visibility :: release_visibility
  lr_template_id :: string
  lr_lifecycle_id :: string
  lr_variant_id :: "string option"
  lr_lifecycle_spec_sha256 :: string
  lr_package_sha256 :: string
  lr_executable_artifact_sha256 :: string
  lr_operation_protocol_sha256 :: "string option"

datatype family_release = World_Release world_release | Lifecycle_Release lifecycle_release

definition validate_world_release :: "world_release \<Rightarrow> string + unit" where
  "validate_world_release r =
     bindE (validate_entity_identity (we_world_identity r)) (\<lambda>_.
     bindE (validate_entity_identity (we_profile_identity r)) (\<lambda>_.
     bindE (validate_world_build (we_world_build r)) (\<lambda>_.
     bindE (validate_world_profile (we_profile r)) (\<lambda>_.
     guardE (wp_task_world_id (we_profile r) = wb_task_world_id (we_world_build r))
       ''planned world profile must belong to the planned world build''))))"

definition validate_lifecycle_release :: "lifecycle_release \<Rightarrow> string + unit" where
  "validate_lifecycle_release r =
     bindE (validate_entity_identity (lr_lifecycle_identity r)) (\<lambda>_.
     bindE (case lr_variant_identity r of None \<Rightarrow> Inr ()
       | Some e \<Rightarrow> bindE (validate_entity_identity e) (\<lambda>_. Inr ())) (\<lambda>_.
     bindE (check_texts ([lr_template_id r, lr_lifecycle_id r] @ opt_list (lr_variant_id r))) (\<lambda>_.
     bindE (checkE_all (\<lambda>s. guardE (is_sha256 s) ''sha256'')
       ([lr_lifecycle_spec_sha256 r, lr_package_sha256 r, lr_executable_artifact_sha256 r]
        @ opt_list (lr_operation_protocol_sha256 r))) (\<lambda>_.
     guardE ((lr_variant_identity r = None) = (lr_variant_id r = None))
       ''planned lifecycle variant identity and variant ID must be supplied together''))))"

fun validate_family_release :: "family_release \<Rightarrow> string + unit" where
  "validate_family_release (World_Release r) = validate_world_release r"
| "validate_family_release (Lifecycle_Release r) = validate_lifecycle_release r"

text \<open>\<^verbatim>\<open>isinstance(release, WorldExecutionRelease)\<close> and the lifecycle one, also on an absent release.\<close>

fun is_world_release :: "family_release option \<Rightarrow> bool" where
  "is_world_release (Some (World_Release _)) = True"
| "is_world_release _ = False"

fun is_lifecycle_release :: "family_release option \<Rightarrow> bool" where
  "is_lifecycle_release (Some (Lifecycle_Release _)) = True"
| "is_lifecycle_release _ = False"

section \<open>Overlapping task paths\<close>

text \<open>A list between another and an extension of it in the lexicographic order extends it too.\<close>

lemma prefix_between:
  fixes x :: "'a::linorder list"
  shows "x \<le> y \<Longrightarrow> y \<le> x @ s \<Longrightarrow> \<exists>t. y = x @ t"
proof (induction x arbitrary: y)
  case (Cons a x)
  then obtain b z where y: "y = b # z" by (cases y) auto
  from Cons.prems have "b = a" "x \<le> z" "z \<le> x @ s" by (auto simp: y)
  with Cons.IH show ?case by (auto simp: y)
qed simp

lemma prefix_le:
  fixes x :: "'a::linorder list"
  shows "x \<le> x @ s"
  by (induction x) auto

lemma take_prefix_iff: "take (length x) y = x \<longleftrightarrow> (\<exists>t. y = x @ t)"
  by (metis append_eq_conv_conj append_take_drop_id)

lemma no_adjacent_prefix_head:
  fixes x :: "'a::linorder list"
  assumes "sorted (x # xs)" "no_adjacent_prefix (x # xs)" "z \<in> set xs"
  shows "\<not> (\<exists>t. z = x @ t)"
proof
  assume "\<exists>t. z = x @ t"
  then obtain t where z: "z = x @ t" by blast
  obtain y ys where xs: "xs = y # ys" using assms(3) by (cases xs) auto
  have "x \<le> y" "y \<le> z" using assms(1,3) by (auto simp: xs)
  then have "\<exists>s. y = x @ s" using prefix_between z by blast
  with assms(2) show False unfolding xs by (simp add: take_prefix_iff)
qed

lemma no_adjacent_prefix_sorted:
  fixes xs :: "'a::linorder list list"
  assumes "sorted xs"
  shows "no_adjacent_prefix xs \<longleftrightarrow> sorted_wrt (\<lambda>x y. \<not> (\<exists>t. y = x @ t)) xs"
  using assms
proof (induction xs)
  case (Cons x xs)
  show ?case
  proof
    assume a: "no_adjacent_prefix (x # xs)"
    then have "no_adjacent_prefix xs" by (cases xs) auto
    with a Cons no_adjacent_prefix_head [OF Cons.prems a]
    show "sorted_wrt (\<lambda>x y. \<not> (\<exists>t. y = x @ t)) (x # xs)" by auto
  next
    assume "sorted_wrt (\<lambda>x y. \<not> (\<exists>t. y = x @ t)) (x # xs)"
    with Cons show "no_adjacent_prefix (x # xs)" by (cases xs) (auto simp: take_prefix_iff)
  qed
qed simp

lemma no_adjacent_prefix_iff:
  fixes xs :: "'a::linorder list list"
  assumes "sorted xs"
  shows "no_adjacent_prefix xs \<longleftrightarrow>
    distinct xs \<and> (\<forall>x\<in>set xs. \<forall>y\<in>set xs. x \<noteq> y \<longrightarrow> \<not> (\<exists>t. y = x @ t))"
  unfolding no_adjacent_prefix_sorted [OF assms] using assms
proof (induction xs)
  case (Cons x xs)
  have before: "x \<le> y" if "y \<in> set xs" for y using Cons.prems that by simp
  have conv: "y = x" if "y \<in> set xs" "x = y @ t" for y t
    using before [OF that(1)] prefix_le [of y t] that(2) by simp
  show ?case
  proof
    assume a: "sorted_wrt (\<lambda>x y. \<not> (\<exists>t. y = x @ t)) (x # xs)"
    then have "x \<notin> set xs" by (auto dest!: bspec [where x = x])
    with a Cons conv show "distinct (x # xs)
        \<and> (\<forall>u\<in>set (x # xs). \<forall>y\<in>set (x # xs). u \<noteq> y \<longrightarrow> \<not> (\<exists>t. y = u @ t))" by auto
  next
    assume "distinct (x # xs)
        \<and> (\<forall>u\<in>set (x # xs). \<forall>y\<in>set (x # xs). u \<noteq> y \<longrightarrow> \<not> (\<exists>t. y = u @ t))"
    with Cons show "sorted_wrt (\<lambda>x y. \<not> (\<exists>t. y = x @ t)) (x # xs)" by auto
  qed
qed simp

lemma append_eq_prefix: "x @ p = y @ q \<Longrightarrow> (\<exists>t. y = x @ t) \<or> (\<exists>t. x = y @ t)"
  by (auto simp: append_eq_append_conv2)

lemma unique_tasks_iff:
  "isOK (validate_unique_tasks m) \<longleftrightarrow>
     distinct (map dt_task_id (dm_tasks m)) \<and> distinct (map (\<lambda>t. posix_parts (dt_path t)) (dm_tasks m))
     \<and> (\<forall>a\<in>set (dm_tasks m). \<forall>b\<in>set (dm_tasks m). a \<noteq> b \<longrightarrow>
          (\<forall>p q. posix_parts (dt_path a) @ p \<noteq> posix_parts (dt_path b) @ q))"
  (is "_ \<longleftrightarrow> ?ids \<and> distinct (map ?f _) \<and> ?apart")
proof -
  let ?xs = "map ?f (dm_tasks m)"
  have adj: "no_adjacent_prefix (sort ?xs) \<longleftrightarrow>
      distinct ?xs \<and> (\<forall>x\<in>set ?xs. \<forall>y\<in>set ?xs. x \<noteq> y \<longrightarrow> \<not> (\<exists>t. y = x @ t))"
    using no_adjacent_prefix_iff [OF sorted_sort, of ?xs] by simp
  have paths: "distinct ?xs \<Longrightarrow> distinct (map dt_path (dm_tasks m))"
    by (auto simp: distinct_map inj_on_def)
  have apart: "?apart"
    if d: "distinct ?xs" and u: "\<forall>x\<in>set ?xs. \<forall>y\<in>set ?xs. x \<noteq> y \<longrightarrow> \<not> (\<exists>t. y = x @ t)"
  proof (intro ballI impI allI notI)
    fix a b p q
    assume ab: "a \<in> set (dm_tasks m)" "b \<in> set (dm_tasks m)" "a \<noteq> b" "?f a @ p = ?f b @ q"
    have ne: "?f a \<noteq> ?f b" using d ab(1-3) by (auto simp: distinct_map dest: inj_onD)
    have mem: "?f a \<in> set ?xs" "?f b \<in> set ?xs" using ab(1,2) by auto
    show False
      using append_eq_prefix [OF ab(4)] u [rule_format, OF mem ne] u [rule_format, OF mem(2,1) ne [symmetric]]
      by blast
  qed
  have conv: "\<forall>x\<in>set ?xs. \<forall>y\<in>set ?xs. x \<noteq> y \<longrightarrow> \<not> (\<exists>t. y = x @ t)" if apt: "?apart"
  proof (intro ballI impI notI)
    fix x y
    assume xy: "x \<in> set ?xs" "y \<in> set ?xs" "x \<noteq> y" and "\<exists>t. y = x @ t"
    then obtain t a b where t: "y = x @ t" "a \<in> set (dm_tasks m)" "b \<in> set (dm_tasks m)"
      "x = ?f a" "y = ?f b" by auto
    then have "a \<noteq> b" using xy(3) by auto
    with apt t(2,3) have "?f a @ t \<noteq> ?f b @ []" by blast
    with t show False by simp
  qed
  show ?thesis
    unfolding validate_unique_tasks_def isOK_bindE_const isOK_guardE adj
    by (intro iffI conjI; elim conjE; (assumption | rule apart paths conv; assumption)+)
qed

text \<open>
  A dataset manifest is accepted exactly when its fields are valid, its task ids differ, and no
  location of the repository belongs to two of its tasks: the check of the code, which sorts the
  paths by their components and compares neighbours only, misses no overlapping pair and refuses no
  disjoint one.
\<close>

theorem dataset_tasks_disjoint:
  "isOK (validate_dataset_manifest m) \<longleftrightarrow>
     \<not> py_blank (dm_dataset_id m) \<and> \<not> py_blank (dm_description m) \<and> safe_segment (dm_dataset_id m)
     \<and> dm_tasks m \<noteq> [] \<and> (\<forall>t\<in>set (dm_tasks m). isOK (validate_task_entry t))
     \<and> (\<forall>g. dm_generation m = Some g \<longrightarrow> isOK (validate_generation g))
     \<and> distinct (map dt_task_id (dm_tasks m))
     \<and> distinct (map (\<lambda>t. posix_parts (dt_path t)) (dm_tasks m))
     \<and> (\<forall>a\<in>set (dm_tasks m). \<forall>b\<in>set (dm_tasks m). a \<noteq> b \<longrightarrow>
          (\<forall>p q. posix_parts (dt_path a) @ p \<noteq> posix_parts (dt_path b) @ q))"
  unfolding validate_dataset_manifest_def isOK_bindE_const isOK_guardE isOK_checkE_all
    isOK_check_texts validate_dataset_id_def isOK_simps unique_tasks_iff
  by (auto simp: isOK_bindE_const split: option.splits)

definition demo_dataset :: dataset_manifest where
  "demo_dataset = \<lparr>dm_dataset_id = ''hydro-1'', dm_description = ''Hydraulics'',
     dm_tasks = [\<lparr>dt_task_id = ''pump'', dt_path = ''tasks/pump'', dt_task_kind = Artifact_Task\<rparr>,
       \<lparr>dt_task_id = ''pipe'', dt_path = ''tasks/pipe'', dt_task_kind = World_Task\<rparr>],
     dm_generation = None\<rparr>"

theorem dataset_tasks_disjoint_witness:
  "posix_parts ''tasks/pump'' @ [''a''] \<noteq> posix_parts ''tasks/pipe'' @ [''b'']
   \<and> isOK (validate_dataset_manifest demo_dataset)"
proof -
  have ok: "isOK (validate_dataset_manifest demo_dataset)" by code_simp
  have tasks: "hd (dm_tasks demo_dataset) \<in> set (dm_tasks demo_dataset)"
    "last (dm_tasks demo_dataset) \<in> set (dm_tasks demo_dataset)"
    "hd (dm_tasks demo_dataset) \<noteq> last (dm_tasks demo_dataset)"
    "dt_path (hd (dm_tasks demo_dataset)) = ''tasks/pump''"
    "dt_path (last (dm_tasks demo_dataset)) = ''tasks/pipe''"
    by (simp_all add: demo_dataset_def)
  have "posix_parts (dt_path (hd (dm_tasks demo_dataset))) @ [''a'']
      \<noteq> posix_parts (dt_path (last (dm_tasks demo_dataset))) @ [''b'']"
    using ok [unfolded dataset_tasks_disjoint] tasks(1-3) by blast
  with ok show ?thesis unfolding tasks(4,5) by blast
qed

end
