(* ===== verification/Experiment_Manifest.thy ===== *)
theory Experiment_Manifest
  imports Dataset_Contracts
begin

text \<open>
  Experiment configuration, \<^verbatim>\<open>contracts/experiment_manifest.py\<close>: task selection, agents as the user
  writes them, agent conditions as a run retains them, compute and reviewers, and the manifest with
  its rule on agent concurrency. Instances nested in a model are not validated a second time, as in
  pydantic: a validator below checks the fields of its own class.
\<close>

section \<open>Tasks, clients and agents\<close>

record task_selector =
  ts_dataset :: "dataset_ref option"
  ts_include_patterns :: "string list"
  ts_exclude_patterns :: "string list"
  ts_domains :: "string list"
  ts_difficulties :: "difficulty list"
  ts_lifecycle_filter :: "task_lifecycle list"
  ts_visibility_filter :: "visibility list"

definition validate_task_selector :: "task_selector \<Rightarrow> string + task_selector" where
  "validate_task_selector s =
     bindE (guardE (\<not> list_ex (\<lambda>l. l \<in> {Lc_Proposed, Lc_Retired}) (ts_lifecycle_filter s))
       ''lifecycle_filter cannot include proposed or retired tasks'') (\<lambda>_. Inr s)"

record client_config =
  cc_kind :: string
  cc_settings :: json_dict

definition validate_client :: "client_config \<Rightarrow> string + client_config" where
  "validate_client c = bindE (check_texts [cc_kind c]) (\<lambda>_. Inr c)"

definition client_eq :: "client_config \<Rightarrow> client_config \<Rightarrow> bool" where
  "client_eq a b \<longleftrightarrow> cc_kind a = cc_kind b \<and> json_dict_eq (cc_settings a) (cc_settings b)"

definition optional_client_eq :: "client_config option \<Rightarrow> client_config option \<Rightarrow> bool" where
  "optional_client_eq a b =
     (case (a, b) of (None, None) \<Rightarrow> True | (Some x, Some y) \<Rightarrow> client_eq x y | _ \<Rightarrow> False)"

record agent_config =
  ag_name :: string
  ag_adapter :: string
  ag_model :: string
  ag_client :: "client_config option"
  ag_parameters :: json_dict
  ag_system_prompt :: "string option"
  ag_system_prompt_file :: "string option"
  ag_n_concurrent :: "int option"
  ag_concurrency_group :: "string option"

text \<open>The raw dictionary of an agent, before its fields are read: \<^verbatim>\<open>harness\<close> is a synonym of \<^verbatim>\<open>adapter\<close>.\<close>

definition rewrite_harness_to_adapter :: "json_dict \<Rightarrow> string + json_dict" where
  "rewrite_harness_to_adapter data =
     (let has_adapter = map_of data ''adapter'' \<noteq> None; harness = map_of data ''harness''
      in if has_adapter \<and> harness \<noteq> None then Inl ''Provide either 'adapter' or 'harness', not both''
         else case harness of
           None \<Rightarrow> Inr data
         | Some v \<Rightarrow> Inr (filter (\<lambda>(k, _). k \<noteq> ''harness'') data @ [(''adapter'', v)]))"

text \<open>\<^verbatim>\<open>resolve_env_ref\<close> of \<^verbatim>\<open>contracts/validators.py\<close>; the process environment is a parameter.\<close>

definition resolve_env_ref :: "(string \<Rightarrow> string option) \<Rightarrow> string \<Rightarrow> string + string" where
  "resolve_env_ref environ value =
     (if \<not> starts_with ''env:'' value then Inr value
      else case environ (drop 4 value) of
        None \<Rightarrow> Inl ''Environment variable is not set''
      | Some v \<Rightarrow> Inr v)"

definition validate_concurrency :: "agent_config \<Rightarrow> string + unit" where
  "validate_concurrency a =
     bindE (guardE (\<not> (ag_concurrency_group a \<noteq> None \<and> ag_n_concurrent a = None))
       ''concurrency_group requires n_concurrent'') (\<lambda>_.
     guardE (\<not> list_ex (\<lambda>(k, _). k \<in> {''n_concurrent'', ''concurrency_group''}) (ag_parameters a))
       ''n_concurrent and concurrency_group belong on the agent configuration, not parameters'')"

definition build_agent_config :: "(string \<Rightarrow> string option) \<Rightarrow> agent_config \<Rightarrow> string + agent_config" where
  "build_agent_config environ a =
     bindE (check_texts ([ag_name a, ag_adapter a] @ opt_list (ag_concurrency_group a))) (\<lambda>_.
     bindE (resolve_env_ref environ (ag_model a)) (\<lambda>model.
     bindE (check_texts [model]) (\<lambda>_.
     bindE (guardE (optional_ok (\<lambda>n. 1 \<le> n) (ag_n_concurrent a)) ''n_concurrent'') (\<lambda>_.
     bindE (validate_concurrency a) (\<lambda>_.
     bindE (guardE (\<not> (ag_system_prompt a \<noteq> None \<and> ag_system_prompt_file a \<noteq> None))
       ''agent config must provide system_prompt or system_prompt_file, not both'') (\<lambda>_.
       Inr (a\<lparr>ag_model := model\<rparr>)))))))"

record agent_condition =
  ac_identity :: entity_identity
  ac_adapter :: string
  ac_model :: string
  ac_client :: "client_config option"
  ac_system_prompt :: "string option"
  ac_tool_versions :: dict
  ac_parameters :: json_dict
  ac_limits :: json_dict

definition validate_agent_condition :: "agent_condition \<Rightarrow> string + agent_condition" where
  "validate_agent_condition c =
     bindE (check_texts [ac_adapter c, ac_model c]) (\<lambda>_.
     bindE (guardE (\<not> list_ex (\<lambda>(name, version). py_blank name \<or> py_blank version) (ac_tool_versions c))
       ''agent condition tool names and versions must not be blank'') (\<lambda>_. Inr c))"

section \<open>Compute and reviewers\<close>

record compute_config =
  cp_backend :: string
  cp_stream :: bool
  cp_resource_limits :: json_dict
  cp_timeout_override :: "int option"

definition validate_compute :: "compute_config \<Rightarrow> string + compute_config" where
  "validate_compute c =
     bindE (check_texts [cp_backend c]) (\<lambda>_.
     bindE (guardE (optional_ok (\<lambda>t. 0 < t) (cp_timeout_override c)) ''greater than 0'') (\<lambda>_. Inr c))"

record reviewer_endpoint =
  re_name :: string
  re_model :: string
  re_provider :: string
  re_base_url :: "string option"
  re_base_url_env :: "string option"
  re_api_key_env :: "string option"
  re_temperature :: "rat option"
  re_max_tokens :: "int option"
  re_stream_mode :: string

definition validate_reviewer_endpoint :: "reviewer_endpoint \<Rightarrow> string + reviewer_endpoint" where
  "validate_reviewer_endpoint r =
     bindE (check_texts [re_name r, re_model r, re_provider r, re_stream_mode r]) (\<lambda>_.
     bindE (guardE (optional_ok (\<lambda>t. 0 < t) (re_max_tokens r)) ''greater than 0'') (\<lambda>_. Inr r))"

record reviewer_config =
  rc_enabled :: bool
  rc_required :: bool
  rc_models :: "reviewer_endpoint list"
  rc_fail_on_error :: bool

section \<open>The manifest\<close>

record experiment_manifest =
  em_experiment_id :: string
  em_name :: string
  em_description :: "string option"
  em_tasks :: task_selector
  em_agents :: "agent_config list"
  em_compute :: compute_config
  em_repetitions :: int
  em_disable_verification :: bool
  em_reviewer :: "reviewer_config option"

definition job_limit :: "experiment_manifest \<Rightarrow> string + int" where
  "job_limit m =
     (case map_of (cp_resource_limits (em_compute m)) ''n_concurrent_trials'' of
        None \<Rightarrow> Inr 1 | Some v \<Rightarrow> py_int v)"

text \<open>The loop over the agents; \<open>groups\<close> is the dictionary filled by \<^verbatim>\<open>setdefault\<close>.\<close>

fun check_agent_groups :: "int \<Rightarrow> (string \<times> int) list \<Rightarrow> agent_config list \<Rightarrow> string + unit" where
  "check_agent_groups limit groups [] = Inr ()"
| "check_agent_groups limit groups (a # agents) =
     (case ag_n_concurrent a of
        None \<Rightarrow> check_agent_groups limit groups agents
      | Some n \<Rightarrow>
          if n > limit then Inl ''agent n_concurrent cannot exceed compute.resource_limits.n_concurrent_trials''
          else case ag_concurrency_group a of
            None \<Rightarrow> check_agent_groups limit groups agents
          | Some g \<Rightarrow>
              (case map_of groups g of
                 None \<Rightarrow> check_agent_groups limit (groups @ [(g, n)]) agents
               | Some previous \<Rightarrow>
                   if previous \<noteq> n then Inl ''agents in a concurrency_group must use the same n_concurrent''
                   else check_agent_groups limit groups agents))"

definition validate_agent_concurrency :: "experiment_manifest \<Rightarrow> string + unit" where
  "validate_agent_concurrency m = bindE (job_limit m) (\<lambda>limit. check_agent_groups limit [] (em_agents m))"

definition validate_manifest :: "experiment_manifest \<Rightarrow> string + experiment_manifest" where
  "validate_manifest m =
     bindE (check_texts [em_experiment_id m, em_name m]) (\<lambda>_.
     bindE (guardE (0 < em_repetitions m) ''greater than 0'') (\<lambda>_.
     bindE (guardE (em_agents m \<noteq> []) ''agents list must contain at least one agent configuration'') (\<lambda>_.
     bindE (validate_agent_concurrency m) (\<lambda>_. Inr m))))"

section \<open>The concurrency rule\<close>

text \<open>The numbers that the agents of a list give to the groups they are in.\<close>

definition group_numbers :: "agent_config list \<Rightarrow> (string \<times> int) set" where
  "group_numbers agents = {(g, n). \<exists>a\<in>set agents. ag_concurrency_group a = Some g \<and> ag_n_concurrent a = Some n}"

text \<open>What the loop has to establish, given the groups already seen.\<close>

definition groups_agree :: "int \<Rightarrow> (string \<times> int) set \<Rightarrow> agent_config list \<Rightarrow> bool" where
  "groups_agree limit seen agents \<longleftrightarrow>
     (\<forall>a\<in>set agents. \<forall>n. ag_n_concurrent a = Some n \<longrightarrow> n \<le> limit)
     \<and> (\<forall>g m n. (g, m) \<in> seen \<union> group_numbers agents \<longrightarrow> (g, n) \<in> seen \<union> group_numbers agents \<longrightarrow> m = n)"

lemma group_numbers_simps:
  "group_numbers [] = {}"
  "group_numbers (a # agents) =
     (case (ag_concurrency_group a, ag_n_concurrent a) of (Some g, Some n) \<Rightarrow> {(g, n)} | _ \<Rightarrow> {})
       \<union> group_numbers agents"
  by (auto simp: group_numbers_def split: option.splits)

lemma groups_agree_seen: "groups_agree limit seen agents \<Longrightarrow> (g, k) \<in> seen \<Longrightarrow> (g, n) \<in> seen \<Longrightarrow> k = n"
  unfolding groups_agree_def by blast

lemma check_agent_groups_iff:
  "distinct (map fst groups) \<Longrightarrow>
    isOK (check_agent_groups limit groups agents) \<longleftrightarrow> groups_agree limit (set groups) agents"
proof (induction agents arbitrary: groups)
  case Nil
  then show ?case by (auto simp: groups_agree_def group_numbers_simps dest: eq_key_imp_eq_value)
next
  case (Cons a agents)
  show ?case
  proof (cases "ag_n_concurrent a")
    case None
    then show ?thesis using Cons by (simp add: groups_agree_def group_numbers_simps split: option.splits)
  next
    case n: (Some n)
    show ?thesis
    proof (cases "ag_concurrency_group a")
      case None
      then show ?thesis using Cons n by (auto simp: groups_agree_def group_numbers_simps)
    next
      case g: (Some g)
      note simps = groups_agree_def group_numbers_simps n g
      show ?thesis
      proof (cases "map_of groups g")
        case None
        then have "g \<notin> fst ` set groups" by (simp add: map_of_eq_None_iff)
        then have "isOK (check_agent_groups limit (groups @ [(g, n)]) agents)
            \<longleftrightarrow> groups_agree limit (set (groups @ [(g, n)])) agents"
          using Cons by (intro Cons.IH) simp
        then show ?thesis using None by (simp add: simps; blast)
      next
        case (Some k)
        then have mem: "(g, k) \<in> set groups" by (rule map_of_SomeD)
        show ?thesis
        proof (cases "k = n")
          case True
          then have "insert (g, n) (set groups \<union> group_numbers agents) = set groups \<union> group_numbers agents"
            using mem by blast
          then show ?thesis using Cons Some True by (simp add: simps; blast)
        next
          case False
          then have "\<not> groups_agree limit (set groups) (a # agents)"
            using mem by (auto simp: simps)
          then show ?thesis using Some False n g by simp
        qed
      qed
    qed
  qed
qed

lemma groups_agree_pairwise:
  "groups_agree limit {} agents \<longleftrightarrow>
     (\<forall>a\<in>set agents. \<forall>n. ag_n_concurrent a = Some n \<longrightarrow> n \<le> limit)
     \<and> (\<forall>a\<in>set agents. \<forall>b\<in>set agents. \<forall>g k n.
          ag_concurrency_group a = Some g \<longrightarrow> ag_concurrency_group b = Some g \<longrightarrow>
          ag_n_concurrent a = Some k \<longrightarrow> ag_n_concurrent b = Some n \<longrightarrow> k = n)"
  unfolding groups_agree_def group_numbers_def Un_empty_left mem_Collect_eq prod.case by blast

text \<open>
  The agents of an accepted manifest fit its job limit and agree within their concurrency groups:
  the one pass over the agents, which remembers the first member of each group, accepts exactly the
  lists in which no agent exceeds the limit and any two members of a group have the same number.
\<close>

theorem manifest_concurrency_rule:
  "isOK (validate_agent_concurrency m) \<longleftrightarrow>
     (\<exists>limit. job_limit m = Inr limit
        \<and> (\<forall>a\<in>set (em_agents m). \<forall>n. ag_n_concurrent a = Some n \<longrightarrow> n \<le> limit)
        \<and> (\<forall>a\<in>set (em_agents m). \<forall>b\<in>set (em_agents m). \<forall>g k n.
             ag_concurrency_group a = Some g \<longrightarrow> ag_concurrency_group b = Some g \<longrightarrow>
             ag_n_concurrent a = Some k \<longrightarrow> ag_n_concurrent b = Some n \<longrightarrow> k = n))"
  unfolding validate_agent_concurrency_def isOK_bindE
  by (simp add: check_agent_groups_iff groups_agree_pairwise)

end
