(* ===== verification/Resolved_Run.thy ===== *)
theory Resolved_Run
  imports Experiment_Manifest
begin

text \<open>
  The requested condition of one run, \<^verbatim>\<open>contracts/resolved_run.py\<close>: the specification with its
  validators and \<^verbatim>\<open>resolve_run_spec\<close>, which builds it from a manifest, the task snapshots and the agent
  conditions, and retains no secret.
\<close>

section \<open>Model dumps\<close>

text \<open>\<^verbatim>\<open>model_dump(mode="python")\<close> of the models that are scanned for secrets.\<close>

definition opt_text :: "string option \<Rightarrow> json" where
  "opt_text x = (case x of None \<Rightarrow> J_Null | Some s \<Rightarrow> J_Text s)"

definition opt_int :: "int option \<Rightarrow> json" where
  "opt_int x = (case x of None \<Rightarrow> J_Null | Some i \<Rightarrow> J_Int i)"

definition identity_dump :: "entity_identity \<Rightarrow> json" where
  "identity_dump e = J_Dict [(''id'', J_Uuid (ei_id e)), (''key'', J_Text (ei_key e)),
     (''version'', J_Int (ei_version e)), (''aliases'', J_List (map J_Text (ei_aliases e)))]"

definition client_dump :: "client_config option \<Rightarrow> json" where
  "client_dump x = (case x of None \<Rightarrow> J_Null
     | Some c \<Rightarrow> J_Dict [(''kind'', J_Text (cc_kind c)), (''settings'', J_Dict (cc_settings c))])"

definition condition_dump :: "agent_condition \<Rightarrow> json" where
  "condition_dump c = J_Dict [(''identity'', identity_dump (ac_identity c)),
     (''adapter'', J_Text (ac_adapter c)), (''model'', J_Text (ac_model c)),
     (''client'', client_dump (ac_client c)), (''system_prompt'', opt_text (ac_system_prompt c)),
     (''tool_versions'', J_Dict (map (\<lambda>(k, v). (k, J_Text v)) (ac_tool_versions c))),
     (''parameters'', J_Dict (ac_parameters c)), (''limits'', J_Dict (ac_limits c))]"

definition endpoint_dump :: "reviewer_endpoint \<Rightarrow> json" where
  "endpoint_dump r = J_Dict [(''name'', J_Text (re_name r)), (''model'', J_Text (re_model r)),
     (''provider'', J_Text (re_provider r)), (''base_url'', opt_text (re_base_url r)),
     (''base_url_env'', opt_text (re_base_url_env r)), (''api_key_env'', opt_text (re_api_key_env r)),
     (''temperature'', case re_temperature r of None \<Rightarrow> J_Null | Some t \<Rightarrow> J_Float t),
     (''max_tokens'', opt_int (re_max_tokens r)), (''stream_mode'', J_Text (re_stream_mode r))]"

definition reviewer_dump :: "reviewer_config \<Rightarrow> json" where
  "reviewer_dump r = J_Dict [(''enabled'', J_Bool (rc_enabled r)), (''required'', J_Bool (rc_required r)),
     (''models'', J_List (map endpoint_dump (rc_models r))), (''fail_on_error'', J_Bool (rc_fail_on_error r))]"

section \<open>The specification\<close>

record authority_expectation =
  ax_authority_kind :: authority_kind
  ax_protocol :: string
  ax_required :: bool

record resolved_run_spec =
  rs_experiment_identity :: entity_identity
  rs_run_identity :: entity_identity
  rs_run_name :: string
  rs_created_at :: py_datetime
  rs_created_by :: string
  rs_dataset :: "dataset_ref option"
  rs_task_releases :: "task_snapshot_ref list"
  rs_agent_conditions :: "agent_condition list"
  rs_compute :: compute_config
  rs_repetitions :: int
  rs_verification_enabled :: bool
  rs_reviewer :: "reviewer_config option"
  rs_randomization_seed :: "int option"
  rs_execution_policy :: execution_policy
  rs_visibility :: "visibility list"
  rs_expected_authorities :: "authority_expectation list"
  rs_evaluation_regime :: "evaluation_regime_ref option"
  rs_provider_route_request :: "provider_route option"

definition check_visibility_values :: "visibility list \<Rightarrow> string + unit" where
  "check_visibility_values value =
     bindE (guardE (value \<noteq> []) ''visibility must include at least one value'') (\<lambda>_.
     guardE (distinct value) ''visibility values must be unique'')"

text \<open>\<^verbatim>\<open>for index, condition in enumerate(...)\<close>: scan each condition under its path.\<close>

fun reject_condition_secrets :: "nat \<Rightarrow> agent_condition list \<Rightarrow> string + unit" where
  "reject_condition_secrets index [] = Inr ()"
| "reject_condition_secrets index (c # cs) =
     bindE (reject_secret_values (condition_dump c) (''agent_conditions['' @ show_nat index @ '']''))
       (\<lambda>_. reject_condition_secrets (Suc index) cs)"

definition validate_identity_relationships :: "resolved_run_spec \<Rightarrow> string + unit" where
  "validate_identity_relationships s =
     bindE (guardE (ei_id (rs_experiment_identity s) \<noteq> ei_id (rs_run_identity s))
       ''resolved run experiment and run identities must be distinct'') (\<lambda>_.
     bindE (guardE (rs_task_releases s \<noteq> []) ''resolved run requires at least one task release'') (\<lambda>_.
     bindE (guardE (distinct (map sn_task_id (rs_task_releases s)))
       ''resolved run task releases must be unique'') (\<lambda>_.
     bindE (guardE (distinct (map (\<lambda>r. ei_id (sn_task_identity r)) (rs_task_releases s)))
       ''resolved run task identities must be unique'') (\<lambda>_.
     bindE (guardE (rs_agent_conditions s \<noteq> []) ''resolved run requires at least one agent condition'') (\<lambda>_.
     bindE (guardE (distinct (map (\<lambda>c. ei_key (ac_identity c)) (rs_agent_conditions s)))
       ''resolved run agent conditions must be unique'') (\<lambda>_.
     bindE (guardE (distinct (map (\<lambda>c. ei_id (ac_identity c)) (rs_agent_conditions s)))
       ''resolved run agent condition identities must be unique'') (\<lambda>_.
     bindE (reject_condition_secrets 0 (rs_agent_conditions s)) (\<lambda>_.
     case rs_reviewer s of None \<Rightarrow> Inr ()
     | Some r \<Rightarrow> reject_secret_values (reviewer_dump r) ''reviewer''))))))))"

definition validate_resolved_run :: "resolved_run_spec \<Rightarrow> string + resolved_run_spec" where
  "validate_resolved_run s =
     bindE (check_texts [rs_run_name s, rs_created_by s]) (\<lambda>_.
     bindE (guardE (0 < rs_repetitions s) ''greater than 0'') (\<lambda>_.
     bindE (guardE (optional_ok (\<lambda>n. 0 \<le> n) (rs_randomization_seed s)) ''greater than or equal to 0'') (\<lambda>_.
     bindE (guardE (is_aware (rs_created_at s)) ''resolved run created_at must include a timezone'') (\<lambda>_.
     bindE (check_visibility_values (rs_visibility s)) (\<lambda>_.
     bindE (guardE (distinct (map (\<lambda>a. (ax_authority_kind a, ax_protocol a)) (rs_expected_authorities s)))
       ''resolved run authority expectations must be unique'') (\<lambda>_.
     bindE (validate_identity_relationships s) (\<lambda>_.
       Inr s)))))))"

section \<open>Resolution\<close>

text \<open>One turn of the loop over the manifest's agents and the conditions.\<close>

definition check_condition :: "agent_config \<times> agent_condition \<Rightarrow> string + unit" where
  "check_condition = (\<lambda>(agent, condition).
     bindE (guardE (ei_key (ac_identity condition) = ag_name agent)
       ''agent condition identity key must match manifest agent name'') (\<lambda>_.
     bindE (guardE (ac_adapter condition = ag_adapter agent)
       ''agent condition adapter must match manifest agent adapter'') (\<lambda>_.
     bindE (guardE (ag_system_prompt_file agent = None)
       ''resolved run cannot retain unresolved agent system_prompt_file'') (\<lambda>_.
     bindE (guardE (ac_system_prompt condition = ag_system_prompt agent)
       ''agent condition system_prompt must match manifest agent system_prompt'') (\<lambda>_.
     bindE (guardE (optional_client_eq (ac_client condition) (ag_client agent))
       ''agent condition client must match manifest agent client'') (\<lambda>_.
     bindE (guardE (json_dict_eq (ac_parameters condition) (ag_parameters agent))
       ''agent condition parameters must match manifest agent parameters'') (\<lambda>_.
     bindE (guardE (ac_model condition = ag_model agent)
       ''agent condition model must match manifest agent model'') (\<lambda>_.
     reject_secret_values (condition_dump condition)
       (''agent_conditions['' @ ei_key (ac_identity condition) @ '']'')))))))))"

definition resolve_run_spec :: "experiment_manifest \<Rightarrow> task_snapshot_ref list \<Rightarrow> agent_condition list
    \<Rightarrow> entity_identity \<Rightarrow> entity_identity \<Rightarrow> py_datetime \<Rightarrow> string \<Rightarrow> authority_expectation list
    \<Rightarrow> evaluation_regime_ref option \<Rightarrow> provider_route option \<Rightarrow> int option \<Rightarrow> execution_policy
    \<Rightarrow> string + resolved_run_spec" where
  "resolve_run_spec manifest task_releases conditions experiment_identity run_identity created_at created_by
     expected_authorities evaluation_regime provider_route_request randomization_seed policy =
     bindE (guardE (ei_key experiment_identity = em_experiment_id manifest)
       ''experiment identity key must match the manifest experiment_id'') (\<lambda>_.
     bindE (guardE (task_releases \<noteq> []) ''resolved run requires at least one task release'') (\<lambda>_.
     bindE (guardE (length conditions = length (em_agents manifest))
       ''resolved run agent conditions must match manifest agents'') (\<lambda>_.
     bindE (checkE_all check_condition (zip (em_agents manifest) conditions)) (\<lambda>_.
     validate_resolved_run
       \<lparr>rs_experiment_identity = experiment_identity, rs_run_identity = run_identity,
        rs_run_name = em_name manifest, rs_created_at = created_at, rs_created_by = created_by,
        rs_dataset = ts_dataset (em_tasks manifest), rs_task_releases = task_releases,
        rs_agent_conditions = conditions, rs_compute = em_compute manifest,
        rs_repetitions = em_repetitions manifest,
        rs_verification_enabled = (\<not> em_disable_verification manifest),
        rs_reviewer = em_reviewer manifest, rs_randomization_seed = randomization_seed,
        rs_execution_policy = policy, rs_visibility = ts_visibility_filter (em_tasks manifest),
        rs_expected_authorities = expected_authorities, rs_evaluation_regime = evaluation_regime,
        rs_provider_route_request = provider_route_request\<rparr>))))"

section \<open>Accepted specifications\<close>

lemma reject_condition_secrets_iff:
  "isOK (reject_condition_secrets n cs) \<longleftrightarrow> (\<forall>c\<in>set cs. no_secret_inside (condition_dump c))"
  by (induction cs arbitrary: n) (auto simp: isOK_bindE_const reject_secret_values_iff)

lemma no_secret_texts:
  "no_secret_inside (opt_text x)" "no_secret_inside (opt_int i)" "no_secret_inside (identity_dump e)"
  by (auto simp: opt_text_def opt_int_def identity_dump_def no_secret_atom no_secret_list no_secret_dict
      sensitive_key_def sensitive_names_def sensitive_suffixes_def ends_with_def py_lower_def
      py_lower_char_def Let_def split: option.splits)

lemma resolved_run_iff:
  "isOK (validate_resolved_run s) \<longleftrightarrow>
     \<not> py_blank (rs_run_name s) \<and> \<not> py_blank (rs_created_by s) \<and> 0 < rs_repetitions s
     \<and> optional_ok (\<lambda>n. 0 \<le> n) (rs_randomization_seed s) \<and> is_aware (rs_created_at s)
     \<and> rs_visibility s \<noteq> [] \<and> distinct (rs_visibility s)
     \<and> distinct (map (\<lambda>a. (ax_authority_kind a, ax_protocol a)) (rs_expected_authorities s))
     \<and> ei_id (rs_experiment_identity s) \<noteq> ei_id (rs_run_identity s)
     \<and> rs_task_releases s \<noteq> [] \<and> distinct (map sn_task_id (rs_task_releases s))
     \<and> distinct (map (\<lambda>r. ei_id (sn_task_identity r)) (rs_task_releases s))
     \<and> rs_agent_conditions s \<noteq> []
     \<and> distinct (map (\<lambda>c. ei_key (ac_identity c)) (rs_agent_conditions s))
     \<and> distinct (map (\<lambda>c. ei_id (ac_identity c)) (rs_agent_conditions s))
     \<and> (\<forall>c\<in>set (rs_agent_conditions s). no_secret_inside (condition_dump c))
     \<and> (\<forall>r. rs_reviewer s = Some r \<longrightarrow> no_secret_inside (reviewer_dump r))"
  unfolding validate_resolved_run_def validate_identity_relationships_def check_visibility_values_def
    isOK_bindE_const isOK_guardE isOK_check_texts reject_condition_secrets_iff isOK_simps
  by (auto simp: reject_secret_values_iff split: option.splits)

lemma validate_resolved_run_Inr: "validate_resolved_run s = Inr t \<Longrightarrow> t = s \<and> isOK (validate_resolved_run s)"
  by (auto simp: validate_resolved_run_def bindE_eq_Inr_iff isOK_bindE)

lemma check_condition_iff:
  "isOK (check_condition (a, c)) \<longleftrightarrow>
     ei_key (ac_identity c) = ag_name a \<and> ac_adapter c = ag_adapter a \<and> ag_system_prompt_file a = None
     \<and> ac_system_prompt c = ag_system_prompt a \<and> optional_client_eq (ac_client c) (ag_client a)
     \<and> json_dict_eq (ac_parameters c) (ag_parameters a) \<and> ac_model c = ag_model a
     \<and> no_secret_inside (condition_dump c)"
  by (simp add: check_condition_def isOK_bindE_const reject_secret_values_iff)

lemma resolve_run_spec_Inr:
  assumes "resolve_run_spec m releases conditions eid rid made by auth regime route seed pol = Inr s"
  shows "length conditions = length (em_agents m)"
    "isOK (checkE_all check_condition (zip (em_agents m) conditions))"
    "isOK (validate_resolved_run s)" "ei_key eid = em_experiment_id m"
    "rs_agent_conditions s = conditions" "rs_task_releases s = releases" "rs_run_identity s = rid"
    "rs_experiment_identity s = eid" "rs_repetitions s = em_repetitions m" "rs_created_at s = made"
    "rs_visibility s = ts_visibility_filter (em_tasks m)" "rs_reviewer s = em_reviewer m"
    "rs_compute s = em_compute m" "rs_execution_policy s = pol"
  using assms unfolding resolve_run_spec_def
  by (auto simp: bindE_eq_Inr_iff guardE_eq_Inr_iff isOK_iff dest!: validate_resolved_run_Inr)


section \<open>A demonstration run\<close>

definition demo_identity :: "uuid \<Rightarrow> string \<Rightarrow> entity_identity" where
  "demo_identity n key = \<lparr>ei_id = 0x018f0000000070008000000000000000 + n, ei_key = key, ei_version = 1, ei_aliases = []\<rparr>"

definition demo_agent :: "string \<Rightarrow> agent_config" where
  "demo_agent name = \<lparr>ag_name = name, ag_adapter = ''react'', ag_model = ''m1'', ag_client = None,
     ag_parameters = [(''api_key'', J_Text ''env:KEY'')], ag_system_prompt = None,
     ag_system_prompt_file = None, ag_n_concurrent = None, ag_concurrency_group = None\<rparr>"

definition demo_condition :: "uuid \<Rightarrow> string \<Rightarrow> agent_condition" where
  "demo_condition n name = \<lparr>ac_identity = demo_identity n name, ac_adapter = ''react'', ac_model = ''m1'',
     ac_client = None, ac_system_prompt = None, ac_tool_versions = [],
     ac_parameters = [(''api_key'', J_Text ''env:KEY'')], ac_limits = []\<rparr>"

definition demo_release :: "uuid \<Rightarrow> string \<Rightarrow> task_snapshot_ref" where
  "demo_release n name = Repository_Snapshot name (demo_identity n name)
     ''0123456789012345678901234567890123456789'' (''tasks/'' @ name)"

definition demo_compute :: compute_config where
  "demo_compute = \<lparr>cp_backend = ''local'', cp_stream = False, cp_resource_limits = [], cp_timeout_override = None\<rparr>"

definition demo_experiment :: "string list \<Rightarrow> experiment_manifest" where
  "demo_experiment agents = \<lparr>em_experiment_id = ''exp'', em_name = ''Experiment'', em_description = None,
     em_tasks = \<lparr>ts_dataset = None, ts_include_patterns = [], ts_exclude_patterns = [], ts_domains = [],
       ts_difficulties = [], ts_lifecycle_filter = [Lc_Active], ts_visibility_filter = [Vis_Public]\<rparr>,
     em_agents = map demo_agent agents, em_compute = demo_compute, em_repetitions = 2,
     em_disable_verification = False, em_reviewer = None\<rparr>"

definition demo_spec :: "task_snapshot_ref list \<Rightarrow> agent_condition list \<Rightarrow> resolved_run_spec" where
  "demo_spec releases conditions = \<lparr>rs_experiment_identity = demo_identity 1 ''exp'',
     rs_run_identity = demo_identity 2 ''run'', rs_run_name = ''Experiment'', rs_created_at = Aware 5,
     rs_created_by = ''me'', rs_dataset = None, rs_task_releases = releases,
     rs_agent_conditions = conditions, rs_compute = demo_compute, rs_repetitions = 2,
     rs_verification_enabled = True, rs_reviewer = None, rs_randomization_seed = None,
     rs_execution_policy = default_execution_policy 4, rs_visibility = [Vis_Public],
     rs_expected_authorities = [], rs_evaluation_regime = None, rs_provider_route_request = None\<rparr>"

lemma demo_condition_dump: "no_secret_inside (condition_dump (demo_condition n name))"
  by (simp add: condition_dump_def demo_condition_def client_dump_def no_secret_dict no_secret_atom
      no_secret_texts sensitive_key_def sensitive_names_def sensitive_suffixes_def ends_with_def py_lower_def
      py_lower_char_def env_reference_def)

lemma demo_resolves:
  "resolve_run_spec (demo_experiment [''solver'']) [demo_release 3 ''pump''] [demo_condition 4 ''solver'']
     (demo_identity 1 ''exp'') (demo_identity 2 ''run'') (Aware 5) ''me'' [] None None None
     (default_execution_policy 4)
   = Inr (demo_spec [demo_release 3 ''pump''] [demo_condition 4 ''solver''])"
  by code_simp


end
