(* ===== verification/Run_Plan.thy ===== *)
theory Run_Plan
  imports Resolved_Run
begin

text \<open>
  Run plans, \<^verbatim>\<open>contracts/run_plan.py\<close>: planned trials, the summary, the plan with the validator of its
  ready state, and \<^verbatim>\<open>plan_run\<close>, which expands a resolved run into the product of its task releases,
  agent conditions and repetitions. A dictionary is the list of its entries with distinct keys; a
  factory or callback of the caller is a parameter.
\<close>

section \<open>Attempt recipes and extensions\<close>

datatype attempt_recipe = Single_Attempt | Best_Of (best_of_candidates: int)

fun validate_recipe :: "attempt_recipe \<Rightarrow> string + attempt_recipe" where
  "validate_recipe Single_Attempt = Inr Single_Attempt"
| "validate_recipe (Best_Of n) = bindE (guardE (0 < n) ''greater than 0'') (\<lambda>_. Inr (Best_Of n))"

text \<open>\<^verbatim>\<open>AdaptationProvenance\<close> of \<^verbatim>\<open>contracts/trial_extensions.py\<close>.\<close>

record derivation_step =
  ds_axis :: string
  ds_value :: string
  ds_parent_value :: string

definition validate_derivation_step :: "derivation_step \<Rightarrow> string + derivation_step" where
  "validate_derivation_step s =
     bindE (check_texts [ds_axis s, ds_value s, ds_parent_value s]) (\<lambda>_.
     bindE (guardE (ds_value s \<noteq> ds_parent_value s) ''derivation step must change the parent value'') (\<lambda>_.
       Inr s))"

record adaptation =
  ad_family_id :: string
  ad_seed_task_id :: string
  ad_variation_key :: string
  ad_variation :: dict
  ad_derivation_lineage :: "derivation_step list"

fun check_lineage :: "dict \<Rightarrow> string set \<Rightarrow> derivation_step list \<Rightarrow> string + unit" where
  "check_lineage variation seen [] = Inr ()"
| "check_lineage variation seen (s # steps) =
     bindE (guardE (ds_axis s \<notin> seen) ''derivation_lineage axes must be unique'') (\<lambda>_.
     case map_of variation (ds_axis s) of
       None \<Rightarrow> Inl ''derivation_lineage axis must exist in variation''
     | Some v \<Rightarrow> bindE (guardE (v = ds_value s) ''derivation_lineage value must match variation'') (\<lambda>_.
         check_lineage variation (insert (ds_axis s) seen) steps))"

definition validate_adaptation :: "adaptation \<Rightarrow> string + adaptation" where
  "validate_adaptation a =
     bindE (check_texts [ad_family_id a, ad_seed_task_id a, ad_variation_key a]) (\<lambda>_.
     bindE (guardE (ad_variation a \<noteq> []) ''variation must not be empty'') (\<lambda>_.
     bindE (checkE_all (\<lambda>(axis, v). check_texts [axis, v]) (ad_variation a)) (\<lambda>_.
     bindE (check_lineage (ad_variation a) {} (ad_derivation_lineage a)) (\<lambda>_.
       Inr a))))"

text \<open>The value of an extension is some model; \<open>Other_Model\<close> is one of another class, with its name.\<close>

datatype extension_value = Adaptation_Value adaptation | Other_Model string

record planned_trial_extension =
  px_extension_kind :: string
  px_value :: extension_value

definition validate_extension :: "planned_trial_extension \<Rightarrow> string + planned_trial_extension" where
  "validate_extension e =
     bindE (validate_entity_key (px_extension_kind e)) (\<lambda>_.
     bindE (guardE (px_extension_kind e = ''adaptation'') ''unsupported planned trial extension'') (\<lambda>_.
     case px_value e of Adaptation_Value _ \<Rightarrow> Inr e
     | Other_Model _ \<Rightarrow> Inl ''planned trial extension adaptation requires AdaptationProvenance''))"

section \<open>Planned trials\<close>

record planned_trial =
  pt_trial_identity :: entity_identity
  pt_ordinal :: int
  pt_run_identity :: entity_identity
  pt_task_release :: task_snapshot_ref
  pt_task_metadata :: task_metadata
  pt_agent_condition :: agent_condition
  pt_compute :: compute_config
  pt_repetition :: int
  pt_seed :: "int option"
  pt_execution_family :: task_kind
  pt_family_release :: "family_release option"
  pt_attempt_recipe :: attempt_recipe
  pt_evaluation_profile :: "evaluation_regime_ref option"
  pt_extensions :: "planned_trial_extension list"

definition runnable_lifecycle :: "task_lifecycle \<Rightarrow> bool" where
  "runnable_lifecycle l \<longleftrightarrow> l \<in> {Lc_Active, Lc_Deprecated}"

definition validate_planned_trial :: "planned_trial \<Rightarrow> string + planned_trial" where
  "validate_planned_trial t =
     bindE (guardE (0 < pt_ordinal t \<and> 0 < pt_repetition t) ''greater than 0'') (\<lambda>_.
     bindE (guardE (optional_ok (\<lambda>n. 0 \<le> n) (pt_seed t)) ''greater than or equal to 0'') (\<lambda>_.
     bindE (guardE (tm_identity (pt_task_metadata t) = sn_task_identity (pt_task_release t))
       ''planned trial task metadata must match the task release'') (\<lambda>_.
     bindE (guardE (runnable_lifecycle (tm_lifecycle (pt_task_metadata t)))
       ''planned trial requires an active or deprecated task release'') (\<lambda>_.
     bindE (guardE (1 \<le> ei_version (pt_trial_identity t))
       ''planned trial identity version must be positive'') (\<lambda>_.
     bindE (guardE (1 \<le> ei_version (pt_run_identity t))
       ''planned trial run identity version must be positive'') (\<lambda>_.
     bindE (guardE (distinct (map px_extension_kind (pt_extensions t)))
       ''planned trial extension kinds must be unique'') (\<lambda>_.
       Inr t)))))))"

text \<open>The release a family needs: none, a world's, or a lifecycle's.\<close>

definition family_release_ok :: "task_kind \<Rightarrow> family_release option \<Rightarrow> string + unit" where
  "family_release_ok family release =
     bindE (guardE (\<not> (family = Artifact_Task \<and> release \<noteq> None))
       ''artifact trial must not have a family release'') (\<lambda>_.
     bindE (guardE (\<not> (family = World_Task \<and> \<not> is_world_release release))
       ''world trial requires a world release'') (\<lambda>_.
     guardE (\<not> (family = Lifecycle_Task \<and> \<not> is_lifecycle_release release))
       ''lifecycle trial requires a lifecycle release''))"

section \<open>Summaries and plans\<close>

record run_plan_summary =
  su_selected_task_count :: int
  su_agent_condition_count :: int
  su_repetitions :: int
  su_total_trials :: int
  su_trials_by_execution_family :: "(task_kind \<times> int) list"
  su_trials_by_backend :: "(string \<times> int) list"
  su_visibility_policy :: "visibility list"
  su_tasks_by_visibility :: "(visibility \<times> int) list"
  su_deprecated_task_count :: int

definition validate_summary :: "run_plan_summary \<Rightarrow> string + run_plan_summary" where
  "validate_summary s =
     bindE (guardE (list_all (\<lambda>n. 0 < n)
         ([su_selected_task_count s, su_agent_condition_count s, su_repetitions s, su_total_trials s]
          @ map snd (su_trials_by_execution_family s) @ map snd (su_trials_by_backend s)
          @ map snd (su_tasks_by_visibility s)) \<and> 0 \<le> su_deprecated_task_count s)
       ''greater than 0'') (\<lambda>_.
     bindE (check_texts (map fst (su_trials_by_backend s))) (\<lambda>_.
     bindE (guardE (su_visibility_policy s \<noteq> []) ''run plan visibility policy must not be empty'') (\<lambda>_.
     bindE (guardE (distinct (su_visibility_policy s)) ''run plan visibility policy must be unique'') (\<lambda>_.
       Inr s))))"

datatype plan_phase = Plan_Is_Draft | Plan_Is_Ready | Plan_Is_Started | Plan_Is_Closed

record run_plan =
  rp_plan_identity :: entity_identity
  rp_run_identity :: entity_identity
  rp_created_at :: py_datetime
  rp_state :: plan_phase
  rp_trials :: "planned_trial list"
  rp_summary :: run_plan_summary

text \<open>A \<^verbatim>\<open>Counter\<close> over the values of a key, and the number of its keys.\<close>

definition count_by :: "('a \<Rightarrow> 'k) \<Rightarrow> 'a list \<Rightarrow> ('k \<times> int) list" where
  "count_by key xs = map (\<lambda>k. (k, int (length (filter (\<lambda>x. key x = k) xs)))) (remdups (map key xs))"

definition count_distinct :: "('a \<Rightarrow> 'k) \<Rightarrow> 'a list \<Rightarrow> int" where
  "count_distinct key xs = int (length (remdups (map key xs)))"

text \<open>Equality of dictionaries.\<close>

definition same_entries :: "('k \<times> 'v) list \<Rightarrow> ('k \<times> 'v) list \<Rightarrow> bool" where
  "same_entries xs ys \<longleftrightarrow> set xs = set ys"

text \<open>The loop that fills \<^verbatim>\<open>task_metadata\<close> by \<^verbatim>\<open>setdefault\<close> and refuses a second, different value.\<close>

fun collect_metadata :: "(uuid \<times> task_metadata) list \<Rightarrow> planned_trial list
    \<Rightarrow> string + (uuid \<times> task_metadata) list" where
  "collect_metadata acc [] = Inr acc"
| "collect_metadata acc (t # ts) =
     (let i = ei_id (tm_identity (pt_task_metadata t))
      in case map_of acc i of
           None \<Rightarrow> collect_metadata (acc @ [(i, pt_task_metadata t)]) ts
         | Some m \<Rightarrow> bindE (guardE (m = pt_task_metadata t) ''ready run plan task metadata must be consistent'')
             (\<lambda>_. collect_metadata acc ts))"

definition validate_ready_trials :: "run_plan \<Rightarrow> string + unit" where
  "validate_ready_trials p =
     (let trials = rp_trials p; s = rp_summary p in
     bindE (guardE (map pt_ordinal trials = [1..int (length trials)])
       ''ready run plan trial ordinals must be contiguous from 1'') (\<lambda>_.
     bindE (guardE (distinct (map (\<lambda>t. ei_id (pt_trial_identity t)) trials))
       ''ready run plan trial identities must be unique'') (\<lambda>_.
     bindE (guardE (distinct (map (\<lambda>t. ei_key (pt_trial_identity t)) trials))
       ''ready run plan trial keys must be unique'') (\<lambda>_.
     bindE (guardE (\<not> list_ex (\<lambda>t. pt_run_identity t \<noteq> rp_run_identity p) trials)
       ''ready run plan trials must reference the plan run identity'') (\<lambda>_.
     bindE (checkE_all (\<lambda>t. family_release_ok (pt_execution_family t) (pt_family_release t)) trials) (\<lambda>_.
     bindE (guardE (su_selected_task_count s = count_distinct (\<lambda>t. sn_task_id (pt_task_release t)) trials)
       ''run plan summary task count does not match trials'') (\<lambda>_.
     bindE (guardE (su_agent_condition_count s
         = count_distinct (\<lambda>t. ei_id (ac_identity (pt_agent_condition t))) trials)
       ''run plan summary agent count does not match trials'') (\<lambda>_.
     bindE (guardE (su_total_trials s = int (length trials))
       ''run plan summary total does not match trials'') (\<lambda>_.
     bindE (guardE (su_repetitions s = Max (set (map pt_repetition trials)))
       ''run plan summary repetitions do not match trials'') (\<lambda>_.
     bindE (guardE (same_entries (su_trials_by_execution_family s) (count_by pt_execution_family trials))
       ''run plan summary execution-family counts do not match trials'') (\<lambda>_.
     bindE (guardE (same_entries (su_trials_by_backend s) (count_by (\<lambda>t. cp_backend (pt_compute t)) trials))
       ''run plan summary backend counts do not match trials'') (\<lambda>_.
     bindE (collect_metadata [] trials) (\<lambda>metadata.
     bindE (guardE (same_entries (su_tasks_by_visibility s) (count_by tm_visibility (map snd metadata)))
       ''run plan summary visibility counts do not match trials'') (\<lambda>_.
     bindE (guardE (su_deprecated_task_count s
         = int (length (filter (\<lambda>m. tm_lifecycle m = Lc_Deprecated) (map snd metadata))))
       ''run plan summary deprecated task count does not match trials'') (\<lambda>_.
     guardE (\<not> list_ex (\<lambda>m. tm_visibility m \<notin> set (su_visibility_policy s)) (map snd metadata))
       ''ready run plan task visibility is outside the plan policy'')))))))))))))))"

definition validate_run_plan :: "run_plan \<Rightarrow> string + run_plan" where
  "validate_run_plan p =
     bindE (guardE (is_aware (rp_created_at p)) ''run plan created_at must include a timezone'') (\<lambda>_.
     bindE (guardE (ei_id (rp_plan_identity p) \<noteq> ei_id (rp_run_identity p))
       ''run plan and run identities must be distinct'') (\<lambda>_.
     bindE (guardE (rp_trials p \<noteq> []) ''run plan must include at least one planned trial'') (\<lambda>_.
     bindE (if rp_state p = Plan_Is_Ready then validate_ready_trials p else Inr ()) (\<lambda>_.
       Inr p))))"

section \<open>Planning\<close>

record task_planning_profile =
  tp_metadata :: task_metadata
  tp_execution_family :: task_kind
  tp_family_release :: "family_release option"

definition validate_profile :: "task_planning_profile \<Rightarrow> string + task_planning_profile" where
  "validate_profile p =
     bindE (guardE (runnable_lifecycle (tm_lifecycle (tp_metadata p)))
       ''run planning requires an active or deprecated task release'') (\<lambda>_.
     bindE (family_release_ok (tp_execution_family p) (tp_family_release p)) (\<lambda>_.
       Inr p))"

text \<open>\<^verbatim>\<open>for x in xs: acc = f(x, acc)\<close> in the error monad.\<close>

fun foldE :: "('x \<Rightarrow> 'a \<Rightarrow> 'e + 'a) \<Rightarrow> 'x list \<Rightarrow> 'a \<Rightarrow> 'e + 'a" where
  "foldE f [] acc = Inr acc"
| "foldE f (x # xs) acc = bindE (f x acc) (\<lambda>acc'. foldE f xs acc')"

definition trial_key :: "string \<Rightarrow> string \<Rightarrow> int \<Rightarrow> string" where
  "trial_key task_id condition_key repetition =
     task_id @ ''__'' @ condition_key @ ''__rep-'' @ show_two (nat repetition)"

text \<open>The factory is called once per trial, in order: the ordinal says which call it is.\<close>

type_synonym identity_factory = "int \<Rightarrow> string \<Rightarrow> string + entity_identity"
type_synonym combination_validator = "task_snapshot_ref \<Rightarrow> agent_condition \<Rightarrow> task_kind \<Rightarrow> string + unit"

text \<open>\<^verbatim>\<open>_new_trial_identity\<close>; the clock and the random fields of each call are arguments.\<close>

definition new_trial_identity :: "(int \<Rightarrow> int \<times> int \<times> int) \<Rightarrow> identity_factory" where
  "new_trial_identity source call key =
     (case source call of (time_ns, random_a, random_b) \<Rightarrow>
        bindE (new_entity_id ''trial'' time_ns random_a random_b) (\<lambda>i.
        bindE (validate_entity_key key) (\<lambda>k.
        validate_entity_identity \<lparr>ei_id = i, ei_key = k, ei_version = 1, ei_aliases = []\<rparr>)))"

text \<open>The body of the innermost loop.\<close>

definition plan_trial :: "resolved_run_spec \<Rightarrow> identity_factory \<Rightarrow> attempt_recipe
    \<Rightarrow> planned_trial_extension list \<Rightarrow> task_snapshot_ref \<Rightarrow> task_planning_profile \<Rightarrow> agent_condition
    \<Rightarrow> int \<Rightarrow> int \<Rightarrow> string + planned_trial" where
  "plan_trial spec factory recipe extensions release profile condition repetition ordinal =
     bindE (validate_entity_key (trial_key (sn_task_id release) (ei_key (ac_identity condition)) repetition)) (\<lambda>key.
     bindE (factory ordinal key) (\<lambda>identity.
     bindE (guardE (ei_key identity = key) ''trial identity factory must preserve the requested trial key'') (\<lambda>_.
     validate_planned_trial
       \<lparr>pt_trial_identity = identity, pt_ordinal = ordinal, pt_run_identity = rs_run_identity spec,
        pt_task_release = release, pt_task_metadata = tp_metadata profile, pt_agent_condition = condition,
        pt_compute = rs_compute spec, pt_repetition = repetition, pt_seed = rs_randomization_seed spec,
        pt_execution_family = tp_execution_family profile, pt_family_release = tp_family_release profile,
        pt_attempt_recipe = recipe, pt_evaluation_profile = rs_evaluation_regime spec,
        pt_extensions = extensions\<rparr>)))"

text \<open>The three loops; the accumulator is the next ordinal and the trials so far.\<close>

definition plan_repetitions :: "resolved_run_spec \<Rightarrow> identity_factory \<Rightarrow> attempt_recipe
    \<Rightarrow> planned_trial_extension list \<Rightarrow> task_snapshot_ref \<Rightarrow> task_planning_profile \<Rightarrow> agent_condition
    \<Rightarrow> int \<times> planned_trial list \<Rightarrow> string + int \<times> planned_trial list" where
  "plan_repetitions spec factory recipe extensions release profile condition =
     foldE (\<lambda>repetition (ordinal, trials).
         bindE (plan_trial spec factory recipe extensions release profile condition repetition ordinal)
           (\<lambda>t. Inr (ordinal + 1, trials @ [t])))
       [1..rs_repetitions spec]"

definition plan_conditions :: "resolved_run_spec \<Rightarrow> combination_validator \<Rightarrow> identity_factory \<Rightarrow> attempt_recipe
    \<Rightarrow> planned_trial_extension list \<Rightarrow> task_snapshot_ref \<Rightarrow> task_planning_profile
    \<Rightarrow> int \<times> planned_trial list \<Rightarrow> string + int \<times> planned_trial list" where
  "plan_conditions spec combine factory recipe extensions release profile =
     foldE (\<lambda>condition acc.
         bindE (combine release condition (tp_execution_family profile)) (\<lambda>_.
         plan_repetitions spec factory recipe extensions release profile condition acc))
       (rs_agent_conditions spec)"

definition plan_releases :: "resolved_run_spec \<Rightarrow> (uuid \<times> task_planning_profile) list \<Rightarrow> combination_validator
    \<Rightarrow> identity_factory \<Rightarrow> attempt_recipe \<Rightarrow> planned_trial_extension list
    \<Rightarrow> int \<times> planned_trial list \<Rightarrow> string + int \<times> planned_trial list" where
  "plan_releases spec profiles combine factory recipe extensions =
     foldE (\<lambda>release acc.
         case map_of profiles (ei_id (sn_task_identity release)) of
           None \<Rightarrow> Inl ''KeyError''
         | Some profile \<Rightarrow>
             bindE (guardE (tm_identity (tp_metadata profile) = sn_task_identity release)
               ''task planning profile identity must match the task release'') (\<lambda>_.
             bindE (guardE (tm_visibility (tp_metadata profile) \<in> set (rs_visibility spec))
               ''task planning profile visibility is outside the resolved run policy'') (\<lambda>_.
             plan_conditions spec combine factory recipe extensions release profile acc)))
       (rs_task_releases spec)"

definition plan_summary :: "resolved_run_spec \<Rightarrow> (uuid \<times> task_planning_profile) list \<Rightarrow> planned_trial list
    \<Rightarrow> run_plan_summary" where
  "plan_summary spec profiles trials =
     \<lparr>su_selected_task_count = int (length (rs_task_releases spec)),
      su_agent_condition_count = int (length (rs_agent_conditions spec)),
      su_repetitions = rs_repetitions spec, su_total_trials = int (length trials),
      su_trials_by_execution_family = count_by pt_execution_family trials,
      su_trials_by_backend = [(cp_backend (rs_compute spec), int (length trials))],
      su_visibility_policy = rs_visibility spec,
      su_tasks_by_visibility = count_by (\<lambda>(_, p). tm_visibility (tp_metadata p)) profiles,
      su_deprecated_task_count =
        int (length (filter (\<lambda>(_, p). tm_lifecycle (tp_metadata p) = Lc_Deprecated) profiles))\<rparr>"

definition plan_run :: "resolved_run_spec \<Rightarrow> entity_identity \<Rightarrow> py_datetime
    \<Rightarrow> (uuid \<times> task_planning_profile) list \<Rightarrow> combination_validator \<Rightarrow> attempt_recipe option
    \<Rightarrow> identity_factory \<Rightarrow> planned_trial_extension list \<Rightarrow> string + run_plan" where
  "plan_run spec plan_identity created_at profiles combine attempt_recipe factory extensions =
     bindE (guardE (is_aware created_at) ''run plan created_at must include a timezone'') (\<lambda>_.
     bindE (guardE (\<not> instant created_at < instant (rs_created_at spec))
       ''run plan created_at must not precede the resolved run specification'') (\<lambda>_.
     bindE (guardE (fst ` set profiles = (\<lambda>r. ei_id (sn_task_identity r)) ` set (rs_task_releases spec))
       ''task planning profiles must exactly match the resolved task releases'') (\<lambda>_.
     let recipe = (case attempt_recipe of None \<Rightarrow> Single_Attempt | Some r \<Rightarrow> r) in
     bindE (plan_releases spec profiles combine factory recipe extensions (1, [])) (\<lambda>(_, trials).
     bindE (validate_summary (plan_summary spec profiles trials)) (\<lambda>summary.
     validate_run_plan
       \<lparr>rp_plan_identity = plan_identity, rp_run_identity = rs_run_identity spec,
        rp_created_at = created_at, rp_state = Plan_Is_Ready, rp_trials = trials, rp_summary = summary\<rparr>)))))"

end
