(* ===== verification/Run_Plan_Expansion.thy ===== *)
theory Run_Plan_Expansion
  imports Run_Plan
begin

text \<open>
  What \<^const>\<open>plan_run\<close> produces: the loops build one trial per slot, in the order of the product of task
  releases, agent conditions and repetitions; the summary it computes is the one its validator
  recomputes; and it succeeds whenever the keys of the slots differ.
\<close>

section \<open>Slots\<close>

type_synonym slot = "task_snapshot_ref \<times> agent_condition \<times> int"

definition slots_of :: "resolved_run_spec \<Rightarrow> slot list" where
  "slots_of spec = concat (map (\<lambda>r. concat (map (\<lambda>c. map (\<lambda>k. (r, c, k)) [1..rs_repetitions spec])
     (rs_agent_conditions spec))) (rs_task_releases spec))"

definition slot_key :: "slot \<Rightarrow> string" where
  "slot_key = (\<lambda>(r, c, k). trial_key (sn_task_id r) (ei_key (ac_identity c)) k)"

definition trial_slot :: "planned_trial \<Rightarrow> slot" where
  "trial_slot t = (pt_task_release t, pt_agent_condition t, pt_repetition t)"

text \<open>A list of trials built from slots, one each, with consecutive ordinals.\<close>

fun built :: "('s \<Rightarrow> int \<Rightarrow> 't \<Rightarrow> bool) \<Rightarrow> int \<Rightarrow> 's list \<Rightarrow> 't list \<Rightarrow> bool" where
  "built R i [] us = (us = [])"
| "built R i (s # ss) us = (\<exists>u us'. us = u # us' \<and> R s i u \<and> built R (i + 1) ss us')"

lemma built_length: "built R i ss us \<Longrightarrow> length us = length ss"
  by (induction ss arbitrary: i us) auto

lemma built_append:
  "built R i (ss @ ss') us \<longleftrightarrow>
     (\<exists>vs ws. us = vs @ ws \<and> built R i ss vs \<and> built R (i + int (length vs)) ss' ws)"
proof (induction ss arbitrary: i us)
  case (Cons s ss)
  show ?case
  proof
    assume "built R i ((s # ss) @ ss') us"
    then obtain u us' where "us = u # us'" "R s i u" "built R (i + 1) (ss @ ss') us'" by auto
    moreover from this(3) obtain vs ws where "us' = vs @ ws" "built R (i + 1) ss vs"
      "built R (i + 1 + int (length vs)) ss' ws" using Cons.IH by blast
    ultimately show "\<exists>vs ws. us = vs @ ws \<and> built R i (s # ss) vs \<and> built R (i + int (length vs)) ss' ws"
      by (intro exI [of _ "u # vs"] exI [of _ ws]) (auto simp: algebra_simps)
  next
    assume "\<exists>vs ws. us = vs @ ws \<and> built R i (s # ss) vs \<and> built R (i + int (length vs)) ss' ws"
    then show "built R i ((s # ss) @ ss') us" using Cons.IH by (fastforce simp: algebra_simps)
  qed
qed simp

lemma built_map:
  "built R i ss us \<Longrightarrow> (\<And>s j u. R s j u \<Longrightarrow> f u = s \<and> g u = j) \<Longrightarrow>
    map f us = ss \<and> map g us = [i..i + int (length us) - 1]"
  by (induction ss arbitrary: i us) (fastforce simp: upto_rec1 algebra_simps)+

lemma built_exists:
  "(\<And>s j. s \<in> set ss \<Longrightarrow> i \<le> j \<Longrightarrow> j < i + int (length ss) \<Longrightarrow> \<exists>u. R s j u) \<Longrightarrow> \<exists>us. built R i ss us"
proof (induction ss arbitrary: i)
  case (Cons s ss)
  obtain u where "R s i u" using Cons.prems [of s i] by auto
  moreover obtain us where "built R (i + 1) ss us" using Cons.IH [of "i + 1"] Cons.prems by fastforce
  ultimately show ?case by (intro exI [of _ "u # us"]) auto
qed auto

lemma built_ball: "built R i ss us \<Longrightarrow> u \<in> set us \<Longrightarrow> \<exists>s j. s \<in> set ss \<and> R s j u \<and> i \<le> j \<and> j < i + int (length ss)"
proof (induction ss arbitrary: i us)
  case (Cons s ss)
  then obtain v vs where v: "us = v # vs" "R s i v" "built R (i + 1) ss vs" by auto
  show ?case
  proof (cases "u = v")
    case True
    with v show ?thesis by (intro exI [of _ s] exI [of _ i]) simp
  next
    case False
    with v Cons obtain t j where "t \<in> set ss" "R t j u" "i + 1 \<le> j" "j < i + 1 + int (length ss)"
      by fastforce
    then show ?thesis by (intro exI [of _ t] exI [of _ j]) simp
  qed
qed simp

text \<open>A loop whose body appends the trials of its slots appends the trials of all slots.\<close>

definition appends :: "('s \<Rightarrow> int \<Rightarrow> 't \<Rightarrow> bool) \<Rightarrow> (int \<times> 't list \<Rightarrow> 'e + int \<times> 't list) \<Rightarrow> 's list \<Rightarrow> bool" where
  "appends R f ss \<longleftrightarrow> (\<forall>i ts j ts'. f (i, ts) = Inr (j, ts') \<longleftrightarrow>
     (\<exists>us. built R i ss us \<and> ts' = ts @ us \<and> j = i + int (length us)))"

lemma appends_foldE:
  assumes "\<And>x. x \<in> set xs \<Longrightarrow> appends R (f x) (slots x)"
  shows "appends R (foldE f xs) (concat (map slots xs))"
  using assms
proof (induction xs)
  case Nil
  then show ?case by (auto simp: appends_def)
next
  case (Cons x xs)
  then have head: "appends R (f x) (slots x)" and tail: "appends R (foldE f xs) (concat (map slots xs))"
    by auto
  show ?case
    unfolding appends_def
  proof (intro allI)
    fix i ts j ts'
    have "foldE f (x # xs) (i, ts) = Inr (j, ts') \<longleftrightarrow>
        (\<exists>k us. f x (i, ts) = Inr (k, us) \<and> foldE f xs (k, us) = Inr (j, ts'))"
      by (auto simp: bindE_eq_Inr_iff)
    also have "\<dots> \<longleftrightarrow> (\<exists>vs ws. built R i (slots x) vs \<and> built R (i + int (length vs)) (concat (map slots xs)) ws
        \<and> ts' = ts @ vs @ ws \<and> j = i + int (length (vs @ ws)))"
      (is "?l \<longleftrightarrow> ?r")
    proof
      show "?l \<Longrightarrow> ?r" using head tail by (auto simp: appends_def algebra_simps)
    next
      assume ?r
      then obtain vs ws where parts: "built R i (slots x) vs"
        "built R (i + int (length vs)) (concat (map slots xs)) ws"
        "ts' = ts @ vs @ ws" "j = i + int (length (vs @ ws))" by blast
      have "f x (i, ts) = Inr (i + int (length vs), ts @ vs)"
        using head parts(1) unfolding appends_def by blast
      moreover have "foldE f xs (i + int (length vs), ts @ vs) = Inr (j, ts')"
        using tail parts(2-4) by (simp add: appends_def)
      ultimately show ?l by blast
    qed
    also have "\<dots> \<longleftrightarrow> (\<exists>us. built R i (concat (map slots (x # xs))) us \<and> ts' = ts @ us \<and> j = i + int (length us))"
      by (simp add: built_append) (metis append.assoc of_nat_add length_append)
    finally show "foldE f (x # xs) (i, ts) = Inr (j, ts') \<longleftrightarrow>
      (\<exists>us. built R i (concat (map slots (x # xs))) us \<and> ts' = ts @ us \<and> j = i + int (length us))" .
  qed
qed

lemma appends_bindE:
  assumes "ss \<noteq> []" "\<And>s i u. s \<in> set ss \<Longrightarrow> R s i u \<longleftrightarrow> isOK m \<and> Q s i u" "appends Q f ss"
  shows "appends R (\<lambda>acc. bindE m (\<lambda>_. f acc)) ss"
proof -
  have eq: "built R i ts us \<longleftrightarrow> isOK m \<and> built Q i ts us" if "ts \<noteq> []" "set ts \<subseteq> set ss" for i ts us
    using that
  proof (induction ts arbitrary: i us)
    case (Cons t ts)
    then show ?case using assms(2) by (cases "ts = []") auto
  qed simp
  show ?thesis using assms(1,3) eq by (cases m) (simp_all add: appends_def)
qed

section \<open>The loops of \<^const>\<open>plan_run\<close>\<close>

definition slot_trial :: "resolved_run_spec \<Rightarrow> (uuid \<times> task_planning_profile) list \<Rightarrow> combination_validator
    \<Rightarrow> identity_factory \<Rightarrow> attempt_recipe \<Rightarrow> planned_trial_extension list
    \<Rightarrow> slot \<Rightarrow> int \<Rightarrow> planned_trial \<Rightarrow> bool" where
  "slot_trial spec profiles combine factory recipe extensions = (\<lambda>(r, c, k) i u.
     \<exists>p. map_of profiles (ei_id (sn_task_identity r)) = Some p
       \<and> tm_identity (tp_metadata p) = sn_task_identity r
       \<and> tm_visibility (tp_metadata p) \<in> set (rs_visibility spec)
       \<and> isOK (combine r c (tp_execution_family p))
       \<and> plan_trial spec factory recipe extensions r p c k i = Inr u)"

lemma appends_repetitions:
  "appends (\<lambda>(r, c, k) i u. plan_trial spec factory recipe extensions r p c k i = Inr u)
     (plan_repetitions spec factory recipe extensions release p condition)
     (map (\<lambda>k. (release, condition, k)) [1..rs_repetitions spec])"
proof -
  let ?R = "\<lambda>(r, c, k) i u. plan_trial spec factory recipe extensions r p c k i = Inr u"
  have "appends ?R (\<lambda>acc. case acc of (i, ts) \<Rightarrow>
      bindE (plan_trial spec factory recipe extensions release p condition k i) (\<lambda>t. Inr (i + 1, ts @ [t])))
      [(release, condition, k)]" for k
    by (auto simp: appends_def bindE_eq_Inr_iff)
  from appends_foldE [of "[1..rs_repetitions spec]" ?R _ "\<lambda>k. [(release, condition, k)]", OF this]
  show ?thesis unfolding plan_repetitions_def by (simp add: concat_map_singleton)
qed

lemma appends_conditions:
  assumes "0 < rs_repetitions spec"
  shows "appends (\<lambda>(r, c, k) i u. isOK (combine r c (tp_execution_family p))
        \<and> plan_trial spec factory recipe extensions r p c k i = Inr u)
     (plan_conditions spec combine factory recipe extensions release p)
     (concat (map (\<lambda>c. map (\<lambda>k. (release, c, k)) [1..rs_repetitions spec]) (rs_agent_conditions spec)))"
  unfolding plan_conditions_def
proof (rule appends_foldE)
  fix c
  show "appends (\<lambda>(r, c, k) i u. isOK (combine r c (tp_execution_family p))
        \<and> plan_trial spec factory recipe extensions r p c k i = Inr u)
     (\<lambda>acc. bindE (combine release c (tp_execution_family p)) (\<lambda>_.
         plan_repetitions spec factory recipe extensions release p c acc))
     (map (\<lambda>k. (release, c, k)) [1..rs_repetitions spec])"
    by (rule appends_bindE [OF _ _ appends_repetitions]) (use assms in auto)
qed

lemma appends_releases:
  assumes "0 < rs_repetitions spec" "rs_agent_conditions spec \<noteq> []"
  shows "appends (slot_trial spec profiles combine factory recipe extensions)
     (plan_releases spec profiles combine factory recipe extensions) (slots_of spec)"
  unfolding plan_releases_def slots_of_def
proof (rule appends_foldE)
  fix r :: task_snapshot_ref
  let ?slots = "concat (map (\<lambda>c. map (\<lambda>k. (r, c, k)) [1..rs_repetitions spec]) (rs_agent_conditions spec))"
  let ?R = "slot_trial spec profiles combine factory recipe extensions"
  have ne: "?slots \<noteq> []" using assms by (cases "rs_agent_conditions spec") auto
  have first: "\<And>s. s \<in> set ?slots \<Longrightarrow> fst s = r" by auto
  show "appends ?R
     (\<lambda>acc. case map_of profiles (ei_id (sn_task_identity r)) of
           None \<Rightarrow> Inl ''KeyError''
         | Some profile \<Rightarrow>
             bindE (guardE (tm_identity (tp_metadata profile) = sn_task_identity r)
               ''task planning profile identity must match the task release'') (\<lambda>_.
             bindE (guardE (tm_visibility (tp_metadata profile) \<in> set (rs_visibility spec))
               ''task planning profile visibility is outside the resolved run policy'') (\<lambda>_.
             plan_conditions spec combine factory recipe extensions r profile acc)))
     ?slots"
  proof (cases "map_of profiles (ei_id (sn_task_identity r))")
    case None
    obtain s ss where "?slots = s # ss" using ne by (cases ?slots) auto
    then show ?thesis using None first [of s] by (cases s) (auto simp: appends_def slot_trial_def)
  next
    case (Some p)
    have "appends ?R (\<lambda>acc.
             bindE (guardE (tm_identity (tp_metadata p) = sn_task_identity r)
               ''task planning profile identity must match the task release'') (\<lambda>_.
             bindE (guardE (tm_visibility (tp_metadata p) \<in> set (rs_visibility spec))
               ''task planning profile visibility is outside the resolved run policy'') (\<lambda>_.
             plan_conditions spec combine factory recipe extensions r p acc))) ?slots"
      by (rule appends_bindE [OF ne _ appends_bindE [OF ne _ appends_conditions [OF assms(1)]]])
        (use Some in \<open>auto simp: slot_trial_def\<close>)
    with Some show ?thesis by simp
  qed
qed

lemma plan_releases_Inr:
  assumes "0 < rs_repetitions spec" "rs_agent_conditions spec \<noteq> []"
  shows "plan_releases spec profiles combine factory recipe extensions (1, []) = Inr (j, trials) \<longleftrightarrow>
    built (slot_trial spec profiles combine factory recipe extensions) 1 (slots_of spec) trials
      \<and> j = 1 + int (length trials)"
  using appends_releases [OF assms, of profiles combine factory recipe extensions]
  by (auto simp: appends_def)

section \<open>A built trial\<close>

definition slot_record :: "resolved_run_spec \<Rightarrow> attempt_recipe \<Rightarrow> planned_trial_extension list
    \<Rightarrow> task_planning_profile \<Rightarrow> slot \<Rightarrow> int \<Rightarrow> entity_identity \<Rightarrow> planned_trial" where
  "slot_record spec recipe extensions profile = (\<lambda>(r, c, k) i identity.
     \<lparr>pt_trial_identity = identity, pt_ordinal = i, pt_run_identity = rs_run_identity spec,
      pt_task_release = r, pt_task_metadata = tp_metadata profile, pt_agent_condition = c,
      pt_compute = rs_compute spec, pt_repetition = k, pt_seed = rs_randomization_seed spec,
      pt_execution_family = tp_execution_family profile, pt_family_release = tp_family_release profile,
      pt_attempt_recipe = recipe, pt_evaluation_profile = rs_evaluation_regime spec,
      pt_extensions = extensions\<rparr>)"

lemma planned_trial_iff:
  "validate_planned_trial t = Inr u \<longleftrightarrow> u = t \<and> 0 < pt_ordinal t \<and> 0 < pt_repetition t
     \<and> optional_ok (\<lambda>n. 0 \<le> n) (pt_seed t)
     \<and> tm_identity (pt_task_metadata t) = sn_task_identity (pt_task_release t)
     \<and> runnable_lifecycle (tm_lifecycle (pt_task_metadata t))
     \<and> 1 \<le> ei_version (pt_trial_identity t) \<and> 1 \<le> ei_version (pt_run_identity t)
     \<and> distinct (map px_extension_kind (pt_extensions t))"
  unfolding validate_planned_trial_def bindE_eq_Inr_iff guardE_eq_Inr_iff by auto

lemma slot_trial_iff:
  "slot_trial spec profiles combine factory recipe extensions s i u \<longleftrightarrow>
     (\<exists>p identity. map_of profiles (ei_id (sn_task_identity (fst s))) = Some p
       \<and> tm_identity (tp_metadata p) = sn_task_identity (fst s)
       \<and> tm_visibility (tp_metadata p) \<in> set (rs_visibility spec)
       \<and> isOK (combine (fst s) (fst (snd s)) (tp_execution_family p))
       \<and> key_pattern True (slot_key s) \<and> factory i (slot_key s) = Inr identity
       \<and> ei_key identity = slot_key s \<and> u = slot_record spec recipe extensions p s i identity
       \<and> 0 < i \<and> 0 < snd (snd s) \<and> optional_ok (\<lambda>n. 0 \<le> n) (rs_randomization_seed spec)
       \<and> runnable_lifecycle (tm_lifecycle (tp_metadata p)) \<and> 1 \<le> ei_version identity
       \<and> 1 \<le> ei_version (rs_run_identity spec) \<and> distinct (map px_extension_kind extensions))"
proof (cases s)
  case (fields r c k)
  have "plan_trial spec factory recipe extensions r p c k i = Inr u \<longleftrightarrow>
     (\<exists>identity. key_pattern True (slot_key s) \<and> factory i (slot_key s) = Inr identity
       \<and> ei_key identity = slot_key s \<and> u = slot_record spec recipe extensions p s i identity
       \<and> 0 < i \<and> 0 < k \<and> optional_ok (\<lambda>n. 0 \<le> n) (rs_randomization_seed spec)
       \<and> tm_identity (tp_metadata p) = sn_task_identity r
       \<and> runnable_lifecycle (tm_lifecycle (tp_metadata p)) \<and> 1 \<le> ei_version identity
       \<and> 1 \<le> ei_version (rs_run_identity spec) \<and> distinct (map px_extension_kind extensions))" for p
    unfolding plan_trial_def bindE_eq_Inr_iff guardE_eq_Inr_iff planned_trial_iff validate_entity_key_Inr
    by (auto simp: fields slot_key_def slot_record_def)
  then show ?thesis by (auto simp: slot_trial_def fields)
qed

lemma slot_trial_facts:
  assumes "slot_trial spec profiles combine factory recipe extensions s i u"
  shows "trial_slot u = s" "pt_ordinal u = i" "ei_key (pt_trial_identity u) = slot_key s"
    "pt_run_identity u = rs_run_identity spec" "factory i (slot_key s) = Inr (pt_trial_identity u)"
    "pt_compute u = rs_compute spec"
  using assms by (cases s; auto simp: slot_trial_iff slot_record_def trial_slot_def)+

lemma slots_of_length:
  "0 \<le> rs_repetitions spec \<Longrightarrow> int (length (slots_of spec)) =
    int (length (rs_task_releases spec)) * int (length (rs_agent_conditions spec)) * rs_repetitions spec"
  by (simp add: slots_of_def length_concat comp_def sum_list_triv)

lemma built_slots:
  assumes "built (slot_trial spec profiles combine factory recipe extensions) 1 (slots_of spec) trials"
  shows "map trial_slot trials = slots_of spec" "map pt_ordinal trials = [1..int (length trials)]"
    "map (\<lambda>t. ei_key (pt_trial_identity t)) trials = map slot_key (slots_of spec)"
proof -
  show "map trial_slot trials = slots_of spec" "map pt_ordinal trials = [1..int (length trials)]"
    using built_map [OF assms, of trial_slot pt_ordinal] slot_trial_facts by auto
  have "\<And>t. t \<in> set trials \<Longrightarrow> ei_key (pt_trial_identity t) = slot_key (trial_slot t)"
    using built_ball [OF assms] slot_trial_facts(1,3) by metis
  then have "map (\<lambda>t. ei_key (pt_trial_identity t)) trials = map (\<lambda>t. slot_key (trial_slot t)) trials"
    by simp
  also have "\<dots> = map slot_key (map trial_slot trials)" by simp
  finally show "map (\<lambda>t. ei_key (pt_trial_identity t)) trials = map slot_key (slots_of spec)"
    using \<open>map trial_slot trials = slots_of spec\<close> by metis
qed

section \<open>The plan is the product\<close>

lemma validate_run_plan_Inr:
  "validate_run_plan p = Inr q \<longleftrightarrow> q = p \<and> is_aware (rp_created_at p)
     \<and> ei_id (rp_plan_identity p) \<noteq> ei_id (rp_run_identity p) \<and> rp_trials p \<noteq> []
     \<and> (rp_state p = Plan_Is_Ready \<longrightarrow> isOK (validate_ready_trials p))"
  unfolding validate_run_plan_def bindE_eq_Inr_iff guardE_eq_Inr_iff by (auto simp: isOK_iff)

lemma plan_run_Inr:
  assumes "plan_run spec pid made profiles combine recipe factory extensions = Inr plan"
    "0 < rs_repetitions spec" "rs_agent_conditions spec \<noteq> []"
  shows "built (slot_trial spec profiles combine factory
      (case recipe of None \<Rightarrow> Single_Attempt | Some r \<Rightarrow> r) extensions) 1 (slots_of spec) (rp_trials plan)"
    "rp_state plan = Plan_Is_Ready" "rp_run_identity plan = rs_run_identity spec"
    "rp_plan_identity plan = pid" "validate_run_plan plan = Inr plan"
  using assms(1) unfolding plan_run_def
  by (auto simp: bindE_eq_Inr_iff guardE_eq_Inr_iff Let_def validate_run_plan_Inr
      plan_releases_Inr [OF assms(2,3)])

lemma isOK_bindE_checkE_all:
  "isOK (bindE (checkE_all f xs) (\<lambda>_. g)) \<longleftrightarrow> (\<forall>x\<in>set xs. isOK (f x)) \<and> isOK g"
  by (simp add: isOK_bindE_const)

lemma ready_trials_iff:
  "isOK (validate_ready_trials p) \<longleftrightarrow>
     (let trials = rp_trials p; s = rp_summary p in
       map pt_ordinal trials = [1..int (length trials)]
     \<and> distinct (map (\<lambda>t. ei_id (pt_trial_identity t)) trials)
     \<and> distinct (map (\<lambda>t. ei_key (pt_trial_identity t)) trials)
     \<and> (\<forall>t\<in>set trials. pt_run_identity t = rp_run_identity p)
     \<and> (\<forall>t\<in>set trials. isOK (family_release_ok (pt_execution_family t) (pt_family_release t)))
     \<and> su_selected_task_count s = count_distinct (\<lambda>t. sn_task_id (pt_task_release t)) trials
     \<and> su_agent_condition_count s = count_distinct (\<lambda>t. ei_id (ac_identity (pt_agent_condition t))) trials
     \<and> su_total_trials s = int (length trials)
     \<and> su_repetitions s = Max (set (map pt_repetition trials))
     \<and> same_entries (su_trials_by_execution_family s) (count_by pt_execution_family trials)
     \<and> same_entries (su_trials_by_backend s) (count_by (\<lambda>t. cp_backend (pt_compute t)) trials)
     \<and> (\<exists>metadata. collect_metadata [] trials = Inr metadata
          \<and> same_entries (su_tasks_by_visibility s) (count_by tm_visibility (map snd metadata))
          \<and> su_deprecated_task_count s
              = int (length (filter (\<lambda>m. tm_lifecycle m = Lc_Deprecated) (map snd metadata)))
          \<and> (\<forall>m\<in>snd ` set metadata. tm_visibility m \<in> set (su_visibility_policy s))))"
  unfolding validate_ready_trials_def Let_def bindE_guardE_OK isOK_bindE_checkE_all isOK_guardE
    isOK_bindE [where m = "collect_metadata [] (rp_trials p)"]
  by (simp only: list_ex_iff not_not Bex_def Ball_def set_map de_Morgan_conj not_ex imp_conv_disj
      bex_simps ball_simps)

lemmas ready_trials_distinct = ready_trials_iff [THEN iffD1, unfolded Let_def]

text \<open>
  C36. A plan of a valid specification is exactly its product: one trial for every task release, agent
  condition and repetition, in that nesting order, numbered from 1 without a gap, each under the run
  of the specification with the key of its combination; keys and identities of the trials differ, and
  the plan passes the validator of a ready plan.
\<close>

theorem plan_run_is_the_product:
  assumes "isOK (validate_resolved_run spec)"
    and "plan_run spec pid made profiles combine recipe factory extensions = Inr plan"
  shows "(map (\<lambda>t. (pt_task_release t, pt_agent_condition t, pt_repetition t)) (rp_trials plan)
      = [(r, c, k). r \<leftarrow> rs_task_releases spec, c \<leftarrow> rs_agent_conditions spec, k \<leftarrow> [1..rs_repetitions spec]])
    \<and> (map pt_ordinal (rp_trials plan) = [1..int (length (rs_task_releases spec))
      * int (length (rs_agent_conditions spec)) * rs_repetitions spec])
    \<and> (map (\<lambda>t. ei_key (pt_trial_identity t)) (rp_trials plan)
      = [trial_key (sn_task_id r) (ei_key (ac_identity c)) k.
          r \<leftarrow> rs_task_releases spec, c \<leftarrow> rs_agent_conditions spec, k \<leftarrow> [1..rs_repetitions spec]])
    \<and> (distinct (map (\<lambda>t. ei_key (pt_trial_identity t)) (rp_trials plan)))
    \<and> (distinct (map (\<lambda>t. ei_id (pt_trial_identity t)) (rp_trials plan)))
    \<and> (list_all (\<lambda>t. pt_run_identity t = rs_run_identity spec) (rp_trials plan))
    \<and> (rp_state plan = Plan_Is_Ready \<and> validate_run_plan plan = Inr plan)"
proof -
  have spec: "0 < rs_repetitions spec" "rs_agent_conditions spec \<noteq> []"
    using assms(1) by (auto simp: resolved_run_iff)
  note plan = plan_run_Inr [OF assms(2) spec]
  note slots = built_slots [OF plan(1)]
  have ready: "isOK (validate_ready_trials plan)" using plan(2,5) by (simp add: validate_run_plan_Inr)
  have p1: "map (\<lambda>t. (pt_task_release t, pt_agent_condition t, pt_repetition t)) (rp_trials plan)
      = [(r, c, k). r \<leftarrow> rs_task_releases spec, c \<leftarrow> rs_agent_conditions spec, k \<leftarrow> [1..rs_repetitions spec]]"
    using slots(1) by (simp add: trial_slot_def [abs_def] slots_of_def)
  have "length (rp_trials plan) = length (slots_of spec)" using slots(1) by (metis length_map)
  then have p2: "map pt_ordinal (rp_trials plan) = [1..int (length (rs_task_releases spec))
      * int (length (rs_agent_conditions spec)) * rs_repetitions spec]"
    using slots(2) slots_of_length [of spec] spec(1) by simp
  have p3: "map (\<lambda>t. ei_key (pt_trial_identity t)) (rp_trials plan)
      = [trial_key (sn_task_id r) (ei_key (ac_identity c)) k.
          r \<leftarrow> rs_task_releases spec, c \<leftarrow> rs_agent_conditions spec, k \<leftarrow> [1..rs_repetitions spec]]"
    unfolding slots(3) slots_of_def slot_key_def by (simp add: map_concat comp_def)
  have p6: "list_all (\<lambda>t. pt_run_identity t = rs_run_identity spec) (rp_trials plan)"
    using ready_trials_distinct [OF ready] plan(3) by (simp add: list_all_iff)
  have p4: "distinct (map (\<lambda>t. ei_key (pt_trial_identity t)) (rp_trials plan))"
    and p5: "distinct (map (\<lambda>t. ei_id (pt_trial_identity t)) (rp_trials plan))"
    using ready_trials_distinct [OF ready] by blast+
  have p7: "rp_state plan = Plan_Is_Ready \<and> validate_run_plan plan = Inr plan" using plan(2,5) by blast
  show ?thesis by (rule conjI [OF p1 conjI [OF p2 conjI [OF p3 conjI [OF p4 conjI [OF p5 conjI [OF p6 p7]]]]]])
qed

section \<open>Trial keys\<close>

text \<open>Within one combination the repetition is read back from the key.\<close>

lemma trial_key_repetition:
  "1 \<le> k \<Longrightarrow> 1 \<le> k' \<Longrightarrow> trial_key a b k = trial_key a b k' \<Longrightarrow> k = k'"
  by (auto simp: trial_key_def dest: show_two_inj)

lemma key_pattern_False_append: "key_pattern False v \<Longrightarrow> key_pattern b u \<Longrightarrow> key_pattern b (u @ v)"
  by (induction b u rule: key_pattern.induct) (auto split: if_splits)

lemma key_pattern_weaken: "key_pattern True u \<Longrightarrow> key_pattern False u"
  by (cases u) (auto simp: is_key_char_def is_lower_alnum_def)

lemma digit_is_key_char: "is_digit_char c \<Longrightarrow> is_key_char c \<and> c \<noteq> CHR ''/''"
  by (auto simp: is_digit_char_def is_key_char_def is_lower_alnum_def less_eq_char_def Let_def)

lemma key_pattern_digits: "list_all is_digit_char u \<Longrightarrow> key_pattern False u"
  by (induction u) (auto dest: digit_is_key_char)

lemma trial_key_valid:
  assumes "key_pattern True a" "key_pattern True b"
  shows "key_pattern True (trial_key a b k)"
proof -
  have zero: "is_key_char CHR ''0''" by code_simp
  have "key_pattern False (show_two (nat k))"
    using show_nat_digits [of "nat k"] zero by (auto simp: show_two_def intro!: key_pattern_digits intro: digit_is_key_char [THEN conjunct1])
  then have "key_pattern False (''__rep-'' @ show_two (nat k))"
    by (rule key_pattern_False_append) (code_simp; fail)
  then have "key_pattern False (b @ ''__rep-'' @ show_two (nat k))"
    by (rule key_pattern_False_append) (rule key_pattern_weaken [OF assms(2)])
  then have "key_pattern False (''__'' @ b @ ''__rep-'' @ show_two (nat k))"
    by (rule key_pattern_False_append) (code_simp; fail)
  then show ?thesis
    unfolding trial_key_def by (rule key_pattern_False_append) (rule assms(1))
qed

end
