(* ===== verification/Progress.thy ===== *)
theory Progress
  imports Store_Lifecycle Run_Plan_Expansion
begin

text \<open>
  The read-only progress view of a run, \<^verbatim>\<open>execution/progress.py\<close>: the counts of the rows of one plan,
  the projection with its validator, and \<^verbatim>\<open>project_run_progress\<close>. A validation error of the projection
  is a \<open>Value_Error\<close>; a dictionary is the list of its entries.
\<close>

section \<open>Counts\<close>

record work_progress =
  wc_planned :: int
  wc_queued :: int
  wc_leased :: int
  wc_running :: int
  wc_cancel_requested :: int
  wc_succeeded :: int
  wc_failed :: int
  wc_cancelled :: int
  wc_invalid :: int
  wc_unknown :: int
  wc_missing :: int

record trial_progress =
  tc_planned :: int
  tc_queued :: int
  tc_running :: int
  tc_succeeded :: int
  tc_failed :: int
  tc_cancelled :: int
  tc_invalid :: int
  tc_unknown :: int
  tc_missing :: int

record attempt_progress =
  apc_created :: int
  apc_submitted :: int
  apc_running :: int
  apc_succeeded :: int
  apc_failed :: int
  apc_cancelled :: int
  apc_unknown :: int

record submission_progress =
  spc_submitted :: int
  spc_accepted :: int
  spc_running :: int
  spc_completed :: int
  spc_failed :: int
  spc_cancelled :: int
  spc_unknown :: int

text \<open>\<^verbatim>\<open>Counter(row.state for row in rows)[s]\<close>.\<close>

definition state_count :: "('r \<Rightarrow> 's) \<Rightarrow> 'r list \<Rightarrow> 's \<Rightarrow> int" where
  "state_count state rows s = int (length (filter (\<lambda>r. state r = s) rows))"

definition trial_counts :: "uuid list \<Rightarrow> trial_row list \<Rightarrow> trial_progress" where
  "trial_counts planned_ids rows = (let n = state_count tr_state rows in
     \<lparr>tc_planned = n T_Planned, tc_queued = n T_Queued, tc_running = n T_Running,
      tc_succeeded = n T_Succeeded, tc_failed = n T_Failed, tc_cancelled = n T_Cancelled,
      tc_invalid = n T_Invalid, tc_unknown = n T_Unknown,
      tc_missing = int (length planned_ids) - int (length rows)\<rparr>)"

definition work_counts :: "uuid list \<Rightarrow> work_row list \<Rightarrow> work_progress" where
  "work_counts planned_ids rows = (let n = state_count wi_state rows in
     \<lparr>wc_planned = n W_Planned, wc_queued = n W_Queued, wc_leased = n W_Leased, wc_running = n W_Running,
      wc_cancel_requested = n W_Cancel_Requested, wc_succeeded = n W_Succeeded, wc_failed = n W_Failed,
      wc_cancelled = n W_Cancelled, wc_invalid = n W_Invalid, wc_unknown = n W_Unknown,
      wc_missing = int (length planned_ids) - int (length rows)\<rparr>)"

definition attempt_counts :: "attempt_row list \<Rightarrow> attempt_progress" where
  "attempt_counts rows = (let n = state_count at_state rows in
     \<lparr>apc_created = n A_Created, apc_submitted = n A_Submitted, apc_running = n A_Running,
      apc_succeeded = n A_Succeeded, apc_failed = n A_Failed, apc_cancelled = n A_Cancelled,
      apc_unknown = n A_Unknown\<rparr>)"

definition submission_counts :: "submission_row list \<Rightarrow> submission_progress" where
  "submission_counts rows = (let n = state_count su_state rows in
     \<lparr>spc_submitted = n S_Submitted, spc_accepted = n S_Accepted, spc_running = n S_Running,
      spc_completed = n S_Completed, spc_failed = n S_Failed, spc_cancelled = n S_Cancelled,
      spc_unknown = n S_Unknown\<rparr>)"

definition trial_values :: "trial_progress \<Rightarrow> int list" where
  "trial_values c = [tc_planned c, tc_queued c, tc_running c, tc_succeeded c, tc_failed c, tc_cancelled c,
     tc_invalid c, tc_unknown c, tc_missing c]"

definition work_values :: "work_progress \<Rightarrow> int list" where
  "work_values c = [wc_planned c, wc_queued c, wc_leased c, wc_running c, wc_cancel_requested c,
     wc_succeeded c, wc_failed c, wc_cancelled c, wc_invalid c, wc_unknown c, wc_missing c]"

definition attempt_values :: "attempt_progress \<Rightarrow> int list" where
  "attempt_values c = [apc_created c, apc_submitted c, apc_running c, apc_succeeded c, apc_failed c,
     apc_cancelled c, apc_unknown c]"

definition submission_values :: "submission_progress \<Rightarrow> int list" where
  "submission_values c = [spc_submitted c, spc_accepted c, spc_running c, spc_completed c, spc_failed c,
     spc_cancelled c, spc_unknown c]"

section \<open>The projection\<close>

record run_progress =
  pg_run_id :: uuid
  pg_plan_id :: uuid
  pg_status :: run_status
  pg_planned :: int
  pg_work_items :: work_progress
  pg_trials :: trial_progress
  pg_attempts :: attempt_progress
  pg_backend_submissions :: submission_progress
  pg_active_leases :: int
  pg_expired_leases :: int
  pg_retries :: int
  pg_started_at :: "int option"
  pg_last_activity_at :: "int option"
  pg_estimated_remaining_work_count :: int
  pg_completion_blocked_by_non_terminal :: bool
  pg_completion_blocked_by_unknown :: bool
  pg_completion_blocked :: bool

definition non_terminal_blocker :: "trial_progress \<Rightarrow> work_progress \<Rightarrow> bool" where
  "non_terminal_blocker t w \<longleftrightarrow>
     tc_planned t + tc_queued t + tc_running t + tc_unknown t + tc_missing t
     + wc_planned w + wc_queued w + wc_leased w + wc_running w + wc_cancel_requested w
     + wc_unknown w + wc_missing w \<noteq> 0"

definition unknown_blocker :: "trial_progress \<Rightarrow> work_progress \<Rightarrow> bool" where
  "unknown_blocker t w \<longleftrightarrow> tc_unknown t \<noteq> 0 \<or> wc_unknown w \<noteq> 0"

definition remaining_count :: "trial_progress \<Rightarrow> int" where
  "remaining_count t = tc_planned t + tc_queued t + tc_running t + tc_unknown t + tc_missing t"

definition validate_progress :: "run_progress \<Rightarrow> string + run_progress" where
  "validate_progress p =
     bindE (guardE (list_all (\<lambda>n. 0 \<le> n)
         ([pg_planned p, pg_active_leases p, pg_expired_leases p, pg_retries p,
           pg_estimated_remaining_work_count p]
          @ work_values (pg_work_items p) @ trial_values (pg_trials p)
          @ attempt_values (pg_attempts p) @ submission_values (pg_backend_submissions p)))
       ''greater than or equal to 0'') (\<lambda>_.
     bindE (check_ids [pg_run_id p, pg_plan_id p]) (\<lambda>_.
     bindE (guardE (sum_list (trial_values (pg_trials p)) = pg_planned p)
       ''run progress trial counts must partition planned trials'') (\<lambda>_.
     bindE (guardE (sum_list (work_values (pg_work_items p)) = pg_planned p)
       ''run progress work-item counts must partition planned trials'') (\<lambda>_.
     bindE (guardE (pg_completion_blocked_by_non_terminal p
         = non_terminal_blocker (pg_trials p) (pg_work_items p))
       ''run progress non-terminal blocker does not match counts'') (\<lambda>_.
     bindE (guardE (pg_completion_blocked_by_unknown p = unknown_blocker (pg_trials p) (pg_work_items p))
       ''run progress unknown blocker does not match counts'') (\<lambda>_.
     bindE (guardE (pg_completion_blocked p
         = (non_terminal_blocker (pg_trials p) (pg_work_items p)
            \<or> unknown_blocker (pg_trials p) (pg_work_items p)))
       ''run progress completion blocker does not match counts'') (\<lambda>_.
     bindE (guardE (pg_estimated_remaining_work_count p = remaining_count (pg_trials p))
       ''run progress remaining count does not match non-terminal planned trials'') (\<lambda>_.
     bindE (guardE (\<not> (case (pg_started_at p, pg_last_activity_at p) of
           (Some s, Some l) \<Rightarrow> l < s | _ \<Rightarrow> False))
       ''run progress last_activity_at must not precede started_at'') (\<lambda>_.
       Inr p)))))))))"

section \<open>Reading the store\<close>

text \<open>\<^verbatim>\<open>d[k] = v\<close> on a dictionary.\<close>

fun dict_put :: "'k \<Rightarrow> 'v \<Rightarrow> ('k \<times> 'v) list \<Rightarrow> ('k \<times> 'v) list" where
  "dict_put k v [] = [(k, v)]"
| "dict_put k v ((k', v') # d) = (if k' = k then (k, v) # d else (k', v') # dict_put k v d)"

definition plan_trial_ids :: "run_plan \<Rightarrow> uuid list" where
  "plan_trial_ids p = map (\<lambda>t. ei_id (pt_trial_identity t)) (rp_trials p)"

definition plan_run_id :: "run_plan \<Rightarrow> uuid" where
  "plan_run_id p = ei_id (rp_run_identity p)"

definition plan_plan_id :: "run_plan \<Rightarrow> uuid" where
  "plan_plan_id p = ei_id (rp_plan_identity p)"

text \<open>The dictionary of the plan's trials by id: the last trial of an id counts.\<close>

definition authoritative :: "run_plan \<Rightarrow> uuid \<Rightarrow> planned_trial option" where
  "authoritative p = map_of (rev (map (\<lambda>t. (ei_id (pt_trial_identity t), t)) (rp_trials p)))"

fun validated_trial_rows :: "run_plan \<Rightarrow> (uuid \<times> trial_row) list \<Rightarrow> trial_row list
    \<Rightarrow> store_error + (uuid \<times> trial_row) list" where
  "validated_trial_rows p validated [] = Inr validated"
| "validated_trial_rows p validated (row # rows) =
     bindE (guardE (tr_run_id row = plan_run_id p) (Store_Error ''operational trial belongs to another run'')) (\<lambda>_.
     bindE (guardE (tr_plan_id row = plan_plan_id p) (Store_Error ''operational trial belongs to another plan'')) (\<lambda>_.
     case authoritative p (tr_trial_id row) of
       None \<Rightarrow> Inl (Store_Error ''operational trial is not present in authoritative run plan'')
     | Some t \<Rightarrow>
         bindE (guardE (tr_ordinal row = pt_ordinal t)
           (Store_Error ''operational trial ordinal does not match authoritative ordinal'')) (\<lambda>_.
         validated_trial_rows p (dict_put (tr_trial_id row) row validated) rows)))"

text \<open>\<^verbatim>\<open>{UUID(row.trial_id): row for row in work_rows if ...}\<close>.\<close>

definition expected_work_rows :: "uuid list \<Rightarrow> work_row list \<Rightarrow> (uuid \<times> work_row) list" where
  "expected_work_rows planned_ids rows =
     fold (\<lambda>row d. if wi_trial_id row \<in> set planned_ids then dict_put (wi_trial_id row) row d else d) rows []"

definition maximum_of :: "int \<Rightarrow> int list \<Rightarrow> int" where
  "maximum_of t ts = fold max ts t"

definition build_progress :: "run_plan \<Rightarrow> run_row \<Rightarrow> plan_row \<Rightarrow> trial_row list \<Rightarrow> work_row list
    \<Rightarrow> attempt_row list \<Rightarrow> lease_row list \<Rightarrow> submission_row list \<Rightarrow> run_progress" where
  "build_progress p run plan trials works attempts leases submissions =
     (let tc = trial_counts (plan_trial_ids p) trials; wc = work_counts (plan_trial_ids p) works in
      \<lparr>pg_run_id = plan_run_id p, pg_plan_id = plan_plan_id p, pg_status = rr_status run,
       pg_planned = int (length (plan_trial_ids p)), pg_work_items = wc, pg_trials = tc,
       pg_attempts = attempt_counts attempts, pg_backend_submissions = submission_counts submissions,
       pg_active_leases = state_count le_state leases L_Active,
       pg_expired_leases = state_count le_state leases L_Expired,
       pg_retries = int (length (filter (\<lambda>a. 0 < at_retry_number a) attempts)),
       pg_started_at = rr_started_at run,
       pg_last_activity_at = Some (maximum_of (rr_updated_at run)
         (pr_updated_at plan # map wi_updated_at works @ map tr_updated_at trials
          @ map at_updated_at attempts @ map su_updated_at submissions @ map le_heartbeat_at leases)),
       pg_estimated_remaining_work_count = remaining_count tc,
       pg_completion_blocked_by_non_terminal = non_terminal_blocker tc wc,
       pg_completion_blocked_by_unknown = unknown_blocker tc wc,
       pg_completion_blocked = (non_terminal_blocker tc wc \<or> unknown_blocker tc wc)\<rparr>)"

definition project_run_progress :: "run_plan \<Rightarrow> run_progress store_op" where
  "project_run_progress p =
     bindS (get_run (plan_run_id p)) (\<lambda>run.
     bindS (get_plan (plan_plan_id p)) (\<lambda>plan.
     checked (guardE (pr_run_id plan = plan_run_id p) (Store_Error ''operational plan belongs to another run'')) (\<lambda>_.
     bindS (list_planned_trials (plan_plan_id p)) (\<lambda>trial_list.
     checked (validated_trial_rows p [] trial_list) (\<lambda>trial_rows.
     bindS (list_work_items (plan_run_id p)) (\<lambda>work_rows.
       let expected = expected_work_rows (plan_trial_ids p) work_rows;
           work_trials = map (\<lambda>(trial, row). (wi_work_id row, trial)) expected in
     bindS (list_attempts_for_run (plan_run_id p)) (\<lambda>attempt_list.
       let attempts = filter (\<lambda>a. at_work_id a \<in> fst ` set work_trials
             \<and> map_of (rev work_trials) (at_work_id a) = Some (at_trial_id a)) attempt_list in
     bindS (list_leases_for_run (plan_run_id p)) (\<lambda>lease_list.
       let leases = filter (\<lambda>l. le_work_id l \<in> fst ` set work_trials) lease_list in
     bindS (list_backend_submissions_for_run (plan_run_id p)) (\<lambda>submission_list.
       let submissions = filter (\<lambda>s. su_attempt_id s \<in> at_attempt_id ` set attempts) submission_list in
     checked (case validate_progress (build_progress p run plan (map snd trial_rows) (map snd expected)
           attempts leases submissions) of Inl e \<Rightarrow> Inl (Value_Error e) | Inr r \<Rightarrow> Inr r)
       returnS)))))))))"

section \<open>Counting by state\<close>

lemma state_count_Nil [simp]: "state_count f [] s = 0"
  by (simp add: state_count_def)

lemma state_count_Cons [simp]: "state_count f (r # rs) s = (if f r = s then 1 else 0) + state_count f rs s"
  by (simp add: state_count_def)

lemma state_count_nonneg [simp]: "0 \<le> state_count f rs s"
  by (simp add: state_count_def)

lemma trial_counts_sum: "sum_list (trial_values (trial_counts ids rows)) = int (length ids)"
proof -
  have "state_count tr_state rows T_Planned + state_count tr_state rows T_Queued + state_count tr_state rows T_Running
      + state_count tr_state rows T_Succeeded + state_count tr_state rows T_Failed + state_count tr_state rows T_Cancelled
      + state_count tr_state rows T_Invalid + state_count tr_state rows T_Unknown = int (length rows)"
  proof (induction rows)
    case (Cons r rows)
    then show ?case by (cases "tr_state r") simp_all
  qed simp
  then show ?thesis by (simp add: trial_values_def trial_counts_def Let_def)
qed

lemma work_counts_sum: "sum_list (work_values (work_counts ids rows)) = int (length ids)"
proof -
  have "state_count wi_state rows W_Planned + state_count wi_state rows W_Queued + state_count wi_state rows W_Leased
      + state_count wi_state rows W_Running + state_count wi_state rows W_Cancel_Requested
      + state_count wi_state rows W_Succeeded + state_count wi_state rows W_Failed + state_count wi_state rows W_Cancelled
      + state_count wi_state rows W_Invalid + state_count wi_state rows W_Unknown = int (length rows)"
  proof (induction rows)
    case (Cons r rows)
    then show ?case by (cases "wi_state r") simp_all
  qed simp
  then show ?thesis by (simp add: work_values_def work_counts_def Let_def)
qed

text \<open>The rows that are not in a terminal state, and the missing ones.\<close>

lemma open_trials_count:
  "remaining_count (trial_counts ids rows) =
     int (length (filter (\<lambda>r. \<not> terminal_trial (tr_state r)) rows)) + (int (length ids) - int (length rows))"
proof -
  have "state_count tr_state rows T_Planned + state_count tr_state rows T_Queued + state_count tr_state rows T_Running
      + state_count tr_state rows T_Unknown = int (length (filter (\<lambda>r. \<not> terminal_trial (tr_state r)) rows))"
  proof (induction rows)
    case (Cons r rows)
    then show ?case by (cases "tr_state r") simp_all
  qed simp
  then show ?thesis by (simp add: remaining_count_def trial_counts_def Let_def)
qed

definition open_work :: "work_progress \<Rightarrow> int" where
  "open_work w = wc_planned w + wc_queued w + wc_leased w + wc_running w + wc_cancel_requested w
     + wc_unknown w + wc_missing w"

lemma open_work_count:
  "open_work (work_counts ids rows) =
     int (length (filter (\<lambda>r. \<not> terminal_work (wi_state r)) rows)) + (int (length ids) - int (length rows))"
proof -
  have "state_count wi_state rows W_Planned + state_count wi_state rows W_Queued + state_count wi_state rows W_Leased
      + state_count wi_state rows W_Running + state_count wi_state rows W_Cancel_Requested
      + state_count wi_state rows W_Unknown = int (length (filter (\<lambda>r. \<not> terminal_work (wi_state r)) rows))"
  proof (induction rows)
    case (Cons r rows)
    then show ?case by (cases "wi_state r") simp_all
  qed simp
  then show ?thesis by (simp add: open_work_def work_counts_def Let_def)
qed

lemma non_terminal_blocker_alt: "non_terminal_blocker t w \<longleftrightarrow> remaining_count t + open_work w \<noteq> 0"
  by (simp add: non_terminal_blocker_def remaining_count_def open_work_def algebra_simps)

text \<open>The ids that no finished row covers, counted from the rows.\<close>

lemma open_ids_count:
  assumes "distinct ids" "distinct (map key rows)" "key ` set rows \<subseteq> set ids"
  shows "int (length (filter (\<lambda>i. \<not> (\<exists>r\<in>set rows. key r = i \<and> finished r)) ids))
    = int (length (filter (\<lambda>r. \<not> finished r) rows)) + (int (length ids) - int (length rows))"
proof -
  let ?done = "filter finished rows"
  have sub: "key ` set ?done \<subseteq> set ids" using assms(3) by auto
  have inj: "inj_on key (set ?done)" using assms(2) by (auto simp: distinct_map intro: inj_on_subset)
  have "length (filter (\<lambda>i. \<not> (\<exists>r\<in>set rows. key r = i \<and> finished r)) ids)
      = card (set (filter (\<lambda>i. \<not> (\<exists>r\<in>set rows. key r = i \<and> finished r)) ids))"
    by (rule distinct_card [symmetric]) (use assms(1) in simp)
  also have "set (filter (\<lambda>i. \<not> (\<exists>r\<in>set rows. key r = i \<and> finished r)) ids) = set ids - key ` set ?done"
    by auto
  also have "card \<dots> = card (set ids) - card (key ` set ?done)"
    using sub by (simp add: card_Diff_subset)
  also have finished_card: "card (key ` set ?done) = length ?done"
    using card_image [OF inj] distinct_card [of ?done] assms(2) by (simp only: distinct_map distinct_filter)
  also have "card (set ids) = length ids" using assms(1) by (rule distinct_card)
  finally have a: "length (filter (\<lambda>i. \<not> (\<exists>r\<in>set rows. key r = i \<and> finished r)) ids) = length ids - length ?done" .
  have "length ?done \<le> length ids"
    using card_mono [OF _ sub] finished_card assms(1) by (simp add: distinct_card)
  then show ?thesis using a sum_length_filter_compl [of finished rows] by simp
qed

lemma rows_fit: "distinct (map key rows) \<Longrightarrow> key ` set rows \<subseteq> set ids \<Longrightarrow> length rows \<le> length ids"
  using card_mono [of "set ids" "key ` set rows"] card_length [of ids]
  by (metis List.finite_set distinct_card length_map list.set_map order_trans)

section \<open>Dictionaries of rows\<close>

lemma dict_put_fresh: "k \<notin> fst ` set d \<Longrightarrow> dict_put k v d = d @ [(k, v)]"
  by (induction d) auto

lemma validated_trial_rows_all:
  assumes "distinct (map tr_trial_id rows)" "tr_trial_id ` set rows \<inter> fst ` set acc = {}"
    and "\<And>r. r \<in> set rows \<Longrightarrow> tr_run_id r = plan_run_id p \<and> tr_plan_id r = plan_plan_id p
      \<and> (\<exists>t. authoritative p (tr_trial_id r) = Some t \<and> tr_ordinal r = pt_ordinal t)"
  shows "validated_trial_rows p acc rows = Inr (acc @ map (\<lambda>r. (tr_trial_id r, r)) rows)"
  using assms
proof (induction rows arbitrary: acc)
  case (Cons r rows)
  obtain t where t: "authoritative p (tr_trial_id r) = Some t" "tr_ordinal r = pt_ordinal t"
    using Cons.prems(3) [of r] by auto
  have "validated_trial_rows p (acc @ [(tr_trial_id r, r)]) rows
      = Inr ((acc @ [(tr_trial_id r, r)]) @ map (\<lambda>r. (tr_trial_id r, r)) rows)"
    by (rule Cons.IH) (use Cons.prems in auto)
  moreover have "tr_trial_id r \<notin> fst ` set acc" using Cons.prems(2) by auto
  ultimately show ?case using Cons.prems(3) [of r] t by (simp add: dict_put_fresh)
qed simp

lemma expected_work_rows_fold:
  assumes "distinct (map wi_trial_id rows)" "wi_trial_id ` set rows \<inter> fst ` set acc = {}"
  shows "fold (\<lambda>row d. if wi_trial_id row \<in> set ids then dict_put (wi_trial_id row) row d else d) rows acc
    = acc @ map (\<lambda>r. (wi_trial_id r, r)) (filter (\<lambda>r. wi_trial_id r \<in> set ids) rows)"
  using assms
proof (induction rows arbitrary: acc)
  case (Cons r rows)
  have "wi_trial_id r \<notin> fst ` set acc" using Cons.prems(2) by auto
  then show ?case using Cons by (auto simp: dict_put_fresh)
qed simp

lemma expected_work_rows_distinct:
  "distinct (map wi_trial_id rows) \<Longrightarrow>
    expected_work_rows ids rows = map (\<lambda>r. (wi_trial_id r, r)) (filter (\<lambda>r. wi_trial_id r \<in> set ids) rows)"
  using expected_work_rows_fold [of rows "[]"] by (simp add: expected_work_rows_def)

section \<open>What the view shows\<close>

text \<open>
  The rows of the store belong to the plan: its run and plan exist, every stored trial of the plan is
  one of its trials with the same ordinal, and the run's clock did not go back over its start.
\<close>

definition progress_inputs :: "run_plan \<Rightarrow> store \<Rightarrow> bool" where
  "progress_inputs p st \<longleftrightarrow>
     uuidv7_ok (plan_run_id p) \<and> uuidv7_ok (plan_plan_id p)
     \<and> (\<exists>run. the_run (plan_run_id p) st = Some run
          \<and> (\<forall>s. rr_started_at run = Some s \<longrightarrow> s \<le> rr_updated_at run))
     \<and> (\<exists>plan. the_plan (plan_plan_id p) st = Some plan \<and> pr_run_id plan = plan_run_id p)
     \<and> (\<forall>row\<in>set (st_trials st). tr_plan_id row = plan_plan_id p \<longrightarrow>
          (\<exists>t\<in>set (rp_trials p). ei_id (pt_trial_identity t) = tr_trial_id row \<and> pt_ordinal t = tr_ordinal row))"

definition trial_finished :: "run_plan \<Rightarrow> store \<Rightarrow> uuid \<Rightarrow> bool" where
  "trial_finished p st i \<longleftrightarrow> (\<exists>row\<in>set (st_trials st). tr_plan_id row = plan_plan_id p
     \<and> tr_trial_id row = i \<and> terminal_trial (tr_state row))"

definition work_finished :: "run_plan \<Rightarrow> store \<Rightarrow> uuid \<Rightarrow> bool" where
  "work_finished p st i \<longleftrightarrow> (\<exists>row\<in>set (st_work st). wi_run_id row = plan_run_id p
     \<and> wi_trial_id row = i \<and> terminal_work (wi_state row))"

lemma authoritative_mem:
  assumes "distinct (plan_trial_ids p)" "t \<in> set (rp_trials p)"
  shows "authoritative p (ei_id (pt_trial_identity t)) = Some t"
proof -
  have "distinct (map fst (rev (map (\<lambda>t. (ei_id (pt_trial_identity t), t)) (rp_trials p))))"
    using assms(1) by (simp add: plan_trial_ids_def rev_map [symmetric] comp_def)
  then show ?thesis using assms(2) unfolding authoritative_def by (intro map_of_is_SomeI) auto
qed

lemma activity_max_ge: "t \<le> fold max ts (t::int)"
proof (induction ts arbitrary: t)
  case (Cons u ts)
  have "t \<le> max u t" by simp
  also have "\<dots> \<le> fold max ts (max u t)" by (rule Cons.IH)
  finally show ?case by simp
qed simp

text \<open>The filtered tables that the projection works on.\<close>

definition plan_trial_rows :: "run_plan \<Rightarrow> store \<Rightarrow> trial_row list" where
  "plan_trial_rows p st = sort_key tr_ordinal (filter (\<lambda>t. tr_plan_id t = plan_plan_id p) (st_trials st))"

definition plan_work_rows :: "run_plan \<Rightarrow> store \<Rightarrow> work_row list" where
  "plan_work_rows p st = filter (\<lambda>r. wi_trial_id r \<in> set (plan_trial_ids p))
     (sort_key (\<lambda>w. (- wi_priority w, wi_created_at w, wi_ordinal w, wi_work_id w))
       (filter (\<lambda>w. wi_run_id w = plan_run_id p) (st_work st)))"

lemma distinct_map_sort_filter:
  "distinct (map f xs) \<Longrightarrow> distinct (map f (sort_key k (filter P xs)))"
  by (simp add: distinct_map inj_on_def)

lemma plan_rows_distinct:
  assumes "reachable st"
  shows "distinct (map tr_trial_id (plan_trial_rows p st))"
    "distinct (map wi_trial_id (sort_key (\<lambda>w. (- wi_priority w, wi_created_at w, wi_ordinal w, wi_work_id w))
       (filter (\<lambda>w. wi_run_id w = plan_run_id p) (st_work st))))"
    "distinct (map wi_trial_id (plan_work_rows p st))"
proof -
  have inv: "store_inv st" using reachable_inv [OF assms] .
  have "distinct (map tr_trial_id (st_trials st))" "distinct (map wi_trial_id (st_work st))"
    using inv by (simp_all add: store_inv_def structure_ok_def trials_ok_def work_ok_def trial_cols_def
        work_cols_def comp_def)
  then show "distinct (map tr_trial_id (plan_trial_rows p st))"
    "distinct (map wi_trial_id (sort_key (\<lambda>w. (- wi_priority w, wi_created_at w, wi_ordinal w, wi_work_id w))
       (filter (\<lambda>w. wi_run_id w = plan_run_id p) (st_work st))))"
    by (simp_all only: plan_trial_rows_def distinct_map_sort_filter)
  then show "distinct (map wi_trial_id (plan_work_rows p st))"
    by (simp add: plan_work_rows_def distinct_map_filter)
qed

lemma plan_trial_rows_authoritative:
  assumes "reachable st" "progress_inputs p st" "distinct (plan_trial_ids p)" "r \<in> set (plan_trial_rows p st)"
  shows "tr_run_id r = plan_run_id p" "tr_plan_id r = plan_plan_id p"
    "\<exists>t. authoritative p (tr_trial_id r) = Some t \<and> tr_ordinal r = pt_ordinal t"
    "tr_trial_id r \<in> set (plan_trial_ids p)"
proof -
  have r: "r \<in> set (st_trials st)" "tr_plan_id r = plan_plan_id p"
    using assms(4) by (auto simp: plan_trial_rows_def)
  show "tr_plan_id r = plan_plan_id p" by (rule r)
  obtain t where t: "t \<in> set (rp_trials p)" "ei_id (pt_trial_identity t) = tr_trial_id r" "pt_ordinal t = tr_ordinal r"
    using assms(2) r unfolding progress_inputs_def by blast
  show "\<exists>t. authoritative p (tr_trial_id r) = Some t \<and> tr_ordinal r = pt_ordinal t"
    using authoritative_mem [OF assms(3) t(1)] t by auto
  show "tr_trial_id r \<in> set (plan_trial_ids p)" using t by (force simp: plan_trial_ids_def)
  obtain plan where plan: "the_plan (plan_plan_id p) st = Some plan" "pr_run_id plan = plan_run_id p"
    using assms(2) by (auto simp: progress_inputs_def)
  have inv: "store_inv st" using reachable_inv [OF assms(1)] .
  have "(plan_plan_id p, tr_run_id r) \<in> set (map plan_cols (st_plans st))"
    using inv r by (auto simp: store_inv_def structure_ok_def trials_ok_def trial_cols_def)
  moreover have "(plan_plan_id p, plan_run_id p) \<in> set (map plan_cols (st_plans st))"
    using plan by (auto simp: plan_cols_def dest!: find_row_Some_key intro!: rev_image_eqI)
  moreover have "distinct (map fst (map plan_cols (st_plans st)))"
    using inv by (simp add: store_inv_def structure_ok_def plans_ok_def)
  ultimately show "tr_run_id r = plan_run_id p" by (metis eq_key_imp_eq_value)
qed

lemma progress_rows:
  assumes "reachable st" "progress_inputs p st" "distinct (plan_trial_ids p)"
  shows "validated_trial_rows p [] (plan_trial_rows p st)
      = Inr (map (\<lambda>r. (tr_trial_id r, r)) (plan_trial_rows p st))"
    "expected_work_rows (plan_trial_ids p) (sort_key (\<lambda>w. (- wi_priority w, wi_created_at w, wi_ordinal w, wi_work_id w))
       (filter (\<lambda>w. wi_run_id w = plan_run_id p) (st_work st)))
      = map (\<lambda>r. (wi_trial_id r, r)) (plan_work_rows p st)"
proof -
  show "validated_trial_rows p [] (plan_trial_rows p st)
      = Inr (map (\<lambda>r. (tr_trial_id r, r)) (plan_trial_rows p st))"
    using validated_trial_rows_all [where rows = "plan_trial_rows p st" and acc = "[]" and p = p]
      plan_rows_distinct(1) [OF assms(1)] plan_trial_rows_authoritative [OF assms] by simp
  show "expected_work_rows (plan_trial_ids p) (sort_key (\<lambda>w. (- wi_priority w, wi_created_at w, wi_ordinal w, wi_work_id w))
       (filter (\<lambda>w. wi_run_id w = plan_run_id p) (st_work st)))
      = map (\<lambda>r. (wi_trial_id r, r)) (plan_work_rows p st)"
    unfolding plan_work_rows_def by (rule expected_work_rows_distinct) (rule plan_rows_distinct(2) [OF assms(1)])
qed

text \<open>How many planned trials are open: those without a finished trial row, and without finished work.\<close>

lemma progress_open:
  assumes "reachable st" "progress_inputs p st" "distinct (plan_trial_ids p)"
  shows "remaining_count (trial_counts (plan_trial_ids p) (plan_trial_rows p st))
      = int (length (filter (\<lambda>i. \<not> trial_finished p st i) (plan_trial_ids p)))"
    "open_work (work_counts (plan_trial_ids p) (plan_work_rows p st))
      = int (length (filter (\<lambda>i. \<not> work_finished p st i) (plan_trial_ids p)))"
    "length (plan_trial_rows p st) \<le> length (plan_trial_ids p)"
    "length (plan_work_rows p st) \<le> length (plan_trial_ids p)"
proof -
  have t: "tr_trial_id ` set (plan_trial_rows p st) \<subseteq> set (plan_trial_ids p)"
    using plan_trial_rows_authoritative(4) [OF assms] by auto
  have w: "wi_trial_id ` set (plan_work_rows p st) \<subseteq> set (plan_trial_ids p)"
    by (auto simp: plan_work_rows_def)
  note d = plan_rows_distinct [OF assms(1)]
  show "length (plan_trial_rows p st) \<le> length (plan_trial_ids p)" by (rule rows_fit [OF d(1) t])
  show "length (plan_work_rows p st) \<le> length (plan_trial_ids p)" by (rule rows_fit [OF d(3) w])
  have "trial_finished p st i \<longleftrightarrow> (\<exists>r\<in>set (plan_trial_rows p st). tr_trial_id r = i \<and> terminal_trial (tr_state r))" for i
    by (auto simp: trial_finished_def plan_trial_rows_def)
  then show "remaining_count (trial_counts (plan_trial_ids p) (plan_trial_rows p st))
      = int (length (filter (\<lambda>i. \<not> trial_finished p st i) (plan_trial_ids p)))"
    unfolding open_trials_count
    using open_ids_count [OF assms(3) d(1) t, of "\<lambda>r. terminal_trial (tr_state r)"] by simp
  have "i \<in> set (plan_trial_ids p) \<Longrightarrow>
      work_finished p st i \<longleftrightarrow> (\<exists>r\<in>set (plan_work_rows p st). wi_trial_id r = i \<and> terminal_work (wi_state r))" for i
    by (auto simp: work_finished_def plan_work_rows_def)
  then have "filter (\<lambda>i. \<not> work_finished p st i) (plan_trial_ids p)
      = filter (\<lambda>i. \<not> (\<exists>r\<in>set (plan_work_rows p st). wi_trial_id r = i \<and> terminal_work (wi_state r))) (plan_trial_ids p)"
    by (intro filter_cong refl) blast
  then show "open_work (work_counts (plan_trial_ids p) (plan_work_rows p st))
      = int (length (filter (\<lambda>i. \<not> work_finished p st i) (plan_trial_ids p)))"
    unfolding open_work_count
    using open_ids_count [OF assms(3) d(3) w, of "\<lambda>r. terminal_work (wi_state r)"] by simp
qed

lemma unknown_is_open:
  "unknown_blocker (trial_counts ids trials) (work_counts ids works) \<Longrightarrow>
    length trials \<le> length ids \<Longrightarrow> length works \<le> length ids \<Longrightarrow>
    non_terminal_blocker (trial_counts ids trials) (work_counts ids works)"
proof -
  assume a: "unknown_blocker (trial_counts ids trials) (work_counts ids works)"
    and l: "length trials \<le> length ids" "length works \<le> length ids"
  have "0 \<le> state_count tr_state trials x" "0 \<le> state_count wi_state works y" for x y by simp_all
  note pos = this(1) [of T_Planned] this(1) [of T_Queued] this(1) [of T_Running] this(1) [of T_Unknown]
    this(2) [of W_Planned] this(2) [of W_Queued] this(2) [of W_Leased] this(2) [of W_Running]
    this(2) [of W_Cancel_Requested] this(2) [of W_Unknown]
  show ?thesis
    using a l pos
    unfolding unknown_blocker_def non_terminal_blocker_def trial_counts_def work_counts_def Let_def
      trial_progress.simps work_progress.simps
    by linarith
qed

lemma build_progress_valid:
  assumes "length trials \<le> length (plan_trial_ids p)" "length works \<le> length (plan_trial_ids p)"
    "uuidv7_ok (plan_run_id p)" "uuidv7_ok (plan_plan_id p)"
    "\<forall>s. rr_started_at run = Some s \<longrightarrow> s \<le> rr_updated_at run"
  shows "validate_progress (build_progress p run plan trials works attempts leases submissions)
    = Inr (build_progress p run plan trials works attempts leases submissions)"
proof -
  let ?b = "build_progress p run plan trials works attempts leases submissions"
  have time: "\<not> (case (pg_started_at ?b, pg_last_activity_at ?b) of (Some s, Some l) \<Rightarrow> l < s | _ \<Rightarrow> False)"
    using assms(5) order_trans [OF _ activity_max_ge]
    by (auto simp: build_progress_def Let_def maximum_of_def not_less split: option.splits)
  have counts: "list_all (\<lambda>n. 0 \<le> n) (work_values (pg_work_items ?b))"
    "list_all (\<lambda>n. 0 \<le> n) (trial_values (pg_trials ?b))" "0 \<le> pg_estimated_remaining_work_count ?b"
    "list_all (\<lambda>n. 0 \<le> n) (attempt_values (pg_attempts ?b))"
    "list_all (\<lambda>n. 0 \<le> n) (submission_values (pg_backend_submissions ?b))"
    using assms(1,2)
    by (simp_all add: build_progress_def Let_def work_values_def trial_values_def attempt_values_def
        submission_values_def trial_counts_def work_counts_def attempt_counts_def submission_counts_def
        remaining_count_def)
  have "isOK (validate_progress ?b)"
    unfolding validate_progress_def isOK_bindE_const isOK_guardE isOK_check_ids isOK_simps
    using time counts assms(3,4) trial_counts_sum work_counts_sum
    by (simp add: build_progress_def Let_def del: fold_simps)
  then show ?thesis by (auto simp: validate_progress_def bindE_eq_Inr_iff guardE_eq_Inr_iff isOK_iff)
qed

lemma ready_plan_ids:
  assumes "validate_run_plan p = Inr p" "rp_state p = Plan_Is_Ready"
  shows "distinct (plan_trial_ids p)"
  using assms ready_trials_distinct [of p] by (simp add: validate_run_plan_Inr plan_trial_ids_def)

lemma checked_Inr: "checked (Inr x) f st = f x st"
  by (simp add: checked_apply)

lemma bind_listing: "uuidv7_ok i \<Longrightarrow> bindS (listing i l f) k st = k (f i st) st"
  by (simp add: listing_def checked_id_ok bindS_apply)

lemma project_run_progress_eval:
  assumes "reachable st" "distinct (plan_trial_ids p)" "progress_inputs p st"
  obtains run plan attempts leases submissions where
    "project_run_progress p st =
       (Inr (build_progress p run plan (plan_trial_rows p st) (plan_work_rows p st) attempts leases submissions), st)"
proof -
  obtain run where run: "the_run (plan_run_id p) st = Some run"
    "\<forall>s. rr_started_at run = Some s \<longrightarrow> s \<le> rr_updated_at run"
    using assms(3) by (auto simp: progress_inputs_def)
  obtain plan where plan: "the_plan (plan_plan_id p) st = Some plan" "pr_run_id plan = plan_run_id p"
    using assms(3) by (auto simp: progress_inputs_def)
  have ids: "uuidv7_ok (plan_run_id p)" "uuidv7_ok (plan_plan_id p)"
    using assms(3) by (simp_all add: progress_inputs_def)
  note checked = checked_id_ok [OF ids(1)] checked_id_ok [OF ids(2)]
  note rows = progress_rows [OF assms(1,3,2)]
  note fit = progress_open(3,4) [OF assms(1,3,2)]
  note valid = build_progress_valid [OF fit ids run(2)]
  have reads: "bindS (get_run (plan_run_id p)) g st = g run st"
    "bindS (get_plan (plan_plan_id p)) h st = h plan st" for g h
    by (simp_all add: get_run_def get_plan_def checked run(1) plan(1) require_row_def bindS_apply)
  have belongs: "guardE (pr_run_id plan = plan_run_id p) e = Inr ()" for e :: store_error using plan(2) by simp
  have snds: "map snd (map (\<lambda>r. (tr_trial_id r, r)) xs) = xs" "map snd (map (\<lambda>r. (wi_trial_id r, r)) ys) = ys"
    for xs ys by (simp_all add: comp_def)
  show ?thesis
    by (rule that, unfold project_run_progress_def list_planned_trials_def list_work_items_def
        list_attempts_for_run_def list_leases_for_run_def list_backend_submissions_for_run_def
        reads bind_listing [OF ids(1)] bind_listing [OF ids(2)] belongs Let_def checked_Inr
        plan_trial_rows_def [symmetric] rows snds valid sum.case returnS_def) (rule refl)
qed


section \<open>A demonstration view\<close>

definition demo_view_trial :: planned_trial where
  "demo_view_trial =
     \<lparr>pt_trial_identity = \<lparr>ei_id = demo_id 3, ei_key = ''pump__solver__rep-01'', ei_version = 1, ei_aliases = []\<rparr>,
      pt_ordinal = 1,
      pt_run_identity = \<lparr>ei_id = demo_id 1, ei_key = ''run'', ei_version = 1, ei_aliases = []\<rparr>,
      pt_task_release = demo_release 3 ''pump'',
      pt_task_metadata = \<lparr>tm_identity = demo_identity 3 ''pump'', tm_lifecycle = Lc_Active, tm_visibility = Vis_Public\<rparr>,
      pt_agent_condition = demo_condition 4 ''solver'', pt_compute = demo_compute, pt_repetition = 1,
      pt_seed = None, pt_execution_family = Artifact_Task, pt_family_release = None,
      pt_attempt_recipe = Single_Attempt, pt_evaluation_profile = None, pt_extensions = []\<rparr>"

definition demo_view_plan :: run_plan where
  "demo_view_plan =
     \<lparr>rp_plan_identity = \<lparr>ei_id = demo_id 2, ei_key = ''plan'', ei_version = 1, ei_aliases = []\<rparr>,
      rp_run_identity = \<lparr>ei_id = demo_id 1, ei_key = ''run'', ei_version = 1, ei_aliases = []\<rparr>,
      rp_created_at = Aware 0, rp_state = Plan_Is_Ready, rp_trials = [demo_view_trial],
      rp_summary = \<lparr>su_selected_task_count = 1, su_agent_condition_count = 1, su_repetitions = 1,
        su_total_trials = 1, su_trials_by_execution_family = [(Artifact_Task, 1)],
        su_trials_by_backend = [(''local'', 1)], su_visibility_policy = [Vis_Public],
        su_tasks_by_visibility = [(Vis_Public, 1)], su_deprecated_task_count = 0\<rparr>\<rparr>"

lemma demo_view_plan_valid: "validate_run_plan demo_view_plan = Inr demo_view_plan"
proof -
  have "isOK (validate_run_plan demo_view_plan)" by code_simp
  then show ?thesis by (auto simp: validate_run_plan_def bindE_eq_Inr_iff isOK_iff)
qed

lemma demo_reached_tables:
  "the_run (demo_id 1) demo_reached = Some \<lparr>rr_run_id = demo_id 1, rr_status = Run_Ready,
     rr_spec_ref = ''spec.json'', rr_created_at = 0, rr_started_at = None, rr_finished_at = None,
     rr_updated_at = 0, rr_cancellation_requested_at = None\<rparr>"
  "the_plan (demo_id 2) demo_reached = Some \<lparr>pr_plan_id = demo_id 2, pr_run_id = demo_id 1,
     pr_state = Plan_Ready, pr_plan_ref = ''plan.json'', pr_created_at = 0, pr_updated_at = 0\<rparr>"
  "st_trials demo_reached = [demo_trial 3 1 T_Planned]"
  unfolding demo_reached_def
  by (simp_all add: demo_eval demo_ref_ok create_run_def empty_store_def put_plan_def put_planned_trial_def
      create_work_item_def check_work_item_def acquire_lease_def acquire_lease_txn_def expire_all_def
      expired_leases_def demo_work_def mark_leased_def bindS_def new_lease_def demo_trial_def)

lemma demo_progress_inputs: "progress_inputs demo_view_plan demo_reached"
  by (simp add: progress_inputs_def demo_reached_tables plan_run_id_def plan_plan_id_def demo_view_plan_def
      demo_view_trial_def demo_trial_def)


end
