(* ===== verification/Scheduler_Enqueue.thy ===== *)
theory Scheduler_Enqueue
  imports Scheduler_Results Progress "HOL-Library.Multiset"
begin

text \<open>
  \<^verbatim>\<open>LocalScheduler.enqueue_ready_plan\<close>, which puts the trials of a ready plan and their work items into
  the store, and the two methods that only pass a call on to the store.
\<close>

section \<open>The operations\<close>

fun task_kind_label :: "task_kind \<Rightarrow> string" where
  "task_kind_label Artifact_Task = ''artifact''"
| "task_kind_label Lifecycle_Task = ''lifecycle''"
| "task_kind_label World_Task = ''world''"

text \<open>\<^verbatim>\<open>LocalScheduler.request_cancellation\<close> and \<^verbatim>\<open>LocalScheduler.queue_counts\<close>.\<close>

definition scheduler_request_cancellation :: "int \<Rightarrow> uuid \<Rightarrow> uuid option \<Rightarrow> py_datetime option \<Rightarrow> unit store_op" where
  "scheduler_request_cancellation clock run_id trial_id now =
     bindS (request_cancellation clock run_id trial_id now) (\<lambda>_. returnS ())"

definition scheduler_queue_counts :: "uuid option \<Rightarrow> queue_count list store_op" where
  "scheduler_queue_counts run_id = list_queue_counts run_id"

text \<open>\<^verbatim>\<open>{item.trial_id: item for item in work_items}\<close>.\<close>

definition supplied_items :: "trial_work_item list \<Rightarrow> (uuid \<times> trial_work_item) list" where
  "supplied_items items = fold (\<lambda>item d. dict_put (tw_trial_id item) item d) items []"

definition item_matches :: "execution_policy \<Rightarrow> run_plan \<Rightarrow> planned_trial \<Rightarrow> trial_work_item \<Rightarrow> bool" where
  "item_matches policy plan trial item \<longleftrightarrow>
     \<not> (tw_run_id item \<noteq> plan_run_id plan \<or> tw_plan_id item \<noteq> plan_plan_id plan
        \<or> tw_ordinal item \<noteq> pt_ordinal trial \<or> tw_execution_family item \<noteq> pt_execution_family trial
        \<or> tw_retry_policy item \<noteq> ep_retry_policy policy \<or> tw_state item \<notin> {W_Planned, W_Queued})"

definition check_supplied :: "execution_policy \<Rightarrow> run_plan \<Rightarrow> trial_work_item list \<Rightarrow> store_error + unit" where
  "check_supplied policy plan items =
     (let supplied = supplied_items items in
      bindE (guardE (fst ` set supplied = set (plan_trial_ids plan))
        (Store_Error ''enqueue work items must cover each ready plan trial exactly once'')) (\<lambda>_.
      bindE (guardE (length supplied = length items)
        (Store_Error ''enqueue work items must not duplicate a trial'')) (\<lambda>_.
      checkE_all (\<lambda>(trial_id, item).
          case authoritative plan trial_id of
            None \<Rightarrow> Inl (Store_Error ''KeyError'')
          | Some trial \<Rightarrow> guardE (item_matches policy plan trial item)
              (Store_Error ''work item does not match authoritative trial'')) supplied)))"

text \<open>The columns that \<^verbatim>\<open>create_work_item\<close> receives; its state and time stamps are set by the store.\<close>

definition item_row :: "trial_work_item \<Rightarrow> work_row" where
  "item_row item =
     \<lparr>wi_work_id = tw_work_id item, wi_work_key = tw_work_key item, wi_run_id = tw_run_id item,
      wi_trial_id = tw_trial_id item, wi_kind = ''trial'', wi_state = W_Queued, wi_priority = tw_priority item,
      wi_created_at = 0, wi_updated_at = 0, wi_plan_id = tw_plan_id item, wi_ordinal = tw_ordinal item,
      wi_execution_family = task_kind_label (tw_execution_family item), wi_backend = tw_backend item,
      wi_provider_route = tw_provider_route item, wi_model_route = tw_model_route item,
      wi_resource_class = tw_resource_class item, wi_available_at = 0,
      wi_retry_policy = tw_retry_policy item\<rparr>"

definition put_plan_trials :: "int \<Rightarrow> run_plan \<Rightarrow> trial_row list store_op" where
  "put_plan_trials clock plan = mapS (\<lambda>trial.
     put_planned_trial clock (ei_id (pt_trial_identity trial)) (plan_plan_id plan) (plan_run_id plan)
       (pt_ordinal trial) T_Planned None) (rp_trials plan)"

definition create_items :: "int \<Rightarrow> trial_work_item list \<Rightarrow> work_row list store_op" where
  "create_items clock items = mapS (\<lambda>item.
     create_work_item clock (item_row item) (tw_available_at item) (Some (tw_created_at item)))
       (sort_key tw_ordinal items)"

definition enqueue_ready_plan :: "int \<Rightarrow> execution_policy \<Rightarrow> run_plan \<Rightarrow> trial_work_item list
    \<Rightarrow> work_row list store_op" where
  "enqueue_ready_plan clock policy plan items =
     checked (guardE (rp_state plan = Plan_Is_Ready) (Store_Error ''only ready run plans can be enqueued'')) (\<lambda>_.
     bindS (get_plan (plan_plan_id plan)) (\<lambda>record.
     checked (guardE (pr_run_id record = plan_run_id plan)
       (Store_Error ''stored plan does not belong to the authoritative run'')) (\<lambda>_.
     checked (guardE (pr_state record = Plan_Ready) (Store_Error ''stored plan is not ready for enqueue'')) (\<lambda>_.
     checked (check_supplied policy plan items) (\<lambda>_.
     bindS (put_plan_trials clock plan) (\<lambda>_.
     create_items clock items))))))"

section \<open>What a call leaves\<close>

text \<open>The store only gains trial and work rows.\<close>

definition grows :: "store \<Rightarrow> store \<Rightarrow> bool" where
  "grows st st' \<longleftrightarrow> (\<exists>ts ws. st' = st\<lparr>st_trials := st_trials st @ ts, st_work := st_work st @ ws\<rparr>)"

lemma grows_append:
  "grows st st" "grows st (st\<lparr>st_trials := st_trials st @ ts\<rparr>)" "grows st (st\<lparr>st_work := st_work st @ ws\<rparr>)"
  unfolding grows_def
  by (rule exI [of _ "[]"], rule exI [of _ "[]"], simp, rule exI [of _ ts], rule exI [of _ "[]"], simp,
      rule exI [of _ "[]"], rule exI [of _ ws], simp)

lemma grows_trans:
  assumes "grows st st'" "grows st' st''"
  shows "grows st st''"
proof -
  obtain ts ws where "st' = st\<lparr>st_trials := st_trials st @ ts, st_work := st_work st @ ws\<rparr>"
    using assms(1) by (auto simp: grows_def)
  moreover obtain ts' ws' where "st'' = st'\<lparr>st_trials := st_trials st' @ ts', st_work := st_work st' @ ws'\<rparr>"
    using assms(2) by (auto simp: grows_def)
  ultimately show ?thesis
    unfolding grows_def by (intro exI [of _ "ts @ ts'"] exI [of _ "ws @ ws'"]) simp
qed

lemma grows_rows:
  "grows st st' \<Longrightarrow> set (st_trials st) \<subseteq> set (st_trials st') \<and> set (st_work st) \<subseteq> set (st_work st')
    \<and> st_leases st' = st_leases st \<and> st_attempts st' = st_attempts st \<and> st_runs st' = st_runs st
    \<and> st_plans st' = st_plans st"
  by (auto simp: grows_def)

lemma put_planned_trial_grows:
  assumes "put_planned_trial clock tid pid rid k s now st = (Inr row, st')"
  shows "grows st st'" "row \<in> set (st_trials st')" "tr_trial_id row = tid" "tr_plan_id row = pid"
    "tr_run_id row = rid" "tr_ordinal row = k"
proof -
  obtain stamp where run: "put_planned_trial_txn tid pid rid k s stamp st = Inr (row, st')"
    using assms unfolding put_planned_trial_def
    by (auto simp: checked_Inr_iff write_txn_Inr_iff err_iffs)
  have result: "(st' = st \<and> the_trial tid st = Some row \<and> tr_plan_id row = pid \<and> tr_run_id row = rid \<and> tr_ordinal row = k)
     \<or> (\<exists>t. st' = st\<lparr>st_trials := st_trials st @ [t]\<rparr> \<and> row = t \<and> tr_trial_id t = tid
          \<and> tr_plan_id t = pid \<and> tr_run_id t = rid \<and> tr_ordinal t = k)"
    using run unfolding put_planned_trial_txn_def
    by (auto simp: txn_iffs insert_trial_def find_row_append)
  then show "grows st st'" using grows_append by auto
  show "row \<in> set (st_trials st')" "tr_trial_id row = tid" "tr_plan_id row = pid"
    "tr_run_id row = rid" "tr_ordinal row = k"
    using result by (auto dest: find_row_Some_key)
qed

lemma create_work_item_grows:
  assumes "create_work_item clock w available now st = (Inr row, st')"
  shows "grows st st'" "row \<in> set (st_work st')" "wi_work_id row = wi_work_id w"
    "wi_trial_id row = wi_trial_id w" "wi_run_id row = wi_run_id w" "wi_plan_id row = wi_plan_id w"
    "wi_ordinal row = wi_ordinal w"
proof -
  obtain w' where check: "check_work_item clock w available now = Inr w'"
    and run: "create_work_item_txn w' st = Inr (row, st')"
    using assms unfolding create_work_item_def by (auto simp: checked_Inr_iff write_txn_Inr_iff)
  have w': "wi_work_id w' = wi_work_id w" "wi_trial_id w' = wi_trial_id w" "wi_run_id w' = wi_run_id w"
    "wi_plan_id w' = wi_plan_id w" "wi_ordinal w' = wi_ordinal w"
    using check by (cases available; auto simp: check_work_item_def err_iffs)+
  have result: "(st' = st \<and> the_work (wi_work_id w') st = Some row \<and> work_immutable row = work_immutable w')
      \<or> (st' = st\<lparr>st_work := st_work st @ [w']\<rparr> \<and> row = w')"
    using run unfolding create_work_item_txn_def
    by (auto simp: txn_iffs insert_work_def find_row_append)
  then show "grows st st'" using grows_append by auto
  show "row \<in> set (st_work st')" "wi_work_id row = wi_work_id w" "wi_trial_id row = wi_trial_id w"
    "wi_run_id row = wi_run_id w" "wi_plan_id row = wi_plan_id w" "wi_ordinal row = wi_ordinal w"
    using result w' by (auto dest: find_row_Some_key simp: work_immutable_def)
qed

text \<open>A loop of calls that each leave their row leaves all rows.\<close>

lemma mapS_grows:
  assumes "\<And>x s y s'. x \<in> set xs \<Longrightarrow> f x s = (Inr y, s') \<Longrightarrow> grows s s' \<and> P x y s'"
    and "\<And>x y s s'. P x y s \<Longrightarrow> grows s s' \<Longrightarrow> P x y s'"
    and "mapS f xs st = (Inr ys, st')"
  shows "grows st st' \<and> list_all2 (\<lambda>x y. P x y st') xs ys"
  using assms(1,3)
proof (induction xs arbitrary: st ys)
  case Nil
  then show ?case by (simp add: grows_append)
next
  case (Cons x xs)
  obtain y s1 where head: "f x st = (Inr y, s1)" and rest: "bindS (mapS f xs) (\<lambda>ys. returnS (y # ys)) s1 = (Inr ys, st')"
    using Cons.prems(2) by (auto simp: bindS_eq_Inr_iff)
  then obtain ys' where tail: "mapS f xs s1 = (Inr ys', st')" and ys: "ys = y # ys'"
    by (auto simp: bindS_eq_Inr_iff)
  have one: "grows st s1 \<and> P x y s1" using Cons.prems(1) [OF _ head] by simp
  have all: "grows s1 st' \<and> list_all2 (\<lambda>x y. P x y st') xs ys'"
    by (rule Cons.IH [OF Cons.prems(1) tail]) simp_all
  then show ?case using one assms(2) grows_trans ys by auto
qed

lemma list_all2_left: "list_all2 P xs ys \<Longrightarrow> x \<in> set xs \<Longrightarrow> \<exists>y\<in>set ys. P x y"
  by (induction rule: list_all2_induct) auto

lemma list_all2_map_eq: "list_all2 P xs ys \<Longrightarrow> (\<And>x y. P x y \<Longrightarrow> f y = g x) \<Longrightarrow> map f ys = map g xs"
  by (induction rule: list_all2_induct) auto

lemma list_all2_right: "list_all2 P xs ys \<Longrightarrow> y \<in> set ys \<Longrightarrow> \<exists>x\<in>set xs. P x y"
  by (induction rule: list_all2_induct) auto

lemma put_plan_trials_leaves:
  assumes "put_plan_trials clock plan st = (Inr rows, st')"
  shows "grows st st' \<and> (\<forall>t\<in>set (rp_trials plan). \<exists>row\<in>set (st_trials st').
    tr_trial_id row = ei_id (pt_trial_identity t) \<and> tr_plan_id row = plan_plan_id plan
    \<and> tr_run_id row = plan_run_id plan \<and> tr_ordinal row = pt_ordinal t)"
proof -
  let ?P = "\<lambda>t (row :: trial_row) st. row \<in> set (st_trials st) \<and> tr_trial_id row = ei_id (pt_trial_identity t)
    \<and> tr_plan_id row = plan_plan_id plan \<and> tr_run_id row = plan_run_id plan \<and> tr_ordinal row = pt_ordinal t"
  have "grows st st' \<and> list_all2 (\<lambda>t row. ?P t row st') (rp_trials plan) rows"
    by (rule mapS_grows [OF _ _ assms [unfolded put_plan_trials_def]])
      (auto dest: put_planned_trial_grows grows_rows)
  then have g: "grows st st'" and rows: "list_all2 (\<lambda>t row. ?P t row st') (rp_trials plan) rows" by blast+
  show ?thesis using g list_all2_left [OF rows] by blast
qed

lemma create_items_leaves:
  assumes "create_items clock items st = (Inr rows, st')"
  shows "grows st st' \<and> list_all2 (\<lambda>item row. row \<in> set (st_work st') \<and> wi_work_id row = tw_work_id item
    \<and> wi_trial_id row = tw_trial_id item \<and> wi_run_id row = tw_run_id item \<and> wi_plan_id row = tw_plan_id item
    \<and> wi_ordinal row = tw_ordinal item) (sort_key tw_ordinal items) rows"
  using assms unfolding create_items_def
  by (rule mapS_grows [rotated 2]) (auto dest: create_work_item_grows grows_rows simp: item_row_def)

section \<open>The items cover the plan\<close>

lemma dict_put_keys: "fst ` set (dict_put k v d) = insert k (fst ` set d)"
  by (induction k v d rule: dict_put.induct) (simp_all add: insert_commute)

lemma dict_put_distinct: "distinct (map fst d) \<Longrightarrow> distinct (map fst (dict_put k v d))"
  by (induction k v d rule: dict_put.induct) (auto simp: dict_put_keys)

lemma supplied_items_keys:
  "fst ` set (supplied_items items) = tw_trial_id ` set items" "distinct (map fst (supplied_items items))"
proof -
  have "fst ` set (fold (\<lambda>item d. dict_put (tw_trial_id item) item d) items d) = fst ` set d \<union> tw_trial_id ` set items
      \<and> (distinct (map fst d) \<longrightarrow> distinct (map fst (fold (\<lambda>item d. dict_put (tw_trial_id item) item d) items d)))" for d
    by (induction items arbitrary: d) (simp_all add: dict_put_keys dict_put_distinct)
  from this [of "[]"] show "fst ` set (supplied_items items) = tw_trial_id ` set items"
    "distinct (map fst (supplied_items items))" by (simp_all add: supplied_items_def)
qed

lemma check_supplied_cover:
  assumes "check_supplied policy plan items = Inr u"
  shows "distinct (map tw_trial_id items)" "tw_trial_id ` set items = set (plan_trial_ids plan)"
proof -
  have len: "length (supplied_items items) = length items"
    and keys: "fst ` set (supplied_items items) = set (plan_trial_ids plan)"
    using assms by (auto simp: check_supplied_def Let_def bindE_eq_Inr_iff guardE_eq_Inr_iff)
  show "tw_trial_id ` set items = set (plan_trial_ids plan)" using keys supplied_items_keys(1) by metis
  have "card (set (map tw_trial_id items)) = card (set (map fst (supplied_items items)))"
    using supplied_items_keys(1) by (metis set_map)
  also have "\<dots> = length (map tw_trial_id items)"
    using distinct_card [OF supplied_items_keys(2)] len by (metis length_map)
  finally show "distinct (map tw_trial_id items)" by (rule card_distinct)
qed

lemma enqueue_Inr:
  assumes "enqueue_ready_plan clock policy plan items st = (Inr records, st')"
  obtains rows st1 where "check_supplied policy plan items = Inr ()"
    "put_plan_trials clock plan st = (Inr rows, st1)" "create_items clock items st1 = (Inr records, st')"
proof -
  have "\<exists>rows st1. check_supplied policy plan items = Inr () \<and> put_plan_trials clock plan st = (Inr rows, st1)
      \<and> create_items clock items st1 = (Inr records, st')"
    using assms unfolding enqueue_ready_plan_def get_plan_def
    by (auto simp: checked_Inr_iff bindS_eq_Inr_iff guardE_eq_Inr_iff)
  then show ?thesis using that by blast
qed

lemma enqueue_inv: "preserves store_inv (enqueue_ready_plan clock policy plan items)"
  unfolding enqueue_ready_plan_def get_plan_def put_plan_trials_def create_items_def
  by (intro preserve_intros)

text \<open>
  C37. Enqueueing covers a ready plan exactly once: when it succeeds on a store that satisfies its invariant,
  every planned trial has its row, under the plan and run of the plan and with its ordinal, and exactly
  one work item; the records returned are those work items, one per trial, in the order of their ordinals;
  and nothing but trial and work rows was added.
\<close>

theorem enqueue_covers_plan:
  assumes "reachable st" and "enqueue_ready_plan clock policy plan items st = (Inr records, st')"
  shows "(\<forall>t\<in>set (rp_trials plan). \<exists>row\<in>set (st_trials st'). tr_trial_id row = ei_id (pt_trial_identity t)
      \<and> tr_plan_id row = plan_plan_id plan \<and> tr_run_id row = plan_run_id plan \<and> tr_ordinal row = pt_ordinal t)
    \<and> (\<forall>t\<in>set (rp_trials plan). \<exists>!w. w \<in> set (st_work st') \<and> wi_trial_id w = ei_id (pt_trial_identity t))
    \<and> (set records \<subseteq> set (st_work st') \<and> wi_trial_id ` set records = set (plan_trial_ids plan)
      \<and> distinct (map wi_trial_id records) \<and> map wi_ordinal records = sort (map tw_ordinal items))
    \<and> (st_leases st' = st_leases st \<and> st_attempts st' = st_attempts st \<and> st_runs st' = st_runs st
      \<and> set (st_work st) \<subseteq> set (st_work st'))"
proof -
  obtain rows st1 where c: "check_supplied policy plan items = Inr ()"
    "put_plan_trials clock plan st = (Inr rows, st1)" "create_items clock items st1 = (Inr records, st')"
    using enqueue_Inr [OF assms(2)] .
  note puts = put_plan_trials_leaves [OF c(2)]
  note made = create_items_leaves [OF c(3)]
  note cover = check_supplied_cover [OF c(1)]
  have p1: "\<forall>t\<in>set (rp_trials plan). \<exists>row\<in>set (st_trials st'). tr_trial_id row = ei_id (pt_trial_identity t)
      \<and> tr_plan_id row = plan_plan_id plan \<and> tr_run_id row = plan_run_id plan \<and> tr_ordinal row = pt_ordinal t"
    using puts made grows_rows by blast
  let ?items = "sort_key tw_ordinal items"
  have trials: "map wi_trial_id records = map tw_trial_id ?items" "map wi_ordinal records = map tw_ordinal ?items"
    by (rule list_all2_map_eq [OF made [THEN conjunct2]]; simp)+
  have inside: "set records \<subseteq> set (st_work st')"
    using list_all2_right [OF made [THEN conjunct2]] by blast
  have sets: "wi_trial_id ` set records = set (plan_trial_ids plan)"
    using trials(1) cover(2) by (metis set_map set_sort)
  have "distinct (map tw_trial_id ?items)" using cover(1) by (simp add: distinct_map)
  moreover have "map tw_ordinal ?items = sort (map tw_ordinal items)"
    by (rule properties_for_sort [symmetric]) simp_all
  ultimately have p3: "set records \<subseteq> set (st_work st') \<and> wi_trial_id ` set records = set (plan_trial_ids plan)
      \<and> distinct (map wi_trial_id records) \<and> map wi_ordinal records = sort (map tw_ordinal items)"
    using inside sets trials by simp
  have "store_inv st'" using preservesE [OF enqueue_inv reachable_inv [OF assms(1)] assms(2)] .
  then have uniq: "distinct (map wi_trial_id (st_work st'))"
    by (simp add: store_inv_def structure_ok_def work_ok_def work_cols_def trial_cols_def comp_def)
  have p2: "\<forall>t\<in>set (rp_trials plan). \<exists>!w. w \<in> set (st_work st') \<and> wi_trial_id w = ei_id (pt_trial_identity t)"
  proof
    fix t
    assume "t \<in> set (rp_trials plan)"
    then have "ei_id (pt_trial_identity t) \<in> wi_trial_id ` set records"
      unfolding sets by (auto simp: plan_trial_ids_def)
    then obtain w where w: "w \<in> set (st_work st')" "wi_trial_id w = ei_id (pt_trial_identity t)"
      using inside by auto
    have "inj_on wi_trial_id (set (st_work st'))" using uniq by (simp add: distinct_map)
    then have "v = w" if "v \<in> set (st_work st')" "wi_trial_id v = ei_id (pt_trial_identity t)" for v
      using that w inj_onD [of wi_trial_id "set (st_work st')" v w] by metis
    with w show "\<exists>!w. w \<in> set (st_work st') \<and> wi_trial_id w = ei_id (pt_trial_identity t)" by blast
  qed
  have p4: "st_leases st' = st_leases st \<and> st_attempts st' = st_attempts st \<and> st_runs st' = st_runs st
      \<and> set (st_work st) \<subseteq> set (st_work st')"
    using grows_trans [of st st1 st'] puts made grows_rows [of st st'] by blast
  show ?thesis by (rule conjI [OF p1 conjI [OF p2 conjI [OF p3 p4]]])
qed

section \<open>A demonstration\<close>

definition demo_planned :: store where
  "demo_planned = snd (put_plan 0 (demo_id 2) (demo_id 1) ''plan.json'' Plan_Ready None
     (snd (create_run 0 (demo_id 1) ''spec.json'' Run_Ready None empty_store)))"

definition demo_item :: trial_work_item where
  "demo_item = \<lparr>tw_work_id = demo_id 5, tw_work_key = ''w/a'', tw_run_id = demo_id 1, tw_plan_id = demo_id 2,
     tw_trial_id = demo_id 3, tw_ordinal = 1, tw_execution_family = Artifact_Task, tw_backend = ''local'',
     tw_provider_route = ''route'', tw_model_route = ''model'', tw_resource_class = ''small'', tw_priority = 0,
     tw_retry_policy = default_retry_policy, tw_state = W_Queued, tw_created_at = Aware 0,
     tw_available_at = Aware 0, tw_current_attempt_number = 0\<rparr>"

lemma demo_planned_reachable: "reachable demo_planned"
  unfolding demo_planned_def
  by (intro reachable.Step [OF _ Put_Plan] reachable.Step [OF _ Create_Run] reachable.Initial)

lemma demo_supplied: "check_supplied demo_policy demo_view_plan [demo_item] = Inr ()"
  by (simp add: check_supplied_def Let_def supplied_items_def demo_item_def demo_view_plan_def demo_view_trial_def
      plan_trial_ids_def authoritative_def item_matches_def plan_run_id_def plan_plan_id_def demo_policy_def
      default_execution_policy_def)

lemma demo_enqueue:
  "\<exists>records st'. enqueue_ready_plan 0 demo_policy demo_view_plan [demo_item] demo_planned = (Inr records, st')"
  unfolding demo_planned_def
  by (simp add: enqueue_ready_plan_def demo_supplied put_plan_trials_def create_items_def get_plan_def)
    (simp add: demo_view_plan_def demo_view_trial_def plan_plan_id_def plan_run_id_def demo_eval demo_ref_ok
      create_run_def empty_store_def put_plan_def put_planned_trial_def create_work_item_def check_work_item_def
      bindS_def item_row_def demo_item_def)

theorem enqueue_covers_plan_witness:
  "\<exists>records st'. enqueue_ready_plan 0 demo_policy demo_view_plan [demo_item] demo_planned = (Inr records, st')
    \<and> wi_trial_id ` set records = {demo_id 3}"
proof -
  obtain records st' where run: "enqueue_ready_plan 0 demo_policy demo_view_plan [demo_item] demo_planned = (Inr records, st')"
    using demo_enqueue by blast
  have "set (plan_trial_ids demo_view_plan) = {demo_id 3}"
    by (simp add: plan_trial_ids_def demo_view_plan_def demo_view_trial_def)
  with enqueue_covers_plan [OF demo_planned_reachable run] run show ?thesis by auto
qed

end
