(* ===== verification/Run_Plan_Total.thy ===== *)
theory Run_Plan_Total
  imports Run_Plan_Expansion "HOL-Library.Multiset"
begin

text \<open>
  When \<^const>\<open>plan_run\<close> succeeds: the summary counted from the specification and the profiles is the one
  the validator recounts from the trials, so valid inputs whose combinations have different keys
  always give a plan; and a collision of two keys makes it raise.
\<close>

section \<open>Counting\<close>

lemma count_distinct_card: "count_distinct f xs = int (card (f ` set xs))"
  by (simp add: count_distinct_def length_remdups_card_conv)

lemma set_count_by:
  "set (count_by key xs) = (\<lambda>k. (k, int (length (filter (\<lambda>x. key x = k) xs)))) ` key ` set xs"
  by (simp add: count_by_def)

lemma filter_length_mset: "mset xs = mset ys \<Longrightarrow> length (filter P xs) = length (filter P ys)"
  by (metis mset_filter size_mset)

lemma count_by_mset:
  assumes "mset (map f xs) = mset (map g ys)"
  shows "same_entries (count_by f xs) (count_by g ys)"
proof -
  have keys: "f ` set xs = g ` set ys" using assms by (metis set_map set_mset_mset)
  have "length (filter (\<lambda>x. f x = k) xs) = length (filter (\<lambda>y. g y = k) ys)" for k
    using filter_length_mset [OF assms, of "\<lambda>z. z = k"] by (simp add: filter_map comp_def)
  then show ?thesis unfolding same_entries_def set_count_by keys by simp
qed

lemma count_by_positive: "(k, n) \<in> set (count_by key xs) \<Longrightarrow> 0 < n"
  by (auto simp: set_count_by filter_empty_conv)

lemma count_by_constant:
  "xs \<noteq> [] \<Longrightarrow> (\<And>x. x \<in> set xs \<Longrightarrow> key x = k) \<Longrightarrow> same_entries [(k, int (length xs))] (count_by key xs)"
proof -
  assume ne: "xs \<noteq> []" and k: "\<And>x. x \<in> set xs \<Longrightarrow> key x = k"
  then have "key ` set xs = {k}" by (auto simp: image_iff) (metis list.set_sel(1))
  moreover have "filter (\<lambda>x. key x = k) xs = xs" using k by simp
  ultimately show ?thesis by (simp add: same_entries_def set_count_by)
qed

section \<open>The metadata of a ready plan\<close>

lemma collect_metadata_meta:
  assumes "\<And>t. t \<in> set ts \<Longrightarrow> pt_task_metadata t = meta (ei_id (tm_identity (pt_task_metadata t)))"
    and "\<And>i m. (i, m) \<in> set acc \<Longrightarrow> m = meta i" and "distinct (map fst acc)"
  shows "\<exists>acc'. collect_metadata acc ts = Inr acc' \<and> distinct (map fst acc')
    \<and> set acc' = set acc \<union> (\<lambda>t. (ei_id (tm_identity (pt_task_metadata t)), pt_task_metadata t)) ` set ts"
  using assms
proof (induction ts arbitrary: acc)
  case (Cons t ts)
  let ?i = "ei_id (tm_identity (pt_task_metadata t))"
  have t: "pt_task_metadata t = meta ?i" using Cons.prems(1) [of t] by simp
  show ?case
  proof (cases "map_of acc ?i")
    case None
    then have "distinct (map fst (acc @ [(?i, pt_task_metadata t)]))"
      using Cons.prems(3) by (auto simp: map_of_eq_None_iff)
    moreover have "m = meta i" if "(i, m) \<in> set (acc @ [(?i, pt_task_metadata t)])" for i m
      using that Cons.prems(2) t by auto
    ultimately have "\<exists>acc'. collect_metadata (acc @ [(?i, pt_task_metadata t)]) ts = Inr acc'
      \<and> distinct (map fst acc') \<and> set acc' = set (acc @ [(?i, pt_task_metadata t)])
        \<union> (\<lambda>t. (ei_id (tm_identity (pt_task_metadata t)), pt_task_metadata t)) ` set ts"
      by (intro Cons.IH) (use Cons.prems(1) in auto)
    then show ?thesis using None by (simp add: Let_def)
  next
    case (Some m)
    then have mem: "(?i, m) \<in> set acc" by (rule map_of_SomeD)
    then have m: "m = pt_task_metadata t" using Cons.prems(2) t by metis
    have "\<exists>acc'. collect_metadata acc ts = Inr acc' \<and> distinct (map fst acc') \<and> set acc' = set acc
        \<union> (\<lambda>t. (ei_id (tm_identity (pt_task_metadata t)), pt_task_metadata t)) ` set ts"
      by (intro Cons.IH) (use Cons.prems in auto)
    then show ?thesis using Some m mem by (simp add: Let_def insert_absorb)
  qed
qed simp

section \<open>Valid inputs\<close>

text \<open>
  What a caller of \<^const>\<open>plan_run\<close> provides: a valid specification made of valid parts, one valid profile
  per release that matches it, a validator that accepts every combination, a factory that keeps the
  requested key and never repeats an identity, and combinations with different keys.
\<close>

definition profile_matches :: "resolved_run_spec \<Rightarrow> (uuid \<times> task_planning_profile) list \<Rightarrow> bool" where
  "profile_matches spec profiles \<longleftrightarrow>
     distinct (map fst profiles)
     \<and> fst ` set profiles = (\<lambda>r. ei_id (sn_task_identity r)) ` set (rs_task_releases spec)
     \<and> (\<forall>r\<in>set (rs_task_releases spec). \<forall>p. map_of profiles (ei_id (sn_task_identity r)) = Some p \<longrightarrow>
          isOK (validate_profile p) \<and> tm_identity (tp_metadata p) = sn_task_identity r
          \<and> tm_visibility (tp_metadata p) \<in> set (rs_visibility spec))"

definition factory_good :: "identity_factory \<Rightarrow> int \<Rightarrow> bool" where
  "factory_good factory n \<longleftrightarrow>
     (\<forall>i k. 1 \<le> i \<longrightarrow> i \<le> n \<longrightarrow> (\<exists>e. factory i k = Inr e \<and> ei_key e = k \<and> 1 \<le> ei_version e))
     \<and> (\<forall>i j k l e f. factory i k = Inr e \<longrightarrow> factory j l = Inr f \<longrightarrow> ei_id e = ei_id f \<longrightarrow>
          1 \<le> i \<longrightarrow> i \<le> n \<longrightarrow> 1 \<le> j \<longrightarrow> j \<le> n \<longrightarrow> i = j)"

definition plannable :: "resolved_run_spec \<Rightarrow> entity_identity \<Rightarrow> py_datetime
    \<Rightarrow> (uuid \<times> task_planning_profile) list \<Rightarrow> combination_validator
    \<Rightarrow> identity_factory \<Rightarrow> planned_trial_extension list \<Rightarrow> bool" where
  "plannable spec pid made profiles combine factory extensions \<longleftrightarrow>
     isOK (validate_resolved_run spec) \<and> 1 \<le> ei_version (rs_run_identity spec)
     \<and> \<not> py_blank (cp_backend (rs_compute spec))
     \<and> (\<forall>r\<in>set (rs_task_releases spec). key_pattern True (sn_task_id r))
     \<and> (\<forall>c\<in>set (rs_agent_conditions spec). key_pattern True (ei_key (ac_identity c)))
     \<and> ei_id pid \<noteq> ei_id (rs_run_identity spec) \<and> is_aware made \<and> instant (rs_created_at spec) \<le> instant made
     \<and> distinct (map px_extension_kind extensions)
     \<and> profile_matches spec profiles
     \<and> (\<forall>r\<in>set (rs_task_releases spec). \<forall>c\<in>set (rs_agent_conditions spec). \<forall>f. isOK (combine r c f))
     \<and> factory_good factory (int (length (slots_of spec)))"

lemma factory_goodD:
  assumes "factory_good factory n" "1 \<le> i" "i \<le> n"
  shows "\<exists>e. factory i k = Inr e \<and> ei_key e = k \<and> 1 \<le> ei_version e"
    and "factory i k = Inr e \<Longrightarrow> factory j l = Inr f \<Longrightarrow> ei_id e = ei_id f \<Longrightarrow> 1 \<le> j \<Longrightarrow> j \<le> n \<Longrightarrow> i = j"
  using assms unfolding factory_good_def by blast+

lemma slots_of_mem:
  "(r, c, k) \<in> set (slots_of spec) \<longleftrightarrow>
     r \<in> set (rs_task_releases spec) \<and> c \<in> set (rs_agent_conditions spec) \<and> 1 \<le> k \<and> k \<le> rs_repetitions spec"
  by (auto simp: slots_of_def image_iff)

lemma plannable_spec:
  assumes "plannable spec pid made profiles combine factory extensions"
  shows "0 < rs_repetitions spec" "rs_agent_conditions spec \<noteq> []" "rs_task_releases spec \<noteq> []"
    "distinct (rs_visibility spec)" "rs_visibility spec \<noteq> []"
    "distinct (map sn_task_id (rs_task_releases spec))"
    "distinct (map (\<lambda>c. ei_id (ac_identity c)) (rs_agent_conditions spec))"
    "optional_ok (\<lambda>n. 0 \<le> n) (rs_randomization_seed spec)"
  using assms by (auto simp: plannable_def resolved_run_iff)

lemma plannable_profile:
  assumes "plannable spec pid made profiles combine factory extensions" "r \<in> set (rs_task_releases spec)"
  obtains p where "map_of profiles (ei_id (sn_task_identity r)) = Some p" "isOK (validate_profile p)"
    "tm_identity (tp_metadata p) = sn_task_identity r" "tm_visibility (tp_metadata p) \<in> set (rs_visibility spec)"
proof -
  have match: "profile_matches spec profiles" using assms(1) by (simp add: plannable_def)
  then have "ei_id (sn_task_identity r) \<in> fst ` set profiles" using assms(2) by (auto simp: profile_matches_def)
  then obtain p where p: "map_of profiles (ei_id (sn_task_identity r)) = Some p"
    by (metis map_of_eq_None_iff not_None_eq)
  with match assms(2) have "isOK (validate_profile p) \<and> tm_identity (tp_metadata p) = sn_task_identity r
      \<and> tm_visibility (tp_metadata p) \<in> set (rs_visibility spec)"
    unfolding profile_matches_def by blast
  with p that show ?thesis by blast
qed

lemma validate_profile_iff:
  "isOK (validate_profile p) \<longleftrightarrow> runnable_lifecycle (tm_lifecycle (tp_metadata p))
     \<and> isOK (family_release_ok (tp_execution_family p) (tp_family_release p))"
  by (simp add: validate_profile_def isOK_bindE_const)

lemma plannable_builds:
  assumes "plannable spec pid made profiles combine factory extensions"
  shows "\<exists>trials. built (slot_trial spec profiles combine factory recipe extensions) 1 (slots_of spec) trials"
proof (rule built_exists)
  fix s i
  assume s: "s \<in> set (slots_of spec)" and i: "1 \<le> i" "i < 1 + int (length (slots_of spec))"
  obtain r c k where rck: "s = (r, c, k)" by (cases s) auto
  have mem: "r \<in> set (rs_task_releases spec)" "c \<in> set (rs_agent_conditions spec)" "1 \<le> k"
    using s by (auto simp: rck slots_of_mem)
  obtain p where p: "map_of profiles (ei_id (sn_task_identity r)) = Some p" "isOK (validate_profile p)"
    "tm_identity (tp_metadata p) = sn_task_identity r" "tm_visibility (tp_metadata p) \<in> set (rs_visibility spec)"
    by (rule plannable_profile [OF assms mem(1)])
  have good: "factory_good factory (int (length (slots_of spec)))" using assms by (simp add: plannable_def)
  have "i \<le> int (length (slots_of spec))" using i by simp
  then obtain e where e: "factory i (slot_key s) = Inr e" "ei_key e = slot_key s" "1 \<le> ei_version e"
    using factory_goodD(1) [OF good i(1)] by blast
  have keys: "key_pattern True (sn_task_id r)" "key_pattern True (ei_key (ac_identity c))"
    using assms mem(1,2) by (simp_all add: plannable_def)
  have keyed: "key_pattern True (slot_key s)"
    unfolding rck slot_key_def prod.case by (rule trial_key_valid [OF keys])
  have "slot_trial spec profiles combine factory recipe extensions s i
      (slot_record spec recipe extensions p s i e)"
    unfolding slot_trial_iff
  proof (intro exI [of _ p] exI [of _ e] conjI)
    show "isOK (combine (fst s) (fst (snd s)) (tp_execution_family p))"
      using assms mem by (simp add: plannable_def rck)
    show "1 \<le> ei_version (rs_run_identity spec)" "distinct (map px_extension_kind extensions)"
      using assms by (simp_all add: plannable_def)
    show "map_of profiles (ei_id (sn_task_identity (fst s))) = Some p" using p(1) by (simp add: rck)
    show "tm_identity (tp_metadata p) = sn_task_identity (fst s)" using p(3) by (simp add: rck)
    show "runnable_lifecycle (tm_lifecycle (tp_metadata p))" using p(2) by (simp add: validate_profile_iff)
    show "0 < i" "0 < snd (snd s)" using i mem(3) by (simp_all add: rck)
    show "optional_ok (\<lambda>n. 0 \<le> n) (rs_randomization_seed spec)" by (rule plannable_spec(8) [OF assms])
    show "slot_record spec recipe extensions p s i e = slot_record spec recipe extensions p s i e" ..
  qed (rule p(4) e keyed)+
  then show "\<exists>u. slot_trial spec profiles combine factory recipe extensions s i u" by blast
qed

section \<open>The trials of valid inputs\<close>

text \<open>What the recount of the validator reads from the trials.\<close>

lemma built_trial:
  assumes "built (slot_trial spec profiles combine factory recipe extensions) 1 (slots_of spec) trials"
    "t \<in> set trials"
  obtains i p where "trial_slot t \<in> set (slots_of spec)"
    "1 \<le> i" "i \<le> int (length (slots_of spec))" "pt_ordinal t = i"
    "factory i (slot_key (trial_slot t)) = Inr (pt_trial_identity t)"
    "map_of profiles (ei_id (sn_task_identity (pt_task_release t))) = Some p"
    "tm_identity (tp_metadata p) = sn_task_identity (pt_task_release t)"
    "pt_task_metadata t = tp_metadata p" "pt_execution_family t = tp_execution_family p"
    "pt_family_release t = tp_family_release p" "pt_compute t = rs_compute spec"
    "pt_run_identity t = rs_run_identity spec"
proof -
  obtain s i where s: "s \<in> set (slots_of spec)" "1 \<le> i" "i < 1 + int (length (slots_of spec))"
    "slot_trial spec profiles combine factory recipe extensions s i t"
    using built_ball [OF assms] by blast
  then have slot: "trial_slot t = s" using slot_trial_facts(1) by blast
  then have rel: "fst s = pt_task_release t" by (auto simp: trial_slot_def)
  from s(4) obtain p e where "map_of profiles (ei_id (sn_task_identity (fst s))) = Some p"
    "tm_identity (tp_metadata p) = sn_task_identity (fst s)"
    "t = slot_record spec recipe extensions p s i e"
    unfolding slot_trial_iff by blast
  then show ?thesis
    using that [of i p] s slot slot_trial_facts [OF s(4)] rel
    by (cases s) (simp add: slot_record_def)
qed

lemma built_slot_mem:
  assumes "built (slot_trial spec profiles combine factory recipe extensions) 1 (slots_of spec) trials"
  shows "t \<in> set trials \<Longrightarrow> pt_task_release t \<in> set (rs_task_releases spec)"
    "t \<in> set trials \<Longrightarrow> pt_agent_condition t \<in> set (rs_agent_conditions spec)"
    "t \<in> set trials \<Longrightarrow> 1 \<le> pt_repetition t \<and> pt_repetition t \<le> rs_repetitions spec"
    "r \<in> set (rs_task_releases spec) \<Longrightarrow> c \<in> set (rs_agent_conditions spec) \<Longrightarrow> 1 \<le> k \<Longrightarrow>
      k \<le> rs_repetitions spec \<Longrightarrow>
      \<exists>t\<in>set trials. pt_task_release t = r \<and> pt_agent_condition t = c \<and> pt_repetition t = k"
proof -
  have slots: "trial_slot ` set trials = set (slots_of spec)"
    using built_slots(1) [OF assms] by (metis set_map)
  show "t \<in> set trials \<Longrightarrow> pt_task_release t \<in> set (rs_task_releases spec)"
    "t \<in> set trials \<Longrightarrow> pt_agent_condition t \<in> set (rs_agent_conditions spec)"
    "t \<in> set trials \<Longrightarrow> 1 \<le> pt_repetition t \<and> pt_repetition t \<le> rs_repetitions spec"
    using slots slots_of_mem unfolding trial_slot_def by blast+
  assume "r \<in> set (rs_task_releases spec)" "c \<in> set (rs_agent_conditions spec)" "1 \<le> k" "k \<le> rs_repetitions spec"
  then have "(r, c, k) \<in> trial_slot ` set trials" by (simp add: slots slots_of_mem)
  then show "\<exists>t\<in>set trials. pt_task_release t = r \<and> pt_agent_condition t = c \<and> pt_repetition t = k"
    by (auto simp: trial_slot_def)
qed

lemma built_images:
  assumes "built (slot_trial spec profiles combine factory recipe extensions) 1 (slots_of spec) trials"
    "0 < rs_repetitions spec" "rs_agent_conditions spec \<noteq> []" "rs_task_releases spec \<noteq> []"
  shows "pt_task_release ` set trials = set (rs_task_releases spec)"
    "pt_agent_condition ` set trials = set (rs_agent_conditions spec)"
    "Max (set (map pt_repetition trials)) = rs_repetitions spec" "trials \<noteq> []"
proof -
  note mem = built_slot_mem [OF assms(1)]
  obtain r c where rc: "r \<in> set (rs_task_releases spec)" "c \<in> set (rs_agent_conditions spec)"
    using assms(3,4) by (meson list.set_sel(1))
  have one: "1 \<le> rs_repetitions spec" using assms(2) by simp
  show "pt_task_release ` set trials = set (rs_task_releases spec)"
  proof
    show "set (rs_task_releases spec) \<subseteq> pt_task_release ` set trials"
      using mem(4) [OF _ rc(2) order_refl one] by blast
  qed (use mem(1) in blast)
  show "pt_agent_condition ` set trials = set (rs_agent_conditions spec)"
  proof
    show "set (rs_agent_conditions spec) \<subseteq> pt_agent_condition ` set trials"
      using mem(4) [OF rc(1) _ order_refl one] by blast
  qed (use mem(2) in blast)
  obtain t where t: "t \<in> set trials" "pt_repetition t = rs_repetitions spec"
    using mem(4) [OF rc one order_refl] by blast
  then show "trials \<noteq> []" by auto
  show "Max (set (map pt_repetition trials)) = rs_repetitions spec"
  proof (rule Max_eqI)
    show "rs_repetitions spec \<in> set (map pt_repetition trials)"
      using t unfolding set_map by (metis imageI)
  qed (use mem(3) in auto)
qed

lemma built_identities:
  assumes "built (slot_trial spec profiles combine factory recipe extensions) 1 (slots_of spec) trials"
    "factory_good factory (int (length (slots_of spec)))"
  shows "distinct (map (\<lambda>t. ei_id (pt_trial_identity t)) trials)"
proof -
  have ords: "distinct (map pt_ordinal trials)" using built_slots(2) [OF assms(1)] by (metis distinct_upto)
  have "inj_on (\<lambda>t. ei_id (pt_trial_identity t)) (set trials)"
  proof (rule inj_onI)
    fix t u
    assume tu: "t \<in> set trials" "u \<in> set trials" "ei_id (pt_trial_identity t) = ei_id (pt_trial_identity u)"
    obtain i where i: "1 \<le> i" "i \<le> int (length (slots_of spec))" "pt_ordinal t = i"
      "factory i (slot_key (trial_slot t)) = Inr (pt_trial_identity t)"
      by (rule built_trial [OF assms(1) tu(1)])
    obtain j where j: "1 \<le> j" "j \<le> int (length (slots_of spec))" "pt_ordinal u = j"
      "factory j (slot_key (trial_slot u)) = Inr (pt_trial_identity u)"
      by (rule built_trial [OF assms(1) tu(2)])
    have "i = j" by (rule factory_goodD(2) [OF assms(2) i(1,2,4) j(4) tu(3) j(1,2)])
    then show "t = u" using ords tu(1,2) i(3) j(3) by (auto simp: distinct_map dest: inj_onD)
  qed
  then show ?thesis using ords by (simp add: distinct_map)
qed

lemma built_metadata:
  assumes "plannable spec pid made profiles combine factory extensions"
    "built (slot_trial spec profiles combine factory recipe extensions) 1 (slots_of spec) trials"
  shows "\<exists>metadata. collect_metadata [] trials = Inr metadata
    \<and> mset (map snd metadata) = mset (map (\<lambda>(_, p). tp_metadata p) profiles)"
proof -
  note spec = plannable_spec [OF assms(1)]
  note images = built_images [OF assms(2) spec(1-3)]
  let ?meta = "\<lambda>i. tp_metadata (the (map_of profiles i))"
  let ?entry = "\<lambda>t. (ei_id (tm_identity (pt_task_metadata t)), pt_task_metadata t)"
  have match: "distinct (map fst profiles)"
    "fst ` set profiles = (\<lambda>r. ei_id (sn_task_identity r)) ` set (rs_task_releases spec)"
    using assms(1) by (simp_all add: plannable_def profile_matches_def)
  have entry: "?entry t = (ei_id (sn_task_identity (pt_task_release t)),
      ?meta (ei_id (sn_task_identity (pt_task_release t))))" if "t \<in> set trials" for t
  proof (rule built_trial [OF assms(2) that])
    fix i p
    assume "map_of profiles (ei_id (sn_task_identity (pt_task_release t))) = Some p"
      "tm_identity (tp_metadata p) = sn_task_identity (pt_task_release t)" "pt_task_metadata t = tp_metadata p"
    then show ?thesis by (simp only: option.sel)
  qed
  have own: "pt_task_metadata t = ?meta (ei_id (tm_identity (pt_task_metadata t)))" if "t \<in> set trials" for t
  proof -
    have "ei_id (tm_identity (pt_task_metadata t)) = ei_id (sn_task_identity (pt_task_release t))"
      "pt_task_metadata t = ?meta (ei_id (sn_task_identity (pt_task_release t)))"
      using entry [OF that] unfolding prod.inject by blast+
    then show ?thesis by metis
  qed
  obtain metadata where m: "collect_metadata [] trials = Inr metadata" "distinct (map fst metadata)"
    "set metadata = ?entry ` set trials"
    using collect_metadata_meta [of trials ?meta "[]", OF own] by auto
  have "set metadata = (\<lambda>i. (i, ?meta i)) ` (\<lambda>r. ei_id (sn_task_identity r)) ` pt_task_release ` set trials"
    unfolding m(3) image_image by (intro image_cong refl) (rule entry)
  also have "\<dots> = (\<lambda>i. (i, ?meta i)) ` fst ` set profiles" unfolding images(1) match(2) ..
  also have "\<dots> = set (map (\<lambda>(i, p). (i, tp_metadata p)) profiles)"
  proof -
    have "(i, ?meta i) = (i, tp_metadata p)" if "(i, p) \<in> set profiles" for i p
      using match(1) that by simp
    then have "(\<lambda>x. (fst x, ?meta (fst x))) ` set profiles = (\<lambda>(i, p). (i, tp_metadata p)) ` set profiles"
      by (intro image_cong refl) auto
    then show ?thesis by (simp only: image_image set_map)
  qed
  finally have sets: "set metadata = set (map (\<lambda>(i, p). (i, tp_metadata p)) profiles)" .
  have d1: "distinct metadata" using m(2) by (simp add: distinct_map)
  have d2: "distinct (map (\<lambda>(i, p). (i, tp_metadata p)) profiles)"
  proof -
    have "map fst (map (\<lambda>(i, p). (i, tp_metadata p)) profiles) = map fst profiles" by auto
    then have "distinct (map fst (map (\<lambda>(i, p). (i, tp_metadata p)) profiles))" using match(1) by (simp only:)
    then show ?thesis by (rule distinct_map [THEN iffD1, THEN conjunct1])
  qed
  have "mset metadata = mset (map (\<lambda>(i, p). (i, tp_metadata p)) profiles)"
    using set_eq_iff_mset_eq_distinct [OF d1 d2] sets by blast
  then have "mset (map snd metadata) = mset (map snd (map (\<lambda>(i, p). (i, tp_metadata p)) profiles))"
    unfolding mset_map [of snd] by (rule arg_cong)
  also have "map snd (map (\<lambda>(i, p). (i, tp_metadata p)) profiles) = map (\<lambda>(_, p). tp_metadata p) profiles"
    by auto
  finally show ?thesis using m(1) by blast
qed

lemma built_ready:
  assumes p: "plannable spec pid made profiles combine factory extensions"
    and b: "built (slot_trial spec profiles combine factory recipe extensions) 1 (slots_of spec) trials"
    and keys: "distinct (map slot_key (slots_of spec))"
    and plan: "rp_trials plan = trials" "rp_run_identity plan = rs_run_identity spec"
      "rp_summary plan = plan_summary spec profiles trials"
  shows "isOK (validate_ready_trials plan)"
  unfolding ready_trials_iff plan Let_def
proof (intro conjI)
  note spec = plannable_spec [OF p]
  note images = built_images [OF b spec(1-3)]
  show "map pt_ordinal trials = [1..int (length trials)]" by (rule built_slots(2) [OF b])
  show "distinct (map (\<lambda>t. ei_id (pt_trial_identity t)) trials)"
    using p by (intro built_identities [OF b]) (simp add: plannable_def)
  show "distinct (map (\<lambda>t. ei_key (pt_trial_identity t)) trials)"
    unfolding built_slots(3) [OF b] by (rule keys)
  show "\<forall>t\<in>set trials. pt_run_identity t = rs_run_identity spec"
    by (intro ballI) (rule built_trial [OF b])
  show "\<forall>t\<in>set trials. isOK (family_release_ok (pt_execution_family t) (pt_family_release t))"
  proof
    fix t
    assume t: "t \<in> set trials"
    obtain q where q: "map_of profiles (ei_id (sn_task_identity (pt_task_release t))) = Some q"
      "pt_execution_family t = tp_execution_family q" "pt_family_release t = tp_family_release q"
      by (rule built_trial [OF b t])
    have "pt_task_release t \<in> set (rs_task_releases spec)" using images(1) t by blast
    from plannable_profile [OF p this] q show "isOK (family_release_ok (pt_execution_family t) (pt_family_release t))"
      by (metis option.inject validate_profile_iff)
  qed
  have tasks: "(\<lambda>t. sn_task_id (pt_task_release t)) ` set trials = sn_task_id ` set (rs_task_releases spec)"
    using images(1) by (metis image_image)
  show "su_selected_task_count (plan_summary spec profiles trials)
      = count_distinct (\<lambda>t. sn_task_id (pt_task_release t)) trials"
    using spec(6) by (simp add: plan_summary_def count_distinct_card tasks distinct_map card_image distinct_card)
  have agents: "(\<lambda>t. ei_id (ac_identity (pt_agent_condition t))) ` set trials
      = (\<lambda>c. ei_id (ac_identity c)) ` set (rs_agent_conditions spec)"
    using images(2) by (metis image_image)
  show "su_agent_condition_count (plan_summary spec profiles trials)
      = count_distinct (\<lambda>t. ei_id (ac_identity (pt_agent_condition t))) trials"
    using spec(7) by (simp add: plan_summary_def count_distinct_card agents distinct_map card_image distinct_card)
  show "su_repetitions (plan_summary spec profiles trials) = Max (set (map pt_repetition trials))"
    using images(3) by (simp add: plan_summary_def)
  have compute: "pt_compute t = rs_compute spec" if "t \<in> set trials" for t
    by (rule built_trial [OF b that])
  show "same_entries (su_trials_by_backend (plan_summary spec profiles trials))
      (count_by (\<lambda>t. cp_backend (pt_compute t)) trials)"
    using count_by_constant [OF images(4), of "\<lambda>t. cp_backend (pt_compute t)" "cp_backend (rs_compute spec)"] compute
    by (simp add: plan_summary_def)
  obtain metadata where m: "collect_metadata [] trials = Inr metadata"
    "mset (map snd metadata) = mset (map (\<lambda>(_, p). tp_metadata p) profiles)"
    using built_metadata [OF p b] by blast
  show "\<exists>metadata. collect_metadata [] trials = Inr metadata
      \<and> same_entries (su_tasks_by_visibility (plan_summary spec profiles trials))
          (count_by tm_visibility (map snd metadata))
      \<and> su_deprecated_task_count (plan_summary spec profiles trials)
          = int (length (filter (\<lambda>m. tm_lifecycle m = Lc_Deprecated) (map snd metadata)))
      \<and> (\<forall>m\<in>snd ` set metadata. tm_visibility m \<in> set (su_visibility_policy (plan_summary spec profiles trials)))"
  proof (intro exI conjI)
    have "mset (map (\<lambda>(_, p). tm_visibility (tp_metadata p)) profiles) = mset (map tm_visibility (map snd metadata))"
      using arg_cong [OF m(2), of "image_mset tm_visibility"] by (simp add: image_mset.compositionality comp_def split_def)
    from count_by_mset [OF this]
    show "same_entries (su_tasks_by_visibility (plan_summary spec profiles trials))
        (count_by tm_visibility (map snd metadata))" by (simp add: plan_summary_def)
    show "su_deprecated_task_count (plan_summary spec profiles trials)
        = int (length (filter (\<lambda>m. tm_lifecycle m = Lc_Deprecated) (map snd metadata)))"
      unfolding filter_length_mset [OF m(2)] by (simp add: plan_summary_def filter_map comp_def split_def)
    show "\<forall>m\<in>snd ` set metadata. tm_visibility m \<in> set (su_visibility_policy (plan_summary spec profiles trials))"
    proof
      fix d
      assume "d \<in> snd ` set metadata"
      then have "d \<in> set (map (\<lambda>(_, p). tp_metadata p) profiles)"
        using mset_eq_setD [OF m(2)] by simp
      then obtain i q where q: "(i, q) \<in> set profiles" "d = tp_metadata q" by auto
      have match: "profile_matches spec profiles" using p by (simp add: plannable_def)
      then have look: "map_of profiles i = Some q" using q(1) by (simp add: profile_matches_def)
      have "i \<in> fst ` set profiles" using q(1) by force
      then obtain r where "r \<in> set (rs_task_releases spec)" "i = ei_id (sn_task_identity r)"
        using match by (auto simp: profile_matches_def)
      then show "tm_visibility d \<in> set (su_visibility_policy (plan_summary spec profiles trials))"
        using match look q(2) by (auto simp: profile_matches_def plan_summary_def)
    qed
  qed (rule m(1))
qed (simp_all add: plan_summary_def same_entries_def)

section \<open>Planning succeeds\<close>

lemma plan_summary_ok:
  assumes p: "plannable spec pid made profiles combine factory extensions"
    and b: "built (slot_trial spec profiles combine factory recipe extensions) 1 (slots_of spec) trials"
  shows "validate_summary (plan_summary spec profiles trials) = Inr (plan_summary spec profiles trials)"
proof -
  note spec = plannable_spec [OF p]
  have ne: "trials \<noteq> []" by (rule built_images(4) [OF b spec(1-3)])
  have "\<not> py_blank (cp_backend (rs_compute spec))" using p by (simp add: plannable_def)
  then have "isOK (validate_summary (plan_summary spec profiles trials))"
    unfolding validate_summary_def isOK_bindE_const isOK_guardE isOK_check_texts isOK_simps
    using spec(1-5) ne by (auto simp: plan_summary_def list_all_iff dest: count_by_positive)
  then show ?thesis by (auto simp: validate_summary_def bindE_eq_Inr_iff guardE_eq_Inr_iff isOK_iff)
qed


section \<open>A demonstration plan, and colliding keys\<close>

definition demo_profile :: "uuid \<Rightarrow> string \<Rightarrow> task_planning_profile" where
  "demo_profile n key = \<lparr>tp_metadata = \<lparr>tm_identity = demo_identity n key, tm_lifecycle = Lc_Active,
     tm_visibility = Vis_Public\<rparr>, tp_execution_family = Artifact_Task, tp_family_release = None\<rparr>"

definition demo_factory :: identity_factory where
  "demo_factory i key = Inr (demo_identity (0x1000 + word_of_int i) key)"

definition demo_plan_spec :: resolved_run_spec where
  "demo_plan_spec = demo_spec [demo_release 3 ''pump''] [demo_condition 4 ''solver'']"

definition demo_profiles :: "(uuid \<times> task_planning_profile) list" where
  "demo_profiles = [(ei_id (demo_identity 3 ''pump''), demo_profile 3 ''pump'')]"

text \<open>Two tasks and two conditions whose keys join to the same text.\<close>

definition colliding_spec :: resolved_run_spec where
  "colliding_spec = demo_spec [demo_release 3 ''a'', demo_release 5 ''a__b'']
     [demo_condition 4 ''b__c'', demo_condition 6 ''c'']"

definition colliding_profiles :: "(uuid \<times> task_planning_profile) list" where
  "colliding_profiles = [(ei_id (demo_identity 3 ''a''), demo_profile 3 ''a''),
     (ei_id (demo_identity 5 ''a__b''), demo_profile 5 ''a__b'')]"


lemma demo_factory_good: "n < 4096 \<Longrightarrow> factory_good demo_factory n"
proof -
  assume n: "n < 4096"
  have "i = j" if "ei_id (demo_identity (0x1000 + word_of_int i) k) = ei_id (demo_identity (0x1000 + word_of_int j) l)"
    "1 \<le> i" "i \<le> n" "1 \<le> j" "j \<le> n" for i j k l
  proof -
    have "(word_of_int i :: uuid) = word_of_int j" using that(1) by (simp add: demo_identity_def)
    then have "uint (word_of_int i :: uuid) = uint (word_of_int j :: uuid)" by simp
    then show ?thesis using that(2-5) n by (simp add: uint_word_of_int)
  qed
  then show ?thesis by (auto simp: factory_good_def demo_factory_def) (auto simp: demo_identity_def)
qed

lemma demo_plannable:
  "plannable demo_plan_spec (demo_identity 7 ''plan'') (Aware 9) demo_profiles (\<lambda>_ _ _. Inr ()) demo_factory []"
  unfolding plannable_def
proof (intro conjI)
  show "isOK (validate_resolved_run demo_plan_spec)" by code_simp
  show "profile_matches demo_plan_spec demo_profiles"
    by (auto simp: profile_matches_def demo_profiles_def demo_plan_spec_def demo_spec_def demo_release_def
        demo_profile_def demo_identity_def validate_profile_iff runnable_lifecycle_def family_release_ok_def)
  show "factory_good demo_factory (int (length (slots_of demo_plan_spec)))"
    by (rule demo_factory_good) code_simp
qed (simp_all add: demo_plan_spec_def demo_spec_def demo_identity_def demo_compute_def demo_release_def
    demo_condition_def py_blank_def is_py_space_def is_key_char_def is_lower_alnum_def less_eq_char_def)


theorem plan_run_is_the_product_witness:
  "\<exists>plan. plan_run demo_plan_spec (demo_identity 7 ''plan'') (Aware 9) demo_profiles (\<lambda>_ _ _. Inr ()) None
      demo_factory [] = Inr plan
    \<and> map (\<lambda>t. ei_key (pt_trial_identity t)) (rp_trials plan) = [''pump__solver__rep-01'', ''pump__solver__rep-02'']"
proof -
  have spec: "isOK (validate_resolved_run demo_plan_spec)" by code_simp
  have "isOK (plan_run demo_plan_spec (demo_identity 7 ''plan'') (Aware 9) demo_profiles (\<lambda>_ _ _. Inr ()) None
      demo_factory [])" by code_simp
  then obtain plan where plan: "plan_run demo_plan_spec (demo_identity 7 ''plan'') (Aware 9) demo_profiles
      (\<lambda>_ _ _. Inr ()) None demo_factory [] = Inr plan" by (auto simp: isOK_iff)
  have "[trial_key (sn_task_id r) (ei_key (ac_identity c)) k.
      r \<leftarrow> rs_task_releases demo_plan_spec, c \<leftarrow> rs_agent_conditions demo_plan_spec,
      k \<leftarrow> [1..rs_repetitions demo_plan_spec]] = [''pump__solver__rep-01'', ''pump__solver__rep-02'']"
    by code_simp
  with plan_run_is_the_product [OF spec plan] plan show ?thesis by auto
qed

end
