(* ===== verification/Prerequisite_Graph.thy ===== *)
theory Prerequisite_Graph
  imports Prelude
begin

text \<open>
  The prerequisite graphs of \<^verbatim>\<open>contracts/evidence_lifecycle.py\<close>: the same two recursive functions, the
  depth-first search for cycles and the memoised transitive closure, check the requests and the
  operations of a checkpoint. Here they are modelled once, over a graph that is the list of the
  declared ids with their prerequisites, and proved against the relation they decide.
\<close>

type_synonym graph = "(string \<times> string list) list"

section \<open>The two functions\<close>

definition prerequisites_of :: "graph \<Rightarrow> string \<Rightarrow> string list" where
  "prerequisites_of g x = (case map_of g x of None \<Rightarrow> [] | Some ds \<Rightarrow> ds)"

text \<open>
  \<^verbatim>\<open>for x in xs: visit(x)\<close>, where \<open>visiting\<close> is the set of ids whose visit has not returned and \<open>visited\<close>
  that of the ids whose visit has. The source iterates over a set of prerequisites; the model takes
  them as declared, and the theorems below show that the order does not matter. The search stops
  because each nested visit adds a declared id to \<open>visiting\<close>.
\<close>

function visit_all :: "graph \<Rightarrow> string \<Rightarrow> string list \<Rightarrow> string list \<Rightarrow> string list \<Rightarrow> string + string list" where
  "visit_all g cyclic visiting [] visited = Inr visited"
| "visit_all g cyclic visiting (x # xs) visited =
     (if x \<in> set visiting then Inl cyclic
      else if x \<in> set visited then visit_all g cyclic visiting xs visited
      else case map_of g x of
          None \<Rightarrow> Inl ''KeyError''
        | Some dependencies \<Rightarrow>
            bindE (visit_all g cyclic (x # visiting) dependencies visited)
              (\<lambda>visited'. visit_all g cyclic visiting xs (x # visited')))"
  by pat_completeness auto

lemma fresh_key_shrinks:
  assumes "x \<notin> set visiting" and "map_of g x = Some ds"
  shows "card (fst ` set g - set (x # visiting)) < card (fst ` set g - set visiting)"
proof (rule psubset_card_mono)
  have "x \<in> fst ` set g" using assms(2) by (force dest: map_of_SomeD)
  then show "fst ` set g - set (x # visiting) \<subset> fst ` set g - set visiting" using assms(1) by auto
qed simp

termination visit_all
  by (relation "measures [\<lambda>(g, cyclic, visiting, xs, visited). card (fst ` set g - set visiting),
      \<lambda>(g, cyclic, visiting, xs, visited). length xs]")
    (auto simp del: list.set dest: fresh_key_shrinks)

text \<open>
  \<^verbatim>\<open>prerequisite_closure\<close> with its cache. The recursion of the source is bounded by the depth of the
  graph, that of the model by its fuel; running out of it is Python's recursion error, and the
  theorems show that it does not happen on a graph that passed the search.
\<close>

type_synonym closures = "(string \<times> string set) list"

fun prerequisite_closure :: "graph \<Rightarrow> nat \<Rightarrow> string \<Rightarrow> closures \<Rightarrow> string + string set \<times> closures"
  and closure_union :: "graph \<Rightarrow> nat \<Rightarrow> string list \<Rightarrow> string set \<Rightarrow> closures \<Rightarrow> string + string set \<times> closures" where
  "prerequisite_closure g 0 x memo =
     (case map_of memo x of Some closure \<Rightarrow> Inr (closure, memo) | None \<Rightarrow> Inl ''RecursionError'')"
| "prerequisite_closure g (Suc n) x memo =
     (case map_of memo x of Some closure \<Rightarrow> Inr (closure, memo)
      | None \<Rightarrow> bindE (closure_union g n (prerequisites_of g x) {} memo)
          (\<lambda>(closure, memo'). Inr (closure, (x, closure) # memo')))"
| "closure_union g n [] closure memo = Inr (closure, memo)"
| "closure_union g n (d # ds) closure memo =
     bindE (prerequisite_closure g n d memo)
       (\<lambda>(inner, memo'). closure_union g n ds (insert d closure \<union> inner) memo')"

text \<open>The loop that compares the closures with the budget.\<close>

fun check_required_budgets :: "graph \<Rightarrow> int \<Rightarrow> (string \<Rightarrow> nat \<Rightarrow> string) \<Rightarrow> string list \<Rightarrow> closures \<Rightarrow> string + unit" where
  "check_required_budgets g budget message [] memo = Inr ()"
| "check_required_budgets g budget message (x # xs) memo =
     bindE (prerequisite_closure g (length g) x memo) (\<lambda>(closure, memo').
     let required = card closure + 1
     in bindE (guardE (int required \<le> budget) (message x required)) (\<lambda>_.
        check_required_budgets g budget message xs memo'))"

text \<open>The whole of \<^verbatim>\<open>validate_request_graph\<close> and \<^verbatim>\<open>validate_operation_graph\<close>, with their messages.\<close>

record graph_messages =
  gm_duplicate :: string
  gm_excess :: string
  gm_unknown :: "string \<Rightarrow> string list \<Rightarrow> string"
  gm_cycle :: string
  gm_budget :: "string \<Rightarrow> nat \<Rightarrow> string"

definition unknown_prerequisites :: "graph \<Rightarrow> string list \<Rightarrow> string list" where
  "unknown_prerequisites g ds = sort (remdups (filter (\<lambda>d. d \<notin> fst ` set g) ds))"

definition check_graph :: "graph_messages \<Rightarrow> int \<Rightarrow> graph \<Rightarrow> string + unit" where
  "check_graph m budget g =
     (let ids = map fst g in
      bindE (guardE (distinct ids) (gm_duplicate m)) (\<lambda>_.
      bindE (guardE (budget \<le> int (length ids)) (gm_excess m)) (\<lambda>_.
      bindE (checkE_all (\<lambda>(x, ds). guardE (unknown_prerequisites g ds = [])
          (gm_unknown m x (unknown_prerequisites g ds))) g) (\<lambda>_.
      bindE (visit_all g (gm_cycle m) [] ids []) (\<lambda>_.
      check_required_budgets g budget (gm_budget m) ids [])))))"

section \<open>The relation they decide\<close>

definition depends :: "graph \<Rightarrow> (string \<times> string) set" where
  "depends g = {(x, d). \<exists>ds. map_of g x = Some ds \<and> d \<in> set ds}"

definition closed_graph :: "graph \<Rightarrow> bool" where
  "closed_graph g \<longleftrightarrow> (\<forall>(x, d)\<in>depends g. d \<in> fst ` set g)"

lemma depends_iff: "(x, d) \<in> depends g \<longleftrightarrow> d \<in> set (prerequisites_of g x)"
  by (cases "map_of g x") (simp_all add: depends_def prerequisites_of_def)

lemma known_key: "x \<in> fst ` set g \<Longrightarrow> \<exists>ds. map_of g x = Some ds"
  by (cases "map_of g x") (simp_all add: map_of_eq_None_iff)

lemma depends_keys:
  assumes "(x, d) \<in> (depends g)\<^sup>+" and "closed_graph g"
  shows "x \<in> fst ` set g \<and> d \<in> fst ` set g"
  using assms
proof (induction rule: trancl_induct)
  case (base d)
  then show ?case
    unfolding closed_graph_def depends_def by (fastforce dest: map_of_SomeD intro: image_eqI [rotated])
next
  case (step d e)
  then show ?case by (auto simp: closed_graph_def)
qed

subsection \<open>The search\<close>

text \<open>
  What the search knows: \<open>visited\<close> is closed under prerequisites, none of its ids is on a cycle, and no
  id is in both sets.
\<close>

definition search_inv :: "graph \<Rightarrow> string list \<Rightarrow> string list \<Rightarrow> bool" where
  "search_inv g visiting visited \<longleftrightarrow> depends g `` set visited \<subseteq> set visited
     \<and> (\<forall>x\<in>set visited. (x, x) \<notin> (depends g)\<^sup>+) \<and> set visiting \<inter> set visited = {}"

lemma search_inv_finish:
  assumes inv: "search_inv g (x # visiting) visited" and deps: "depends g `` {x} \<subseteq> set visited"
    and fresh: "x \<notin> set visiting"
  shows "search_inv g visiting (x # visited)"
proof -
  have closed: "(depends g)\<^sup>+ `` set visited \<subseteq> set visited"
  proof
    fix e assume "e \<in> (depends g)\<^sup>+ `` set visited"
    then obtain d where "(d, e) \<in> (depends g)\<^sup>+" "d \<in> set visited" by blast
    then show "e \<in> set visited"
      by (induction rule: trancl_induct) (use inv in \<open>auto simp: search_inv_def\<close>)
  qed
  have "(x, x) \<notin> (depends g)\<^sup>+"
  proof
    assume "(x, x) \<in> (depends g)\<^sup>+"
    then obtain d where "(x, d) \<in> depends g" "d = x \<or> (d, x) \<in> (depends g)\<^sup>+"
      by (meson tranclD rtranclD)
    then have "x \<in> set visited" using deps closed by blast
    then show False using inv by (simp add: search_inv_def)
  qed
  then show ?thesis using inv deps fresh by (auto simp: search_inv_def)
qed

lemma visit_all_sound:
  "visit_all g cyclic visiting xs visited = Inr visited' \<Longrightarrow> search_inv g visiting visited
    \<Longrightarrow> search_inv g visiting visited' \<and> set xs \<union> set visited \<subseteq> set visited'"
proof (induction g cyclic visiting xs visited arbitrary: visited' rule: visit_all.induct)
  case (2 g cyclic visiting x xs visited)
  from "2.prems"(1) have fresh: "x \<notin> set visiting" by (auto split: if_splits)
  show ?case
  proof (cases "x \<in> set visited")
    case True
    then show ?thesis using "2.IH"(1) "2.prems" fresh by auto
  next
    case False
    with "2.prems"(1) fresh obtain ds visited1 where ds: "map_of g x = Some ds"
      and inner: "visit_all g cyclic (x # visiting) ds visited = Inr visited1"
      and rest: "visit_all g cyclic visiting xs (x # visited1) = Inr visited'"
      by (auto simp: bindE_eq_Inr_iff split: option.splits)
    have "search_inv g (x # visiting) visited" using "2.prems"(2) False by (auto simp: search_inv_def)
    then have inv1: "search_inv g (x # visiting) visited1" and sub1: "set ds \<union> set visited \<subseteq> set visited1"
      using "2.IH"(2) [OF fresh False ds inner] by auto
    have "search_inv g visiting (x # visited1)"
      using search_inv_finish [OF inv1 _ fresh] sub1 ds by (auto simp: depends_def)
    then show ?thesis using "2.IH"(3) [OF fresh False ds rest] sub1 by auto
  qed
qed simp

lemma visit_all_complete:
  "acyclic (depends g) \<Longrightarrow> closed_graph g \<Longrightarrow> set xs \<subseteq> fst ` set g
    \<Longrightarrow> (\<forall>v\<in>set visiting. \<forall>x\<in>set xs. (v, x) \<in> (depends g)\<^sup>+)
    \<Longrightarrow> isOK (visit_all g cyclic visiting xs visited)"
proof (induction g cyclic visiting xs visited rule: visit_all.induct)
  case (2 g cyclic visiting x xs visited)
  have fresh: "x \<notin> set visiting" using "2.prems"(1,4) by (auto simp: acyclic_def)
  show ?case
  proof (cases "x \<in> set visited")
    case True
    then show ?thesis using "2.IH"(1) "2.prems" fresh by auto
  next
    case False
    obtain ds where ds: "map_of g x = Some ds" using "2.prems"(3) known_key [of x g] by auto
    then have edges: "\<forall>d\<in>set ds. (x, d) \<in> depends g" by (auto simp: depends_def)
    have "isOK (visit_all g cyclic (x # visiting) ds visited)"
    proof (rule "2.IH"(2) [OF fresh False ds "2.prems"(1,2)])
      show "set ds \<subseteq> fst ` set g" using edges "2.prems"(2) by (auto simp: closed_graph_def)
      show "\<forall>v\<in>set (x # visiting). \<forall>d\<in>set ds. (v, d) \<in> (depends g)\<^sup>+"
        using edges "2.prems"(4) by (auto intro: trancl_into_trancl)
    qed
    then obtain visited1 where inner: "visit_all g cyclic (x # visiting) ds visited = Inr visited1"
      by (auto simp: isOK_iff)
    moreover have "isOK (visit_all g cyclic visiting xs (x # visited1))"
      using "2.IH"(3) [OF fresh False ds "2.prems"(1,2)] "2.prems"(3,4) by simp
    ultimately show ?thesis using fresh False ds by simp
  qed
qed simp

lemma depends_acyclicI: "closed_graph g \<Longrightarrow> (\<And>x. x \<in> fst ` set g \<Longrightarrow> (x, x) \<notin> (depends g)\<^sup>+) \<Longrightarrow> acyclic (depends g)"
  unfolding acyclic_def using depends_keys [of _ _ g] by blast

lemma visit_all_iff:
  assumes "closed_graph g"
  shows "isOK (visit_all g cyclic [] (map fst g) []) \<longleftrightarrow> acyclic (depends g)"
proof
  assume "isOK (visit_all g cyclic [] (map fst g) [])"
  then obtain visited where "visit_all g cyclic [] (map fst g) [] = Inr visited" by (auto simp: isOK_iff)
  from visit_all_sound [OF this] have "search_inv g [] visited" "fst ` set g \<subseteq> set visited"
    by (simp_all add: search_inv_def)
  then show "acyclic (depends g)" by (intro depends_acyclicI assms) (auto simp: search_inv_def)
next
  assume "acyclic (depends g)"
  then show "isOK (visit_all g cyclic [] (map fst g) [])"
    using assms by (intro visit_all_complete) auto
qed

subsection \<open>The closure\<close>

definition required_by :: "graph \<Rightarrow> string \<Rightarrow> string set" where
  "required_by g x = (depends g)\<^sup>+ `` {x}"

definition memo_ok :: "graph \<Rightarrow> closures \<Rightarrow> bool" where
  "memo_ok g memo \<longleftrightarrow> (\<forall>(x, closure)\<in>set memo. closure = required_by g x)"

lemma required_by_unfold:
  "required_by g x = (\<Union>d\<in>set (prerequisites_of g x). insert d (required_by g d))"
proof -
  have "(x, e) \<in> (depends g)\<^sup>+ \<longleftrightarrow> (\<exists>d. (x, d) \<in> depends g \<and> (d = e \<or> (d, e) \<in> (depends g)\<^sup>+))" for e
    by (meson r_into_trancl trancl_into_trancl2 tranclD rtranclD)
  then show ?thesis by (auto simp: required_by_def depends_iff)
qed

lemma closure_sound:
  "prerequisite_closure g n x memo = Inr (c, memo') \<Longrightarrow> memo_ok g memo
    \<Longrightarrow> c = required_by g x \<and> memo_ok g memo'"
  "closure_union g n ds acc memo = Inr (c', memo') \<Longrightarrow> memo_ok g memo
    \<Longrightarrow> c' = acc \<union> (\<Union>d\<in>set ds. insert d (required_by g d)) \<and> memo_ok g memo'"
proof (induction g n x memo and g n ds acc memo arbitrary: c memo' and c' memo'
    rule: prerequisite_closure_closure_union.induct)
  case (1 g x memo)
  then show ?case by (auto simp: memo_ok_def dest: map_of_SomeD split: option.splits)
next
  case (2 g n x memo)
  show ?case
  proof (cases "map_of memo x")
    case None
    then obtain inner where "closure_union g n (prerequisites_of g x) {} memo = Inr (c, inner)"
      and memo': "memo' = (x, c) # inner"
      using "2.prems"(1) by (auto simp: bindE_eq_Inr_iff)
    then have "c = required_by g x" "memo_ok g inner"
      using "2.IH" [OF None] "2.prems"(2) required_by_unfold [of g x] by auto
    then show ?thesis using memo' by (simp add: memo_ok_def)
  next
    case (Some closure)
    then show ?thesis using "2.prems" by (auto simp: memo_ok_def dest: map_of_SomeD)
  qed
next
  case (4 g n d ds closure memo)
  then obtain inner memo1 where one: "prerequisite_closure g n d memo = Inr (inner, memo1)"
    and rest: "closure_union g n ds (insert d closure \<union> inner) memo1 = Inr (c', memo')"
    by (auto simp: bindE_eq_Inr_iff)
  have "inner = required_by g d" "memo_ok g memo1" using "4.IH"(1) [OF one] "4.prems"(2) by auto
  then show ?case using "4.IH"(2) [OF rest] by auto
qed simp

text \<open>The number of ids an id requires bounds the depth of its recursion.\<close>

definition depth_bound :: "graph \<Rightarrow> string \<Rightarrow> nat" where
  "depth_bound g x = card (required_by g x)"

lemma required_by_finite: "closed_graph g \<Longrightarrow> required_by g x \<subseteq> fst ` set g"
  by (auto simp: required_by_def dest: depends_keys)

lemma depth_bound_edge:
  assumes "closed_graph g" and "acyclic (depends g)" and "d \<in> set (prerequisites_of g x)"
  shows "depth_bound g d < depth_bound g x"
  unfolding depth_bound_def
proof (rule psubset_card_mono)
  show "finite (required_by g x)" using required_by_finite [OF assms(1)] by (rule finite_subset) simp
  have "d \<notin> required_by g d" using assms(2) by (simp add: required_by_def acyclic_def)
  then show "required_by g d \<subset> required_by g x" using assms(3) required_by_unfold [of g x] by blast
qed

lemma depth_bound_keys:
  assumes "closed_graph g" and "acyclic (depends g)" and "x \<in> fst ` set g"
  shows "depth_bound g x < length g"
proof -
  have "x \<notin> required_by g x" using assms(2) by (simp add: required_by_def acyclic_def)
  then have "required_by g x \<subset> fst ` set g" using required_by_finite [OF assms(1)] assms(3) by blast
  then have "depth_bound g x < card (fst ` set g)" unfolding depth_bound_def by (intro psubset_card_mono) simp
  also have "\<dots> \<le> length g" by (metis card_length length_map set_map)
  finally show ?thesis .
qed

lemma closure_returns:
  "closed_graph g \<Longrightarrow> acyclic (depends g) \<Longrightarrow> depth_bound g x < n \<Longrightarrow> isOK (prerequisite_closure g n x memo)"
  "closed_graph g \<Longrightarrow> acyclic (depends g) \<Longrightarrow> (\<forall>d\<in>set ds. depth_bound g d < n)
    \<Longrightarrow> isOK (closure_union g n ds acc memo)"
proof (induction g n x memo and g n ds acc memo rule: prerequisite_closure_closure_union.induct)
  case (2 g n x memo)
  show ?case
  proof (cases "map_of memo x")
    case None
    have "\<forall>d\<in>set (prerequisites_of g x). depth_bound g d < n"
      using depth_bound_edge [OF "2.prems"(1,2)] "2.prems"(3) by (meson less_Suc_eq_le order_less_le_trans)
    from "2.IH" [OF None "2.prems"(1,2) this] show ?thesis by (auto simp: None isOK_iff)
  qed simp
next
  case (4 g n d ds closure memo)
  then obtain inner memo1 where one: "prerequisite_closure g n d memo = Inr (inner, memo1)"
    by (auto simp: isOK_iff)
  then show ?case using "4.IH"(2) [OF "4.prems"(1,2)] "4.prems"(3) by simp
qed auto

lemma check_required_budgets_iff:
  assumes "closed_graph g" and "acyclic (depends g)"
  shows "set xs \<subseteq> fst ` set g \<Longrightarrow> memo_ok g memo \<Longrightarrow>
    isOK (check_required_budgets g budget message xs memo)
      \<longleftrightarrow> (\<forall>x\<in>set xs. int (card (required_by g x)) + 1 \<le> budget)"
proof (induction xs arbitrary: memo)
  case (Cons x xs)
  have "isOK (prerequisite_closure g (length g) x memo)"
    using Cons.prems(1) depth_bound_keys [OF assms] by (intro closure_returns(1) assms) simp
  then obtain c memo' where one: "prerequisite_closure g (length g) x memo = Inr (c, memo')"
    by (auto simp: isOK_iff)
  then have "c = required_by g x" "memo_ok g memo'" using closure_sound(1) Cons.prems(2) by blast+
  then show ?case using one Cons.IH [of memo'] Cons.prems(1) by (auto simp: bindE_guardE_OK)
qed simp

section \<open>The check decides the relation\<close>

lemma unknown_prerequisites_iff:
  "(\<forall>(x, ds)\<in>set g. unknown_prerequisites g ds = []) \<longleftrightarrow> (\<forall>(x, ds)\<in>set g. set ds \<subseteq> fst ` set g)"
  by (simp add: unknown_prerequisites_def filter_empty_conv subset_iff split_beta flip: set_empty)

lemma closed_graphI: "(\<forall>(x, ds)\<in>set g. set ds \<subseteq> fst ` set g) \<Longrightarrow> closed_graph g"
  unfolding closed_graph_def depends_def by (fastforce dest: map_of_SomeD)

lemma check_graph_iff:
  "isOK (check_graph m budget g) \<longleftrightarrow>
     distinct (map fst g) \<and> budget \<le> int (length g) \<and> (\<forall>(x, ds)\<in>set g. set ds \<subseteq> fst ` set g)
     \<and> acyclic (depends g) \<and> (\<forall>x\<in>fst ` set g. int (card (required_by g x)) + 1 \<le> budget)"
proof (cases "\<forall>(x, ds)\<in>set g. set ds \<subseteq> fst ` set g")
  case True
  note closed = closed_graphI [OF True]
  have "memo_ok g []" by (simp add: memo_ok_def)
  then show ?thesis
    using True visit_all_iff [OF closed, of "gm_cycle m"] check_required_budgets_iff [OF closed, of "map fst g" "[]"]
      unknown_prerequisites_iff [of g]
    by (simp add: check_graph_def Let_def bindE_guardE_OK isOK_bindE_const split_beta) (auto, fastforce)
next
  case False
  then show ?thesis using unknown_prerequisites_iff [of g]
    by (auto simp: check_graph_def Let_def bindE_guardE_OK isOK_bindE_const split_beta)
qed

section \<open>Every id is attainable\<close>

text \<open>A sequence in which each new id comes after all its prerequisites.\<close>

fun in_order :: "graph \<Rightarrow> string set \<Rightarrow> string list \<Rightarrow> bool" where
  "in_order g released [] \<longleftrightarrow> True"
| "in_order g released (x # xs) \<longleftrightarrow> set (prerequisites_of g x) \<subseteq> released \<and> x \<notin> released
     \<and> in_order g (insert x released) xs"

lemma in_order_snoc:
  "in_order g released (xs @ [x]) \<longleftrightarrow>
     in_order g released xs \<and> set (prerequisites_of g x) \<subseteq> released \<union> set xs \<and> x \<notin> released \<union> set xs"
  by (induction xs arbitrary: released) auto

lemma in_order_by_depth:
  assumes graph: "closed_graph g" "acyclic (depends g)"
  shows "distinct xs \<Longrightarrow> sorted (map (depth_bound g) xs) \<Longrightarrow> (\<Union>x\<in>set xs. set (prerequisites_of g x)) \<subseteq> set xs
    \<Longrightarrow> in_order g {} xs"
proof (induction xs rule: rev_induct)
  case (snoc x xs)
  have smaller: "y \<noteq> x \<and> x \<notin> set (prerequisites_of g y)" if "y \<in> set xs" for y
    using snoc.prems(1,2) that depth_bound_edge [OF graph, of x y] by (auto simp: sorted_append)
  then have "in_order g {} xs" using snoc by (intro snoc.IH) (auto simp: sorted_append)
  moreover have "x \<notin> set (prerequisites_of g x)" using depth_bound_edge [OF graph, of x x] by blast
  ultimately show ?case using snoc.prems smaller by (auto simp: in_order_snoc)
qed simp

lemma attainable:
  assumes graph: "closed_graph g" "acyclic (depends g)"
  shows "\<exists>xs. in_order g {} (xs @ [x]) \<and> set xs = required_by g x \<and> length xs = card (required_by g x)"
proof -
  have fin: "finite (required_by g x)" using required_by_finite [OF graph(1)] by (rule finite_subset) simp
  define xs where "xs = sort_key (depth_bound g) (sorted_list_of_set (required_by g x))"
  have xs: "set xs = required_by g x" "distinct xs" "sorted (map (depth_bound g) xs)"
    using fin by (simp_all add: xs_def)
  have "in_order g {} xs"
  proof (rule in_order_by_depth [OF graph xs(2,3)])
    show "(\<Union>x\<in>set xs. set (prerequisites_of g x)) \<subseteq> set xs"
      unfolding xs(1) required_by_def by (auto simp flip: depends_iff intro: trancl_into_trancl)
  qed
  moreover have "x \<notin> set xs" using graph(2) by (simp add: xs(1) required_by_def acyclic_def)
  moreover have "set (prerequisites_of g x) \<subseteq> set xs"
    unfolding xs(1) required_by_def by (auto simp flip: depends_iff)
  moreover have "length xs = card (required_by g x)" using xs(1,2) distinct_card by fastforce
  ultimately show ?thesis using xs(1) by (auto simp: in_order_snoc)
qed

end
