(* ===== verification/Lifecycle_Spec.thy ===== *)
theory Lifecycle_Spec
  imports Prerequisite_Graph Dataset_Contracts
begin

text \<open>
  The documents of a staged evidence lifecycle, \<^verbatim>\<open>contracts/evidence_lifecycle.py\<close>: the requests and
  operations a checkpoint declares, the checkpoints, and the lifecycle that orders them.
\<close>

section \<open>Requests\<close>

record evidence_request_spec =
  rq_request_id :: string
  rq_title :: string
  rq_description :: string
  rq_prerequisites :: "string list"

definition validate_request_spec :: "evidence_request_spec \<Rightarrow> string + evidence_request_spec" where
  "validate_request_spec r =
     bindE (check_texts ([rq_request_id r, rq_title r, rq_description r] @ rq_prerequisites r)) (\<lambda>_.
     bindE (guardE (safe_segment (rq_request_id r)) ''request_id must be a safe path segment'') (\<lambda>_.
     bindE (guardE (distinct (rq_prerequisites r)) ''evidence request prerequisites must be unique'') (\<lambda>_.
     bindE (guardE (rq_request_id r \<notin> set (rq_prerequisites r)) ''evidence request cannot depend on itself'') (\<lambda>_.
       Inr r))))"

record conditional_evidence =
  ce_request_budget :: int
  ce_requests :: "evidence_request_spec list"

text \<open>\<^verbatim>\<open>", ".join(names)\<close>.\<close>

fun comma_join :: "string list \<Rightarrow> string" where
  "comma_join [] = []"
| "comma_join [x] = x"
| "comma_join (x # xs) = x @ '', '' @ comma_join xs"

definition request_messages :: graph_messages where
  "request_messages = \<lparr>
     gm_duplicate = ''evidence request ids must be unique per checkpoint'',
     gm_excess = ''evidence request budget cannot exceed the number of requests'',
     gm_unknown = (\<lambda>x names. ''evidence request prerequisites are unknown for '' @ x @ '': '' @ comma_join names),
     gm_cycle = ''evidence request prerequisites must not contain cycles'',
     gm_budget = (\<lambda>x n. ''evidence request budget cannot satisfy prerequisites for '' @ x
       @ '': requires '' @ show_nat n @ '' requests'')\<rparr>"

definition request_graph :: "conditional_evidence \<Rightarrow> graph" where
  "request_graph c = map (\<lambda>r. (rq_request_id r, rq_prerequisites r)) (ce_requests c)"

definition validate_request_graph :: "conditional_evidence \<Rightarrow> string + conditional_evidence" where
  "validate_request_graph c =
     bindE (check_graph request_messages (ce_request_budget c) (request_graph c)) (\<lambda>_. Inr c)"

definition validate_conditional_evidence :: "conditional_evidence \<Rightarrow> string + conditional_evidence" where
  "validate_conditional_evidence c =
     bindE (guardE (0 < ce_request_budget c) ''greater_than'') (\<lambda>_.
     bindE (checkE_all (\<lambda>r. bindE (validate_request_spec r) (\<lambda>_. Inr ())) (ce_requests c)) (\<lambda>_.
     bindE (guardE (ce_requests c \<noteq> []) ''too_short'') (\<lambda>_.
     validate_request_graph c)))"

section \<open>Operations\<close>

record operation_spec =
  op_operation_id :: string
  op_kind :: string
  op_title :: string
  op_description :: string
  op_prerequisites :: "string list"

definition validate_safe_identity :: "string \<Rightarrow> string + unit" where
  "validate_safe_identity value = guardE (safe_segment value) ''operation identity must be a safe path segment''"

definition validate_operation_spec :: "operation_spec \<Rightarrow> string + operation_spec" where
  "validate_operation_spec o' =
     bindE (check_texts ([op_operation_id o', op_kind o', op_title o', op_description o'] @ op_prerequisites o')) (\<lambda>_.
     bindE (checkE_all validate_safe_identity [op_operation_id o', op_kind o']) (\<lambda>_.
     bindE (guardE (distinct (op_prerequisites o')) ''operation prerequisites must be unique'') (\<lambda>_.
     bindE (guardE (op_operation_id o' \<notin> set (op_prerequisites o')) ''operation cannot depend on itself'') (\<lambda>_.
       Inr o'))))"

record conditional_operations =
  co_operation_budget :: int
  co_operations :: "operation_spec list"

definition operation_messages :: graph_messages where
  "operation_messages = \<lparr>
     gm_duplicate = ''operation ids must be unique per checkpoint'',
     gm_excess = ''operation budget cannot exceed the number of operations'',
     gm_unknown = (\<lambda>x names. ''operation prerequisites are unknown for '' @ x @ '': '' @ comma_join names),
     gm_cycle = ''operation prerequisites must not contain cycles'',
     gm_budget = (\<lambda>x n. ''operation budget cannot satisfy prerequisites for '' @ x
       @ '': requires '' @ show_nat n @ '' operations'')\<rparr>"

definition operation_graph :: "conditional_operations \<Rightarrow> graph" where
  "operation_graph c = map (\<lambda>o'. (op_operation_id o', op_prerequisites o')) (co_operations c)"

definition validate_operation_graph :: "conditional_operations \<Rightarrow> string + conditional_operations" where
  "validate_operation_graph c =
     bindE (check_graph operation_messages (co_operation_budget c) (operation_graph c)) (\<lambda>_. Inr c)"

definition validate_conditional_operations :: "conditional_operations \<Rightarrow> string + conditional_operations" where
  "validate_conditional_operations c =
     bindE (guardE (0 < co_operation_budget c) ''greater_than'') (\<lambda>_.
     bindE (checkE_all (\<lambda>o'. bindE (validate_operation_spec o') (\<lambda>_. Inr ())) (co_operations c)) (\<lambda>_.
     bindE (guardE (co_operations c \<noteq> []) ''too_short'') (\<lambda>_.
     bindE (guardE (length (co_operations c) \<le> 32) ''too_long'') (\<lambda>_.
     validate_operation_graph c))))"

section \<open>Checkpoints\<close>

record checkpoint_spec =
  cs_checkpoint_id :: string
  cs_title :: string
  cs_release_path :: string
  cs_instruction_path :: string
  cs_submission_path :: string
  cs_depends_on :: "string list"
  cs_required_fields :: "string list"
  cs_allow_additional :: bool
  cs_evidence :: "conditional_evidence option"
  cs_operations :: "conditional_operations option"

text \<open>\<^verbatim>\<open>PurePosixPath.suffix\<close>: the last component from its last dot, unless the dot is its first or last character.\<close>

definition posix_name :: "string \<Rightarrow> string" where
  "posix_name value = (if posix_parts value = [] then [] else last (posix_parts value))"

definition posix_suffix :: "string \<Rightarrow> string" where
  "posix_suffix value =
     (let name = posix_name value;
          tail = rev (takeWhile (\<lambda>c. c \<noteq> CHR ''.'') (rev name));
          i = length name - length tail
      in if CHR ''.'' \<in> set name \<and> 1 < i \<and> tail \<noteq> [] then CHR ''.'' # tail else [])"

definition check_namespace :: "string \<Rightarrow> string \<Rightarrow> string \<Rightarrow> string + unit" where
  "check_namespace field namespace value =
     bindE (guardE (\<not> (posix_absolute value \<or> ''..'' \<in> set (posix_parts value)))
       (field @ '' must stay within the lifecycle package'')) (\<lambda>_.
     guardE (\<not> (length (posix_parts value) < 2 \<or> hd (posix_parts value) \<noteq> namespace))
       (field @ '' must be under '' @ namespace @ ''/''))"

definition validate_package_paths :: "checkpoint_spec \<Rightarrow> string + unit" where
  "validate_package_paths c =
     bindE (guardE (safe_segment (cs_checkpoint_id c)) ''checkpoint_id must be a safe path segment'') (\<lambda>_.
     bindE (check_namespace ''release_path'' ''releases'' (cs_release_path c)) (\<lambda>_.
     bindE (check_namespace ''instruction_path'' ''instructions'' (cs_instruction_path c)) (\<lambda>_.
     bindE (check_namespace ''submission_path'' ''submissions'' (cs_submission_path c)) (\<lambda>_.
     bindE (guardE (posix_suffix (cs_instruction_path c) = ''.md'') ''instruction_path must name a Markdown file'') (\<lambda>_.
     bindE (guardE (posix_suffix (cs_submission_path c) = ''.json'') ''submission_path must name a JSON file'') (\<lambda>_.
     bindE (guardE (distinct (cs_required_fields c)) ''required submission fields must be unique'') (\<lambda>_.
     bindE (guardE (\<not> (\<not> cs_allow_additional c \<and> ''checkpoint_id'' \<notin> set (cs_required_fields c)))
       ''exact submission fields must include checkpoint_id'') (\<lambda>_.
     guardE (\<not> (cs_evidence c \<noteq> None \<and> cs_operations c \<noteq> None))
       ''checkpoint must not declare both evidence requests and lifecycle operations''))))))))"

definition validate_checkpoint :: "checkpoint_spec \<Rightarrow> string + checkpoint_spec" where
  "validate_checkpoint c =
     bindE (check_texts ([cs_checkpoint_id c, cs_title c, cs_release_path c, cs_instruction_path c,
       cs_submission_path c] @ cs_depends_on c @ cs_required_fields c)) (\<lambda>_.
     bindE (case cs_evidence c of None \<Rightarrow> Inr ()
       | Some e \<Rightarrow> bindE (validate_conditional_evidence e) (\<lambda>_. Inr ())) (\<lambda>_.
     bindE (case cs_operations c of None \<Rightarrow> Inr ()
       | Some e \<Rightarrow> bindE (validate_conditional_operations e) (\<lambda>_. Inr ())) (\<lambda>_.
     bindE (validate_package_paths c) (\<lambda>_. Inr c))))"

section \<open>The lifecycle\<close>

record lifecycle_spec =
  ls_lifecycle_id :: string
  ls_checkpoints :: "checkpoint_spec list"

text \<open>The loop over the checkpoints with the set of the earlier ones.\<close>

fun check_dependencies :: "string list \<Rightarrow> checkpoint_spec list \<Rightarrow> string + unit" where
  "check_dependencies previous [] = Inr ()"
| "check_dependencies previous (c # cs) =
     (let unknown = sort (remdups (filter (\<lambda>d. d \<notin> set previous) (cs_depends_on c)))
      in bindE (guardE (unknown = [])
           (''checkpoint dependencies must refer to earlier checkpoints: '' @ comma_join unknown)) (\<lambda>_.
         check_dependencies (cs_checkpoint_id c # previous) cs))"

definition supports_requests :: "lifecycle_spec \<Rightarrow> bool" where
  "supports_requests s = list_ex (\<lambda>c. cs_evidence c \<noteq> None) (ls_checkpoints s)"

definition supports_operations :: "lifecycle_spec \<Rightarrow> bool" where
  "supports_operations s = list_ex (\<lambda>c. cs_operations c \<noteq> None) (ls_checkpoints s)"

definition validate_ordered_checkpoints :: "lifecycle_spec \<Rightarrow> string + unit" where
  "validate_ordered_checkpoints s =
     bindE (guardE (distinct (map cs_checkpoint_id (ls_checkpoints s))) ''checkpoint ids must be unique'') (\<lambda>_.
     bindE (guardE (distinct (map cs_submission_path (ls_checkpoints s))) ''submission paths must be unique'') (\<lambda>_.
     bindE (check_dependencies [] (ls_checkpoints s)) (\<lambda>_.
     guardE (\<not> (supports_requests s \<and> supports_operations s))
       ''lifecycle must not mix evidence-request and operation protocols'')))"

definition validate_lifecycle_spec :: "lifecycle_spec \<Rightarrow> string + lifecycle_spec" where
  "validate_lifecycle_spec s =
     bindE (check_texts [ls_lifecycle_id s]) (\<lambda>_.
     bindE (checkE_all (\<lambda>c. bindE (validate_checkpoint c) (\<lambda>_. Inr ())) (ls_checkpoints s)) (\<lambda>_.
     bindE (guardE (ls_checkpoints s \<noteq> []) ''too_short'') (\<lambda>_.
     bindE (validate_ordered_checkpoints s) (\<lambda>_. Inr s))))"

record lifecycle_task_metadata =
  lm_identity :: entity_identity
  lm_template_id :: string
  lm_name :: string
  lm_discipline :: string

definition validate_lifecycle_metadata :: "lifecycle_task_metadata \<Rightarrow> string + lifecycle_task_metadata" where
  "validate_lifecycle_metadata m =
     bindE (validate_entity_identity (lm_identity m)) (\<lambda>_.
     bindE (check_texts [lm_template_id m, lm_name m, lm_discipline m]) (\<lambda>_. Inr m))"

end
