(* ===== verification/Canonical_Json.thy ===== *)
theory Canonical_Json
  imports Json Execution_Models
begin

text \<open>
  The standard-library functions with which the lifecycle runtime binds records to content:
  \<^verbatim>\<open>json.dumps(payload, sort_keys=True, separators=(",", ":"))\<close> on the values it hashes (no floats among
  them), and \<^verbatim>\<open>hashlib.sha256(text.encode("utf-8")).hexdigest()\<close> on the ASCII text that gives. A
  character is its code point, below 256.
\<close>

section \<open>Canonical JSON text\<close>

datatype payload = P_Null | P_Bool bool | P_Int int | P_Text string | P_List "payload list"
  | P_Dict "(string \<times> payload) list"

definition hex_digit :: "nat \<Rightarrow> char" where
  "hex_digit n = (if n < 10 then char_of (48 + n) else char_of (87 + n))"

text \<open>The escapes of \<^verbatim>\<open>ensure_ascii\<close>.\<close>

definition escape_char :: "char \<Rightarrow> string" where
  "escape_char c =
     (let n = of_char c :: nat in
      if n = 34 then [CHR 0x5C, CHR 0x22]
      else if n = 92 then [CHR 0x5C, CHR 0x5C]
      else if n = 10 then CHR 0x5C # ''n''
      else if n = 13 then CHR 0x5C # ''r''
      else if n = 9 then CHR 0x5C # ''t''
      else if n = 12 then CHR 0x5C # ''f''
      else if n = 8 then CHR 0x5C # ''b''
      else if 32 \<le> n \<and> n \<le> 126 then [c]
      else CHR 0x5C # ''u00'' @ [hex_digit (n div 16), hex_digit (n mod 16)])"

definition quoted :: "string \<Rightarrow> string" where
  "quoted s = CHR 0x22 # concat (map escape_char s) @ [CHR 0x22]"

definition show_int :: "int \<Rightarrow> string" where
  "show_int i = (if i < 0 then CHR ''-'' # show_nat (nat (- i)) else show_nat (nat i))"

fun separated :: "string list \<Rightarrow> string" where
  "separated [] = []"
| "separated [x] = x"
| "separated (x # xs) = x @ CHR '','' # separated xs"

fun json_dumps :: "payload \<Rightarrow> string" where
  "json_dumps P_Null = ''null''"
| "json_dumps (P_Bool b) = (if b then ''true'' else ''false'')"
| "json_dumps (P_Int i) = show_int i"
| "json_dumps (P_Text s) = quoted s"
| "json_dumps (P_List xs) = CHR ''['' # separated (map json_dumps xs) @ '']''"
| "json_dumps (P_Dict entries) =
     CHR ''{'' # separated (map snd (sort_key fst
       (map (\<lambda>(k, v). (k, quoted k @ CHR '':'' # json_dumps v)) entries))) @ ''}''"

text \<open>\<^verbatim>\<open>json.dumps(payload, indent=2, sort_keys=True)\<close>, the text of the files the runtime writes.\<close>

definition new_line :: "nat \<Rightarrow> string" where
  "new_line depth = CHR 0x0A # replicate (2 * depth) (CHR '' '')"

fun separated_lines :: "nat \<Rightarrow> string list \<Rightarrow> string" where
  "separated_lines depth [] = []"
| "separated_lines depth [x] = new_line depth @ x"
| "separated_lines depth (x # xs) = new_line depth @ x @ CHR '','' # separated_lines depth xs"

fun json_pretty :: "nat \<Rightarrow> payload \<Rightarrow> string" where
  "json_pretty depth P_Null = ''null''"
| "json_pretty depth (P_Bool b) = (if b then ''true'' else ''false'')"
| "json_pretty depth (P_Int i) = show_int i"
| "json_pretty depth (P_Text s) = quoted s"
| "json_pretty depth (P_List xs) = (if xs = [] then ''[]''
     else CHR ''['' # separated_lines (Suc depth) (map (json_pretty (Suc depth)) xs) @ new_line depth @ '']'')"
| "json_pretty depth (P_Dict entries) = (if entries = [] then ''{}''
     else CHR ''{'' # separated_lines (Suc depth) (map snd (sort_key fst
       (map (\<lambda>(k, v). (k, quoted k @ '': '' @ json_pretty (Suc depth) v)) entries))) @ new_line depth @ ''}'')"

section \<open>SHA-256\<close>

type_synonym w32 = "32 word"

text \<open>
  The constants: the first 32 bits of the fractional parts of the cube roots of the first 64 primes, and
  of the square roots of the first eight. The root is found bit by bit.
\<close>

definition fractional_root :: "nat \<Rightarrow> int \<Rightarrow> w32" where
  "fractional_root e p =
     word_of_int (fold (\<lambda>i r. if (r + 2 ^ i) ^ e \<le> p * 2 ^ (32 * e) then r + 2 ^ i else r) (rev [0..<36]) 0)"

definition sha_primes :: "int list" where
  "sha_primes = filter (\<lambda>n. list_all (\<lambda>d. n mod d \<noteq> 0) [2..n - 1]) [2..311]"

definition sha_k :: "w32 list" where
  "sha_k = map (fractional_root 3) sha_primes"

definition sha_start :: "w32 list" where
  "sha_start = map (fractional_root 2) [2, 3, 5, 7, 11, 13, 17, 19]"

definition rotr :: "nat \<Rightarrow> w32 \<Rightarrow> w32" where
  "rotr n w = drop_bit n w OR push_bit (32 - n) w"

definition sha_pad :: "string \<Rightarrow> int list" where
  "sha_pad bytes =
     (let n = length bytes
      in map of_char bytes @ [0x80] @ replicate ((119 - n mod 64) mod 64) 0
         @ map (\<lambda>i. (8 * int n) div 256 ^ i mod 256) (rev [0..<8]))"

fun sha_words :: "int list \<Rightarrow> w32 list" where
  "sha_words (a # b # c # d # rest) =
     word_of_int (a * 0x1000000 + b * 0x10000 + c * 0x100 + d) # sha_words rest"
| "sha_words _ = []"

text \<open>The message schedule, kept with the newest word first.\<close>

definition sha_extend :: "w32 list \<Rightarrow> w32 list" where
  "sha_extend ws =
     (let s0 = rotr 7 (ws ! 14) XOR rotr 18 (ws ! 14) XOR drop_bit 3 (ws ! 14);
          s1 = rotr 17 (ws ! 1) XOR rotr 19 (ws ! 1) XOR drop_bit 10 (ws ! 1)
      in (ws ! 15 + s0 + ws ! 6 + s1) # ws)"

definition sha_schedule :: "w32 list \<Rightarrow> w32 list" where
  "sha_schedule block = rev ((sha_extend ^^ 48) (rev block))"

fun sha_round :: "w32 \<times> w32 \<Rightarrow> w32 list \<Rightarrow> w32 list" where
  "sha_round (k, w) [a, b, c, d, e, f, g, h] =
     (let t1 = h + (rotr 6 e XOR rotr 11 e XOR rotr 25 e) + ((e AND f) XOR (NOT e AND g)) + k + w;
          t2 = (rotr 2 a XOR rotr 13 a XOR rotr 22 a) + ((a AND b) XOR (a AND c) XOR (b AND c))
      in [t1 + t2, a, b, c, d + t1, e, f, g])"
| "sha_round _ state = state"

definition sha_block :: "w32 list \<Rightarrow> w32 list \<Rightarrow> w32 list" where
  "sha_block state block = map2 (+) state (fold sha_round (zip sha_k (sha_schedule block)) state)"

fun sha_blocks :: "nat \<Rightarrow> w32 list \<Rightarrow> w32 list \<Rightarrow> w32 list" where
  "sha_blocks 0 ws state = state"
| "sha_blocks (Suc n) ws state = sha_blocks n (drop 16 ws) (sha_block state (take 16 ws))"

definition hex_word :: "w32 \<Rightarrow> string" where
  "hex_word w = map (\<lambda>i. hex_digit (nat (uint w div 16 ^ i mod 16))) (rev [0..<8])"

definition sha256 :: "string \<Rightarrow> string" where
  "sha256 bytes =
     (let ws = sha_words (sha_pad bytes)
      in concat (map hex_word (sha_blocks (length ws div 16) ws sha_start)))"

definition payload_sha256 :: "payload \<Rightarrow> string" where
  "payload_sha256 p = sha256 (json_dumps p)"

section \<open>A digest is 64 lowercase hexadecimal digits\<close>

lemma sha_round_length: "length s = 8 \<Longrightarrow> length (sha_round kw s) = 8"
  by (induction kw s rule: sha_round.induct) (simp_all add: Let_def)

lemma sha_rounds_length: "length s = 8 \<Longrightarrow> length (fold sha_round kws s) = 8"
  by (induction kws arbitrary: s) (simp_all add: sha_round_length)

lemma sha_blocks_length: "length s = 8 \<Longrightarrow> length (sha_blocks n ws s) = 8"
  by (induction n arbitrary: ws s) (simp_all add: sha_block_def sha_rounds_length)

lemma hex_digit_ok: "n < 16 \<Longrightarrow> is_lower_hex (hex_digit n)"
proof -
  have "list_all (\<lambda>n. is_lower_hex (hex_digit n)) [0..<16]" by code_simp
  then show "n < 16 \<Longrightarrow> is_lower_hex (hex_digit n)" by (simp add: list_all_iff)
qed

lemma hex_word_ok: "length (hex_word w) = 8 \<and> list_all is_lower_hex (hex_word w)"
proof -
  have "nat (x mod 16) < 16" for x :: int by (simp add: nat_less_iff)
  then show ?thesis by (simp add: hex_word_def hex_digit_ok list_all_iff)
qed

lemma hex_words_ok: "length (concat (map hex_word ws)) = 8 * length ws \<and> list_all is_lower_hex (concat (map hex_word ws))"
  by (induction ws) (simp_all add: hex_word_ok)

lemma sha256_ok [simp]: "is_sha256 (sha256 bytes)"
  using hex_words_ok [of "sha_blocks n ws sha_start" for n ws] sha_blocks_length [of sha_start]
  by (simp add: sha256_def Let_def is_sha256_def sha_start_def)

end
