(* ===== verification/Lifecycle_State.thy ===== *)
theory Lifecycle_State
  imports Lifecycle_Spec Canonical_Json
begin

text \<open>
  The durable records of a lifecycle run, \<^verbatim>\<open>lifecycles/runtime/state.py\<close>, with their validators. The
  runtime mutates these records freely; a validator runs when a record is constructed and when the
  state is read back from disk.
\<close>

section \<open>Enumerations\<close>

datatype run_status = Awaiting_Release | Awaiting_Submission | Run_Complete

datatype checkpoint_status = Cp_Pending | Cp_Active | Cp_Submitted

datatype checkpoint_attempt_status = Ca_Active | Ca_Submitted | Ca_Interrupted | Ca_Failed

datatype transition_kind = Tk_Branch | Tk_Evidence_Request | Tk_Operation | Tk_Release | Tk_Submit | Tk_Revisit

datatype request_outcome = Rq_Released | Rq_Already_Released | Rq_Rejected

datatype request_rejection = Rr_Inactive_Checkpoint | Rr_Unknown_Request | Rr_Prerequisites_Incomplete
  | Rr_Budget_Exhausted | Rr_Not_Supported

datatype operation_outcome = Oo_Completed | Oo_Already_Current | Oo_Rejected

datatype operation_disposition = Od_Computed | Od_Reused | Od_Activated

datatype operation_rejection = Or_Inactive_Checkpoint | Or_Unknown_Operation | Or_Prerequisites_Incomplete
  | Or_Stale_Visible_Source | Or_Budget_Exhausted | Or_Not_Supported

section \<open>Operation actions\<close>

record operation_artifact =
  oa_path :: string
  oa_workspace_path :: "string option"
  oa_sha256 :: string

text \<open>A path below one of the directories the runtime owns.\<close>

definition stays_under :: "string \<Rightarrow> string \<Rightarrow> bool" where
  "stays_under folder value \<longleftrightarrow>
     \<not> (posix_absolute value \<or> ''..'' \<in> set (posix_parts value) \<or> take 1 (posix_parts value) \<noteq> [folder])"

definition check_digests :: "string \<Rightarrow> string list \<Rightarrow> string + unit" where
  "check_digests message values = checkE_all (\<lambda>v. guardE (is_sha256 v) message) values"

lemma isOK_check_digests [simp]: "isOK (check_digests m vs) \<longleftrightarrow> (\<forall>v\<in>set vs. is_sha256 v)"
  by (simp add: check_digests_def)

definition validate_operation_artifact :: "operation_artifact \<Rightarrow> string + operation_artifact" where
  "validate_operation_artifact a =
     bindE (check_texts [oa_path a, oa_sha256 a]) (\<lambda>_.
     bindE (check_digests ''operation artifact sha256 must contain 64 lowercase hexadecimal characters''
       [oa_sha256 a]) (\<lambda>_.
     bindE (guardE (stays_under ''lifecycle_operations'' (oa_path a))
       ''operation artifact path must stay under lifecycle_operations/'') (\<lambda>_.
     bindE (guardE (case oa_workspace_path a of None \<Rightarrow> True | Some w \<Rightarrow> stays_under ''inbox'' w)
       ''operation workspace path must stay under inbox/'') (\<lambda>_. Inr a))))"

record operation_action =
  ao_action_id :: string
  ao_sequence :: int
  ao_checkpoint_id :: string
  ao_requested_checkpoint_id :: string
  ao_operation_id :: string
  ao_operation_kind :: string
  ao_reason :: string
  ao_session_id :: string
  ao_attempt_id :: string
  ao_outcome :: operation_outcome
  ao_rejection :: "operation_rejection option"
  ao_disposition :: "operation_disposition option"
  ao_visible_before :: string
  ao_visible_after :: string
  ao_physical_before :: string
  ao_physical_after :: string
  ao_input_projection :: string
  ao_request_sha256 :: string
  ao_result_manifest :: "string option"
  ao_prerequisite_actions :: "string list"
  ao_retained_from :: "string option"
  ao_pre_state :: string
  ao_post_state :: string
  ao_artifacts :: "operation_artifact list"
  ao_budget_before :: int
  ao_budget_consumed :: int
  ao_budget_after :: int
  ao_inherited :: bool

text \<open>The fields in their declared types, before the model validator.\<close>

definition check_operation_fields :: "operation_action \<Rightarrow> string + unit" where
  "check_operation_fields a =
     bindE (check_texts ([ao_action_id a, ao_checkpoint_id a, ao_requested_checkpoint_id a, ao_operation_id a,
       ao_operation_kind a, ao_reason a, ao_session_id a, ao_attempt_id a] @ ao_prerequisite_actions a)) (\<lambda>_.
     bindE (guardE (0 < ao_sequence a) ''greater_than'') (\<lambda>_.
     bindE (check_digests ''operation sha256 must contain 64 lowercase hexadecimal characters''
       ([ao_visible_before a, ao_visible_after a, ao_physical_before a, ao_physical_after a,
         ao_input_projection a, ao_request_sha256 a, ao_pre_state a, ao_post_state a]
        @ opt_list (ao_result_manifest a))) (\<lambda>_.
     bindE (checkE_all (\<lambda>x. bindE (validate_operation_artifact x) (\<lambda>_. Inr ())) (ao_artifacts a)) (\<lambda>_.
     guardE (0 \<le> ao_budget_before a \<and> ao_budget_consumed a \<in> {0, 1} \<and> 0 \<le> ao_budget_after a)
       ''greater_than_equal''))))"

definition operation_outcome_ok :: "operation_action \<Rightarrow> bool" where
  "operation_outcome_ok a =
     (case ao_outcome a of
        Oo_Completed \<Rightarrow> ao_requested_checkpoint_id a = ao_checkpoint_id a \<and> ao_rejection a = None
          \<and> ao_disposition a \<in> {Some Od_Computed, Some Od_Activated} \<and> ao_budget_consumed a = 1
          \<and> ao_result_manifest a \<noteq> None \<and> ao_artifacts a \<noteq> [] \<and> ao_retained_from a = None
      | Oo_Already_Current \<Rightarrow> ao_requested_checkpoint_id a = ao_checkpoint_id a \<and> ao_rejection a = None
          \<and> ao_disposition a = Some Od_Reused \<and> ao_budget_consumed a = 0
          \<and> ao_result_manifest a = None \<and> ao_artifacts a \<noteq> [] \<and> ao_retained_from a \<noteq> None
      | Oo_Rejected \<Rightarrow> ao_rejection a \<noteq> None \<and> ao_disposition a = None \<and> ao_budget_consumed a = 0
          \<and> ao_result_manifest a = None \<and> ao_artifacts a = [] \<and> ao_retained_from a = None)"

definition operation_outcome_message :: "operation_action \<Rightarrow> string" where
  "operation_outcome_message a =
     (case ao_outcome a of
        Oo_Completed \<Rightarrow> ''completed operation must consume budget and bind computed artifacts''
      | Oo_Already_Current \<Rightarrow> ''already-current operation must reuse one prior result without budget''
      | Oo_Rejected \<Rightarrow> ''rejected operation must record only its typed rejection'')"

definition workspace_paths :: "operation_action \<Rightarrow> string list" where
  "workspace_paths a = concat (map (\<lambda>x. opt_list (oa_workspace_path x)) (ao_artifacts a))"

definition validate_operation_action :: "operation_action \<Rightarrow> string + operation_action" where
  "validate_operation_action a =
     bindE (check_operation_fields a) (\<lambda>_.
     bindE (guardE (distinct (map oa_path (ao_artifacts a))) ''operation artifact path values must be unique'') (\<lambda>_.
     bindE (guardE (distinct (workspace_paths a)) ''operation workspace path values must be unique'') (\<lambda>_.
     bindE (guardE (ao_budget_after a = ao_budget_before a - ao_budget_consumed a)
       ''operation budget arithmetic is inconsistent'') (\<lambda>_.
     bindE (guardE (operation_outcome_ok a) (operation_outcome_message a)) (\<lambda>_. Inr a)))))"

section \<open>Evidence request actions\<close>

record released_artifact =
  ra_path :: string
  ra_workspace_path :: string
  ra_sha256 :: string

definition validate_released_artifact :: "released_artifact \<Rightarrow> string + released_artifact" where
  "validate_released_artifact a =
     bindE (check_texts [ra_path a, ra_workspace_path a, ra_sha256 a]) (\<lambda>_.
     bindE (check_digests ''sha256 must contain 64 lowercase hexadecimal characters'' [ra_sha256 a]) (\<lambda>_.
     bindE (guardE (stays_under ''evidence_requests'' (ra_path a))
       ''released evidence artifact path must stay under evidence_requests/'') (\<lambda>_.
     bindE (guardE (stays_under ''inbox'' (ra_workspace_path a))
       ''released evidence workspace path must stay under inbox/'') (\<lambda>_. Inr a))))"

record request_action =
  aq_action_id :: string
  aq_sequence :: int
  aq_checkpoint_id :: string
  aq_requested_checkpoint_id :: string
  aq_request_id :: string
  aq_reason :: string
  aq_session_id :: string
  aq_attempt_id :: string
  aq_outcome :: request_outcome
  aq_rejection :: "request_rejection option"
  aq_pre_state :: string
  aq_post_state :: string
  aq_released :: "released_artifact list"
  aq_budget_before :: int
  aq_budget_consumed :: int
  aq_budget_after :: int
  aq_inherited :: bool

definition check_request_fields :: "request_action \<Rightarrow> string + unit" where
  "check_request_fields a =
     bindE (check_texts [aq_action_id a, aq_checkpoint_id a, aq_requested_checkpoint_id a, aq_request_id a,
       aq_reason a, aq_session_id a, aq_attempt_id a]) (\<lambda>_.
     bindE (guardE (0 < aq_sequence a) ''greater_than'') (\<lambda>_.
     bindE (check_digests ''action state sha256 must contain 64 lowercase hexadecimal characters''
       [aq_pre_state a, aq_post_state a]) (\<lambda>_.
     bindE (checkE_all (\<lambda>x. bindE (validate_released_artifact x) (\<lambda>_. Inr ())) (aq_released a)) (\<lambda>_.
     guardE (0 \<le> aq_budget_before a \<and> aq_budget_consumed a \<in> {0, 1} \<and> 0 \<le> aq_budget_after a)
       ''greater_than_equal''))))"

definition request_outcome_ok :: "request_action \<Rightarrow> bool" where
  "request_outcome_ok a =
     (case aq_outcome a of
        Rq_Released \<Rightarrow> aq_requested_checkpoint_id a = aq_checkpoint_id a \<and> aq_rejection a = None
          \<and> aq_budget_consumed a = 1 \<and> aq_released a \<noteq> []
      | Rq_Already_Released \<Rightarrow> aq_requested_checkpoint_id a = aq_checkpoint_id a \<and> aq_rejection a = None
          \<and> aq_budget_consumed a = 0 \<and> aq_released a \<noteq> []
      | Rq_Rejected \<Rightarrow> aq_rejection a \<noteq> None \<and> aq_budget_consumed a = 0 \<and> aq_released a = [])"

definition request_outcome_message :: "request_action \<Rightarrow> string" where
  "request_outcome_message a =
     (case aq_outcome a of
        Rq_Released \<Rightarrow> ''released evidence request must consume budget and record artifacts''
      | Rq_Already_Released \<Rightarrow> ''already-released evidence request must preserve its artifacts''
      | Rq_Rejected \<Rightarrow> ''rejected evidence request must record only its rejection'')"

definition validate_request_action :: "request_action \<Rightarrow> string + request_action" where
  "validate_request_action a =
     bindE (check_request_fields a) (\<lambda>_.
     bindE (guardE (aq_budget_after a = aq_budget_before a - aq_budget_consumed a)
       ''evidence request budget arithmetic is inconsistent'') (\<lambda>_.
     bindE (guardE (request_outcome_ok a) (request_outcome_message a)) (\<lambda>_. Inr a)))"

section \<open>Attempts and checkpoints\<close>

record checkpoint_attempt =
  ct_attempt_id :: string
  ct_session_id :: string
  ct_sequence :: int
  ct_execution_mode :: string
  ct_status :: checkpoint_attempt_status
  ct_resumed_from :: "string option"
  ct_failure_kind :: "string option"
  ct_request_sha256 :: "string option"
  ct_inherited :: bool

definition validate_checkpoint_attempt :: "checkpoint_attempt \<Rightarrow> string + checkpoint_attempt" where
  "validate_checkpoint_attempt a =
     bindE (check_texts [ct_attempt_id a, ct_session_id a, ct_execution_mode a]) (\<lambda>_.
     bindE (guardE (0 < ct_sequence a) ''greater_than'') (\<lambda>_.
     bindE (check_digests ''episode_request_sha256 must contain 64 lowercase hexadecimal characters''
       (opt_list (ct_request_sha256 a))) (\<lambda>_. Inr a)))"

record checkpoint_run =
  cr_checkpoint_id :: string
  cr_status :: checkpoint_status
  cr_released_files :: "string list"
  cr_submission_path :: "string option"
  cr_submission_sha256 :: "string option"
  cr_attempts :: "checkpoint_attempt list"
  cr_request_budget :: int
  cr_request_remaining :: int
  cr_request_actions :: "request_action list"
  cr_operation_budget :: int
  cr_operation_remaining :: int
  cr_operation_actions :: "operation_action list"
  cr_inherited :: bool

text \<open>The replay loops of the validator: the budget each action leaves is the one the next one starts from.\<close>

fun request_budget_chain :: "string \<Rightarrow> int \<Rightarrow> request_action list \<Rightarrow> string + int" where
  "request_budget_chain checkpoint remaining [] = Inr remaining"
| "request_budget_chain checkpoint remaining (a # as) =
     bindE (guardE (aq_checkpoint_id a = checkpoint)
       ''evidence request action checkpoint must match its run record'') (\<lambda>_.
     bindE (guardE (aq_budget_before a = remaining) ''evidence request action budget chain is inconsistent'') (\<lambda>_.
     request_budget_chain checkpoint (aq_budget_after a) as))"

fun operation_budget_chain :: "string \<Rightarrow> int \<Rightarrow> operation_action list \<Rightarrow> string + int" where
  "operation_budget_chain checkpoint remaining [] = Inr remaining"
| "operation_budget_chain checkpoint remaining (a # as) =
     bindE (guardE (ao_checkpoint_id a = checkpoint)
       ''operation action checkpoint must match its run record'') (\<lambda>_.
     bindE (guardE (ao_budget_before a = remaining) ''operation action budget chain is inconsistent'') (\<lambda>_.
     operation_budget_chain checkpoint (ao_budget_after a) as))"

definition validate_submission_and_attempts :: "checkpoint_run \<Rightarrow> string + unit" where
  "validate_submission_and_attempts c =
     bindE (guardE (\<not> (cr_status c = Cp_Submitted
         \<and> (cr_submission_path c = None \<or> cr_submission_sha256 c = None)))
       ''submitted checkpoint requires submission path and sha256'') (\<lambda>_.
     bindE (guardE (length (filter (\<lambda>a. ct_status a = Ca_Active) (cr_attempts c)) \<le> 1)
       ''checkpoint cannot have multiple active attempts'') (\<lambda>_.
     bindE (guardE (map ct_sequence (cr_attempts c) = [1..int (length (cr_attempts c))])
       ''checkpoint attempt sequences must be contiguous'') (\<lambda>_.
     bindE (guardE (cr_request_remaining c \<le> cr_request_budget c)
       ''remaining evidence request budget cannot exceed its initial budget'') (\<lambda>_.
     bindE (request_budget_chain (cr_checkpoint_id c) (cr_request_budget c) (cr_request_actions c)) (\<lambda>remaining.
     bindE (guardE (remaining = cr_request_remaining c)
       ''remaining evidence request budget must match the action history'') (\<lambda>_.
     bindE (guardE (cr_operation_remaining c \<le> cr_operation_budget c)
       ''remaining operation budget cannot exceed its initial budget'') (\<lambda>_.
     bindE (operation_budget_chain (cr_checkpoint_id c) (cr_operation_budget c) (cr_operation_actions c))
       (\<lambda>operation_remaining.
     guardE (operation_remaining = cr_operation_remaining c)
       ''remaining operation budget must match the action history''))))))))"

definition validate_checkpoint_run :: "checkpoint_run \<Rightarrow> string + checkpoint_run" where
  "validate_checkpoint_run c =
     bindE (check_texts [cr_checkpoint_id c]) (\<lambda>_.
     bindE (checkE_all (\<lambda>a. bindE (validate_checkpoint_attempt a) (\<lambda>_. Inr ())) (cr_attempts c)) (\<lambda>_.
     bindE (guardE (0 \<le> cr_request_budget c \<and> 0 \<le> cr_request_remaining c) ''greater_than_equal'') (\<lambda>_.
     bindE (checkE_all (\<lambda>a. bindE (validate_request_action a) (\<lambda>_. Inr ())) (cr_request_actions c)) (\<lambda>_.
     bindE (guardE (0 \<le> cr_operation_budget c \<and> 0 \<le> cr_operation_remaining c) ''greater_than_equal'') (\<lambda>_.
     bindE (checkE_all (\<lambda>a. bindE (validate_operation_action a) (\<lambda>_. Inr ())) (cr_operation_actions c)) (\<lambda>_.
     bindE (validate_submission_and_attempts c) (\<lambda>_. Inr c)))))))"

text \<open>
  The constructor of a record checks its own fields; a nested record is taken as it is, because it was
  checked when it was constructed.
\<close>

definition construct_checkpoint_run :: "checkpoint_run \<Rightarrow> string + checkpoint_run" where
  "construct_checkpoint_run c =
     bindE (check_texts [cr_checkpoint_id c]) (\<lambda>_.
     bindE (guardE (0 \<le> cr_request_budget c \<and> 0 \<le> cr_request_remaining c
       \<and> 0 \<le> cr_operation_budget c \<and> 0 \<le> cr_operation_remaining c) ''greater_than_equal'') (\<lambda>_.
     bindE (validate_submission_and_attempts c) (\<lambda>_. Inr c)))"

definition active_attempt :: "checkpoint_run \<Rightarrow> checkpoint_attempt option" where
  "active_attempt c = find (\<lambda>a. ct_status a = Ca_Active) (rev (cr_attempts c))"

definition last_attempt :: "checkpoint_run \<Rightarrow> checkpoint_attempt option" where
  "last_attempt c = (if cr_attempts c = [] then None else Some (last (cr_attempts c)))"

section \<open>The run\<close>

record checkpoint_revisit =
  rv_revisit_id :: string
  rv_checkpoint_id :: string
  rv_requested_from :: "string option"
  rv_reason :: string

definition validate_revisit :: "checkpoint_revisit \<Rightarrow> string + checkpoint_revisit" where
  "validate_revisit r =
     bindE (check_texts [rv_revisit_id r, rv_checkpoint_id r, rv_reason r]) (\<lambda>_. Inr r)"

record lifecycle_transition =
  lt_transition_id :: string
  lt_kind :: transition_kind
  lt_from :: "string option"
  lt_to :: "string option"
  lt_reason :: string

definition validate_transition_record :: "lifecycle_transition \<Rightarrow> string + lifecycle_transition" where
  "validate_transition_record t = bindE (check_texts [lt_transition_id t, lt_reason t]) (\<lambda>_. Inr t)"

record lifecycle_branch =
  lb_branch_id :: string
  lb_parent_run_dir :: string
  lb_from_checkpoint :: string
  lb_parent_submission :: string
  lb_parent_action_state :: "string option"
  lb_reason :: string

definition validate_branch :: "lifecycle_branch \<Rightarrow> string + lifecycle_branch" where
  "validate_branch b =
     bindE (check_texts [lb_branch_id b, lb_parent_run_dir b, lb_from_checkpoint b, lb_parent_submission b,
       lb_reason b]) (\<lambda>_.
     bindE (check_digests ''parent action state sha256 must contain 64 lowercase hexadecimal characters''
       (opt_list (lb_parent_action_state b))) (\<lambda>_. Inr b))"

datatype schema_version = Schema_6 | Schema_7

record run_state =
  ru_schema :: schema_version
  ru_lifecycle_id :: string
  ru_spec_sha256 :: string
  ru_package_sha256 :: string
  ru_authorization :: "string option"
  ru_status :: run_status
  ru_active :: "string option"
  ru_checkpoints :: "checkpoint_run list"
  ru_revisits :: "checkpoint_revisit list"
  ru_transitions :: "lifecycle_transition list"
  ru_branch :: "lifecycle_branch option"

text \<open>\<^verbatim>\<open>f"{n:03d}"\<close> and its like.\<close>

definition padded :: "nat \<Rightarrow> nat \<Rightarrow> string" where
  "padded width n = replicate (width - length (show_nat n)) (CHR ''0'') @ show_nat n"

definition request_action_id :: "nat \<Rightarrow> string" where
  "request_action_id n = ''evidence-request-'' @ padded 6 n"

definition operation_action_id :: "nat \<Rightarrow> string" where
  "operation_action_id n = ''operation-'' @ padded 6 n"

definition all_request_actions :: "run_state \<Rightarrow> request_action list" where
  "all_request_actions s = concat (map cr_request_actions (ru_checkpoints s))"

definition all_operation_actions :: "run_state \<Rightarrow> operation_action list" where
  "all_operation_actions s = concat (map cr_operation_actions (ru_checkpoints s))"

text \<open>Submitted, active, pending: the order of the phases.\<close>

definition phase_order :: "checkpoint_status \<Rightarrow> nat" where
  "phase_order s = (case s of Cp_Submitted \<Rightarrow> 0 | Cp_Active \<Rightarrow> 1 | Cp_Pending \<Rightarrow> 2)"

definition active_checkpoints :: "run_state \<Rightarrow> checkpoint_run list" where
  "active_checkpoints s = filter (\<lambda>c. cr_status c = Cp_Active) (ru_checkpoints s)"

definition check_status :: "run_state \<Rightarrow> string + unit" where
  "check_status s =
     (case ru_status s of
        Run_Complete \<Rightarrow>
          bindE (guardE (\<not> (ru_active s \<noteq> None \<or> active_checkpoints s \<noteq> []))
            ''complete lifecycle cannot have an active checkpoint'') (\<lambda>_.
          guardE (list_all (\<lambda>c. cr_status c = Cp_Submitted) (ru_checkpoints s))
            ''complete lifecycle requires every checkpoint to be submitted'')
      | Awaiting_Submission \<Rightarrow>
          bindE (guardE (\<not> (ru_active s = None \<or> length (active_checkpoints s) \<noteq> 1))
            ''awaiting submission requires exactly one active checkpoint'') (\<lambda>_.
          guardE (map (\<lambda>c. Some (cr_checkpoint_id c)) (take 1 (active_checkpoints s)) = [ru_active s])
            ''active checkpoint id must match the active checkpoint record'')
      | Awaiting_Release \<Rightarrow>
          guardE (\<not> (ru_active s \<noteq> None \<or> active_checkpoints s \<noteq> []))
            ''awaiting evidence release cannot have an active checkpoint'')"

definition validate_run_state :: "run_state \<Rightarrow> string + unit" where
  "validate_run_state s =
     bindE (guardE (distinct (map cr_checkpoint_id (ru_checkpoints s)))
       ''lifecycle state checkpoint ids must be unique'') (\<lambda>_.
     bindE (check_status s) (\<lambda>_.
     bindE (guardE (sorted (map (\<lambda>c. phase_order (cr_status c)) (ru_checkpoints s)))
       ''checkpoint statuses must follow submitted, active, then pending order'') (\<lambda>_.
     bindE (guardE (case ru_branch s of None \<Rightarrow> True
         | Some b \<Rightarrow> lb_from_checkpoint b \<in> set (map cr_checkpoint_id (ru_checkpoints s)))
       ''branch checkpoint must exist in lifecycle state'') (\<lambda>_.
     bindE (guardE (case ru_branch s of None \<Rightarrow> True | Some b \<Rightarrow> lb_parent_action_state b \<noteq> None)
       ((if ru_schema s = Schema_6 then ''v6'' else ''v7'')
         @ '' branch state requires a parent action state sha256'')) (\<lambda>_.
     bindE (guardE (\<not> (ru_schema s = Schema_6 \<and> (all_operation_actions s \<noteq> []
         \<or> list_ex (\<lambda>c. cr_operation_budget c \<noteq> 0 \<or> cr_operation_remaining c \<noteq> 0) (ru_checkpoints s))))
       ''v6 lifecycle state cannot contain operation state'') (\<lambda>_.
     bindE (guardE (map (\<lambda>a. (ao_sequence a, ao_action_id a)) (all_operation_actions s)
         = map (\<lambda>n. (int n, operation_action_id n)) [1..<Suc (length (all_operation_actions s))])
       ''operation action identities must be contiguous and globally ordered across the run'') (\<lambda>_.
     guardE (map (\<lambda>a. (aq_sequence a, aq_action_id a)) (all_request_actions s)
         = map (\<lambda>n. (int n, request_action_id n)) [1..<Suc (length (all_request_actions s))])
       ''evidence request action identities must be contiguous and globally ordered across the run'')))))))"

text \<open>\<^verbatim>\<open>EvidenceLifecycleRunState.model_validate\<close>: what reading the state from disk checks.\<close>

definition model_validate_state :: "run_state \<Rightarrow> string + run_state" where
  "model_validate_state s =
     bindE (check_texts [ru_lifecycle_id s, ru_spec_sha256 s, ru_package_sha256 s]) (\<lambda>_.
     bindE (check_digests ''run authorization sha256 must contain 64 lowercase hexadecimal characters''
       (opt_list (ru_authorization s))) (\<lambda>_.
     bindE (checkE_all (\<lambda>c. bindE (validate_checkpoint_run c) (\<lambda>_. Inr ())) (ru_checkpoints s)) (\<lambda>_.
     bindE (checkE_all (\<lambda>r. bindE (validate_revisit r) (\<lambda>_. Inr ())) (ru_revisits s)) (\<lambda>_.
     bindE (checkE_all (\<lambda>t. bindE (validate_transition_record t) (\<lambda>_. Inr ())) (ru_transitions s)) (\<lambda>_.
     bindE (case ru_branch s of None \<Rightarrow> Inr () | Some b \<Rightarrow> bindE (validate_branch b) (\<lambda>_. Inr ())) (\<lambda>_.
     bindE (validate_run_state s) (\<lambda>_. Inr s)))))))"

definition construct_run_state :: "run_state \<Rightarrow> string + run_state" where
  "construct_run_state s =
     bindE (check_texts [ru_lifecycle_id s, ru_spec_sha256 s, ru_package_sha256 s]) (\<lambda>_.
     bindE (check_digests ''run authorization sha256 must contain 64 lowercase hexadecimal characters''
       (opt_list (ru_authorization s))) (\<lambda>_.
     bindE (validate_run_state s) (\<lambda>_. Inr s)))"

definition checkpoint :: "string \<Rightarrow> run_state \<Rightarrow> checkpoint_run option" where
  "checkpoint i s = find_row cr_checkpoint_id i (ru_checkpoints s)"

text \<open>A mutation of the checkpoint an id names.\<close>

definition map_checkpoint :: "string \<Rightarrow> (checkpoint_run \<Rightarrow> checkpoint_run) \<Rightarrow> run_state \<Rightarrow> run_state" where
  "map_checkpoint i f s =
     s\<lparr>ru_checkpoints := update_rows (\<lambda>c. cr_checkpoint_id c = i) f (ru_checkpoints s)\<rparr>"

end
