(* ===== verification/Lifecycle_Reducer.thy ===== *)
theory Lifecycle_Reducer
  imports Lifecycle_State
begin

text \<open>
  The pure transition decisions of a lifecycle run, \<^verbatim>\<open>lifecycles/runtime/reducer.py\<close>: each takes a state
  and returns a changed copy with the transition it recorded, or raises.
\<close>

datatype lifecycle_error = Lifecycle_Error string | Prerequisite_Error string
  | Lifecycle_Key_Error string | Validation_Error string

type_synonym reduction = "run_state \<times> lifecycle_transition list"

text \<open>A pydantic constructor inside the runtime: its error is not a lifecycle error.\<close>

definition validated :: "string + 'a \<Rightarrow> lifecycle_error + 'a" where
  "validated r = (case r of Inl m \<Rightarrow> Inl (Validation_Error m) | Inr x \<Rightarrow> Inr x)"

definition lookup_checkpoint :: "run_state \<Rightarrow> string \<Rightarrow> lifecycle_error + checkpoint_run" where
  "lookup_checkpoint s i = (case checkpoint i s of
     None \<Rightarrow> Inl (Lifecycle_Error (''unknown checkpoint: '' @ i)) | Some c \<Rightarrow> Inr c)"

definition index_checkpoint :: "run_state \<Rightarrow> string \<Rightarrow> lifecycle_error + checkpoint_run" where
  "index_checkpoint s i = (case checkpoint i s of None \<Rightarrow> Inl (Lifecycle_Key_Error i) | Some c \<Rightarrow> Inr c)"

definition transition_id :: "nat \<Rightarrow> string" where
  "transition_id n = ''transition-'' @ padded 3 n"

definition record_transition :: "transition_kind \<Rightarrow> string option \<Rightarrow> string option \<Rightarrow> string \<Rightarrow> run_state
    \<Rightarrow> lifecycle_error + reduction" where
  "record_transition kind from_id to_id reason s =
     bindE (validated (validate_transition_record
       \<lparr>lt_transition_id = transition_id (length (ru_transitions s) + 1), lt_kind = kind,
        lt_from = from_id, lt_to = to_id, lt_reason = reason\<rparr>)) (\<lambda>event.
     Inr (s\<lparr>ru_transitions := ru_transitions s @ [event]\<rparr>, [event]))"

section \<open>Release and submission\<close>

definition reduce_release :: "string \<Rightarrow> string list \<Rightarrow> string \<Rightarrow> string option \<Rightarrow> run_state
    \<Rightarrow> lifecycle_error + reduction" where
  "reduce_release checkpoint_id released_files reason previous s =
     bindE (guardE (\<not> (ru_status s \<noteq> Awaiting_Release \<or> ru_active s \<noteq> None))
       (Lifecycle_Error ''lifecycle is not awaiting evidence release'')) (\<lambda>_.
     bindE (lookup_checkpoint s checkpoint_id) (\<lambda>c.
     bindE (guardE (cr_status c = Cp_Pending)
       (Lifecycle_Error (''checkpoint is not pending: '' @ checkpoint_id))) (\<lambda>_.
     let updated = (map_checkpoint checkpoint_id
           (\<lambda>c. c\<lparr>cr_status := Cp_Active, cr_released_files := released_files\<rparr>) s)
           \<lparr>ru_active := Some checkpoint_id, ru_status := Awaiting_Submission\<rparr>
     in record_transition Tk_Release previous (Some checkpoint_id) reason updated)))"

text \<open>A mutation of the active attempt, the last one with that status.\<close>

fun update_first :: "('a \<Rightarrow> bool) \<Rightarrow> ('a \<Rightarrow> 'a) \<Rightarrow> 'a list \<Rightarrow> 'a list" where
  "update_first p f [] = []"
| "update_first p f (x # xs) = (if p x then f x # xs else x # update_first p f xs)"

definition update_active_attempt :: "(checkpoint_attempt \<Rightarrow> checkpoint_attempt) \<Rightarrow> checkpoint_run \<Rightarrow> checkpoint_run" where
  "update_active_attempt f c =
     c\<lparr>cr_attempts := rev (update_first (\<lambda>a. ct_status a = Ca_Active) f (rev (cr_attempts c)))\<rparr>"

definition reduce_submit :: "string \<Rightarrow> string \<Rightarrow> string \<Rightarrow> string \<Rightarrow> run_state \<Rightarrow> lifecycle_error + reduction" where
  "reduce_submit checkpoint_id submission_path submission_sha256 reason s =
     bindE (guardE (ru_status s = Awaiting_Submission)
       (Lifecycle_Error ''lifecycle is not awaiting checkpoint submission'')) (\<lambda>_.
     bindE (guardE (ru_active s = Some checkpoint_id)
       (Lifecycle_Error (''checkpoint is not active: '' @ checkpoint_id))) (\<lambda>_.
     bindE (index_checkpoint s checkpoint_id) (\<lambda>_.
     let submitted = map_checkpoint checkpoint_id
           (\<lambda>c. update_active_attempt (\<lambda>a. a\<lparr>ct_status := Ca_Submitted\<rparr>)
             (c\<lparr>cr_status := Cp_Submitted, cr_submission_path := Some submission_path,
                cr_submission_sha256 := Some submission_sha256\<rparr>)) s;
         updated = submitted\<lparr>ru_active := None,
           ru_status := (if list_all (\<lambda>c. cr_status c = Cp_Submitted) (ru_checkpoints submitted)
             then Run_Complete else Awaiting_Release)\<rparr>
     in record_transition Tk_Submit (Some checkpoint_id) None reason updated)))"

section \<open>Attempts\<close>

definition attempt_id :: "string \<Rightarrow> nat \<Rightarrow> string" where
  "attempt_id checkpoint_id n = checkpoint_id @ ''.attempt-'' @ padded 3 n"

definition new_attempt :: "string \<Rightarrow> string \<Rightarrow> string \<Rightarrow> string option \<Rightarrow> checkpoint_run \<Rightarrow> checkpoint_attempt" where
  "new_attempt checkpoint_id session_id mode request_sha256 c =
     \<lparr>ct_attempt_id = attempt_id checkpoint_id (length (cr_attempts c) + 1), ct_session_id = session_id,
      ct_sequence = int (length (cr_attempts c)) + 1, ct_execution_mode = mode, ct_status = Ca_Active,
      ct_resumed_from = map_option ct_attempt_id (last_attempt c), ct_failure_kind = None,
      ct_request_sha256 = request_sha256, ct_inherited = False\<rparr>"

definition reduce_open_attempt :: "string \<Rightarrow> string \<Rightarrow> string \<Rightarrow> string option \<Rightarrow> run_state
    \<Rightarrow> lifecycle_error + reduction" where
  "reduce_open_attempt checkpoint_id session_id mode request_sha256 s =
     bindE (guardE (ru_active s = Some checkpoint_id) (Lifecycle_Error ''no checkpoint is active'')) (\<lambda>_.
     bindE (index_checkpoint s checkpoint_id) (\<lambda>c.
     let open_new = bindE (validated (validate_checkpoint_attempt
           (new_attempt checkpoint_id session_id mode request_sha256 c))) (\<lambda>a.
         Inr (map_checkpoint checkpoint_id (\<lambda>c. let d = update_active_attempt (\<lambda>b. b\<lparr>ct_status := Ca_Interrupted\<rparr>) c
           in d\<lparr>cr_attempts := cr_attempts d @ [a]\<rparr>) s, []))
     in case active_attempt c of
          None \<Rightarrow> open_new
        | Some current \<Rightarrow>
            if ct_session_id current = session_id
            then bindE (guardE (\<not> (request_sha256 \<noteq> None \<and> ct_request_sha256 current \<noteq> request_sha256))
                (Lifecycle_Error ''active checkpoint attempt request hash changed'')) (\<lambda>_. Inr (s, []))
            else open_new))"

definition reduce_fail_attempt :: "string \<Rightarrow> string \<Rightarrow> string \<Rightarrow> run_state \<Rightarrow> lifecycle_error + reduction" where
  "reduce_fail_attempt checkpoint_id session_id failure_kind s =
     bindE (guardE (ru_active s = Some checkpoint_id) (Lifecycle_Error ''no checkpoint is active'')) (\<lambda>_.
     bindE (index_checkpoint s checkpoint_id) (\<lambda>c.
     case active_attempt c of
       None \<Rightarrow> Inl (Lifecycle_Error ''no checkpoint attempt is active'')
     | Some a \<Rightarrow>
         bindE (guardE (ct_session_id a = session_id) (Lifecycle_Error (''active attempt belongs to ''
           @ ct_session_id a @ ''; cannot fail it from '' @ session_id))) (\<lambda>_.
         Inr (map_checkpoint checkpoint_id (update_active_attempt
           (\<lambda>b. b\<lparr>ct_status := Ca_Failed, ct_failure_kind := Some failure_kind\<rparr>)) s, []))))"

section \<open>Revisits\<close>

definition reduce_revisit :: "string \<Rightarrow> string \<Rightarrow> run_state \<Rightarrow> lifecycle_error + reduction" where
  "reduce_revisit checkpoint_id reason s =
     bindE (index_checkpoint s checkpoint_id) (\<lambda>c.
     bindE (guardE (cr_status c = Cp_Submitted)
       (Lifecycle_Error (''checkpoint is not available for revisit: '' @ checkpoint_id))) (\<lambda>_.
     bindE (validated (validate_revisit
       \<lparr>rv_revisit_id = ''revisit-'' @ padded 3 (length (ru_revisits s) + 1), rv_checkpoint_id = checkpoint_id,
        rv_requested_from = ru_active s, rv_reason = reason\<rparr>)) (\<lambda>r.
     record_transition Tk_Revisit (ru_active s) (Some checkpoint_id) reason
       (s\<lparr>ru_revisits := ru_revisits s @ [r]\<rparr>))))"

section \<open>Branches\<close>

definition inherit_attempts :: "checkpoint_run \<Rightarrow> checkpoint_attempt list" where
  "inherit_attempts c = map (\<lambda>a. a\<lparr>ct_inherited := True\<rparr>) (cr_attempts c)"

definition inherit_requests :: "checkpoint_run \<Rightarrow> request_action list" where
  "inherit_requests c = map (\<lambda>a. a\<lparr>aq_inherited := True\<rparr>) (cr_request_actions c)"

definition inherit_operations :: "checkpoint_run \<Rightarrow> operation_action list" where
  "inherit_operations c = map (\<lambda>a. a\<lparr>ao_inherited := True\<rparr>) (cr_operation_actions c)"

text \<open>A checkpoint before the branch point is inherited, the branch point reopened.\<close>

definition inherited_run :: "string \<Rightarrow> checkpoint_run \<Rightarrow> checkpoint_run" where
  "inherited_run checkpoint_id parent =
     \<lparr>cr_checkpoint_id = checkpoint_id, cr_status = Cp_Submitted, cr_released_files = cr_released_files parent,
      cr_submission_path = cr_submission_path parent, cr_submission_sha256 = cr_submission_sha256 parent,
      cr_attempts = inherit_attempts parent, cr_request_budget = cr_request_budget parent,
      cr_request_remaining = cr_request_remaining parent, cr_request_actions = inherit_requests parent,
      cr_operation_budget = cr_operation_budget parent, cr_operation_remaining = cr_operation_remaining parent,
      cr_operation_actions = inherit_operations parent, cr_inherited = True\<rparr>"

definition reopened_run :: "string \<Rightarrow> checkpoint_run \<Rightarrow> checkpoint_run" where
  "reopened_run checkpoint_id parent =
     \<lparr>cr_checkpoint_id = checkpoint_id, cr_status = Cp_Active, cr_released_files = cr_released_files parent,
      cr_submission_path = None, cr_submission_sha256 = None,
      cr_attempts = inherit_attempts parent, cr_request_budget = cr_request_budget parent,
      cr_request_remaining = cr_request_remaining parent, cr_request_actions = inherit_requests parent,
      cr_operation_budget = cr_operation_budget parent, cr_operation_remaining = cr_operation_remaining parent,
      cr_operation_actions = inherit_operations parent, cr_inherited = False\<rparr>"

definition declared_request_budget :: "checkpoint_spec \<Rightarrow> int" where
  "declared_request_budget c = (case cs_evidence c of None \<Rightarrow> 0 | Some e \<Rightarrow> ce_request_budget e)"

definition declared_operation_budget :: "checkpoint_spec \<Rightarrow> int" where
  "declared_operation_budget c = (case cs_operations c of None \<Rightarrow> 0 | Some e \<Rightarrow> co_operation_budget e)"

definition pending_run :: "checkpoint_spec \<Rightarrow> checkpoint_run" where
  "pending_run c =
     \<lparr>cr_checkpoint_id = cs_checkpoint_id c, cr_status = Cp_Pending, cr_released_files = [],
      cr_submission_path = None, cr_submission_sha256 = None, cr_attempts = [],
      cr_request_budget = declared_request_budget c, cr_request_remaining = declared_request_budget c,
      cr_request_actions = [], cr_operation_budget = declared_operation_budget c,
      cr_operation_remaining = declared_operation_budget c, cr_operation_actions = [], cr_inherited = False\<rparr>"

definition branch_checkpoint :: "run_state \<Rightarrow> nat \<Rightarrow> checkpoint_run \<Rightarrow> nat \<Rightarrow> checkpoint_spec
    \<Rightarrow> lifecycle_error + checkpoint_run" where
  "branch_checkpoint parent branch_index parent_checkpoint index c =
     (if index < branch_index then
        bindE (lookup_checkpoint parent (cs_checkpoint_id c)) (\<lambda>inherited.
        bindE (guardE (cr_status inherited = Cp_Submitted)
          (Lifecycle_Error (''parent checkpoint dependency is incomplete: '' @ cs_checkpoint_id c))) (\<lambda>_.
        validated (construct_checkpoint_run (inherited_run (cs_checkpoint_id c) inherited))))
      else if index = branch_index then
        validated (construct_checkpoint_run (reopened_run (cs_checkpoint_id c) parent_checkpoint))
      else validated (construct_checkpoint_run (pending_run c)))"

fun branch_checkpoints :: "run_state \<Rightarrow> nat \<Rightarrow> checkpoint_run \<Rightarrow> nat \<Rightarrow> checkpoint_spec list
    \<Rightarrow> lifecycle_error + checkpoint_run list" where
  "branch_checkpoints parent branch_index parent_checkpoint index [] = Inr []"
| "branch_checkpoints parent branch_index parent_checkpoint index (c # cs) =
     bindE (branch_checkpoint parent branch_index parent_checkpoint index c) (\<lambda>run.
     bindE (branch_checkpoints parent branch_index parent_checkpoint (Suc index) cs) (\<lambda>runs.
     Inr (run # runs)))"

definition reduce_branch :: "checkpoint_spec list \<Rightarrow> int \<Rightarrow> lifecycle_branch \<Rightarrow> string \<Rightarrow> string \<Rightarrow> run_state
    \<Rightarrow> lifecycle_error + reduction" where
  "reduce_branch checkpoints branch_index branch checkpoint_id reason parent =
     bindE (guardE (\<not> (branch_index < 0 \<or> int (length checkpoints) \<le> branch_index))
       (Lifecycle_Error (''branch checkpoint index is out of range: '' @ show_int branch_index))) (\<lambda>_.
     bindE (guardE (cs_checkpoint_id (checkpoints ! nat branch_index) = checkpoint_id)
       (Lifecycle_Error ''branch checkpoint index does not match checkpoint id'')) (\<lambda>_.
     bindE (lookup_checkpoint parent checkpoint_id) (\<lambda>parent_checkpoint.
     bindE (guardE (cr_status parent_checkpoint = Cp_Submitted)
       (Lifecycle_Error (''checkpoint is not available for branching: '' @ checkpoint_id))) (\<lambda>_.
     bindE (branch_checkpoints parent (nat branch_index) parent_checkpoint 0 checkpoints) (\<lambda>runs.
     bindE (validated (construct_run_state
       \<lparr>ru_schema = ru_schema parent, ru_lifecycle_id = ru_lifecycle_id parent,
        ru_spec_sha256 = ru_spec_sha256 parent, ru_package_sha256 = ru_package_sha256 parent,
        ru_authorization = None, ru_status = Awaiting_Submission, ru_active = Some checkpoint_id,
        ru_checkpoints = runs, ru_revisits = [], ru_transitions = [], ru_branch = Some branch\<rparr>)) (\<lambda>updated.
     record_transition Tk_Branch (Some checkpoint_id) (Some checkpoint_id) reason updated))))))"

end
