(* ===== verification/Lifecycle_Package.thy ===== *)
theory Lifecycle_Package
  imports Lifecycle_Reducer
begin

text \<open>
  A lifecycle package on disk: its tree, the parsed contract \<^verbatim>\<open>lifecycle.json\<close> and resolution manifest,
  the copy of one of its directories (\<^verbatim>\<open>_copy_release\<close> of \<^verbatim>\<open>request_store.py\<close>), and the identities by which
  a run is bound to it (\<^verbatim>\<open>_spec_sha256\<close> and \<^verbatim>\<open>_package_sha256\<close> of \<^verbatim>\<open>lifecycle.py\<close>).
\<close>

section \<open>The resolution manifest\<close>

record request_resolution =
  el_checkpoint_id :: string
  el_request_id :: string
  el_source_path :: string

definition validate_resolution :: "request_resolution \<Rightarrow> string + request_resolution" where
  "validate_resolution r =
     bindE (check_texts [el_checkpoint_id r, el_request_id r, el_source_path r]) (\<lambda>_.
     bindE (guardE (\<not> (posix_absolute (el_source_path r) \<or> ''..'' \<in> set (posix_parts (el_source_path r))
         \<or> posix_parts (el_source_path r) \<noteq> [''hidden'', ''evidence_requests'', el_checkpoint_id r, el_request_id r]))
       ''evidence request source path must match its hidden request identity'') (\<lambda>_. Inr r))"

record resolution_manifest =
  em_lifecycle_id :: string
  em_resolutions :: "request_resolution list"

definition resolution_key :: "request_resolution \<Rightarrow> string \<times> string" where
  "resolution_key r = (el_checkpoint_id r, el_request_id r)"

definition validate_resolution_manifest :: "resolution_manifest \<Rightarrow> string + resolution_manifest" where
  "validate_resolution_manifest m =
     bindE (check_texts [em_lifecycle_id m]) (\<lambda>_.
     bindE (checkE_all (\<lambda>r. bindE (validate_resolution r) (\<lambda>_. Inr ())) (em_resolutions m)) (\<lambda>_.
     bindE (guardE (em_resolutions m \<noteq> []) ''too_short'') (\<lambda>_.
     bindE (guardE (distinct (map resolution_key (em_resolutions m)))
       ''evidence request resolutions must have unique identities'') (\<lambda>_. Inr m))))"

section \<open>The tree\<close>

text \<open>The entries of the package below its root, by their components; reading and parsing a file is not modelled.\<close>

datatype tree_entry = Tree_File string | Tree_Folder | Tree_Symlink

type_synonym release_files = "(string \<times> string) list"

record lifecycle_package =
  pk_entries :: "(string list \<times> tree_entry) list"
  pk_contract :: "lifecycle_spec option"
  pk_manifest :: "resolution_manifest option"

definition path_of :: "string list \<Rightarrow> string" where
  "path_of components = join_with (CHR ''/'') components"

definition is_folder :: "lifecycle_package \<Rightarrow> string list \<Rightarrow> bool" where
  "is_folder package path \<longleftrightarrow> map_of (pk_entries package) path = Some Tree_Folder"

text \<open>The entries strictly below a path, in the order of their components.\<close>

definition entries_below :: "lifecycle_package \<Rightarrow> string list \<Rightarrow> (string list \<times> tree_entry) list" where
  "entries_below package path =
     map (\<lambda>(p, e). (drop (length path) p, e))
       (sort_key fst (filter (\<lambda>(p, e). take (length path) p = path \<and> length path < length p) (pk_entries package)))"

fun copy_entries :: "(string list \<times> tree_entry) list \<Rightarrow> lifecycle_error + release_files" where
  "copy_entries [] = Inr []"
| "copy_entries ((relative, Tree_Symlink) # rest) =
     Inl (Lifecycle_Error ''checkpoint releases may not contain symlinks'')"
| "copy_entries ((relative, Tree_Folder) # rest) = copy_entries rest"
| "copy_entries ((relative, Tree_File bytes) # rest) =
     bindE (copy_entries rest) (\<lambda>files. Inr ((path_of relative, bytes) # files))"

definition copy_release :: "lifecycle_package \<Rightarrow> string list \<Rightarrow> lifecycle_error + release_files" where
  "copy_release package path =
     bindE (guardE (is_folder package path) (Lifecycle_Error ''checkpoint release not found'')) (\<lambda>_.
     copy_entries (entries_below package path))"

section \<open>Identities\<close>

text \<open>The bytes \<^verbatim>\<open>_package_sha256\<close> feeds to the hash: each path with its length in eight bytes, then the content.\<close>

definition utf8 :: "string \<Rightarrow> string" where
  "utf8 s = concat (map (\<lambda>c. let n = of_char c :: nat in
     if n < 128 then [c] else [char_of (192 + n div 64), char_of (128 + n mod 64)]) s)"

definition eight_bytes :: "nat \<Rightarrow> string" where
  "eight_bytes n = map (\<lambda>i. char_of (n div 256 ^ i mod 256)) (rev [0..<8])"

fun package_stream :: "(string list \<times> tree_entry) list \<Rightarrow> lifecycle_error + string" where
  "package_stream [] = Inr []"
| "package_stream ((path, Tree_Symlink) # rest) =
     Inl (Lifecycle_Error ''lifecycle packages may not contain symlinks'')"
| "package_stream ((path, Tree_Folder) # rest) = package_stream rest"
| "package_stream ((path, Tree_File bytes) # rest) =
     (let name = utf8 (path_of path) in
      bindE (package_stream rest) (\<lambda>stream. Inr (eight_bytes (length name) @ name @ bytes @ stream)))"

definition package_sha256 :: "lifecycle_package \<Rightarrow> lifecycle_error + string" where
  "package_sha256 package =
     bindE (package_stream (sort_key fst (pk_entries package))) (\<lambda>stream. Inr (sha256 stream))"

definition optional_entry :: "string \<Rightarrow> payload option \<Rightarrow> (string \<times> payload) list" where
  "optional_entry key value = (case value of None \<Rightarrow> [] | Some v \<Rightarrow> [(key, v)])"

definition texts_payload :: "string list \<Rightarrow> payload" where
  "texts_payload xs = P_List (map P_Text xs)"

definition evidence_payload :: "conditional_evidence \<Rightarrow> payload" where
  "evidence_payload c = P_Dict [(''request_budget'', P_Int (ce_request_budget c)),
     (''requests'', P_List (map (\<lambda>r. P_Dict [(''request_id'', P_Text (rq_request_id r)),
        (''title'', P_Text (rq_title r)), (''description'', P_Text (rq_description r)),
        (''prerequisite_request_ids'', texts_payload (rq_prerequisites r))]) (ce_requests c)))]"

definition operation_payload :: "operation_spec \<Rightarrow> (string \<times> payload) list" where
  "operation_payload x = [(''operation_id'', P_Text (op_operation_id x)), (''kind'', P_Text (op_kind x)),
     (''title'', P_Text (op_title x)), (''description'', P_Text (op_description x)),
     (''prerequisite_operation_ids'', texts_payload (op_prerequisites x))]"

definition operations_payload :: "conditional_operations \<Rightarrow> payload" where
  "operations_payload c = P_Dict [(''operation_budget'', P_Int (co_operation_budget c)),
     (''operations'', P_List (map (\<lambda>x. P_Dict (operation_payload x)) (co_operations c)))]"

text \<open>The canonical payload drops unset fields and the default of the field policy.\<close>

definition checkpoint_payload :: "checkpoint_spec \<Rightarrow> payload" where
  "checkpoint_payload c = P_Dict ([(''checkpoint_id'', P_Text (cs_checkpoint_id c)),
      (''title'', P_Text (cs_title c)), (''release_path'', P_Text (cs_release_path c)),
      (''instruction_path'', P_Text (cs_instruction_path c)),
      (''submission_path'', P_Text (cs_submission_path c)),
      (''depends_on'', texts_payload (cs_depends_on c)),
      (''required_submission_fields'', texts_payload (cs_required_fields c))]
     @ (if cs_allow_additional c then [] else [(''allow_additional_submission_fields'', P_Bool False)])
     @ optional_entry ''conditional_evidence'' (map_option evidence_payload (cs_evidence c))
     @ optional_entry ''conditional_operations'' (map_option operations_payload (cs_operations c)))"

definition spec_payload :: "lifecycle_spec \<Rightarrow> payload" where
  "spec_payload s = P_Dict [(''lifecycle_id'', P_Text (ls_lifecycle_id s)),
     (''checkpoints'', P_List (map checkpoint_payload (ls_checkpoints s)))]"

definition spec_sha256 :: "lifecycle_spec \<Rightarrow> string" where
  "spec_sha256 s = payload_sha256 (spec_payload s)"

definition load_spec :: "lifecycle_package \<Rightarrow> lifecycle_error + lifecycle_spec" where
  "load_spec package = (case pk_contract package of
     None \<Rightarrow> Inl (Lifecycle_Error ''lifecycle contract not found'')
   | Some raw \<Rightarrow> validated (validate_lifecycle_spec raw))"

section \<open>The package identity does not determine the package\<close>

text \<open>
  The length of a content is not part of the stream, so a file may swallow the file after it: the
  two packages below hash the same bytes.
\<close>

definition two_files :: lifecycle_package where
  "two_files = \<lparr>pk_entries = [([''a''], Tree_File ''x''), ([''b''], Tree_File ''y'')],
     pk_contract = None, pk_manifest = None\<rparr>"

definition one_file :: lifecycle_package where
  "one_file = \<lparr>pk_entries = [([''a''], Tree_File (''x'' @ eight_bytes 1 @ ''b'' @ ''y''))],
     pk_contract = None, pk_manifest = None\<rparr>"


end
