(* ===== verification/Lifecycle_Requests.thy ===== *)
theory Lifecycle_Requests
  imports Lifecycle_Package
begin

text \<open>
  Conditional evidence: \<^verbatim>\<open>lifecycles/runtime/request_protocol.py\<close> (the replay that a state has to survive
  when it is loaded, the catalogue, the artifact paths), the loading of resolutions and the recording of
  \<^verbatim>\<open>request_store.py\<close>, and the decision \<^verbatim>\<open>request_checkpoint_evidence\<close> of \<^verbatim>\<open>lifecycle.py\<close>.
\<close>

section \<open>State hashes\<close>

definition artifact_payload :: "released_artifact \<Rightarrow> payload" where
  "artifact_payload a = P_Dict [(''path'', P_Text (ra_path a)),
     (''workspace_path'', P_Text (ra_workspace_path a)), (''sha256'', P_Text (ra_sha256 a))]"

definition released_payload :: "request_action \<Rightarrow> payload" where
  "released_payload a = P_Dict [(''request_id'', P_Text (aq_request_id a)),
     (''released_artifacts'', P_List (map artifact_payload (aq_released a))),
     (''budget_after'', P_Int (aq_budget_after a))]"

definition request_projection_sha256 :: "run_state \<Rightarrow> string \<Rightarrow> int \<Rightarrow> int \<Rightarrow> request_action list \<Rightarrow> string" where
  "request_projection_sha256 s checkpoint_id budget remaining actions =
     payload_sha256 (P_Dict [(''schema_version'', P_Text ''1''),
       (''lifecycle_id'', P_Text (ru_lifecycle_id s)), (''package_sha256'', P_Text (ru_package_sha256 s)),
       (''checkpoint_id'', P_Text checkpoint_id), (''evidence_request_budget'', P_Int budget),
       (''evidence_request_budget_remaining'', P_Int remaining),
       (''released_requests'',
         P_List (map released_payload (filter (\<lambda>a. aq_outcome a = Rq_Released) actions)))])"

definition request_state_sha256 :: "run_state \<Rightarrow> string \<Rightarrow> lifecycle_error + string" where
  "request_state_sha256 s checkpoint_id =
     bindE (index_checkpoint s checkpoint_id) (\<lambda>c. Inr (request_projection_sha256 s checkpoint_id
       (cr_request_budget c) (cr_request_remaining c) (cr_request_actions c)))"

section \<open>The replay of a history\<close>

definition find_request :: "string \<Rightarrow> conditional_evidence option \<Rightarrow> evidence_request_spec option" where
  "find_request i conditional = (case conditional of None \<Rightarrow> None
     | Some c \<Rightarrow> find_row rq_request_id i (ce_requests c))"

text \<open>\<^verbatim>\<open>path.relative_to(prefix)\<close> on the components.\<close>

fun strip_prefix :: "'a list \<Rightarrow> 'a list \<Rightarrow> 'a list option" where
  "strip_prefix [] ys = Some ys"
| "strip_prefix (x # xs) [] = None"
| "strip_prefix (x # xs) (y # ys) = (if x = y then strip_prefix xs ys else None)"

definition canonical_prefix :: "request_action \<Rightarrow> string list" where
  "canonical_prefix a = ''evidence_requests'' # posix_parts (aq_action_id a) @ [''artifacts'']"

definition workspace_prefix :: "request_action \<Rightarrow> string list" where
  "workspace_prefix a =
     ''inbox'' # posix_parts (aq_checkpoint_id a) @ ''requests'' # posix_parts (aq_request_id a)"

definition validate_released_paths :: "request_action \<Rightarrow> lifecycle_error + unit" where
  "validate_released_paths a =
     checkE_all (\<lambda>x. case (strip_prefix (canonical_prefix a) (posix_parts (ra_path x)),
         strip_prefix (workspace_prefix a) (posix_parts (ra_workspace_path x))) of
         (Some canonical, Some workspace) \<Rightarrow>
           guardE (\<not> (canonical = [] \<or> canonical \<noteq> workspace))
             (Lifecycle_Error ''released evidence artifact projections do not match'')
       | _ \<Rightarrow> Inl (Lifecycle_Error ''released evidence artifact path does not match its action''))
     (aq_released a)"

definition rejection_justified :: "request_action \<Rightarrow> string \<Rightarrow> evidence_request_spec option \<Rightarrow> string set
    \<Rightarrow> int \<Rightarrow> bool \<Rightarrow> bool" where
  "rejection_justified a checkpoint_id request released remaining supports \<longleftrightarrow>
     (let here = aq_requested_checkpoint_id a = checkpoint_id in
      case aq_rejection a of
        None \<Rightarrow> False
      | Some Rr_Inactive_Checkpoint \<Rightarrow> \<not> here
      | Some Rr_Not_Supported \<Rightarrow> here \<and> \<not> supports
      | Some Rr_Unknown_Request \<Rightarrow> here \<and> supports \<and> request = None
      | Some Rr_Prerequisites_Incomplete \<Rightarrow> here
          \<and> (case request of None \<Rightarrow> False | Some r \<Rightarrow> \<not> set (rq_prerequisites r) \<subseteq> released)
      | Some Rr_Budget_Exhausted \<Rightarrow> here
          \<and> (case request of None \<Rightarrow> False | Some r \<Rightarrow> rq_request_id r \<notin> released
              \<and> set (rq_prerequisites r) \<subseteq> released \<and> remaining = 0))"

text \<open>
  One round of the loop: the outcome of an action against what was released before it. The result is
  the budget and the releases after it.
\<close>

type_synonym releases = "(string \<times> request_action) list"

definition replay_outcome :: "checkpoint_run \<Rightarrow> conditional_evidence option \<Rightarrow> int \<Rightarrow> releases \<Rightarrow> request_action
    \<Rightarrow> lifecycle_error + int \<times> releases" where
  "replay_outcome c conditional remaining released a =
     (let request = find_request (aq_request_id a) conditional in
      case aq_outcome a of
        Rq_Released \<Rightarrow> (case request of
            None \<Rightarrow> Inl (Lifecycle_Error ''released evidence request is not declared by its checkpoint'')
          | Some r \<Rightarrow>
              bindE (guardE (aq_requested_checkpoint_id a = cr_checkpoint_id c)
                (Lifecycle_Error ''released evidence request is not declared by its checkpoint'')) (\<lambda>_.
              bindE (guardE (map_of released (aq_request_id a) = None)
                (Lifecycle_Error ''evidence request cannot be released more than once'')) (\<lambda>_.
              bindE (guardE (set (rq_prerequisites r) \<subseteq> fst ` set released)
                (Lifecycle_Error ''released evidence request prerequisites are incomplete'')) (\<lambda>_.
              bindE (guardE (1 \<le> remaining)
                (Lifecycle_Error ''released evidence request exceeds its checkpoint budget'')) (\<lambda>_.
              bindE (validate_released_paths a) (\<lambda>_.
              Inr (remaining - 1, (aq_request_id a, a) # released)))))))
      | Rq_Already_Released \<Rightarrow> (case map_of released (aq_request_id a) of
            None \<Rightarrow> Inl (Lifecycle_Error ''already-released request does not match its original release'')
          | Some prior \<Rightarrow> bindE (guardE (aq_released a = aq_released prior)
              (Lifecycle_Error ''already-released request does not match its original release''))
              (\<lambda>_. Inr (remaining, released)))
      | Rq_Rejected \<Rightarrow>
          bindE (guardE (rejection_justified a (cr_checkpoint_id c) request (fst ` set released) remaining
              (conditional \<noteq> None))
            (Lifecycle_Error ''evidence request rejection does not match the action state''))
          (\<lambda>_. Inr (remaining, released)))"

definition owns_action :: "string \<Rightarrow> string \<Rightarrow> checkpoint_run \<Rightarrow> checkpoint_attempt option" where
  "owns_action attempt session c =
     find (\<lambda>t. ct_attempt_id t = attempt \<and> ct_session_id t = session) (cr_attempts c)"

fun replay_requests :: "run_state \<Rightarrow> checkpoint_run \<Rightarrow> conditional_evidence option \<Rightarrow> int \<Rightarrow> int
    \<Rightarrow> request_action list \<Rightarrow> releases \<Rightarrow> request_action list \<Rightarrow> lifecycle_error + int" where
  "replay_requests s c conditional budget remaining history released [] = Inr remaining"
| "replay_requests s c conditional budget remaining history released (a # as) =
     bindE (guardE (owns_action (aq_attempt_id a) (aq_session_id a) c \<noteq> None)
       (Lifecycle_Error ''evidence request action owner is not present in checkpoint attempts'')) (\<lambda>_.
     bindE (guardE (aq_pre_state a = request_projection_sha256 s (cr_checkpoint_id c) budget remaining history
         \<and> aq_budget_before a = remaining)
       (Lifecycle_Error ''evidence request action pre-state does not match its history'')) (\<lambda>_.
     bindE (replay_outcome c conditional remaining released a) (\<lambda>(remaining', released').
     bindE (guardE (aq_post_state a
           = request_projection_sha256 s (cr_checkpoint_id c) budget remaining' (history @ [a])
         \<and> aq_budget_after a = remaining')
       (Lifecycle_Error ''evidence request action post-state does not match its history'')) (\<lambda>_.
     replay_requests s c conditional budget remaining' (history @ [a]) released' as))))"

definition validate_request_checkpoint :: "run_state \<Rightarrow> checkpoint_run \<Rightarrow> checkpoint_spec \<Rightarrow> lifecycle_error + unit" where
  "validate_request_checkpoint s c spec =
     (let budget = declared_request_budget spec in
      bindE (guardE (cr_request_budget c = budget)
        (Lifecycle_Error ''evidence request budget does not match the lifecycle contract'')) (\<lambda>_.
      bindE (replay_requests s c (cs_evidence spec) budget budget [] [] (cr_request_actions c)) (\<lambda>remaining.
      guardE (cr_request_remaining c = remaining)
        (Lifecycle_Error ''evidence request remaining budget does not match its history''))))"

text \<open>\<^verbatim>\<open>_validate_evidence_request_state_contract\<close>.\<close>

definition validate_request_state :: "run_state \<Rightarrow> lifecycle_spec \<Rightarrow> lifecycle_error + unit" where
  "validate_request_state s spec =
     bindE (guardE (map cr_checkpoint_id (ru_checkpoints s) = map cs_checkpoint_id (ls_checkpoints spec))
       (Lifecycle_Error ''evidence request checkpoint state does not match the lifecycle contract'')) (\<lambda>_.
     checkE_all (\<lambda>c. case find_row cs_checkpoint_id (cr_checkpoint_id c) (ls_checkpoints spec) of
         None \<Rightarrow> Inl (Lifecycle_Key_Error (cr_checkpoint_id c))
       | Some declared \<Rightarrow> validate_request_checkpoint s c declared) (ru_checkpoints s))"

section \<open>The catalogue\<close>

definition released_request_ids :: "checkpoint_run \<Rightarrow> string set" where
  "released_request_ids c = aq_request_id ` set (filter (\<lambda>a. aq_outcome a = Rq_Released) (cr_request_actions c))"

definition request_status :: "checkpoint_run \<Rightarrow> evidence_request_spec \<Rightarrow> string" where
  "request_status c r =
     (if rq_request_id r \<in> released_request_ids c then ''released''
      else if \<not> set (rq_prerequisites r) \<subseteq> released_request_ids c then ''prerequisites_incomplete''
      else if cr_request_remaining c = 0 then ''budget_exhausted''
      else ''available'')"

definition request_catalog :: "checkpoint_spec \<Rightarrow> checkpoint_run \<Rightarrow> payload option" where
  "request_catalog spec c =
     map_option (\<lambda>conditional. P_Dict [(''schema_version'', P_Text ''1''),
       (''checkpoint_id'', P_Text (cs_checkpoint_id spec)),
       (''request_budget'', P_Int (cr_request_budget c)),
       (''remaining_budget'', P_Int (cr_request_remaining c)),
       (''requests'', P_List (map (\<lambda>r. P_Dict [(''request_id'', P_Text (rq_request_id r)),
          (''title'', P_Text (rq_title r)), (''description'', P_Text (rq_description r)),
          (''prerequisite_request_ids'', P_List (map P_Text (rq_prerequisites r))),
          (''status'', P_Text (request_status c r))]) (ce_requests conditional)))]) (cs_evidence spec)"

section \<open>Artifact paths\<close>

definition expected_checkpoint_paths :: "lifecycle_spec \<Rightarrow> checkpoint_run \<Rightarrow> lifecycle_error + string list" where
  "expected_checkpoint_paths spec c =
     (case find_row cs_checkpoint_id (cr_checkpoint_id c) (ls_checkpoints spec) of
        None \<Rightarrow> Inl (Lifecycle_Key_Error (cr_checkpoint_id c))
      | Some declared \<Rightarrow> Inr
          ((if cs_evidence declared \<noteq> None \<and> cr_status c \<noteq> Cp_Pending
            then [path_of [''workspace'', ''checkpoints'', cr_checkpoint_id c, ''evidence-requests.json'']] else [])
           @ concat (map (\<lambda>a.
               [path_of [''evidence_requests'', aq_action_id a, ''action.json''],
                path_of [''evidence_requests'', aq_action_id a, ''committed.json'']]
               @ concat (map (\<lambda>x. [ra_path x, path_of [''workspace'', ra_workspace_path x]]) (aq_released a)))
             (cr_request_actions c))))"

fun expected_request_paths :: "lifecycle_spec \<Rightarrow> checkpoint_run list \<Rightarrow> lifecycle_error + string list" where
  "expected_request_paths spec [] = Inr []"
| "expected_request_paths spec (c # cs) =
     bindE (expected_checkpoint_paths spec c) (\<lambda>here.
     bindE (expected_request_paths spec cs) (\<lambda>rest. Inr (here @ rest)))"

definition is_request_path :: "string \<Rightarrow> bool" where
  "is_request_path raw =
     (let parts = posix_parts raw in
      if posix_absolute raw \<or> ''..'' \<in> set parts then False
      else if take 1 parts = [''evidence_requests''] then True
      else if 4 \<le> length parts \<and> take 2 parts = [''workspace'', ''inbox''] \<and> parts ! 3 = ''requests'' then True
      else 4 \<le> length parts \<and> take 2 parts = [''workspace'', ''checkpoints'']
        \<and> posix_name raw = ''evidence-requests.json'')"

section \<open>The resolution manifest\<close>

definition declared_requests :: "lifecycle_spec \<Rightarrow> (string \<times> string) list" where
  "declared_requests spec = concat (map (\<lambda>c. case cs_evidence c of None \<Rightarrow> []
     | Some e \<Rightarrow> map (\<lambda>r. (cs_checkpoint_id c, rq_request_id r)) (ce_requests e)) (ls_checkpoints spec))"

definition load_resolutions :: "lifecycle_package \<Rightarrow> lifecycle_spec \<Rightarrow> lifecycle_error + request_resolution list" where
  "load_resolutions package spec =
     (let expected = set (declared_requests spec) in
      if expected = {} then Inr []
      else case pk_manifest package of
        None \<Rightarrow> Inl (Lifecycle_Error ''evidence request resolution manifest not found'')
      | Some raw \<Rightarrow> (case validate_resolution_manifest raw of
          Inl _ \<Rightarrow> Inl (Lifecycle_Error ''invalid evidence request resolution manifest'')
        | Inr manifest \<Rightarrow>
            bindE (guardE (em_lifecycle_id manifest = ls_lifecycle_id spec)
              (Lifecycle_Error ''evidence request resolution manifest lifecycle does not match'')) (\<lambda>_.
            bindE (guardE (resolution_key ` set (em_resolutions manifest) = expected)
              (Lifecycle_Error ''evidence request resolutions do not match the public request catalogue'')) (\<lambda>_.
            bindE (checkE_all (\<lambda>r. guardE (is_folder package (posix_parts (el_source_path r)))
                (Lifecycle_Error (''evidence request source not found: '' @ el_source_path r)))
              (em_resolutions manifest)) (\<lambda>_. Inr (em_resolutions manifest))))))"

section \<open>Recording an action\<close>

definition released_artifacts :: "string \<Rightarrow> string \<Rightarrow> string \<Rightarrow> release_files \<Rightarrow> released_artifact list" where
  "released_artifacts action_id checkpoint_id request_id files =
     map (\<lambda>(relative, bytes).
       \<lparr>ra_path = path_of [''evidence_requests'', action_id, ''artifacts'', relative],
        ra_workspace_path = path_of [''inbox'', checkpoint_id, ''requests'', request_id, relative],
        ra_sha256 = sha256 bytes\<rparr>) files"

definition zero_sha256 :: string where
  "zero_sha256 = replicate 64 (CHR ''0'')"

definition outcome_text :: "request_outcome \<Rightarrow> string" where
  "outcome_text outcome = (case outcome of Rq_Released \<Rightarrow> ''released''
     | Rq_Already_Released \<Rightarrow> ''already_released'' | Rq_Rejected \<Rightarrow> ''rejected'')"

text \<open>The transition every protocol appends.\<close>

definition append_transition :: "transition_kind \<Rightarrow> string \<Rightarrow> string \<Rightarrow> run_state \<Rightarrow> lifecycle_error + run_state" where
  "append_transition kind checkpoint_id reason s =
     bindE (record_transition kind (Some checkpoint_id) (Some checkpoint_id) reason s) (\<lambda>(s', _). Inr s')"

text \<open>The artifacts of a new action, from the source or from an earlier release.\<close>

definition action_artifacts :: "string \<Rightarrow> string \<Rightarrow> string \<Rightarrow> request_outcome \<Rightarrow> released_artifact list
    \<Rightarrow> (lifecycle_error + release_files) option \<Rightarrow> lifecycle_error + released_artifact list" where
  "action_artifacts action_id checkpoint_id request_id outcome artifacts source =
     (if outcome = Rq_Released then (case source of
          None \<Rightarrow> Inl (Lifecycle_Error ''released evidence request requires one canonical source'')
        | Some copy \<Rightarrow>
            bindE (guardE (artifacts = [])
              (Lifecycle_Error ''released evidence request requires one canonical source'')) (\<lambda>_.
            bindE copy (\<lambda>files.
            bindE (guardE (files \<noteq> [])
              (Lifecycle_Error ''evidence request source must contain at least one file'')) (\<lambda>_.
            let new = released_artifacts action_id checkpoint_id request_id files in
            bindE (checkE_all (\<lambda>x. bindE (validated (validate_released_artifact x)) (\<lambda>_. Inr ())) new)
              (\<lambda>_. Inr new)))))
      else bindE (guardE (source = None)
        (Lifecycle_Error ''only released evidence requests may publish canonical artifacts'')) (\<lambda>_. Inr artifacts))"

text \<open>
  The action before the hash of the state after it is known, and the checkpoint with the action: what it
  consumes is taken from the budget.
\<close>

definition draft_request :: "nat \<Rightarrow> checkpoint_run \<Rightarrow> checkpoint_attempt \<Rightarrow> string \<Rightarrow> string \<Rightarrow> string
    \<Rightarrow> request_outcome \<Rightarrow> request_rejection option \<Rightarrow> released_artifact list \<Rightarrow> string \<Rightarrow> request_action" where
  "draft_request n c t requested request_id reason outcome rejection released pre =
     (let consumed = (if outcome = Rq_Released then 1 else 0) in
      \<lparr>aq_action_id = request_action_id n, aq_sequence = int n, aq_checkpoint_id = cr_checkpoint_id c,
       aq_requested_checkpoint_id = requested, aq_request_id = request_id, aq_reason = reason,
       aq_session_id = ct_session_id t, aq_attempt_id = ct_attempt_id t, aq_outcome = outcome,
       aq_rejection = rejection, aq_pre_state = pre, aq_post_state = zero_sha256, aq_released = released,
       aq_budget_before = cr_request_remaining c, aq_budget_consumed = consumed,
       aq_budget_after = cr_request_remaining c - consumed, aq_inherited = False\<rparr>)"

definition with_request :: "request_action \<Rightarrow> checkpoint_run \<Rightarrow> checkpoint_run" where
  "with_request a c =
     c\<lparr>cr_request_remaining := cr_request_remaining c - aq_budget_consumed a,
       cr_request_actions := cr_request_actions c @ [a]\<rparr>"

definition record_request_action :: "run_state \<Rightarrow> string \<Rightarrow> string \<Rightarrow> string \<Rightarrow> string \<Rightarrow> request_outcome
    \<Rightarrow> request_rejection option \<Rightarrow> released_artifact list \<Rightarrow> (lifecycle_error + release_files) option
    \<Rightarrow> lifecycle_error + request_action \<times> run_state" where
  "record_request_action s requested request_id reason session outcome rejection artifacts source =
     (case ru_active s of None \<Rightarrow> Inl (Lifecycle_Error ''no checkpoint is active'')
      | Some active \<Rightarrow>
     bindE (index_checkpoint s active) (\<lambda>c.
     case active_attempt c of
       None \<Rightarrow> Inl (Lifecycle_Error ''evidence request action has no matching active attempt'')
     | Some t \<Rightarrow>
     bindE (guardE (ct_session_id t = session)
       (Lifecycle_Error ''evidence request action has no matching active attempt'')) (\<lambda>_.
     let n = 1 + length (all_request_actions s) in
     bindE (action_artifacts (request_action_id n) active request_id outcome artifacts source) (\<lambda>released.
     bindE (request_state_sha256 s active) (\<lambda>pre.
     bindE (validated (validate_request_action
       (draft_request n c t requested request_id reason outcome rejection released pre))) (\<lambda>draft.
     bindE (request_state_sha256 (map_checkpoint active (with_request draft) s) active) (\<lambda>post.
     let action = draft\<lparr>aq_post_state := post\<rparr> in
     bindE (append_transition Tk_Evidence_Request active
       (''Conditional evidence request '' @ outcome_text outcome @ ''.'')
       (map_checkpoint active (with_request action) s)) (\<lambda>s'. Inr (action, s')))))))))"

section \<open>The decision\<close>

definition prior_release :: "checkpoint_run \<Rightarrow> string \<Rightarrow> request_action option" where
  "prior_release c request_id =
     find (\<lambda>a. aq_request_id a = request_id \<and> aq_outcome a = Rq_Released) (cr_request_actions c)"

text \<open>
  \<^verbatim>\<open>_request_checkpoint_evidence_locked\<close> on a loaded state. That the artifacts of an earlier release are
  unchanged on disk is a parameter.
\<close>

definition request_evidence :: "lifecycle_package \<Rightarrow> (request_action \<Rightarrow> lifecycle_error + unit) \<Rightarrow> lifecycle_spec
    \<Rightarrow> string option \<Rightarrow> string \<Rightarrow> string \<Rightarrow> string \<Rightarrow> run_state \<Rightarrow> lifecycle_error + request_action \<times> run_state" where
  "request_evidence package unchanged spec checkpoint_id request_id reason session s =
     bindE (load_resolutions package spec) (\<lambda>resolutions.
     case ru_active s of None \<Rightarrow> Inl (Lifecycle_Error (if checkpoint_id = None
         then ''no checkpoint is awaiting evidence requests'' else ''no checkpoint is active''))
      | Some active \<Rightarrow>
     let requested = (case checkpoint_id of None \<Rightarrow> active | Some i \<Rightarrow> i);
         record_rejection = (\<lambda>rejection. record_request_action s requested request_id reason session
           Rq_Rejected (Some rejection) [] None) in
     (case find_row cs_checkpoint_id active (ls_checkpoints spec) of
        None \<Rightarrow> Inl (Lifecycle_Error (''unknown checkpoint in lifecycle state: '' @ active))
      | Some declared \<Rightarrow>
     bindE (index_checkpoint s active) (\<lambda>c.
     case active_attempt c of None \<Rightarrow> Inl (Lifecycle_Error ''no checkpoint attempt is active'')
      | Some t \<Rightarrow>
     bindE (guardE (ct_session_id t = session) (Lifecycle_Error (''active attempt belongs to ''
         @ ct_session_id t @ ''; cannot request evidence from '' @ session))) (\<lambda>_.
     if requested \<noteq> active then record_rejection Rr_Inactive_Checkpoint
     else (case cs_evidence declared of None \<Rightarrow> record_rejection Rr_Not_Supported
      | Some conditional \<Rightarrow>
     (case find_row rq_request_id request_id (ce_requests conditional) of
        None \<Rightarrow> record_rejection Rr_Unknown_Request
      | Some r \<Rightarrow>
     (case prior_release c request_id of
        Some prior \<Rightarrow> bindE (unchanged prior) (\<lambda>_. record_request_action s requested request_id reason
          session Rq_Already_Released None (aq_released prior) None)
      | None \<Rightarrow>
     if \<not> set (rq_prerequisites r) \<subseteq> released_request_ids c then record_rejection Rr_Prerequisites_Incomplete
     else if cr_request_remaining c < 1 then record_rejection Rr_Budget_Exhausted
     else (case find_row resolution_key (requested, request_id) resolutions of
        None \<Rightarrow> Inl (Lifecycle_Key_Error request_id)
      | Some resolution \<Rightarrow> record_request_action s requested request_id reason session Rq_Released None []
          (Some (copy_release package (posix_parts (el_source_path resolution))))))))))))"

definition request_checkpoint_evidence :: "lifecycle_package \<Rightarrow> (request_action \<Rightarrow> lifecycle_error + unit)
    \<Rightarrow> lifecycle_spec \<Rightarrow> string option \<Rightarrow> string \<Rightarrow> string \<Rightarrow> string \<Rightarrow> run_state
    \<Rightarrow> lifecycle_error + request_action \<times> run_state" where
  "request_checkpoint_evidence package unchanged spec checkpoint_id request_id reason session s =
     bindE (guardE (\<not> ((case checkpoint_id of None \<Rightarrow> False | Some i \<Rightarrow> py_blank i)
         \<or> py_blank request_id \<or> py_blank reason))
       (Lifecycle_Error ''evidence request checkpoint, request, and reason must not be blank'')) (\<lambda>_.
     request_evidence package unchanged spec checkpoint_id request_id reason session s)"

end
