(* ===== verification/Lifecycle_Operations.thy ===== *)
theory Lifecycle_Operations
  imports Lifecycle_Requests
begin

text \<open>
  Lifecycle operations: the generic replay of \<^verbatim>\<open>lifecycles/runtime/operation_protocol.py\<close>, and the
  decision and the recording of \<^verbatim>\<open>lifecycles/runtime/operation_store.py\<close>. The resolver that plans and
  executes an operation belongs to the task; it is a parameter.
\<close>

section \<open>The resolver\<close>

record source_context =
  sc_revision :: string
  sc_physical :: string
  sc_visible :: string
  sc_state :: json_dict

record operation_plan =
  pl_operation_id :: string
  pl_operation_kind :: string
  pl_disposition :: operation_disposition
  pl_before :: source_context
  pl_after :: source_context
  pl_input_projection :: string
  pl_prerequisite_actions :: "string list"
  pl_visible_paths :: "string list"
  pl_payload :: json_dict

record operation_resolver =
  or_current_source :: "operation_action list \<Rightarrow> lifecycle_error + source_context"
  or_plan :: "operation_spec \<Rightarrow> operation_action list \<Rightarrow> lifecycle_error + operation_plan"
  or_execute :: "operation_plan \<Rightarrow> lifecycle_error + release_files"

definition current_operation_action :: "operation_action list \<Rightarrow> operation_plan \<Rightarrow> operation_action option" where
  "current_operation_action actions plan =
     find (\<lambda>a. ao_operation_id a = pl_operation_id plan \<and> ao_outcome a = Oo_Completed
       \<and> ao_input_projection a = pl_input_projection plan
       \<and> ao_prerequisite_actions a = pl_prerequisite_actions plan) (rev actions)"

section \<open>State hashes\<close>

definition operation_artifact_payload :: "operation_artifact \<Rightarrow> payload" where
  "operation_artifact_payload a = P_Dict [(''path'', P_Text (oa_path a)),
     (''workspace_path'', (case oa_workspace_path a of None \<Rightarrow> P_Null | Some w \<Rightarrow> P_Text w)),
     (''sha256'', P_Text (oa_sha256 a))]"

definition completed_payload :: "operation_action \<Rightarrow> payload" where
  "completed_payload a = P_Dict [(''action_id'', P_Text (ao_action_id a)),
     (''operation_id'', P_Text (ao_operation_id a)),
     (''input_projection_sha256'', P_Text (ao_input_projection a)),
     (''physical_source_state_after_sha256'', P_Text (ao_physical_after a)),
     (''visible_source_state_after_sha256'', P_Text (ao_visible_after a)),
     (''artifacts'', P_List (map operation_artifact_payload (ao_artifacts a))),
     (''budget_after'', P_Int (ao_budget_after a))]"

definition operation_state_sha256 :: "run_state \<Rightarrow> string \<Rightarrow> string \<Rightarrow> string \<Rightarrow> int \<Rightarrow> operation_action list \<Rightarrow> string" where
  "operation_state_sha256 s checkpoint_id visible physical remaining actions =
     payload_sha256 (P_Dict [(''schema_version'', P_Text ''1''),
       (''lifecycle_id'', P_Text (ru_lifecycle_id s)), (''package_sha256'', P_Text (ru_package_sha256 s)),
       (''checkpoint_id'', P_Text checkpoint_id), (''visible_source_state_sha256'', P_Text visible),
       (''physical_source_state_sha256'', P_Text physical), (''operation_budget_remaining'', P_Int remaining),
       (''completed_operations'',
         P_List (map completed_payload (filter (\<lambda>a. ao_outcome a = Oo_Completed) actions)))])"

section \<open>The replay of a history\<close>

definition validate_attempt_owner :: "checkpoint_run \<Rightarrow> operation_action \<Rightarrow> lifecycle_error + unit" where
  "validate_attempt_owner c a =
     (case owns_action (ao_attempt_id a) (ao_session_id a) c of
        None \<Rightarrow> Inl (Lifecycle_Error ''operation action has no matching checkpoint attempt owner'')
      | Some owner \<Rightarrow> guardE (ct_inherited owner = ao_inherited a)
          (Lifecycle_Error ''operation action inheritance does not match its checkpoint attempt owner''))"

definition validate_public_contract :: "checkpoint_spec \<Rightarrow> operation_action \<Rightarrow> string list
    \<Rightarrow> lifecycle_error + operation_spec option" where
  "validate_public_contract spec a completed =
     (if ao_rejection a = Some Or_Inactive_Checkpoint then
        bindE (guardE (\<not> (ao_requested_checkpoint_id a = ao_checkpoint_id a \<or> ao_operation_kind a \<noteq> ''unknown''))
          (Lifecycle_Error ''inactive-checkpoint operation rejection is not plausible'')) (\<lambda>_. Inr None)
      else
      bindE (guardE (ao_requested_checkpoint_id a = ao_checkpoint_id a)
        (Lifecycle_Error ''non-inactive operation action targets a different checkpoint'')) (\<lambda>_.
      case cs_operations spec of
        None \<Rightarrow> bindE (guardE (ao_outcome a = Oo_Rejected \<and> ao_rejection a = Some Or_Not_Supported
            \<and> ao_operation_kind a = ''unknown'')
          (Lifecycle_Error ''unsupported-checkpoint operation action is not plausible'')) (\<lambda>_. Inr None)
      | Some conditional \<Rightarrow> (case find_row op_operation_id (ao_operation_id a) (co_operations conditional) of
          None \<Rightarrow> bindE (guardE (ao_outcome a = Oo_Rejected \<and> ao_rejection a = Some Or_Unknown_Operation
              \<and> ao_operation_kind a = ''unknown'')
            (Lifecycle_Error ''operation action is absent from the public operation catalogue'')) (\<lambda>_. Inr None)
        | Some declared \<Rightarrow>
            bindE (guardE (ao_operation_kind a = op_kind declared)
              (Lifecycle_Error ''operation action kind does not match the public operation catalogue'')) (\<lambda>_.
            bindE (guardE (ao_rejection a \<notin> {Some Or_Inactive_Checkpoint, Some Or_Not_Supported,
                Some Or_Unknown_Operation})
              (Lifecycle_Error ''known operation records an implausible rejection kind'')) (\<lambda>_.
            bindE (guardE (\<not> (\<not> set (op_prerequisites declared) \<subseteq> set completed
                \<and> \<not> (ao_outcome a = Oo_Rejected
                  \<and> ao_rejection a \<in> {Some Or_Prerequisites_Incomplete, Some Or_Stale_Visible_Source})))
              (Lifecycle_Error ''operation action bypasses incomplete public prerequisites'')) (\<lambda>_.
            bindE (guardE (\<not> (ao_rejection a = Some Or_Budget_Exhausted \<and> ao_budget_before a \<noteq> 0))
              (Lifecycle_Error ''budget-exhausted operation rejection retains available budget'')) (\<lambda>_.
            Inr (Some declared))))))))"

text \<open>
  The recursive walk that collects the prerequisites of an operation, with its call stack as the list
  of ids still to look at: a new id is put in the set and its own prerequisites come next.
\<close>

function closure_walk :: "graph \<Rightarrow> string list \<Rightarrow> string list \<Rightarrow> lifecycle_error + string list" where
  "closure_walk g [] closure = Inr closure"
| "closure_walk g (x # xs) closure =
     (if x \<in> set closure then closure_walk g xs closure
      else case map_of g x of
          None \<Rightarrow> Inl (Lifecycle_Key_Error x)
        | Some dependencies \<Rightarrow> closure_walk g (dependencies @ xs) (x # closure))"
  by pat_completeness auto
termination
  by (relation "measures [\<lambda>(g, xs, closure). card (fst ` set g - set closure), \<lambda>(g, xs, closure). length xs]")
    (auto simp del: list.set dest: fresh_key_shrinks)

definition operation_closure :: "checkpoint_spec \<Rightarrow> string \<Rightarrow> lifecycle_error + string list" where
  "operation_closure spec operation_id =
     (case cs_operations spec of None \<Rightarrow> Inr []
      | Some conditional \<Rightarrow> (case map_of (operation_graph conditional) operation_id of
          None \<Rightarrow> Inl (Lifecycle_Key_Error operation_id)
        | Some dependencies \<Rightarrow> closure_walk (operation_graph conditional) dependencies []))"

definition validate_prerequisite_lineage :: "operation_action \<Rightarrow> operation_spec option \<Rightarrow> operation_action list
    \<Rightarrow> checkpoint_spec \<Rightarrow> lifecycle_error + unit" where
  "validate_prerequisite_lineage a declared prior spec =
     bindE (guardE (distinct (ao_prerequisite_actions a))
       (Lifecycle_Error ''operation prerequisite action ids must be unique'')) (\<lambda>_.
     if ao_outcome a = Oo_Rejected
     then guardE (ao_prerequisite_actions a = [])
       (Lifecycle_Error ''rejected operation cannot retain prerequisite actions'')
     else (case declared of
         None \<Rightarrow> Inl (Lifecycle_Error ''successful operation is absent from the public operation catalogue'')
       | Some d \<Rightarrow> bindE (operation_closure spec (op_operation_id d)) (\<lambda>allowed.
           checkE_all (\<lambda>i. case find_row ao_action_id i prior of
               None \<Rightarrow> Inl (Lifecycle_Error ''operation prerequisite does not identify a prior completed action'')
             | Some p \<Rightarrow>
                 bindE (guardE (ao_outcome p = Oo_Completed)
                   (Lifecycle_Error ''operation prerequisite does not identify a prior completed action'')) (\<lambda>_.
                 guardE (ao_operation_id p \<in> set allowed)
                   (Lifecycle_Error ''operation prerequisite action is outside the public prerequisite graph'')))
             (ao_prerequisite_actions a))))"

definition validate_reused_lineage :: "operation_action \<Rightarrow> operation_action list \<Rightarrow> lifecycle_error + unit" where
  "validate_reused_lineage a prior =
     (case find_row ao_action_id (case ao_retained_from a of None \<Rightarrow> ''None'' | Some i \<Rightarrow> i) prior of
        None \<Rightarrow> Inl (Lifecycle_Error ''reused operation must retain a prior completed action'')
      | Some retained \<Rightarrow>
          bindE (guardE (ao_outcome retained = Oo_Completed)
            (Lifecycle_Error ''reused operation must retain a prior completed action'')) (\<lambda>_.
          guardE (ao_operation_id a = ao_operation_id retained \<and> ao_operation_kind a = ao_operation_kind retained
              \<and> ao_input_projection a = ao_input_projection retained
              \<and> ao_prerequisite_actions a = ao_prerequisite_actions retained
              \<and> ao_artifacts a = ao_artifacts retained)
            (Lifecycle_Error ''reused operation does not match its retained completed action'')))"

definition source_unchanged :: "operation_action \<Rightarrow> bool" where
  "source_unchanged a \<longleftrightarrow> ao_visible_after a = ao_visible_before a \<and> ao_physical_after a = ao_physical_before a"

definition continues :: "operation_action list \<Rightarrow> operation_action \<Rightarrow> bool" where
  "continues prior a \<longleftrightarrow> prior = [] \<or> (ao_visible_before a = ao_visible_after (last prior)
     \<and> ao_physical_before a = ao_physical_after (last prior))"

definition completed_ids :: "operation_action list \<Rightarrow> string list" where
  "completed_ids actions =
     map ao_operation_id (filter (\<lambda>a. ao_outcome a \<in> {Oo_Completed, Oo_Already_Current}) actions)"

text \<open>One action against the actions before it, of this checkpoint and the earlier ones.\<close>

definition replay_operation :: "run_state \<Rightarrow> checkpoint_run \<Rightarrow> checkpoint_spec \<Rightarrow> int \<Rightarrow> operation_action list
    \<Rightarrow> operation_action \<Rightarrow> lifecycle_error + unit" where
  "replay_operation s c spec remaining prior a =
     bindE (validate_attempt_owner c a) (\<lambda>_.
     bindE (validate_public_contract spec a (completed_ids prior)) (\<lambda>declared.
     bindE (guardE (ao_budget_before a = remaining)
       (Lifecycle_Error ''operation action budget chain does not match the lifecycle contract'')) (\<lambda>_.
     bindE (guardE (continues prior a) (Lifecycle_Error ''operation action source history is not continuous'')) (\<lambda>_.
     bindE (guardE (\<not> (ao_outcome a \<in> {Oo_Rejected, Oo_Already_Current} \<and> \<not> source_unchanged a))
       (Lifecycle_Error ''zero-cost operation action cannot change the current source'')) (\<lambda>_.
     bindE (guardE (\<not> (ao_disposition a \<noteq> Some Od_Activated \<and> \<not> source_unchanged a))
       (Lifecycle_Error ''non-activation operation action cannot change the current source'')) (\<lambda>_.
     bindE (if ao_outcome a = Oo_Already_Current then validate_reused_lineage a prior else Inr ()) (\<lambda>_.
     bindE (validate_prerequisite_lineage a declared prior spec) (\<lambda>_.
     bindE (guardE (ao_pre_state a = operation_state_sha256 s (ao_checkpoint_id a) (ao_visible_before a)
         (ao_physical_before a) remaining prior)
       (Lifecycle_Error ''operation pre-action state hash does not match generic replay'')) (\<lambda>_.
     guardE (ao_post_state a = operation_state_sha256 s (ao_checkpoint_id a) (ao_visible_after a)
         (ao_physical_after a) (ao_budget_after a) (prior @ [a]))
       (Lifecycle_Error ''operation post-action state hash does not match generic replay''))))))))))"

fun replay_operations :: "run_state \<Rightarrow> checkpoint_run \<Rightarrow> checkpoint_spec \<Rightarrow> int \<Rightarrow> operation_action list
    \<Rightarrow> operation_action list \<Rightarrow> lifecycle_error + int" where
  "replay_operations s c spec remaining prior [] = Inr remaining"
| "replay_operations s c spec remaining prior (a # as) =
     bindE (replay_operation s c spec remaining prior a) (\<lambda>_.
     replay_operations s c spec (ao_budget_after a) (prior @ [a]) as)"

fun replay_checkpoints :: "run_state \<Rightarrow> operation_action list \<Rightarrow> checkpoint_run list \<Rightarrow> checkpoint_spec list
    \<Rightarrow> lifecycle_error + unit" where
  "replay_checkpoints s prior (c # cs) (spec # specs) =
     bindE (guardE (cr_operation_budget c = declared_operation_budget spec)
       (Lifecycle_Error ''operation budget does not match the lifecycle contract'')) (\<lambda>_.
     bindE (replay_operations s c spec (declared_operation_budget spec) prior (cr_operation_actions c)) (\<lambda>remaining.
     bindE (guardE (remaining = cr_operation_remaining c)
       (Lifecycle_Error ''remaining operation budget does not match generic replay'')) (\<lambda>_.
     replay_checkpoints s (prior @ cr_operation_actions c) cs specs)))"
| "replay_checkpoints s prior _ _ = Inr ()"

text \<open>\<^verbatim>\<open>validate_lifecycle_operation_run_state\<close>.\<close>

definition validate_operation_state :: "run_state \<Rightarrow> lifecycle_spec \<Rightarrow> lifecycle_error + unit" where
  "validate_operation_state s spec =
     bindE (guardE (\<not> (supports_operations spec \<and> ru_schema s \<noteq> Schema_7))
       (Lifecycle_Error ''operation-capable lifecycle requires v7 state'')) (\<lambda>_.
     bindE (guardE (\<not> (\<not> supports_operations spec \<and> ru_schema s = Schema_7))
       (Lifecycle_Error ''v7 lifecycle state requires a declared operation catalogue'')) (\<lambda>_.
     bindE (guardE (map cr_checkpoint_id (ru_checkpoints s) = map cs_checkpoint_id (ls_checkpoints spec))
       (Lifecycle_Error ''operation checkpoint state does not match the lifecycle contract'')) (\<lambda>_.
     replay_checkpoints s [] (ru_checkpoints s) (ls_checkpoints spec))))"

section \<open>The catalogue\<close>

definition ordered_operation_actions :: "run_state \<Rightarrow> operation_action list" where
  "ordered_operation_actions s = sort_key ao_sequence (all_operation_actions s)"

definition operation_status :: "operation_resolver \<Rightarrow> operation_action list \<Rightarrow> int \<Rightarrow> operation_spec
    \<Rightarrow> lifecycle_error + string" where
  "operation_status resolver actions remaining declared =
     (if \<not> set (op_prerequisites declared) \<subseteq> set (completed_ids actions) then Inr ''prerequisites_incomplete''
      else case or_plan resolver declared actions of
          Inl (Prerequisite_Error m) \<Rightarrow> Inr ''prerequisites_incomplete''
        | Inl e \<Rightarrow> Inl e
        | Inr plan \<Rightarrow> Inr (if current_operation_action actions plan \<noteq> None then ''current_or_reusable''
            else if remaining = 0 then ''budget_exhausted'' else ''available''))"

fun operation_entries :: "operation_resolver \<Rightarrow> operation_action list \<Rightarrow> int \<Rightarrow> operation_spec list
    \<Rightarrow> lifecycle_error + payload list" where
  "operation_entries resolver actions remaining [] = Inr []"
| "operation_entries resolver actions remaining (x # xs) =
     bindE (operation_status resolver actions remaining x) (\<lambda>status.
     bindE (operation_entries resolver actions remaining xs) (\<lambda>rest.
     Inr (P_Dict (operation_payload x @ [(''status'', P_Text status)]) # rest)))"

definition operation_catalog :: "checkpoint_spec \<Rightarrow> int \<Rightarrow> int \<Rightarrow> operation_action list \<Rightarrow> source_context
    \<Rightarrow> operation_resolver \<Rightarrow> lifecycle_error + payload option" where
  "operation_catalog spec budget remaining actions source resolver =
     (case cs_operations spec of None \<Rightarrow> Inr None
      | Some conditional \<Rightarrow>
          bindE (operation_entries resolver actions remaining (co_operations conditional)) (\<lambda>entries.
          Inr (Some (P_Dict [(''schema_version'', P_Text ''1''),
            (''checkpoint_id'', P_Text (cs_checkpoint_id spec)),
            (''operation_budget'', P_Int budget), (''remaining_budget'', P_Int remaining),
            (''visible_source_state_sha256'', P_Text (sc_visible source)),
            (''operations'', P_List entries)]))))"

section \<open>Publishing an action\<close>

definition rejection_projection_sha256 :: "string \<Rightarrow> string \<Rightarrow> string" where
  "rejection_projection_sha256 operation_id supplied =
     payload_sha256 (P_Dict [(''schema_version'', P_Text ''1''), (''operation_id'', P_Text operation_id),
       (''supplied_visible_source_sha256'', P_Text supplied)])"

definition request_file_sha256 :: "string \<Rightarrow> string \<Rightarrow> string \<Rightarrow> string \<Rightarrow> string \<Rightarrow> string" where
  "request_file_sha256 action_id checkpoint_id operation_id supplied reason =
     sha256 (json_pretty 0 (P_Dict [(''schema_version'', P_Text ''1''), (''action_id'', P_Text action_id),
       (''checkpoint_id'', P_Text checkpoint_id), (''operation_id'', P_Text operation_id),
       (''visible_source_state_sha256'', P_Text supplied), (''reason'', P_Text reason)]))"

definition visible_artifact_paths :: "operation_plan \<Rightarrow> string list \<Rightarrow> lifecycle_error + string list" where
  "visible_artifact_paths plan produced =
     bindE (guardE (pl_visible_paths plan \<noteq> [])
       (Lifecycle_Error ''completed operation must declare a model-visible artifact'')) (\<lambda>_.
     bindE (guardE (distinct (pl_visible_paths plan))
       (Lifecycle_Error ''model-visible operation artifact paths must be unique'')) (\<lambda>_.
     bindE (checkE_all (\<lambda>relative.
         bindE (guardE (\<not> (posix_absolute relative \<or> ''..'' \<in> set (posix_parts relative)
             \<or> as_posix relative \<noteq> relative))
           (Lifecycle_Error ''model-visible operation artifact path is unsafe'')) (\<lambda>_.
         guardE (relative \<in> set produced)
           (Lifecycle_Error ''model-visible operation artifact was not produced''))) (pl_visible_paths plan)) (\<lambda>_.
     Inr (pl_visible_paths plan))))"

definition operation_artifacts :: "string \<Rightarrow> string \<Rightarrow> string list \<Rightarrow> release_files \<Rightarrow> operation_artifact list" where
  "operation_artifacts action_id checkpoint_id visible files =
     map (\<lambda>(relative, bytes).
       \<lparr>oa_path = path_of [''lifecycle_operations'', action_id, ''artifacts'', relative],
        oa_workspace_path = (if relative \<in> set visible
          then Some (path_of [''inbox'', checkpoint_id, ''operations'', action_id, relative]) else None),
        oa_sha256 = sha256 bytes\<rparr>) (sort_key fst files)"

definition result_manifest_sha256 :: "string \<Rightarrow> string \<Rightarrow> operation_plan \<Rightarrow> release_files \<Rightarrow> string" where
  "result_manifest_sha256 action_id operation_id plan files =
     sha256 (json_pretty 0 (P_Dict [(''schema_version'', P_Text ''1''), (''action_id'', P_Text action_id),
       (''operation_id'', P_Text operation_id),
       (''input_projection_sha256'', P_Text (pl_input_projection plan)),
       (''physical_source_state_sha256'', P_Text (sc_physical (pl_after plan))),
       (''visible_source_state_sha256'', P_Text (sc_visible (pl_after plan))),
       (''prerequisite_action_ids'', texts_payload (pl_prerequisite_actions plan)),
       (''artifact_sha256'', P_Dict (map (\<lambda>(r, b). (r, P_Text (sha256 b))) files))]))"

text \<open>The three kinds of action: a rejection, the reuse of a prior result, a new result.\<close>

datatype operation_basis = Reject operation_rejection | Reuse operation_plan operation_action | Compute operation_plan

record basis_fields =
  bf_outcome :: operation_outcome
  bf_rejection :: "operation_rejection option"
  bf_disposition :: "operation_disposition option"
  bf_after :: source_context
  bf_input :: string
  bf_prerequisites :: "string list"
  bf_retained :: "string option"
  bf_manifest :: "string option"
  bf_artifacts :: "operation_artifact list"
  bf_consumed :: int

definition basis_result :: "operation_resolver \<Rightarrow> string \<Rightarrow> string \<Rightarrow> string \<Rightarrow> string \<Rightarrow> source_context
    \<Rightarrow> operation_basis \<Rightarrow> lifecycle_error + basis_fields" where
  "basis_result resolver action_id active operation_id supplied source basis =
     (case basis of
        Reject r \<Rightarrow> Inr \<lparr>bf_outcome = Oo_Rejected, bf_rejection = Some r, bf_disposition = None, bf_after = source,
          bf_input = rejection_projection_sha256 operation_id supplied, bf_prerequisites = [],
          bf_retained = None, bf_manifest = None, bf_artifacts = [], bf_consumed = 0\<rparr>
      | Reuse plan prior \<Rightarrow> Inr \<lparr>bf_outcome = Oo_Already_Current, bf_rejection = None,
          bf_disposition = Some Od_Reused, bf_after = pl_after plan, bf_input = pl_input_projection plan,
          bf_prerequisites = pl_prerequisite_actions plan, bf_retained = Some (ao_action_id prior),
          bf_manifest = None, bf_artifacts = ao_artifacts prior, bf_consumed = 0\<rparr>
      | Compute plan \<Rightarrow>
          bindE (or_execute resolver plan) (\<lambda>files.
          bindE (guardE (files \<noteq> [])
            (Lifecycle_Error ''completed operation must produce at least one artifact'')) (\<lambda>_.
          bindE (visible_artifact_paths plan (map fst files)) (\<lambda>visible.
          let artifacts = operation_artifacts action_id active visible files in
          bindE (checkE_all (\<lambda>x. bindE (validated (validate_operation_artifact x)) (\<lambda>_. Inr ())) artifacts) (\<lambda>_.
          Inr \<lparr>bf_outcome = Oo_Completed, bf_rejection = None, bf_disposition = Some (pl_disposition plan),
            bf_after = pl_after plan, bf_input = pl_input_projection plan,
            bf_prerequisites = pl_prerequisite_actions plan, bf_retained = None,
            bf_manifest = Some (result_manifest_sha256 action_id operation_id plan files),
            bf_artifacts = artifacts, bf_consumed = 1\<rparr>)))))"

definition operation_outcome_text :: "operation_outcome \<Rightarrow> string" where
  "operation_outcome_text outcome = (case outcome of Oo_Completed \<Rightarrow> ''completed''
     | Oo_Already_Current \<Rightarrow> ''already_current'' | Oo_Rejected \<Rightarrow> ''rejected'')"

definition draft_operation :: "nat \<Rightarrow> checkpoint_run \<Rightarrow> checkpoint_attempt \<Rightarrow> string \<Rightarrow> string \<Rightarrow> string \<Rightarrow> string
    \<Rightarrow> string \<Rightarrow> source_context \<Rightarrow> basis_fields \<Rightarrow> string \<Rightarrow> operation_action" where
  "draft_operation n c t requested operation_id operation_kind reason supplied source f pre =
     \<lparr>ao_action_id = operation_action_id n, ao_sequence = int n, ao_checkpoint_id = cr_checkpoint_id c,
      ao_requested_checkpoint_id = requested, ao_operation_id = operation_id,
      ao_operation_kind = operation_kind, ao_reason = reason, ao_session_id = ct_session_id t,
      ao_attempt_id = ct_attempt_id t, ao_outcome = bf_outcome f, ao_rejection = bf_rejection f,
      ao_disposition = bf_disposition f, ao_visible_before = sc_visible source,
      ao_visible_after = sc_visible (bf_after f), ao_physical_before = sc_physical source,
      ao_physical_after = sc_physical (bf_after f), ao_input_projection = bf_input f,
      ao_request_sha256 = request_file_sha256 (operation_action_id n) requested operation_id supplied reason,
      ao_result_manifest = bf_manifest f, ao_prerequisite_actions = bf_prerequisites f,
      ao_retained_from = bf_retained f, ao_pre_state = pre, ao_post_state = zero_sha256,
      ao_artifacts = bf_artifacts f, ao_budget_before = cr_operation_remaining c,
      ao_budget_consumed = bf_consumed f, ao_budget_after = cr_operation_remaining c - bf_consumed f,
      ao_inherited = False\<rparr>"

definition with_operation :: "operation_action \<Rightarrow> checkpoint_run \<Rightarrow> checkpoint_run" where
  "with_operation a c =
     c\<lparr>cr_operation_remaining := cr_operation_remaining c - ao_budget_consumed a,
       cr_operation_actions := cr_operation_actions c @ [a]\<rparr>"

definition publish_operation_action :: "operation_resolver \<Rightarrow> run_state \<Rightarrow> string \<Rightarrow> string \<Rightarrow> string \<Rightarrow> string
    \<Rightarrow> string \<Rightarrow> string \<Rightarrow> source_context \<Rightarrow> operation_basis \<Rightarrow> lifecycle_error + operation_action \<times> run_state" where
  "publish_operation_action resolver s requested operation_id operation_kind reason session supplied source basis =
     (case ru_active s of None \<Rightarrow> Inl (Lifecycle_Error ''no checkpoint is active'')
      | Some active \<Rightarrow>
     bindE (index_checkpoint s active) (\<lambda>c.
     case active_attempt c of
       None \<Rightarrow> Inl (Lifecycle_Error ''operation action has no matching active attempt'')
     | Some t \<Rightarrow>
     bindE (guardE (ct_session_id t = session)
       (Lifecycle_Error ''operation action has no matching active attempt'')) (\<lambda>_.
     let n = 1 + length (ordered_operation_actions s) in
     bindE (basis_result resolver (operation_action_id n) active operation_id supplied source basis) (\<lambda>f.
     let pre = operation_state_sha256 s active (sc_visible source) (sc_physical source)
           (cr_operation_remaining c) (ordered_operation_actions s) in
     bindE (validated (validate_operation_action
       (draft_operation n c t requested operation_id operation_kind reason supplied source f pre))) (\<lambda>draft.
     let post = operation_state_sha256 s active (sc_visible (bf_after f)) (sc_physical (bf_after f))
           (ao_budget_after draft) (ordered_operation_actions (map_checkpoint active (with_operation draft) s));
         action = draft\<lparr>ao_post_state := post\<rparr> in
     bindE (append_transition Tk_Operation active
       (''Lifecycle operation '' @ operation_outcome_text (bf_outcome f) @ ''.'')
       (map_checkpoint active (with_operation action) s)) (\<lambda>s'. Inr (action, s')))))))"

section \<open>The decision\<close>

definition execute_operation :: "lifecycle_spec \<Rightarrow> operation_resolver \<Rightarrow> string \<Rightarrow> string \<Rightarrow> string \<Rightarrow> string
    \<Rightarrow> string \<Rightarrow> run_state \<Rightarrow> lifecycle_error + operation_action \<times> run_state" where
  "execute_operation spec resolver requested operation_id supplied reason session s =
     bindE (or_current_source resolver (ordered_operation_actions s)) (\<lambda>source.
     case ru_active s of None \<Rightarrow> Inl (Lifecycle_Error ''no checkpoint is active'')
      | Some active \<Rightarrow>
     (case find_row cs_checkpoint_id active (ls_checkpoints spec) of
        None \<Rightarrow> Inl (Lifecycle_Error (''unknown checkpoint in lifecycle state: '' @ active))
      | Some declared \<Rightarrow>
     bindE (index_checkpoint s active) (\<lambda>c.
     case active_attempt c of None \<Rightarrow> Inl (Lifecycle_Error ''no checkpoint attempt is active'')
      | Some t \<Rightarrow>
     bindE (guardE (ct_session_id t = session) (Lifecycle_Error (''active attempt belongs to ''
         @ ct_session_id t @ ''; cannot execute operation from '' @ session))) (\<lambda>_.
     let publish = (\<lambda>kind basis. publish_operation_action resolver s requested operation_id kind reason session
           supplied source basis);
         actions = ordered_operation_actions s in
     if requested \<noteq> active then publish ''unknown'' (Reject Or_Inactive_Checkpoint)
     else (case cs_operations declared of None \<Rightarrow> publish ''unknown'' (Reject Or_Not_Supported)
      | Some conditional \<Rightarrow>
     (case find_row op_operation_id operation_id (co_operations conditional) of
        None \<Rightarrow> publish ''unknown'' (Reject Or_Unknown_Operation)
      | Some x \<Rightarrow>
     if supplied \<noteq> sc_visible source then publish (op_kind x) (Reject Or_Stale_Visible_Source)
     else if \<not> set (op_prerequisites x) \<subseteq> set (completed_ids actions)
       then publish (op_kind x) (Reject Or_Prerequisites_Incomplete)
     else (case or_plan resolver x actions of
        Inl (Prerequisite_Error m) \<Rightarrow> publish (op_kind x) (Reject Or_Prerequisites_Incomplete)
      | Inl e \<Rightarrow> Inl e
      | Inr plan \<Rightarrow> (case current_operation_action actions plan of
          None \<Rightarrow> if cr_operation_remaining c = 0 then publish (op_kind x) (Reject Or_Budget_Exhausted)
            else publish (op_kind x) (Compute plan)
        | Some prior \<Rightarrow> publish (op_kind x) (Reuse plan prior)))))))))"

end
