(* ===== verification/Lifecycle_Runtime.thy ===== *)
theory Lifecycle_Runtime
  imports Lifecycle_Operations
begin

text \<open>
  The handlers of \<^verbatim>\<open>lifecycles/runtime/lifecycle.py\<close>. Each loads the state under the lock of the run,
  decides, and writes the state back. \<open>load_checks\<close> is what loading verifies of a state, and each handler
  is the function from the loaded state to the one it writes; the files a handler reads or checks are
  those of \<open>run_files\<close>. The contexts returned to the caller are projections of the state.
\<close>

section \<open>Loading\<close>

definition resolver_supplied :: "lifecycle_spec \<Rightarrow> operation_resolver option \<Rightarrow> lifecycle_error + operation_resolver option" where
  "resolver_supplied spec resolver =
     bindE (guardE (\<not> (supports_operations spec \<and> resolver = None))
       (Lifecycle_Error ''operation-capable lifecycle requires an explicit task operation resolver'')) (\<lambda>_.
     bindE (guardE (\<not> (\<not> supports_operations spec \<and> resolver \<noteq> None))
       (Lifecycle_Error ''lifecycle operation resolver was supplied for a lifecycle without operations'')) (\<lambda>_.
     Inr resolver))"

definition load_checks :: "lifecycle_package \<Rightarrow> lifecycle_spec \<Rightarrow> run_state \<Rightarrow> lifecycle_error + run_state" where
  "load_checks package spec raw =
     (case model_validate_state raw of
        Inl _ \<Rightarrow> Inl (Lifecycle_Error ''invalid lifecycle state'')
      | Inr s \<Rightarrow>
          bindE (guardE (\<not> (ru_lifecycle_id s \<noteq> ls_lifecycle_id spec
              \<or> map cr_checkpoint_id (ru_checkpoints s) \<noteq> map cs_checkpoint_id (ls_checkpoints spec)))
            (Lifecycle_Error ''run state does not match the lifecycle package'')) (\<lambda>_.
          bindE (guardE (ru_spec_sha256 s = spec_sha256 spec)
            (Lifecycle_Error ''lifecycle contract does not match lifecycle run'')) (\<lambda>_.
          bindE (package_sha256 package) (\<lambda>digest.
          bindE (guardE (ru_package_sha256 s = digest)
            (Lifecycle_Error ''package does not match lifecycle run'')) (\<lambda>_.
          bindE (validate_request_state s spec) (\<lambda>_.
          bindE (validate_operation_state s spec) (\<lambda>_. Inr s)))))))"

section \<open>Initial state\<close>

definition initial_state :: "lifecycle_package \<Rightarrow> lifecycle_spec \<Rightarrow> string option \<Rightarrow> lifecycle_error + run_state" where
  "initial_state package spec authorization =
     bindE (package_sha256 package) (\<lambda>digest.
     bindE (checkE_all (\<lambda>c. bindE (validated (construct_checkpoint_run (pending_run c))) (\<lambda>_. Inr ()))
       (ls_checkpoints spec)) (\<lambda>_.
     validated (construct_run_state
       \<lparr>ru_schema = (if supports_operations spec then Schema_7 else Schema_6),
        ru_lifecycle_id = ls_lifecycle_id spec, ru_spec_sha256 = spec_sha256 spec, ru_package_sha256 = digest,
        ru_authorization = authorization, ru_status = Awaiting_Release, ru_active = None,
        ru_checkpoints = map pending_run (ls_checkpoints spec), ru_revisits = [], ru_transitions = [],
        ru_branch = None\<rparr>)))"

definition preflight_checkpoint :: "lifecycle_package \<Rightarrow> checkpoint_spec \<Rightarrow> lifecycle_error + string" where
  "preflight_checkpoint package c =
     (let release = posix_parts (cs_release_path c);
          entry = map_of (pk_entries package) in
      bindE (guardE (is_folder package release) (Lifecycle_Error ''checkpoint release not found'')) (\<lambda>_.
      case entry (posix_parts (cs_instruction_path c)) of
        Some (Tree_File instruction) \<Rightarrow>
          bindE (guardE (\<not> (cs_evidence c \<noteq> None
              \<and> entry (release @ [''requests'']) \<notin> {None, Some Tree_Symlink}))
            (Lifecycle_Error ''checkpoint release uses the reserved requests namespace'')) (\<lambda>_. Inr instruction)
      | _ \<Rightarrow> Inl (Lifecycle_Error ''checkpoint instruction not found'')))"

definition submitted_count :: "run_state \<Rightarrow> nat" where
  "submitted_count s = length (filter (\<lambda>c. cr_status c = Cp_Submitted) (ru_checkpoints s))"

definition submitted_ids :: "run_state \<Rightarrow> string list" where
  "submitted_ids s = map cr_checkpoint_id (filter (\<lambda>c. cr_status c = Cp_Submitted) (ru_checkpoints s))"

section \<open>What must not change\<close>

text \<open>The files of a run that the handlers check: archives, workspace files and the branch origin, by name.\<close>

record run_files =
  rf_archive :: "string \<Rightarrow> string option"
  rf_workspace :: "string \<Rightarrow> string option"
  rf_origin :: "string \<Rightarrow> string option"

definition normalized_request :: "request_action \<Rightarrow> payload" where
  "normalized_request a = P_Dict [(''action_id'', P_Text (aq_action_id a)), (''sequence'', P_Int (aq_sequence a)),
     (''checkpoint_id'', P_Text (aq_checkpoint_id a)),
     (''requested_checkpoint_id'', P_Text (aq_requested_checkpoint_id a)),
     (''request_id'', P_Text (aq_request_id a)), (''reason'', P_Text (aq_reason a)),
     (''session_id'', P_Text (aq_session_id a)), (''attempt_id'', P_Text (aq_attempt_id a)),
     (''outcome'', P_Text (outcome_text (aq_outcome a))),
     (''rejection'', (case aq_rejection a of None \<Rightarrow> P_Null | Some r \<Rightarrow> P_Text (case r of
        Rr_Inactive_Checkpoint \<Rightarrow> ''inactive_checkpoint'' | Rr_Unknown_Request \<Rightarrow> ''unknown_request''
      | Rr_Prerequisites_Incomplete \<Rightarrow> ''prerequisites_incomplete''
      | Rr_Budget_Exhausted \<Rightarrow> ''budget_exhausted'' | Rr_Not_Supported \<Rightarrow> ''not_supported''))),
     (''pre_action_state_sha256'', P_Text (aq_pre_state a)),
     (''post_action_state_sha256'', P_Text (aq_post_state a)),
     (''released_artifacts'', P_List (map artifact_payload (aq_released a))),
     (''budget_before'', P_Int (aq_budget_before a)), (''budget_consumed'', P_Int (aq_budget_consumed a)),
     (''budget_after'', P_Int (aq_budget_after a))]"

definition optional_text :: "string option \<Rightarrow> payload" where
  "optional_text x = (case x of None \<Rightarrow> P_Null | Some t \<Rightarrow> P_Text t)"

definition normalized_operation :: "operation_action \<Rightarrow> payload" where
  "normalized_operation a = P_Dict [(''action_id'', P_Text (ao_action_id a)), (''sequence'', P_Int (ao_sequence a)),
     (''checkpoint_id'', P_Text (ao_checkpoint_id a)),
     (''requested_checkpoint_id'', P_Text (ao_requested_checkpoint_id a)),
     (''operation_id'', P_Text (ao_operation_id a)), (''operation_kind'', P_Text (ao_operation_kind a)),
     (''reason'', P_Text (ao_reason a)), (''session_id'', P_Text (ao_session_id a)),
     (''attempt_id'', P_Text (ao_attempt_id a)),
     (''outcome'', P_Text (operation_outcome_text (ao_outcome a))),
     (''rejection'', (case ao_rejection a of None \<Rightarrow> P_Null | Some r \<Rightarrow> P_Text (case r of
        Or_Inactive_Checkpoint \<Rightarrow> ''inactive_checkpoint'' | Or_Unknown_Operation \<Rightarrow> ''unknown_operation''
      | Or_Prerequisites_Incomplete \<Rightarrow> ''prerequisites_incomplete''
      | Or_Stale_Visible_Source \<Rightarrow> ''stale_visible_source''
      | Or_Budget_Exhausted \<Rightarrow> ''budget_exhausted'' | Or_Not_Supported \<Rightarrow> ''not_supported''))),
     (''disposition'', (case ao_disposition a of None \<Rightarrow> P_Null | Some d \<Rightarrow> P_Text (case d of
        Od_Computed \<Rightarrow> ''computed'' | Od_Reused \<Rightarrow> ''reused'' | Od_Activated \<Rightarrow> ''activated''))),
     (''visible_source_state_before_sha256'', P_Text (ao_visible_before a)),
     (''visible_source_state_after_sha256'', P_Text (ao_visible_after a)),
     (''physical_source_state_before_sha256'', P_Text (ao_physical_before a)),
     (''physical_source_state_after_sha256'', P_Text (ao_physical_after a)),
     (''input_projection_sha256'', P_Text (ao_input_projection a)),
     (''request_sha256'', P_Text (ao_request_sha256 a)),
     (''result_manifest_sha256'', optional_text (ao_result_manifest a)),
     (''prerequisite_action_ids'', texts_payload (ao_prerequisite_actions a)),
     (''retained_from_action_id'', optional_text (ao_retained_from a)),
     (''pre_action_state_sha256'', P_Text (ao_pre_state a)),
     (''post_action_state_sha256'', P_Text (ao_post_state a)),
     (''artifacts'', P_List (map operation_artifact_payload (ao_artifacts a))),
     (''budget_before'', P_Int (ao_budget_before a)), (''budget_consumed'', P_Int (ao_budget_consumed a)),
     (''budget_after'', P_Int (ao_budget_after a))]"

definition branch_checkpoint_payload :: "schema_version \<Rightarrow> bool \<Rightarrow> checkpoint_run \<Rightarrow> payload" where
  "branch_checkpoint_payload schema inherited_only c =
     (let requests = filter (\<lambda>a. \<not> inherited_only \<or> aq_inherited a) (cr_request_actions c);
          operations = filter (\<lambda>a. \<not> inherited_only \<or> ao_inherited a) (cr_operation_actions c)
      in P_Dict ([(''checkpoint_id'', P_Text (cr_checkpoint_id c)),
          (''evidence_request_budget'', P_Int (cr_request_budget c)),
          (''inherited_budget_after'', P_Int (if requests \<noteq> [] then aq_budget_after (last requests)
             else cr_request_budget c)),
          (''actions'', P_List (map normalized_request requests))]
        @ (if schema = Schema_7 then [(''operation_budget'', P_Int (cr_operation_budget c)),
          (''inherited_operation_budget_after'', P_Int (if operations \<noteq> [] then ao_budget_after (last operations)
             else cr_operation_budget c)),
          (''operation_actions'', P_List (map normalized_operation operations))] else [])))"

definition branch_action_state_sha256 :: "run_state \<Rightarrow> nat \<Rightarrow> bool \<Rightarrow> string" where
  "branch_action_state_sha256 s branch_index inherited_only =
     payload_sha256 (P_Dict [(''schema_version'', P_Text (if ru_schema s = Schema_7 then ''2'' else ''1'')),
       (''lifecycle_id'', P_Text (ru_lifecycle_id s)), (''package_sha256'', P_Text (ru_package_sha256 s)),
       (''checkpoints'', P_List (map (branch_checkpoint_payload (ru_schema s) inherited_only)
          (take (branch_index + 1) (ru_checkpoints s))))])"

definition checkpoint_index :: "string \<Rightarrow> run_state \<Rightarrow> nat" where
  "checkpoint_index i s = length (takeWhile (\<lambda>c. cr_checkpoint_id c \<noteq> i) (ru_checkpoints s))"

definition check_branch_origin :: "run_files \<Rightarrow> run_state \<Rightarrow> lifecycle_error + unit" where
  "check_branch_origin files s =
     (case ru_branch s of None \<Rightarrow> Inr ()
      | Some b \<Rightarrow>
          bindE (guardE (map_option sha256 (rf_origin files (lb_from_checkpoint b)) = Some (lb_parent_submission b))
            (Lifecycle_Error (''branch origin submission changed: '' @ lb_from_checkpoint b))) (\<lambda>_.
          guardE (Some (branch_action_state_sha256 s (checkpoint_index (lb_from_checkpoint b) s) True)
              = lb_parent_action_state b)
            (Lifecycle_Error (''branch origin action state changed: '' @ lb_from_checkpoint b))))"

definition check_submitted :: "run_files \<Rightarrow> checkpoint_run \<Rightarrow> lifecycle_error + unit" where
  "check_submitted files c =
     (if cr_status c \<noteq> Cp_Submitted then Inr ()
      else case (cr_submission_path c, cr_submission_sha256 c) of
        (Some path, Some digest) \<Rightarrow>
          bindE (guardE (map_option sha256 (rf_archive files (cr_checkpoint_id c)) = Some digest)
            (Lifecycle_Error (''archived checkpoint submission changed: '' @ cr_checkpoint_id c))) (\<lambda>_.
          guardE (map_option sha256 (rf_workspace files path) = Some digest)
            (Lifecycle_Error (''prior checkpoint submission changed: '' @ cr_checkpoint_id c)))
      | _ \<Rightarrow> Inl (Lifecycle_Error (''submitted checkpoint is missing immutable metadata: '' @ cr_checkpoint_id c)))"

definition prior_submissions_unchanged :: "run_files \<Rightarrow> nat option \<Rightarrow> run_state \<Rightarrow> lifecycle_error + unit" where
  "prior_submissions_unchanged files through s =
     bindE (check_branch_origin files s) (\<lambda>_.
     case through of
       None \<Rightarrow> checkE_all (check_submitted files) (ru_checkpoints s)
     | Some i \<Rightarrow>
         bindE (guardE (i < length (ru_checkpoints s))
           (Lifecycle_Error ''submission validation checkpoint index is out of range'')) (\<lambda>_.
         checkE_all (check_submitted files) (take (i + 1) (ru_checkpoints s))))"

section \<open>Release\<close>

text \<open>The release of the next checkpoint; a complete or active run is returned as it is.\<close>

definition release_checkpoint :: "lifecycle_package \<Rightarrow> lifecycle_spec \<Rightarrow> run_files \<Rightarrow> run_state \<Rightarrow> lifecycle_error + run_state" where
  "release_checkpoint package spec files s =
     (if ru_status s = Run_Complete then Inr s
      else case ru_active s of
        Some active \<Rightarrow> (case find_row cs_checkpoint_id active (ls_checkpoints spec) of
            None \<Rightarrow> Inl (Lifecycle_Error (''unknown checkpoint in lifecycle state: '' @ active)) | Some _ \<Rightarrow> Inr s)
      | None \<Rightarrow>
          bindE (prior_submissions_unchanged files None s) (\<lambda>_.
          if length (ls_checkpoints spec) \<le> submitted_count s then Inl (Lifecycle_Key_Error ''index'')
          else let declared = ls_checkpoints spec ! submitted_count s in
          bindE (guardE (set (cs_depends_on declared) \<subseteq> set (submitted_ids s))
            (Lifecycle_Error (''checkpoint dependencies are incomplete: '' @ cs_checkpoint_id declared))) (\<lambda>_.
          bindE (preflight_checkpoint package declared) (\<lambda>_.
          bindE (copy_release package (posix_parts (cs_release_path declared))) (\<lambda>released.
          bindE (reduce_release (cs_checkpoint_id declared) (map fst released) ''Evidence released for active review.''
            (if submitted_ids s = [] then None else Some (last (submitted_ids s))) s) (\<lambda>(s', _). Inr s'))))))"

text \<open>
  The whole call, from the package and the stored state, if any: what is loaded or created is checked
  before the release.
\<close>

definition release_run :: "lifecycle_package \<Rightarrow> operation_resolver option \<Rightarrow> string option \<Rightarrow> run_files
    \<Rightarrow> run_state option \<Rightarrow> lifecycle_error + run_state" where
  "release_run package resolver authorization files stored =
     bindE (load_spec package) (\<lambda>spec.
     bindE (resolver_supplied spec resolver) (\<lambda>_.
     bindE (if supports_requests spec then bindE (load_resolutions package spec) (\<lambda>_. Inr ()) else Inr ()) (\<lambda>_.
     bindE (case stored of
         Some raw \<Rightarrow> bindE (load_checks package spec raw) (\<lambda>s.
           bindE (guardE (\<not> (authorization \<noteq> None \<and> ru_authorization s \<noteq> authorization))
             (Lifecycle_Error ''lifecycle run authorization does not match existing state'')) (\<lambda>_. Inr s))
       | None \<Rightarrow> bindE (preflight_checkpoint package (ls_checkpoints spec ! 0)) (\<lambda>_.
           initial_state package spec authorization)) (\<lambda>s.
     release_checkpoint package spec files s))))"

section \<open>Submission\<close>

definition validate_checkpoint_submission :: "checkpoint_spec \<Rightarrow> json_dict \<Rightarrow> lifecycle_error + unit" where
  "validate_checkpoint_submission c submission =
     (let fields = map fst submission; declared = cs_required_fields c in
      bindE (guardE (map_of submission ''checkpoint_id'' = Some (J_Text (cs_checkpoint_id c)))
        (Lifecycle_Error (''checkpoint submission id must be '' @ cs_checkpoint_id c))) (\<lambda>_.
      bindE (guardE (set declared \<subseteq> set fields)
        (Lifecycle_Error (''checkpoint submission missing required fields: ''
          @ comma_join (sort (remdups (filter (\<lambda>f. f \<notin> set fields) declared)))))) (\<lambda>_.
      guardE (cs_allow_additional c \<or> set fields \<subseteq> set declared)
        (Lifecycle_Error (''checkpoint submission contains undeclared fields: ''
          @ comma_join (sort (remdups (filter (\<lambda>f. f \<notin> set declared) fields))))))))"

text \<open>\<^verbatim>\<open>{"checkpoint_id": checkpoint_id, **candidate}\<close>.\<close>

definition complete_submission :: "string \<Rightarrow> json_dict \<Rightarrow> json_dict" where
  "complete_submission i candidate =
     (''checkpoint_id'', (case map_of candidate ''checkpoint_id'' of None \<Rightarrow> J_Text i | Some v \<Rightarrow> v))
       # filter (\<lambda>(k, v). k \<noteq> ''checkpoint_id'') candidate"

text \<open>\<^verbatim>\<open>json.loads\<close> of a file, if it is an object, and \<^verbatim>\<open>json.dumps\<close> of one: parameters.\<close>

record json_codec =
  jc_parse :: "string \<Rightarrow> json_dict option"
  jc_render :: "json_dict \<Rightarrow> string"

definition submit_checkpoint :: "json_codec \<Rightarrow> lifecycle_spec \<Rightarrow> run_files \<Rightarrow> run_state
    \<Rightarrow> lifecycle_error + run_files \<times> run_state" where
  "submit_checkpoint codec spec files s =
     (case ru_active s of None \<Rightarrow> Inl (Lifecycle_Error ''no checkpoint is awaiting submission'')
      | Some active \<Rightarrow>
     bindE (prior_submissions_unchanged files None s) (\<lambda>_.
     case find_row cs_checkpoint_id active (ls_checkpoints spec) of
        None \<Rightarrow> Inl (Lifecycle_Error (''unknown checkpoint in lifecycle state: '' @ active))
      | Some declared \<Rightarrow>
     (case rf_workspace files (cs_submission_path declared) of
        None \<Rightarrow> Inl (Lifecycle_Error ''checkpoint submission not found'')
      | Some bytes \<Rightarrow>
     (case jc_parse codec bytes of None \<Rightarrow> Inl (Lifecycle_Error ''invalid JSON artifact'')
      | Some candidate \<Rightarrow>
     let submission = complete_submission active candidate in
     bindE (validate_checkpoint_submission declared submission) (\<lambda>_.
     let final = (if json_dict_eq submission candidate then bytes else jc_render codec submission);
         files' = files\<lparr>rf_workspace := (rf_workspace files)(cs_submission_path declared := Some final),
           rf_archive := (rf_archive files)(active := Some final)\<rparr> in
     bindE (reduce_submit active (cs_submission_path declared) (sha256 final)
       ''Checkpoint submission archived.'' s) (\<lambda>(s', _). Inr (files', s')))))))"

section \<open>Attempts and revisits\<close>

definition open_attempt :: "string \<Rightarrow> string \<Rightarrow> string option \<Rightarrow> run_state \<Rightarrow> lifecycle_error + run_state" where
  "open_attempt session mode request_sha256 s =
     (case ru_active s of None \<Rightarrow> Inl (Lifecycle_Error ''no checkpoint is active'')
      | Some active \<Rightarrow> bindE (index_checkpoint s active) (\<lambda>_.
          bindE (reduce_open_attempt active session mode request_sha256 s) (\<lambda>(s', _). Inr s')))"

definition fail_attempt :: "string \<Rightarrow> string \<Rightarrow> run_state \<Rightarrow> lifecycle_error + run_state" where
  "fail_attempt session failure_kind s =
     (case ru_active s of None \<Rightarrow> Inl (Lifecycle_Error ''no checkpoint is active'')
      | Some active \<Rightarrow> bindE (index_checkpoint s active) (\<lambda>c.
          case active_attempt c of None \<Rightarrow> Inl (Lifecycle_Error ''no checkpoint attempt is active'')
          | Some a \<Rightarrow>
              bindE (guardE (ct_session_id a = session) (Lifecycle_Error (''active attempt belongs to ''
                @ ct_session_id a @ ''; cannot fail it from '' @ session))) (\<lambda>_.
              bindE (reduce_fail_attempt active session failure_kind s) (\<lambda>(s', _). Inr s'))))"

definition revisit_checkpoint :: "run_files \<Rightarrow> string \<Rightarrow> string \<Rightarrow> run_state \<Rightarrow> lifecycle_error + run_state" where
  "revisit_checkpoint files checkpoint_id reason s =
     bindE (prior_submissions_unchanged files None s) (\<lambda>_.
     bindE (reduce_revisit checkpoint_id reason s) (\<lambda>(s', _). Inr s'))"

section \<open>Operations\<close>

definition execute_lifecycle_operation :: "operation_resolver \<Rightarrow> lifecycle_spec \<Rightarrow> run_files \<Rightarrow> string option
    \<Rightarrow> string \<Rightarrow> string option \<Rightarrow> string \<Rightarrow> string \<Rightarrow> run_state \<Rightarrow> lifecycle_error + operation_action \<times> run_state" where
  "execute_lifecycle_operation resolver spec files checkpoint_id operation_id visible reason session s =
     bindE (guardE (\<not> list_ex py_blank ([operation_id, reason, session] @ opt_list checkpoint_id @ opt_list visible))
       (Lifecycle_Error ''operation checkpoint, id, visible source hash, reason, and session must not be blank'')) (\<lambda>_.
     bindE (guardE (list_all is_sha256 (opt_list visible))
       (Lifecycle_Error ''visible source state sha256 must contain 64 lowercase hexadecimal characters'')) (\<lambda>_.
     bindE (prior_submissions_unchanged files None s) (\<lambda>_.
     case (case checkpoint_id of None \<Rightarrow> ru_active s | Some i \<Rightarrow> Some i) of
       None \<Rightarrow> Inl (Lifecycle_Error ''no checkpoint is awaiting operations'')
     | Some requested \<Rightarrow>
         bindE (case visible of Some v \<Rightarrow> Inr v
           | None \<Rightarrow> bindE (or_current_source resolver (ordered_operation_actions s)) (\<lambda>source. Inr (sc_visible source)))
           (\<lambda>supplied.
         execute_operation spec resolver requested operation_id supplied reason session s))))"

section \<open>Branches\<close>

text \<open>The files of a branch: the inherited submissions, and that of the branch point as its origin and draft.\<close>

fun inherit_files :: "run_files \<Rightarrow> checkpoint_spec list \<Rightarrow> run_files \<Rightarrow> lifecycle_error + run_files" where
  "inherit_files parent [] files = Inr files"
| "inherit_files parent (c # cs) files =
     (case rf_archive parent (cs_checkpoint_id c) of
        None \<Rightarrow> Inl (Lifecycle_Error ''branch source artifact not found'')
      | Some bytes \<Rightarrow> inherit_files parent cs
          (files\<lparr>rf_archive := (rf_archive files)(cs_checkpoint_id c := Some bytes),
                 rf_workspace := (rf_workspace files)(cs_submission_path c := Some bytes)\<rparr>))"

definition no_files :: run_files where
  "no_files = \<lparr>rf_archive = (\<lambda>_. None), rf_workspace = (\<lambda>_. None), rf_origin = (\<lambda>_. None)\<rparr>"

definition branch_files :: "run_files \<Rightarrow> checkpoint_spec list \<Rightarrow> nat \<Rightarrow> lifecycle_error + run_files" where
  "branch_files parent checkpoints branch_index =
     (let point = checkpoints ! branch_index in
      bindE (inherit_files parent (take branch_index checkpoints) no_files) (\<lambda>files.
      case rf_archive parent (cs_checkpoint_id point) of
        None \<Rightarrow> Inl (Lifecycle_Error ''branch source artifact not found'')
      | Some bytes \<Rightarrow> Inr (files\<lparr>rf_origin := (rf_origin files)(cs_checkpoint_id point := Some bytes),
          rf_workspace := (rf_workspace files)(cs_submission_path point := Some bytes)\<rparr>)))"

text \<open>
  The validation scope of a branch: the whole parent run, or the prefix up to the branch point with
  the parent state the caller expects.
\<close>

datatype branch_scope = Complete_Run | Checkpoint_Prefix (expected_submission: string) (expected_action_state: string)

definition parent_scope :: "run_files \<Rightarrow> branch_scope \<Rightarrow> nat \<Rightarrow> run_state \<Rightarrow> lifecycle_error + unit" where
  "parent_scope files scope branch_index s =
     (case scope of
        Complete_Run \<Rightarrow> prior_submissions_unchanged files None s
      | Checkpoint_Prefix _ _ \<Rightarrow>
          bindE (guardE (ru_schema s = Schema_7)
            (Lifecycle_Error ''branch snapshot requires current lifecycle state schema version 7'')) (\<lambda>_.
          prior_submissions_unchanged files (Some branch_index) s))"

definition branch_lifecycle :: "lifecycle_spec \<Rightarrow> run_files \<Rightarrow> string \<Rightarrow> string \<Rightarrow> string \<Rightarrow> string \<Rightarrow> branch_scope
    \<Rightarrow> bool \<Rightarrow> run_state \<Rightarrow> lifecycle_error + run_files \<times> run_state" where
  "branch_lifecycle spec files parent_run_dir checkpoint_id branch_id reason scope directory_exists s =
     (let ids = map cs_checkpoint_id (ls_checkpoints spec);
          branch_index = length (takeWhile (\<lambda>i. i \<noteq> checkpoint_id) ids) in
      bindE (guardE (checkpoint_id \<in> set ids) (Lifecycle_Error (''unknown checkpoint: '' @ checkpoint_id))) (\<lambda>_.
      bindE (parent_scope files scope branch_index s) (\<lambda>_.
      let action_state = branch_action_state_sha256 s branch_index False in
      bindE (index_checkpoint s checkpoint_id) (\<lambda>c.
      bindE (guardE (cr_status c = Cp_Submitted)
        (Lifecycle_Error (''checkpoint is not available for branching: '' @ checkpoint_id))) (\<lambda>_.
      bindE (guardE (\<not> directory_exists) (Lifecycle_Error ''branch run directory already exists'')) (\<lambda>_.
      case cr_submission_sha256 c of
        None \<Rightarrow> Inl (Lifecycle_Error (''submitted checkpoint is missing its sha256: '' @ checkpoint_id))
      | Some submission \<Rightarrow>
          bindE (guardE (case scope of Complete_Run \<Rightarrow> True
              | Checkpoint_Prefix es ea \<Rightarrow> submission = es \<and> action_state = ea)
            (Lifecycle_Error ''selected checkpoint parent state changed before branching'')) (\<lambda>_.
          bindE (validated (validate_branch \<lparr>lb_branch_id = branch_id, lb_parent_run_dir = parent_run_dir,
              lb_from_checkpoint = checkpoint_id, lb_parent_submission = submission,
              lb_parent_action_state = Some action_state, lb_reason = reason\<rparr>)) (\<lambda>branch.
          bindE (reduce_branch (ls_checkpoints spec) (int branch_index) branch checkpoint_id reason s) (\<lambda>(s', _).
          bindE (branch_files files (ls_checkpoints spec) branch_index) (\<lambda>files'.
          Inr (files', s')))))))))))"

end
