(* ===== verification/Lifecycle_Episode.thy ===== *)
theory Lifecycle_Episode
  imports Lifecycle_Runtime
begin

text \<open>
  The contract between the lifecycle runtime and an episode environment, \<^verbatim>\<open>lifecycles/runtime/episode.py\<close>:
  the context a host shows to an environment, the request it makes, the result it accepts. A path below the
  workspace is kept relative to it.
\<close>

section \<open>Modes\<close>

datatype execution_mode = Em_Persistent_Context | Em_Fresh_Context

datatype visibility_policy = Vp_Persistent_Context | Vp_Artifact_Memory | Vp_Raw_Evidence_Only | Vp_Current_Release_Only

definition validate_mode_visibility :: "execution_mode \<Rightarrow> visibility_policy \<Rightarrow> string + unit" where
  "validate_mode_visibility mode visibility =
     bindE (guardE (\<not> (mode = Em_Persistent_Context \<and> visibility \<noteq> Vp_Persistent_Context))
       ''persistent_context execution requires persistent_context visibility'') (\<lambda>_.
     guardE (\<not> (mode = Em_Fresh_Context \<and> visibility = Vp_Persistent_Context))
       ''fresh_context execution cannot use persistent_context visibility'')"

section \<open>Catalogues\<close>

record completed_checkpoint =
  kc_checkpoint_id :: string
  kc_submission_path :: string
  kc_submission_sha256 :: string
  kc_released_files :: "string list"

definition validate_completed_checkpoint :: "completed_checkpoint \<Rightarrow> string + completed_checkpoint" where
  "validate_completed_checkpoint k =
     bindE (check_texts ([kc_checkpoint_id k, kc_submission_path k, kc_submission_sha256 k] @ kc_released_files k)) (\<lambda>_.
     bindE (check_digests ''sha256 must contain 64 lowercase hexadecimal characters'' [kc_submission_sha256 k])
       (\<lambda>_. Inr k))"

record request_option =
  qo_request_id :: string
  qo_title :: string
  qo_description :: string
  qo_prerequisites :: "string list"
  qo_status :: string

definition validate_request_option :: "request_option \<Rightarrow> string + request_option" where
  "validate_request_option r =
     bindE (check_texts ([qo_request_id r, qo_title r, qo_description r] @ qo_prerequisites r)) (\<lambda>_.
     bindE (guardE (qo_status r \<in> {''available'', ''released'', ''budget_exhausted'', ''prerequisites_incomplete''})
       ''literal_error'') (\<lambda>_. Inr r))"

record episode_request_catalog =
  qc_checkpoint_id :: string
  qc_request_budget :: int
  qc_remaining_budget :: int
  qc_requests :: "request_option list"

definition validate_request_catalog :: "episode_request_catalog \<Rightarrow> string + episode_request_catalog" where
  "validate_request_catalog c =
     bindE (check_texts [qc_checkpoint_id c]) (\<lambda>_.
     bindE (guardE (0 \<le> qc_request_budget c \<and> 0 \<le> qc_remaining_budget c) ''greater_than_equal'') (\<lambda>_.
     bindE (checkE_all (\<lambda>r. bindE (validate_request_option r) (\<lambda>_. Inr ())) (qc_requests c)) (\<lambda>_.
     bindE (guardE (qc_remaining_budget c \<le> qc_request_budget c)
       ''remaining evidence request budget cannot exceed its initial budget'') (\<lambda>_.
     bindE (guardE (distinct (map qo_request_id (qc_requests c))) ''episode evidence request ids must be unique'') (\<lambda>_.
     Inr c)))))"

record operation_option =
  oo_operation_id :: string
  oo_kind :: string
  oo_title :: string
  oo_description :: string
  oo_prerequisites :: "string list"
  oo_status :: string

definition validate_operation_option :: "operation_option \<Rightarrow> string + operation_option" where
  "validate_operation_option x =
     bindE (check_texts ([oo_operation_id x, oo_kind x, oo_title x, oo_description x] @ oo_prerequisites x)) (\<lambda>_.
     bindE (guardE (oo_status x \<in> {''available'', ''current_or_reusable'', ''budget_exhausted'', ''prerequisites_incomplete''})
       ''literal_error'') (\<lambda>_. Inr x))"

record episode_operation_catalog =
  oc_checkpoint_id :: string
  oc_operation_budget :: int
  oc_remaining_budget :: int
  oc_visible_source :: string
  oc_operations :: "operation_option list"

definition validate_operation_catalog :: "episode_operation_catalog \<Rightarrow> string + episode_operation_catalog" where
  "validate_operation_catalog c =
     bindE (check_texts [oc_checkpoint_id c, oc_visible_source c]) (\<lambda>_.
     bindE (guardE (0 \<le> oc_operation_budget c \<and> 0 \<le> oc_remaining_budget c) ''greater_than_equal'') (\<lambda>_.
     bindE (check_digests ''sha256 must contain 64 lowercase hexadecimal characters'' [oc_visible_source c]) (\<lambda>_.
     bindE (checkE_all (\<lambda>x. bindE (validate_operation_option x) (\<lambda>_. Inr ())) (oc_operations c)) (\<lambda>_.
     bindE (guardE (oc_remaining_budget c \<le> oc_operation_budget c)
       ''remaining operation budget cannot exceed its initial budget'') (\<lambda>_.
     bindE (guardE (distinct (map oo_operation_id (oc_operations c))) ''episode operation ids must be unique'') (\<lambda>_.
     Inr c))))))"

record current_source =
  sr_revision_id :: string
  sr_physical :: string
  sr_visible :: string
  sr_state :: json_dict

definition validate_current_source :: "current_source \<Rightarrow> string + current_source" where
  "validate_current_source s =
     bindE (check_texts [sr_revision_id s, sr_physical s, sr_visible s]) (\<lambda>_.
     bindE (check_digests ''sha256 must contain 64 lowercase hexadecimal characters'' [sr_physical s, sr_visible s])
       (\<lambda>_. Inr s))"

section \<open>The context\<close>

record episode_context =
  ec_lifecycle_id :: string
  ec_spec_sha256 :: string
  ec_package_sha256 :: string
  ec_status :: run_status
  ec_active_checkpoint_id :: string
  ec_checkpoint_id :: string
  ec_title :: string
  ec_workspace :: string
  ec_run_dir :: string
  ec_instruction :: string
  ec_instruction_path :: string
  ec_submission_path :: string
  ec_released_files :: "string list"
  ec_request_catalog :: "episode_request_catalog option"
  ec_released_artifacts :: "released_artifact list"
  ec_operation_catalog :: "episode_operation_catalog option"
  ec_current_source :: "current_source option"
  ec_operation_artifacts :: "operation_artifact list"
  ec_completed :: "completed_checkpoint list"
  ec_checkpoint_runs :: "checkpoint_run list"

definition check_optional :: "('a \<Rightarrow> string + 'a) \<Rightarrow> 'a option \<Rightarrow> string + unit" where
  "check_optional validate x = (case x of None \<Rightarrow> Inr () | Some v \<Rightarrow> bindE (validate v) (\<lambda>_. Inr ()))"

text \<open>The nested values of a context come from parsed JSON, so each is validated with it.\<close>

definition validate_episode_context :: "episode_context \<Rightarrow> string + episode_context" where
  "validate_episode_context c =
     bindE (check_texts ([ec_lifecycle_id c, ec_spec_sha256 c, ec_package_sha256 c, ec_active_checkpoint_id c,
       ec_checkpoint_id c, ec_title c, ec_workspace c, ec_run_dir c, ec_instruction c, ec_instruction_path c,
       ec_submission_path c] @ ec_released_files c)) (\<lambda>_.
     bindE (check_digests ''sha256 must contain 64 lowercase hexadecimal characters''
       [ec_spec_sha256 c, ec_package_sha256 c]) (\<lambda>_.
     bindE (check_optional validate_request_catalog (ec_request_catalog c)) (\<lambda>_.
     bindE (checkE_all (\<lambda>x. bindE (validate_released_artifact x) (\<lambda>_. Inr ())) (ec_released_artifacts c)) (\<lambda>_.
     bindE (check_optional validate_operation_catalog (ec_operation_catalog c)) (\<lambda>_.
     bindE (check_optional validate_current_source (ec_current_source c)) (\<lambda>_.
     bindE (checkE_all (\<lambda>x. bindE (validate_operation_artifact x) (\<lambda>_. Inr ())) (ec_operation_artifacts c)) (\<lambda>_.
     bindE (checkE_all (\<lambda>k. bindE (validate_completed_checkpoint k) (\<lambda>_. Inr ())) (ec_completed c)) (\<lambda>_.
     bindE (checkE_all (\<lambda>r. bindE (validate_checkpoint_run r) (\<lambda>_. Inr ())) (ec_checkpoint_runs c)) (\<lambda>_.
     bindE (guardE (ec_status c = Awaiting_Submission) ''episode context requires a checkpoint awaiting submission'') (\<lambda>_.
     bindE (guardE (ec_active_checkpoint_id c = ec_checkpoint_id c)
       ''episode checkpoint must match the active checkpoint'') (\<lambda>_.
     bindE (guardE (ec_checkpoint_id c \<in> set (map cr_checkpoint_id (ec_checkpoint_runs c)))
       ''episode checkpoint must exist in checkpoint_runs'') (\<lambda>_. Inr c))))))))))))"

text \<open>A dict comprehension: a key keeps the place where it came first and the value that came last.\<close>

fun put_entry :: "'k \<Rightarrow> 'v \<Rightarrow> ('k \<times> 'v) list \<Rightarrow> ('k \<times> 'v) list" where
  "put_entry k v [] = [(k, v)]"
| "put_entry k v ((l, w) # entries) = (if k = l then (l, v) # entries else (l, w) # put_entry k v entries)"

definition dict_of :: "('k \<times> 'v) list \<Rightarrow> ('k \<times> 'v) list" where
  "dict_of pairs = fold (\<lambda>(k, v) entries. put_entry k v entries) pairs []"

text \<open>What a policy shows of the checkpoints: only the active one under \<open>Vp_Current_Release_Only\<close>.\<close>

definition visible_runs :: "visibility_policy \<Rightarrow> checkpoint_run \<Rightarrow> checkpoint_run list \<Rightarrow> checkpoint_run list" where
  "visible_runs policy active runs = (if policy = Vp_Current_Release_Only then [active] else runs)"

definition visible_evidence :: "checkpoint_run list \<Rightarrow> released_artifact list" where
  "visible_evidence runs = concat (map (\<lambda>c. concat (map aq_released
     (filter (\<lambda>a. aq_outcome a = Rq_Released) (cr_request_actions c)))) runs)"

definition visible_operations :: "checkpoint_run list \<Rightarrow> operation_artifact list" where
  "visible_operations runs = map snd (dict_of (concat (map (\<lambda>x. case oa_workspace_path x of
       None \<Rightarrow> [] | Some p \<Rightarrow> [(p, x)]) (concat (map (\<lambda>c. concat (map ao_artifacts (cr_operation_actions c))) runs)))))"

section \<open>The request\<close>

record episode_request =
  er_episode_id :: string
  er_lifecycle_id :: string
  er_spec_sha256 :: string
  er_package_sha256 :: string
  er_checkpoint_id :: string
  er_checkpoint_ids :: "string list"
  er_attempt_id :: string
  er_session_id :: string
  er_mode :: execution_mode
  er_visibility :: visibility_policy
  er_adapter :: string
  er_model :: string
  er_max_turns :: int
  er_title :: string
  er_instruction :: string
  er_workspace :: string
  er_run_dir :: string
  er_instruction_path :: string
  er_submission_path :: string
  er_released_files :: "string list"
  er_request_catalog :: "episode_request_catalog option"
  er_released_artifacts :: "released_artifact list"
  er_operation_catalog :: "episode_operation_catalog option"
  er_current_source :: "current_source option"
  er_operation_artifacts :: "operation_artifact list"
  er_completed :: "string list"

definition check_operation_view :: "episode_request \<Rightarrow> string + unit" where
  "check_operation_view r =
     bindE (case er_operation_catalog r of None \<Rightarrow> Inr ()
       | Some c \<Rightarrow>
           bindE (guardE (oc_checkpoint_id c = er_checkpoint_id r)
             ''operation catalogue must match the active checkpoint'') (\<lambda>_.
           case er_current_source r of None \<Rightarrow> Inl ''operation catalogue requires the visible current source''
           | Some s \<Rightarrow> guardE (oc_visible_source c = sr_visible s)
               ''operation catalogue must match the visible current source'')) (\<lambda>_.
     bindE (guardE (\<not> (er_operation_artifacts r \<noteq> [] \<and> er_current_source r = None))
       ''visible operation artifacts require the visible current source'') (\<lambda>_.
     bindE (guardE (list_all (\<lambda>x. oa_workspace_path x \<noteq> None) (er_operation_artifacts r))
       ''visible operation artifacts require workspace paths'') (\<lambda>_.
     guardE (distinct (map oa_workspace_path (er_operation_artifacts r)))
       ''visible operation artifact paths must be unique'')))"

definition validate_execution_boundary :: "episode_request \<Rightarrow> string + unit" where
  "validate_execution_boundary r =
     bindE (validate_mode_visibility (er_mode r) (er_visibility r)) (\<lambda>_.
     bindE (guardE (distinct (er_checkpoint_ids r)) ''episode checkpoint ids must be unique'') (\<lambda>_.
     bindE (guardE (er_checkpoint_id r \<in> set (er_checkpoint_ids r)) ''active checkpoint must belong to the episode'') (\<lambda>_.
     bindE (guardE (\<not> (er_mode r = Em_Fresh_Context \<and> er_checkpoint_ids r \<noteq> [er_checkpoint_id r]))
       ''fresh_context episode must own exactly one checkpoint'') (\<lambda>_.
     bindE (guardE (er_checkpoint_id r \<notin> set (er_completed r)) ''active checkpoint cannot already be completed'') (\<lambda>_.
     bindE (guardE (distinct (er_completed r)) ''completed checkpoint ids must be unique'') (\<lambda>_.
     bindE (guardE (distinct (er_released_files r)) ''released files must be unique'') (\<lambda>_.
     bindE (guardE (case er_request_catalog r of None \<Rightarrow> True | Some c \<Rightarrow> qc_checkpoint_id c = er_checkpoint_id r)
       ''evidence request catalogue must match the active checkpoint'') (\<lambda>_.
     bindE (guardE (distinct (map ra_path (er_released_artifacts r)))
       ''released evidence artifact paths must be unique'') (\<lambda>_.
     check_operation_view r)))))))))"

text \<open>
  \<^verbatim>\<open>LifecycleEpisodeRequest(...)\<close> from the fields of a context: the nested models have been validated with
  the context and are taken as they are.
\<close>

definition validate_episode_request :: "episode_request \<Rightarrow> string + episode_request" where
  "validate_episode_request r =
     bindE (check_texts ([er_episode_id r, er_lifecycle_id r, er_spec_sha256 r, er_package_sha256 r,
       er_checkpoint_id r] @ er_checkpoint_ids r @ [er_attempt_id r, er_session_id r, er_adapter r, er_model r,
       er_title r, er_instruction r, er_workspace r, er_run_dir r, er_instruction_path r, er_submission_path r]
       @ er_released_files r @ er_completed r)) (\<lambda>_.
     bindE (guardE (er_checkpoint_ids r \<noteq> []) ''too_short'') (\<lambda>_.
     bindE (guardE (0 < er_max_turns r) ''greater_than'') (\<lambda>_.
     bindE (check_digests ''sha256 must contain 64 lowercase hexadecimal characters''
       [er_spec_sha256 r, er_package_sha256 r]) (\<lambda>_.
     bindE (validate_execution_boundary r) (\<lambda>_. Inr r)))))"

section \<open>The result\<close>

record episode_usage =
  us_input :: int
  us_output :: int
  us_cache_read :: int
  us_cache_write :: int

datatype episode_status = Es_Completed | Es_Failed

record episode_result =
  es_episode_id :: string
  es_attempt_id :: string
  es_session_id :: string
  es_checkpoint_ids :: "string list"
  es_mode :: execution_mode
  es_visibility :: visibility_policy
  es_status :: episode_status
  es_requested_adapter :: string
  es_requested_model :: string
  es_max_turns :: int
  es_adapter :: string
  es_resolved_model :: string
  es_configuration :: json_dict
  es_usage :: episode_usage
  es_failure_kind :: "string option"
  es_provider_error :: "string option"

definition validate_usage :: "episode_usage \<Rightarrow> string + episode_usage" where
  "validate_usage u =
     bindE (guardE (0 \<le> us_input u \<and> 0 \<le> us_output u \<and> 0 \<le> us_cache_read u \<and> 0 \<le> us_cache_write u)
       ''greater_than_equal'') (\<lambda>_. Inr u)"

definition validate_episode_result :: "episode_result \<Rightarrow> string + episode_result" where
  "validate_episode_result r =
     bindE (check_texts ([es_episode_id r, es_attempt_id r, es_session_id r] @ es_checkpoint_ids r
       @ [es_requested_adapter r, es_requested_model r, es_adapter r, es_resolved_model r]
       @ opt_list (es_failure_kind r) @ opt_list (es_provider_error r))) (\<lambda>_.
     bindE (guardE (es_checkpoint_ids r \<noteq> []) ''too_short'') (\<lambda>_.
     bindE (guardE (0 < es_max_turns r) ''greater_than'') (\<lambda>_.
     bindE (validate_usage (es_usage r)) (\<lambda>_.
     bindE (validate_mode_visibility (es_mode r) (es_visibility r)) (\<lambda>_.
     bindE (guardE (distinct (es_checkpoint_ids r)) ''episode checkpoint ids must be unique'') (\<lambda>_.
     bindE (guardE (\<not> (es_mode r = Em_Fresh_Context \<and> length (es_checkpoint_ids r) \<noteq> 1))
       ''fresh_context result must own exactly one checkpoint'') (\<lambda>_.
     bindE (guardE (\<not> (es_status r = Es_Completed \<and> (es_failure_kind r \<noteq> None \<or> es_provider_error r \<noteq> None)))
       ''completed episode cannot declare a failure'') (\<lambda>_.
     bindE (guardE (\<not> (es_status r = Es_Failed \<and> es_failure_kind r = None))
       ''failed episode requires failure_kind'') (\<lambda>_. Inr r)))))))))"

definition validate_result_identity :: "episode_request \<Rightarrow> episode_result \<Rightarrow> string + unit" where
  "validate_result_identity q r =
     guardE ((es_episode_id r, es_attempt_id r, es_session_id r, es_checkpoint_ids r, es_mode r, es_visibility r,
         es_requested_adapter r, es_requested_model r, es_max_turns r)
       = (er_episode_id q, er_attempt_id q, er_session_id q, er_checkpoint_ids q, er_mode q, er_visibility q,
         er_adapter q, er_model q, er_max_turns q)) ''episode result identity does not match request''"

end
