(* ===== verification/Lifecycle_Episode_Run.thy ===== *)
theory Lifecycle_Episode_Run
  imports Lifecycle_Episode
begin

text \<open>
  \<^verbatim>\<open>run_lifecycle\<close> of \<^verbatim>\<open>lifecycles/runtime/lifecycle.py\<close>: the loop that releases a checkpoint, allocates an
  attempt, lets an episode environment work on it, and submits. The environment is code of the adapters:
  its methods are parameters that may change the whole host. So are the readings of the workspace files that
  the context quotes, and the JSON texts of requests and results.
\<close>

section \<open>The host\<close>

text \<open>
  What is on disk: the stored state, the files of \<^const>\<open>Lifecycle_Runtime.submit_checkpoint\<close>, the host
  documents under \<^verbatim>\<open>episodes/<checkpoint>/<session>/\<close> by their names, and the candidates kept under
  \<^verbatim>\<open>failed_submission/\<close>.
\<close>

type_synonym document_key = "string \<times> string \<times> string"

record host =
  ho_run :: "run_state option"
  ho_files :: run_files
  ho_documents :: "document_key \<Rightarrow> string option"
  ho_kept :: "string \<times> string \<Rightarrow> string option"

text \<open>
  An error of the run: of the runtime, of an environment with its kind, any other exception by its text, the
  result of a failed episode. The last constructor adds the notes of
  \<^verbatim>\<open>_annotate_reconciliation_errors\<close>.
\<close>

datatype run_error = Runtime_Error lifecycle_error | Environment_Error string string | Exception_Error string
  | Episode_Error string | Noted run_error "string list"

type_synonym 'a host_action = "(host, run_error, 'a) action"

definition annotated :: "run_error \<Rightarrow> string list \<Rightarrow> run_error" where
  "annotated e notes = (if notes = [] then e else Noted e notes)"

fun error_text :: "run_error \<Rightarrow> string" where
  "error_text (Runtime_Error (Lifecycle_Error m)) = m"
| "error_text (Runtime_Error (Prerequisite_Error m)) = m"
| "error_text (Runtime_Error (Lifecycle_Key_Error m)) = m"
| "error_text (Runtime_Error (Validation_Error m)) = m"
| "error_text (Environment_Error kind m) = m"
| "error_text (Exception_Error m) = m"
| "error_text (Episode_Error m) = m"
| "error_text (Noted e notes) = error_text e"

text \<open>The texts of requests and results, and what the workspace files of the context hold.\<close>

record episode_codec =
  dc_render_request :: "episode_request \<Rightarrow> string"
  dc_parse_request :: "string \<Rightarrow> episode_request option"
  dc_render_result :: "episode_result \<Rightarrow> string"
  dc_parse_result :: "string \<Rightarrow> episode_result option"

record workspace_view =
  wv_instruction :: "host \<Rightarrow> string"
  wv_operation_catalog :: "host \<Rightarrow> string \<Rightarrow> episode_operation_catalog option"
  wv_current_source :: "host \<Rightarrow> current_source option"

record run_setup =
  rs_package :: lifecycle_package
  rs_resolver :: "operation_resolver option"
  rs_authorization :: "string option"
  rs_workspace :: string
  rs_run_dir :: string
  rs_json :: json_codec
  rs_codec :: episode_codec
  rs_view :: workspace_view

text \<open>What an episode environment answers to \<^verbatim>\<open>execute\<close>; an object that is no result model is not parsed.\<close>

datatype execution_answer = Kind_Failure string string | Raised string | Unparsed string | Answered episode_result

record episode_environment =
  en_mode :: execution_mode
  en_visibility :: visibility_policy
  en_adapter :: string
  en_model :: string
  en_max_turns :: int
  en_recover :: "episode_context \<Rightarrow> (host, string, unit) action"
  en_prepare :: "episode_request \<Rightarrow> (host, string, unit) action"
  en_record_failure :: "episode_request \<Rightarrow> string \<Rightarrow> string option \<Rightarrow> (host, string, unit) action"
  en_execute :: "episode_request \<Rightarrow> host \<Rightarrow> execution_answer \<times> host"

definition liftE :: "(host \<Rightarrow> lifecycle_error + 'a) \<Rightarrow> 'a host_action" where
  "liftE f = readS (\<lambda>h. case f h of Inl e \<Rightarrow> Inl (Runtime_Error e) | Inr x \<Rightarrow> Inr x)"

text \<open>A call of an environment method; what it raises is an exception with a text.\<close>

definition env_call :: "(host, string, 'a) action \<Rightarrow> 'a host_action" where
  "env_call m = (\<lambda>h. case m h of (Inl t, h') \<Rightarrow> (Inl (Exception_Error t), h') | (Inr x, h') \<Rightarrow> (Inr x, h'))"

definition validE :: "(string + 'a) \<Rightarrow> 'a host_action" where
  "validE r = liftE (\<lambda>_. validated r)"

definition update_host :: "(host \<Rightarrow> host) \<Rightarrow> unit host_action" where
  "update_host f = (\<lambda>h. (Inr (), f h))"

definition store_run :: "run_state \<Rightarrow> unit host_action" where
  "store_run s = update_host (\<lambda>h. h\<lparr>ho_run := Some s\<rparr>)"

section \<open>The handlers on the host\<close>

text \<open>\<^verbatim>\<open>_load_state\<close>.\<close>

definition load_state :: "run_setup \<Rightarrow> lifecycle_spec \<Rightarrow> host \<Rightarrow> lifecycle_error + run_state" where
  "load_state su spec h =
     (case ho_run h of None \<Rightarrow> Inl (Lifecycle_Error ''lifecycle state not found'')
      | Some raw \<Rightarrow>
          bindE (load_checks (rs_package su) spec raw) (\<lambda>s.
          bindE (resolver_supplied spec (rs_resolver su)) (\<lambda>_. Inr s)))"

definition load_host :: "run_setup \<Rightarrow> (lifecycle_spec \<times> run_state) host_action" where
  "load_host su = liftE (\<lambda>h. bindE (load_spec (rs_package su)) (\<lambda>spec.
     bindE (load_state su spec h) (\<lambda>s. Inr (spec, s))))"

definition option_of :: "checkpoint_run \<Rightarrow> evidence_request_spec \<Rightarrow> request_option" where
  "option_of c r = \<lparr>qo_request_id = rq_request_id r, qo_title = rq_title r, qo_description = rq_description r,
     qo_prerequisites = rq_prerequisites r, qo_status = request_status c r\<rparr>"

definition catalog_of :: "checkpoint_spec \<Rightarrow> checkpoint_run \<Rightarrow> episode_request_catalog option" where
  "catalog_of d c = map_option (\<lambda>e. \<lparr>qc_checkpoint_id = cs_checkpoint_id d, qc_request_budget = cr_request_budget c,
     qc_remaining_budget = cr_request_remaining c, qc_requests = map (option_of c) (ce_requests e)\<rparr>) (cs_evidence d)"

definition completed_of :: "run_state \<Rightarrow> completed_checkpoint list" where
  "completed_of s = map (\<lambda>c. \<lparr>kc_checkpoint_id = cr_checkpoint_id c,
      kc_submission_path = (case cr_submission_path c of None \<Rightarrow> [] | Some p \<Rightarrow> p),
      kc_submission_sha256 = (case cr_submission_sha256 c of None \<Rightarrow> [] | Some d \<Rightarrow> d),
      kc_released_files = cr_released_files c\<rparr>) (filter (\<lambda>c. cr_status c = Cp_Submitted) (ru_checkpoints s))"

text \<open>
  \<^verbatim>\<open>_checkpoint_context\<close> and \<^verbatim>\<open>LifecycleEpisodeContext.from_runtime_context\<close>: the projection of the active
  checkpoint, and what the visibility policy of the environment shows of it.
\<close>

definition checkpoint_context :: "run_setup \<Rightarrow> visibility_policy \<Rightarrow> checkpoint_spec \<Rightarrow> run_state \<Rightarrow> host
    \<Rightarrow> lifecycle_error + episode_context" where
  "checkpoint_context su policy d s h =
     bindE (index_checkpoint s (cs_checkpoint_id d)) (\<lambda>c.
     let view = rs_view su; runs = visible_runs policy c (ru_checkpoints s) in
     bindE (guardE (\<not> (wv_operation_catalog view h (cs_checkpoint_id d) \<noteq> None \<and> wv_current_source view h = None))
       (Lifecycle_Error ''operation catalogue exists without a visible current source'')) (\<lambda>_.
     validated (validate_episode_context
       \<lparr>ec_lifecycle_id = ru_lifecycle_id s, ec_spec_sha256 = ru_spec_sha256 s, ec_package_sha256 = ru_package_sha256 s,
        ec_status = ru_status s, ec_active_checkpoint_id = (case ru_active s of None \<Rightarrow> [] | Some i \<Rightarrow> i),
        ec_checkpoint_id = cs_checkpoint_id d, ec_title = cs_title d, ec_workspace = rs_workspace su,
        ec_run_dir = rs_run_dir su, ec_instruction = wv_instruction view h, ec_instruction_path = ''instruction.md'',
        ec_submission_path = cs_submission_path d, ec_released_files = cr_released_files c,
        ec_request_catalog = catalog_of d c, ec_released_artifacts = visible_evidence runs,
        ec_operation_catalog = wv_operation_catalog view h (cs_checkpoint_id d),
        ec_current_source = wv_current_source view h, ec_operation_artifacts = visible_operations runs,
        ec_completed = completed_of s, ec_checkpoint_runs = ru_checkpoints s\<rparr>)))"

definition state_to_release :: "run_setup \<Rightarrow> lifecycle_spec \<Rightarrow> run_state host_action" where
  "state_to_release su spec = (\<lambda>h. case ho_run h of
       None \<Rightarrow> bindS (liftE (\<lambda>_. bindE (preflight_checkpoint (rs_package su) (ls_checkpoints spec ! 0)) (\<lambda>_.
           initial_state (rs_package su) spec (rs_authorization su)))) (\<lambda>s.
         bindS (store_run s) (\<lambda>_. returnS s)) h
     | Some raw \<Rightarrow> liftE (\<lambda>h. bindE (load_state su spec h) (\<lambda>s.
         bindE (guardE (\<not> (rs_authorization su \<noteq> None \<and> ru_authorization s \<noteq> rs_authorization su))
           (Lifecycle_Error ''lifecycle run authorization does not match existing state'')) (\<lambda>_. Inr s))) h)"

text \<open>
  \<^verbatim>\<open>release_checkpoint\<close>: the state that is created is stored before the release, so that it stays when the
  release fails. The result is the declared checkpoint that is active, or nothing when the run is complete.
\<close>

definition release_host :: "run_setup \<Rightarrow> (checkpoint_spec \<times> run_state) option host_action" where
  "release_host su =
     bindS (liftE (\<lambda>_. load_spec (rs_package su))) (\<lambda>spec.
     bindS (liftE (\<lambda>_. resolver_supplied spec (rs_resolver su))) (\<lambda>_.
     bindS (liftE (\<lambda>_. if supports_requests spec then bindE (load_resolutions (rs_package su) spec) (\<lambda>_. Inr ())
       else Inr ())) (\<lambda>_.
     bindS (state_to_release su spec) (\<lambda>s.
     bindS (liftE (\<lambda>h. release_checkpoint (rs_package su) spec (ho_files h) s)) (\<lambda>s'.
     bindS (store_run s') (\<lambda>_.
     if ru_status s' = Run_Complete then returnS None
     else liftE (\<lambda>_. case ru_active s' of
         None \<Rightarrow> Inl (Lifecycle_Error ''no checkpoint is active'')
       | Some active \<Rightarrow> (case find_row cs_checkpoint_id active (ls_checkpoints spec) of
             None \<Rightarrow> Inl (Lifecycle_Error (''unknown checkpoint in lifecycle state: '' @ active))
           | Some d \<Rightarrow> Inr (Some (d, s'))))))))))"

definition open_host :: "run_setup \<Rightarrow> string \<Rightarrow> string \<Rightarrow> string option \<Rightarrow> checkpoint_attempt host_action" where
  "open_host su session mode request_sha256 =
     bindS (load_host su) (\<lambda>(spec, s).
     bindS (liftE (\<lambda>_. open_attempt session mode request_sha256 s)) (\<lambda>s'.
     bindS (store_run s') (\<lambda>_.
     liftE (\<lambda>_. case ru_active s' of None \<Rightarrow> Inl (Lifecycle_Error ''no checkpoint is active'')
       | Some active \<Rightarrow> bindE (index_checkpoint s' active) (\<lambda>c. case last_attempt c of
             None \<Rightarrow> Inl (Lifecycle_Error ''no checkpoint attempt is active'') | Some t \<Rightarrow> Inr t)))))"

definition fail_host :: "run_setup \<Rightarrow> string \<Rightarrow> string \<Rightarrow> unit host_action" where
  "fail_host su session kind =
     bindS (load_host su) (\<lambda>(spec, s).
     bindS (liftE (\<lambda>_. fail_attempt session kind s)) store_run)"

definition submit_host :: "run_setup \<Rightarrow> run_state host_action" where
  "submit_host su =
     bindS (load_host su) (\<lambda>(spec, s).
     bindS (liftE (\<lambda>h. submit_checkpoint (rs_json su) spec (ho_files h) s)) (\<lambda>(files, s').
     bindS (update_host (\<lambda>h. h\<lparr>ho_files := files, ho_run := Some s'\<rparr>)) (\<lambda>_. returnS s')))"

section \<open>Documents\<close>

text \<open>\<^verbatim>\<open>_persist_host_json\<close> over an immutable byte store: equal bytes are accepted again, others collide.\<close>

definition persist_document :: "document_key \<Rightarrow> string \<Rightarrow> string \<Rightarrow> unit host_action" where
  "persist_document key payload message = (\<lambda>h. case ho_documents h key of
       None \<Rightarrow> (Inr (), h\<lparr>ho_documents := (ho_documents h)(key := Some payload)\<rparr>)
     | Some bytes \<Rightarrow> if bytes = payload then (Inr (), h) else (Inl (Runtime_Error (Lifecycle_Error message)), h))"

definition request_key :: "episode_request \<Rightarrow> string \<Rightarrow> document_key" where
  "request_key r name = (er_checkpoint_id r, er_session_id r, name)"

definition request_document :: string where "request_document = ''episode_request.json''"

definition result_document :: string where "result_document = ''episode_result.json''"

definition rejected_document :: string where "rejected_document = ''rejected_episode_result.json''"

definition persist_request :: "run_setup \<Rightarrow> episode_request \<Rightarrow> string host_action" where
  "persist_request su r =
     (let payload = dc_render_request (rs_codec su) r in
      bindS (persist_document (request_key r request_document) payload
        (''episode request conflicts with durable attempt: '' @ er_attempt_id r)) (\<lambda>_. returnS (sha256 payload)))"

definition persist_result :: "run_setup \<Rightarrow> episode_request \<Rightarrow> string \<Rightarrow> episode_result \<Rightarrow> unit host_action" where
  "persist_result su q name r =
     persist_document (request_key q name) (dc_render_result (rs_codec su) r)
       (''episode result conflicts with durable attempt: '' @ er_attempt_id q)"

definition build_request :: "episode_environment \<Rightarrow> string \<Rightarrow> string \<Rightarrow> episode_context \<Rightarrow> string + episode_request" where
  "build_request en attempt session c = validate_episode_request
     \<lparr>er_episode_id = ec_lifecycle_id c @ ''.'' @ attempt, er_lifecycle_id = ec_lifecycle_id c,
      er_spec_sha256 = ec_spec_sha256 c, er_package_sha256 = ec_package_sha256 c,
      er_checkpoint_id = ec_checkpoint_id c, er_checkpoint_ids = [ec_checkpoint_id c],
      er_attempt_id = attempt, er_session_id = session, er_mode = en_mode en, er_visibility = en_visibility en,
      er_adapter = en_adapter en, er_model = en_model en, er_max_turns = en_max_turns en, er_title = ec_title c,
      er_instruction = ec_instruction c, er_workspace = ec_workspace c, er_run_dir = ec_run_dir c,
      er_instruction_path = ec_instruction_path c, er_submission_path = ec_submission_path c,
      er_released_files = ec_released_files c, er_request_catalog = ec_request_catalog c,
      er_released_artifacts = ec_released_artifacts c, er_operation_catalog = ec_operation_catalog c,
      er_current_source = ec_current_source c, er_operation_artifacts = ec_operation_artifacts c,
      er_completed = map kc_checkpoint_id (ec_completed c)\<rparr>"

text \<open>\<^verbatim>\<open>provider_error or failure_kind\<close>: an empty text gives way to the kind, a blank one does not.\<close>

definition failed_result :: "episode_request \<Rightarrow> string \<Rightarrow> string option \<Rightarrow> string + episode_result" where
  "failed_result q kind provider_error = validate_episode_result
     \<lparr>es_episode_id = er_episode_id q, es_attempt_id = er_attempt_id q, es_session_id = er_session_id q,
      es_checkpoint_ids = er_checkpoint_ids q, es_mode = er_mode q, es_visibility = er_visibility q,
      es_status = Es_Failed, es_requested_adapter = er_adapter q, es_requested_model = er_model q,
      es_max_turns = er_max_turns q, es_adapter = ''unresolved'', es_resolved_model = ''unresolved'',
      es_configuration = [], es_usage = \<lparr>us_input = 0, us_output = 0, us_cache_read = 0, us_cache_write = 0\<rparr>,
      es_failure_kind = Some kind,
      es_provider_error = Some (case provider_error of None \<Rightarrow> kind | Some t \<Rightarrow> if t = [] then kind else t)\<rparr>"

section \<open>Recovery and closing\<close>

definition active_run :: "episode_context \<Rightarrow> lifecycle_error + checkpoint_run" where
  "active_run c = (case find_row cr_checkpoint_id (ec_checkpoint_id c) (ec_checkpoint_runs c) of
     None \<Rightarrow> Inl (Lifecycle_Key_Error (ec_checkpoint_id c)) | Some r \<Rightarrow> Inr r)"

text \<open>
  \<^verbatim>\<open>_recover_host_episode_attempt\<close>: the documents of an interrupted attempt are checked against the
  allocation, and a missing result is recorded as an interruption.
\<close>

definition recover_host_attempt :: "run_setup \<Rightarrow> episode_environment \<Rightarrow> episode_context \<Rightarrow> unit host_action" where
  "recover_host_attempt su en c =
     bindS (liftE (\<lambda>_. active_run c)) (\<lambda>r. case active_attempt r of
       None \<Rightarrow> returnS ()
     | Some t \<Rightarrow>
         bindS (readS (\<lambda>h. Inr (ho_documents h (ec_checkpoint_id c, ct_session_id t, request_document)))) (\<lambda>stored.
         case stored of
           None \<Rightarrow> if ct_request_sha256 t = None then returnS ()
             else raiseS (Runtime_Error (Lifecycle_Error (''interrupted episode request is missing: '' @ ct_attempt_id t)))
         | Some bytes \<Rightarrow>
             if ct_request_sha256 t \<noteq> None \<and> ct_request_sha256 t \<noteq> Some (sha256 bytes)
             then raiseS (Runtime_Error (Lifecycle_Error (''interrupted episode request hash mismatch: '' @ ct_attempt_id t)))
             else (case dc_parse_request (rs_codec su) bytes of
               None \<Rightarrow> raiseS (Runtime_Error (Validation_Error ''invalid episode request''))
             | Some q \<Rightarrow>
                 bindS (validE (build_request en (ct_attempt_id t) (ct_session_id t) c)) (\<lambda>expected.
                 if q \<noteq> expected
                 then raiseS (Runtime_Error (Lifecycle_Error (''interrupted episode request identity mismatch: '' @ ct_attempt_id t)))
                 else bindS (readS (\<lambda>h. Inr (ho_documents h (ec_checkpoint_id c, ct_session_id t, result_document)))) (\<lambda>result.
                 case result of
                   Some text \<Rightarrow> (case dc_parse_result (rs_codec su) text of
                       None \<Rightarrow> raiseS (Runtime_Error (Validation_Error ''invalid episode result''))
                     | Some e \<Rightarrow> if isOK (validate_result_identity q e) then returnS ()
                         else raiseS (Runtime_Error (Lifecycle_Error
                           (''interrupted episode result identity mismatch: '' @ ct_attempt_id t))))
                 | None \<Rightarrow>
                     bindS (validE (failed_result q ''interrupted''
                       (Some ''episode interrupted before a durable result was recorded''))) (\<lambda>failure.
                     persist_result su q result_document failure))))))"

text \<open>\<^verbatim>\<open>_quarantine_prepared_host_artifacts\<close>: reserved documents an environment has made are moved aside.\<close>

definition quarantined_name :: "string \<Rightarrow> string" where
  "quarantined_name name = ''environment_prepared_'' @ name"

definition quarantine_one :: "run_setup \<Rightarrow> episode_request \<Rightarrow> string \<Rightarrow> string list \<Rightarrow> string list host_action" where
  "quarantine_one su q name moved = (\<lambda>h. case ho_documents h (request_key q name) of
       None \<Rightarrow> (Inr moved, h)
     | Some bytes \<Rightarrow>
         if name = request_document \<and> bytes = dc_render_request (rs_codec su) q then (Inr moved, h)
         else if ho_documents h (request_key q (quarantined_name name)) \<noteq> None
         then (Inl (Runtime_Error (Lifecycle_Error ''prepared episode result quarantine already exists'')), h)
         else (Inr (moved @ [name]), h\<lparr>ho_documents := (ho_documents h)
           (request_key q (quarantined_name name) := Some bytes, request_key q name := None)\<rparr>))"

definition quarantine_prepared :: "run_setup \<Rightarrow> episode_request \<Rightarrow> string list host_action" where
  "quarantine_prepared su q = foldS (quarantine_one su q) [request_document, result_document, rejected_document] []"

definition adopt_request :: "run_setup \<Rightarrow> episode_request \<Rightarrow> episode_request host_action" where
  "adopt_request su q = readS (\<lambda>h. Inr (case ho_documents h (request_key q request_document) of
       None \<Rightarrow> q
     | Some bytes \<Rightarrow> (case dc_parse_request (rs_codec su) bytes of
           None \<Rightarrow> q | Some durable \<Rightarrow> if durable = q then durable else q)))"

text \<open>\<^verbatim>\<open>_preserve_submission_candidate\<close>: a candidate is moved under the attempt that left it.\<close>

definition preserve_candidate :: "string \<Rightarrow> string \<Rightarrow> string \<Rightarrow> string \<Rightarrow> bool host_action" where
  "preserve_candidate path checkpoint_id session attempt = (\<lambda>h. case rf_workspace (ho_files h) path of
       None \<Rightarrow> (Inr False, h)
     | Some bytes \<Rightarrow>
         let gone = (ho_files h)\<lparr>rf_workspace := (rf_workspace (ho_files h))(path := None)\<rparr> in
         (case ho_kept h (checkpoint_id, session) of
            Some kept \<Rightarrow> if sha256 kept \<noteq> sha256 bytes
              then (Inl (Runtime_Error (Lifecycle_Error
                (''preserved checkpoint candidate conflicts with retry source: '' @ attempt))), h)
              else (Inr True, h\<lparr>ho_files := gone\<rparr>)
          | None \<Rightarrow> (Inr True, h\<lparr>ho_files := gone, ho_kept := (ho_kept h)((checkpoint_id, session) := Some bytes)\<rparr>)))"

definition preserve_prior :: "episode_context \<Rightarrow> unit host_action" where
  "preserve_prior c =
     bindS (readS (\<lambda>h. Inr (rf_workspace (ho_files h) (ec_submission_path c)))) (\<lambda>submission. case submission of
       None \<Rightarrow> returnS ()
     | Some bytes \<Rightarrow>
         bindS (liftE (\<lambda>_. active_run c)) (\<lambda>r. case last_attempt r of
           None \<Rightarrow> raiseS (Runtime_Error (Lifecycle_Error ''checkpoint submission exists before the first episode attempt''))
         | Some t \<Rightarrow> if ct_status t = Ca_Submitted
             then raiseS (Runtime_Error (Lifecycle_Error ''submitted attempt left a mutable active checkpoint candidate''))
             else bindS (preserve_candidate (ec_submission_path c) (ec_checkpoint_id c) (ct_session_id t) (ct_attempt_id t))
               (\<lambda>_. returnS ())))"

definition is_lifecycle_error :: "run_error \<Rightarrow> bool" where
  "is_lifecycle_error e = (case e of Runtime_Error (Lifecycle_Error m) \<Rightarrow> True
     | Runtime_Error (Prerequisite_Error m) \<Rightarrow> True | _ \<Rightarrow> False)"

text \<open>\<^verbatim>\<open>_fail_episode_attempt_if_active\<close>: whether the attempt was still the active one, and is now closed.\<close>

definition fail_if_active :: "run_setup \<Rightarrow> string \<Rightarrow> string \<Rightarrow> bool host_action" where
  "fail_if_active su session kind =
     bindS (catchS (bindS (load_host su) (\<lambda>(spec, s). returnS (Some s))) is_lifecycle_error (\<lambda>_. returnS None)) (\<lambda>loaded.
     case loaded of None \<Rightarrow> returnS False
     | Some s \<Rightarrow> (case ru_active s of None \<Rightarrow> returnS False
         | Some active \<Rightarrow>
             bindS (liftE (\<lambda>_. index_checkpoint s active)) (\<lambda>c. case active_attempt c of
               None \<Rightarrow> returnS False
             | Some t \<Rightarrow> if ct_session_id t \<noteq> session then returnS False
                 else bindS (fail_host su session kind) (\<lambda>_. returnS True))))"

definition note_on_error :: "string \<Rightarrow> 'a host_action \<Rightarrow> string list host_action" where
  "note_on_error prefix m = catchS (bindS m (\<lambda>_. returnS [])) (\<lambda>_. True) (\<lambda>e. returnS [prefix @ error_text e])"

definition close_failure :: "run_setup \<Rightarrow> episode_environment \<Rightarrow> episode_request \<Rightarrow> string \<Rightarrow> string option
    \<Rightarrow> string list host_action" where
  "close_failure su en q kind provider_error =
     bindS (fail_if_active su (er_session_id q) kind) (\<lambda>closed.
     if \<not> closed then returnS [''host attempt was no longer active; environment artifacts were left unchanged'']
     else bindS (note_on_error ''environment failure reconciliation failed: '' (env_call (en_record_failure en q kind provider_error))) (\<lambda>a.
       bindS (note_on_error ''submission candidate preservation failed: ''
         (preserve_candidate (er_submission_path q) (er_checkpoint_id q) (er_session_id q) (er_attempt_id q))) (\<lambda>b.
       returnS (a @ b))))"

definition persist_or_close :: "run_setup \<Rightarrow> episode_environment \<Rightarrow> episode_request \<Rightarrow> string \<Rightarrow> episode_result
    \<Rightarrow> unit host_action" where
  "persist_or_close su en q name r =
     catchS (persist_result su q name r) (\<lambda>_. True) (\<lambda>e.
       bindS (close_failure su en q ''episode_result_persistence_error'' (Some (error_text e))) (\<lambda>notes.
       raiseS (annotated e notes)))"

text \<open>The end of every failing branch: the failed result is published, the attempt closed, the error raised.\<close>

definition fail_episode :: "run_setup \<Rightarrow> episode_environment \<Rightarrow> episode_request \<Rightarrow> string \<Rightarrow> string \<Rightarrow> run_error
    \<Rightarrow> 'a host_action" where
  "fail_episode su en q kind text e =
     bindS (validE (failed_result q kind (Some text))) (\<lambda>failure.
     bindS (persist_or_close su en q result_document failure) (\<lambda>_.
     bindS (close_failure su en q kind (Some text)) (\<lambda>notes.
     raiseS (annotated e notes))))"

section \<open>One checkpoint\<close>

definition fresh_context :: "run_setup \<Rightarrow> episode_environment \<Rightarrow> (checkpoint_spec \<times> run_state) option
    \<Rightarrow> episode_context host_action" where
  "fresh_context su en released = (case released of
       None \<Rightarrow> raiseS (Runtime_Error (Lifecycle_Key_Error ''checkpoint_id''))
     | Some (d, s) \<Rightarrow> liftE (checkpoint_context su (en_visibility en) d s))"

definition allocate_request :: "run_setup \<Rightarrow> episode_environment \<Rightarrow> episode_context \<Rightarrow> episode_request host_action" where
  "allocate_request su en c =
     bindS (liftE (\<lambda>_. active_run c)) (\<lambda>r.
     let n = length (cr_attempts r) + 1 in
     bindS (validE (build_request en (attempt_id (ec_checkpoint_id c) n)
       (ec_checkpoint_id c @ ''.session-'' @ padded 3 n) c)) (adopt_request su))"

text \<open>The attempt is published after the request, and has to be the allocated one.\<close>

definition publish_attempt :: "run_setup \<Rightarrow> episode_request \<Rightarrow> unit host_action" where
  "publish_attempt su q =
     bindS (persist_request su q) (\<lambda>digest.
     bindS (open_host su (er_session_id q) ''fresh_context'' (Some digest)) (\<lambda>t.
     if ct_attempt_id t \<noteq> er_attempt_id q \<or> ct_session_id t \<noteq> er_session_id q
     then raiseS (Runtime_Error (Lifecycle_Error ''published checkpoint attempt does not match allocated episode request''))
     else returnS ()))"

definition prepare_attempt :: "run_setup \<Rightarrow> episode_environment \<Rightarrow> episode_request \<Rightarrow> string list host_action" where
  "prepare_attempt su en q =
     bindS (catchS (env_call (en_prepare en q)) (\<lambda>_. True) (\<lambda>e.
       bindS (quarantine_prepared su q) (\<lambda>_.
       bindS (publish_attempt su q) (\<lambda>_.
       fail_episode su en q ''episode_preparation_exception'' (error_text e) e)))) (\<lambda>_.
     bindS (quarantine_prepared su q) (\<lambda>moved.
     bindS (publish_attempt su q) (\<lambda>_.
     readS (\<lambda>h. Inr (moved @ (if rf_workspace (ho_files h) (er_submission_path q) \<noteq> None
       then [''checkpoint submission''] else []))))))"

definition begin_checkpoint :: "run_setup \<Rightarrow> episode_environment \<Rightarrow> (checkpoint_spec \<times> run_state)
    \<Rightarrow> (episode_request \<times> string list) host_action" where
  "begin_checkpoint su en released =
     bindS (fresh_context su en (Some released)) (\<lambda>c.
     bindS (recover_host_attempt su en c) (\<lambda>_.
     bindS (env_call (en_recover en c)) (\<lambda>_.
     bindS (release_host su) (\<lambda>again.
     bindS (fresh_context su en again) (\<lambda>c.
     bindS (preserve_prior c) (\<lambda>_.
     bindS (allocate_request su en c) (\<lambda>q.
     bindS (prepare_attempt su en q) (\<lambda>violations. returnS (q, violations)))))))))"

text \<open>What the loop does with an answer: a valid result with the allocated identity goes on, the rest fails.\<close>

definition accept_answer :: "run_setup \<Rightarrow> episode_environment \<Rightarrow> episode_request \<Rightarrow> execution_answer
    \<Rightarrow> episode_result host_action" where
  "accept_answer su en q answer = (case answer of
       Kind_Failure kind text \<Rightarrow> fail_episode su en q kind text (Environment_Error kind text)
     | Raised text \<Rightarrow> fail_episode su en q ''episode_environment_exception'' text (Exception_Error text)
     | Unparsed text \<Rightarrow> fail_episode su en q ''episode_result_invalid'' text
         (Runtime_Error (Lifecycle_Error ''environment returned an invalid episode result''))
     | Answered r \<Rightarrow> (case validate_episode_result r of
           Inl text \<Rightarrow> fail_episode su en q ''episode_result_invalid'' text
             (Runtime_Error (Lifecycle_Error ''environment returned an invalid episode result''))
         | Inr r \<Rightarrow> (case validate_result_identity q r of
               Inr _ \<Rightarrow> bindS (persist_or_close su en q result_document r) (\<lambda>_. returnS r)
             | Inl text \<Rightarrow> bindS (persist_or_close su en q rejected_document r) (\<lambda>_.
                 fail_episode su en q ''episode_result_identity_mismatch'' text (Runtime_Error (Lifecycle_Error text))))))"

definition finish_checkpoint :: "run_setup \<Rightarrow> episode_environment \<Rightarrow> episode_request \<Rightarrow> string list
    \<Rightarrow> run_state host_action" where
  "finish_checkpoint su en q violations =
     (if violations \<noteq> [] then
        let text = ''episode preparation created reserved artifacts: '' @ comma_join violations in
        fail_episode su en q ''episode_preparation_invalid'' text (Runtime_Error (Lifecycle_Error text))
      else
        bindS (\<lambda>h. case en_execute en q h of (answer, h') \<Rightarrow> (Inr answer, h')) (\<lambda>answer.
        bindS (accept_answer su en q answer) (\<lambda>r.
        if es_status r = Es_Failed then
          let kind = (case es_failure_kind r of None \<Rightarrow> ''episode_failed'' | Some k \<Rightarrow> k) in
          bindS (close_failure su en q kind (es_provider_error r)) (\<lambda>notes.
          raiseS (annotated (Episode_Error (''episode failed at checkpoint '' @ er_checkpoint_id q @ '': '' @ kind)) notes))
        else catchS (submit_host su) (\<lambda>_. True) (\<lambda>e.
          bindS (close_failure su en q ''episode_submission_invalid'' (Some (error_text e))) (\<lambda>notes.
          raiseS (annotated e notes))))))"

section \<open>The loop\<close>

definition run_checkpoint :: "run_setup \<Rightarrow> episode_environment \<Rightarrow> bool host_action" where
  "run_checkpoint su en =
     bindS (release_host su) (\<lambda>released. case released of
       None \<Rightarrow> returnS True
     | Some first \<Rightarrow>
         bindS (begin_checkpoint su en first) (\<lambda>(q, violations).
         bindS (finish_checkpoint su en q violations) (\<lambda>s. returnS (ru_status s = Run_Complete))))"

text \<open>
  The loop need not end, so its result is an option: nothing is returned when it does not. The theorems
  show that it always does.
\<close>

partial_function (option) run_checkpoints :: "run_setup \<Rightarrow> episode_environment \<Rightarrow> host
    \<Rightarrow> ((run_error + run_state) \<times> host) option" where
  "run_checkpoints su en h = (case run_checkpoint su en h of
       (Inl e, h') \<Rightarrow> Some (Inl e, h')
     | (Inr over, h') \<Rightarrow> if over then Some (case ho_run h' of
           None \<Rightarrow> (Inl (Runtime_Error (Lifecycle_Error ''lifecycle state not found'')), h') | Some s \<Rightarrow> (Inr s, h'))
         else run_checkpoints su en h')"

definition run_lifecycle :: "run_setup \<Rightarrow> episode_environment \<Rightarrow> host \<Rightarrow> ((run_error + run_state) \<times> host) option" where
  "run_lifecycle su en h =
     (if en_mode en \<noteq> Em_Fresh_Context
      then Some (Inl (Exception_Error ''checkpoint lifecycle runner requires fresh_context episode execution''), h)
      else run_checkpoints su en h)"

section \<open>An environment in the process\<close>

text \<open>
  \<^verbatim>\<open>InProcessLifecycleEpisodeEnvironment\<close>: only an executor of the application, whose result is validated
  inside \<^verbatim>\<open>execute\<close>, so that an invalid one is an exception there.
\<close>

definition in_process_execute :: "(episode_request \<Rightarrow> host \<Rightarrow> execution_answer \<times> host) \<Rightarrow> episode_request \<Rightarrow> host
    \<Rightarrow> execution_answer \<times> host" where
  "in_process_execute executor q h = (case executor q h of
       (Answered r, h') \<Rightarrow> (case validate_episode_result r of Inl t \<Rightarrow> (Raised t, h') | Inr r' \<Rightarrow> (Answered r', h'))
     | (Unparsed t, h') \<Rightarrow> (Raised t, h')
     | (answer, h') \<Rightarrow> (answer, h'))"

definition in_process_environment :: "(episode_request \<Rightarrow> host \<Rightarrow> execution_answer \<times> host) \<Rightarrow> visibility_policy
    \<Rightarrow> execution_mode \<Rightarrow> string \<Rightarrow> string \<Rightarrow> int \<Rightarrow> string + episode_environment" where
  "in_process_environment executor policy mode adapter model max_turns =
     bindE (validate_mode_visibility mode policy) (\<lambda>_. Inr
       \<lparr>en_mode = mode, en_visibility = policy, en_adapter = adapter, en_model = model, en_max_turns = max_turns,
        en_recover = (\<lambda>_. returnS ()), en_prepare = (\<lambda>_. returnS ()), en_record_failure = (\<lambda>_ _ _. returnS ()),
        en_execute = in_process_execute executor\<rparr>)"

text \<open>The environment with the defaults of the class.\<close>

definition deterministic_environment :: "(episode_request \<Rightarrow> host \<Rightarrow> execution_answer \<times> host)
    \<Rightarrow> string + episode_environment" where
  "deterministic_environment executor =
     in_process_environment executor Vp_Artifact_Memory Em_Fresh_Context ''deterministic'' ''gold'' 1"

end
