(* ===== verification/Lifecycle_Facts.thy ===== *)
theory Lifecycle_Facts
  imports Lifecycle_Runtime
begin

text \<open>
  Facts about loaded states that the invariant and the refinement of the lifecycle share: the validators
  as conditions, the three phases of a state, the effect of a mutation of one checkpoint, and the
  replays of the two protocols as functions of what they read.
\<close>

named_theorems run_simps \<open>the validators of the run records as conditions\<close>

section \<open>The validators as conditions\<close>

lemma checked_iff: "isOK (bindE m (\<lambda>_. Inr x)) \<longleftrightarrow> isOK m"
  by (cases m) simp_all

lemma validated_Inr: "validated r = Inr x \<longleftrightarrow> r = Inr x"
  by (cases r) (simp_all add: validated_def)

lemma check_then_Inr: "bindE m (\<lambda>_. Inr x) = Inr y \<longleftrightarrow> isOK m \<and> y = x"
  by (cases m) auto

lemma guarded_Inr: "bindE (guardE b e) f = Inr y \<longleftrightarrow> b \<and> f () = Inr y"
  by (cases b) simp_all

lemma bindE_assoc: "bindE (bindE m f) g = bindE m (\<lambda>x. bindE (f x) g)"
  by (cases m) simp_all

text \<open>A budget chain reads the actions as a walk from one budget to the next.\<close>

lemma request_chain_append:
  "request_budget_chain i b (xs @ ys) = bindE (request_budget_chain i b xs) (\<lambda>r. request_budget_chain i r ys)"
  by (induction xs arbitrary: b) (simp_all add: bindE_assoc)

lemma operation_chain_append:
  "operation_budget_chain i b (xs @ ys) = bindE (operation_budget_chain i b xs) (\<lambda>r. operation_budget_chain i r ys)"
  by (induction xs arbitrary: b) (simp_all add: bindE_assoc)

lemma request_chain_snoc:
  "request_budget_chain i b (xs @ [a]) = Inr r \<longleftrightarrow>
     (\<exists>m. request_budget_chain i b xs = Inr m \<and> aq_checkpoint_id a = i \<and> aq_budget_before a = m \<and> r = aq_budget_after a)"
  by (auto simp: request_chain_append bindE_eq_Inr_iff guardE_eq_Inr_iff)

lemma operation_chain_snoc:
  "operation_budget_chain i b (xs @ [a]) = Inr r \<longleftrightarrow>
     (\<exists>m. operation_budget_chain i b xs = Inr m \<and> ao_checkpoint_id a = i \<and> ao_budget_before a = m \<and> r = ao_budget_after a)"
  by (auto simp: operation_chain_append bindE_eq_Inr_iff guardE_eq_Inr_iff)

definition attempts_ok :: "checkpoint_attempt list \<Rightarrow> bool" where
  "attempts_ok as \<longleftrightarrow> (\<forall>a\<in>set as. isOK (validate_checkpoint_attempt a))
     \<and> length (filter (\<lambda>a. ct_status a = Ca_Active) as) \<le> 1
     \<and> map ct_sequence as = [1..int (length as)]"

definition requests_ok :: "checkpoint_run \<Rightarrow> bool" where
  "requests_ok c \<longleftrightarrow> 0 \<le> cr_request_budget c \<and> 0 \<le> cr_request_remaining c
     \<and> cr_request_remaining c \<le> cr_request_budget c
     \<and> (\<forall>a\<in>set (cr_request_actions c). isOK (validate_request_action a))
     \<and> request_budget_chain (cr_checkpoint_id c) (cr_request_budget c) (cr_request_actions c)
         = Inr (cr_request_remaining c)"

definition operations_ok :: "checkpoint_run \<Rightarrow> bool" where
  "operations_ok c \<longleftrightarrow> 0 \<le> cr_operation_budget c \<and> 0 \<le> cr_operation_remaining c
     \<and> cr_operation_remaining c \<le> cr_operation_budget c
     \<and> (\<forall>a\<in>set (cr_operation_actions c). isOK (validate_operation_action a))
     \<and> operation_budget_chain (cr_checkpoint_id c) (cr_operation_budget c) (cr_operation_actions c)
         = Inr (cr_operation_remaining c)"

lemma checkpoint_run_iff [run_simps]:
  "isOK (validate_checkpoint_run c) \<longleftrightarrow> \<not> py_blank (cr_checkpoint_id c)
     \<and> (cr_status c = Cp_Submitted \<longrightarrow> cr_submission_path c \<noteq> None \<and> cr_submission_sha256 c \<noteq> None)
     \<and> attempts_ok (cr_attempts c) \<and> requests_ok c \<and> operations_ok c"
  by (auto simp: validate_checkpoint_run_def validate_submission_and_attempts_def attempts_ok_def requests_ok_def
      operations_ok_def isOK_bindE_const checked_iff bindE_guardE_OK isOK_bindE)

definition branch_ok :: "run_state \<Rightarrow> bool" where
  "branch_ok s \<longleftrightarrow> (case ru_branch s of None \<Rightarrow> True
     | Some b \<Rightarrow> isOK (validate_branch b) \<and> lb_parent_action_state b \<noteq> None
         \<and> lb_from_checkpoint b \<in> cr_checkpoint_id ` set (ru_checkpoints s))"

definition identity_ok :: "run_state \<Rightarrow> bool" where
  "identity_ok s \<longleftrightarrow> \<not> py_blank (ru_lifecycle_id s) \<and> \<not> py_blank (ru_spec_sha256 s)
     \<and> \<not> py_blank (ru_package_sha256 s) \<and> (\<forall>a. ru_authorization s = Some a \<longrightarrow> is_sha256 a)
     \<and> (\<forall>r\<in>set (ru_revisits s). isOK (validate_revisit r))
     \<and> (\<forall>t\<in>set (ru_transitions s). isOK (validate_transition_record t))"

definition schema_ok :: "run_state \<Rightarrow> bool" where
  "schema_ok s \<longleftrightarrow> (ru_schema s = Schema_6 \<longrightarrow> (\<forall>c\<in>set (ru_checkpoints s). cr_operation_actions c = []
     \<and> cr_operation_budget c = 0 \<and> cr_operation_remaining c = 0))"

definition numbered :: "nat \<Rightarrow> (nat \<Rightarrow> string) \<Rightarrow> (int \<times> string) list" where
  "numbered n name = map (\<lambda>k. (int k, name k)) [1..<Suc n]"

definition actions_numbered :: "run_state \<Rightarrow> bool" where
  "actions_numbered s \<longleftrightarrow>
     map (\<lambda>a. (aq_sequence a, aq_action_id a)) (all_request_actions s)
       = numbered (length (all_request_actions s)) request_action_id
     \<and> map (\<lambda>a. (ao_sequence a, ao_action_id a)) (all_operation_actions s)
       = numbered (length (all_operation_actions s)) operation_action_id"

lemma numbered_Suc: "numbered (Suc n) name = numbered n name @ [(int (Suc n), name (Suc n))]"
  by (simp add: numbered_def)

lemma length_numbered [simp]: "length (numbered n name) = n"
  by (simp add: numbered_def)

lemma run_state_iff [run_simps]:
  "isOK (model_validate_state s) \<longleftrightarrow> identity_ok s \<and> (\<forall>c\<in>set (ru_checkpoints s). isOK (validate_checkpoint_run c))
     \<and> branch_ok s \<and> distinct (map cr_checkpoint_id (ru_checkpoints s)) \<and> isOK (check_status s)
     \<and> sorted (map (\<lambda>c. phase_order (cr_status c)) (ru_checkpoints s)) \<and> schema_ok s \<and> actions_numbered s"
proof -
  have ops: "all_operation_actions s \<noteq> [] \<longleftrightarrow> (\<exists>c\<in>set (ru_checkpoints s). cr_operation_actions c \<noteq> [])"
    by (auto simp: all_operation_actions_def)
  show ?thesis
    unfolding model_validate_state_def validate_run_state_def identity_ok_def branch_ok_def schema_ok_def
      actions_numbered_def numbered_def
    by (cases "ru_branch s"; cases "ru_authorization s")
      (auto simp: isOK_bindE_const checked_iff bindE_guardE_OK opt_list_def list_ex_iff ops)
qed

section \<open>The three phases\<close>

definition in_phase :: "checkpoint_status \<Rightarrow> checkpoint_run list \<Rightarrow> checkpoint_run list" where
  "in_phase st cs = filter (\<lambda>c. cr_status c = st) cs"

lemma in_phase_simps [simp]:
  "in_phase st [] = []"
  "in_phase st (c # cs) = (if cr_status c = st then c # in_phase st cs else in_phase st cs)"
  "in_phase st (cs @ ds) = in_phase st cs @ in_phase st ds"
  by (simp_all add: in_phase_def)

lemma set_in_phase [simp]: "set (in_phase st cs) = {c \<in> set cs. cr_status c = st}"
  by (simp add: in_phase_def)

lemma in_phase_all: "(\<forall>c\<in>set cs. cr_status c = st) \<Longrightarrow> in_phase st cs = cs"
  by (simp add: in_phase_def)

lemma in_phase_none: "(\<forall>c\<in>set cs. cr_status c \<noteq> st) \<Longrightarrow> in_phase st cs = []"
  by (simp add: in_phase_def)

lemma phases_partition:
  "sorted (map (\<lambda>c. phase_order (cr_status c)) cs)
    \<Longrightarrow> cs = in_phase Cp_Submitted cs @ in_phase Cp_Active cs @ in_phase Cp_Pending cs"
proof (induction cs)
  case (Cons c cs)
  then have IH: "cs = in_phase Cp_Submitted cs @ in_phase Cp_Active cs @ in_phase Cp_Pending cs"
    and later: "\<forall>d\<in>set cs. phase_order (cr_status c) \<le> phase_order (cr_status d)" by auto
  show ?case
  proof (cases "cr_status c")
    case Cp_Pending
    then have "\<forall>d\<in>set cs. cr_status d = Cp_Pending"
    proof (intro ballI)
      fix d assume "d \<in> set cs"
      then have "phase_order Cp_Pending \<le> phase_order (cr_status d)" using later Cp_Pending by auto
      then show "cr_status d = Cp_Pending" by (cases "cr_status d") (simp_all add: phase_order_def)
    qed
    then show ?thesis using Cp_Pending by (simp add: in_phase_none in_phase_all)
  next
    case Cp_Active
    then have "\<forall>d\<in>set cs. cr_status d \<noteq> Cp_Submitted"
      using later by (auto simp: phase_order_def split: checkpoint_status.splits)
    then show ?thesis using Cp_Active IH by (simp add: in_phase_none)
  next
    case Cp_Submitted
    then show ?thesis using IH by simp
  qed
qed simp

lemma sorted_three:
  assumes "\<forall>c\<in>set xs. cr_status c = Cp_Submitted" and "\<forall>c\<in>set ys. cr_status c = Cp_Active"
    and "\<forall>c\<in>set zs. cr_status c = Cp_Pending"
  shows "sorted (map (\<lambda>c. phase_order (cr_status c)) (xs @ ys @ zs))"
proof -
  have const: "(\<forall>c\<in>set cs. cr_status c = st) \<Longrightarrow> sorted (map (\<lambda>c. phase_order (cr_status c)) cs)" for st cs
    by (induction cs) auto
  show ?thesis using assms const by (fastforce simp: sorted_append phase_order_def)
qed

text \<open>
  A loaded state is its submitted checkpoints, then the active one, if any, then the pending ones; the
  status and the active id say which of the three shapes it has.
\<close>

datatype shape = Idle "checkpoint_run list" "checkpoint_run list"
  | Busy "checkpoint_run list" checkpoint_run "checkpoint_run list"

fun has_shape :: "run_state \<Rightarrow> shape \<Rightarrow> bool" where
  "has_shape s (Idle subs pend) \<longleftrightarrow> ru_checkpoints s = subs @ pend
     \<and> (\<forall>c\<in>set subs. cr_status c = Cp_Submitted) \<and> (\<forall>c\<in>set pend. cr_status c = Cp_Pending)
     \<and> ru_active s = None \<and> ru_status s \<noteq> Awaiting_Submission \<and> (ru_status s = Run_Complete \<longrightarrow> pend = [])"
| "has_shape s (Busy subs c pend) \<longleftrightarrow> ru_checkpoints s = subs @ c # pend
     \<and> (\<forall>c\<in>set subs. cr_status c = Cp_Submitted) \<and> cr_status c = Cp_Active
     \<and> (\<forall>c\<in>set pend. cr_status c = Cp_Pending)
     \<and> ru_active s = Some (cr_checkpoint_id c) \<and> ru_status s = Awaiting_Submission"

lemma shape_iff:
  "isOK (check_status s) \<and> sorted (map (\<lambda>c. phase_order (cr_status c)) (ru_checkpoints s))
    \<longleftrightarrow> (\<exists>sh. has_shape s sh)"
proof
  assume ok: "isOK (check_status s) \<and> sorted (map (\<lambda>c. phase_order (cr_status c)) (ru_checkpoints s))"
  obtain S A P where parts: "ru_checkpoints s = S @ A @ P" and act: "active_checkpoints s = A"
    and phase: "\<forall>c\<in>set S. cr_status c = Cp_Submitted" "\<forall>c\<in>set A. cr_status c = Cp_Active"
      "\<forall>c\<in>set P. cr_status c = Cp_Pending"
  proof (rule that)
    show "ru_checkpoints s = in_phase Cp_Submitted (ru_checkpoints s) @ in_phase Cp_Active (ru_checkpoints s)
        @ in_phase Cp_Pending (ru_checkpoints s)" using phases_partition ok by blast
  qed (simp_all add: active_checkpoints_def in_phase_def)
  show "\<exists>sh. has_shape s sh"
  proof (cases "ru_status s")
    case Awaiting_Submission
    then obtain c where "A = [c]" "ru_active s = Some (cr_checkpoint_id c)"
      using ok by (auto simp: check_status_def act bindE_guardE_OK length_Suc_conv)
    then have "has_shape s (Busy S c P)" using parts phase Awaiting_Submission by auto
    then show ?thesis by blast
  next
    case Awaiting_Release
    then have "A = []" "ru_active s = None" using ok by (auto simp: check_status_def act)
    then have "has_shape s (Idle S P)" using parts phase Awaiting_Release by auto
    then show ?thesis by blast
  next
    case Run_Complete
    then have *: "A = []" "ru_active s = None" "\<forall>c\<in>set P. cr_status c = Cp_Submitted"
      using ok by (auto simp: check_status_def act parts bindE_guardE_OK list_all_iff)
    from *(3) have "P = []" using phase(3) by (cases P) auto
    then have "has_shape s (Idle S P)" using parts phase * Run_Complete by auto
    then show ?thesis by blast
  qed
next
  assume "\<exists>sh. has_shape s sh"
  then obtain sh where sh: "has_shape s sh" ..
  show "isOK (check_status s) \<and> sorted (map (\<lambda>c. phase_order (cr_status c)) (ru_checkpoints s))"
  proof (cases sh)
    case (Idle subs pend)
    then have "active_checkpoints s = []" using sh by (auto simp: active_checkpoints_def filter_empty_conv)
    moreover have "isOK (check_status s)"
      using calculation sh Idle by (cases "ru_status s") (simp_all add: check_status_def bindE_guardE_OK list_all_iff)
    moreover have "sorted (map (\<lambda>c. phase_order (cr_status c)) (subs @ [] @ pend))"
      using sh Idle by (intro sorted_three) simp_all
    ultimately show ?thesis using sh Idle by simp
  next
    case (Busy subs c pend)
    then have "active_checkpoints s = [c]" using sh by (auto simp: active_checkpoints_def filter_empty_conv)
    moreover have "isOK (check_status s)"
      using calculation sh Busy by (simp add: check_status_def bindE_guardE_OK)
    moreover have "sorted (map (\<lambda>c. phase_order (cr_status c)) (subs @ [c] @ pend))"
      using sh Busy by (intro sorted_three) simp_all
    ultimately show ?thesis using sh Busy by simp
  qed
qed

lemma shape_counts:
  "has_shape s (Idle subs pend) \<Longrightarrow> submitted_count s = length subs \<and> submitted_ids s = map cr_checkpoint_id subs"
  "has_shape s (Busy subs c pend) \<Longrightarrow> submitted_count s = length subs \<and> submitted_ids s = map cr_checkpoint_id subs"
proof -
  have none: "filter (\<lambda>c. cr_status c = Cp_Submitted) xs = []" if "\<forall>c\<in>set xs. cr_status c = Cp_Pending" for xs
    using that by (simp add: filter_empty_conv)
  have all: "filter (\<lambda>c. cr_status c = Cp_Submitted) xs = xs" if "\<forall>c\<in>set xs. cr_status c = Cp_Submitted" for xs
    using that by simp
  show "has_shape s (Idle subs pend) \<Longrightarrow> submitted_count s = length subs \<and> submitted_ids s = map cr_checkpoint_id subs"
    "has_shape s (Busy subs c pend) \<Longrightarrow> submitted_count s = length subs \<and> submitted_ids s = map cr_checkpoint_id subs"
    by (simp_all add: submitted_count_def submitted_ids_def none all)
qed

section \<open>A mutation of one checkpoint\<close>

lemma update_rows_middle:
  assumes "distinct (map k (xs @ c # ys))"
  shows "update_rows (\<lambda>d. k d = k c) f (xs @ c # ys) = xs @ f c # ys"
proof -
  have "update_rows (\<lambda>d. k d = k c) f xs = xs" "update_rows (\<lambda>d. k d = k c) f ys = ys"
    using assms by (auto intro!: update_rows_none simp: image_iff)
  then show ?thesis by (simp add: update_rows_def)
qed

lemma map_checkpoint_middle:
  "ru_checkpoints s = xs @ c # ys \<Longrightarrow> distinct (map cr_checkpoint_id (ru_checkpoints s))
    \<Longrightarrow> map_checkpoint (cr_checkpoint_id c) f s = s\<lparr>ru_checkpoints := xs @ f c # ys\<rparr>"
  using update_rows_middle [of cr_checkpoint_id xs c ys f] by (simp add: map_checkpoint_def)

lemma checkpoint_middle:
  "ru_checkpoints s = xs @ c # ys \<Longrightarrow> distinct (map cr_checkpoint_id (ru_checkpoints s))
    \<Longrightarrow> checkpoint (cr_checkpoint_id c) s = Some c"
  by (simp add: checkpoint_def find_row_mem keys_distinct_def)

lemma index_middle:
  "ru_checkpoints s = xs @ c # ys \<Longrightarrow> distinct (map cr_checkpoint_id (ru_checkpoints s))
    \<Longrightarrow> index_checkpoint s (cr_checkpoint_id c) = Inr c"
  by (simp add: index_checkpoint_def checkpoint_middle)

lemma index_Inr: "index_checkpoint s i = Inr c \<Longrightarrow> c \<in> set (ru_checkpoints s) \<and> cr_checkpoint_id c = i"
  by (auto simp: index_checkpoint_def checkpoint_def dest: find_row_Some_key split: option.splits)

lemma lookup_Inr: "lookup_checkpoint s i = Inr c \<Longrightarrow> c \<in> set (ru_checkpoints s) \<and> cr_checkpoint_id c = i"
  by (auto simp: lookup_checkpoint_def checkpoint_def dest: find_row_Some_key split: option.splits)

lemma record_transition_Inr:
  "record_transition kind a b reason s = Inr (s', ev) \<longleftrightarrow>
     (\<exists>t. t = \<lparr>lt_transition_id = transition_id (length (ru_transitions s) + 1), lt_kind = kind, lt_from = a,
        lt_to = b, lt_reason = reason\<rparr> \<and> isOK (validate_transition_record t)
      \<and> s' = s\<lparr>ru_transitions := ru_transitions s @ [t]\<rparr> \<and> ev = [t])"
  by (auto simp: record_transition_def bindE_eq_Inr_iff validated_Inr validate_transition_record_def
      checked_iff isOK_iff)

section \<open>The replay of requests\<close>

text \<open>The releases the replay has seen, newest first.\<close>

definition releases_of :: "request_action list \<Rightarrow> releases" where
  "releases_of as = rev (map (\<lambda>a. (aq_request_id a, a)) (filter (\<lambda>a. aq_outcome a = Rq_Released) as))"

lemma releases_of_simps [simp]:
  "releases_of [] = []"
  "releases_of (as @ [a]) = (if aq_outcome a = Rq_Released then (aq_request_id a, a) # releases_of as else releases_of as)"
  by (simp_all add: releases_of_def)

lemma replay_outcome_releases:
  "replay_outcome c conditional remaining (releases_of as) a = Inr (r, released)
    \<Longrightarrow> released = releases_of (as @ [a]) \<and> r = remaining - (if aq_outcome a = Rq_Released then 1 else 0)"
  by (auto simp: replay_outcome_def Let_def bindE_eq_Inr_iff guardE_eq_Inr_iff
      split: request_outcome.splits option.splits)

definition replay_step_ok :: "run_state \<Rightarrow> checkpoint_run \<Rightarrow> conditional_evidence option \<Rightarrow> int \<Rightarrow> int
    \<Rightarrow> request_action list \<Rightarrow> request_action \<Rightarrow> bool" where
  "replay_step_ok s c conditional budget remaining history a \<longleftrightarrow>
     owns_action (aq_attempt_id a) (aq_session_id a) c \<noteq> None
     \<and> aq_pre_state a = request_projection_sha256 s (cr_checkpoint_id c) budget remaining history
     \<and> aq_budget_before a = remaining
     \<and> isOK (replay_outcome c conditional remaining (releases_of history) a)
     \<and> (let left = remaining - (if aq_outcome a = Rq_Released then 1 else 0) in
        aq_post_state a = request_projection_sha256 s (cr_checkpoint_id c) budget left (history @ [a])
        \<and> aq_budget_after a = left)"

lemma replay_requests_Cons:
  "replay_requests s c conditional budget remaining history (releases_of history) (a # as) = Inr r \<longleftrightarrow>
     replay_step_ok s c conditional budget remaining history a
     \<and> replay_requests s c conditional budget (aq_budget_after a) (history @ [a]) (releases_of (history @ [a])) as = Inr r"
proof (cases "replay_outcome c conditional remaining (releases_of history) a")
  case (Inl e)
  then show ?thesis by (simp add: replay_step_ok_def bindE_eq_Inr_iff guardE_eq_Inr_iff)
next
  case (Inr x)
  obtain left released where x: "x = (left, released)" by (cases x)
  with Inr have "released = releases_of (history @ [a])"
    "left = remaining - (if aq_outcome a = Rq_Released then 1 else 0)"
    using replay_outcome_releases [of c conditional remaining history a left released] by blast+
  then show ?thesis
    using Inr x by (auto simp: replay_step_ok_def Let_def bindE_eq_Inr_iff guardE_eq_Inr_iff simp del: releases_of_simps)
qed

declare replay_requests.simps(2) [simp del]

lemma replay_requests_snoc:
  "replay_requests s c conditional budget remaining history (releases_of history) (as @ [a]) = Inr r \<longleftrightarrow>
     (\<exists>m. replay_requests s c conditional budget remaining history (releases_of history) as = Inr m
       \<and> replay_step_ok s c conditional budget m (history @ as) a \<and> r = aq_budget_after a)"
proof (induction as arbitrary: remaining history)
  case (Cons b as)
  show ?case using Cons.IH [of "aq_budget_after b" "history @ [b]"] by (simp add: replay_requests_Cons)
qed (auto simp: replay_requests_Cons)

section \<open>What the replays read of a checkpoint\<close>

text \<open>Of the attempts they read who owns an action and whether the attempt was inherited.\<close>

definition owner_keys :: "checkpoint_run \<Rightarrow> (string \<times> string \<times> bool) list" where
  "owner_keys c = map (\<lambda>t. (ct_attempt_id t, ct_session_id t, ct_inherited t)) (cr_attempts c)"

definition owner_flag :: "string \<Rightarrow> string \<Rightarrow> checkpoint_run \<Rightarrow> bool option" where
  "owner_flag attempt session c = map_option ct_inherited (owns_action attempt session c)"

lemma owner_flag_keys:
  "owner_flag attempt session c =
     map_option (\<lambda>k. snd (snd k)) (find (\<lambda>k. fst k = attempt \<and> fst (snd k) = session) (owner_keys c))"
proof -
  have "map_option ct_inherited (find (\<lambda>t. ct_attempt_id t = attempt \<and> ct_session_id t = session) ts) =
     map_option (\<lambda>k. snd (snd k)) (find (\<lambda>k. fst k = attempt \<and> fst (snd k) = session)
       (map (\<lambda>t. (ct_attempt_id t, ct_session_id t, ct_inherited t)) ts))" for ts
    by (induction ts) auto
  then show ?thesis by (simp add: owner_flag_def owns_action_def owner_keys_def)
qed

lemma find_append_Some: "find p xs = Some x \<Longrightarrow> find p (xs @ ys) = Some x"
  by (induction xs) auto

lemma owner_flag_extends:
  "owner_keys c' = owner_keys c @ ks \<Longrightarrow> owner_flag attempt session c = Some b \<Longrightarrow> owner_flag attempt session c' = Some b"
  by (auto simp: owner_flag_keys find_append_Some)

lemma owns_flag: "owns_action attempt session c \<noteq> None \<longleftrightarrow> (\<exists>b. owner_flag attempt session c = Some b)"
  by (auto simp: owner_flag_def)

lemma owner_valid_iff: "isOK (validate_attempt_owner c a) \<longleftrightarrow>
    owner_flag (ao_attempt_id a) (ao_session_id a) c = Some (ao_inherited a)"
  by (auto simp: validate_attempt_owner_def owner_flag_def split: option.splits)

text \<open>A later record of a checkpoint: the same identity, and the attempts it had, in their order.\<close>

definition same_run :: "run_state \<Rightarrow> run_state \<Rightarrow> bool" where
  "same_run s s' \<longleftrightarrow> ru_lifecycle_id s' = ru_lifecycle_id s \<and> ru_package_sha256 s' = ru_package_sha256 s"

definition later_record :: "checkpoint_run \<Rightarrow> checkpoint_run \<Rightarrow> bool" where
  "later_record c c' \<longleftrightarrow> cr_checkpoint_id c' = cr_checkpoint_id c \<and> (\<exists>ks. owner_keys c' = owner_keys c @ ks)"

lemma later_record_refl [simp]: "later_record c c"
  by (simp add: later_record_def)

lemma same_run_refl [simp]: "same_run s s"
  by (simp add: same_run_def)

lemma owner_flag_later: "later_record c c' \<Longrightarrow> owner_flag attempt session c = Some b \<Longrightarrow> owner_flag attempt session c' = Some b"
  by (auto simp: later_record_def intro: owner_flag_extends)

lemma owns_later:
  "later_record c c' \<Longrightarrow> owns_action attempt session c \<noteq> None \<Longrightarrow> owns_action attempt session c' \<noteq> None"
  using owner_flag_later by (metis owns_flag)

lemma projection_same: "same_run s s' \<Longrightarrow> request_projection_sha256 s' = request_projection_sha256 s"
  by (intro ext) (simp add: request_projection_sha256_def same_run_def)

lemma replay_step_mono:
  assumes "same_run s s'" and "later_record c c'" and "replay_step_ok s c conditional budget m history a"
  shows "replay_step_ok s' c' conditional budget m history a"
proof -
  have outcome: "replay_outcome c' conditional m released a = replay_outcome c conditional m released a" for released
  proof -
    have "cr_checkpoint_id c' = cr_checkpoint_id c" using assms(2) by (simp add: later_record_def)
    then show ?thesis by (simp only: replay_outcome_def)
  qed
  have "cr_checkpoint_id c' = cr_checkpoint_id c" using assms(2) by (simp add: later_record_def)
  then show ?thesis
    using assms(3) owns_later [OF assms(2)] unfolding replay_step_ok_def
    by (simp add: projection_same [OF assms(1)] outcome)
qed

lemma replay_requests_mono:
  assumes "same_run s s'" and "later_record c c'"
  shows "replay_requests s c conditional budget m history (releases_of history) as = Inr r
    \<Longrightarrow> replay_requests s' c' conditional budget m history (releases_of history) as = Inr r"
proof (induction as arbitrary: m history)
  case (Cons a as)
  then show ?case using replay_step_mono [OF assms, of conditional budget m history a]
    by (simp add: replay_requests_Cons del: releases_of_simps)
qed simp

lemma request_checkpoint_iff:
  "isOK (validate_request_checkpoint s c spec) \<longleftrightarrow> cr_request_budget c = declared_request_budget spec
     \<and> replay_requests s c (cs_evidence spec) (cr_request_budget c) (cr_request_budget c) [] (releases_of [])
         (cr_request_actions c) = Inr (cr_request_remaining c)"
  by (auto simp: validate_request_checkpoint_def Let_def guardE_eq_Inr_iff isOK_bindE)

lemma request_checkpoint_later:
  assumes "same_run s s'" and "later_record c c'" and "isOK (validate_request_checkpoint s c spec)"
    and "cr_request_budget c' = cr_request_budget c" "cr_request_remaining c' = cr_request_remaining c"
      "cr_request_actions c' = cr_request_actions c"
  shows "isOK (validate_request_checkpoint s' c' spec)"
  using assms replay_requests_mono [OF assms(1,2), of "cs_evidence spec" "cr_request_budget c" "cr_request_budget c" "[]"]
  by (auto simp: request_checkpoint_iff)

lemma operation_hash_same: "same_run s s' \<Longrightarrow> operation_state_sha256 s' = operation_state_sha256 s"
  by (intro ext) (simp add: operation_state_sha256_def same_run_def)

lemma replay_operation_mono:
  assumes "same_run s s'" and "later_record c c'" and "isOK (replay_operation s c spec m prior a)"
  shows "isOK (replay_operation s' c' spec m prior a)"
  using assms(3) owner_flag_later [OF assms(2)]
  by (auto simp: replay_operation_def operation_hash_same [OF assms(1)] isOK_bindE_const isOK_bindE bindE_guardE_OK
      owner_valid_iff)

lemma replay_operations_mono:
  assumes "same_run s s'" and "later_record c c'"
  shows "replay_operations s c spec m prior as = Inr r \<Longrightarrow> replay_operations s' c' spec m prior as = Inr r"
proof (induction as arbitrary: m prior)
  case (Cons a as)
  then have "isOK (replay_operation s c spec m prior a)" by (auto simp: bindE_eq_Inr_iff isOK_iff)
  then have "isOK (replay_operation s' c' spec m prior a)" by (rule replay_operation_mono [OF assms])
  then show ?case using Cons by (auto simp: bindE_eq_Inr_iff isOK_iff)
qed simp

lemma replay_operations_snoc:
  "replay_operations s c spec m prior (as @ [a]) = Inr r \<longleftrightarrow>
     (\<exists>k. replay_operations s c spec m prior as = Inr k \<and> isOK (replay_operation s c spec k (prior @ as) a)
       \<and> r = ao_budget_after a)"
  by (induction as arbitrary: m prior) (auto simp: bindE_eq_Inr_iff isOK_iff)

text \<open>One checkpoint of the operation replay, after the actions of the checkpoints before it.\<close>

definition operations_replay :: "run_state \<Rightarrow> operation_action list \<Rightarrow> checkpoint_run \<Rightarrow> checkpoint_spec \<Rightarrow> bool" where
  "operations_replay s prior c spec \<longleftrightarrow> cr_operation_budget c = declared_operation_budget spec
     \<and> replay_operations s c spec (cr_operation_budget c) prior (cr_operation_actions c) = Inr (cr_operation_remaining c)"

definition operations_of :: "checkpoint_run list \<Rightarrow> operation_action list" where
  "operations_of cs = concat (map cr_operation_actions cs)"

lemma operations_of_simps [simp]:
  "operations_of [] = []"
  "operations_of (c # cs) = cr_operation_actions c @ operations_of cs"
  "operations_of (cs @ ds) = operations_of cs @ operations_of ds"
  by (simp_all add: operations_of_def)

fun operations_replayed :: "run_state \<Rightarrow> operation_action list \<Rightarrow> (checkpoint_run \<times> checkpoint_spec) list \<Rightarrow> bool" where
  "operations_replayed s prior [] \<longleftrightarrow> True"
| "operations_replayed s prior ((c, spec) # rest) \<longleftrightarrow>
     operations_replay s prior c spec \<and> operations_replayed s (prior @ cr_operation_actions c) rest"

lemma replay_checkpoints_iff:
  "length cs = length specs \<Longrightarrow> isOK (replay_checkpoints s prior cs specs) \<longleftrightarrow> operations_replayed s prior (zip cs specs)"
proof (induction s prior cs specs rule: replay_checkpoints.induct)
  case (1 s prior c cs spec specs)
  then show ?case by (auto simp: operations_replay_def guardE_eq_Inr_iff isOK_bindE)
qed auto

lemma operations_replayed_append:
  "operations_replayed s prior (ps @ qs) \<longleftrightarrow>
     operations_replayed s prior ps \<and> operations_replayed s (prior @ operations_of (map fst ps)) qs"
  by (induction ps arbitrary: prior) auto

lemma operations_replay_later:
  assumes "same_run s s'" and "later_record c c'" and "operations_replay s prior c spec"
    and "cr_operation_budget c' = cr_operation_budget c" "cr_operation_remaining c' = cr_operation_remaining c"
      "cr_operation_actions c' = cr_operation_actions c"
  shows "operations_replay s' prior c' spec"
  using assms replay_operations_mono [OF assms(1,2)] by (auto simp: operations_replay_def)

lemma operations_replayed_same: "same_run s s' \<Longrightarrow> operations_replayed s prior ps \<Longrightarrow> operations_replayed s' prior ps"
  by (induction ps arbitrary: prior) (auto intro: operations_replay_later [OF _ later_record_refl])

end
