(* ===== verification/Lifecycle_Invariant.thy ===== *)
theory Lifecycle_Invariant
  imports Lifecycle_Facts
begin

text \<open>
  The invariant of a lifecycle run. \<^const>\<open>load_checks\<close> decides whether a stored state may be used at all;
  \<open>run_good\<close> is that condition, spread over the checkpoints, with what the handlers need to keep it: the
  attempts of a checkpoint are named by their numbers, only the active checkpoint has an active attempt,
  and nothing has happened at a pending one.
\<close>

section \<open>The invariant\<close>

definition attempts_named :: "checkpoint_run \<Rightarrow> bool" where
  "attempts_named c \<longleftrightarrow> map ct_attempt_id (cr_attempts c)
     = map (attempt_id (cr_checkpoint_id c)) [1..<Suc (length (cr_attempts c))]"

definition active_is_own :: "checkpoint_run \<Rightarrow> bool" where
  "active_is_own c \<longleftrightarrow> (\<forall>a\<in>set (cr_attempts c). ct_status a = Ca_Active \<longrightarrow> \<not> ct_inherited a \<and> cr_status c = Cp_Active)"

definition untouched :: "checkpoint_run \<Rightarrow> bool" where
  "untouched c \<longleftrightarrow> cr_attempts c = [] \<and> cr_request_actions c = [] \<and> cr_operation_actions c = []"

definition record_good :: "checkpoint_run \<Rightarrow> bool" where
  "record_good c \<longleftrightarrow> isOK (validate_checkpoint_run c) \<and> attempts_named c \<and> active_is_own c
     \<and> (cr_status c = Cp_Pending \<longrightarrow> untouched c)"

definition run_good :: "lifecycle_spec \<Rightarrow> run_state \<Rightarrow> bool" where
  "run_good spec s \<longleftrightarrow> identity_ok s \<and> branch_ok s \<and> (\<exists>sh. has_shape s sh) \<and> schema_ok s \<and> actions_numbered s
     \<and> ru_lifecycle_id s = ls_lifecycle_id spec \<and> ru_spec_sha256 s = spec_sha256 spec
     \<and> (ru_schema s = Schema_7 \<longleftrightarrow> supports_operations spec)
     \<and> map cr_checkpoint_id (ru_checkpoints s) = map cs_checkpoint_id (ls_checkpoints spec)
     \<and> (\<forall>c\<in>set (ru_checkpoints s). record_good c)
     \<and> list_all2 (\<lambda>c d. isOK (validate_request_checkpoint s c d)) (ru_checkpoints s) (ls_checkpoints spec)
     \<and> operations_replayed s [] (zip (ru_checkpoints s) (ls_checkpoints spec))"

lemma find_row_nth:
  assumes "distinct (map k xs)" and "i < length xs"
  shows "find_row k (k (xs ! i)) xs = Some (xs ! i)"
  using assms by (intro find_row_mem) (simp_all add: keys_distinct_def)

text \<open>The contract a checkpoint answers to, by position and by id.\<close>

lemma checkpoint_contract:
  assumes "map cr_checkpoint_id (xs @ c # ys) = map cs_checkpoint_id specs" and "distinct (map cs_checkpoint_id specs)"
  obtains ds d es where "specs = ds @ d # es" "length ds = length xs" "length es = length ys"
    "cs_checkpoint_id d = cr_checkpoint_id c" "find_row cs_checkpoint_id (cr_checkpoint_id c) specs = Some d"
proof -
  have ids: "map cs_checkpoint_id specs = map cr_checkpoint_id xs @ cr_checkpoint_id c # map cr_checkpoint_id ys"
    using assms(1) by simp
  then obtain ds d es where parts: "specs = ds @ d # es" "map cs_checkpoint_id ds = map cr_checkpoint_id xs"
    "cs_checkpoint_id d = cr_checkpoint_id c" "map cs_checkpoint_id es = map cr_checkpoint_id ys"
    by (auto simp: map_eq_append_conv map_eq_Cons_conv)
  moreover have "length ds = length xs" "length es = length ys"
    using parts(2,4) by (metis length_map)+
  moreover have "find_row cs_checkpoint_id (cr_checkpoint_id c) specs = Some d"
    using assms(2) parts by (metis find_row_mem in_set_conv_decomp keys_distinct_def)
  ultimately show ?thesis using that by blast
qed

lemma validate_requests_iff:
  assumes "map cr_checkpoint_id (ru_checkpoints s) = map cs_checkpoint_id (ls_checkpoints spec)"
    and "distinct (map cs_checkpoint_id (ls_checkpoints spec))"
  shows "isOK (validate_request_state s spec) \<longleftrightarrow>
    list_all2 (\<lambda>c d. isOK (validate_request_checkpoint s c d)) (ru_checkpoints s) (ls_checkpoints spec)"
proof -
  have len: "length (ru_checkpoints s) = length (ls_checkpoints spec)" using assms(1) by (metis length_map)
  have "find_row cs_checkpoint_id (cr_checkpoint_id (ru_checkpoints s ! i)) (ls_checkpoints spec)
      = Some (ls_checkpoints spec ! i)" if "i < length (ls_checkpoints spec)" for i
  proof -
    have "cr_checkpoint_id (ru_checkpoints s ! i) = cs_checkpoint_id (ls_checkpoints spec ! i)"
      using that len assms(1) by (metis nth_map)
    then show ?thesis using find_row_nth [OF assms(2) that] by simp
  qed
  then show ?thesis
    using len assms(1)
    by (simp add: validate_request_state_def list_all2_conv_all_nth all_set_conv_all_nth)
qed

lemma good_loads:
  assumes "run_good spec s" and "distinct (map cs_checkpoint_id (ls_checkpoints spec))"
    and "package_sha256 package = Inr (ru_package_sha256 s)"
  shows "load_checks package spec s = Inr s"
proof -
  have ids: "map cr_checkpoint_id (ru_checkpoints s) = map cs_checkpoint_id (ls_checkpoints spec)"
    using assms(1) by (simp add: run_good_def)
  then have len: "length (ru_checkpoints s) = length (ls_checkpoints spec)" by (metis length_map)
  have "isOK (model_validate_state s)"
    using assms ids shape_iff [of s] by (auto simp: run_good_def run_state_iff record_good_def)
  then have "model_validate_state s = Inr s"
    by (auto simp: model_validate_state_def isOK_iff bindE_eq_Inr_iff)
  moreover have "isOK (validate_request_state s spec)"
    using assms(1) validate_requests_iff [OF ids assms(2)] by (simp add: run_good_def)
  moreover have "isOK (validate_operation_state s spec)"
    using assms(1) ids replay_checkpoints_iff [OF len]
    by (auto simp: run_good_def validate_operation_state_def bindE_guardE_OK)
  ultimately show ?thesis
    using assms ids by (auto simp: load_checks_def run_good_def isOK_iff)
qed

section \<open>Replacing one checkpoint\<close>

lemma operations_replayed_untouched:
  "(\<forall>p\<in>set ps. cr_operation_actions (fst p) = []) \<Longrightarrow> operations_replayed s prior ps \<Longrightarrow> operations_replayed s prior' ps"
proof (induction ps)
  case (Cons p ps)
  then show ?case by (cases p) (auto simp: operations_replay_def)
qed simp

lemma good_replace:
  assumes good: "run_good spec s" and distinct: "distinct (map cs_checkpoint_id (ls_checkpoints spec))"
    and old: "ru_checkpoints s = xs @ c # ys" and new: "ru_checkpoints s' = xs @ c' # ys"
    and same: "ru_lifecycle_id s' = ru_lifecycle_id s" "ru_package_sha256 s' = ru_package_sha256 s"
      "ru_spec_sha256 s' = ru_spec_sha256 s" "ru_schema s' = ru_schema s" "ru_branch s' = ru_branch s"
    and identity: "identity_ok s'" and shape: "has_shape s' sh" and schema: "schema_ok s'"
    and rec_ok: "record_good c'" and later: "later_record c c'"
    and requests: "\<And>d. find_row cs_checkpoint_id (cr_checkpoint_id c) (ls_checkpoints spec) = Some d
        \<Longrightarrow> isOK (validate_request_checkpoint s c d) \<Longrightarrow> isOK (validate_request_checkpoint s' c' d)"
    and operations: "\<And>d. find_row cs_checkpoint_id (cr_checkpoint_id c) (ls_checkpoints spec) = Some d
        \<Longrightarrow> operations_replay s (operations_of xs) c d \<Longrightarrow> operations_replay s' (operations_of xs) c' d"
    and after: "cr_operation_actions c' = cr_operation_actions c \<or> (\<forall>e\<in>set ys. untouched e)"
    and numbers: "actions_numbered s'"
  shows "run_good spec s'"
proof -
  have run: "same_run s s'" using same by (simp add: same_run_def)
  have id: "cr_checkpoint_id c' = cr_checkpoint_id c" using later by (simp add: later_record_def)
  have ids: "map cr_checkpoint_id (xs @ c # ys) = map cs_checkpoint_id (ls_checkpoints spec)"
    using good old by (simp add: run_good_def)
  obtain ds d es where parts: "ls_checkpoints spec = ds @ d # es" "length ds = length xs" "length es = length ys"
    and found: "find_row cs_checkpoint_id (cr_checkpoint_id c) (ls_checkpoints spec) = Some d"
    using checkpoint_contract [OF ids distinct] by metis
  have zips: "zip (xs @ e # ys) (ds @ d # es) = zip xs ds @ (e, d) # zip ys es" for e
    using parts(2,3) by simp
  have fst_zip: "map fst (zip xs ds) = xs" using parts(2) by simp
  have quiet: "\<forall>p\<in>set (zip ys es). cr_operation_actions (fst p) = []" if "\<forall>e\<in>set ys. untouched e"
    using that by (auto simp: untouched_def dest: set_zip_leftD)
  have "list_all2 (\<lambda>c d. isOK (validate_request_checkpoint s' c d)) (ru_checkpoints s') (ls_checkpoints spec)"
  proof -
    have "list_all2 (\<lambda>c d. isOK (validate_request_checkpoint s c d)) (xs @ c # ys) (ds @ d # es)"
      using good old parts(1) by (simp add: run_good_def)
    moreover have "isOK (validate_request_checkpoint s e f) \<Longrightarrow> isOK (validate_request_checkpoint s' e f)" for e f
      using request_checkpoint_later [OF run later_record_refl] by simp
    ultimately show ?thesis
      using requests [OF found] new parts by (auto simp: list_all2_append intro: list_all2_mono)
  qed
  moreover have "operations_replayed s' [] (zip (ru_checkpoints s') (ls_checkpoints spec))"
  proof -
    have all: "operations_replayed s [] (zip xs ds @ (c, d) # zip ys es)"
      using good old parts(1) zips by (simp add: run_good_def)
    then have "operations_replayed s' [] (zip xs ds)" "operations_replay s' (operations_of xs) c' d"
      "operations_replayed s' (operations_of xs @ cr_operation_actions c) (zip ys es)"
      using operations [OF found] operations_replayed_same [OF run]
      by (simp_all add: operations_replayed_append fst_zip)
    moreover have "operations_replayed s' (operations_of xs @ cr_operation_actions c') (zip ys es)"
      using calculation(3) after operations_replayed_untouched [OF quiet] by metis
    ultimately show ?thesis
      using new parts(1) zips by (simp add: operations_replayed_append fst_zip)
  qed
  moreover have "branch_ok s'" using good same old new id by (simp add: run_good_def branch_ok_def split: option.splits)
  moreover have "\<forall>e\<in>set (ru_checkpoints s'). record_good e" using good old new rec_ok by (auto simp: run_good_def)
  ultimately show ?thesis
    using good same identity shape schema numbers ids id new unfolding run_good_def by auto
qed

text \<open>What the replays say of one checkpoint.\<close>

lemma good_contract:
  assumes good: "run_good spec s" and distinct: "distinct (map cs_checkpoint_id (ls_checkpoints spec))"
    and old: "ru_checkpoints s = xs @ c # ys"
  obtains d where "find_row cs_checkpoint_id (cr_checkpoint_id c) (ls_checkpoints spec) = Some d"
    "d \<in> set (ls_checkpoints spec)" "isOK (validate_request_checkpoint s c d)" "operations_replay s (operations_of xs) c d"
proof -
  have ids: "map cr_checkpoint_id (xs @ c # ys) = map cs_checkpoint_id (ls_checkpoints spec)"
    using good old by (simp add: run_good_def)
  obtain ds d es where parts: "ls_checkpoints spec = ds @ d # es" "length ds = length xs" "length es = length ys"
    and found: "find_row cs_checkpoint_id (cr_checkpoint_id c) (ls_checkpoints spec) = Some d"
    using checkpoint_contract [OF ids distinct] by metis
  have "list_all2 (\<lambda>c d. isOK (validate_request_checkpoint s c d)) (xs @ c # ys) (ds @ d # es)"
    using good old parts(1) by (simp add: run_good_def)
  then have "isOK (validate_request_checkpoint s c d)" using parts(2,3) by (simp add: list_all2_append)
  moreover have "operations_replayed s [] (zip xs ds @ (c, d) # zip ys es)"
    using good old parts by (simp add: run_good_def)
  then have "operations_replay s (operations_of xs) c d" using parts(2) by (simp add: operations_replayed_append)
  ultimately show ?thesis using that found parts(1) by simp
qed

text \<open>A replacement that adds no action.\<close>

lemma good_replace_quiet:
  assumes good: "run_good spec s" and distinct: "distinct (map cs_checkpoint_id (ls_checkpoints spec))"
    and old: "ru_checkpoints s = xs @ c # ys" and new: "ru_checkpoints s' = xs @ c' # ys"
    and same: "ru_lifecycle_id s' = ru_lifecycle_id s" "ru_package_sha256 s' = ru_package_sha256 s"
      "ru_spec_sha256 s' = ru_spec_sha256 s" "ru_schema s' = ru_schema s" "ru_branch s' = ru_branch s"
    and identity: "identity_ok s'" and shape: "has_shape s' sh"
    and rec_ok: "record_good c'" and later: "later_record c c'"
    and budgets: "cr_request_budget c' = cr_request_budget c" "cr_request_remaining c' = cr_request_remaining c"
      "cr_request_actions c' = cr_request_actions c" "cr_operation_budget c' = cr_operation_budget c"
      "cr_operation_remaining c' = cr_operation_remaining c" "cr_operation_actions c' = cr_operation_actions c"
  shows "run_good spec s'"
proof (rule good_replace [OF good distinct old new same identity shape _ rec_ok later])
  have run: "same_run s s'" using same by (simp add: same_run_def)
  show "schema_ok s'" using good old new same budgets by (auto simp: run_good_def schema_ok_def)
  show "isOK (validate_request_checkpoint s c d) \<Longrightarrow> isOK (validate_request_checkpoint s' c' d)" for d
    using request_checkpoint_later [OF run later] budgets by simp
  show "operations_replay s (operations_of xs) c d \<Longrightarrow> operations_replay s' (operations_of xs) c' d" for d
    using operations_replay_later [OF run later] budgets by simp
  show "actions_numbered s'"
    using good old new budgets
    by (simp add: run_good_def actions_numbered_def all_request_actions_def all_operation_actions_def)
qed (use budgets in simp)

section \<open>Closing the active attempt\<close>

lemma map_update_first: "(\<And>x. g (f x) = g x) \<Longrightarrow> map g (update_first p f xs) = map g xs"
  by (induction xs) auto

lemma filter_update_first: "(\<And>x. \<not> p (f x)) \<Longrightarrow> filter p (update_first p f xs) = drop 1 (filter p xs)"
  by (induction xs) auto

lemma length_update_first [simp]: "length (update_first p f xs) = length xs"
  by (induction xs) auto

lemma set_update_first: "x \<in> set (update_first p f xs) \<Longrightarrow> x \<in> set xs \<or> (\<exists>y\<in>set xs. x = f y)"
  by (induction xs) (auto split: if_splits)

definition closing :: "(checkpoint_attempt \<Rightarrow> checkpoint_attempt) \<Rightarrow> checkpoint_attempt list \<Rightarrow> checkpoint_attempt list" where
  "closing f as = rev (update_first (\<lambda>a. ct_status a = Ca_Active) f (rev as))"

lemma attempts_update_active: "update_active_attempt f c = c\<lparr>cr_attempts := closing f (cr_attempts c)\<rparr>"
  by (simp add: update_active_attempt_def closing_def)

definition closes :: "(checkpoint_attempt \<Rightarrow> checkpoint_attempt) \<Rightarrow> bool" where
  "closes f \<longleftrightarrow> (\<forall>a. ct_attempt_id (f a) = ct_attempt_id a \<and> ct_session_id (f a) = ct_session_id a
     \<and> ct_sequence (f a) = ct_sequence a \<and> ct_execution_mode (f a) = ct_execution_mode a
     \<and> ct_request_sha256 (f a) = ct_request_sha256 a \<and> ct_inherited (f a) = ct_inherited a \<and> ct_status (f a) \<noteq> Ca_Active)"

lemma closed_map: "(\<And>a. g (f a) = g a) \<Longrightarrow> map g (closing f as) = map g as"
  by (simp add: closing_def rev_map [symmetric] map_update_first)

lemma length_closed [simp]: "length (closing f as) = length as"
  by (simp add: closing_def)

lemma closed_none_active:
  assumes "closes f" and "attempts_ok as" shows "\<forall>a\<in>set (closing f as). ct_status a \<noteq> Ca_Active"
proof -
  let ?p = "\<lambda>a. ct_status a = Ca_Active"
  have "filter ?p (closing f as) = rev (drop 1 (filter ?p (rev as)))"
    using assms(1) filter_update_first [of ?p f "rev as"] by (simp add: closing_def closes_def rev_filter [symmetric])
  moreover have "length (filter ?p (rev as)) \<le> 1"
    using assms(2) by (simp add: attempts_ok_def rev_filter [symmetric])
  ultimately have "filter ?p (closing f as) = []" by simp
  then show ?thesis by (simp add: filter_empty_conv)
qed

lemma closed_valid:
  assumes "closes f" and "\<forall>a\<in>set as. isOK (validate_checkpoint_attempt a)"
  shows "\<forall>a\<in>set (closing f as). isOK (validate_checkpoint_attempt a)"
proof -
  have "validate_checkpoint_attempt (f a) = bindE (validate_checkpoint_attempt a) (\<lambda>_. Inr (f a))" for a
    using assms(1) by (simp add: validate_checkpoint_attempt_def closes_def bindE_assoc)
  then have "isOK (validate_checkpoint_attempt a) \<Longrightarrow> isOK (validate_checkpoint_attempt (f a))" for a
    by (simp add: checked_iff)
  then show ?thesis using assms(2) by (auto simp: closing_def dest!: set_update_first)
qed

lemma closed_ok:
  assumes "closes f" and "attempts_ok as" shows "attempts_ok (closing f as)"
proof -
  have "map ct_sequence (closing f as) = map ct_sequence as" using assms(1) by (simp add: closed_map closes_def)
  moreover have "filter (\<lambda>a. ct_status a = Ca_Active) (closing f as) = []"
    using closed_none_active [OF assms] by (simp add: filter_empty_conv)
  ultimately show ?thesis using assms closed_valid [OF assms(1), of as] by (simp add: attempts_ok_def)
qed

lemma closed_keys: "closes f \<Longrightarrow> owner_keys (c\<lparr>cr_attempts := closing f as\<rparr>) = owner_keys (c\<lparr>cr_attempts := as\<rparr>)"
  by (simp add: owner_keys_def closed_map closes_def)

lemma closed_names: "closes f \<Longrightarrow> map ct_attempt_id (closing f as) = map ct_attempt_id as"
  by (simp add: closed_map closes_def)

section \<open>The handlers that add no action\<close>

lemma good_ids: "run_good spec s \<Longrightarrow> distinct (map cs_checkpoint_id (ls_checkpoints spec))
    \<Longrightarrow> distinct (map cr_checkpoint_id (ru_checkpoints s))"
  by (simp add: run_good_def)

lemma good_record: "run_good spec s \<Longrightarrow> c \<in> set (ru_checkpoints s) \<Longrightarrow> record_good c"
  by (simp add: run_good_def)

lemma busyE:
  assumes "run_good spec s" and "ru_active s = Some active"
  obtains subs c pend where "has_shape s (Busy subs c pend)" "cr_checkpoint_id c = active"
    "\<forall>e\<in>set pend. untouched e" "record_good c"
proof -
  obtain sh where sh: "has_shape s sh" using assms(1) by (auto simp: run_good_def)
  show ?thesis
  proof (cases sh)
    case (Busy subs c pend)
    then have "\<forall>e\<in>set pend. untouched e" "record_good c"
      using sh assms(1) by (auto simp: run_good_def record_good_def)
    then show ?thesis using that sh Busy assms(2) by auto
  qed (use sh assms(2) in auto)
qed

lemma idleE:
  assumes "run_good spec s" and "ru_active s = None"
  obtains subs pend where "has_shape s (Idle subs pend)" "\<forall>e\<in>set pend. untouched e"
proof -
  obtain sh where sh: "has_shape s sh" using assms(1) by (auto simp: run_good_def)
  show ?thesis
  proof (cases sh)
    case (Idle subs pend)
    then have "\<forall>e\<in>set pend. untouched e" using sh assms(1) by (auto simp: run_good_def record_good_def)
    then show ?thesis using that sh Idle by auto
  qed (use sh assms(2) in auto)
qed

lemma identity_transition:
  "identity_ok s \<Longrightarrow> isOK (validate_transition_record t) \<Longrightarrow> identity_ok (s\<lparr>ru_transitions := ru_transitions s @ [t]\<rparr>)"
  by (auto simp: identity_ok_def)

lemma identity_fields:
  "identity_ok s \<Longrightarrow> ru_lifecycle_id s' = ru_lifecycle_id s \<Longrightarrow> ru_spec_sha256 s' = ru_spec_sha256 s
    \<Longrightarrow> ru_package_sha256 s' = ru_package_sha256 s \<Longrightarrow> ru_authorization s' = ru_authorization s
    \<Longrightarrow> ru_revisits s' = ru_revisits s \<Longrightarrow> ru_transitions s' = ru_transitions s @ ts
    \<Longrightarrow> (\<forall>t\<in>set ts. isOK (validate_transition_record t)) \<Longrightarrow> identity_ok s'"
  by (auto simp: identity_ok_def)

text \<open>The release of a checkpoint, as the state it makes.\<close>

lemma release_cases:
  assumes "run_good spec s" and "distinct (map cs_checkpoint_id (ls_checkpoints spec))"
    and "release_checkpoint package spec files s = Inr s'" and "s' \<noteq> s"
  obtains subs c pend names t where "has_shape s (Idle subs (c # pend))" "isOK (validate_transition_record t)"
    "s' = s\<lparr>ru_checkpoints := subs @ c\<lparr>cr_status := Cp_Active, cr_released_files := names\<rparr> # pend,
       ru_active := Some (cr_checkpoint_id c), ru_status := Awaiting_Submission,
       ru_transitions := ru_transitions s @ [t]\<rparr>"
    "set (cs_depends_on (ls_checkpoints spec ! length subs)) \<subseteq> set (map cr_checkpoint_id subs)"
    "cs_checkpoint_id (ls_checkpoints spec ! length subs) = cr_checkpoint_id c" "length subs < length (ls_checkpoints spec)"
proof -
  have idle: "ru_active s = None"
    using assms(3,4) by (auto simp: release_checkpoint_def split: if_splits option.splits)
  obtain subs pend where sh: "has_shape s (Idle subs pend)" using idleE [OF assms(1) idle] by metis
  note counts = shape_counts(1) [OF sh]
  have less: "length subs < length (ls_checkpoints spec)"
    using assms(3,4) idle counts
    by (auto simp: release_checkpoint_def bindE_eq_Inr_iff not_le split: if_splits)
  have lens: "length subs + length pend = length (ls_checkpoints spec)"
    using assms(1) sh by (metis has_shape.simps(1) length_append length_map run_good_def)
  then obtain c ys where pend: "pend = c # ys" using less by (cases pend) auto
  let ?d = "ls_checkpoints spec ! length subs"
  have id: "cs_checkpoint_id ?d = cr_checkpoint_id c"
  proof -
    have "map cs_checkpoint_id (ls_checkpoints spec) = map cr_checkpoint_id subs @ cr_checkpoint_id c # map cr_checkpoint_id ys"
      using assms(1) sh pend by (simp add: run_good_def)
    then have "map cs_checkpoint_id (ls_checkpoints spec) ! length subs = cr_checkpoint_id c"
      by (metis length_map nth_append_length)
    then show ?thesis using less by simp
  qed
  obtain names ev previous where red: "reduce_release (cs_checkpoint_id ?d) names ''Evidence released for active review.'' previous s = Inr (s', ev)"
    and deps: "set (cs_depends_on ?d) \<subseteq> set (submitted_ids s)"
    using assms(3,4) idle counts less
    by (auto simp: release_checkpoint_def bindE_eq_Inr_iff guardE_eq_Inr_iff Let_def split: if_splits)
  have middle: "ru_checkpoints s = subs @ c # ys" using sh pend by simp
  have ids: "distinct (map cr_checkpoint_id (ru_checkpoints s))" by (rule good_ids [OF assms(1,2)])
  obtain t where t: "isOK (validate_transition_record t)"
    and s': "s' = s\<lparr>ru_checkpoints := subs @ c\<lparr>cr_status := Cp_Active, cr_released_files := names\<rparr> # ys,
      ru_active := Some (cr_checkpoint_id c), ru_status := Awaiting_Submission, ru_transitions := ru_transitions s @ [t]\<rparr>"
    using red by (auto simp: reduce_release_def id map_checkpoint_middle [OF middle ids] bindE_eq_Inr_iff
        guardE_eq_Inr_iff record_transition_Inr)
  show ?thesis using that [OF _ t s'] sh pend deps counts less id by simp
qed

lemma release_good:
  assumes "run_good spec s" and "distinct (map cs_checkpoint_id (ls_checkpoints spec))"
    and "release_checkpoint package spec files s = Inr s'"
  shows "run_good spec s' \<and> ru_package_sha256 s' = ru_package_sha256 s"
proof (cases "s' = s")
  case False
  obtain subs c pend names t where sh: "has_shape s (Idle subs (c # pend))" and t: "isOK (validate_transition_record t)"
    and s': "s' = s\<lparr>ru_checkpoints := subs @ c\<lparr>cr_status := Cp_Active, cr_released_files := names\<rparr> # pend,
       ru_active := Some (cr_checkpoint_id c), ru_status := Awaiting_Submission,
       ru_transitions := ru_transitions s @ [t]\<rparr>"
    by (rule release_cases [OF assms False]) (rule that)
  let ?c = "c\<lparr>cr_status := Cp_Active, cr_released_files := names\<rparr>"
  have old: "ru_checkpoints s = subs @ c # pend" using sh by simp
  have "record_good c" using good_record [OF assms(1)] old by simp
  then have rec_ok: "record_good ?c"
    using sh by (auto simp: record_good_def checkpoint_run_iff requests_ok_def operations_ok_def attempts_named_def
        active_is_own_def untouched_def)
  have "run_good spec s'"
    by (rule good_replace_quiet [OF assms(1,2) old, where c' = ?c and sh = "Busy subs ?c pend"])
      (use sh t rec_ok assms(1) in \<open>auto simp: s' later_record_def owner_keys_def run_good_def intro: identity_fields\<close>)
  then show ?thesis by (simp add: s')
qed (use assms(1) in simp)

text \<open>Submission.\<close>

definition submitted_run :: "string \<Rightarrow> string \<Rightarrow> checkpoint_run \<Rightarrow> checkpoint_run" where
  "submitted_run path digest c =
     c\<lparr>cr_status := Cp_Submitted, cr_submission_path := Some path, cr_submission_sha256 := Some digest,
       cr_attempts := closing (\<lambda>a. a\<lparr>ct_status := Ca_Submitted\<rparr>) (cr_attempts c)\<rparr>"

lemma submit_cases:
  assumes "run_good spec s" and "distinct (map cs_checkpoint_id (ls_checkpoints spec))"
    and "submit_checkpoint codec spec files s = Inr (files', s')"
  obtains subs c pend d final t where "has_shape s (Busy subs c pend)" "isOK (validate_transition_record t)"
    "find_row cs_checkpoint_id (cr_checkpoint_id c) (ls_checkpoints spec) = Some d"
    "files' = files\<lparr>rf_workspace := (rf_workspace files)(cs_submission_path d := Some final),
       rf_archive := (rf_archive files)(cr_checkpoint_id c := Some final)\<rparr>"
    "s' = s\<lparr>ru_checkpoints := subs @ submitted_run (cs_submission_path d) (sha256 final) c # pend,
       ru_active := None, ru_status := (if pend = [] then Run_Complete else Awaiting_Release),
       ru_transitions := ru_transitions s @ [t]\<rparr>"
proof -
  obtain active where active: "ru_active s = Some active"
    using assms(3) by (auto simp: submit_checkpoint_def split: option.splits)
  obtain subs c pend where sh: "has_shape s (Busy subs c pend)" and id: "cr_checkpoint_id c = active"
    using busyE [OF assms(1) active] by metis
  obtain d final ev where found: "find_row cs_checkpoint_id active (ls_checkpoints spec) = Some d"
    and files': "files' = files\<lparr>rf_workspace := (rf_workspace files)(cs_submission_path d := Some final),
       rf_archive := (rf_archive files)(active := Some final)\<rparr>"
    and red: "reduce_submit active (cs_submission_path d) (sha256 final) ''Checkpoint submission archived.'' s = Inr (s', ev)"
    using assms(3) active
    by (simp add: submit_checkpoint_def bindE_eq_Inr_iff Let_def split: option.splits) blast
  have middle: "ru_checkpoints s = subs @ c # pend" using sh by simp
  have ids: "distinct (map cr_checkpoint_id (ru_checkpoints s))" by (rule good_ids [OF assms(1,2)])
  have all: "list_all (\<lambda>c. cr_status c = Cp_Submitted) (subs @ submitted_run p h c # pend) \<longleftrightarrow> pend = []" for p h
    using sh by (cases pend) (auto simp: submitted_run_def list_all_iff)
  have edit: "map_checkpoint active (\<lambda>c. update_active_attempt (\<lambda>a. a\<lparr>ct_status := Ca_Submitted\<rparr>)
      (c\<lparr>cr_status := Cp_Submitted, cr_submission_path := Some p, cr_submission_sha256 := Some h\<rparr>)) s
      = s\<lparr>ru_checkpoints := subs @ submitted_run p h c # pend\<rparr>" for p h
    using map_checkpoint_middle [OF middle ids] id by (simp add: attempts_update_active submitted_run_def)
  obtain t where "isOK (validate_transition_record t)"
    "s' = s\<lparr>ru_checkpoints := subs @ submitted_run (cs_submission_path d) (sha256 final) c # pend,
       ru_active := None, ru_status := (if pend = [] then Run_Complete else Awaiting_Release),
       ru_transitions := ru_transitions s @ [t]\<rparr>"
    using red by (auto simp: reduce_submit_def edit all bindE_eq_Inr_iff guardE_eq_Inr_iff record_transition_Inr
        simp del: list_all_append)
  then show ?thesis using that sh found files' id by blast
qed

lemma closes_submit: "closes (\<lambda>a. a\<lparr>ct_status := Ca_Submitted\<rparr>)"
  by (simp add: closes_def)

lemma submitted_good:
  assumes "record_good c" shows "record_good (submitted_run path digest c)"
proof -
  have ok: "attempts_ok (cr_attempts c)" using assms by (simp add: record_good_def checkpoint_run_iff)
  show ?thesis
    using assms closed_ok [OF closes_submit ok] closed_none_active [OF closes_submit ok] closed_names [OF closes_submit]
    by (auto simp: record_good_def checkpoint_run_iff submitted_run_def requests_ok_def operations_ok_def
        attempts_named_def active_is_own_def)
qed

lemma submitted_later: "later_record c (submitted_run path digest c)"
  using closed_keys [OF closes_submit, where c = c and as = "cr_attempts c"]
  by (simp add: later_record_def submitted_run_def owner_keys_def)

lemma submit_good:
  assumes "run_good spec s" and "distinct (map cs_checkpoint_id (ls_checkpoints spec))"
    and "submit_checkpoint codec spec files s = Inr (files', s')"
  shows "run_good spec s' \<and> ru_package_sha256 s' = ru_package_sha256 s"
proof -
  obtain subs c pend d final t where sh: "has_shape s (Busy subs c pend)" and t: "isOK (validate_transition_record t)"
    and "find_row cs_checkpoint_id (cr_checkpoint_id c) (ls_checkpoints spec) = Some d"
    and "files' = files\<lparr>rf_workspace := (rf_workspace files)(cs_submission_path d := Some final),
       rf_archive := (rf_archive files)(cr_checkpoint_id c := Some final)\<rparr>"
    and s': "s' = s\<lparr>ru_checkpoints := subs @ submitted_run (cs_submission_path d) (sha256 final) c # pend,
       ru_active := None, ru_status := (if pend = [] then Run_Complete else Awaiting_Release),
       ru_transitions := ru_transitions s @ [t]\<rparr>"
    by (rule submit_cases [OF assms])
  let ?c = "submitted_run (cs_submission_path d) (sha256 final) c"
  have old: "ru_checkpoints s = subs @ c # pend" using sh by simp
  have rec_ok: "record_good ?c" using good_record [OF assms(1)] old submitted_good by simp
  have shape: "has_shape s' (Idle (subs @ [?c]) pend)" using sh by (simp add: s' submitted_run_def)
  have identity: "identity_ok s'" using assms(1) t by (auto simp: s' run_good_def intro: identity_fields)
  have "run_good spec s'"
    by (rule good_replace_quiet [OF assms(1,2) old, where c' = ?c, OF _ _ _ _ _ _ identity shape rec_ok submitted_later])
      (simp_all add: s' submitted_run_def)
  then show ?thesis by (simp add: s')
qed

text \<open>Attempts. Opening one under the session of the active one changes nothing.\<close>

definition reopened_attempts :: "checkpoint_attempt \<Rightarrow> checkpoint_run \<Rightarrow> checkpoint_run" where
  "reopened_attempts a c =
     c\<lparr>cr_attempts := closing (\<lambda>b. b\<lparr>ct_status := Ca_Interrupted\<rparr>) (cr_attempts c) @ [a]\<rparr>"

lemma open_cases:
  assumes "run_good spec s" and "distinct (map cs_checkpoint_id (ls_checkpoints spec))"
    and "open_attempt session mode request s = Inr s'" and "s' \<noteq> s"
  obtains subs c pend where "has_shape s (Busy subs c pend)"
    "isOK (validate_checkpoint_attempt (new_attempt (cr_checkpoint_id c) session mode request c))"
    "s' = s\<lparr>ru_checkpoints := subs @ reopened_attempts (new_attempt (cr_checkpoint_id c) session mode request c) c # pend\<rparr>"
proof -
  obtain active where active: "ru_active s = Some active"
    using assms(3) by (auto simp: open_attempt_def split: option.splits)
  obtain subs c pend where sh: "has_shape s (Busy subs c pend)" and id: "cr_checkpoint_id c = active"
    using busyE [OF assms(1) active] by metis
  have middle: "ru_checkpoints s = subs @ c # pend" using sh by simp
  have ids: "distinct (map cr_checkpoint_id (ru_checkpoints s))" by (rule good_ids [OF assms(1,2)])
  note edit = map_checkpoint_middle [OF middle ids] index_middle [OF middle ids]
  have "isOK (validate_checkpoint_attempt (new_attempt (cr_checkpoint_id c) session mode request c))
      \<and> s' = s\<lparr>ru_checkpoints := subs @ reopened_attempts (new_attempt (cr_checkpoint_id c) session mode request c) c # pend\<rparr>"
    using assms(3,4) active edit
    by (auto simp: open_attempt_def reduce_open_attempt_def id [symmetric] bindE_eq_Inr_iff guardE_eq_Inr_iff
        validated_Inr attempts_update_active reopened_attempts_def Let_def validate_checkpoint_attempt_def
        split: option.splits if_splits)
  then show ?thesis using that sh by blast
qed

lemma closes_interrupt: "closes (\<lambda>a. a\<lparr>ct_status := Ca_Interrupted\<rparr>)"
  by (simp add: closes_def)

lemma reopened_good:
  assumes good: "record_good c" and active: "cr_status c = Cp_Active"
    and valid: "isOK (validate_checkpoint_attempt (new_attempt (cr_checkpoint_id c) session mode request c))"
  shows "record_good (reopened_attempts (new_attempt (cr_checkpoint_id c) session mode request c) c)"
proof -
  let ?a = "new_attempt (cr_checkpoint_id c) session mode request c"
  let ?as = "closing (\<lambda>b. b\<lparr>ct_status := Ca_Interrupted\<rparr>) (cr_attempts c)"
  have ok: "attempts_ok (cr_attempts c)" using good by (simp add: record_good_def checkpoint_run_iff)
  have none: "\<forall>b\<in>set ?as. ct_status b \<noteq> Ca_Active" by (rule closed_none_active [OF closes_interrupt ok])
  have "map ct_sequence ?as = [1..int (length (cr_attempts c))]"
    using closed_ok [OF closes_interrupt ok] by (simp add: attempts_ok_def)
  then have "map ct_sequence (?as @ [?a]) = [1..int (length (?as @ [?a]))]"
    by (simp add: new_attempt_def upto_rec2 add.commute)
  moreover have "filter (\<lambda>b. ct_status b = Ca_Active) ?as = []" using none by (simp add: filter_empty_conv)
  ultimately have attempts: "attempts_ok (?as @ [?a])"
    using valid closed_ok [OF closes_interrupt ok] by (auto simp: attempts_ok_def)
  have named: "map ct_attempt_id (?as @ [?a]) = map (attempt_id (cr_checkpoint_id c)) [1..<Suc (length (?as @ [?a]))]"
    using good closed_names [OF closes_interrupt] by (simp add: record_good_def attempts_named_def new_attempt_def)
  show ?thesis
    using good active attempts none named
    by (auto simp: record_good_def checkpoint_run_iff reopened_attempts_def requests_ok_def operations_ok_def
        attempts_named_def active_is_own_def new_attempt_def)
qed

lemma open_good:
  assumes "run_good spec s" and "distinct (map cs_checkpoint_id (ls_checkpoints spec))"
    and "open_attempt session mode request s = Inr s'"
  shows "run_good spec s' \<and> ru_package_sha256 s' = ru_package_sha256 s"
proof (cases "s' = s")
  case False
  obtain subs c pend where sh: "has_shape s (Busy subs c pend)"
    and valid: "isOK (validate_checkpoint_attempt (new_attempt (cr_checkpoint_id c) session mode request c))"
    and s': "s' = s\<lparr>ru_checkpoints := subs @ reopened_attempts (new_attempt (cr_checkpoint_id c) session mode request c) c # pend\<rparr>"
    by (rule open_cases [OF assms False]) (rule that)
  let ?c = "reopened_attempts (new_attempt (cr_checkpoint_id c) session mode request c) c"
  have old: "ru_checkpoints s = subs @ c # pend" using sh by simp
  have rec_ok: "record_good ?c" using good_record [OF assms(1)] old sh valid reopened_good by simp
  have "later_record c ?c"
    using closed_keys [OF closes_interrupt, where c = c and as = "cr_attempts c"]
    by (simp add: later_record_def reopened_attempts_def owner_keys_def)
  then have "run_good spec s'"
    by (intro good_replace_quiet [OF assms(1,2) old, where c' = ?c and sh = "Busy subs ?c pend"])
      (use sh rec_ok assms(1) in \<open>auto simp: s' run_good_def reopened_attempts_def intro: identity_fields\<close>)
  then show ?thesis by (simp add: s')
qed (use assms(1) in simp)

lemma fail_cases:
  assumes "run_good spec s" and "distinct (map cs_checkpoint_id (ls_checkpoints spec))"
    and "fail_attempt session kind s = Inr s'"
  obtains subs c pend where "has_shape s (Busy subs c pend)"
    "s' = s\<lparr>ru_checkpoints := subs @ c\<lparr>cr_attempts :=
       closing (\<lambda>b. b\<lparr>ct_status := Ca_Failed, ct_failure_kind := Some kind\<rparr>) (cr_attempts c)\<rparr> # pend\<rparr>"
proof -
  obtain active where active: "ru_active s = Some active"
    using assms(3) by (auto simp: fail_attempt_def split: option.splits)
  obtain subs c pend where sh: "has_shape s (Busy subs c pend)" and id: "cr_checkpoint_id c = active"
    using busyE [OF assms(1) active] by metis
  have middle: "ru_checkpoints s = subs @ c # pend" using sh by simp
  have ids: "distinct (map cr_checkpoint_id (ru_checkpoints s))" by (rule good_ids [OF assms(1,2)])
  note edit = map_checkpoint_middle [OF middle ids] index_middle [OF middle ids]
  have "s' = s\<lparr>ru_checkpoints := subs @ c\<lparr>cr_attempts :=
       closing (\<lambda>b. b\<lparr>ct_status := Ca_Failed, ct_failure_kind := Some kind\<rparr>) (cr_attempts c)\<rparr> # pend\<rparr>"
    using assms(3) active edit
    by (auto simp: fail_attempt_def reduce_fail_attempt_def id [symmetric] bindE_eq_Inr_iff guardE_eq_Inr_iff
        attempts_update_active split: option.splits)
  then show ?thesis using that sh by blast
qed

lemma fail_good:
  assumes "run_good spec s" and "distinct (map cs_checkpoint_id (ls_checkpoints spec))"
    and "fail_attempt session kind s = Inr s'"
  shows "run_good spec s' \<and> ru_package_sha256 s' = ru_package_sha256 s"
proof -
  let ?f = "\<lambda>b. b\<lparr>ct_status := Ca_Failed, ct_failure_kind := Some kind\<rparr>"
  obtain subs c pend where sh: "has_shape s (Busy subs c pend)"
    and s': "s' = s\<lparr>ru_checkpoints := subs @ c\<lparr>cr_attempts := closing ?f (cr_attempts c)\<rparr> # pend\<rparr>"
    by (rule fail_cases [OF assms])
  let ?c = "c\<lparr>cr_attempts := closing ?f (cr_attempts c)\<rparr>"
  have closes: "closes ?f" by (simp add: closes_def)
  have old: "ru_checkpoints s = subs @ c # pend" using sh by simp
  have good: "record_good c" using good_record [OF assms(1)] old by simp
  then have ok: "attempts_ok (cr_attempts c)" by (simp add: record_good_def checkpoint_run_iff)
  have rec_ok: "record_good ?c"
    using good sh closed_ok [OF closes ok] closed_none_active [OF closes ok] closed_names [OF closes]
    by (auto simp: record_good_def checkpoint_run_iff requests_ok_def operations_ok_def attempts_named_def active_is_own_def)
  have later: "later_record c ?c"
    using closed_keys [OF closes, where c = c and as = "cr_attempts c"] by (simp add: later_record_def owner_keys_def)
  have shape: "has_shape s' (Busy subs ?c pend)" using sh by (simp add: s')
  have identity: "identity_ok s'" using assms(1) by (auto simp: s' run_good_def intro: identity_fields)
  have "run_good spec s'"
    by (rule good_replace_quiet [OF assms(1,2) old, where c' = ?c, OF _ _ _ _ _ _ identity shape rec_ok later])
      (simp_all add: s')
  then show ?thesis by (simp add: s')
qed

text \<open>A revisit is recorded beside the checkpoints.\<close>

lemma good_beside:
  assumes good: "run_good spec s" and same: "ru_checkpoints s' = ru_checkpoints s" "ru_lifecycle_id s' = ru_lifecycle_id s"
      "ru_package_sha256 s' = ru_package_sha256 s" "ru_spec_sha256 s' = ru_spec_sha256 s" "ru_schema s' = ru_schema s"
      "ru_branch s' = ru_branch s" "ru_status s' = ru_status s" "ru_active s' = ru_active s"
    and identity: "identity_ok s'"
  shows "run_good spec s'"
proof -
  have run: "same_run s s'" using same by (simp add: same_run_def)
  have "has_shape s' sh \<longleftrightarrow> has_shape s sh" for sh using same by (cases sh) simp_all
  moreover have "branch_ok s' = branch_ok s" "schema_ok s' = schema_ok s" "actions_numbered s' = actions_numbered s"
    using same by (auto simp: branch_ok_def schema_ok_def actions_numbered_def all_request_actions_def
        all_operation_actions_def split: option.splits)
  moreover have "isOK (validate_request_checkpoint s e f) \<Longrightarrow> isOK (validate_request_checkpoint s' e f)" for e f
    using request_checkpoint_later [OF run later_record_refl] by simp
  then have "list_all2 (\<lambda>c d. isOK (validate_request_checkpoint s' c d)) (ru_checkpoints s') (ls_checkpoints spec)"
    using good same by (auto simp: run_good_def intro: list_all2_mono)
  ultimately show ?thesis
    using good same identity operations_replayed_same [OF run] by (simp add: run_good_def)
qed

lemma validate_revisit_Inr: "validate_revisit r = Inr r' \<longleftrightarrow> isOK (validate_revisit r) \<and> r' = r"
  by (simp add: validate_revisit_def check_then_Inr checked_iff)

definition new_revisit :: "string \<Rightarrow> string \<Rightarrow> run_state \<Rightarrow> checkpoint_revisit" where
  "new_revisit checkpoint_id reason s =
     \<lparr>rv_revisit_id = ''revisit-'' @ padded 3 (length (ru_revisits s) + 1), rv_checkpoint_id = checkpoint_id,
      rv_requested_from = ru_active s, rv_reason = reason\<rparr>"

lemma reduce_revisit_Inr:
  "reduce_revisit checkpoint_id reason s = Inr x \<longleftrightarrow>
     (\<exists>c. index_checkpoint s checkpoint_id = Inr c \<and> cr_status c = Cp_Submitted
       \<and> isOK (validate_revisit (new_revisit checkpoint_id reason s))
       \<and> record_transition Tk_Revisit (ru_active s) (Some checkpoint_id) reason
           (s\<lparr>ru_revisits := ru_revisits s @ [new_revisit checkpoint_id reason s]\<rparr>) = Inr x)"
  unfolding reduce_revisit_def new_revisit_def [symmetric]
  by (cases "index_checkpoint s checkpoint_id"; cases "validate_revisit (new_revisit checkpoint_id reason s)")
    (auto simp: guardE_eq_Inr_iff bindE_eq_Inr_iff validated_def validate_revisit_def check_then_Inr)

lemma revisit_cases:
  assumes "revisit_checkpoint files checkpoint_id reason s = Inr s'"
  obtains c t where "c \<in> set (ru_checkpoints s)" "cr_checkpoint_id c = checkpoint_id" "cr_status c = Cp_Submitted"
    "isOK (validate_revisit (new_revisit checkpoint_id reason s))" "isOK (validate_transition_record t)"
    "s' = s\<lparr>ru_revisits := ru_revisits s @ [new_revisit checkpoint_id reason s],
      ru_transitions := ru_transitions s @ [t]\<rparr>"
proof -
  obtain ev where red: "reduce_revisit checkpoint_id reason s = Inr (s', ev)"
    using assms by (auto simp: revisit_checkpoint_def bindE_eq_Inr_iff)
  obtain c where c: "index_checkpoint s checkpoint_id = Inr c" "cr_status c = Cp_Submitted"
    and r: "isOK (validate_revisit (new_revisit checkpoint_id reason s))"
    and s': "record_transition Tk_Revisit (ru_active s) (Some checkpoint_id) reason
       (s\<lparr>ru_revisits := ru_revisits s @ [new_revisit checkpoint_id reason s]\<rparr>) = Inr (s', ev)"
    using red unfolding reduce_revisit_Inr by metis
  let ?s = "s\<lparr>ru_revisits := ru_revisits s @ [new_revisit checkpoint_id reason s]\<rparr>"
  obtain t where t: "isOK (validate_transition_record t)"
    and "s' = ?s\<lparr>ru_transitions := ru_transitions ?s @ [t]\<rparr>"
    using s' unfolding record_transition_Inr by blast
  then show ?thesis using that [OF _ _ c(2) r t] index_Inr [OF c(1)] by simp
qed

lemma revisit_good:
  assumes "run_good spec s" and "revisit_checkpoint files checkpoint_id reason s = Inr s'"
  shows "run_good spec s' \<and> ru_package_sha256 s' = ru_package_sha256 s"
proof -
  let ?r = "new_revisit checkpoint_id reason s"
  obtain c t where "c \<in> set (ru_checkpoints s)" "cr_checkpoint_id c = checkpoint_id" "cr_status c = Cp_Submitted"
    and r: "isOK (validate_revisit ?r)" and t: "isOK (validate_transition_record t)"
    and s': "s' = s\<lparr>ru_revisits := ru_revisits s @ [?r], ru_transitions := ru_transitions s @ [t]\<rparr>"
    by (rule revisit_cases [OF assms(2)])
  have "identity_ok s'" using assms(1) r t by (auto simp: s' run_good_def identity_ok_def)
  then show ?thesis using good_beside [OF assms(1)] by (simp add: s')
qed

end
