(* ===== verification/Lifecycle_Invariant_Requests.thy ===== *)
theory Lifecycle_Invariant_Requests
  imports Lifecycle_Invariant
begin

text \<open>
  A request for evidence keeps the invariant: whatever the handler decides, the action it records replays
  against the contract.
\<close>

section \<open>Paths of released artifacts\<close>

lemma split_on_append: "split_on sep (a @ sep # b) = split_on sep a @ split_on sep b"
  by (induction a) (auto split: list.splits simp: Cons_eq_append_conv)

lemma posix_parts_path: "posix_parts (path_of xs) = concat (map posix_parts xs)"
proof (induction xs)
  case (Cons x xs)
  then show ?case by (cases xs) (simp_all add: path_of_def posix_parts_def split_on_append)
qed (simp add: path_of_def posix_parts_def)

lemma strip_prefix_append [simp]: "strip_prefix xs (xs @ ys) = Some ys"
  by (induction xs) simp_all

text \<open>The names a POSIX file system admits.\<close>

definition posix_name_ok :: "string \<Rightarrow> bool" where
  "posix_name_ok n \<longleftrightarrow> n \<noteq> [] \<and> n \<noteq> ''.'' \<and> n \<noteq> ''..'' \<and> CHR ''/'' \<notin> set n"

definition tree_ok :: "lifecycle_package \<Rightarrow> bool" where
  "tree_ok package \<longleftrightarrow> (\<forall>(p, e)\<in>set (pk_entries package). \<forall>n\<in>set p. posix_name_ok n)"

lemma split_on_single: "sep \<notin> set n \<Longrightarrow> split_on sep n = [n]"
  by (induction n) auto

lemma posix_parts_name: "posix_name_ok n \<Longrightarrow> posix_parts n = [n]"
  by (simp add: posix_name_ok_def posix_parts_def split_on_single)

lemma copy_entries_names:
  assumes "copy_entries es = Inr files" and "\<forall>(p, e)\<in>set es. p \<noteq> [] \<and> (\<forall>n\<in>set p. posix_name_ok n)"
  shows "\<forall>f\<in>set files. posix_parts (fst f) \<noteq> []"
  using assms
proof (induction es arbitrary: files rule: copy_entries.induct)
  case (4 relative bytes rest)
  then have "posix_parts (path_of relative) \<noteq> []"
    by (cases relative) (auto simp: posix_parts_path posix_parts_name)
  moreover obtain rest_files where "copy_entries rest = Inr rest_files" "files = (path_of relative, bytes) # rest_files"
    using 4 by (auto simp: bindE_eq_Inr_iff)
  ultimately show ?case using 4 by simp
qed auto

lemma copied_names:
  assumes "tree_ok package" and "copy_release package path = Inr files"
  shows "\<forall>f\<in>set files. posix_parts (fst f) \<noteq> []"
proof -
  have "copy_entries (entries_below package path) = Inr files"
    using assms(2) by (auto simp: copy_release_def bindE_eq_Inr_iff guardE_eq_Inr_iff)
  moreover have "\<forall>(p, e)\<in>set (entries_below package path). p \<noteq> [] \<and> (\<forall>n\<in>set p. posix_name_ok n)"
    using assms(1) by (fastforce simp: entries_below_def tree_ok_def dest: in_set_dropD)
  ultimately show ?thesis by (rule copy_entries_names)
qed

lemma released_paths_valid:
  assumes "\<forall>f\<in>set files. posix_parts (fst f) \<noteq> []"
    and "aq_released a = released_artifacts (aq_action_id a) (aq_checkpoint_id a) (aq_request_id a) files"
  shows "isOK (validate_released_paths a)"
proof -
  have literals: "posix_parts ''evidence_requests'' = [''evidence_requests'']" "posix_parts ''artifacts'' = [''artifacts'']"
    "posix_parts ''inbox'' = [''inbox'']" "posix_parts ''requests'' = [''requests'']"
    by (simp_all add: posix_parts_def)
  have "posix_parts (ra_path x) = canonical_prefix a @ posix_parts r \<and>
      posix_parts (ra_workspace_path x) = workspace_prefix a @ posix_parts r"
    if "x = \<lparr>ra_path = path_of [''evidence_requests'', aq_action_id a, ''artifacts'', r],
        ra_workspace_path = path_of [''inbox'', aq_checkpoint_id a, ''requests'', aq_request_id a, r],
        ra_sha256 = sha256 b\<rparr>" for x r b
    using that literals by (simp add: posix_parts_path canonical_prefix_def workspace_prefix_def)
  then show ?thesis
    using assms by (auto simp: validate_released_paths_def released_artifacts_def)
qed

section \<open>Recording\<close>

lemma projection_post:
  "request_projection_sha256 s i b r (as @ [a\<lparr>aq_post_state := p\<rparr>]) = request_projection_sha256 s i b r (as @ [a])"
  by (simp add: request_projection_sha256_def released_payload_def)

lemma bindE_Inr [simp]: "bindE m Inr = m"
  by (cases m) simp_all

lemma request_action_iff:
  "isOK (validate_request_action a) \<longleftrightarrow> \<not> py_blank (aq_action_id a) \<and> \<not> py_blank (aq_checkpoint_id a)
     \<and> \<not> py_blank (aq_requested_checkpoint_id a) \<and> \<not> py_blank (aq_request_id a) \<and> \<not> py_blank (aq_reason a)
     \<and> \<not> py_blank (aq_session_id a) \<and> \<not> py_blank (aq_attempt_id a) \<and> 0 < aq_sequence a
     \<and> is_sha256 (aq_pre_state a) \<and> is_sha256 (aq_post_state a)
     \<and> (\<forall>x\<in>set (aq_released a). isOK (validate_released_artifact x))
     \<and> 0 \<le> aq_budget_before a \<and> aq_budget_consumed a \<in> {0, 1} \<and> 0 \<le> aq_budget_after a
     \<and> aq_budget_after a = aq_budget_before a - aq_budget_consumed a \<and> request_outcome_ok a"
  by (auto simp: validate_request_action_def check_request_fields_def isOK_bindE_const bindE_guardE_OK checked_iff)

lemma valid_post:
  assumes "isOK (validate_request_action a)" and "is_sha256 p"
  shows "isOK (validate_request_action (a\<lparr>aq_post_state := p\<rparr>))"
  using assms by (simp add: request_action_iff request_outcome_ok_def cong: request_outcome.case_cong)

lemma validate_request_action_Inr:
  "validate_request_action a = Inr b \<longleftrightarrow> isOK (validate_request_action a) \<and> b = a"
  by (auto simp: validate_request_action_def bindE_eq_Inr_iff guardE_eq_Inr_iff isOK_iff)

text \<open>The recorded action, with the hashes of the states before and after it.\<close>

definition request_pre :: "run_state \<Rightarrow> checkpoint_run \<Rightarrow> string" where
  "request_pre s c = request_projection_sha256 s (cr_checkpoint_id c) (cr_request_budget c)
     (cr_request_remaining c) (cr_request_actions c)"

definition final_request :: "run_state \<Rightarrow> checkpoint_run \<Rightarrow> request_action \<Rightarrow> request_action" where
  "final_request s c draft = draft\<lparr>aq_post_state := request_projection_sha256 s (cr_checkpoint_id c)
     (cr_request_budget c) (cr_request_remaining c - aq_budget_consumed draft) (cr_request_actions c @ [draft])\<rparr>"

lemma record_cases:
  assumes shape: "has_shape s (Busy subs c pend)" and ids: "distinct (map cr_checkpoint_id (ru_checkpoints s))"
    and step: "record_request_action s requested request_id reason session outcome rejection artifacts source = Inr (a, s')"
  obtains t released draft tr where "active_attempt c = Some t" "ct_session_id t = session"
    "action_artifacts (request_action_id (1 + length (all_request_actions s))) (cr_checkpoint_id c) request_id
       outcome artifacts source = Inr released"
    "draft = draft_request (1 + length (all_request_actions s)) c t requested request_id reason outcome rejection
       released (request_pre s c)"
    "isOK (validate_request_action draft)" "a = final_request s c draft" "isOK (validate_transition_record tr)"
    "s' = s\<lparr>ru_checkpoints := subs @ with_request a c # pend, ru_transitions := ru_transitions s @ [tr]\<rparr>"
proof -
  let ?i = "cr_checkpoint_id c"
  have middle: "ru_checkpoints s = subs @ c # pend" and active: "ru_active s = Some ?i" using shape by simp_all
  have edit: "map_checkpoint ?i (with_request b) s = s\<lparr>ru_checkpoints := subs @ with_request b c # pend\<rparr>" for b
    by (rule map_checkpoint_middle [OF middle ids])
  have hash: "request_state_sha256 (s\<lparr>ru_checkpoints := subs @ with_request b c # pend\<rparr>) ?i
      = Inr (aq_post_state (final_request s c b))" for b
  proof -
    let ?s = "s\<lparr>ru_checkpoints := subs @ with_request b c # pend\<rparr>"
    have "index_checkpoint ?s (cr_checkpoint_id (with_request b c)) = Inr (with_request b c)"
      by (rule index_middle) (use ids middle in \<open>simp_all add: with_request_def\<close>)
    moreover have "request_projection_sha256 ?s = request_projection_sha256 s"
      by (rule projection_same) (simp add: same_run_def)
    ultimately show ?thesis by (simp add: request_state_sha256_def final_request_def with_request_def)
  qed
  have final: "b\<lparr>aq_post_state := aq_post_state (final_request s c b)\<rparr> = final_request s c b" for b
    by (simp add: final_request_def)
  have pre: "request_state_sha256 s ?i = Inr (request_pre s c)"
    by (simp add: request_state_sha256_def index_middle [OF middle ids] request_pre_def)
  obtain t where t: "active_attempt c = Some t" "ct_session_id t = session"
    using step by (auto simp: record_request_action_def active index_middle [OF middle ids] guardE_eq_Inr_iff
        bindE_eq_Inr_iff split: option.splits)
  let ?n = "1 + length (all_request_actions s)"
  obtain released where released: "action_artifacts (request_action_id ?n) ?i request_id outcome artifacts source = Inr released"
    and valid: "isOK (validate_request_action (draft_request ?n c t requested request_id reason outcome rejection
       released (request_pre s c)))"
    and a: "a = final_request s c (draft_request ?n c t requested request_id reason outcome rejection released (request_pre s c))"
    and s': "append_transition Tk_Evidence_Request ?i (''Conditional evidence request '' @ outcome_text outcome @ ''.'')
       (s\<lparr>ru_checkpoints := subs @ with_request a c # pend\<rparr>) = Inr s'"
    using step t unfolding record_request_action_def
    by (simp add: active index_middle [OF middle ids] pre hash edit final bindE_eq_Inr_iff validated_Inr
        validate_request_action_Inr Let_def) (elim exE conjE, simp)
  let ?s = "s\<lparr>ru_checkpoints := subs @ with_request a c # pend\<rparr>"
  obtain tr where tr: "isOK (validate_transition_record tr)" and s'': "s' = ?s\<lparr>ru_transitions := ru_transitions ?s @ [tr]\<rparr>"
    using s' unfolding append_transition_def bindE_eq_Inr_iff
    by (elim exE conjE) (auto simp: record_transition_Inr split: prod.splits)
  show ?thesis using that [OF t released refl valid a tr] s'' by simp
qed

lemma active_attempt_mem: "active_attempt c = Some t \<Longrightarrow> t \<in> set (cr_attempts c) \<and> ct_status t = Ca_Active"
  unfolding active_attempt_def find_Some_iff by (metis length_rev nth_mem set_rev)

lemma active_attempt_owns: "active_attempt c = Some t \<Longrightarrow> owns_action (ct_attempt_id t) (ct_session_id t) c \<noteq> None"
  using active_attempt_mem [of c t] by (auto simp: owns_action_def find_None_iff)

text \<open>The fields of the recorded action that the replay reads.\<close>

lemma final_fields:
  assumes "draft = draft_request n c t requested request_id reason outcome rejection released (request_pre s c)"
    and "a = final_request s c draft"
  shows "aq_action_id a = request_action_id n" "aq_sequence a = int n" "aq_checkpoint_id a = cr_checkpoint_id c"
    "aq_requested_checkpoint_id a = requested" "aq_request_id a = request_id" "aq_outcome a = outcome"
    "aq_rejection a = rejection" "aq_released a = released" "aq_attempt_id a = ct_attempt_id t"
    "aq_session_id a = ct_session_id t" "aq_budget_before a = cr_request_remaining c"
    "aq_budget_consumed a = (if outcome = Rq_Released then 1 else 0)"
    "aq_budget_after a = cr_request_remaining c - (if outcome = Rq_Released then 1 else 0)"
    "aq_pre_state a = request_pre s c"
    "aq_post_state a = request_projection_sha256 s (cr_checkpoint_id c) (cr_request_budget c)
       (cr_request_remaining c - (if outcome = Rq_Released then 1 else 0)) (cr_request_actions c @ [a])"
proof -
  show "aq_post_state a = request_projection_sha256 s (cr_checkpoint_id c) (cr_request_budget c)
       (cr_request_remaining c - (if outcome = Rq_Released then 1 else 0)) (cr_request_actions c @ [a])"
    by (simp add: assms final_request_def projection_post) (simp add: draft_request_def Let_def)
qed (simp_all add: assms final_request_def draft_request_def Let_def)

lemma recorded_good:
  assumes good: "run_good spec s" and distinct: "distinct (map cs_checkpoint_id (ls_checkpoints spec))"
    and shape: "has_shape s (Busy subs c pend)"
    and found: "find_row cs_checkpoint_id (cr_checkpoint_id c) (ls_checkpoints spec) = Some d"
    and step: "record_request_action s requested request_id reason session outcome rejection artifacts source = Inr (a, s')"
    and replays: "isOK (replay_outcome c (cs_evidence d) (cr_request_remaining c) (releases_of (cr_request_actions c)) a)"
  shows "run_good spec s' \<and> ru_package_sha256 s' = ru_package_sha256 s"
proof -
  note ids = good_ids [OF good distinct]
  obtain t released draft tr where t: "active_attempt c = Some t" "ct_session_id t = session"
    and "action_artifacts (request_action_id (1 + length (all_request_actions s))) (cr_checkpoint_id c) request_id
       outcome artifacts source = Inr released"
    and draft: "draft = draft_request (1 + length (all_request_actions s)) c t requested request_id reason outcome
       rejection released (request_pre s c)"
    and valid: "isOK (validate_request_action draft)" and a: "a = final_request s c draft"
    and tr: "isOK (validate_transition_record tr)"
    and s': "s' = s\<lparr>ru_checkpoints := subs @ with_request a c # pend, ru_transitions := ru_transitions s @ [tr]\<rparr>"
    by (rule record_cases [OF shape ids step])
  note fields = final_fields [OF draft a]
  let ?c = "with_request a c"
  have valid_a: "isOK (validate_request_action a)"
    unfolding a final_request_def by (rule valid_post [OF valid]) (simp add: request_projection_sha256_def payload_sha256_def)
  have quiet: "\<forall>e\<in>set pend. untouched e" using good shape by (auto simp: run_good_def record_good_def)
  have old: "ru_checkpoints s = subs @ c # pend" using shape by simp
  have c_good: "record_good c" using good_record [OF good] old by simp
  have run: "same_run s s'" by (simp add: s' same_run_def)
  have later: "later_record c ?c" by (simp add: later_record_def owner_keys_def with_request_def)
  have identity: "identity_ok s'" using good tr by (auto simp: s' run_good_def intro: identity_fields)
  have shape': "has_shape s' (Busy subs ?c pend)" using shape by (simp add: s' with_request_def)
  have schema: "schema_ok s'" using good old by (auto simp: s' run_good_def schema_ok_def with_request_def)
  have "0 \<le> cr_request_remaining c - (if outcome = Rq_Released then 1 else 0)"
    using valid_a by (simp add: request_action_iff fields)
  moreover have "cr_status c = Cp_Active" using shape by simp
  ultimately have rec_ok: "record_good ?c"
    using c_good valid_a fields
    by (auto simp: record_good_def checkpoint_run_iff with_request_def requests_ok_def operations_ok_def request_chain_snoc
        attempts_named_def active_is_own_def split: if_splits)
  have requests: "isOK (validate_request_checkpoint s' ?c e)"
    if "find_row cs_checkpoint_id (cr_checkpoint_id c) (ls_checkpoints spec) = Some e"
      and before: "isOK (validate_request_checkpoint s c e)" for e
  proof -
    have e: "e = d" using that(1) found by simp
    have "replay_requests s' ?c (cs_evidence e) (cr_request_budget c) (cr_request_budget c) [] (releases_of [])
        (cr_request_actions c) = Inr (cr_request_remaining c)"
      by (rule replay_requests_mono [OF run later]) (use before in \<open>unfold request_checkpoint_iff, blast\<close>)
    moreover have "replay_step_ok s c (cs_evidence e) (cr_request_budget c) (cr_request_remaining c) (cr_request_actions c) a"
      using replays active_attempt_owns [OF t(1)] fields e
      by (simp add: replay_step_ok_def request_pre_def Let_def)
    then have "replay_step_ok s' ?c (cs_evidence e) (cr_request_budget c) (cr_request_remaining c) (cr_request_actions c) a"
      by (rule replay_step_mono [OF run later])
    ultimately show ?thesis
      using before fields by (simp add: request_checkpoint_iff with_request_def replay_requests_snoc del: releases_of_simps)
  qed
  have operations: "operations_replay s (operations_of subs) c e \<Longrightarrow> operations_replay s' (operations_of subs) ?c e" for e
    by (rule operations_replay_later [OF run later]) (simp_all add: with_request_def)
  have numbers: "actions_numbered s'"
  proof -
    have pend: "concat (map cr_request_actions pend) = []" using quiet by (simp add: untouched_def)
    have "all_request_actions s' = all_request_actions s @ [a]" "all_operation_actions s' = all_operation_actions s"
      by (simp_all add: s' all_request_actions_def all_operation_actions_def with_request_def old pend)
    then show ?thesis using good fields by (simp add: run_good_def actions_numbered_def numbered_Suc)
  qed
  have "run_good spec s'"
    by (rule good_replace [OF good distinct old _ _ _ _ _ _ identity shape' schema rec_ok later requests operations _ numbers])
      (simp_all add: s' with_request_def)
  then show ?thesis by (simp add: s')
qed

section \<open>The decision\<close>

text \<open>A history that replays releases a request at most once, so the first release is also the newest.\<close>

lemma releases_keys: "fst ` set (releases_of as) = aq_request_id ` set (filter (\<lambda>a. aq_outcome a = Rq_Released) as)"
  by (auto simp: releases_of_def image_image)

lemma replay_distinct:
  "replay_requests s c conditional budget m [] (releases_of []) as = Inr r \<Longrightarrow> distinct (map fst (releases_of as))"
proof (induction as arbitrary: r rule: rev_induct)
  case (snoc a as)
  then obtain k where k: "replay_requests s c conditional budget m [] (releases_of []) as = Inr k"
    and step: "replay_step_ok s c conditional budget k as a"
    using replay_requests_snoc [of s c conditional budget m "[]" as a r] by auto
  have "aq_outcome a = Rq_Released \<Longrightarrow> aq_request_id a \<notin> fst ` set (releases_of as)"
    using step by (auto simp: replay_step_ok_def replay_outcome_def Let_def bindE_guardE_OK map_of_eq_None_iff
        split: option.splits)
  then show ?case using snoc.IH [OF k] by simp
qed simp

lemma map_of_releases:
  assumes "distinct (map fst (releases_of as))"
  shows "map_of (releases_of as) i = find (\<lambda>a. aq_request_id a = i \<and> aq_outcome a = Rq_Released) as"
proof -
  let ?xs = "map (\<lambda>a. (aq_request_id a, a)) (filter (\<lambda>a. aq_outcome a = Rq_Released) as)"
  have keys: "distinct (map fst ?xs)"
    using assms unfolding releases_of_def rev_map [symmetric] distinct_rev .
  have "map_of (rev ?xs) = map_of ?xs"
    using keys by (intro map_of_inject_set [THEN iffD2]) (simp_all add: rev_map [symmetric] del: map_map)
  moreover have "map_of ?xs i = find (\<lambda>a. aq_request_id a = i \<and> aq_outcome a = Rq_Released) as"
    by (induction as) auto
  ultimately show ?thesis by (simp add: releases_of_def)
qed

lemma find_row_key: "find_row k i xs = Some x \<Longrightarrow> k x = i"
  by (auto dest: find_row_Some_key)

lemma recorded_fields:
  assumes "has_shape s (Busy subs c pend)" and "distinct (map cr_checkpoint_id (ru_checkpoints s))"
    and "record_request_action s requested request_id reason session outcome rejection artifacts source = Inr (a, s')"
  shows "aq_checkpoint_id a = cr_checkpoint_id c \<and> aq_requested_checkpoint_id a = requested \<and> aq_request_id a = request_id
    \<and> aq_outcome a = outcome \<and> aq_rejection a = rejection
    \<and> action_artifacts (aq_action_id a) (cr_checkpoint_id c) request_id outcome artifacts source = Inr (aq_released a)"
proof -
  obtain t released draft tr where "active_attempt c = Some t" "ct_session_id t = session"
    and released: "action_artifacts (request_action_id (1 + length (all_request_actions s))) (cr_checkpoint_id c) request_id
       outcome artifacts source = Inr released"
    and draft: "draft = draft_request (1 + length (all_request_actions s)) c t requested request_id reason outcome
       rejection released (request_pre s c)"
    and "isOK (validate_request_action draft)" and a: "a = final_request s c draft"
    and "isOK (validate_transition_record tr)"
    and "s' = s\<lparr>ru_checkpoints := subs @ with_request a c # pend, ru_transitions := ru_transitions s @ [tr]\<rparr>"
    by (rule record_cases [OF assms])
  show ?thesis using final_fields [OF draft a] released by simp
qed

text \<open>The branches of the decision, each with what its action needs to replay.\<close>

lemma request_branches:
  assumes step: "request_evidence package unchanged spec checkpoint_id request_id reason session s = Inr (a, s')"
    and active: "ru_active s = Some active" and index: "index_checkpoint s active = Inr c"
    and found: "find_row cs_checkpoint_id active (ls_checkpoints spec) = Some d"
  obtains (Rejected) requested r
      where "record_request_action s requested request_id reason session Rq_Rejected (Some r) [] None = Inr (a, s')"
        "r = Rr_Inactive_Checkpoint \<and> requested \<noteq> active
         \<or> requested = active \<and> r = Rr_Not_Supported \<and> cs_evidence d = None
         \<or> requested = active \<and> cs_evidence d \<noteq> None \<and> r = Rr_Unknown_Request \<and> find_request request_id (cs_evidence d) = None
         \<or> requested = active \<and> (\<exists>q. find_request request_id (cs_evidence d) = Some q \<and> prior_release c request_id = None
             \<and> (r = Rr_Prerequisites_Incomplete \<and> \<not> set (rq_prerequisites q) \<subseteq> released_request_ids c
               \<or> r = Rr_Budget_Exhausted \<and> set (rq_prerequisites q) \<subseteq> released_request_ids c \<and> cr_request_remaining c < 1))"
    | (Again) prior where "record_request_action s active request_id reason session Rq_Already_Released None (aq_released prior) None
         = Inr (a, s')" "prior_release c request_id = Some prior"
    | (Released) q path where "record_request_action s active request_id reason session Rq_Released None [] (Some (copy_release package path))
         = Inr (a, s')" "find_request request_id (cs_evidence d) = Some q" "prior_release c request_id = None"
         "set (rq_prerequisites q) \<subseteq> released_request_ids c" "1 \<le> cr_request_remaining c"
proof -
  let ?requested = "case checkpoint_id of None \<Rightarrow> active | Some i \<Rightarrow> i"
  let ?reject = "\<lambda>r. record_request_action s ?requested request_id reason session Rq_Rejected (Some r) [] None = Inr (a, s')"
  show ?thesis
  proof (cases "?requested = active")
    case False
    then have "?reject Rr_Inactive_Checkpoint"
      using step by (auto simp: request_evidence_def active index found bindE_eq_Inr_iff guardE_eq_Inr_iff Let_def
          split: option.splits)
    then show ?thesis using Rejected [of ?requested Rr_Inactive_Checkpoint] False by simp
  next
    case here: True
    show ?thesis
    proof (cases "cs_evidence d")
      case None
      then have "?reject Rr_Not_Supported"
        using step here by (auto simp: request_evidence_def active index found bindE_eq_Inr_iff guardE_eq_Inr_iff Let_def
            split: option.splits)
      then show ?thesis using Rejected [of ?requested Rr_Not_Supported] here None by simp
    next
      case (Some e)
      note unfold = request_evidence_def active index found bindE_eq_Inr_iff guardE_eq_Inr_iff Let_def
      have find: "find_request request_id (cs_evidence d) = find_row rq_request_id request_id (ce_requests e)"
        by (simp add: find_request_def Some)
      show ?thesis
      proof (cases "find_row rq_request_id request_id (ce_requests e)")
        case None
        then have "?reject Rr_Unknown_Request" using step here Some by (auto simp: unfold split: option.splits)
        then show ?thesis using Rejected [of ?requested Rr_Unknown_Request] here Some None find by simp
      next
        case q: (Some q)
        show ?thesis
        proof (cases "prior_release c request_id")
          case (Some prior)
          then have "record_request_action s active request_id reason session Rq_Already_Released None
              (aq_released prior) None = Inr (a, s')"
            using step here q \<open>cs_evidence d = Some e\<close> by (auto simp: unfold split: option.splits)
          then show ?thesis using Again Some by simp
        next
          case None
          show ?thesis
          proof (cases "set (rq_prerequisites q) \<subseteq> released_request_ids c")
            case False
            then have "?reject Rr_Prerequisites_Incomplete"
              using step here q None Some by (auto simp: unfold split: option.splits)
            then show ?thesis
              using Rejected [of ?requested Rr_Prerequisites_Incomplete] here Some None q find False by simp
          next
            case complete: True
            show ?thesis
            proof (cases "cr_request_remaining c < 1")
              case True
              then have "?reject Rr_Budget_Exhausted"
                using step here q None Some complete by (auto simp: unfold split: option.splits)
              then show ?thesis
                using Rejected [of ?requested Rr_Budget_Exhausted] here Some None q find complete True by simp
            next
              case False
              then have "\<exists>path. record_request_action s active request_id reason session Rq_Released None []
                  (Some (copy_release package path)) = Inr (a, s')"
                using step here q None Some complete by (auto simp: unfold split: option.splits)
              then show ?thesis using Released q find None complete False by (auto simp: not_less)
            qed
          qed
        qed
      qed
    qed
  qed
qed

theorem request_good:
  assumes good: "run_good spec s" and distinct: "distinct (map cs_checkpoint_id (ls_checkpoints spec))"
    and tree: "tree_ok package"
    and step: "request_checkpoint_evidence package unchanged spec checkpoint_id request_id reason session s = Inr (a, s')"
  shows "run_good spec s' \<and> ru_package_sha256 s' = ru_package_sha256 s"
proof -
  have decide: "request_evidence package unchanged spec checkpoint_id request_id reason session s = Inr (a, s')"
    using step by (auto simp: request_checkpoint_evidence_def bindE_eq_Inr_iff guardE_eq_Inr_iff)
  obtain active where active: "ru_active s = Some active"
    using decide by (auto simp: request_evidence_def bindE_eq_Inr_iff split: option.splits)
  obtain subs c pend where shape: "has_shape s (Busy subs c pend)" and id: "cr_checkpoint_id c = active"
    and c_good: "record_good c"
    using busyE [OF good active] by metis
  note ids = good_ids [OF good distinct]
  have old: "ru_checkpoints s = subs @ c # pend" using shape by simp
  have index: "index_checkpoint s active = Inr c" using index_middle [OF old ids] id by simp
  obtain d where contract: "find_row cs_checkpoint_id (cr_checkpoint_id c) (ls_checkpoints spec) = Some d"
    and replayed: "isOK (validate_request_checkpoint s c d)"
    using good_contract [OF good distinct old] by metis
  have found: "find_row cs_checkpoint_id active (ls_checkpoints spec) = Some d" using contract id by simp
  note record_good = recorded_good [OF good distinct shape contract]
  let ?released = "releases_of (cr_request_actions c)"
  have keys: "distinct (map fst ?released)"
    using replay_distinct [OF replayed [unfolded request_checkpoint_iff, THEN conjunct2]] .
  have prior: "map_of ?released i = prior_release c i" for i by (simp add: map_of_releases [OF keys] prior_release_def)
  have known: "fst ` set ?released = released_request_ids c" by (simp add: releases_keys released_request_ids_def)
  have named: "find_request request_id (cs_evidence d) = Some q \<Longrightarrow> rq_request_id q = request_id" for q
    by (auto simp: find_request_def dest: find_row_key split: option.splits)
  have fresh: "prior_release c request_id = None \<Longrightarrow> request_id \<notin> released_request_ids c"
    by (auto simp: prior_release_def find_None_iff released_request_ids_def)
  have budget: "0 \<le> cr_request_remaining c" using c_good by (simp add: record_good_def checkpoint_run_iff requests_ok_def)
  show ?thesis
  proof (rule request_branches [OF decide active index found])
    fix requested r
    assume run: "record_request_action s requested request_id reason session Rq_Rejected (Some r) [] None = Inr (a, s')"
      and why: "r = Rr_Inactive_Checkpoint \<and> requested \<noteq> active
         \<or> requested = active \<and> r = Rr_Not_Supported \<and> cs_evidence d = None
         \<or> requested = active \<and> cs_evidence d \<noteq> None \<and> r = Rr_Unknown_Request \<and> find_request request_id (cs_evidence d) = None
         \<or> requested = active \<and> (\<exists>q. find_request request_id (cs_evidence d) = Some q \<and> prior_release c request_id = None
             \<and> (r = Rr_Prerequisites_Incomplete \<and> \<not> set (rq_prerequisites q) \<subseteq> released_request_ids c
               \<or> r = Rr_Budget_Exhausted \<and> set (rq_prerequisites q) \<subseteq> released_request_ids c \<and> cr_request_remaining c < 1))"
    have "rejection_justified a (cr_checkpoint_id c) (find_request request_id (cs_evidence d)) (released_request_ids c)
        (cr_request_remaining c) (cs_evidence d \<noteq> None)"
      using why recorded_fields [OF shape ids run] id budget
      by (elim disjE exE conjE) (auto simp: rejection_justified_def named fresh)
    then show ?thesis
      using recorded_fields [OF shape ids run]
      by (intro record_good [OF run]) (simp add: replay_outcome_def Let_def known bindE_guardE_OK)
  next
    fix p
    assume run: "record_request_action s active request_id reason session Rq_Already_Released None (aq_released p) None = Inr (a, s')"
      and "prior_release c request_id = Some p"
    then show ?thesis
      using recorded_fields [OF shape ids run]
      by (intro record_good [OF run]) (simp add: replay_outcome_def Let_def prior bindE_guardE_OK action_artifacts_def)
  next
    fix q path
    assume run: "record_request_action s active request_id reason session Rq_Released None [] (Some (copy_release package path)) = Inr (a, s')"
      and q: "find_request request_id (cs_evidence d) = Some q" "prior_release c request_id = None"
        "set (rq_prerequisites q) \<subseteq> released_request_ids c" "1 \<le> cr_request_remaining c"
    note fields = recorded_fields [OF shape ids run]
    obtain files where files: "copy_release package path = Inr files"
      and "aq_released a = released_artifacts (aq_action_id a) (aq_checkpoint_id a) (aq_request_id a) files"
      using fields by (auto simp: action_artifacts_def bindE_eq_Inr_iff guardE_eq_Inr_iff Let_def)
    then have "isOK (validate_released_paths a)" using released_paths_valid copied_names [OF tree files] by blast
    then show ?thesis
      using fields q id by (intro record_good [OF run]) (simp add: replay_outcome_def Let_def prior known bindE_guardE_OK isOK_bindE_const)
  qed
qed

end
