(* ===== verification/Lifecycle_Invariant_Operations.thy ===== *)
theory Lifecycle_Invariant_Operations
  imports Lifecycle_Invariant_Requests
begin

text \<open>
  An operation keeps the invariant, whatever the handler decides, provided that the resolver of the task
  answers as the runtime relies on (\<open>resolver_faithful\<close>) and that an operation id means the same kind at
  every checkpoint (\<open>kinds_consistent\<close>).
\<close>

section \<open>What the runtime relies on\<close>

text \<open>
  A plan belongs to the operation it was asked for, names prior completed actions of the public
  prerequisite graph, and leaves the source alone unless it activates one anew.
\<close>

definition plan_faithful :: "checkpoint_spec \<Rightarrow> operation_action list \<Rightarrow> operation_spec \<Rightarrow> source_context \<Rightarrow> operation_plan \<Rightarrow> bool" where
  "plan_faithful d actions x source plan \<longleftrightarrow>
     pl_operation_id plan = op_operation_id x \<and> distinct (pl_prerequisite_actions plan)
     \<and> list_all (\<lambda>i. case find_row ao_action_id i actions of None \<Rightarrow> False
         | Some p \<Rightarrow> ao_outcome p = Oo_Completed \<and> (case operation_closure d (op_operation_id x) of
             Inl _ \<Rightarrow> False | Inr allowed \<Rightarrow> ao_operation_id p \<in> set allowed)) (pl_prerequisite_actions plan)
     \<and> (pl_disposition plan = Od_Activated \<and> current_operation_action actions plan = None
        \<or> sc_visible (pl_after plan) = sc_visible source \<and> sc_physical (pl_after plan) = sc_physical source)"

text \<open>The current source is the one the last action left, and every plan is faithful.\<close>

definition resolver_faithful :: "lifecycle_spec \<Rightarrow> operation_resolver \<Rightarrow> run_state \<Rightarrow> bool" where
  "resolver_faithful spec resolver s \<longleftrightarrow>
     (let actions = ordered_operation_actions s in
      case or_current_source resolver actions of Inl _ \<Rightarrow> True
      | Inr source \<Rightarrow>
          (actions = [] \<or> sc_visible source = ao_visible_after (last actions)
             \<and> sc_physical source = ao_physical_after (last actions))
          \<and> list_all (\<lambda>d. case cs_operations d of None \<Rightarrow> True
              | Some e \<Rightarrow> list_all (\<lambda>x. case or_plan resolver x actions of Inl _ \<Rightarrow> True
                  | Inr plan \<Rightarrow> plan_faithful d actions x source plan) (co_operations e)) (ls_checkpoints spec))"

definition declared_kinds :: "lifecycle_spec \<Rightarrow> (string \<times> string) list" where
  "declared_kinds spec = concat (map (\<lambda>d. case cs_operations d of None \<Rightarrow> []
     | Some e \<Rightarrow> map (\<lambda>x. (op_operation_id x, op_kind x)) (co_operations e)) (ls_checkpoints spec))"

definition kinds_consistent :: "lifecycle_spec \<Rightarrow> bool" where
  "kinds_consistent spec \<longleftrightarrow>
     list_all (\<lambda>(i, k). list_all (\<lambda>(j, l). i = j \<longrightarrow> k = l) (declared_kinds spec)) (declared_kinds spec)"

section \<open>The prerequisites of a declared operation\<close>

lemma closure_walk_total:
  "\<forall>x\<in>set xs. x \<in> fst ` set g \<Longrightarrow> \<forall>(x, ds)\<in>set g. set ds \<subseteq> fst ` set g \<Longrightarrow> isOK (closure_walk g xs closure)"
proof (induction g xs closure rule: closure_walk.induct)
  case (2 g x xs closure)
  show ?case
  proof (cases "map_of g x")
    case None
    then show ?thesis using 2 by (auto simp: map_of_eq_None_iff)
  next
    case (Some ds)
    then have "set ds \<subseteq> fst ` set g" using bspec [OF 2(4) map_of_SomeD [OF Some]] by simp
    then have "\<forall>y\<in>set (ds @ xs). y \<in> fst ` set g" using 2(3) by auto
    then show ?thesis using 2 Some by simp
  qed
qed simp

lemma operation_closure_total:
  assumes "isOK (validate_conditional_operations e)" and "cs_operations d = Some e" and "x \<in> set (co_operations e)"
  shows "isOK (operation_closure d (op_operation_id x))"
proof -
  have known: "\<forall>(y, ds)\<in>set (operation_graph e). set ds \<subseteq> fst ` set (operation_graph e)"
    and keys: "distinct (map fst (operation_graph e))"
    using assms(1) check_graph_iff [of operation_messages "co_operation_budget e" "operation_graph e"]
    by (auto simp: validate_conditional_operations_def validate_operation_graph_def isOK_bindE_const checked_iff)
  have entry: "(op_operation_id x, op_prerequisites x) \<in> set (operation_graph e)"
    using assms(3) by (auto simp: operation_graph_def)
  then have "map_of (operation_graph e) (op_operation_id x) = Some (op_prerequisites x)"
    using keys by (simp add: map_of_is_SomeI)
  moreover have "\<forall>y\<in>set (op_prerequisites x). y \<in> fst ` set (operation_graph e)" using known entry by auto
  ultimately show ?thesis using closure_walk_total [OF _ known] by (simp add: operation_closure_def assms(2))
qed

section \<open>Names of attempts\<close>

lemma read_digits_zeros: "read_digits (replicate k (CHR ''0'') @ s) = read_digits s"
  by (induction k) (simp_all add: read_digits_def)

lemma padded_inj: "padded w m = padded w n \<Longrightarrow> m = n"
  unfolding padded_def by (metis read_digits_show_nat read_digits_zeros)

lemma attempt_id_inj: "attempt_id i m = attempt_id i n \<Longrightarrow> m = n"
  by (auto simp: attempt_id_def dest: padded_inj)

lemma named_distinct:
  assumes "attempts_named c"
  shows "distinct (map ct_attempt_id (cr_attempts c))"
  unfolding assms [unfolded attempts_named_def] distinct_map
  by (intro conjI inj_onI) (simp_all add: attempt_id_inj del: upt_Suc)

lemma find_unique:
  assumes "distinct (map k xs)" and "x \<in> set xs" and "p x" and only: "\<And>y. p y \<Longrightarrow> k y = k x"
  shows "find p xs = Some x"
  using assms(1-3)
proof (induction xs)
  case (Cons y ys)
  show ?case
  proof (cases "p y")
    case True
    then have "k y = k x" by (rule only)
    then have "x \<notin> set ys" using Cons.prems(1) by force
    then show ?thesis using Cons.prems(2) True by simp
  next
    case False
    then show ?thesis using Cons by auto
  qed
qed simp

text \<open>The active attempt is the one that owns its actions.\<close>

lemma active_owner_flag:
  assumes "record_good c" and "active_attempt c = Some t"
  shows "owner_flag (ct_attempt_id t) (ct_session_id t) c = Some False"
proof -
  have t: "t \<in> set (cr_attempts c)" "ct_status t = Ca_Active" using active_attempt_mem [OF assms(2)] by simp_all
  have "owns_action (ct_attempt_id t) (ct_session_id t) c = Some t"
    unfolding owns_action_def
    by (rule find_unique [where k = ct_attempt_id]) (use assms(1) t named_distinct in \<open>auto simp: record_good_def\<close>)
  then show ?thesis using assms(1) t by (simp add: owner_flag_def record_good_def active_is_own_def)
qed

section \<open>Publishing\<close>

lemma ordered_numbered:
  assumes "map ao_sequence (all_operation_actions s) = map int [1..<Suc n]"
  shows "ordered_operation_actions s = all_operation_actions s"
proof -
  have "sorted (map int [1..<Suc n])" by (simp add: sorted_map del: upt_Suc)
  then show ?thesis unfolding ordered_operation_actions_def by (intro sort_key_id_if_sorted) (simp only: assms)
qed

lemma sequence_numbered:
  assumes "actions_numbered s"
  shows "map ao_sequence (all_operation_actions s) = map int [1..<Suc (length (all_operation_actions s))]"
    and "map ao_action_id (all_operation_actions s) = map operation_action_id [1..<Suc (length (all_operation_actions s))]"
proof -
  have both: "map (\<lambda>a. (ao_sequence a, ao_action_id a)) (all_operation_actions s)
      = numbered (length (all_operation_actions s)) operation_action_id"
    using assms by (simp add: actions_numbered_def)
  show "map ao_sequence (all_operation_actions s) = map int [1..<Suc (length (all_operation_actions s))]"
    using arg_cong [OF both, of "map fst"] by (simp add: numbered_def comp_def del: upt_Suc)
  show "map ao_action_id (all_operation_actions s) = map operation_action_id [1..<Suc (length (all_operation_actions s))]"
    using arg_cong [OF both, of "map snd"] by (simp add: numbered_def comp_def del: upt_Suc)
qed

lemma ordered_actions: "actions_numbered s \<Longrightarrow> ordered_operation_actions s = all_operation_actions s"
  by (rule ordered_numbered [OF sequence_numbered(1)])

lemma operation_ids_distinct: "actions_numbered s \<Longrightarrow> distinct (map ao_action_id (all_operation_actions s))"
  unfolding sequence_numbered(2) distinct_map
  by (intro conjI inj_onI) (auto simp: operation_action_id_def dest: padded_inj simp del: upt_Suc)

lemma operation_hash_post:
  "operation_state_sha256 s i v p r (as @ [a\<lparr>ao_post_state := h\<rparr>]) = operation_state_sha256 s i v p r (as @ [a])"
  by (simp add: operation_state_sha256_def completed_payload_def)

lemma validate_operation_action_Inr:
  "validate_operation_action a = Inr b \<longleftrightarrow> isOK (validate_operation_action a) \<and> b = a"
  by (auto simp: validate_operation_action_def bindE_eq_Inr_iff guardE_eq_Inr_iff isOK_iff)

lemma valid_operation_post:
  assumes "isOK (validate_operation_action a)" and "is_sha256 p"
  shows "isOK (validate_operation_action (a\<lparr>ao_post_state := p\<rparr>))"
  using assms
  by (simp add: validate_operation_action_def check_operation_fields_def isOK_bindE_const bindE_guardE_OK checked_iff
      operation_outcome_ok_def workspace_paths_def cong: operation_outcome.case_cong)

definition operation_pre :: "run_state \<Rightarrow> checkpoint_run \<Rightarrow> source_context \<Rightarrow> string" where
  "operation_pre s c source = operation_state_sha256 s (cr_checkpoint_id c) (sc_visible source) (sc_physical source)
     (cr_operation_remaining c) (all_operation_actions s)"

definition final_operation :: "run_state \<Rightarrow> checkpoint_run \<Rightarrow> operation_action \<Rightarrow> operation_action" where
  "final_operation s c draft = draft\<lparr>ao_post_state := operation_state_sha256 s (cr_checkpoint_id c)
     (ao_visible_after draft) (ao_physical_after draft) (ao_budget_after draft) (all_operation_actions s @ [draft])\<rparr>"

lemma all_actions_middle:
  assumes "ru_checkpoints s = subs @ c # pend" and "\<forall>e\<in>set pend. untouched e"
  shows "all_operation_actions s = operations_of subs @ cr_operation_actions c"
    "all_operation_actions (s\<lparr>ru_checkpoints := subs @ with_operation a c # pend\<rparr>) = all_operation_actions s @ [a]"
proof -
  have none: "concat (map cr_operation_actions pend) = []" using assms(2) by (simp add: untouched_def)
  show "all_operation_actions s = operations_of subs @ cr_operation_actions c"
    "all_operation_actions (s\<lparr>ru_checkpoints := subs @ with_operation a c # pend\<rparr>) = all_operation_actions s @ [a]"
    by (simp_all add: all_operation_actions_def assms(1) with_operation_def operations_of_def none)
qed

lemma publish_cases:
  assumes shape: "has_shape s (Busy subs c pend)" and ids: "distinct (map cr_checkpoint_id (ru_checkpoints s))"
    and numbers: "actions_numbered s" and quiet: "\<forall>e\<in>set pend. untouched e"
    and step: "publish_operation_action resolver s requested operation_id operation_kind reason session supplied source basis
       = Inr (a, s')"
  obtains t f draft tr where "active_attempt c = Some t" "ct_session_id t = session"
    "basis_result resolver (operation_action_id (1 + length (all_operation_actions s))) (cr_checkpoint_id c) operation_id
       supplied source basis = Inr f"
    "draft = draft_operation (1 + length (all_operation_actions s)) c t requested operation_id operation_kind reason
       supplied source f (operation_pre s c source)"
    "isOK (validate_operation_action draft)" "a = final_operation s c draft" "isOK (validate_transition_record tr)"
    "s' = s\<lparr>ru_checkpoints := subs @ with_operation a c # pend, ru_transitions := ru_transitions s @ [tr]\<rparr>"
proof -
  let ?i = "cr_checkpoint_id c" and ?n = "1 + length (all_operation_actions s)"
  have middle: "ru_checkpoints s = subs @ c # pend" and active: "ru_active s = Some ?i" using shape by simp_all
  have edit: "map_checkpoint ?i (with_operation b) s = s\<lparr>ru_checkpoints := subs @ with_operation b c # pend\<rparr>" for b
    by (rule map_checkpoint_middle [OF middle ids])
  note ordered = ordered_actions [OF numbers]
  have edited: "ordered_operation_actions (s\<lparr>ru_checkpoints := subs @ with_operation b c # pend\<rparr>)
      = all_operation_actions s @ [b]" if "ao_sequence b = int ?n" for b
  proof -
    note all = all_actions_middle(2) [OF middle quiet, of b]
    have "map ao_sequence (all_operation_actions (s\<lparr>ru_checkpoints := subs @ with_operation b c # pend\<rparr>))
        = map int [1..<Suc ?n]"
      using sequence_numbered(1) [OF numbers] that by (simp add: all)
    then show ?thesis using ordered_numbered all by metis
  qed
  obtain t where t: "active_attempt c = Some t" "ct_session_id t = session"
    using step by (auto simp: publish_operation_action_def active index_middle [OF middle ids] guardE_eq_Inr_iff
        bindE_eq_Inr_iff split: option.splits)
  obtain f where f: "basis_result resolver (operation_action_id ?n) ?i operation_id supplied source basis = Inr f"
    using step t by (auto simp: publish_operation_action_def active index_middle [OF middle ids] guardE_eq_Inr_iff
        bindE_eq_Inr_iff ordered split: option.splits)
  define draft where "draft = draft_operation ?n c t requested operation_id operation_kind reason supplied source f
    (operation_pre s c source)"
  have after: "sc_visible (bf_after f) = ao_visible_after draft" "sc_physical (bf_after f) = ao_physical_after draft"
    "ao_sequence draft = int ?n"
    by (simp_all add: draft_def draft_operation_def)
  have final: "draft\<lparr>ao_post_state := operation_state_sha256 s ?i (ao_visible_after draft) (ao_physical_after draft)
      (ao_budget_after draft) (all_operation_actions s @ [draft])\<rparr> = final_operation s c draft"
    by (simp add: final_operation_def)
  have valid: "isOK (validate_operation_action draft)"
    and a: "a = final_operation s c draft"
    and s': "append_transition Tk_Operation ?i (''Lifecycle operation '' @ operation_outcome_text (bf_outcome f) @ ''.'')
       (s\<lparr>ru_checkpoints := subs @ with_operation a c # pend\<rparr>) = Inr s'"
    using step t unfolding publish_operation_action_def
    by (simp_all add: active index_middle [OF middle ids] f ordered edit edited [OF after(3)] after(1,2) final bindE_eq_Inr_iff
        validated_Inr validate_operation_action_Inr Let_def operation_pre_def [symmetric] draft_def [symmetric] del: One_nat_def) (elim conjE, simp)
  let ?s = "s\<lparr>ru_checkpoints := subs @ with_operation a c # pend\<rparr>"
  obtain tr where tr: "isOK (validate_transition_record tr)" and s'': "s' = ?s\<lparr>ru_transitions := ru_transitions ?s @ [tr]\<rparr>"
    using s' unfolding append_transition_def bindE_eq_Inr_iff
    by (elim exE conjE) (auto simp: record_transition_Inr split: prod.splits)
  show ?thesis using that [OF t f draft_def valid a tr] s'' by simp
qed

text \<open>What the replay asks of an action beyond its owner, its budget and its hashes.\<close>

definition action_justified :: "checkpoint_spec \<Rightarrow> operation_action list \<Rightarrow> operation_action \<Rightarrow> bool" where
  "action_justified d prior a \<longleftrightarrow> continues prior a \<and> (ao_disposition a = Some Od_Activated \<or> source_unchanged a)
     \<and> (ao_outcome a \<in> {Oo_Rejected, Oo_Already_Current} \<longrightarrow> source_unchanged a)
     \<and> (ao_outcome a = Oo_Already_Current \<longrightarrow> isOK (validate_reused_lineage a prior))
     \<and> (case validate_public_contract d a (completed_ids prior) of Inl _ \<Rightarrow> False
        | Inr declared \<Rightarrow> isOK (validate_prerequisite_lineage a declared prior d))"

lemma replay_operation_intro:
  assumes "action_justified d prior a" and "owner_flag (ao_attempt_id a) (ao_session_id a) c = Some (ao_inherited a)"
    and "ao_budget_before a = remaining"
    and "ao_pre_state a = operation_state_sha256 s (ao_checkpoint_id a) (ao_visible_before a) (ao_physical_before a) remaining prior"
    and "ao_post_state a = operation_state_sha256 s (ao_checkpoint_id a) (ao_visible_after a) (ao_physical_after a)
       (ao_budget_after a) (prior @ [a])"
  shows "isOK (replay_operation s c d remaining prior a)"
proof -
  have "isOK (validate_attempt_owner c a)" using assms(2) by (simp add: owner_valid_iff)
  then show ?thesis
    using assms unfolding replay_operation_def action_justified_def
    by (auto simp: isOK_bindE_const bindE_guardE_OK isOK_bindE split: sum.splits)
qed

lemma final_operation_fields:
  assumes "draft = draft_operation n c t requested operation_id operation_kind reason supplied source f (operation_pre s c source)"
    and "a = final_operation s c draft"
  shows "ao_action_id a = operation_action_id n" "ao_sequence a = int n" "ao_checkpoint_id a = cr_checkpoint_id c"
    "ao_requested_checkpoint_id a = requested" "ao_operation_id a = operation_id" "ao_operation_kind a = operation_kind"
    "ao_outcome a = bf_outcome f" "ao_rejection a = bf_rejection f" "ao_disposition a = bf_disposition f"
    "ao_visible_before a = sc_visible source" "ao_physical_before a = sc_physical source"
    "ao_visible_after a = sc_visible (bf_after f)" "ao_physical_after a = sc_physical (bf_after f)"
    "ao_input_projection a = bf_input f" "ao_prerequisite_actions a = bf_prerequisites f"
    "ao_retained_from a = bf_retained f" "ao_artifacts a = bf_artifacts f" "ao_inherited a = False"
    "ao_attempt_id a = ct_attempt_id t" "ao_session_id a = ct_session_id t"
    "ao_budget_before a = cr_operation_remaining c" "ao_budget_consumed a = bf_consumed f"
    "ao_budget_after a = cr_operation_remaining c - bf_consumed f" "ao_pre_state a = operation_pre s c source"
    "ao_post_state a = operation_state_sha256 s (cr_checkpoint_id c) (sc_visible (bf_after f)) (sc_physical (bf_after f))
       (cr_operation_remaining c - bf_consumed f) (all_operation_actions s @ [a])"
proof -
  show "ao_post_state a = operation_state_sha256 s (cr_checkpoint_id c) (sc_visible (bf_after f)) (sc_physical (bf_after f))
       (cr_operation_remaining c - bf_consumed f) (all_operation_actions s @ [a])"
    by (simp add: assms final_operation_def operation_hash_post) (simp add: draft_operation_def)
qed (simp_all add: assms final_operation_def draft_operation_def)

lemma published_good:
  assumes good: "run_good spec s" and distinct: "distinct (map cs_checkpoint_id (ls_checkpoints spec))"
    and supports: "supports_operations spec"
    and shape: "has_shape s (Busy subs c pend)"
    and found: "find_row cs_checkpoint_id (cr_checkpoint_id c) (ls_checkpoints spec) = Some d"
    and step: "publish_operation_action resolver s requested operation_id operation_kind reason session supplied source basis
       = Inr (a, s')"
    and just: "action_justified d (all_operation_actions s) a"
  shows "run_good spec s' \<and> ru_package_sha256 s' = ru_package_sha256 s"
proof -
  note ids = good_ids [OF good distinct]
  have quiet: "\<forall>e\<in>set pend. untouched e" using good shape by (auto simp: run_good_def record_good_def)
  have numbers: "actions_numbered s" and seven: "ru_schema s = Schema_7" using good supports by (simp_all add: run_good_def)
  obtain t f draft tr where t: "active_attempt c = Some t" "ct_session_id t = session"
    and "basis_result resolver (operation_action_id (1 + length (all_operation_actions s))) (cr_checkpoint_id c) operation_id
       supplied source basis = Inr f"
    and draft: "draft = draft_operation (1 + length (all_operation_actions s)) c t requested operation_id operation_kind reason
       supplied source f (operation_pre s c source)"
    and valid: "isOK (validate_operation_action draft)" and a: "a = final_operation s c draft"
    and tr: "isOK (validate_transition_record tr)"
    and s': "s' = s\<lparr>ru_checkpoints := subs @ with_operation a c # pend, ru_transitions := ru_transitions s @ [tr]\<rparr>"
    by (rule publish_cases [OF shape ids numbers quiet step])
  note fields = final_operation_fields [OF draft a]
  let ?c = "with_operation a c"
  have valid_a: "isOK (validate_operation_action a)"
    unfolding a final_operation_def
    by (rule valid_operation_post [OF valid]) (simp add: operation_state_sha256_def payload_sha256_def)
  have old: "ru_checkpoints s = subs @ c # pend" using shape by simp
  have c_good: "record_good c" using good_record [OF good] old by simp
  have run: "same_run s s'" by (simp add: s' same_run_def)
  have later: "later_record c ?c" by (simp add: later_record_def owner_keys_def with_operation_def)
  have identity: "identity_ok s'" using good tr by (auto simp: s' run_good_def intro: identity_fields)
  have shape': "has_shape s' (Busy subs ?c pend)" using shape by (simp add: s' with_operation_def)
  have schema: "schema_ok s'" by (simp add: s' seven schema_ok_def)
  have range: "0 \<le> cr_operation_remaining c - bf_consumed f" "bf_consumed f \<in> {0, 1}"
    using valid_a
    by (simp_all add: validate_operation_action_def check_operation_fields_def isOK_bindE_const bindE_guardE_OK checked_iff fields)
  have "cr_status c = Cp_Active" using shape by simp
  then have rec_ok: "record_good ?c"
    using c_good valid_a fields range
    by (auto simp: record_good_def checkpoint_run_iff with_operation_def requests_ok_def operations_ok_def
        operation_chain_snoc attempts_named_def active_is_own_def)
  have requests: "isOK (validate_request_checkpoint s c e) \<Longrightarrow> isOK (validate_request_checkpoint s' ?c e)" for e
    by (rule request_checkpoint_later [OF run later]) (simp_all add: with_operation_def)
  have operations: "operations_replay s' (operations_of subs) ?c e"
    if "find_row cs_checkpoint_id (cr_checkpoint_id c) (ls_checkpoints spec) = Some e"
      and before: "operations_replay s (operations_of subs) c e" for e
  proof -
    have e: "e = d" using that(1) found by simp
    have "replay_operations s' ?c e (cr_operation_budget c) (operations_of subs) (cr_operation_actions c)
        = Inr (cr_operation_remaining c)"
      by (rule replay_operations_mono [OF run later]) (use before in \<open>unfold operations_replay_def, blast\<close>)
    moreover have "isOK (replay_operation s c d (cr_operation_remaining c) (all_operation_actions s) a)"
      by (rule replay_operation_intro [OF just])
        (simp_all add: fields operation_pre_def active_owner_flag [OF c_good t(1)])
    then have "isOK (replay_operation s' ?c d (cr_operation_remaining c) (all_operation_actions s) a)"
      by (rule replay_operation_mono [OF run later])
    ultimately show ?thesis
      using before fields e all_actions_middle(1) [OF old quiet]
      by (simp add: operations_replay_def with_operation_def replay_operations_snoc)
  qed
  have numbers': "actions_numbered s'"
  proof -
    have "all_operation_actions s' = all_operation_actions s @ [a]"
      using all_actions_middle(2) [OF old quiet, of a] by (simp add: s' all_operation_actions_def)
    moreover have "all_request_actions s' = all_request_actions s"
      by (simp add: s' all_request_actions_def with_operation_def old)
    ultimately show ?thesis using numbers fields by (simp add: actions_numbered_def numbered_Suc)
  qed
  have "run_good spec s'"
    by (rule good_replace [OF good distinct old _ _ _ _ _ _ identity shape' schema rec_ok later requests operations _ numbers'])
      (simp_all add: s' with_operation_def quiet)
  then show ?thesis by (simp add: s')
qed

section \<open>Kinds\<close>

lemma replayed_actions:
  "replay_operations s c d m prior as = Inr r \<Longrightarrow> a \<in> set as \<Longrightarrow>
     \<exists>ids declared. validate_public_contract d a ids = Inr declared
       \<and> (ao_outcome a \<noteq> Oo_Rejected \<longrightarrow> declared \<noteq> None)"
proof (induction as arbitrary: m prior)
  case (Cons b as)
  then have here: "isOK (replay_operation s c d m prior b)"
    and rest: "replay_operations s c d (ao_budget_after b) (prior @ [b]) as = Inr r"
    by (auto simp: bindE_eq_Inr_iff isOK_iff)
  show ?case
  proof (cases "a = b")
    case True
    obtain declared where public: "validate_public_contract d b (completed_ids prior) = Inr declared"
      and lineage: "isOK (validate_prerequisite_lineage b declared prior d)"
      using here by (auto simp: replay_operation_def isOK_bindE_const isOK_bindE)
    have "ao_outcome b \<noteq> Oo_Rejected \<Longrightarrow> declared \<noteq> None"
      using lineage by (cases declared) (simp_all add: validate_prerequisite_lineage_def bindE_guardE_OK)
    then show ?thesis using True public by blast
  next
    case False
    then show ?thesis using Cons.IH [OF rest] Cons.prems(2) by simp
  qed
qed simp

lemma public_kind:
  assumes "validate_public_contract d a ids = Inr (Some x)"
  obtains e where "cs_operations d = Some e" "x \<in> set (co_operations e)" "ao_operation_id a = op_operation_id x"
    "ao_operation_kind a = op_kind x"
proof -
  obtain e where e: "cs_operations d = Some e" "find_row op_operation_id (ao_operation_id a) (co_operations e) = Some x"
    and kind: "ao_operation_kind a = op_kind x"
    using assms by (auto simp: validate_public_contract_def guarded_Inr split: if_splits option.splits)
  show ?thesis using that [OF e(1) _ _ kind] find_row_Some_key [OF e(2)] by simp
qed

lemma declared_kindsI: "d \<in> set (ls_checkpoints spec) \<Longrightarrow> cs_operations d = Some e \<Longrightarrow> x \<in> set (co_operations e)
    \<Longrightarrow> (op_operation_id x, op_kind x) \<in> set (declared_kinds spec)"
  by (force simp: declared_kinds_def)

lemma replayed_kinds:
  assumes "operations_replayed s prior (zip cs ds)" and "length cs = length ds" and "set ds \<subseteq> set (ls_checkpoints spec)"
    and "a \<in> set (operations_of cs)" and "ao_outcome a \<noteq> Oo_Rejected"
  shows "(ao_operation_id a, ao_operation_kind a) \<in> set (declared_kinds spec)"
  using assms
proof (induction cs arbitrary: ds prior)
  case (Cons c cs)
  then obtain d ds' where ds: "ds = d # ds'" by (cases ds) auto
  show ?case
  proof (cases "a \<in> set (cr_operation_actions c)")
    case True
    have "operations_replay s prior c d" using Cons.prems(1) ds by simp
    then obtain ids x where "validate_public_contract d a ids = Inr (Some x)"
      using replayed_actions [OF _ True] Cons.prems(5) unfolding operations_replay_def by blast
    then show ?thesis using declared_kindsI Cons.prems(3) ds by (auto elim!: public_kind)
  next
    case False
    then show ?thesis using Cons.IH [of "prior @ cr_operation_actions c" ds'] Cons.prems ds by simp
  qed
qed simp

lemma kind_known:
  assumes "run_good spec s" and "a \<in> set (all_operation_actions s)" and "ao_outcome a \<noteq> Oo_Rejected"
  shows "(ao_operation_id a, ao_operation_kind a) \<in> set (declared_kinds spec)"
proof (rule replayed_kinds)
  show "operations_replayed s [] (zip (ru_checkpoints s) (ls_checkpoints spec))" using assms(1) by (simp add: run_good_def)
  show "length (ru_checkpoints s) = length (ls_checkpoints spec)" using assms(1) unfolding run_good_def by (metis length_map)
  show "a \<in> set (operations_of (ru_checkpoints s))" using assms(2) by (simp add: operations_of_def all_operation_actions_def)
qed (use assms(3) in simp_all)

lemma one_kind:
  assumes "kinds_consistent spec" and "(i, k) \<in> set (declared_kinds spec)" and "(i, l) \<in> set (declared_kinds spec)"
  shows "k = l"
  using assms unfolding kinds_consistent_def list_all_iff by fast

section \<open>The decision\<close>

lemma published_fields:
  assumes "has_shape s (Busy subs c pend)" and "distinct (map cr_checkpoint_id (ru_checkpoints s))"
    and "actions_numbered s" and "\<forall>e\<in>set pend. untouched e"
    and "publish_operation_action resolver s requested operation_id operation_kind reason session supplied source basis
       = Inr (a, s')"
  obtains f where "basis_result resolver (operation_action_id (1 + length (all_operation_actions s))) (cr_checkpoint_id c)
      operation_id supplied source basis = Inr f"
    "ao_checkpoint_id a = cr_checkpoint_id c" "ao_requested_checkpoint_id a = requested"
    "ao_operation_id a = operation_id" "ao_operation_kind a = operation_kind"
    "ao_outcome a = bf_outcome f" "ao_rejection a = bf_rejection f" "ao_disposition a = bf_disposition f"
    "ao_visible_before a = sc_visible source" "ao_physical_before a = sc_physical source"
    "ao_visible_after a = sc_visible (bf_after f)" "ao_physical_after a = sc_physical (bf_after f)"
    "ao_input_projection a = bf_input f" "ao_prerequisite_actions a = bf_prerequisites f"
    "ao_retained_from a = bf_retained f" "ao_artifacts a = bf_artifacts f"
    "ao_budget_before a = cr_operation_remaining c"
proof -
  obtain t f draft tr where "active_attempt c = Some t" "ct_session_id t = session"
    and f: "basis_result resolver (operation_action_id (1 + length (all_operation_actions s))) (cr_checkpoint_id c) operation_id
       supplied source basis = Inr f"
    and draft: "draft = draft_operation (1 + length (all_operation_actions s)) c t requested operation_id operation_kind reason
       supplied source f (operation_pre s c source)"
    and "isOK (validate_operation_action draft)" and a: "a = final_operation s c draft"
    and "isOK (validate_transition_record tr)"
    and "s' = s\<lparr>ru_checkpoints := subs @ with_operation a c # pend, ru_transitions := ru_transitions s @ [tr]\<rparr>"
    by (rule publish_cases [OF assms])
  show ?thesis using that [OF f] final_operation_fields [OF draft a] by blast
qed

text \<open>The current source is what the history left.\<close>

definition follows_history :: "operation_action list \<Rightarrow> source_context \<Rightarrow> bool" where
  "follows_history prior source \<longleftrightarrow> prior = []
     \<or> sc_visible source = ao_visible_after (last prior) \<and> sc_physical source = ao_physical_after (last prior)"

lemma execute_branches:
  assumes step: "execute_operation spec resolver requested operation_id supplied reason session s = Inr (a, s')"
    and source: "or_current_source resolver actions = Inr source" and actions: "ordered_operation_actions s = actions"
    and active: "ru_active s = Some active" and index: "index_checkpoint s active = Inr c"
    and found: "find_row cs_checkpoint_id active (ls_checkpoints spec) = Some d"
  obtains (Elsewhere) "publish_operation_action resolver s requested operation_id ''unknown'' reason session supplied source
        (Reject Or_Inactive_Checkpoint) = Inr (a, s')" "requested \<noteq> active"
    | (Unsupported) "publish_operation_action resolver s active operation_id ''unknown'' reason session supplied source
        (Reject Or_Not_Supported) = Inr (a, s')" "cs_operations d = None"
    | (Unknown) e where "publish_operation_action resolver s active operation_id ''unknown'' reason session supplied source
        (Reject Or_Unknown_Operation) = Inr (a, s')" "cs_operations d = Some e"
        "find_row op_operation_id operation_id (co_operations e) = None"
    | (Refused) e x r where "publish_operation_action resolver s active operation_id (op_kind x) reason session supplied source
        (Reject r) = Inr (a, s')" "cs_operations d = Some e" "find_row op_operation_id operation_id (co_operations e) = Some x"
        "r \<in> {Or_Stale_Visible_Source, Or_Prerequisites_Incomplete}
           \<or> r = Or_Budget_Exhausted \<and> set (op_prerequisites x) \<subseteq> set (completed_ids actions) \<and> cr_operation_remaining c = 0"
    | (Reused) e x plan p where "publish_operation_action resolver s active operation_id (op_kind x) reason session supplied source
        (Reuse plan p) = Inr (a, s')" "cs_operations d = Some e" "find_row op_operation_id operation_id (co_operations e) = Some x"
        "set (op_prerequisites x) \<subseteq> set (completed_ids actions)" "or_plan resolver x actions = Inr plan"
        "current_operation_action actions plan = Some p"
    | (Computed) e x plan where "publish_operation_action resolver s active operation_id (op_kind x) reason session supplied source
        (Compute plan) = Inr (a, s')" "cs_operations d = Some e" "find_row op_operation_id operation_id (co_operations e) = Some x"
        "set (op_prerequisites x) \<subseteq> set (completed_ids actions)" "or_plan resolver x actions = Inr plan"
        "current_operation_action actions plan = None"
proof (cases "requested = active")
  case False
  then have "publish_operation_action resolver s requested operation_id ''unknown'' reason session supplied source
      (Reject Or_Inactive_Checkpoint) = Inr (a, s')"
    using step source by (auto simp: execute_operation_def actions active index found bindE_eq_Inr_iff guardE_eq_Inr_iff
        Let_def split: option.splits)
  then show ?thesis using Elsewhere False by simp
next
  case here: True
  note unfold = execute_operation_def actions active index found bindE_eq_Inr_iff guardE_eq_Inr_iff Let_def
  show ?thesis
  proof (cases "cs_operations d")
    case None
    then have "publish_operation_action resolver s active operation_id ''unknown'' reason session supplied source
        (Reject Or_Not_Supported) = Inr (a, s')"
      using step source here by (auto simp: unfold split: option.splits)
    then show ?thesis using Unsupported None by simp
  next
    case e: (Some e)
    show ?thesis
    proof (cases "find_row op_operation_id operation_id (co_operations e)")
      case None
      then have "publish_operation_action resolver s active operation_id ''unknown'' reason session supplied source
          (Reject Or_Unknown_Operation) = Inr (a, s')"
        using step source here e by (auto simp: unfold split: option.splits)
      then show ?thesis using Unknown e None by simp
    next
      case x: (Some x)
      let ?refuse = "\<lambda>r. publish_operation_action resolver s active operation_id (op_kind x) reason session supplied source
        (Reject r) = Inr (a, s')"
      show ?thesis
      proof (cases "supplied = sc_visible source \<and> set (op_prerequisites x) \<subseteq> set (completed_ids actions)")
        case False
        then have "?refuse Or_Stale_Visible_Source \<or> ?refuse Or_Prerequisites_Incomplete"
          using step source here e x by (auto simp: unfold split: option.splits if_splits)
        then show ?thesis using Refused e x by blast
      next
        case ready: True
        show ?thesis
        proof (cases "or_plan resolver x actions")
          case (Inl error)
          then have "?refuse Or_Prerequisites_Incomplete"
            using step source here e x ready by (auto simp: unfold split: option.splits lifecycle_error.splits)
          then show ?thesis using Refused e x by blast
        next
          case plan: (Inr plan)
          show ?thesis
          proof (cases "current_operation_action actions plan")
            case (Some p)
            then show ?thesis using Reused [OF _ e x] plan ready step source here e x by (auto simp: unfold split: option.splits)
          next
            case None
            show ?thesis
            proof (cases "cr_operation_remaining c = 0")
              case True
              then have "?refuse Or_Budget_Exhausted"
                using step source here e x ready plan None by (auto simp: unfold split: option.splits)
              then show ?thesis using Refused e x ready True by blast
            next
              case False
              then show ?thesis using Computed [OF _ e x] plan None ready step source here e x
                by (auto simp: unfold split: option.splits)
            qed
          qed
        qed
      qed
    qed
  qed
qed

text \<open>A rejection keeps the source and names nothing; it only has to be plausible.\<close>

lemma rejection_justified_intro:
  assumes "ao_outcome a = Oo_Rejected" and "ao_disposition a = None" and "ao_prerequisite_actions a = []"
    and "source_unchanged a" and "continues prior a" and "isOK (validate_public_contract d a (completed_ids prior))"
  shows "action_justified d prior a"
  using assms by (auto simp: action_justified_def validate_prerequisite_lineage_def isOK_iff)

text \<open>A reuse or a result answers to a declared operation whose plan is faithful.\<close>

lemma declared_public:
  assumes "cs_operations d = Some e" and "find_row op_operation_id (ao_operation_id a) (co_operations e) = Some x"
    and "ao_requested_checkpoint_id a = ao_checkpoint_id a" and "ao_operation_kind a = op_kind x"
    and "ao_rejection a \<notin> {Some Or_Inactive_Checkpoint, Some Or_Not_Supported, Some Or_Unknown_Operation}"
    and "ao_rejection a \<in> {Some Or_Prerequisites_Incomplete, Some Or_Stale_Visible_Source} \<and> ao_outcome a = Oo_Rejected
       \<or> set (op_prerequisites x) \<subseteq> set ids"
    and "ao_rejection a = Some Or_Budget_Exhausted \<Longrightarrow> ao_budget_before a = 0"
  shows "validate_public_contract d a ids = Inr (Some x)"
  using assms by (auto simp: validate_public_contract_def guarded_Inr)

lemma plan_lineage:
  assumes "plan_faithful d prior x source plan" and "ao_outcome a \<noteq> Oo_Rejected"
    and "ao_prerequisite_actions a = pl_prerequisite_actions plan" and "isOK (operation_closure d (op_operation_id x))"
  shows "isOK (validate_prerequisite_lineage a (Some x) prior d)"
proof -
  obtain allowed where allowed: "operation_closure d (op_operation_id x) = Inr allowed" using assms(4) by (auto simp: isOK_iff)
  have "isOK (case find_row ao_action_id i prior of
      None \<Rightarrow> Inl (Lifecycle_Error ''operation prerequisite does not identify a prior completed action'')
    | Some p \<Rightarrow> bindE (guardE (ao_outcome p = Oo_Completed)
        (Lifecycle_Error ''operation prerequisite does not identify a prior completed action'')) (\<lambda>_.
      guardE (ao_operation_id p \<in> set allowed)
        (Lifecycle_Error ''operation prerequisite action is outside the public prerequisite graph'')))"
    if "i \<in> set (pl_prerequisite_actions plan)" for i
    using assms(1) that allowed
    by (auto simp: plan_faithful_def list_all_iff bindE_guardE_OK split: option.splits dest!: bspec)
  then show ?thesis
    using assms allowed by (simp add: validate_prerequisite_lineage_def plan_faithful_def bindE_guardE_OK isOK_bindE)
qed

lemma current_action:
  assumes "current_operation_action actions plan = Some p"
  shows "p \<in> set actions" "ao_operation_id p = pl_operation_id plan" "ao_outcome p = Oo_Completed"
    "ao_input_projection p = pl_input_projection plan" "ao_prerequisite_actions p = pl_prerequisite_actions plan"
proof -
  have "p \<in> set (rev actions)" using assms unfolding current_operation_action_def find_Some_iff by (metis nth_mem)
  then show "p \<in> set actions" by simp
qed (use assms in \<open>auto simp: current_operation_action_def find_Some_iff\<close>)

text \<open>A contract that was validated has a closed prerequisite graph at every checkpoint.\<close>

lemma validated_operations:
  assumes "isOK (validate_lifecycle_spec spec)" and "d \<in> set (ls_checkpoints spec)" and "cs_operations d = Some e"
  shows "isOK (validate_conditional_operations e)"
proof -
  have "isOK (validate_checkpoint d)"
    using assms(1,2) by (auto simp: validate_lifecycle_spec_def isOK_bindE_const checked_iff)
  then show ?thesis using assms(3) by (simp add: validate_checkpoint_def isOK_bindE_const checked_iff)
qed

lemma validated_ids: "isOK (validate_lifecycle_spec spec) \<Longrightarrow> distinct (map cs_checkpoint_id (ls_checkpoints spec))"
  by (auto simp: validate_lifecycle_spec_def validate_ordered_checkpoints_def isOK_bindE_const bindE_guardE_OK)

lemma faithful_plan:
  assumes "resolver_faithful spec resolver s" and "or_current_source resolver (ordered_operation_actions s) = Inr source"
    and "d \<in> set (ls_checkpoints spec)" and "cs_operations d = Some e" and "x \<in> set (co_operations e)"
    and "or_plan resolver x (ordered_operation_actions s) = Inr plan"
  shows "plan_faithful d (ordered_operation_actions s) x source plan"
  using assms by (force simp: resolver_faithful_def Let_def list_all_iff split: option.splits sum.splits)

theorem operation_good:
  assumes good: "run_good spec s" and valid: "isOK (validate_lifecycle_spec spec)"
    and supports: "supports_operations spec" and kinds: "kinds_consistent spec"
    and faithful: "resolver_faithful spec resolver s"
    and step: "execute_lifecycle_operation resolver spec files checkpoint_id operation_id visible reason session s = Inr (a, s')"
  shows "run_good spec s' \<and> ru_package_sha256 s' = ru_package_sha256 s"
proof -
  note distinct = validated_ids [OF valid]
  obtain requested supplied where decide: "execute_operation spec resolver requested operation_id supplied reason session s = Inr (a, s')"
    using step by (auto simp: execute_lifecycle_operation_def bindE_eq_Inr_iff guardE_eq_Inr_iff split: option.splits)
  obtain active source where active: "ru_active s = Some active"
    and source: "or_current_source resolver (ordered_operation_actions s) = Inr source"
    using decide by (auto simp: execute_operation_def bindE_eq_Inr_iff split: option.splits)
  obtain subs c pend where shape: "has_shape s (Busy subs c pend)" and id: "cr_checkpoint_id c = active"
    and quiet: "\<forall>e\<in>set pend. untouched e"
    using busyE [OF good active] by metis
  note ids = good_ids [OF good distinct]
  have numbers: "actions_numbered s" using good by (simp add: run_good_def)
  note ordered = ordered_actions [OF numbers]
  have old: "ru_checkpoints s = subs @ c # pend" using shape by simp
  have index: "index_checkpoint s active = Inr c" using index_middle [OF old ids] id by simp
  obtain d where contract: "find_row cs_checkpoint_id (cr_checkpoint_id c) (ls_checkpoints spec) = Some d"
    and declared: "d \<in> set (ls_checkpoints spec)"
    using good_contract [OF good distinct old] by metis
  have found: "find_row cs_checkpoint_id active (ls_checkpoints spec) = Some d" using contract id by simp
  let ?prior = "all_operation_actions s"
  have follows: "follows_history ?prior source"
    using faithful source by (auto simp: resolver_faithful_def follows_history_def ordered Let_def)
  note fields = published_fields [OF shape ids numbers quiet]
  note publish_good = published_good [OF good distinct supports shape contract]
  have rejected: "run_good spec s' \<and> ru_package_sha256 s' = ru_package_sha256 s"
    if run: "publish_operation_action resolver s r operation_id kind reason session supplied source (Reject why) = Inr (a, s')"
      and public: "ao_checkpoint_id a = active \<Longrightarrow> ao_requested_checkpoint_id a = r \<Longrightarrow> ao_operation_id a = operation_id
        \<Longrightarrow> ao_operation_kind a = kind \<Longrightarrow> ao_outcome a = Oo_Rejected \<Longrightarrow> ao_rejection a = Some why
        \<Longrightarrow> ao_budget_before a = cr_operation_remaining c
        \<Longrightarrow> isOK (validate_public_contract d a (completed_ids ?prior))" for r kind why
    by (rule fields [OF run], rule publish_good [OF run], rule rejection_justified_intro)
      (use follows id public in \<open>auto simp: basis_result_def source_unchanged_def continues_def follows_history_def\<close>)
  have closed_ok: "isOK (operation_closure d (op_operation_id x))" if "cs_operations d = Some e" "x \<in> set (co_operations e)" for e x
    by (rule operation_closure_total [OF validated_operations [OF valid declared that(1)] that])
  have accepted: "run_good spec s' \<and> ru_package_sha256 s' = ru_package_sha256 s"
    if run: "publish_operation_action resolver s active operation_id (op_kind x) reason session supplied source basis = Inr (a, s')"
      and basis: "basis = Compute plan \<and> current_operation_action ?prior plan = None
        \<or> (\<exists>p. basis = Reuse plan p \<and> current_operation_action ?prior plan = Some p)"
      and e: "cs_operations d = Some e" and x: "find_row op_operation_id operation_id (co_operations e) = Some x"
      and ready: "set (op_prerequisites x) \<subseteq> set (completed_ids ?prior)"
      and plan: "or_plan resolver x (ordered_operation_actions s) = Inr plan" for basis plan e x
  proof (rule fields [OF run], rule publish_good [OF run])
    fix f
    assume f: "basis_result resolver (operation_action_id (1 + length ?prior)) (cr_checkpoint_id c) operation_id supplied source
        basis = Inr f"
      and where_at: "ao_checkpoint_id a = cr_checkpoint_id c" "ao_requested_checkpoint_id a = active"
      and what: "ao_operation_id a = operation_id" "ao_operation_kind a = op_kind x"
      and outcome: "ao_outcome a = bf_outcome f" "ao_rejection a = bf_rejection f" "ao_disposition a = bf_disposition f"
      and before: "ao_visible_before a = sc_visible source" "ao_physical_before a = sc_physical source"
      and after: "ao_visible_after a = sc_visible (bf_after f)" "ao_physical_after a = sc_physical (bf_after f)"
      and input: "ao_input_projection a = bf_input f" "ao_prerequisite_actions a = bf_prerequisites f"
      and kept: "ao_retained_from a = bf_retained f" "ao_artifacts a = bf_artifacts f"
    have member: "x \<in> set (co_operations e)" and name: "op_operation_id x = operation_id" using find_row_Some_key [OF x] by auto
    have faith: "plan_faithful d ?prior x source plan"
      using faithful_plan [OF faithful source declared e member plan] by (simp add: ordered)
    have result: "bf_rejection f = None" "bf_after f = pl_after plan" "bf_input f = pl_input_projection plan"
      "bf_prerequisites f = pl_prerequisite_actions plan" "bf_outcome f \<noteq> Oo_Rejected"
      using f basis by (auto simp: basis_result_def bindE_eq_Inr_iff guardE_eq_Inr_iff Let_def)
    have public: "validate_public_contract d a (completed_ids ?prior) = Inr (Some x)"
      by (rule declared_public [OF e]) (simp_all add: what where_at id x outcome result ready)
    have lineage: "isOK (validate_prerequisite_lineage a (Some x) ?prior d)"
      by (rule plan_lineage [OF faith _ _ closed_ok [OF e member]]) (simp_all add: outcome input result)
    have still: "ao_disposition a = Some Od_Activated \<or> source_unchanged a"
      and quiet_reuse: "ao_outcome a = Oo_Already_Current \<longrightarrow> source_unchanged a"
      using f basis faith
      by (auto simp: basis_result_def bindE_eq_Inr_iff guardE_eq_Inr_iff Let_def plan_faithful_def source_unchanged_def
          before after outcome)
    have reuse: "isOK (validate_reused_lineage a ?prior)" if again: "ao_outcome a = Oo_Already_Current"
    proof -
      obtain p where p: "basis = Reuse plan p" "current_operation_action ?prior plan = Some p"
        using f basis again by (auto simp: basis_result_def bindE_eq_Inr_iff guardE_eq_Inr_iff Let_def outcome)
      note current = current_action [OF p(2)]
      have retained: "find_row ao_action_id (ao_action_id p) ?prior = Some p"
        by (rule find_row_mem) (simp_all add: keys_distinct_def operation_ids_distinct [OF numbers] current(1))
      have same: "ao_operation_id p = operation_id" using current(2) faith name by (simp add: plan_faithful_def)
      have "(operation_id, ao_operation_kind p) \<in> set (declared_kinds spec)"
        using kind_known [OF good current(1)] current(3) same by simp
      moreover have "(operation_id, op_kind x) \<in> set (declared_kinds spec)"
        using declared_kindsI [OF declared e member] name by simp
      ultimately have "op_kind x = ao_operation_kind p" using one_kind [OF kinds] by metis
      then show ?thesis
        using f p(1) current same
        by (auto simp: validate_reused_lineage_def basis_result_def kept input what retained bindE_guardE_OK)
    qed
    show "action_justified d ?prior a"
      using follows public lineage still quiet_reuse reuse result(5)
      by (auto simp: action_justified_def continues_def follows_history_def before outcome)
  qed
  show ?thesis
  proof (rule execute_branches [OF decide source refl active index found], goal_cases)
    case 1
    then show ?case by (intro rejected [OF 1(1)]) (simp add: validate_public_contract_def)
  next
    case 2
    then show ?case by (intro rejected [OF 2(1)]) (simp add: validate_public_contract_def)
  next
    case (3 e)
    then show ?case by (intro rejected [OF 3(1)]) (simp add: validate_public_contract_def)
  next
    case (4 e x r)
    have "isOK (validate_public_contract d a (completed_ids ?prior))"
      if "ao_checkpoint_id a = active" "ao_requested_checkpoint_id a = active" "ao_operation_id a = operation_id"
        "ao_operation_kind a = op_kind x" "ao_outcome a = Oo_Rejected" "ao_rejection a = Some r"
        "ao_budget_before a = cr_operation_remaining c"
      using 4 that declared_public [of d e a x "completed_ids ?prior"] by (auto simp: ordered)
    then show ?case by (rule rejected [OF 4(1)])
  next
    case (5 e x plan p)
    then show ?case by (intro accepted [OF 5(1)]) (simp_all add: ordered)
  next
    case (6 e x plan)
    then show ?case by (intro accepted [OF 6(1)]) (simp_all add: ordered)
  qed
qed

end
