(* ===== verification/Lifecycle_Invariant_Branch.thy ===== *)
theory Lifecycle_Invariant_Branch
  imports Lifecycle_Invariant_Operations
begin

text \<open>
  A branch keeps the invariant. Its checkpoints up to the branch point are those of the parent with
  every attempt and action marked inherited, and the replays do not read that mark except to compare an
  action with the attempt that owns it.
\<close>

section \<open>Inherited histories\<close>

definition as_inherited_request :: "request_action \<Rightarrow> request_action" where
  "as_inherited_request a = a\<lparr>aq_inherited := True\<rparr>"

definition as_inherited_operation :: "operation_action \<Rightarrow> operation_action" where
  "as_inherited_operation a = a\<lparr>ao_inherited := True\<rparr>"

lemma inherited_request_simps [simp]:
  "aq_action_id (as_inherited_request a) = aq_action_id a" "aq_sequence (as_inherited_request a) = aq_sequence a"
  "aq_checkpoint_id (as_inherited_request a) = aq_checkpoint_id a"
  "aq_requested_checkpoint_id (as_inherited_request a) = aq_requested_checkpoint_id a"
  "aq_request_id (as_inherited_request a) = aq_request_id a" "aq_reason (as_inherited_request a) = aq_reason a"
  "aq_session_id (as_inherited_request a) = aq_session_id a" "aq_attempt_id (as_inherited_request a) = aq_attempt_id a"
  "aq_outcome (as_inherited_request a) = aq_outcome a" "aq_rejection (as_inherited_request a) = aq_rejection a"
  "aq_pre_state (as_inherited_request a) = aq_pre_state a" "aq_post_state (as_inherited_request a) = aq_post_state a"
  "aq_released (as_inherited_request a) = aq_released a" "aq_budget_before (as_inherited_request a) = aq_budget_before a"
  "aq_budget_consumed (as_inherited_request a) = aq_budget_consumed a"
  "aq_budget_after (as_inherited_request a) = aq_budget_after a"
  by (simp_all add: as_inherited_request_def)

lemma inherited_operation_simps [simp]:
  "ao_action_id (as_inherited_operation a) = ao_action_id a" "ao_sequence (as_inherited_operation a) = ao_sequence a"
  "ao_checkpoint_id (as_inherited_operation a) = ao_checkpoint_id a"
  "ao_requested_checkpoint_id (as_inherited_operation a) = ao_requested_checkpoint_id a"
  "ao_operation_id (as_inherited_operation a) = ao_operation_id a"
  "ao_operation_kind (as_inherited_operation a) = ao_operation_kind a"
  "ao_reason (as_inherited_operation a) = ao_reason a"
  "ao_session_id (as_inherited_operation a) = ao_session_id a" "ao_attempt_id (as_inherited_operation a) = ao_attempt_id a"
  "ao_outcome (as_inherited_operation a) = ao_outcome a" "ao_rejection (as_inherited_operation a) = ao_rejection a"
  "ao_disposition (as_inherited_operation a) = ao_disposition a"
  "ao_visible_before (as_inherited_operation a) = ao_visible_before a"
  "ao_visible_after (as_inherited_operation a) = ao_visible_after a"
  "ao_physical_before (as_inherited_operation a) = ao_physical_before a"
  "ao_physical_after (as_inherited_operation a) = ao_physical_after a"
  "ao_input_projection (as_inherited_operation a) = ao_input_projection a"
  "ao_request_sha256 (as_inherited_operation a) = ao_request_sha256 a"
  "ao_result_manifest (as_inherited_operation a) = ao_result_manifest a"
  "ao_prerequisite_actions (as_inherited_operation a) = ao_prerequisite_actions a"
  "ao_retained_from (as_inherited_operation a) = ao_retained_from a"
  "ao_pre_state (as_inherited_operation a) = ao_pre_state a" "ao_post_state (as_inherited_operation a) = ao_post_state a"
  "ao_artifacts (as_inherited_operation a) = ao_artifacts a"
  "ao_budget_before (as_inherited_operation a) = ao_budget_before a"
  "ao_budget_consumed (as_inherited_operation a) = ao_budget_consumed a"
  "ao_budget_after (as_inherited_operation a) = ao_budget_after a" "ao_inherited (as_inherited_operation a) = True"
  by (simp_all add: as_inherited_operation_def)

text \<open>The record of a checkpoint as a branch takes it over: same identity, budgets and history.\<close>

definition taken_over :: "checkpoint_run \<Rightarrow> checkpoint_run \<Rightarrow> bool" where
  "taken_over c c' \<longleftrightarrow> cr_checkpoint_id c' = cr_checkpoint_id c \<and> cr_attempts c' = inherit_attempts c
     \<and> cr_request_budget c' = cr_request_budget c \<and> cr_request_remaining c' = cr_request_remaining c
     \<and> cr_request_actions c' = map as_inherited_request (cr_request_actions c)
     \<and> cr_operation_budget c' = cr_operation_budget c \<and> cr_operation_remaining c' = cr_operation_remaining c
     \<and> cr_operation_actions c' = map as_inherited_operation (cr_operation_actions c)"

lemma taken_over_runs:
  "taken_over c (inherited_run (cr_checkpoint_id c) c)" "taken_over c (reopened_run (cr_checkpoint_id c) c)"
  by (simp_all add: taken_over_def inherited_run_def reopened_run_def inherit_requests_def inherit_operations_def
      as_inherited_request_def as_inherited_operation_def)

lemma owner_taken_over:
  assumes "taken_over c c'" and "owner_flag attempt session c = Some b"
  shows "owner_flag attempt session c' = Some True"
proof -
  have "find (\<lambda>t. ct_attempt_id t = attempt \<and> ct_session_id t = session) ts \<noteq> None \<Longrightarrow>
      map_option ct_inherited (find (\<lambda>t. ct_attempt_id t = attempt \<and> ct_session_id t = session)
        (map (\<lambda>a. a\<lparr>ct_inherited := True\<rparr>) ts)) = Some True" for ts
    by (induction ts) auto
  then show ?thesis using assms by (auto simp: owner_flag_def owns_action_def taken_over_def inherit_attempts_def)
qed

lemma owns_taken_over:
  "taken_over c c' \<Longrightarrow> owns_action attempt session c \<noteq> None \<Longrightarrow> owns_action attempt session c' \<noteq> None"
  using owner_taken_over by (metis owns_flag)

section \<open>Requests\<close>

lemma projection_inherited:
  "request_projection_sha256 s i b r (map as_inherited_request as) = request_projection_sha256 s i b r as"
proof -
  have "released_payload \<circ> as_inherited_request = released_payload" by (simp add: fun_eq_iff released_payload_def)
  then show ?thesis by (simp add: request_projection_sha256_def filter_map) (simp add: comp_def)
qed

lemma releases_inherited:
  "releases_of (map as_inherited_request as) = map (\<lambda>(i, a). (i, as_inherited_request a)) (releases_of as)"
  by (simp add: releases_of_def filter_map comp_def rev_map [symmetric])

lemma map_of_inherited:
  "map_of (map (\<lambda>(i, a). (i, as_inherited_request a)) xs) i = map_option as_inherited_request (map_of xs i)"
  by (induction xs) auto

lemma outcome_inherited:
  assumes "cr_checkpoint_id c' = cr_checkpoint_id c"
  shows "isOK (replay_outcome c' conditional m (releases_of (map as_inherited_request as)) (as_inherited_request a))
    \<longleftrightarrow> isOK (replay_outcome c conditional m (releases_of as) a)"
proof -
  have keys: "fst ` set (map (\<lambda>(i, a). (i, as_inherited_request a)) xs) = fst ` set xs" for xs :: releases
    by (force simp: image_iff)
  have paths: "validate_released_paths (as_inherited_request a) = validate_released_paths a"
    by (simp add: validate_released_paths_def canonical_prefix_def workspace_prefix_def)
  have plausible: "rejection_justified (as_inherited_request a) i q names r b = rejection_justified a i q names r b" for i q names r b
    by (simp add: rejection_justified_def)
  show ?thesis
    unfolding replay_outcome_def Let_def releases_inherited keys map_of_inherited paths plausible assms inherited_request_simps
    by (auto simp: isOK_bindE_const bindE_guardE_OK checked_iff split: request_outcome.splits option.splits)
qed

lemma replay_step_inherited:
  assumes "same_run s s'" and "taken_over c c'" and "replay_step_ok s c conditional budget m history a"
  shows "replay_step_ok s' c' conditional budget m (map as_inherited_request history) (as_inherited_request a)"
proof -
  have id: "cr_checkpoint_id c' = cr_checkpoint_id c" using assms(2) by (simp add: taken_over_def)
  have post: "request_projection_sha256 s i b r (map as_inherited_request history @ [as_inherited_request a])
      = request_projection_sha256 s i b r (history @ [a])" for i b r
    using projection_inherited [of s i b r "history @ [a]"] by simp
  show ?thesis
    using assms(3) owns_taken_over [OF assms(2)]
    by (simp add: replay_step_ok_def projection_same [OF assms(1)] projection_inherited post outcome_inherited [OF id] id)
qed

lemma replay_requests_inherited:
  assumes "same_run s s'" and "taken_over c c'"
  shows "replay_requests s c conditional budget m history (releases_of history) as = Inr r
    \<Longrightarrow> replay_requests s' c' conditional budget m (map as_inherited_request history)
      (releases_of (map as_inherited_request history)) (map as_inherited_request as) = Inr r"
proof (induction as arbitrary: m history)
  case (Cons a as)
  have step: "replay_step_ok s c conditional budget m history a"
    and rest: "replay_requests s c conditional budget (aq_budget_after a) (history @ [a]) (releases_of (history @ [a])) as = Inr r"
    using Cons.prems unfolding replay_requests_Cons by blast+
  show ?case
    using replay_step_inherited [OF assms step] Cons.IH [OF rest]
    unfolding list.map replay_requests_Cons by simp
qed simp

lemma request_checkpoint_inherited:
  assumes "same_run s s'" and "taken_over c c'" and "isOK (validate_request_checkpoint s c d)"
  shows "isOK (validate_request_checkpoint s' c' d)"
proof -
  have "replay_requests s c (cs_evidence d) (cr_request_budget c) (cr_request_budget c) [] (releases_of [])
      (cr_request_actions c) = Inr (cr_request_remaining c)"
    using assms(3) unfolding request_checkpoint_iff by blast
  from replay_requests_inherited [OF assms(1,2) this] show ?thesis
    using assms(2,3) unfolding request_checkpoint_iff by (simp add: taken_over_def)
qed

section \<open>Operations\<close>

abbreviation inherited_operations :: "operation_action list \<Rightarrow> operation_action list" where
  "inherited_operations \<equiv> map as_inherited_operation"

lemma operation_hash_inherited:
  "operation_state_sha256 s i v p r (inherited_operations as) = operation_state_sha256 s i v p r as"
proof -
  have "completed_payload \<circ> as_inherited_operation = completed_payload" by (simp add: fun_eq_iff completed_payload_def)
  then show ?thesis by (simp add: operation_state_sha256_def filter_map) (simp add: comp_def)
qed

lemma completed_inherited: "completed_ids (inherited_operations as) = completed_ids as"
  by (simp add: completed_ids_def filter_map comp_def)

lemma find_inherited:
  "find_row ao_action_id i (inherited_operations as) = map_option as_inherited_operation (find_row ao_action_id i as)"
  by (induction as) auto

lemma contract_inherited: "validate_public_contract d (as_inherited_operation a) ids = validate_public_contract d a ids"
  by (simp only: validate_public_contract_def inherited_operation_simps)

lemma continues_inherited: "continues (inherited_operations as) (as_inherited_operation a) = continues as a"
  by (cases "as = []") (simp_all add: continues_def last_map)

lemma lineage_inherited:
  "validate_prerequisite_lineage (as_inherited_operation a) declared (inherited_operations as) d
     = validate_prerequisite_lineage a declared as d"
  by (simp only: validate_prerequisite_lineage_def find_inherited case_map_option comp_def inherited_operation_simps)

lemma reuse_inherited:
  "validate_reused_lineage (as_inherited_operation a) (inherited_operations as) = validate_reused_lineage a as"
  by (simp only: validate_reused_lineage_def find_inherited case_map_option comp_def inherited_operation_simps)

lemma replay_operation_inherited:
  assumes "same_run s s'" and "taken_over c c'" and "isOK (replay_operation s c d m prior a)"
  shows "isOK (replay_operation s' c' d m (inherited_operations prior) (as_inherited_operation a))"
proof -
  have post: "operation_state_sha256 s i v p r (inherited_operations prior @ [as_inherited_operation a])
      = operation_state_sha256 s i v p r (prior @ [a])" for i v p r
    using operation_hash_inherited [of s i v p r "prior @ [a]"] by simp
  have still: "source_unchanged (as_inherited_operation a) = source_unchanged a" by (simp add: source_unchanged_def)
  have "isOK (validate_attempt_owner c a)"
    using assms(3) by (simp add: replay_operation_def isOK_bindE_const)
  then have "isOK (validate_attempt_owner c' (as_inherited_operation a))"
    using owner_taken_over [OF assms(2)] by (simp add: owner_valid_iff)
  then show ?thesis
    using assms(3)
    unfolding replay_operation_def isOK_bindE_const operation_hash_same [OF assms(1)] operation_hash_inherited post
      completed_inherited contract_inherited continues_inherited lineage_inherited reuse_inherited still
      inherited_operation_simps
    by blast
qed

lemma replay_operations_inherited:
  assumes "same_run s s'" and "taken_over c c'"
  shows "replay_operations s c d m prior as = Inr r
    \<Longrightarrow> replay_operations s' c' d m (inherited_operations prior) (inherited_operations as) = Inr r"
proof (induction as arbitrary: m prior)
  case (Cons a as)
  then have step: "isOK (replay_operation s c d m prior a)"
    and rest: "replay_operations s c d (ao_budget_after a) (prior @ [a]) as = Inr r"
    by (auto simp: bindE_eq_Inr_iff isOK_iff)
  show ?case
    using replay_operation_inherited [OF assms step] Cons.IH [OF rest] by (auto simp: bindE_eq_Inr_iff isOK_iff)
qed simp

lemma operations_replay_inherited:
  assumes "same_run s s'" and "taken_over c c'" and "operations_replay s prior c d"
  shows "operations_replay s' (inherited_operations prior) c' d"
proof -
  have "replay_operations s c d (cr_operation_budget c) prior (cr_operation_actions c) = Inr (cr_operation_remaining c)"
    using assms(3) unfolding operations_replay_def by blast
  from replay_operations_inherited [OF assms(1,2) this] show ?thesis
    using assms(2,3) unfolding operations_replay_def taken_over_def by simp
qed

lemma operations_of_inherited: "list_all2 taken_over cs cs' \<Longrightarrow> operations_of cs' = inherited_operations (operations_of cs)"
  by (induction rule: list_all2_induct) (simp_all add: taken_over_def)

lemma operations_replayed_inherited:
  assumes "same_run s s'"
  shows "list_all2 taken_over cs cs' \<Longrightarrow> operations_replayed s prior (zip cs ds)
    \<Longrightarrow> operations_replayed s' (inherited_operations prior) (zip cs' ds)"
proof (induction arbitrary: prior ds rule: list_all2_induct)
  case (Cons c cs c' cs')
  show ?case
  proof (cases ds)
    case (Cons d ds')
    have "operations_replay s prior c d" "operations_replayed s (prior @ cr_operation_actions c) (zip cs ds')"
      using Cons.prems Cons by simp_all
    moreover have "cr_operation_actions c' = inherited_operations (cr_operation_actions c)"
      using Cons.hyps(1) by (simp add: taken_over_def)
    ultimately show ?thesis
      using operations_replay_inherited [OF assms Cons.hyps(1)] Cons.IH [of "prior @ cr_operation_actions c" ds'] Cons by simp
  qed simp
qed simp

section \<open>The records of a branch\<close>

lemma inherited_request_valid: "isOK (validate_request_action (as_inherited_request a)) \<longleftrightarrow> isOK (validate_request_action a)"
  by (simp only: request_action_iff request_outcome_ok_def inherited_request_simps)

lemma inherited_operation_valid:
  "isOK (validate_operation_action (as_inherited_operation a)) \<longleftrightarrow> isOK (validate_operation_action a)"
  by (simp add: validate_operation_action_def check_operation_fields_def isOK_bindE_const bindE_guardE_OK checked_iff
      operation_outcome_ok_def workspace_paths_def cong: operation_outcome.case_cong)

lemma inherited_attempt_valid:
  "isOK (validate_checkpoint_attempt (a\<lparr>ct_inherited := True\<rparr>)) \<longleftrightarrow> isOK (validate_checkpoint_attempt a)"
  by (simp add: validate_checkpoint_attempt_def isOK_bindE_const bindE_guardE_OK)

lemma request_chain_inherited: "request_budget_chain i m (map as_inherited_request as) = request_budget_chain i m as"
  by (induction i m as rule: request_budget_chain.induct) simp_all

lemma operation_chain_inherited: "operation_budget_chain i m (inherited_operations as) = operation_budget_chain i m as"
  by (induction i m as rule: operation_budget_chain.induct) simp_all

lemma record_taken_over:
  assumes good: "record_good c" and closed: "cr_status c = Cp_Submitted" and over: "taken_over c c'"
    and status: "cr_status c' = Cp_Submitted \<and> cr_submission_path c' = cr_submission_path c
        \<and> cr_submission_sha256 c' = cr_submission_sha256 c \<or> cr_status c' = Cp_Active"
  shows "record_good c'"
proof -
  have none: "\<forall>a\<in>set (cr_attempts c). ct_status a \<noteq> Ca_Active"
    using good closed by (auto simp: record_good_def active_is_own_def)
  then have none': "\<forall>a\<in>set (cr_attempts c'). ct_status a \<noteq> Ca_Active"
    using over by (auto simp: taken_over_def inherit_attempts_def)
  have fields: "cr_checkpoint_id c' = cr_checkpoint_id c" "cr_attempts c' = inherit_attempts c"
    "cr_request_budget c' = cr_request_budget c" "cr_request_remaining c' = cr_request_remaining c"
    "cr_request_actions c' = map as_inherited_request (cr_request_actions c)"
    "cr_operation_budget c' = cr_operation_budget c" "cr_operation_remaining c' = cr_operation_remaining c"
    "cr_operation_actions c' = inherited_operations (cr_operation_actions c)"
    using over by (simp_all add: taken_over_def)
  have "attempts_ok (cr_attempts c')"
  proof -
    have "filter (\<lambda>a. ct_status a = Ca_Active) (cr_attempts c') = []" using none' by (simp add: filter_empty_conv)
    then show ?thesis
      using good by (auto simp: record_good_def checkpoint_run_iff attempts_ok_def fields inherit_attempts_def
          inherited_attempt_valid comp_def)
  qed
  moreover have "requests_ok c'" "operations_ok c'"
    using good by (simp_all add: record_good_def checkpoint_run_iff requests_ok_def operations_ok_def fields
        inherited_request_valid inherited_operation_valid request_chain_inherited operation_chain_inherited)
  moreover have "attempts_named c'"
    using good by (simp add: record_good_def attempts_named_def fields inherit_attempts_def comp_def)
  ultimately show ?thesis
    using good none' status closed by (auto simp: record_good_def checkpoint_run_iff active_is_own_def fields(1))
qed

lemma construct_checkpoint_Inr: "construct_checkpoint_run c = Inr c' \<longleftrightarrow> isOK (construct_checkpoint_run c) \<and> c' = c"
  by (auto simp: construct_checkpoint_run_def bindE_eq_Inr_iff guardE_eq_Inr_iff isOK_iff)

lemma pending_good:
  assumes "isOK (construct_checkpoint_run (pending_run d))"
  shows "record_good (pending_run d)" "isOK (validate_request_checkpoint s (pending_run d) d)"
    "operations_replay s prior (pending_run d) d" "untouched (pending_run d)"
proof -
  have range: "\<not> py_blank (cs_checkpoint_id d)" "0 \<le> declared_request_budget d" "0 \<le> declared_operation_budget d"
    using assms by (simp_all add: construct_checkpoint_run_def isOK_bindE_const bindE_guardE_OK pending_run_def)
  show "record_good (pending_run d)"
    using range by (simp add: record_good_def checkpoint_run_iff attempts_ok_def requests_ok_def operations_ok_def
        attempts_named_def active_is_own_def untouched_def pending_run_def)
  show "isOK (validate_request_checkpoint s (pending_run d) d)"
    unfolding request_checkpoint_iff by (simp add: pending_run_def)
  show "operations_replay s prior (pending_run d) d" by (simp add: operations_replay_def pending_run_def)
  show "untouched (pending_run d)" by (simp add: untouched_def pending_run_def)
qed

text \<open>What the constructor of a run state has checked.\<close>

lemma constructed_state:
  assumes "construct_run_state s = Inr s'"
  shows "s' = s" "\<exists>sh. has_shape s sh" "schema_ok s" "actions_numbered s"
    "\<not> py_blank (ru_lifecycle_id s)" "\<not> py_blank (ru_spec_sha256 s)" "\<not> py_blank (ru_package_sha256 s)"
    "\<forall>a. ru_authorization s = Some a \<longrightarrow> is_sha256 a"
    "\<forall>b. ru_branch s = Some b \<longrightarrow> lb_parent_action_state b \<noteq> None
       \<and> lb_from_checkpoint b \<in> cr_checkpoint_id ` set (ru_checkpoints s)"
proof -
  have ok: "isOK (construct_run_state s)" and same: "s' = s"
    using assms by (auto simp: construct_run_state_def bindE_eq_Inr_iff isOK_iff)
  have valid: "isOK (validate_run_state s)" using ok by (simp add: construct_run_state_def isOK_bindE_const checked_iff)
  show "s' = s" by (rule same)
  show "\<exists>sh. has_shape s sh"
    using valid by (auto simp: validate_run_state_def isOK_bindE_const bindE_guardE_OK shape_iff [symmetric])
  show "schema_ok s"
    using valid by (auto simp: validate_run_state_def isOK_bindE_const bindE_guardE_OK schema_ok_def
        all_operation_actions_def list_ex_iff)
  show "actions_numbered s"
    using valid by (auto simp: validate_run_state_def isOK_bindE_const bindE_guardE_OK actions_numbered_def numbered_def)
  show "\<forall>b. ru_branch s = Some b \<longrightarrow> lb_parent_action_state b \<noteq> None
       \<and> lb_from_checkpoint b \<in> cr_checkpoint_id ` set (ru_checkpoints s)"
    using valid by (auto simp: validate_run_state_def isOK_bindE_const bindE_guardE_OK)
  show "\<not> py_blank (ru_lifecycle_id s)" "\<not> py_blank (ru_spec_sha256 s)" "\<not> py_blank (ru_package_sha256 s)"
    "\<forall>a. ru_authorization s = Some a \<longrightarrow> is_sha256 a"
    using ok by (auto simp: construct_run_state_def isOK_bindE_const checked_iff opt_list_def)
qed

section \<open>The branch\<close>

lemma branch_runs:
  "branch_checkpoints s k pc i ds = Inr runs \<Longrightarrow> length runs = length ds
    \<and> (\<forall>j<length ds. branch_checkpoint s k pc (i + j) (ds ! j) = Inr (runs ! j))"
proof (induction ds arbitrary: i runs)
  case (Cons d ds)
  then obtain r rs where parts: "branch_checkpoint s k pc i d = Inr r" "branch_checkpoints s k pc (Suc i) ds = Inr rs"
    "runs = r # rs"
    by (auto simp: bindE_eq_Inr_iff)
  then show ?case using Cons.IH [OF parts(2)] by (auto simp: nth_Cons split: nat.splits)
qed simp

text \<open>The checkpoints of a branch: those before the point taken over, the point reopened, the rest pending.\<close>

definition branched_runs :: "checkpoint_run list \<Rightarrow> checkpoint_run \<Rightarrow> checkpoint_spec list \<Rightarrow> checkpoint_run list" where
  "branched_runs xs c es =
     map (\<lambda>x. inherited_run (cr_checkpoint_id x) x) xs @ reopened_run (cr_checkpoint_id c) c # map pending_run es"

lemma branch_runs_eq:
  assumes old: "ru_checkpoints s = xs @ c # ys" and ids: "distinct (map cr_checkpoint_id (ru_checkpoints s))"
    and names: "map cs_checkpoint_id ds = map cr_checkpoint_id xs" "cs_checkpoint_id d = cr_checkpoint_id c"
    and run: "branch_checkpoints s (length xs) c 0 (ds @ d # es) = Inr runs"
  shows "runs = branched_runs xs c es" "\<forall>x\<in>set xs. cr_status x = Cp_Submitted"
    "\<forall>e\<in>set es. isOK (construct_checkpoint_run (pending_run e))"
proof -
  have len: "length ds = length xs" using names(1) by (metis length_map)
  have each: "length runs = length (ds @ d # es)"
    "\<And>j. j < length (ds @ d # es) \<Longrightarrow> branch_checkpoint s (length xs) c j ((ds @ d # es) ! j) = Inr (runs ! j)"
    using branch_runs [OF run] by simp_all
  have before: "runs ! j = inherited_run (cr_checkpoint_id (xs ! j)) (xs ! j) \<and> cr_status (xs ! j) = Cp_Submitted"
    if j: "j < length xs" for j
  proof -
    have name: "cs_checkpoint_id (ds ! j) = cr_checkpoint_id (xs ! j)" using j len names(1) by (metis nth_map)
    have "lookup_checkpoint s (cr_checkpoint_id (xs ! j)) = Inr (xs ! j)"
      using ids j old by (simp add: lookup_checkpoint_def checkpoint_def find_row_mem keys_distinct_def)
    then show ?thesis
      using each(2) [of j] j len name
      by (simp add: branch_checkpoint_def nth_append bindE_eq_Inr_iff guardE_eq_Inr_iff validated_Inr construct_checkpoint_Inr)
  qed
  have point: "runs ! length xs = reopened_run (cr_checkpoint_id c) c"
    using each(2) [of "length xs"] len names(2)
    by (simp add: branch_checkpoint_def nth_append validated_Inr construct_checkpoint_Inr)
  have later: "runs ! (length xs + Suc j) = pending_run (es ! j) \<and> isOK (construct_checkpoint_run (pending_run (es ! j)))"
    if "j < length es" for j
    using each(2) [of "length xs + Suc j"] len that
    by (simp add: branch_checkpoint_def nth_append validated_Inr construct_checkpoint_Inr)
  show "runs = branched_runs xs c es"
  proof (rule nth_equalityI)
    show "length runs = length (branched_runs xs c es)" using each(1) len by (simp add: branched_runs_def)
    fix j assume j: "j < length runs"
    consider "j < length xs" | "j = length xs" | k where "j = length xs + Suc k" "k < length es"
      using j each(1) len by (metis add_Suc_right add_less_cancel_left length_Cons length_append less_imp_Suc_add linorder_neqE_nat not_less_eq)
    then show "runs ! j = branched_runs xs c es ! j"
      by cases (simp_all add: branched_runs_def nth_append before point later [unfolded add_Suc_right])
  qed
  show "\<forall>x\<in>set xs. cr_status x = Cp_Submitted" using before by (auto simp: in_set_conv_nth)
  show "\<forall>e\<in>set es. isOK (construct_checkpoint_run (pending_run e))" using later by (auto simp: in_set_conv_nth)
qed

lemma taken_over_branched: "list_all2 taken_over (xs @ [c]) (map (\<lambda>x. inherited_run (cr_checkpoint_id x) x) xs
    @ [reopened_run (cr_checkpoint_id c) c])"
  by (rule list_all2_appendI) (simp_all add: list_all2_map2 list.rel_refl taken_over_runs)

lemma takeWhile_until: "x \<notin> set xs \<Longrightarrow> takeWhile (\<lambda>i. i \<noteq> x) (xs @ x # ys) = xs"
  by (induction xs) auto

lemma branch_lifecycle_Inr:
  assumes step: "branch_lifecycle spec files parent_run_dir checkpoint_id branch_id reason scope directory_exists s = Inr (files', s')"
    and k: "k = length (takeWhile (\<lambda>i. i \<noteq> checkpoint_id) (map cs_checkpoint_id (ls_checkpoints spec)))"
  obtains c submission b events where "checkpoint_id \<in> set (map cs_checkpoint_id (ls_checkpoints spec))"
    "index_checkpoint s checkpoint_id = Inr c" "cr_status c = Cp_Submitted" "cr_submission_sha256 c = Some submission"
    "validate_branch \<lparr>lb_branch_id = branch_id, lb_parent_run_dir = parent_run_dir,
              lb_from_checkpoint = checkpoint_id, lb_parent_submission = submission,
              lb_parent_action_state = Some (branch_action_state_sha256 s k False), lb_reason = reason\<rparr> = Inr b"
    "reduce_branch (ls_checkpoints spec) (int k) b checkpoint_id reason s = Inr (s', events)"
    "branch_files files (ls_checkpoints spec) k = Inr files'"
  using step unfolding branch_lifecycle_def Let_def bindE_eq_Inr_iff guardE_eq_Inr_iff validated_Inr k [symmetric]
  apply (elim exE conjE)
  apply (simp split: option.splits)
  apply (unfold bindE_eq_Inr_iff guardE_eq_Inr_iff validated_Inr)
  apply (elim exE conjE)
  apply (simp only: split: prod.splits)
  apply (unfold bindE_eq_Inr_iff)
  apply (elim exE conjE)
  apply (drule Inr_inject)
  apply (simp only: prod.inject)
  done

text \<open>The state a branch starts from, before its first transition.\<close>

definition branched_state :: "run_state \<Rightarrow> checkpoint_run list \<Rightarrow> string \<Rightarrow> lifecycle_branch \<Rightarrow> run_state" where
  "branched_state s runs checkpoint_id b =
     \<lparr>ru_schema = ru_schema s, ru_lifecycle_id = ru_lifecycle_id s, ru_spec_sha256 = ru_spec_sha256 s,
      ru_package_sha256 = ru_package_sha256 s, ru_authorization = None, ru_status = Awaiting_Submission,
      ru_active = Some checkpoint_id, ru_checkpoints = runs, ru_revisits = [], ru_transitions = [], ru_branch = Some b\<rparr>"

lemma branch_cases:
  assumes good: "run_good spec s" and distinct: "distinct (map cs_checkpoint_id (ls_checkpoints spec))"
    and step: "branch_lifecycle spec files parent_run_dir checkpoint_id branch_id reason scope directory_exists s = Inr (files', s')"
  obtains xs c ys ds d es b tr where "ru_checkpoints s = xs @ c # ys" "\<forall>x\<in>set (xs @ [c]). cr_status x = Cp_Submitted"
    "cr_checkpoint_id c = checkpoint_id" "ls_checkpoints spec = ds @ d # es" "length ds = length xs"
    "\<forall>e\<in>set es. isOK (construct_checkpoint_run (pending_run e))"
    "isOK (validate_branch b)" "lb_from_checkpoint b = checkpoint_id"
    "Some (lb_parent_submission b) = cr_submission_sha256 c"
    "lb_parent_action_state b = Some (branch_action_state_sha256 s (length xs) False)"
    "isOK (validate_transition_record tr)"
    "construct_run_state (branched_state s (branched_runs xs c es) checkpoint_id b)
       = Inr (branched_state s (branched_runs xs c es) checkpoint_id b)"
    "s' = (branched_state s (branched_runs xs c es) checkpoint_id b)\<lparr>ru_transitions := [tr]\<rparr>"
proof -
  define k where "k = length (takeWhile (\<lambda>i. i \<noteq> checkpoint_id) (map cs_checkpoint_id (ls_checkpoints spec)))"
  obtain c submission b events where "checkpoint_id \<in> set (map cs_checkpoint_id (ls_checkpoints spec))"
    and index: "index_checkpoint s checkpoint_id = Inr c" and sub: "cr_status c = Cp_Submitted"
    and digest: "cr_submission_sha256 c = Some submission"
    and b: "validate_branch \<lparr>lb_branch_id = branch_id, lb_parent_run_dir = parent_run_dir,
              lb_from_checkpoint = checkpoint_id, lb_parent_submission = submission,
              lb_parent_action_state = Some (branch_action_state_sha256 s k False), lb_reason = reason\<rparr> = Inr b"
    and reduce: "reduce_branch (ls_checkpoints spec) (int k) b checkpoint_id reason s = Inr (s', events)"
    and "branch_files files (ls_checkpoints spec) k = Inr files'"
    by (rule branch_lifecycle_Inr [OF step k_def])
  have c: "c \<in> set (ru_checkpoints s)" "cr_checkpoint_id c = checkpoint_id" using index_Inr [OF index] by auto
  obtain xs ys where old: "ru_checkpoints s = xs @ c # ys" using c(1) by (auto simp: in_set_conv_decomp)
  note ids = good_ids [OF good distinct]
  have names: "map cr_checkpoint_id (xs @ c # ys) = map cs_checkpoint_id (ls_checkpoints spec)"
    using good old by (simp add: run_good_def)
  obtain ds d es where parts: "ls_checkpoints spec = ds @ d # es" "length ds = length xs" "length es = length ys"
      "cs_checkpoint_id d = cr_checkpoint_id c"
    using checkpoint_contract [OF names distinct] by metis
  have ds: "map cs_checkpoint_id ds = map cr_checkpoint_id xs" using names parts by simp
  have k: "k = length xs"
  proof -
    have "checkpoint_id \<notin> set (map cs_checkpoint_id ds)" using distinct parts c(2) by auto
    then have "takeWhile (\<lambda>i. i \<noteq> checkpoint_id) (map cs_checkpoint_id (ls_checkpoints spec)) = map cs_checkpoint_id ds"
      using takeWhile_until [of checkpoint_id "map cs_checkpoint_id ds"] parts(1,4) c(2) by simp
    then show ?thesis using parts(2) by (simp add: k_def)
  qed
  have lookup: "lookup_checkpoint s checkpoint_id = Inr c"
    using checkpoint_middle [OF old ids] c(2) by (simp add: lookup_checkpoint_def)
  obtain runs tr where runs: "branch_checkpoints s (length xs) c 0 (ds @ d # es) = Inr runs"
    and built: "construct_run_state (branched_state s runs checkpoint_id b) = Inr (branched_state s runs checkpoint_id b)"
    and tr: "isOK (validate_transition_record tr)"
    and s': "s' = (branched_state s runs checkpoint_id b)\<lparr>ru_transitions := [tr]\<rparr>"
  proof -
    obtain runs updated where "branch_checkpoints s (length xs) c 0 (ds @ d # es) = Inr runs"
      and updated: "construct_run_state (branched_state s runs checkpoint_id b) = Inr updated"
      and "record_transition Tk_Branch (Some checkpoint_id) (Some checkpoint_id) reason updated = Inr (s', events)"
      using reduce unfolding reduce_branch_def bindE_eq_Inr_iff guardE_eq_Inr_iff validated_Inr branched_state_def [symmetric]
      by (auto simp: k lookup parts(1))
    then show ?thesis
      using constructed_state(1) [OF updated] by (intro that) (auto simp: record_transition_Inr branched_state_def)
  qed
  note shape = branch_runs_eq [OF old ids ds parts(4) runs]
  show ?thesis
  proof (rule that [OF old _ c(2) parts(1,2) shape(3) _ _ _ _ tr built [unfolded shape(1)] s' [unfolded shape(1)]])
    show "\<forall>x\<in>set (xs @ [c]). cr_status x = Cp_Submitted" using shape(2) sub by simp
  qed (use b digest k in \<open>auto simp: validate_branch_def bindE_eq_Inr_iff isOK_iff\<close>)
qed

theorem branch_good:
  assumes good: "run_good spec s" and distinct: "distinct (map cs_checkpoint_id (ls_checkpoints spec))"
    and step: "branch_lifecycle spec files parent_run_dir checkpoint_id branch_id reason scope directory_exists s = Inr (files', s')"
  shows "run_good spec s' \<and> ru_package_sha256 s' = ru_package_sha256 s"
proof -
  obtain xs c ys ds d es b tr where old: "ru_checkpoints s = xs @ c # ys"
    and submitted: "\<forall>x\<in>set (xs @ [c]). cr_status x = Cp_Submitted"
    and id: "cr_checkpoint_id c = checkpoint_id" and parts: "ls_checkpoints spec = ds @ d # es" "length ds = length xs"
    and pending: "\<forall>e\<in>set es. isOK (construct_checkpoint_run (pending_run e))"
    and b: "isOK (validate_branch b)" and "lb_from_checkpoint b = checkpoint_id"
    and "Some (lb_parent_submission b) = cr_submission_sha256 c"
    and "lb_parent_action_state b = Some (branch_action_state_sha256 s (length xs) False)"
    and tr: "isOK (validate_transition_record tr)"
    and built: "construct_run_state (branched_state s (branched_runs xs c es) checkpoint_id b)
       = Inr (branched_state s (branched_runs xs c es) checkpoint_id b)"
    and s': "s' = (branched_state s (branched_runs xs c es) checkpoint_id b)\<lparr>ru_transitions := [tr]\<rparr>"
    by (rule branch_cases [OF assms])
  let ?taken = "map (\<lambda>x. inherited_run (cr_checkpoint_id x) x) xs @ [reopened_run (cr_checkpoint_id c) c]"
  have runs: "ru_checkpoints s' = ?taken @ map pending_run es" by (simp add: s' branched_state_def branched_runs_def)
  have fields: "ru_lifecycle_id s' = ru_lifecycle_id s" "ru_package_sha256 s' = ru_package_sha256 s"
    "ru_spec_sha256 s' = ru_spec_sha256 s" "ru_schema s' = ru_schema s" "ru_authorization s' = None"
    "ru_revisits s' = []" "ru_transitions s' = [tr]" "ru_branch s' = Some b"
    by (simp_all add: s' branched_state_def)
  note state = constructed_state [OF built]
  have same: "same_run s s'" by (simp add: same_run_def fields)
  have names: "map cr_checkpoint_id (xs @ [c]) = map cs_checkpoint_id (ds @ [d])"
    "map cr_checkpoint_id ys = map cs_checkpoint_id es"
    using good old parts by (auto simp: run_good_def append_eq_append_conv)
  have ids: "map cr_checkpoint_id (ru_checkpoints s') = map cs_checkpoint_id (ls_checkpoints spec)"
    using names(1) by (simp add: runs parts(1) pending_run_def inherited_run_def reopened_run_def comp_def)
  have records: "record_good e" if member: "e \<in> set (ru_checkpoints s')" for e
  proof -
    have old_good: "record_good x" "cr_status x = Cp_Submitted" if "x \<in> set (xs @ [c])" for x
      using that good_record [OF good] old submitted by auto
    consider x where "x \<in> set xs" "e = inherited_run (cr_checkpoint_id x) x" | "e = reopened_run (cr_checkpoint_id c) c"
      | f where "f \<in> set es" "e = pending_run f"
      using member unfolding runs by auto
    then show ?thesis
    proof cases
      case (1 x)
      then show ?thesis
        using record_taken_over [OF old_good [of x] taken_over_runs(1)] by (simp add: inherited_run_def)
    next
      case 2
      then show ?thesis
        using record_taken_over [OF old_good [of c] taken_over_runs(2)] by (simp add: reopened_run_def)
    next
      case (3 f)
      then show ?thesis using pending pending_good(1) by simp
    qed
  qed
  have requests: "list_all2 (\<lambda>c d. isOK (validate_request_checkpoint s' c d)) (ru_checkpoints s') (ls_checkpoints spec)"
  proof -
    have "list_all2 (\<lambda>c d. isOK (validate_request_checkpoint s c d)) (xs @ c # ys) (ds @ d # es)"
      using good old parts by (simp add: run_good_def)
    then have "list_all2 (\<lambda>c d. isOK (validate_request_checkpoint s c d)) (xs @ [c]) (ds @ [d])"
      using parts(2) by (simp add: list_all2_append)
    then have "list_all2 (\<lambda>c d. isOK (validate_request_checkpoint s' c d)) ?taken (ds @ [d])"
      using taken_over_branched [of xs c] request_checkpoint_inherited [OF same]
      by (force simp: list_all2_conv_all_nth)
    moreover have "list_all2 (\<lambda>c d. isOK (validate_request_checkpoint s' c d)) (map pending_run es) es"
      using pending pending_good(2) by (simp add: list_all2_map1 list_all2_same)
    ultimately have "list_all2 (\<lambda>c d. isOK (validate_request_checkpoint s' c d)) (?taken @ map pending_run es) ((ds @ [d]) @ es)"
      by (rule list_all2_appendI)
    then show ?thesis by (simp add: runs parts(1))
  qed
  have operations: "operations_replayed s' [] (zip (ru_checkpoints s') (ls_checkpoints spec))"
  proof -
    have "operations_replayed s [] (zip (xs @ c # ys) (ds @ d # es))" using good old parts by (simp add: run_good_def)
    then have "operations_replayed s [] (zip (xs @ [c]) (ds @ [d]))"
      using parts(2) by (simp add: operations_replayed_append)
    from operations_replayed_inherited [OF same taken_over_branched this]
    have "operations_replayed s' [] (zip ?taken (ds @ [d]))" by simp
    moreover have "operations_replayed s' prior (zip (map pending_run es) es)" for prior
      using pending by (induction es arbitrary: prior) (auto intro: pending_good(3))
    ultimately have "operations_replayed s' [] (zip ?taken (ds @ [d]) @ zip (map pending_run es) es)"
      by (simp only: operations_replayed_append)
    then show ?thesis using parts(2) by (simp add: runs parts(1))
  qed
  have "run_good spec s'"
    unfolding run_good_def
  proof (intro conjI)
    have "identity_ok s" using good by (simp add: run_good_def)
    then show "identity_ok s'" using tr by (simp add: identity_ok_def fields)
    show "branch_ok s'" using state(9) b by (simp add: branch_ok_def s' branched_state_def)
    obtain sh where "has_shape (branched_state s (branched_runs xs c es) checkpoint_id b) sh" using state(2) ..
    then have "has_shape s' sh" by (cases sh) (auto simp: s')
    then show "\<exists>sh. has_shape s' sh" ..
    show "schema_ok s'" "actions_numbered s'"
      using state(3,4) by (simp_all add: s' schema_ok_def actions_numbered_def all_request_actions_def all_operation_actions_def)
  qed (use good records ids requests operations in \<open>simp_all add: run_good_def fields\<close>)
  then show ?thesis by (simp add: fields)
qed

section \<open>The first state\<close>

lemma unit_OK: "r = Inr () \<longleftrightarrow> isOK r"
  by (auto simp: isOK_iff)

lemma validated_OK: "isOK (validated r) \<longleftrightarrow> isOK r"
  by (simp add: isOK_iff validated_Inr)

theorem initial_good:
  assumes "initial_state package spec authorization = Inr s"
  shows "run_good spec s" "package_sha256 package = Inr (ru_package_sha256 s)" "has_shape s (Idle [] (ru_checkpoints s))"
proof -
  obtain digest where digest: "package_sha256 package = Inr digest"
    and pending: "\<forall>d\<in>set (ls_checkpoints spec). isOK (construct_checkpoint_run (pending_run d))"
    and built: "construct_run_state
       \<lparr>ru_schema = (if supports_operations spec then Schema_7 else Schema_6),
        ru_lifecycle_id = ls_lifecycle_id spec, ru_spec_sha256 = spec_sha256 spec, ru_package_sha256 = digest,
        ru_authorization = authorization, ru_status = Awaiting_Release, ru_active = None,
        ru_checkpoints = map pending_run (ls_checkpoints spec), ru_revisits = [], ru_transitions = [],
        ru_branch = None\<rparr> = Inr s"
    using assms by (auto simp: initial_state_def bindE_eq_Inr_iff validated_Inr unit_OK checked_iff validated_OK)
  have fields: "ru_schema s = (if supports_operations spec then Schema_7 else Schema_6)"
    "ru_lifecycle_id s = ls_lifecycle_id spec" "ru_spec_sha256 s = spec_sha256 spec" "ru_package_sha256 s = digest"
    "ru_status s = Awaiting_Release" "ru_active s = None" "ru_revisits s = []" "ru_transitions s = []"
    "ru_checkpoints s = map pending_run (ls_checkpoints spec)" "ru_branch s = None"
    unfolding constructed_state(1) [OF built] by simp_all
  note state = constructed_state(2-) [OF built, folded constructed_state(1) [OF built]]
  have requests: "list_all2 (\<lambda>c d. isOK (validate_request_checkpoint s c d)) (ru_checkpoints s) (ls_checkpoints spec)"
    using pending pending_good(2) by (simp add: fields list_all2_map1 list_all2_same)
  have operations: "operations_replayed s prior (zip (map pending_run ds) ds)"
    if "\<forall>d\<in>set ds. isOK (construct_checkpoint_run (pending_run d))" for prior ds
    using that by (induction ds arbitrary: prior) (auto intro: pending_good(3))
  show "run_good spec s"
    unfolding run_good_def
  proof (intro conjI)
    show "identity_ok s" using state(4-7) by (simp add: identity_ok_def fields(7,8))
    show "operations_replayed s [] (zip (ru_checkpoints s) (ls_checkpoints spec))"
      using operations pending by (simp add: fields)
    show "\<forall>c\<in>set (ru_checkpoints s). record_good c" using pending pending_good(1) by (simp add: fields)
  qed (use state(1-3) requests in \<open>simp_all add: fields branch_ok_def pending_run_def comp_def\<close>)
  show "package_sha256 package = Inr (ru_package_sha256 s)" using digest by (simp add: fields)
  show "has_shape s (Idle [] (ru_checkpoints s))" by (simp add: fields pending_run_def)
qed

end
