(* ===== verification/Lifecycle_Reachable.thy ===== *)
theory Lifecycle_Reachable
  imports Lifecycle_Invariant_Branch
begin

text \<open>
  The reachable states of a lifecycle run, and the abstract machine they implement: how many checkpoints
  have been submitted, and whether one is active. The files of the run may be anything at every step.
\<close>

section \<open>Simulation\<close>

text \<open>A forward simulation of one step relation by another, and what it says of whole runs.\<close>

locale forward_simulation =
  fixes concrete :: "'c \<Rightarrow> 'c \<Rightarrow> bool" and abstract :: "'a \<Rightarrow> 'a \<Rightarrow> bool" and match :: "'c \<Rightarrow> 'a \<Rightarrow> bool"
  assumes simulates: "match c a \<Longrightarrow> concrete c c' \<Longrightarrow> \<exists>a'. abstract\<^sup>*\<^sup>* a a' \<and> match c' a'"
begin

lemma simulates_run: "concrete\<^sup>*\<^sup>* c c' \<Longrightarrow> match c a \<Longrightarrow> \<exists>a'. abstract\<^sup>*\<^sup>* a a' \<and> match c' a'"
proof (induction rule: rtranclp_induct)
  case (step c' c'')
  then obtain a' where "abstract\<^sup>*\<^sup>* a a'" "match c' a'" by blast
  with simulates [OF _ step(2)] show ?case by (meson rtranclp_trans)
qed blast

lemma invariant_run:
  assumes "concrete\<^sup>*\<^sup>* c c'" and "match c a" and "I a" and "\<And>a a'. I a \<Longrightarrow> abstract a a' \<Longrightarrow> I a'"
  shows "\<exists>a'. match c' a' \<and> I a'"
proof -
  obtain a' where a': "abstract\<^sup>*\<^sup>* a a'" "match c' a'" using simulates_run [OF assms(1,2)] by blast
  have "I a'" using a'(1) assms(3) by (induction rule: rtranclp_induct) (auto intro: assms(4))
  then show ?thesis using a'(2) by blast
qed

end

section \<open>The steps\<close>

inductive lifecycle_step :: "lifecycle_package \<Rightarrow> lifecycle_spec \<Rightarrow> run_state \<Rightarrow> run_state \<Rightarrow> bool"
  for package spec where
  Release: "release_checkpoint package spec files s = Inr s' \<Longrightarrow> lifecycle_step package spec s s'"
| Submit: "submit_checkpoint codec spec files s = Inr (files', s') \<Longrightarrow> lifecycle_step package spec s s'"
| Open: "open_attempt session mode request s = Inr s' \<Longrightarrow> lifecycle_step package spec s s'"
| Fail: "fail_attempt session kind s = Inr s' \<Longrightarrow> lifecycle_step package spec s s'"
| Revisit: "revisit_checkpoint files checkpoint_id reason s = Inr s' \<Longrightarrow> lifecycle_step package spec s s'"
| Request: "request_checkpoint_evidence package unchanged spec checkpoint_id request_id reason session s = Inr (ra, s')
    \<Longrightarrow> lifecycle_step package spec s s'"
| Operate: "supports_operations spec \<Longrightarrow> resolver_faithful spec resolver s
    \<Longrightarrow> execute_lifecycle_operation resolver spec files checkpoint_id operation_id visible reason session s = Inr (oa, s')
    \<Longrightarrow> lifecycle_step package spec s s'"
| Branch: "branch_lifecycle spec files parent_dir checkpoint_id branch_id reason scope exists s = Inr (files', s')
    \<Longrightarrow> lifecycle_step package spec s s'"

text \<open>What is assumed of a contract and its package: both have been validated.\<close>

definition contract_ok :: "lifecycle_package \<Rightarrow> lifecycle_spec \<Rightarrow> bool" where
  "contract_ok package spec \<longleftrightarrow> isOK (validate_lifecycle_spec spec) \<and> kinds_consistent spec \<and> tree_ok package"

definition state_ok :: "lifecycle_package \<Rightarrow> lifecycle_spec \<Rightarrow> run_state \<Rightarrow> bool" where
  "state_ok package spec s \<longleftrightarrow> run_good spec s \<and> package_sha256 package = Inr (ru_package_sha256 s)"

lemma step_ok:
  assumes contract: "contract_ok package spec" and step: "lifecycle_step package spec s s'" and ok: "state_ok package spec s"
  shows "state_ok package spec s'"
proof -
  have good: "run_good spec s" and digest: "package_sha256 package = Inr (ru_package_sha256 s)"
    using ok by (simp_all add: state_ok_def)
  have valid: "isOK (validate_lifecycle_spec spec)" and kinds: "kinds_consistent spec" and tree: "tree_ok package"
    using contract by (simp_all add: contract_ok_def)
  note ids = validated_ids [OF valid]
  from step have "run_good spec s' \<and> ru_package_sha256 s' = ru_package_sha256 s"
  proof cases
    case (Release files)
    then show ?thesis by (rule release_good [OF good ids])
  next
    case (Submit codec files files')
    then show ?thesis by (rule submit_good [OF good ids])
  next
    case (Open session mode request)
    then show ?thesis by (rule open_good [OF good ids])
  next
    case (Fail session kind)
    then show ?thesis by (rule fail_good [OF good ids])
  next
    case (Revisit files checkpoint_id reason)
    then show ?thesis by (rule revisit_good [OF good])
  next
    case (Request unchanged checkpoint_id request_id reason session ra)
    then show ?thesis by (rule request_good [OF good ids tree])
  next
    case (Operate resolver files checkpoint_id operation_id visible reason session oa)
    then show ?thesis using operation_good [OF good valid _ kinds] by blast
  next
    case (Branch files parent_dir checkpoint_id branch_id reason scope exists files')
    then show ?thesis by (rule branch_good [OF good ids])
  qed
  then show ?thesis using digest by (simp add: state_ok_def)
qed

section \<open>The abstract machine\<close>

text \<open>How many checkpoints are submitted, whether one is active, and whether the run is over.\<close>

record phase =
  ph_submitted :: nat
  ph_active :: bool
  ph_over :: bool

definition at_phase :: "nat \<Rightarrow> bool \<Rightarrow> bool \<Rightarrow> phase" where
  "at_phase n active over = \<lparr>ph_submitted = n, ph_active = active, ph_over = over\<rparr>"

definition phase_of :: "run_state \<Rightarrow> phase" where
  "phase_of s = at_phase (submitted_count s) (ru_active s \<noteq> None) (ru_status s = Run_Complete)"

inductive phase_step :: "nat \<Rightarrow> phase \<Rightarrow> phase \<Rightarrow> bool" for m where
  Released: "n < m \<Longrightarrow> phase_step m (at_phase n False False) (at_phase n True False)"
| Submitted: "n < m \<Longrightarrow> phase_step m (at_phase n True False) (at_phase (Suc n) False (Suc n = m))"
| Branched: "k < n \<Longrightarrow> n \<le> m \<Longrightarrow> phase_step m (at_phase n active over) (at_phase k True False)"

text \<open>A run is over exactly when every checkpoint is submitted.\<close>

definition phase_ok :: "nat \<Rightarrow> phase \<Rightarrow> bool" where
  "phase_ok m p \<longleftrightarrow> ph_submitted p \<le> m \<and> (ph_active p \<longrightarrow> ph_submitted p < m)
     \<and> (ph_over p \<longleftrightarrow> ph_submitted p = m)"

lemma phase_step_ok: "phase_step m p q \<Longrightarrow> phase_ok m p \<Longrightarrow> phase_ok m q"
  by (induction rule: phase_step.induct) (auto simp: phase_ok_def at_phase_def)

lemma phase_shape:
  "has_shape s (Idle subs pend) \<Longrightarrow> phase_of s = at_phase (length subs) False (ru_status s = Run_Complete)"
  "has_shape s (Busy subs c pend) \<Longrightarrow> phase_of s = at_phase (length subs) True False"
proof -
  assume idle: "has_shape s (Idle subs pend)"
  then have "ru_active s = None" by simp
  then show "phase_of s = at_phase (length subs) False (ru_status s = Run_Complete)"
    by (simp only: phase_of_def shape_counts(1) [OF idle]) simp
next
  assume busy: "has_shape s (Busy subs c pend)"
  then have "ru_active s \<noteq> None" "ru_status s \<noteq> Run_Complete" by simp_all
  then show "phase_of s = at_phase (length subs) True False" by (simp only: phase_of_def shape_counts(2) [OF busy]) simp
qed

text \<open>The state after a request or an operation: one more action at the active checkpoint.\<close>

lemma request_effect:
  assumes good: "run_good spec s" and distinct: "distinct (map cs_checkpoint_id (ls_checkpoints spec))"
    and step: "request_checkpoint_evidence package unchanged spec checkpoint_id request_id reason session s = Inr (a, s')"
  obtains subs c pend tr where "has_shape s (Busy subs c pend)" "\<not> aq_inherited a"
    "s' = s\<lparr>ru_checkpoints := subs @ with_request a c # pend, ru_transitions := ru_transitions s @ [tr]\<rparr>"
proof -
  note finish = that
  have decide: "request_evidence package unchanged spec checkpoint_id request_id reason session s = Inr (a, s')"
    using step by (auto simp: request_checkpoint_evidence_def bindE_eq_Inr_iff guardE_eq_Inr_iff)
  obtain active where active: "ru_active s = Some active"
    using decide by (auto simp: request_evidence_def bindE_eq_Inr_iff split: option.splits)
  obtain subs c pend where shape: "has_shape s (Busy subs c pend)" and id: "cr_checkpoint_id c = active"
    using busyE [OF good active] by metis
  note ids = good_ids [OF good distinct]
  have old: "ru_checkpoints s = subs @ c # pend" using shape by simp
  have index: "index_checkpoint s active = Inr c" using index_middle [OF old ids] id by simp
  obtain d where "find_row cs_checkpoint_id (cr_checkpoint_id c) (ls_checkpoints spec) = Some d"
    using good_contract [OF good distinct old] by metis
  then have found: "find_row cs_checkpoint_id active (ls_checkpoints spec) = Some d" using id by simp
  have recorded: thesis
    if run: "record_request_action s requested request_id reason session outcome rejection artifacts source = Inr (a, s')"
    for requested outcome rejection artifacts source
    by (rule record_cases [OF shape ids run], rule finish [OF shape]) (simp_all add: final_request_def draft_request_def Let_def)
  show ?thesis by (rule request_branches [OF decide active index found]) (rule recorded, assumption)+
qed

lemma operation_effect:
  assumes good: "run_good spec s" and distinct: "distinct (map cs_checkpoint_id (ls_checkpoints spec))"
    and step: "execute_lifecycle_operation resolver spec files checkpoint_id operation_id visible reason session s = Inr (a, s')"
  obtains subs c pend tr where "has_shape s (Busy subs c pend)" "\<not> ao_inherited a"
    "s' = s\<lparr>ru_checkpoints := subs @ with_operation a c # pend, ru_transitions := ru_transitions s @ [tr]\<rparr>"
proof -
  note finish = that
  obtain requested supplied where decide: "execute_operation spec resolver requested operation_id supplied reason session s = Inr (a, s')"
    using step by (auto simp: execute_lifecycle_operation_def bindE_eq_Inr_iff guardE_eq_Inr_iff split: option.splits)
  obtain active source where active: "ru_active s = Some active"
    and source: "or_current_source resolver (ordered_operation_actions s) = Inr source"
    using decide by (auto simp: execute_operation_def bindE_eq_Inr_iff split: option.splits)
  obtain subs c pend where shape: "has_shape s (Busy subs c pend)" and id: "cr_checkpoint_id c = active"
    and quiet: "\<forall>e\<in>set pend. untouched e"
    using busyE [OF good active] by metis
  note ids = good_ids [OF good distinct]
  have numbers: "actions_numbered s" using good by (simp add: run_good_def)
  have old: "ru_checkpoints s = subs @ c # pend" using shape by simp
  have index: "index_checkpoint s active = Inr c" using index_middle [OF old ids] id by simp
  obtain d where "find_row cs_checkpoint_id (cr_checkpoint_id c) (ls_checkpoints spec) = Some d"
    using good_contract [OF good distinct old] by metis
  then have found: "find_row cs_checkpoint_id active (ls_checkpoints spec) = Some d" using id by simp
  have published: thesis
    if run: "publish_operation_action resolver s requested operation_id kind reason session supplied source basis = Inr (a, s')"
    for requested kind basis
    by (rule publish_cases [OF shape ids numbers quiet run], rule finish [OF shape])
      (simp_all add: final_operation_def draft_operation_def)
  show ?thesis by (rule execute_branches [OF decide source refl active index found]) (rule published, assumption)+
qed

lemma good_total:
  assumes "run_good spec s" shows "length (ru_checkpoints s) = length (ls_checkpoints spec)"
  using assms unfolding run_good_def by (metis length_map)

lemma branch_phase:
  assumes good: "run_good spec s" and distinct: "distinct (map cs_checkpoint_id (ls_checkpoints spec))"
    and step: "branch_lifecycle spec files parent_dir checkpoint_id branch_id reason scope directory_exists s = Inr (files', s')"
  shows "phase_step (length (ls_checkpoints spec)) (phase_of s) (phase_of s')"
proof -
  obtain xs c ys ds d es b tr where old: "ru_checkpoints s = xs @ c # ys"
    and submitted: "\<forall>x\<in>set (xs @ [c]). cr_status x = Cp_Submitted"
    and id: "cr_checkpoint_id c = checkpoint_id" and "ls_checkpoints spec = ds @ d # es" and "length ds = length xs"
    and "\<forall>e\<in>set es. isOK (construct_checkpoint_run (pending_run e))"
    and "isOK (validate_branch b)" and "lb_from_checkpoint b = checkpoint_id"
    and "Some (lb_parent_submission b) = cr_submission_sha256 c"
    and "lb_parent_action_state b = Some (branch_action_state_sha256 s (length xs) False)"
    and "isOK (validate_transition_record tr)"
    and "construct_run_state (branched_state s (branched_runs xs c es) checkpoint_id b)
       = Inr (branched_state s (branched_runs xs c es) checkpoint_id b)"
    and s': "s' = (branched_state s (branched_runs xs c es) checkpoint_id b)\<lparr>ru_transitions := [tr]\<rparr>"
    by (rule branch_cases [OF assms])
  have "has_shape s' (Busy (map (\<lambda>x. inherited_run (cr_checkpoint_id x) x) xs)
      (reopened_run (cr_checkpoint_id c) c) (map pending_run es))"
    using id by (simp add: s' branched_state_def branched_runs_def inherited_run_def reopened_run_def pending_run_def)
  from phase_shape(2) [OF this] have after: "phase_of s' = at_phase (length xs) True False" by simp
  have "filter (\<lambda>x. cr_status x = Cp_Submitted) xs = xs" "cr_status c = Cp_Submitted" using submitted by simp_all
  then have "length xs < submitted_count s" by (simp add: submitted_count_def old)
  moreover have "submitted_count s \<le> length (ls_checkpoints spec)"
    using good_total [OF good] length_filter_le [of "\<lambda>x. cr_status x = Cp_Submitted" "ru_checkpoints s"]
    by (simp add: submitted_count_def)
  ultimately show ?thesis unfolding after by (auto simp: phase_of_def intro: Branched)
qed

text \<open>
  What a step other than a branch does: nothing to the checkpoints, or it moves one of them from pending to
  active, from active to active or from active to submitted, and keeps its identity, its budgets and the
  actions it has inherited.
\<close>

definition keeps_origin :: "checkpoint_run \<Rightarrow> checkpoint_run \<Rightarrow> bool" where
  "keeps_origin c c' \<longleftrightarrow> cr_checkpoint_id c' = cr_checkpoint_id c \<and> cr_request_budget c' = cr_request_budget c
     \<and> cr_operation_budget c' = cr_operation_budget c
     \<and> filter aq_inherited (cr_request_actions c') = filter aq_inherited (cr_request_actions c)
     \<and> filter ao_inherited (cr_operation_actions c') = filter ao_inherited (cr_operation_actions c)"

definition same_lineage :: "run_state \<Rightarrow> run_state \<Rightarrow> bool" where
  "same_lineage s s' \<longleftrightarrow> ru_branch s' = ru_branch s \<and> ru_schema s' = ru_schema s \<and> same_run s s'"

datatype move = Start | Work | Finish

fun moves :: "move \<Rightarrow> run_state \<Rightarrow> run_state \<Rightarrow> checkpoint_run list \<Rightarrow> checkpoint_run \<Rightarrow> checkpoint_run \<Rightarrow> checkpoint_run list \<Rightarrow> bool" where
  "moves Start s s' subs c c' pend \<longleftrightarrow> has_shape s (Idle subs (c # pend)) \<and> has_shape s' (Busy subs c' pend)"
| "moves Work s s' subs c c' pend \<longleftrightarrow> has_shape s (Busy subs c pend) \<and> has_shape s' (Busy subs c' pend)"
| "moves Finish s s' subs c c' pend \<longleftrightarrow> has_shape s (Busy subs c pend) \<and> has_shape s' (Idle (subs @ [c']) pend)
     \<and> (ru_status s' = Run_Complete \<longleftrightarrow> pend = [])"

definition step_effect :: "run_state \<Rightarrow> run_state \<Rightarrow> bool" where
  "step_effect s s' \<longleftrightarrow> same_lineage s s' \<and>
     (ru_checkpoints s' = ru_checkpoints s \<and> phase_of s' = phase_of s
      \<or> (\<exists>m subs c c' pend. keeps_origin c c' \<and> moves m s s' subs c c' pend))"

lemma step_effectI:
  "same_lineage s s' \<Longrightarrow> keeps_origin c c' \<Longrightarrow> moves m s s' subs c c' pend \<Longrightarrow> step_effect s s'"
  by (auto simp: step_effect_def)

lemma step_effect_refl: "step_effect s s"
  by (simp add: step_effect_def same_lineage_def)

lemmas effect_defs = same_lineage_def same_run_def keeps_origin_def

lemma release_effect:
  assumes "run_good spec s" and "distinct (map cs_checkpoint_id (ls_checkpoints spec))"
    and "release_checkpoint package spec files s = Inr s'"
  shows "step_effect s s'"
proof (cases "s' = s")
  case moved: False
  obtain subs c pend names t where sh: "has_shape s (Idle subs (c # pend))" and "isOK (validate_transition_record t)"
    and s': "s' = s\<lparr>ru_checkpoints := subs @ c\<lparr>cr_status := Cp_Active, cr_released_files := names\<rparr> # pend,
       ru_active := Some (cr_checkpoint_id c), ru_status := Awaiting_Submission,
       ru_transitions := ru_transitions s @ [t]\<rparr>"
    by (rule release_cases [OF assms moved])
  show ?thesis
    by (rule step_effectI [where m = Start and c = c and c' = "c\<lparr>cr_status := Cp_Active, cr_released_files := names\<rparr>"
        and subs = subs and pend = pend]) (use sh in \<open>simp_all add: s' effect_defs\<close>)
qed (simp add: step_effect_refl)

lemma submit_effect:
  assumes "run_good spec s" and "distinct (map cs_checkpoint_id (ls_checkpoints spec))"
    and "submit_checkpoint codec spec files s = Inr (files', s')"
  shows "step_effect s s'"
proof -
  obtain subs c pend d final t where sh: "has_shape s (Busy subs c pend)" and "isOK (validate_transition_record t)"
    and "find_row cs_checkpoint_id (cr_checkpoint_id c) (ls_checkpoints spec) = Some d"
    and "files' = files\<lparr>rf_workspace := (rf_workspace files)(cs_submission_path d := Some final),
       rf_archive := (rf_archive files)(cr_checkpoint_id c := Some final)\<rparr>"
    and s': "s' = s\<lparr>ru_checkpoints := subs @ submitted_run (cs_submission_path d) (sha256 final) c # pend,
       ru_active := None, ru_status := (if pend = [] then Run_Complete else Awaiting_Release),
       ru_transitions := ru_transitions s @ [t]\<rparr>"
    by (rule submit_cases [OF assms])
  show ?thesis
    by (rule step_effectI [where m = Finish and c = c and c' = "submitted_run (cs_submission_path d) (sha256 final) c"
        and subs = subs and pend = pend]) (use sh in \<open>simp_all add: s' effect_defs submitted_run_def\<close>)
qed

lemma work_effect:
  assumes sh: "has_shape s (Busy subs c pend)" and s': "s' = s\<lparr>ru_checkpoints := subs @ c' # pend, ru_transitions := ts\<rparr>"
    and kept: "keeps_origin c c'" and "cr_status c' = cr_status c"
  shows "step_effect s s'"
  by (rule step_effectI [where m = Work and c = c and c' = c' and subs = subs and pend = pend])
    (use assms in \<open>simp_all add: s' effect_defs\<close>)

lemma open_effect:
  assumes "run_good spec s" and "distinct (map cs_checkpoint_id (ls_checkpoints spec))"
    and "open_attempt session mode request s = Inr s'"
  shows "step_effect s s'"
proof (cases "s' = s")
  case moved: False
  obtain subs c pend where sh: "has_shape s (Busy subs c pend)"
    and "isOK (validate_checkpoint_attempt (new_attempt (cr_checkpoint_id c) session mode request c))"
    and s': "s' = s\<lparr>ru_checkpoints := subs @ reopened_attempts (new_attempt (cr_checkpoint_id c) session mode request c) c # pend\<rparr>"
    by (rule open_cases [OF assms moved])
  show ?thesis
    by (rule work_effect [OF sh, where ts = "ru_transitions s"
        and c' = "reopened_attempts (new_attempt (cr_checkpoint_id c) session mode request c) c"])
      (simp_all add: s' effect_defs reopened_attempts_def)
qed (simp add: step_effect_refl)

lemma fail_effect:
  assumes "run_good spec s" and "distinct (map cs_checkpoint_id (ls_checkpoints spec))"
    and "fail_attempt session kind s = Inr s'"
  shows "step_effect s s'"
proof -
  let ?c = "\<lambda>c. c\<lparr>cr_attempts := closing (\<lambda>b. b\<lparr>ct_status := Ca_Failed, ct_failure_kind := Some kind\<rparr>) (cr_attempts c)\<rparr>"
  obtain subs c pend where sh: "has_shape s (Busy subs c pend)" and s': "s' = s\<lparr>ru_checkpoints := subs @ ?c c # pend\<rparr>"
    by (rule fail_cases [OF assms])
  show ?thesis
    by (rule work_effect [OF sh, where ts = "ru_transitions s" and c' = "?c c"]) (simp_all add: s' effect_defs)
qed

lemma revisit_effect:
  assumes "revisit_checkpoint files checkpoint_id reason s = Inr s'"
  shows "step_effect s s'"
proof -
  obtain c t where "c \<in> set (ru_checkpoints s)" "cr_checkpoint_id c = checkpoint_id" "cr_status c = Cp_Submitted"
    and "isOK (validate_revisit (new_revisit checkpoint_id reason s))" "isOK (validate_transition_record t)"
    and s': "s' = s\<lparr>ru_revisits := ru_revisits s @ [new_revisit checkpoint_id reason s],
      ru_transitions := ru_transitions s @ [t]\<rparr>"
    by (rule revisit_cases [OF assms])
  show ?thesis by (simp add: s' step_effect_def same_lineage_def same_run_def phase_of_def submitted_count_def)
qed

text \<open>The effect of every step.\<close>

lemma step_cases:
  assumes contract: "contract_ok package spec" and step: "lifecycle_step package spec s s'" and ok: "state_ok package spec s"
  shows "step_effect s s' \<or> (\<exists>files parent_dir checkpoint_id branch_id reason scope directory_exists files'.
     branch_lifecycle spec files parent_dir checkpoint_id branch_id reason scope directory_exists s = Inr (files', s'))"
proof -
  have good: "run_good spec s" using ok by (simp add: state_ok_def)
  have ids: "distinct (map cs_checkpoint_id (ls_checkpoints spec))" using contract by (simp add: contract_ok_def validated_ids)
  from step show ?thesis
  proof cases
    case (Request unchanged checkpoint_id request_id reason session ra)
    obtain subs c pend tr where sh: "has_shape s (Busy subs c pend)" and own: "\<not> aq_inherited ra"
      and s': "s' = s\<lparr>ru_checkpoints := subs @ with_request ra c # pend, ru_transitions := ru_transitions s @ [tr]\<rparr>"
      by (rule request_effect [OF good ids Request])
    have "step_effect s s'" by (rule work_effect [OF sh s']) (simp_all add: keeps_origin_def with_request_def own)
    then show ?thesis ..
  next
    case (Operate resolver files checkpoint_id operation_id visible reason session oa)
    obtain subs c pend tr where sh: "has_shape s (Busy subs c pend)" and own: "\<not> ao_inherited oa"
      and s': "s' = s\<lparr>ru_checkpoints := subs @ with_operation oa c # pend, ru_transitions := ru_transitions s @ [tr]\<rparr>"
      by (rule operation_effect [OF good ids Operate(3)])
    have "step_effect s s'" by (rule work_effect [OF sh s']) (simp_all add: keeps_origin_def with_operation_def own)
    then show ?thesis ..
  next
    case (Release files)
    show ?thesis by (rule disjI1) (rule release_effect [OF good ids Release])
  next
    case (Submit codec files files')
    show ?thesis by (rule disjI1) (rule submit_effect [OF good ids Submit])
  next
    case (Open session mode request)
    show ?thesis by (rule disjI1) (rule open_effect [OF good ids Open])
  next
    case (Fail session kind)
    show ?thesis by (rule disjI1) (rule fail_effect [OF good ids Fail])
  next
    case (Revisit files checkpoint_id reason)
    show ?thesis by (rule disjI1) (rule revisit_effect [OF Revisit])
  next
    case (Branch files parent_dir checkpoint_id branch_id reason scope directory_exists files')
    then show ?thesis by blast
  qed
qed

lemma effect_phase:
  assumes effect: "step_effect s s'" and total: "length (ru_checkpoints s) = m"
  shows "phase_of s' = phase_of s \<or> phase_step m (phase_of s) (phase_of s')"
proof -
  have "phase_step m (phase_of s) (phase_of s') \<or> phase_of s' = phase_of s"
    if moved: "moves k s s' subs c c' pend" for k subs c c' pend
  proof (cases k)
    case Start
    then have sh: "has_shape s (Idle subs (c # pend))" and sh': "has_shape s' (Busy subs c' pend)" using moved by simp_all
    have "ru_status s \<noteq> Run_Complete" "length subs < m" using sh total by auto
    then show ?thesis unfolding phase_shape(1) [OF sh] phase_shape(2) [OF sh'] by (simp add: phase_step.Released)
  next
    case Work
    then have sh: "has_shape s (Busy subs c pend)" and sh': "has_shape s' (Busy subs c' pend)" using moved by simp_all
    show ?thesis unfolding phase_shape(2) [OF sh] phase_shape(2) [OF sh'] by simp
  next
    case Finish
    then have sh: "has_shape s (Busy subs c pend)" and sh': "has_shape s' (Idle (subs @ [c']) pend)"
      and over: "ru_status s' = Run_Complete \<longleftrightarrow> pend = []" using moved by simp_all
    have "length subs < m" "pend = [] \<longleftrightarrow> Suc (length subs) = m" using sh total by (cases pend; auto)+
    then show ?thesis
      unfolding phase_shape(2) [OF sh] phase_shape(1) [OF sh'] over by (simp add: phase_step.Submitted)
  qed
  then show ?thesis using effect by (auto simp: step_effect_def)
qed

lemma step_phase:
  assumes contract: "contract_ok package spec" and step: "lifecycle_step package spec s s'" and ok: "state_ok package spec s"
  shows "phase_of s' = phase_of s \<or> phase_step (length (ls_checkpoints spec)) (phase_of s) (phase_of s')"
proof -
  have good: "run_good spec s" using ok by (simp add: state_ok_def)
  have ids: "distinct (map cs_checkpoint_id (ls_checkpoints spec))" using contract by (simp add: contract_ok_def validated_ids)
  show ?thesis
    using step_cases [OF assms] effect_phase [OF _ good_total [OF good]] branch_phase [OF good ids] by blast
qed

section \<open>Reachable states\<close>

definition lifecycle_reachable :: "lifecycle_package \<Rightarrow> lifecycle_spec \<Rightarrow> run_state \<Rightarrow> bool" where
  "lifecycle_reachable package spec s \<longleftrightarrow>
     (\<exists>authorization s0. initial_state package spec authorization = Inr s0 \<and> (lifecycle_step package spec)\<^sup>*\<^sup>* s0 s)"

definition tracks :: "lifecycle_package \<Rightarrow> lifecycle_spec \<Rightarrow> run_state \<Rightarrow> phase \<Rightarrow> bool" where
  "tracks package spec s p \<longleftrightarrow> contract_ok package spec \<and> state_ok package spec s \<and> phase_of s = p"

interpretation lifecycle: forward_simulation "lifecycle_step package spec" "phase_step (length (ls_checkpoints spec))"
  "tracks package spec" for package spec
proof unfold_locales
  fix s p s'
  assume "tracks package spec s p" and step: "lifecycle_step package spec s s'"
  then have contract: "contract_ok package spec" and ok: "state_ok package spec s" and p: "p = phase_of s"
    by (simp_all add: tracks_def)
  have "(phase_step (length (ls_checkpoints spec)))\<^sup>*\<^sup>* p (phase_of s')"
    using step_phase [OF contract step ok] by (auto simp: p)
  then show "\<exists>p'. (phase_step (length (ls_checkpoints spec)))\<^sup>*\<^sup>* p p' \<and> tracks package spec s' p'"
    using contract step_ok [OF contract step ok] by (auto simp: tracks_def)
qed

lemma validated_nonempty: "isOK (validate_lifecycle_spec spec) \<Longrightarrow> ls_checkpoints spec \<noteq> []"
  by (auto simp: validate_lifecycle_spec_def isOK_bindE_const bindE_guardE_OK)

lemma initial_tracks:
  assumes "contract_ok package spec" and "initial_state package spec authorization = Inr s"
  shows "tracks package spec s (at_phase 0 False False)" "phase_ok (length (ls_checkpoints spec)) (at_phase 0 False False)"
proof -
  note initial = initial_good [OF assms(2)]
  have "ls_checkpoints spec \<noteq> []" using assms(1) by (simp add: contract_ok_def validated_nonempty)
  then have "0 < length (ls_checkpoints spec)" by simp
  then show "phase_ok (length (ls_checkpoints spec)) (at_phase 0 False False)" by (simp add: phase_ok_def at_phase_def)
  have "ru_checkpoints s \<noteq> []" using \<open>0 < length (ls_checkpoints spec)\<close> good_total [OF initial(1)] by auto
  then have "ru_status s \<noteq> Run_Complete" using initial(3) by auto
  then show "tracks package spec s (at_phase 0 False False)"
    using assms(1) initial phase_shape(1) [OF initial(3)] by (simp add: tracks_def state_ok_def)
qed

lemma reachable_tracks:
  assumes "contract_ok package spec" and "lifecycle_reachable package spec s"
  shows "state_ok package spec s" "phase_ok (length (ls_checkpoints spec)) (phase_of s)"
    "(phase_step (length (ls_checkpoints spec)))\<^sup>*\<^sup>* (at_phase 0 False False) (phase_of s)"
proof -
  obtain authorization s0 where init: "initial_state package spec authorization = Inr s0"
    and run: "(lifecycle_step package spec)\<^sup>*\<^sup>* s0 s"
    using assms(2) by (auto simp: lifecycle_reachable_def)
  note start = initial_tracks [OF assms(1) init]
  show "state_ok package spec s" "(phase_step (length (ls_checkpoints spec)))\<^sup>*\<^sup>* (at_phase 0 False False) (phase_of s)"
    using lifecycle.simulates_run [OF run start(1)] by (auto simp: tracks_def)
  show "phase_ok (length (ls_checkpoints spec)) (phase_of s)"
    using lifecycle.invariant_run [where I = "phase_ok (length (ls_checkpoints spec))", OF run start] phase_step_ok
    by (auto simp: tracks_def)
qed

end
