(* ===== verification/Lifecycle_Episode_Facts.thy ===== *)
theory Lifecycle_Episode_Facts
  imports Lifecycle_Episode_Run Lifecycle_Reachable
begin

text \<open>
  The loop \<^const>\<open>run_lifecycle\<close> over the lifecycle state machine: whatever the environment does, as long as
  it changes the run through the calls of the runtime only, the stored state stays reachable, every round
  that goes on has submitted one more checkpoint, and an attempt whose episode fails is closed.
\<close>

section \<open>What is assumed of an environment\<close>

text \<open>
  An environment may make any calls of the runtime on the run, with any files; a branch is another run
  directory, so no submission of this run is undone. Recording a failure concerns its own artifacts only.
\<close>

definition run_advances :: "lifecycle_package \<Rightarrow> lifecycle_spec \<Rightarrow> host \<Rightarrow> host \<Rightarrow> bool" where
  "run_advances package spec h h' \<longleftrightarrow> (case ho_run h of None \<Rightarrow> ho_run h' = None
     | Some s \<Rightarrow> \<exists>s'. ho_run h' = Some s' \<and> (lifecycle_step package spec)\<^sup>*\<^sup>* s s' \<and> submitted_count s \<le> submitted_count s')"

definition environment_ok :: "lifecycle_package \<Rightarrow> lifecycle_spec \<Rightarrow> episode_environment \<Rightarrow> bool" where
  "environment_ok package spec en \<longleftrightarrow>
     (\<forall>c h. run_advances package spec h (snd (en_recover en c h)))
     \<and> (\<forall>q h. run_advances package spec h (snd (en_prepare en q h)))
     \<and> (\<forall>q h. run_advances package spec h (snd (en_execute en q h)))
     \<and> (\<forall>q k t h. ho_run (snd (en_record_failure en q k t h)) = ho_run h)"

section \<open>The stored state stays reachable\<close>

text \<open>At least \<open>k\<close> checkpoints are submitted, and the stored state, if any, is reachable.\<close>

definition held :: "lifecycle_package \<Rightarrow> lifecycle_spec \<Rightarrow> nat \<Rightarrow> host \<Rightarrow> bool" where
  "held package spec k h \<longleftrightarrow> (case ho_run h of None \<Rightarrow> k = 0
     | Some s \<Rightarrow> lifecycle_reachable package spec s \<and> k \<le> submitted_count s)"

lemma held_run: "ho_run h' = ho_run h \<Longrightarrow> held package spec k h' = held package spec k h"
  by (simp add: held_def)

lemma reachable_trans:
  "lifecycle_reachable package spec s \<Longrightarrow> (lifecycle_step package spec)\<^sup>*\<^sup>* s s' \<Longrightarrow> lifecycle_reachable package spec s'"
  unfolding lifecycle_reachable_def by (meson rtranclp_trans)

lemma held_advances: "held package spec k h \<Longrightarrow> run_advances package spec h h' \<Longrightarrow> held package spec k h'"
  by (auto simp: held_def run_advances_def intro: reachable_trans split: option.splits)

section \<open>Triples\<close>

text \<open>
  \<open>ends P m E Q\<close>: from a state with \<open>P\<close> the action leaves a state with \<open>E\<close> if it raises, and one with
  \<open>Q x\<close> if it returns \<open>x\<close>.
\<close>

definition ends :: "('s \<Rightarrow> bool) \<Rightarrow> ('s, 'e, 'a) action \<Rightarrow> ('s \<Rightarrow> bool) \<Rightarrow> ('a \<Rightarrow> 's \<Rightarrow> bool) \<Rightarrow> bool" where
  "ends P m E Q \<longleftrightarrow> (\<forall>s. P s \<longrightarrow> (case m s of (Inl e, t) \<Rightarrow> E t | (Inr x, t) \<Rightarrow> Q x t))"

lemma endsI: "(\<And>s. P s \<Longrightarrow> case m s of (Inl e, t) \<Rightarrow> E t | (Inr x, t) \<Rightarrow> Q x t) \<Longrightarrow> ends P m E Q"
  by (simp add: ends_def)

lemma endsD:
  "ends P m E Q \<Longrightarrow> P s \<Longrightarrow> m s = (Inl e, t) \<Longrightarrow> E t"
  "ends P m E Q \<Longrightarrow> P s \<Longrightarrow> m s = (Inr x, t) \<Longrightarrow> Q x t"
  by (auto simp: ends_def)

lemma ends_weaken:
  "ends P' m E' Q' \<Longrightarrow> (\<And>s. P s \<Longrightarrow> P' s) \<Longrightarrow> (\<And>s. E' s \<Longrightarrow> E s) \<Longrightarrow> (\<And>x s. Q' x s \<Longrightarrow> Q x s) \<Longrightarrow> ends P m E Q"
  by (fastforce simp: ends_def split: prod.splits sum.splits)

lemma ends_bindS: "ends P m E Q \<Longrightarrow> (\<And>x. ends (Q x) (f x) E R) \<Longrightarrow> ends P (bindS m f) E R"
  by (fastforce simp: ends_def bindS_def split: prod.splits sum.splits)

lemma ends_catchS: "ends P m E' Q \<Longrightarrow> (\<And>e. ends E' (h e) E Q) \<Longrightarrow> ends P (catchS m (\<lambda>_. True) h) E Q"
  by (fastforce simp: ends_def catchS_def split: prod.splits sum.splits)

lemma ends_catch_some:
  "ends P m E Q \<Longrightarrow> (\<And>e. ends E (h e) E Q) \<Longrightarrow> ends P (catchS m caught h) E Q"
  by (fastforce simp: ends_def catchS_def split: prod.splits sum.splits)

lemma ends_returnS: "(\<And>s. P s \<Longrightarrow> Q x s) \<Longrightarrow> ends P (returnS x) E Q"
  by (simp add: ends_def)

lemma ends_raiseS: "(\<And>s. P s \<Longrightarrow> E s) \<Longrightarrow> ends P (raiseS e) E Q"
  by (simp add: ends_def)

lemma ends_readS:
  "(\<And>s. P s \<Longrightarrow> E s) \<Longrightarrow> (\<And>s x. P s \<Longrightarrow> f s = Inr x \<Longrightarrow> Q x s) \<Longrightarrow> ends P (readS f) E Q"
  by (auto simp: ends_def split: sum.splits)

lemma ends_liftE:
  "(\<And>h. P h \<Longrightarrow> E h) \<Longrightarrow> (\<And>h x. P h \<Longrightarrow> f h = Inr x \<Longrightarrow> Q x h) \<Longrightarrow> ends P (liftE f) E Q"
  unfolding liftE_def by (rule ends_readS) (auto split: sum.splits)

lemma ends_if: "(b \<Longrightarrow> ends P m E Q) \<Longrightarrow> (\<not> b \<Longrightarrow> ends P n E Q) \<Longrightarrow> ends P (if b then m else n) E Q"
  by simp

lemma ends_preserves: "preserves I m \<Longrightarrow> ends I m I (\<lambda>_. I)"
  by (force simp: ends_def preserves_def split: prod.splits sum.splits)

lemma preserves_ends:
  assumes "ends I m I (\<lambda>_. I)"
  shows "preserves I m"
proof (rule preservesI)
  fix s assume "I s"
  then show "I (snd (m s))" using assms unfolding ends_def by (fastforce split: prod.splits sum.splits)
qed

lemma ends_update: "(\<And>h. P h \<Longrightarrow> Q () (f h)) \<Longrightarrow> ends P (update_host f) E Q"
  by (simp add: ends_def update_host_def)

lemma preserves_same:
  assumes "\<And>h. ho_run (snd (m h)) = ho_run h"
  shows "preserves (held package spec k) m"
proof (rule preservesI)
  fix h assume "held package spec k h"
  then show "held package spec k (snd (m h))" using held_run [OF assms] by blast
qed

lemma preserves_liftE [preserve_intros]: "preserves I (liftE f)"
  by (simp add: liftE_def preserve_intros)

lemma preserves_validE [preserve_intros]: "preserves I (validE r)"
  by (simp add: validE_def preserve_intros)

lemma preserves_env_call: "preserves I m \<Longrightarrow> preserves I (env_call m)"
  by (auto simp: preserves_def env_call_def split: prod.splits sum.splits)

lemma preserves_persist [preserve_intros]: "preserves (held package spec k) (persist_document key payload message)"
  by (rule preserves_same) (simp add: persist_document_def split: option.split)

lemma preserves_quarantine [preserve_intros]: "preserves (held package spec k) (quarantine_one su q name moved)"
  by (rule preserves_same) (simp add: quarantine_one_def split: option.split)

lemma preserves_candidate [preserve_intros]: "preserves (held package spec k) (preserve_candidate path i session attempt)"
  by (rule preserves_same) (simp add: preserve_candidate_def Let_def split: option.split)

section \<open>Steps of the stored state\<close>

text \<open>How a step changes the number of submissions.\<close>

lemma effect_count: "step_effect s s' \<Longrightarrow> submitted_count s \<le> submitted_count s'"
proof -
  have "submitted_count s \<le> submitted_count s'" if "moves k s s' subs c c' pend" for k subs c c' pend
    using that by (cases k) (auto dest!: shape_counts simp del: has_shape.simps)
  moreover have "ru_checkpoints s' = ru_checkpoints s \<Longrightarrow> submitted_count s \<le> submitted_count s'" by (simp add: submitted_count_def)
  ultimately show "step_effect s s' \<Longrightarrow> ?thesis" by (auto simp: step_effect_def)
qed

lemma reachable_state: "contract_ok package spec \<Longrightarrow> lifecycle_reachable package spec s \<Longrightarrow> run_good spec s"
  using reachable_tracks(1) by (simp add: state_ok_def)

lemma contract_ids: "contract_ok package spec \<Longrightarrow> distinct (map cs_checkpoint_id (ls_checkpoints spec))"
  by (simp add: contract_ok_def validated_ids)

lemma held_store:
  assumes "held package spec k h" and "ho_run h = Some s" and "lifecycle_step package spec s s'" and "step_effect s s'"
    and "ho_run h' = Some s'"
  shows "held package spec k h'"
  using assms effect_count [OF assms(4)] by (auto simp: held_def lifecycle_reachable_def intro: rtranclp.rtrancl_into_rtrancl)

lemma load_state_stored:
  assumes "contract_ok package spec" and "held package spec k h" and "load_state su spec h = Inr s" and "rs_package su = package"
  shows "ho_run h = Some s"
proof -
  obtain raw where raw: "ho_run h = Some raw" using assms(3) by (auto simp: load_state_def split: option.splits)
  then have "lifecycle_reachable package spec raw" using assms(2) by (simp add: held_def)
  then have "state_ok package spec raw" by (rule reachable_tracks(1) [OF assms(1)])
  then have "load_checks package spec raw = Inr raw" using contract_ids [OF assms(1)] by (simp add: state_ok_def good_loads)
  then show ?thesis using assms(3,4) raw by (auto simp: load_state_def bindE_eq_Inr_iff)
qed

text \<open>The setup of a run: its package loads as the validated contract.\<close>

definition setup_ok :: "run_setup \<Rightarrow> lifecycle_spec \<Rightarrow> bool" where
  "setup_ok su spec \<longleftrightarrow> contract_ok (rs_package su) spec \<and> load_spec (rs_package su) = Inr spec"

text \<open>The stored state is \<open>s\<close>.\<close>

definition holds :: "run_setup \<Rightarrow> lifecycle_spec \<Rightarrow> nat \<Rightarrow> run_state \<Rightarrow> host \<Rightarrow> bool" where
  "holds su spec k s h \<longleftrightarrow> held (rs_package su) spec k h \<and> ho_run h = Some s"

lemma holds_held: "holds su spec k s h \<Longrightarrow> held (rs_package su) spec k h"
  by (simp add: holds_def)

lemma holds_good:
  assumes "setup_ok su spec" and "holds su spec k s h"
  shows "run_good spec s" "distinct (map cs_checkpoint_id (ls_checkpoints spec))"
    "lifecycle_reachable (rs_package su) spec s" "k \<le> submitted_count s"
proof -
  have reachable: "lifecycle_reachable (rs_package su) spec s \<and> k \<le> submitted_count s" using assms(2) by (auto simp: holds_def held_def)
  then show "lifecycle_reachable (rs_package su) spec s" "k \<le> submitted_count s" by simp_all
  have contract: "contract_ok (rs_package su) spec" using assms(1) by (simp add: setup_ok_def)
  show "run_good spec s" using reachable_state [OF contract] reachable by blast
  show "distinct (map cs_checkpoint_id (ls_checkpoints spec))" by (rule contract_ids [OF contract])
qed

lemma load_host_ends:
  assumes "setup_ok su spec"
  shows "ends (held (rs_package su) spec k) (load_host su) (held (rs_package su) spec k)
    (\<lambda>(sp, s) h. sp = spec \<and> holds su spec k s h)"
  unfolding load_host_def
proof (rule ends_liftE)
  fix h x
  assume h: "held (rs_package su) spec k h"
    and "bindE (load_spec (rs_package su)) (\<lambda>spec. bindE (load_state su spec h) (\<lambda>s. Inr (spec, s))) = Inr x"
  then obtain s where "x = (spec, s)" "load_state su spec h = Inr s"
    using assms by (auto simp: setup_ok_def bindE_eq_Inr_iff)
  then show "(case x of (sp, s) \<Rightarrow> \<lambda>h. sp = spec \<and> holds su spec k s h) h"
    using load_state_stored [OF _ h _ refl] assms h by (simp add: holds_def setup_ok_def)
qed

text \<open>A step that is stored.\<close>

lemma holds_store:
  assumes "setup_ok su spec" and "holds su spec k s h" and "lifecycle_step (rs_package su) spec s s'" and "step_effect s s'"
    and "ho_run h' = Some s'"
  shows "holds su spec (k + (submitted_count s' - submitted_count s)) s' h'"
proof -
  have "lifecycle_reachable (rs_package su) spec s'"
    using holds_good(3) [OF assms(1,2)] assms(3) by (blast intro: reachable_trans)
  then show ?thesis
    using holds_good(4) [OF assms(1,2)] effect_count [OF assms(4)] assms(5) by (simp add: holds_def held_def)
qed

lemma holds_more: "holds su spec (k + n) s h \<Longrightarrow> held (rs_package su) spec k h"
  by (auto simp: holds_def held_def)

lemma holds_weaken: "holds su spec k s h \<Longrightarrow> j \<le> k \<Longrightarrow> holds su spec j s h"
  by (auto simp: holds_def held_def)

section \<open>The handlers\<close>

text \<open>A handler that loads the state, computes a step, stores the state it gives and goes on.\<close>

lemma load_step:
  assumes ready: "setup_ok su spec"
    and step: "\<And>s h x. run_good spec s \<Longrightarrow> f spec s h = Inr x \<Longrightarrow> lifecycle_step (rs_package su) spec s (g x) \<and> step_effect s (g x)"
    and put: "\<And>x h. ho_run (put x h) = Some (g x)"
    and rest: "\<And>s x h0. holds su spec k s h0 \<Longrightarrow> f spec s h0 = Inr x \<Longrightarrow>
      ends (\<lambda>h. holds su spec (k + (submitted_count (g x) - submitted_count s)) (g x) h) (rest x) E Q"
    and weak: "\<And>h. held (rs_package su) spec k h \<Longrightarrow> E h"
  shows "ends (held (rs_package su) spec k)
    (bindS (load_host su) (\<lambda>(sp, s). bindS (liftE (f sp s)) (\<lambda>x. bindS (update_host (put x)) (\<lambda>_. rest x)))) E Q"
proof (rule ends_bindS)
  show "ends (held (rs_package su) spec k) (load_host su) E (\<lambda>(sp, s) h. sp = spec \<and> holds su spec k s h)"
    by (rule ends_weaken [OF load_host_ends [OF ready]]) (auto intro: weak)
  fix p :: "lifecycle_spec \<times> run_state"
  obtain sp s where p: "p = (sp, s)" by (cases p)
  show "ends (case p of (sp, s) \<Rightarrow> \<lambda>h. sp = spec \<and> holds su spec k s h)
      (case p of (sp, s) \<Rightarrow> bindS (liftE (f sp s)) (\<lambda>x. bindS (update_host (put x)) (\<lambda>_. rest x))) E Q"
  proof (cases "sp = spec")
    case True
    have "ends (\<lambda>h. holds su spec k s h) (bindS (liftE (f spec s)) (\<lambda>x. bindS (update_host (put x)) (\<lambda>_. rest x))) E Q"
    proof (rule ends_bindS)
      show "ends (\<lambda>h. holds su spec k s h) (liftE (f spec s)) E
          (\<lambda>x h. holds su spec k s h \<and> (\<exists>h0. holds su spec k s h0 \<and> f spec s h0 = Inr x))"
        by (rule ends_liftE) (auto intro: weak holds_held)
      fix x
      show "ends (\<lambda>h. holds su spec k s h \<and> (\<exists>h0. holds su spec k s h0 \<and> f spec s h0 = Inr x))
          (bindS (update_host (put x)) (\<lambda>_. rest x)) E Q"
      proof (cases "\<exists>h0. holds su spec k s h0 \<and> f spec s h0 = Inr x")
        case True
        then obtain h0 where h0: "holds su spec k s h0" "f spec s h0 = Inr x" by blast
        note moved = step [OF holds_good(1) [OF ready h0(1)] h0(2)]
        show ?thesis
        proof (rule ends_bindS [OF _ rest [OF h0]], rule ends_update)
          fix h assume "holds su spec k s h \<and> (\<exists>h0. holds su spec k s h0 \<and> f spec s h0 = Inr x)"
          then show "holds su spec (k + (submitted_count (g x) - submitted_count s)) (g x) (put x h)"
            using holds_store [OF ready _ _ _ put] moved by blast
        qed
      qed (auto simp: ends_def)
    qed
    then show ?thesis by (simp add: p True)
  qed (simp add: p ends_def)
qed

lemma open_held [preserve_intros]:
  assumes "setup_ok su spec"
  shows "preserves (held (rs_package su) spec k) (open_host su session mode digest)"
  unfolding open_host_def store_run_def
proof (rule preserves_ends, rule load_step [OF assms, where g = "\<lambda>s. s"])
  have ids: "distinct (map cs_checkpoint_id (ls_checkpoints spec))" using assms contract_ids unfolding setup_ok_def by blast
  fix s :: run_state and x
  assume "run_good spec s" and step: "open_attempt session mode digest s = Inr x"
  then show "lifecycle_step (rs_package su) spec s x \<and> step_effect s x"
    using open_effect [OF _ ids step] by (blast intro: lifecycle_step.Open)
qed (auto intro!: ends_liftE dest: holds_more)

lemma fail_held [preserve_intros]:
  assumes "setup_ok su spec"
  shows "preserves (held (rs_package su) spec k) (fail_host su session kind)"
proof -
  have ids: "distinct (map cs_checkpoint_id (ls_checkpoints spec))" using assms contract_ids unfolding setup_ok_def by blast
  have "ends (held (rs_package su) spec k)
      (bindS (load_host su) (\<lambda>(sp, s). bindS (liftE (\<lambda>h. fail_attempt session kind s)) (\<lambda>x.
        bindS (update_host (\<lambda>h. h\<lparr>ho_run := Some x\<rparr>)) (\<lambda>_. returnS ()))))
      (held (rs_package su) spec k) (\<lambda>_. held (rs_package su) spec k)"
  proof (rule load_step [OF assms, where g = "\<lambda>s. s"])
    fix s :: run_state and x
    assume "run_good spec s" and step: "fail_attempt session kind s = Inr x"
    then show "lifecycle_step (rs_package su) spec s x \<and> step_effect s x"
      using fail_effect [OF _ ids step] by (blast intro: lifecycle_step.Fail)
  qed (auto intro!: ends_returnS dest: holds_more)
  moreover have "bindS m (\<lambda>_. returnS ()) = m" for m :: "unit host_action"
    by (auto simp: bindS_def returnS_def fun_eq_iff split: prod.splits sum.splits)
  ultimately show ?thesis
    unfolding fail_host_def store_run_def by (intro preserves_ends) simp
qed

lemma submit_count:
  assumes "run_good spec s" and "distinct (map cs_checkpoint_id (ls_checkpoints spec))"
    and "submit_checkpoint codec spec files s = Inr (files', s')"
  shows "submitted_count s' = Suc (submitted_count s)"
proof -
  obtain subs c pend d final t where sh: "has_shape s (Busy subs c pend)" and "isOK (validate_transition_record t)"
    and "find_row cs_checkpoint_id (cr_checkpoint_id c) (ls_checkpoints spec) = Some d"
    and "files' = files\<lparr>rf_workspace := (rf_workspace files)(cs_submission_path d := Some final),
       rf_archive := (rf_archive files)(cr_checkpoint_id c := Some final)\<rparr>"
    and s': "s' = s\<lparr>ru_checkpoints := subs @ submitted_run (cs_submission_path d) (sha256 final) c # pend,
       ru_active := None, ru_status := (if pend = [] then Run_Complete else Awaiting_Release),
       ru_transitions := ru_transitions s @ [t]\<rparr>"
    by (rule submit_cases [OF assms])
  have "has_shape s' (Idle (subs @ [submitted_run (cs_submission_path d) (sha256 final) c]) pend)"
    using sh by (simp add: s' submitted_run_def)
  from shape_counts(1) [OF this] shape_counts(2) [OF sh] show ?thesis by simp
qed

lemma submit_ends:
  assumes "setup_ok su spec"
  shows "ends (held (rs_package su) spec k) (submit_host su) (held (rs_package su) spec k) (holds su spec (Suc k))"
  unfolding submit_host_def
proof -
  have ids: "distinct (map cs_checkpoint_id (ls_checkpoints spec))" using assms contract_ids unfolding setup_ok_def by blast
  have "ends (held (rs_package su) spec k)
      (bindS (load_host su) (\<lambda>(sp, s). bindS (liftE (\<lambda>h. submit_checkpoint (rs_json su) sp (ho_files h) s)) (\<lambda>x.
        bindS (update_host (\<lambda>h. h\<lparr>ho_files := fst x, ho_run := Some (snd x)\<rparr>)) (\<lambda>_. returnS (snd x)))))
      (held (rs_package su) spec k) (holds su spec (Suc k))"
  proof (rule load_step [OF assms, where g = snd])
    fix s h x
    assume good: "run_good spec s" and step: "submit_checkpoint (rs_json su) spec (ho_files h) s = Inr x"
    then have step: "submit_checkpoint (rs_json su) spec (ho_files h) s = Inr (fst x, snd x)" by simp
    show "lifecycle_step (rs_package su) spec s (snd x) \<and> step_effect s (snd x)"
      using submit_effect [OF good ids step] step by (blast intro: lifecycle_step.Submit)
  next
    fix s x h0
    assume h0: "holds su spec k s h0" and "submit_checkpoint (rs_json su) spec (ho_files h0) s = Inr x"
    then have step: "submit_checkpoint (rs_json su) spec (ho_files h0) s = Inr (fst x, snd x)" by simp
    have "submitted_count (snd x) = Suc (submitted_count s)"
      by (rule submit_count [OF holds_good(1) [OF assms h0] ids step])
    then show "ends (holds su spec (k + (submitted_count (snd x) - submitted_count s)) (snd x)) (returnS (snd x))
        (held (rs_package su) spec k) (holds su spec (Suc k))"
      by (auto intro: ends_returnS)
  qed simp_all
  then show "ends (held (rs_package su) spec k)
     (bindS (load_host su) (\<lambda>(sp, s). bindS (liftE (\<lambda>h. submit_checkpoint (rs_json su) sp (ho_files h) s))
       (\<lambda>(files, s'). bindS (update_host (\<lambda>h. h\<lparr>ho_files := files, ho_run := Some s'\<rparr>)) (\<lambda>_. returnS s'))))
     (held (rs_package su) spec k) (holds su spec (Suc k))"
    by (simp only: case_prod_unfold)
qed

text \<open>The release loads the stored state or creates one; both leave the state it goes on from on disk.\<close>

lemma state_to_release_ends:
  assumes "setup_ok su spec"
  shows "ends (held (rs_package su) spec k) (state_to_release su spec) (held (rs_package su) spec k) (holds su spec k)"
proof (rule endsI)
  fix h assume h: "held (rs_package su) spec k h"
  show "case state_to_release su spec h of (Inl e, t) \<Rightarrow> held (rs_package su) spec k t | (Inr x, t) \<Rightarrow> holds su spec k x t"
  proof (cases "ho_run h")
    case None
    let ?init = "bindE (preflight_checkpoint (rs_package su) (ls_checkpoints spec ! 0)) (\<lambda>_.
      initial_state (rs_package su) spec (rs_authorization su))"
    show ?thesis
    proof (cases ?init)
      case (Inr s)
      then have "initial_state (rs_package su) spec (rs_authorization su) = Inr s" by (auto simp: bindE_eq_Inr_iff)
      then have "lifecycle_reachable (rs_package su) spec s" unfolding lifecycle_reachable_def by blast
      then show ?thesis using None h Inr
        by (simp add: state_to_release_def liftE_def bindS_apply store_run_def update_host_def holds_def held_def)
    qed (use None h in \<open>simp add: state_to_release_def liftE_def bindS_apply\<close>)
  next
    case (Some raw)
    have "ho_run h = Some s" if "load_state su spec h = Inr s" for s
      using load_state_stored [OF _ h that refl] assms by (simp add: setup_ok_def)
    then show ?thesis using Some h
      by (auto simp: state_to_release_def liftE_def holds_def bindE_eq_Inr_iff guardE_eq_Inr_iff split: sum.splits)
  qed
qed

text \<open>The stored state is complete.\<close>

definition run_over :: "host \<Rightarrow> bool" where
  "run_over h \<longleftrightarrow> (\<exists>s. ho_run h = Some s \<and> ru_status s = Run_Complete)"

lemma release_ends:
  assumes "setup_ok su spec"
  shows "ends (held (rs_package su) spec k) (release_host su) (held (rs_package su) spec k)
    (\<lambda>r h. held (rs_package su) spec k h \<and> (r = None \<longrightarrow> run_over h))"
proof -
  let ?R = "\<lambda>r h. held (rs_package su) spec k h \<and> (r = None \<longrightarrow> run_over h)"
  let ?H = "held (rs_package su) spec k"
  let ?finish = "\<lambda>s'. if ru_status s' = Run_Complete then returnS None
     else liftE (\<lambda>_. case ru_active s' of
         None \<Rightarrow> Inl (Lifecycle_Error ''no checkpoint is active'')
       | Some active \<Rightarrow> (case find_row cs_checkpoint_id active (ls_checkpoints spec) of
             None \<Rightarrow> Inl (Lifecycle_Error (''unknown checkpoint in lifecycle state: '' @ active))
           | Some d \<Rightarrow> Inr (Some (d, s')))) :: (checkpoint_spec \<times> run_state) option host_action"
  have ids: "distinct (map cs_checkpoint_id (ls_checkpoints spec))" using assms contract_ids unfolding setup_ok_def by blast
  have finish: "ends (\<lambda>h. ?H h \<and> ho_run h = Some s') (?finish s') ?H ?R" for s'
    by (cases "ru_status s' = Run_Complete")
      (auto simp: run_over_def intro!: ends_returnS ends_liftE split: option.splits)
  have release: "ends (holds su spec k s) (bindS (liftE (\<lambda>h. release_checkpoint (rs_package su) spec (ho_files h) s))
      (\<lambda>s'. bindS (store_run s') (\<lambda>_. ?finish s'))) ?H ?R" for s
  proof (rule ends_bindS)
    let ?Q = "\<lambda>s' h. holds su spec k s h \<and> (\<exists>files. release_checkpoint (rs_package su) spec files s = Inr s')"
    show "ends (holds su spec k s) (liftE (\<lambda>h. release_checkpoint (rs_package su) spec (ho_files h) s)) ?H ?Q"
      by (rule ends_liftE) (auto dest: holds_held)
    show "ends (?Q s') (bindS (store_run s') (\<lambda>_. ?finish s')) ?H ?R" for s'
    proof (rule ends_bindS)
      show "ends (?Q s') (store_run s') ?H (\<lambda>_ h. ?H h \<and> ho_run h = Some s')"
        unfolding store_run_def
      proof (rule ends_update)
        fix h assume "?Q s' h"
        then obtain files where h: "holds su spec k s h" and step: "release_checkpoint (rs_package su) spec files s = Inr s'"
          by blast
        have "step_effect s s'" by (rule release_effect [OF holds_good(1) [OF assms h] ids step])
        then show "?H (h\<lparr>ho_run := Some s'\<rparr>) \<and> ho_run (h\<lparr>ho_run := Some s'\<rparr>) = Some s'"
          using holds_more [OF holds_store [OF assms h lifecycle_step.Release [OF step]]] by simp
      qed
    qed (rule finish)
  qed
  have loaded: "load_spec (rs_package su) = Inr spec" using assms by (simp add: setup_ok_def)
  show "ends ?H (release_host su) ?H ?R"
    unfolding release_host_def
  proof (rule ends_bindS)
    show "ends ?H (liftE (\<lambda>_. load_spec (rs_package su))) ?H (\<lambda>sp h. ?H h \<and> sp = spec)"
      by (rule ends_liftE) (auto simp: loaded)
    fix sp
    show "ends (\<lambda>h. ?H h \<and> sp = spec) (bindS (liftE (\<lambda>_. resolver_supplied sp (rs_resolver su))) (\<lambda>_.
       bindS (liftE (\<lambda>_. if supports_requests sp then bindE (load_resolutions (rs_package su) sp) (\<lambda>_. Inr ()) else Inr ())) (\<lambda>_.
       bindS (state_to_release su sp) (\<lambda>s.
       bindS (liftE (\<lambda>h. release_checkpoint (rs_package su) sp (ho_files h) s)) (\<lambda>s'.
       bindS (store_run s') (\<lambda>_.
       if ru_status s' = Run_Complete then returnS None
       else liftE (\<lambda>_. case ru_active s' of
         None \<Rightarrow> Inl (Lifecycle_Error ''no checkpoint is active'')
       | Some active \<Rightarrow> (case find_row cs_checkpoint_id active (ls_checkpoints sp) of
             None \<Rightarrow> Inl (Lifecycle_Error (''unknown checkpoint in lifecycle state: '' @ active))
           | Some d \<Rightarrow> Inr (Some (d, s')))))))))) ?H ?R"
    proof (cases "sp = spec")
      case True
      note steps = ends_bindS [OF ends_preserves [OF preserves_liftE [of ?H]]] ends_bindS [OF state_to_release_ends [OF assms]]
      show ?thesis unfolding True simp_thms by (rule steps(1), rule steps(1), rule steps(2), rule release)
    qed (simp add: ends_def)
  qed
qed

lemma release_held [preserve_intros]:
  "setup_ok su spec \<Longrightarrow> preserves (held (rs_package su) spec k) (release_host su)"
  by (rule preserves_ends, rule ends_weaken [OF release_ends]) auto

section \<open>Closing an attempt\<close>

lemma load_host_held [preserve_intros]: "preserves I (load_host su)"
  by (simp add: load_host_def preserve_intros)

lemma fail_if_active_held [preserve_intros]:
  "setup_ok su spec \<Longrightarrow> preserves (held (rs_package su) spec k) (fail_if_active su session kind)"
  unfolding fail_if_active_def by (intro preserve_intros) auto

lemma note_on_error_held [preserve_intros]: "preserves I m \<Longrightarrow> preserves I (note_on_error prefix m)"
  unfolding note_on_error_def by (intro preserve_intros)

definition episode_ok :: "run_setup \<Rightarrow> lifecycle_spec \<Rightarrow> episode_environment \<Rightarrow> bool" where
  "episode_ok su spec en \<longleftrightarrow> setup_ok su spec \<and> environment_ok (rs_package su) spec en"

lemma episode_setup: "episode_ok su spec en \<Longrightarrow> setup_ok su spec"
  by (simp add: episode_ok_def)

lemma environment_held [preserve_intros]:
  assumes "episode_ok su spec en"
  shows "preserves (held (rs_package su) spec k) (env_call (en_recover en c))"
    "preserves (held (rs_package su) spec k) (env_call (en_prepare en q))"
    "preserves (held (rs_package su) spec k) (env_call (en_record_failure en q kind t))"
proof -
  note environment = conjunct2 [OF assms [unfolded episode_ok_def], unfolded environment_ok_def]
  show "preserves (held (rs_package su) spec k) (env_call (en_recover en c))"
    using environment by (intro preserves_env_call preservesI) (blast intro: held_advances)
  show "preserves (held (rs_package su) spec k) (env_call (en_prepare en q))"
    using environment by (intro preserves_env_call preservesI) (blast intro: held_advances)
  show "preserves (held (rs_package su) spec k) (env_call (en_record_failure en q kind t))"
    using environment by (intro preserves_env_call preserves_same) blast
qed

lemma execute_held:
  assumes "episode_ok su spec en"
  shows "preserves (held (rs_package su) spec k) (\<lambda>h. case en_execute en q h of (answer, h') \<Rightarrow> (Inr answer, h'))"
proof (rule preservesI)
  fix h assume "held (rs_package su) spec k h"
  then have "held (rs_package su) spec k (snd (en_execute en q h))"
    using assms by (auto simp: episode_ok_def environment_ok_def intro: held_advances)
  then show "held (rs_package su) spec k (snd (case en_execute en q h of (answer, h') \<Rightarrow> (Inr answer, h')))"
    by (cases "en_execute en q h") simp
qed

lemma close_held [preserve_intros]:
  "episode_ok su spec en \<Longrightarrow> preserves (held (rs_package su) spec k) (close_failure su en q kind t)"
  unfolding close_failure_def by (intro preserve_intros; (assumption | erule episode_setup)?)+

lemma persist_result_held [preserve_intros]: "preserves (held package spec k) (persist_result su q name r)"
  unfolding persist_result_def by (intro preserve_intros)

lemma persist_request_held [preserve_intros]: "preserves (held package spec k) (persist_request su q)"
  unfolding persist_request_def by (intro preserve_intros)

lemma persist_or_close_held [preserve_intros]:
  "episode_ok su spec en \<Longrightarrow> preserves (held (rs_package su) spec k) (persist_or_close su en q name r)"
  unfolding persist_or_close_def by (intro preserve_intros; (assumption | erule episode_setup)?)+

lemma fail_episode_held [preserve_intros]:
  "episode_ok su spec en \<Longrightarrow> preserves (held (rs_package su) spec k) (fail_episode su en q kind text e)"
  unfolding fail_episode_def by (intro preserve_intros; (assumption | erule episode_setup)?)+

section \<open>One round\<close>

lemma recover_held [preserve_intros]: "preserves (held package spec k) (recover_host_attempt su en c)"
  unfolding recover_host_attempt_def by (intro preserve_intros)

lemma preserve_prior_held [preserve_intros]: "preserves (held package spec k) (preserve_prior c)"
  unfolding preserve_prior_def by (intro preserve_intros)

lemma publish_held [preserve_intros]:
  "setup_ok su spec \<Longrightarrow> preserves (held (rs_package su) spec k) (publish_attempt su q)"
  unfolding publish_attempt_def by (intro preserve_intros)

lemma quarantine_prepared_held [preserve_intros]: "preserves (held package spec k) (quarantine_prepared su q)"
  unfolding quarantine_prepared_def by (intro preserve_intros)

lemma prepare_held [preserve_intros]:
  "episode_ok su spec en \<Longrightarrow> preserves (held (rs_package su) spec k) (prepare_attempt su en q)"
  unfolding prepare_attempt_def by (intro preserve_intros; (assumption | erule episode_setup)?)+

lemma fresh_context_held [preserve_intros]: "preserves I (fresh_context su en released)"
  unfolding fresh_context_def by (intro preserve_intros)

lemma allocate_held [preserve_intros]: "preserves (held package spec k) (allocate_request su en c)"
  unfolding allocate_request_def adopt_request_def by (intro preserve_intros)

lemma begin_held [preserve_intros]:
  "episode_ok su spec en \<Longrightarrow> preserves (held (rs_package su) spec k) (begin_checkpoint su en released)"
  unfolding begin_checkpoint_def by (intro preserve_intros; (assumption | erule episode_setup)?)+

lemma accept_held [preserve_intros]:
  "episode_ok su spec en \<Longrightarrow> preserves (held (rs_package su) spec k) (accept_answer su en q answer)"
  unfolding accept_answer_def
  by (cases answer) (simp_all; intro preserves_case_sum preserve_intros; (assumption | erule episode_setup)?)+

text \<open>A round that goes on has submitted one more checkpoint than before, and the result is the stored state.\<close>

lemma finish_ends:
  assumes "episode_ok su spec en"
  shows "ends (held (rs_package su) spec k) (finish_checkpoint su en q violations) (held (rs_package su) spec k) (holds su spec (Suc k))"
proof -
  let ?H = "held (rs_package su) spec k"
  have raised: "ends ?H (fail_episode su en q kind t e) ?H Q" for kind t e Q
    unfolding fail_episode_def
    by (rule ends_bindS [OF ends_preserves], intro preserve_intros, rule ends_bindS [OF ends_preserves],
        rule persist_or_close_held [OF assms], rule ends_bindS [OF ends_preserves], rule close_held [OF assms],
        rule ends_raiseS)
  have closing: "ends ?H (bindS (close_failure su en q kind t) (\<lambda>notes. raiseS (f notes))) ?H Q"
    for kind t f Q
    by (rule ends_bindS [OF ends_preserves [OF close_held [OF assms]]], rule ends_raiseS)
  show ?thesis
    unfolding finish_checkpoint_def Let_def
    by (intro ends_if raised ends_bindS [OF ends_preserves [OF execute_held [OF assms]]]
        ends_bindS [OF ends_preserves [OF accept_held [OF assms]]] closing
        ends_catchS [OF submit_ends [OF episode_setup [OF assms]]])
qed

lemma round_ends:
  assumes "episode_ok su spec en"
  shows "ends (held (rs_package su) spec k) (run_checkpoint su en) (held (rs_package su) spec k)
    (\<lambda>over h. held (rs_package su) spec k h \<and> (if over then run_over h else held (rs_package su) spec (Suc k) h))"
  unfolding run_checkpoint_def
proof (rule ends_bindS [OF release_ends [OF episode_setup [OF assms]]])
  let ?H = "held (rs_package su) spec k"
  let ?Q = "\<lambda>over h. ?H h \<and> (if over then run_over h else held (rs_package su) spec (Suc k) h)"
  fix released
  have more: "held (rs_package su) spec (Suc k) h \<Longrightarrow> ?H h" for h by (auto simp: held_def split: option.splits)
  have "ends ?H (bindS (begin_checkpoint su en first) (\<lambda>(q, violations).
         bindS (finish_checkpoint su en q violations) (\<lambda>s. returnS (ru_status s = Run_Complete)))) ?H ?Q" for first
  proof (rule ends_bindS [OF ends_preserves [OF begin_held [OF assms]]])
    fix p :: "episode_request \<times> string list"
    show "ends ?H (case p of (q, violations) \<Rightarrow> bindS (finish_checkpoint su en q violations)
        (\<lambda>s. returnS (ru_status s = Run_Complete))) ?H ?Q"
      by (cases p) (simp, rule ends_bindS [OF finish_ends [OF assms]],
        auto simp: holds_def run_over_def intro!: ends_returnS dest: more)
  qed
  then have rest: "ends ?H (bindS (begin_checkpoint su en first) (\<lambda>(q, violations).
         bindS (finish_checkpoint su en q violations) (\<lambda>s. returnS (ru_status s = Run_Complete)))) ?H ?Q" for first .
  show "ends (\<lambda>h. ?H h \<and> (released = None \<longrightarrow> run_over h)) (case released of None \<Rightarrow> returnS True
     | Some first \<Rightarrow> bindS (begin_checkpoint su en first) (\<lambda>(q, violations).
         bindS (finish_checkpoint su en q violations) (\<lambda>s. returnS (ru_status s = Run_Complete)))) ?H ?Q"
    by (cases released) (simp_all add: ends_returnS rest)
qed

end
