(* ===== verification/Lifecycle_Episode_Loop.thy ===== *)
theory Lifecycle_Episode_Loop
  imports Lifecycle_Episode_Facts
begin

text \<open>
  The loop ends: every round that goes on submits one more of the finitely many checkpoints of the contract.
\<close>

lemma held_phase:
  assumes "setup_ok su spec" and "held (rs_package su) spec k h" and "ho_run h = Some s"
  shows "submitted_count s \<le> length (ls_checkpoints spec)"
    "ru_status s = Run_Complete \<Longrightarrow> submitted_count s = length (ls_checkpoints spec)"
proof -
  have "lifecycle_reachable (rs_package su) spec s" using assms(2,3) by (simp add: held_def)
  then have "phase_ok (length (ls_checkpoints spec)) (phase_of s)"
    using reachable_tracks(2) assms(1) unfolding setup_ok_def by blast
  then show "submitted_count s \<le> length (ls_checkpoints spec)"
    "ru_status s = Run_Complete \<Longrightarrow> submitted_count s = length (ls_checkpoints spec)"
    by (simp_all add: phase_ok_def phase_of_def at_phase_def)
qed

lemma held_bounded:
  assumes "setup_ok su spec" and "held (rs_package su) spec (Suc k) h"
  shows "Suc k \<le> length (ls_checkpoints spec)"
proof (cases "ho_run h")
  case (Some s)
  then show ?thesis using held_phase(1) [OF assms] assms(2) by (simp add: held_def)
qed (use assms(2) in \<open>simp add: held_def\<close>)

text \<open>What the loop returns: a reachable run, complete when it is a result.\<close>

definition ended :: "run_setup \<Rightarrow> lifecycle_spec \<Rightarrow> (run_error + run_state) \<times> host \<Rightarrow> bool" where
  "ended su spec = (\<lambda>(r, h). held (rs_package su) spec 0 h \<and> (case r of Inl e \<Rightarrow> True
     | Inr s \<Rightarrow> ho_run h = Some s \<and> ru_status s = Run_Complete \<and> submitted_count s = length (ls_checkpoints spec)))"

lemma held_0: "held package spec k h \<Longrightarrow> held package spec 0 h"
  by (auto simp: held_def split: option.splits)

lemma run_checkpoints_returns:
  assumes ok: "episode_ok su spec en"
  shows "held (rs_package su) spec k h \<Longrightarrow> Suc (length (ls_checkpoints spec)) = k + n
    \<Longrightarrow> \<exists>x. run_checkpoints su en h = Some x \<and> ended su spec x"
proof (induction n arbitrary: k h)
  case 0
  then show ?case using held_bounded [OF episode_setup [OF ok], of "k - 1" h] by simp
next
  case (Suc n)
  obtain r h' where round: "run_checkpoint su en h = (r, h')" by (cases "run_checkpoint su en h")
  show ?case
  proof (cases r)
    case (Inl e)
    then show ?thesis using endsD(1) [OF round_ends [OF ok] Suc.prems(1)] round held_0
      by (subst run_checkpoints.simps) (auto simp: ended_def)
  next
    case (Inr over)
    note round = round [unfolded Inr]
    note after = endsD(2) [OF round_ends [OF ok] Suc.prems(1) round]
    show ?thesis
    proof (cases over)
      case True
      then obtain s where s: "ho_run h' = Some s" "ru_status s = Run_Complete" and held: "held (rs_package su) spec k h'"
        using after by (auto simp: run_over_def)
      show ?thesis using round True s held_0 [OF held] held_phase(2) [OF episode_setup [OF ok] held s]
        by (subst run_checkpoints.simps) (simp add: ended_def)
    next
      case False
      then have "held (rs_package su) spec (Suc k) h'" using after by simp
      from Suc.IH [OF this] Suc.prems(2) show ?thesis using round False by (subst run_checkpoints.simps) simp
    qed
  qed
qed

end
