(* ===== verification/Lifecycle_Episode_Close.thy ===== *)
theory Lifecycle_Episode_Close
  imports Lifecycle_Episode_Facts
begin

text \<open>
  Closing a failed episode: the attempt of its session is no longer the active one, whichever way the
  episode has failed, as long as the failure can be recorded as a result.
\<close>

section \<open>The attempt of a session\<close>

definition session_active :: "string \<Rightarrow> host \<Rightarrow> bool" where
  "session_active session h \<longleftrightarrow> (case ho_run h of None \<Rightarrow> False | Some s \<Rightarrow>
     (case ru_active s of None \<Rightarrow> False | Some active \<Rightarrow>
       (case index_checkpoint s active of Inl e \<Rightarrow> False | Inr c \<Rightarrow>
         (case active_attempt c of None \<Rightarrow> False | Some t \<Rightarrow> ct_session_id t = session))))"

lemma session_active_run: "ho_run h' = ho_run h \<Longrightarrow> session_active session h' = session_active session h"
  by (simp add: session_active_def)

lemma fail_succeeds:
  assumes "ru_active s = Some active" and "index_checkpoint s active = Inr c" and "active_attempt c = Some t"
  shows "\<exists>s'. fail_attempt (ct_session_id t) kind s = Inr s'"
  using assms by (simp add: fail_attempt_def reduce_fail_attempt_def)

lemma fail_inactive:
  assumes "run_good spec s" and "distinct (map cs_checkpoint_id (ls_checkpoints spec))"
    and "fail_attempt session kind s = Inr s'" and "ho_run h = Some s'"
  shows "\<not> session_active session' h"
proof -
  let ?f = "\<lambda>b. b\<lparr>ct_status := Ca_Failed, ct_failure_kind := Some kind\<rparr>"
  obtain subs c pend where sh: "has_shape s (Busy subs c pend)"
    and s': "s' = s\<lparr>ru_checkpoints := subs @ c\<lparr>cr_attempts := closing ?f (cr_attempts c)\<rparr> # pend\<rparr>"
    by (rule fail_cases [OF assms(1-3)])
  have middle: "ru_checkpoints s' = subs @ c\<lparr>cr_attempts := closing ?f (cr_attempts c)\<rparr> # pend" by (simp add: s')
  have "distinct (map cr_checkpoint_id (ru_checkpoints s'))" using good_ids [OF assms(1,2)] sh by (simp add: s')
  note indexed = index_middle [OF middle this]
  have "attempts_ok (cr_attempts c)"
    using good_record [OF assms(1)] sh by (auto simp: record_good_def checkpoint_run_iff)
  then have "\<forall>a\<in>set (closing ?f (cr_attempts c)). ct_status a \<noteq> Ca_Active"
    by (intro closed_none_active) (simp_all add: closes_def)
  then have "active_attempt (c\<lparr>cr_attempts := closing ?f (cr_attempts c)\<rparr>) = None"
    by (simp add: active_attempt_def find_None_iff)
  then show ?thesis using indexed sh by (simp add: session_active_def assms(4) s')
qed

section \<open>Closing\<close>

definition closing_ok :: "run_setup \<Rightarrow> lifecycle_spec \<Rightarrow> episode_environment \<Rightarrow> bool" where
  "closing_ok su spec en \<longleftrightarrow> episode_ok su spec en \<and> isOK (resolver_supplied spec (rs_resolver su))"

lemma closing_episode: "closing_ok su spec en \<Longrightarrow> episode_ok su spec en"
  by (simp add: closing_ok_def)

lemma load_host_runs:
  assumes "setup_ok su spec" and "isOK (resolver_supplied spec (rs_resolver su))" and "held (rs_package su) spec k h"
  shows "load_host su h = (case ho_run h of
      None \<Rightarrow> (Inl (Runtime_Error (Lifecycle_Error ''lifecycle state not found'')), h) | Some s \<Rightarrow> (Inr (spec, s), h))"
proof (cases "ho_run h")
  case (Some s)
  then have "run_good spec s" using assms(1,3) reachable_state by (auto simp: held_def setup_ok_def)
  moreover have "package_sha256 (rs_package su) = Inr (ru_package_sha256 s)"
    using assms(1,3) Some reachable_tracks(1) by (auto simp: held_def setup_ok_def state_ok_def)
  ultimately have "load_checks (rs_package su) spec s = Inr s"
    using contract_ids [of "rs_package su" spec] assms(1) unfolding setup_ok_def by (simp add: good_loads)
  then show ?thesis using Some assms(1,2) by (auto simp: load_host_def load_state_def setup_ok_def liftE_def isOK_iff)
qed (use assms(1) in \<open>simp add: load_host_def load_state_def setup_ok_def liftE_def\<close>)

lemma fail_if_active_closes:
  assumes ok: "setup_ok su spec" and resolver: "isOK (resolver_supplied spec (rs_resolver su))"
  shows "ends (held (rs_package su) spec k) (fail_if_active su session kind) (\<lambda>_. False)
    (\<lambda>_ h. held (rs_package su) spec k h \<and> \<not> session_active session h)"
proof (rule endsI)
  let ?H = "held (rs_package su) spec k"
  fix h assume h: "?H h"
  note load = load_host_runs [OF ok resolver h]
  have keep: "?H (snd (fail_if_active su session kind h))"
    using fail_if_active_held [OF ok, of k session kind] h by (simp add: preserves_def)
  have "\<exists>x h'. fail_if_active su session kind h = (Inr x, h') \<and> \<not> session_active session h'"
  proof (cases "ho_run h")
    case None
    then show ?thesis using load
      by (auto simp: fail_if_active_def bindS_apply catchS_def is_lifecycle_error_def session_active_def)
  next
    case (Some s)
    note load = load [unfolded Some, simplified]
    have good: "run_good spec s" and ids: "distinct (map cs_checkpoint_id (ls_checkpoints spec))"
      using holds_good(1,2) [OF ok] h Some unfolding holds_def by blast+
    show ?thesis
    proof (cases "\<exists>active c t. ru_active s = Some active \<and> index_checkpoint s active = Inr c \<and> active_attempt c = Some t
        \<and> ct_session_id t = session")
      case True
      then obtain active c t where t: "ru_active s = Some active" "index_checkpoint s active = Inr c"
        "active_attempt c = Some t" "ct_session_id t = session" by blast
      then obtain s' where s': "fail_attempt session kind s = Inr s'" using fail_succeeds by blast
      have "\<not> session_active session (h\<lparr>ho_run := Some s'\<rparr>)" by (rule fail_inactive [OF good ids s']) simp
      then show ?thesis using load t s'
        by (auto simp: fail_if_active_def fail_host_def bindS_apply catchS_def liftE_def store_run_def update_host_def)
    next
      case False
      have "ru_active s = Some active \<Longrightarrow> \<exists>c. index_checkpoint s active = Inr c" for active
        using busyE [OF good] index_middle good_ids [OF good ids] by (metis has_shape.simps(2))
      then have "fail_if_active su session kind h = (Inr False, h)" using load False
        by (auto simp: fail_if_active_def bindS_apply catchS_def liftE_def split: option.split sum.split)
      moreover have "\<not> session_active session h" using False Some
        by (auto simp: session_active_def split: option.splits sum.splits)
      ultimately show ?thesis by blast
    qed
  qed
  then show "case fail_if_active su session kind h of (Inl e, t) \<Rightarrow> False
     | (Inr x, t) \<Rightarrow> ?H t \<and> \<not> session_active session t" using keep by auto
qed

text \<open>Reconciling the environment and keeping the candidate do not touch the run; their errors become notes.\<close>

lemma note_on_error_ends:
  assumes "\<And>h. ho_run (snd (m h)) = ho_run h"
  shows "ends (\<lambda>h. \<not> session_active session h) (note_on_error prefix m) (\<lambda>_. False) (\<lambda>_ h. \<not> session_active session h)"
proof (rule endsI)
  fix h assume h: "\<not> session_active session h"
  obtain r h' where run: "m h = (r, h')" by (cases "m h")
  have "\<not> session_active session h'" using assms [of h] session_active_run [of h' h] h run by simp
  then show "case note_on_error prefix m h of (Inl e, t) \<Rightarrow> False | (Inr x, t) \<Rightarrow> \<not> session_active session t"
    using run by (cases r) (simp_all add: note_on_error_def bindS_apply catchS_def)
qed

lemma close_failure_closes:
  assumes "closing_ok su spec en"
  shows "ends (held (rs_package su) spec k) (close_failure su en q kind t) (\<lambda>_. False) (\<lambda>_ h. \<not> session_active (er_session_id q) h)"
proof -
  let ?A = "\<lambda>h. \<not> session_active (er_session_id q) h"
  have ok: "setup_ok su spec" "isOK (resolver_supplied spec (rs_resolver su))"
    using assms by (simp_all add: closing_ok_def episode_ok_def)
  have recorded: "ho_run (snd (env_call (en_record_failure en q kind t) h)) = ho_run h" for h
    using assms by (auto simp: env_call_def closing_ok_def episode_ok_def environment_ok_def split: prod.split sum.split)
      (metis snd_conv)+
  have kept: "ho_run (snd (preserve_candidate path i session attempt h)) = ho_run h" for path i session attempt h
    by (simp add: preserve_candidate_def Let_def split: option.split)
  show ?thesis
    unfolding close_failure_def
  proof (rule ends_bindS [OF fail_if_active_closes [OF ok]])
    fix closed
    have "ends ?A (if \<not> closed then returnS [''host attempt was no longer active; environment artifacts were left unchanged'']
       else bindS (note_on_error ''environment failure reconciliation failed: '' (env_call (en_record_failure en q kind t))) (\<lambda>a.
         bindS (note_on_error ''submission candidate preservation failed: ''
           (preserve_candidate (er_submission_path q) (er_checkpoint_id q) (er_session_id q) (er_attempt_id q))) (\<lambda>b.
         returnS (a @ b)))) (\<lambda>_. False) (\<lambda>_. ?A)"
      by (cases closed; simp)
        (rule ends_bindS [OF note_on_error_ends [OF recorded]], rule ends_bindS [OF note_on_error_ends [OF kept]],
         rule ends_returnS, simp, rule ends_returnS, simp)
    then show "ends (\<lambda>h. held (rs_package su) spec k h \<and> ?A h) (if \<not> closed then returnS [''host attempt was no longer active; environment artifacts were left unchanged'']
       else bindS (note_on_error ''environment failure reconciliation failed: '' (env_call (en_record_failure en q kind t))) (\<lambda>a.
         bindS (note_on_error ''submission candidate preservation failed: ''
           (preserve_candidate (er_submission_path q) (er_checkpoint_id q) (er_session_id q) (er_attempt_id q))) (\<lambda>b.
         returnS (a @ b)))) (\<lambda>_. False) (\<lambda>_. ?A)"
      by (rule ends_weaken) simp_all
  qed
qed

text \<open>An action that closes the attempt and raises.\<close>

lemma close_and_raise:
  assumes "closing_ok su spec en"
  shows "ends (held (rs_package su) spec k) (bindS (close_failure su en q kind t) (\<lambda>notes. raiseS (f notes)))
    (\<lambda>h. \<not> session_active (er_session_id q) h) Q"
proof (rule ends_bindS)
  show "ends (held (rs_package su) spec k) (close_failure su en q kind t) (\<lambda>h. \<not> session_active (er_session_id q) h)
      (\<lambda>_ h. \<not> session_active (er_session_id q) h)"
    by (rule ends_weaken [OF close_failure_closes [OF assms]]) simp_all
qed (rule ends_raiseS)

lemma persist_closes:
  assumes "closing_ok su spec en"
  shows "ends (held (rs_package su) spec k) (persist_or_close su en q name r)
    (\<lambda>h. \<not> session_active (er_session_id q) h) (\<lambda>_. held (rs_package su) spec k)"
  unfolding persist_or_close_def
  by (rule ends_catchS [OF ends_preserves [OF persist_result_held] close_and_raise [OF assms]])

section \<open>Failures that can be recorded\<close>

definition recordable :: "string \<Rightarrow> string \<Rightarrow> bool" where
  "recordable kind t \<longleftrightarrow> \<not> py_blank kind \<and> (t = [] \<or> \<not> py_blank t)"

lemma failed_result_OK:
  assumes "isOK (validate_episode_request q)" and "recordable kind t"
  shows "isOK (failed_result q kind (Some t))"
proof -
  have "\<not> py_blank (if t = [] then kind else t)" using assms(2) by (auto simp: recordable_def)
  moreover have "\<not> py_blank ''unresolved''" by code_simp
  ultimately show ?thesis
    using assms by (auto simp: validate_episode_request_def failed_result_def validate_episode_result_def recordable_def
        validate_execution_boundary_def isOK_bindE_const bindE_guardE_OK validate_usage_def opt_list_def)
qed

lemma fail_episode_closes:
  assumes "closing_ok su spec en" and "isOK (validate_episode_request q)" and "recordable kind t"
  shows "ends (held (rs_package su) spec k) (fail_episode su en q kind t e) (\<lambda>h. \<not> session_active (er_session_id q) h) Q"
proof -
  obtain r where r: "failed_result q kind (Some t) = Inr r"
    using failed_result_OK [OF assms(2,3)] by (auto simp: isOK_iff)
  have "ends (held (rs_package su) spec k) (validE (failed_result q kind (Some t))) E (\<lambda>_. held (rs_package su) spec k)" for E
    by (simp add: r validE_def liftE_def ends_def validated_def)
  then show ?thesis
    unfolding fail_episode_def by (rule ends_bindS) (rule ends_bindS [OF persist_closes [OF assms(1)] close_and_raise [OF assms(1)]])
qed

text \<open>The errors of the models are texts.\<close>

definition spoken :: "(string + 'a) \<Rightarrow> bool" where
  "spoken m \<longleftrightarrow> (\<forall>t. m = Inl t \<longrightarrow> \<not> py_blank t)"

lemma spoken_bindE: "spoken m \<Longrightarrow> (\<And>x. spoken (f x)) \<Longrightarrow> spoken (bindE m f)"
  by (cases m) (simp_all add: spoken_def)

lemma spoken_guardE: "\<not> py_blank t \<Longrightarrow> spoken (guardE b t)"
  by (simp add: spoken_def guardE_def)

lemma spoken_Inr: "spoken (Inr x)"
  by (simp add: spoken_def)

lemma spoken_texts: "spoken (check_texts ts)"
proof -
  have "\<not> py_blank ''value must not be blank''" by code_simp
  then show ?thesis unfolding check_texts_def
    by (induction ts) (simp_all add: spoken_Inr spoken_bindE spoken_guardE)
qed

lemma validation_spoken: "spoken (validate_episode_result r)" "spoken (validate_result_identity q r)"
  unfolding validate_episode_result_def validate_result_identity_def validate_usage_def validate_mode_visibility_def
  by (intro spoken_bindE spoken_texts spoken_guardE spoken_Inr; code_simp)+

section \<open>After the attempt is published\<close>

text \<open>An answer whose failure, if it is one, can be recorded.\<close>

definition answer_recordable :: "execution_answer \<Rightarrow> bool" where
  "answer_recordable answer = (case answer of Kind_Failure kind t \<Rightarrow> recordable kind t
     | Raised t \<Rightarrow> recordable ''episode_environment_exception'' t
     | Unparsed t \<Rightarrow> recordable ''episode_result_invalid'' t | Answered r \<Rightarrow> True)"

lemma kinds_recordable:
  "recordable ''episode_result_invalid'' t \<longleftrightarrow> t = [] \<or> \<not> py_blank t"
  "recordable ''episode_result_identity_mismatch'' t \<longleftrightarrow> t = [] \<or> \<not> py_blank t"
  "recordable ''episode_preparation_invalid'' t \<longleftrightarrow> t = [] \<or> \<not> py_blank t"
proof -
  have "\<not> py_blank ''episode_result_invalid''" "\<not> py_blank ''episode_result_identity_mismatch''"
    "\<not> py_blank ''episode_preparation_invalid''" by code_simp+
  then show "recordable ''episode_result_invalid'' t \<longleftrightarrow> t = [] \<or> \<not> py_blank t"
    "recordable ''episode_result_identity_mismatch'' t \<longleftrightarrow> t = [] \<or> \<not> py_blank t"
    "recordable ''episode_preparation_invalid'' t \<longleftrightarrow> t = [] \<or> \<not> py_blank t"
    by (simp_all add: recordable_def)
qed

lemma accept_closes:
  assumes ok: "closing_ok su spec en" and q: "isOK (validate_episode_request q)" and answer: "answer_recordable answer"
  shows "ends (held (rs_package su) spec k) (accept_answer su en q answer) (\<lambda>h. \<not> session_active (er_session_id q) h)
    (\<lambda>_. held (rs_package su) spec k)"
proof (cases answer)
  case (Answered r)
  let ?H = "held (rs_package su) spec k" and ?A = "\<lambda>h. \<not> session_active (er_session_id q) h"
  note failing = fail_episode_closes [OF ok q]
  note said = validation_spoken [unfolded spoken_def, rule_format]
  have agreed: "ends ?H (bindS (persist_or_close su en q result_document r') (\<lambda>_. returnS r')) ?A (\<lambda>_. ?H)" for r'
    by (rule ends_bindS [OF persist_closes [OF ok]]) (rule ends_returnS)
  have foreign: "ends ?H (bindS (persist_or_close su en q rejected_document r') (\<lambda>_.
      fail_episode su en q ''episode_result_identity_mismatch'' t (Runtime_Error (Lifecycle_Error t)))) ?A (\<lambda>_. ?H)"
    if "validate_result_identity q r' = Inl t" for r' t
    by (rule ends_bindS [OF persist_closes [OF ok]], rule failing) (use said(2) that in \<open>auto simp: kinds_recordable\<close>)
  show ?thesis
  proof (cases "validate_episode_result r")
    case (Inl t)
    then have "recordable ''episode_result_invalid'' t" using said(1) kinds_recordable(1) by blast
    then show ?thesis by (simp add: accept_answer_def Answered Inl failing)
  next
    case (Inr r')
    then show ?thesis using agreed foreign
      by (cases "validate_result_identity q r'") (simp_all add: accept_answer_def Answered)
  qed
qed (use answer fail_episode_closes [OF ok q] in \<open>simp_all add: accept_answer_def answer_recordable_def\<close>)

lemma finish_closes:
  assumes ok: "closing_ok su spec en" and q: "isOK (validate_episode_request q)"
    and answer: "\<And>h. answer_recordable (fst (en_execute en q h))"
  shows "ends (held (rs_package su) spec k) (finish_checkpoint su en q violations)
    (\<lambda>h. \<not> session_active (er_session_id q) h) (holds su spec (Suc k))"
proof -
  let ?H = "held (rs_package su) spec k" and ?A = "\<lambda>h. \<not> session_active (er_session_id q) h"
  have ready: "setup_ok su spec" by (rule episode_setup [OF closing_episode [OF ok]])
  let ?text = "''episode preparation created reserved artifacts: '' @ comma_join violations"
  have "\<not> py_blank ?text" by (simp add: py_blank_def is_py_space_def)
  then have reserved: "ends ?H (fail_episode su en q ''episode_preparation_invalid'' ?text
      (Runtime_Error (Lifecycle_Error ?text))) ?A (holds su spec (Suc k))"
    by (intro fail_episode_closes [OF ok q]) (simp add: kinds_recordable)
  have execute: "ends ?H (\<lambda>h. case en_execute en q h of (a, h') \<Rightarrow> (Inr a, h')) ?A (\<lambda>a h. ?H h \<and> answer_recordable a)"
  proof (rule endsI)
    fix h assume h: "?H h"
    obtain a h' where run: "en_execute en q h = (a, h')" by (cases "en_execute en q h")
    have "?H h'" using execute_held [OF closing_episode [OF ok], of k q] h run by (auto simp: preserves_def)
    then show "case case en_execute en q h of (a, h') \<Rightarrow> (Inr a, h') of (Inl e, t) \<Rightarrow> ?A t
       | (Inr a, t) \<Rightarrow> ?H t \<and> answer_recordable a" using answer [of h] run by simp
  qed
  have submit: "ends ?H (catchS (submit_host su) (\<lambda>_. True) (\<lambda>e.
      bindS (close_failure su en q ''episode_submission_invalid'' (Some (error_text e))) (\<lambda>notes.
      raiseS (annotated e notes)))) ?A (holds su spec (Suc k))"
    by (rule ends_catchS [OF submit_ends [OF ready] close_and_raise [OF ok]])
  have accept: "ends (\<lambda>h. ?H h \<and> answer_recordable a) (accept_answer su en q a) ?A (\<lambda>_. ?H)" for a
    using accept_closes [OF ok q, of a k] by (cases "answer_recordable a") (simp_all add: ends_def)
  show ?thesis
    unfolding finish_checkpoint_def Let_def
    by (intro ends_if reserved ends_bindS [OF execute] ends_bindS [OF accept] close_and_raise [OF ok] submit)
qed

end
