(* ===== verification/Lifecycle_Origin.thy ===== *)
theory Lifecycle_Origin
  imports Lifecycle_Reachable
begin

text \<open>
  The origin of a branch. A branch records a hash of the actions of its parent up to the branch point; every
  later call recomputes it from the inherited actions of the branch. It stays the same over every step, and
  the branch that is made passes the check from the start.
\<close>

section \<open>The hash of the inherited actions\<close>

lemma normalized_inherited [simp]:
  "normalized_request (as_inherited_request a) = normalized_request a"
  "normalized_operation (as_inherited_operation b) = normalized_operation b"
  by (simp_all only: normalized_request_def normalized_operation_def inherited_request_simps inherited_operation_simps)

lemma last_inherited:
  "as \<noteq> [] \<Longrightarrow> aq_budget_after (last (map as_inherited_request as)) = aq_budget_after (last as)"
  "bs \<noteq> [] \<Longrightarrow> ao_budget_after (last (inherited_operations bs)) = ao_budget_after (last bs)"
  by (simp_all add: last_map)

lemma payload_taken_over:
  assumes "taken_over c c'"
  shows "branch_checkpoint_payload schema True c' = branch_checkpoint_payload schema False c"
proof -
  have fields: "cr_checkpoint_id c' = cr_checkpoint_id c" "cr_request_budget c' = cr_request_budget c"
    "cr_operation_budget c' = cr_operation_budget c"
    "cr_request_actions c' = map as_inherited_request (cr_request_actions c)"
    "cr_operation_actions c' = inherited_operations (cr_operation_actions c)"
    using assms by (simp_all add: taken_over_def)
  have all: "filter (\<lambda>a. \<not> True \<or> aq_inherited a) (map as_inherited_request as) = map as_inherited_request as"
    "filter (\<lambda>a. \<not> True \<or> ao_inherited a) (inherited_operations bs) = inherited_operations bs" for as bs
    by (simp_all add: as_inherited_request_def filter_True)
  show ?thesis
    unfolding branch_checkpoint_payload_def fields all Let_def
    using last_inherited by (simp add: comp_def)
qed

definition origin_intact :: "run_state \<Rightarrow> bool" where
  "origin_intact s \<longleftrightarrow> (case ru_branch s of None \<Rightarrow> True
     | Some b \<Rightarrow> Some (branch_action_state_sha256 s (checkpoint_index (lb_from_checkpoint b) s) True) = lb_parent_action_state b)"

lemma checkpoint_index_ids: "checkpoint_index i s = length (takeWhile (\<lambda>j. j \<noteq> i) (map cr_checkpoint_id (ru_checkpoints s)))"
  by (simp add: checkpoint_index_def takeWhile_map comp_def)

lemma origin_same:
  assumes "ru_branch s' = ru_branch s" and "ru_schema s' = ru_schema s" and "same_run s s'"
    and "map cr_checkpoint_id (ru_checkpoints s') = map cr_checkpoint_id (ru_checkpoints s)"
    and "map (branch_checkpoint_payload (ru_schema s) True) (ru_checkpoints s')
      = map (branch_checkpoint_payload (ru_schema s) True) (ru_checkpoints s)"
  shows "origin_intact s' = origin_intact s"
proof -
  have index: "checkpoint_index i s' = checkpoint_index i s" for i by (simp only: checkpoint_index_ids assms(4))
  have "branch_action_state_sha256 s' k True = branch_action_state_sha256 s k True" for k
    using assms(2,3,5) by (simp add: branch_action_state_sha256_def same_run_def take_map [symmetric])
  then show ?thesis unfolding origin_intact_def assms(1) index by (simp cong: option.case_cong)
qed

lemma origin_middle:
  assumes "ru_checkpoints s = xs @ c # ys" and "ru_checkpoints s' = xs @ c' # ys"
    and "same_lineage s s'" and "keeps_origin c c'"
  shows "origin_intact s' = origin_intact s"
  by (rule origin_same) (use assms in \<open>simp_all add: same_lineage_def keeps_origin_def branch_checkpoint_payload_def Let_def\<close>)

section \<open>The steps keep it\<close>

lemma branch_origin:
  assumes good: "run_good spec s" and distinct: "distinct (map cs_checkpoint_id (ls_checkpoints spec))"
    and step: "branch_lifecycle spec files parent_dir checkpoint_id branch_id reason scope directory_exists s = Inr (files', s')"
  shows "origin_intact s'"
proof -
  obtain xs c ys ds d es b tr where old: "ru_checkpoints s = xs @ c # ys"
    and "\<forall>x\<in>set (xs @ [c]). cr_status x = Cp_Submitted"
    and id: "cr_checkpoint_id c = checkpoint_id" and "ls_checkpoints spec = ds @ d # es" and "length ds = length xs"
    and "\<forall>e\<in>set es. isOK (construct_checkpoint_run (pending_run e))"
    and "isOK (validate_branch b)" and from_id: "lb_from_checkpoint b = checkpoint_id"
    and "Some (lb_parent_submission b) = cr_submission_sha256 c"
    and recorded: "lb_parent_action_state b = Some (branch_action_state_sha256 s (length xs) False)"
    and "isOK (validate_transition_record tr)"
    and "construct_run_state (branched_state s (branched_runs xs c es) checkpoint_id b)
       = Inr (branched_state s (branched_runs xs c es) checkpoint_id b)"
    and s': "s' = (branched_state s (branched_runs xs c es) checkpoint_id b)\<lparr>ru_transitions := [tr]\<rparr>"
    by (rule branch_cases [OF assms])
  let ?taken = "map (\<lambda>x. inherited_run (cr_checkpoint_id x) x) xs @ [reopened_run (cr_checkpoint_id c) c]"
  have runs: "ru_checkpoints s' = ?taken @ map pending_run es"
    and fields: "ru_schema s' = ru_schema s" "ru_lifecycle_id s' = ru_lifecycle_id s"
      "ru_package_sha256 s' = ru_package_sha256 s" "ru_branch s' = Some b"
    by (simp_all add: s' branched_state_def branched_runs_def)
  have payloads: "map (branch_checkpoint_payload schema True) ?taken = map (branch_checkpoint_payload schema False) (xs @ [c])" for schema
    using payload_taken_over [OF taken_over_runs(1)] payload_taken_over [OF taken_over_runs(2)] by simp
  have "take (length xs + 1) (ru_checkpoints s') = ?taken" "take (length xs + 1) (ru_checkpoints s) = xs @ [c]"
    by (simp_all add: runs old)
  then have "branch_action_state_sha256 s' (length xs) True = branch_action_state_sha256 s (length xs) False"
    by (simp only: branch_action_state_sha256_def fields payloads)
  moreover have "checkpoint_index checkpoint_id s' = length xs"
  proof -
    have "checkpoint_id \<notin> set (map cr_checkpoint_id xs)" using good_ids [OF good distinct] old id by auto
    moreover have "map cr_checkpoint_id (ru_checkpoints s') = map cr_checkpoint_id xs @ checkpoint_id # map cs_checkpoint_id es"
      using id by (simp add: runs inherited_run_def reopened_run_def pending_run_def comp_def)
    ultimately show ?thesis using takeWhile_until [of checkpoint_id "map cr_checkpoint_id xs"] by (simp add: checkpoint_index_ids)
  qed
  ultimately show ?thesis by (simp add: origin_intact_def fields(4) from_id recorded)
qed

lemma effect_origin:
  assumes "step_effect s s'" shows "origin_intact s' = origin_intact s"
proof -
  have lineage: "same_lineage s s'" using assms by (simp add: step_effect_def)
  have "origin_intact s' = origin_intact s" if "moves k s s' subs c c' pend" "keeps_origin c c'" for k subs c c' pend
  proof -
    have "ru_checkpoints s = subs @ c # pend" "ru_checkpoints s' = subs @ c' # pend" using that(1) by (cases k; simp)+
    then show ?thesis by (rule origin_middle [OF _ _ lineage that(2)])
  qed
  moreover have "origin_intact s' = origin_intact s" if "ru_checkpoints s' = ru_checkpoints s"
    by (rule origin_same) (use lineage that in \<open>simp_all add: same_lineage_def\<close>)
  ultimately show ?thesis using assms by (auto simp: step_effect_def)
qed

lemma step_origin:
  assumes contract: "contract_ok package spec" and step: "lifecycle_step package spec s s'" and ok: "state_ok package spec s"
    and origin: "origin_intact s"
  shows "origin_intact s'"
proof -
  have good: "run_good spec s" using ok by (simp add: state_ok_def)
  have ids: "distinct (map cs_checkpoint_id (ls_checkpoints spec))" using contract by (simp add: contract_ok_def validated_ids)
  show ?thesis using step_cases [OF contract step ok] effect_origin branch_origin [OF good ids] origin by blast
qed

lemma reachable_origin:
  assumes contract: "contract_ok package spec" and "lifecycle_reachable package spec s"
  shows "origin_intact s"
proof -
  obtain authorization s0 where init: "initial_state package spec authorization = Inr s0"
    and run: "(lifecycle_step package spec)\<^sup>*\<^sup>* s0 s"
    using assms(2) by (auto simp: lifecycle_reachable_def)
  from run have "state_ok package spec s \<and> origin_intact s"
  proof (induction rule: rtranclp_induct)
    case base
    have "ru_branch s0 = None"
      using init constructed_state(1) unfolding initial_state_def bindE_eq_Inr_iff validated_Inr
      by (elim exE conjE) (drule constructed_state(1), simp)
    then show ?case using initial_good [OF init] by (simp add: state_ok_def origin_intact_def)
  next
    case (step s1 s2)
    then show ?case using step_ok [OF contract step(2)] step_origin [OF contract step(2)] by blast
  qed
  then show ?thesis ..
qed

end
