(* ===== verification/Lifecycle_Example.thy ===== *)
theory Lifecycle_Example
  imports Lifecycle_Origin
begin

text \<open>
  A run of a small lifecycle, as the handlers make it: two checkpoints, one request at the first, which is
  released, a submission, and a branch. It shows that the hypotheses of the properties can hold. The hashes
  stay symbolic.
\<close>

section \<open>The contract and the package\<close>

definition demo_log :: evidence_request_spec where
  "demo_log = \<lparr>rq_request_id = ''log'', rq_title = ''Log'', rq_description = ''Borehole log'', rq_prerequisites = []\<rparr>"

definition demo_site :: checkpoint_spec where
  "demo_site = \<lparr>cs_checkpoint_id = ''site'', cs_title = ''Site'', cs_release_path = ''releases/site'',
     cs_instruction_path = ''instructions/site.md'', cs_submission_path = ''submissions/site.json'', cs_depends_on = [],
     cs_required_fields = [''checkpoint_id''], cs_allow_additional = False,
     cs_evidence = Some \<lparr>ce_request_budget = 1, ce_requests = [demo_log]\<rparr>, cs_operations = None\<rparr>"

definition demo_plan :: checkpoint_spec where
  "demo_plan = \<lparr>cs_checkpoint_id = ''plan'', cs_title = ''Plan'', cs_release_path = ''releases/plan'',
     cs_instruction_path = ''instructions/plan.md'', cs_submission_path = ''submissions/plan.json'',
     cs_depends_on = [''site''], cs_required_fields = [''checkpoint_id''], cs_allow_additional = False,
     cs_evidence = None, cs_operations = None\<rparr>"

definition demo_spec :: lifecycle_spec where
  "demo_spec = \<lparr>ls_lifecycle_id = ''demo'', ls_checkpoints = [demo_site, demo_plan]\<rparr>"

definition demo_package :: lifecycle_package where
  "demo_package = \<lparr>pk_entries = [
       ([''hidden'', ''evidence_requests'', ''site'', ''log''], Tree_Folder),
       ([''hidden'', ''evidence_requests'', ''site'', ''log'', ''log.txt''], Tree_File ''clay''),
       ([''instructions'', ''plan.md''], Tree_File ''Plan.''), ([''instructions'', ''site.md''], Tree_File ''Look.''),
       ([''releases'', ''plan''], Tree_Folder), ([''releases'', ''plan'', ''brief.txt''], Tree_File ''b''),
       ([''releases'', ''site''], Tree_Folder), ([''releases'', ''site'', ''brief.txt''], Tree_File ''a'')],
     pk_contract = Some demo_spec,
     pk_manifest = Some \<lparr>em_lifecycle_id = ''demo'', em_resolutions = [\<lparr>el_checkpoint_id = ''site'',
       el_request_id = ''log'', el_source_path = ''hidden/evidence_requests/site/log''\<rparr>]\<rparr>\<rparr>"

lemma demo_spec_valid: "isOK (validate_lifecycle_spec demo_spec)"
  by code_simp

lemma demo_contract: "contract_ok demo_package demo_spec"
proof -
  have "kinds_consistent demo_spec" by code_simp
  moreover have "tree_ok demo_package" by (simp add: tree_ok_def demo_package_def posix_name_ok_def)
  ultimately show ?thesis using demo_spec_valid by (simp add: contract_ok_def)
qed

lemma sha256_not_blank: "is_sha256 v \<Longrightarrow> \<not> py_blank v"
  by (cases v) (auto simp: is_sha256_def py_blank_def is_lower_hex_def is_py_space_def)

section \<open>The run\<close>

definition demo_start :: run_state where
  "demo_start = \<lparr>ru_schema = Schema_6, ru_lifecycle_id = ''demo'', ru_spec_sha256 = spec_sha256 demo_spec,
     ru_package_sha256 = (case package_sha256 demo_package of Inr d \<Rightarrow> d | Inl _ \<Rightarrow> []),
     ru_authorization = None, ru_status = Awaiting_Release, ru_active = None,
     ru_checkpoints = map pending_run [demo_site, demo_plan], ru_revisits = [], ru_transitions = [], ru_branch = None\<rparr>"

lemma demo_digest: "package_sha256 demo_package = Inr (ru_package_sha256 demo_start)" "is_sha256 (ru_package_sha256 demo_start)"
proof -
  have stream: "isOK (package_stream (sort_key fst (pk_entries demo_package)))"
    by (simp add: demo_package_def less_eq_char_def Let_def)
  then show "package_sha256 demo_package = Inr (ru_package_sha256 demo_start)" "is_sha256 (ru_package_sha256 demo_start)"
    by (auto simp: package_sha256_def demo_start_def isOK_iff)
qed

lemma demo_pending:
  "isOK (construct_checkpoint_run (pending_run demo_site))" "isOK (construct_checkpoint_run (pending_run demo_plan))"
  by code_simp+

lemma demo_simps:
  "ls_checkpoints demo_spec = [demo_site, demo_plan]" "ls_lifecycle_id demo_spec = ''demo''" "\<not> supports_operations demo_spec"
  "cs_checkpoint_id demo_site = ''site''" "cs_checkpoint_id demo_plan = ''plan''" "cs_depends_on demo_site = []"
  "cs_depends_on demo_plan = [''site'']" "cs_submission_path demo_site = ''submissions/site.json''"
  "cs_evidence demo_site = Some \<lparr>ce_request_budget = 1, ce_requests = [demo_log]\<rparr>"
  by (simp_all add: demo_spec_def supports_operations_def demo_site_def demo_plan_def)

lemma demo_0: "initial_state demo_package demo_spec None = Inr demo_start"
proof -
  have shape: "has_shape demo_start (Idle [] (ru_checkpoints demo_start))"
    by (simp add: demo_start_def pending_run_def)
  then have phases: "isOK (check_status demo_start)" "sorted (map (\<lambda>c. phase_order (cr_status c)) (ru_checkpoints demo_start))"
    using shape_iff [of demo_start] by blast+
  have "distinct (map cr_checkpoint_id (ru_checkpoints demo_start))" "all_operation_actions demo_start = []"
    "all_request_actions demo_start = []" "ru_branch demo_start = None"
    "\<forall>c\<in>set (ru_checkpoints demo_start). cr_operation_budget c = 0 \<and> cr_operation_remaining c = 0"
    by (simp_all add: demo_start_def pending_run_def demo_site_def demo_plan_def all_operation_actions_def
        all_request_actions_def declared_operation_budget_def)
  then have valid: "isOK (validate_run_state demo_start)"
    using phases by (auto simp: validate_run_state_def isOK_bindE_const bindE_guardE_OK list_ex_iff)
  have "\<not> py_blank ''demo''" by code_simp
  then have "isOK (construct_run_state demo_start)"
    using valid demo_digest(2) sha256_not_blank
    by (simp add: construct_run_state_def isOK_bindE_const checked_iff demo_start_def opt_list_def spec_sha256_def payload_sha256_def)
  then have "construct_run_state demo_start = Inr demo_start" using constructed_state(1) by (auto simp: isOK_iff)
  moreover have "\<lparr>ru_schema = Schema_6, ru_lifecycle_id = ''demo'', ru_spec_sha256 = spec_sha256 demo_spec,
     ru_package_sha256 = ru_package_sha256 demo_start, ru_authorization = None, ru_status = Awaiting_Release,
     ru_active = None, ru_checkpoints = [pending_run demo_site, pending_run demo_plan], ru_revisits = [],
     ru_transitions = [], ru_branch = None\<rparr> = demo_start"
    by (simp add: demo_start_def)
  ultimately show ?thesis
    using demo_digest(1) demo_pending
    by (simp add: initial_state_def bindE_eq_Inr_iff validated_Inr unit_OK isOK_bindE_const validated_OK demo_simps)
qed

definition demo_site_run :: checkpoint_run where
  "demo_site_run = (pending_run demo_site)\<lparr>cr_status := Cp_Active, cr_released_files := [''brief.txt'']\<rparr>"

definition demo_release :: run_state where
  "demo_release = demo_start\<lparr>ru_checkpoints := [demo_site_run, pending_run demo_plan], ru_active := Some ''site'',
     ru_status := Awaiting_Submission, ru_transitions := [\<lparr>lt_transition_id = transition_id 1, lt_kind = Tk_Release,
       lt_from = None, lt_to = Some ''site'', lt_reason = ''Evidence released for active review.''\<rparr>]\<rparr>"

lemma demo_1: "release_checkpoint demo_package demo_spec no_files demo_start = Inr demo_release"
proof -
  have "isOK (preflight_checkpoint demo_package demo_site)" by code_simp
  then obtain instruction where preflight: "preflight_checkpoint demo_package demo_site = Inr instruction"
    by (auto simp: isOK_iff)
  have files: "copy_release demo_package (posix_parts (cs_release_path demo_site)) = Inr [(''brief.txt'', ''a'')]" by code_simp
  have sub: "submitted_ids demo_start = []" "submitted_count demo_start = 0"
    by (simp_all add: submitted_ids_def submitted_count_def demo_start_def pending_run_def)
  have reduce: "reduce_release ''site'' [''brief.txt''] ''Evidence released for active review.'' None demo_start
      = Inr (demo_release, ru_transitions demo_release)"
    by (simp add: reduce_release_def lookup_checkpoint_def checkpoint_def demo_start_def demo_release_def pending_run_def
        demo_simps map_checkpoint_def update_rows_def record_transition_Inr demo_site_run_def validate_transition_record_def
        transition_id_def isOK_bindE_const py_blank_def is_py_space_def)
  have fields: "ru_active demo_start = None" "ru_status demo_start = Awaiting_Release" "ru_branch demo_start = None"
    "\<forall>c\<in>set (ru_checkpoints demo_start). cr_status c \<noteq> Cp_Submitted"
    by (simp_all add: demo_start_def pending_run_def)
  then have unchanged: "prior_submissions_unchanged no_files None demo_start = Inr ()"
    by (simp add: unit_OK prior_submissions_unchanged_def check_branch_origin_def check_submitted_def isOK_bindE_const)
  show ?thesis
    by (simp add: release_checkpoint_def demo_simps fields sub unchanged preflight files reduce)
qed

definition demo_attempt :: checkpoint_attempt where
  "demo_attempt = new_attempt ''site'' ''s1'' ''agent'' None demo_site_run"

definition demo_opened_run :: checkpoint_run where
  "demo_opened_run = demo_site_run\<lparr>cr_attempts := [demo_attempt]\<rparr>"

definition demo_open :: run_state where
  "demo_open = demo_release\<lparr>ru_checkpoints := [demo_opened_run, pending_run demo_plan]\<rparr>"

lemma demo_attempt_valid: "isOK (validate_checkpoint_attempt demo_attempt)"
  by code_simp

lemma demo_edit:
  assumes "ru_checkpoints s = [c, pending_run demo_plan]" and "cr_checkpoint_id c = ''site''"
  shows "map_checkpoint ''site'' f s = s\<lparr>ru_checkpoints := [f c, pending_run demo_plan]\<rparr>"
    "index_checkpoint s ''site'' = Inr c"
  using assms by (simp_all add: map_checkpoint_def update_rows_def index_checkpoint_def checkpoint_def pending_run_def demo_simps)

lemma demo_run_fields:
  "cr_checkpoint_id demo_site_run = ''site''" "cr_attempts demo_site_run = []" "cr_request_actions demo_site_run = []"
  "cr_request_budget demo_site_run = 1" "cr_request_remaining demo_site_run = 1" "cr_status demo_site_run = Cp_Active"
  "ru_checkpoints demo_release = [demo_site_run, pending_run demo_plan]" "ru_active demo_release = Some ''site''"
  by (simp_all add: demo_site_run_def pending_run_def demo_simps declared_request_budget_def demo_release_def)

lemma demo_2: "open_attempt ''s1'' ''agent'' None demo_release = Inr demo_open"
proof -
  note edit = demo_edit [OF demo_run_fields(7,1)]
  have "validated (validate_checkpoint_attempt demo_attempt) = Inr demo_attempt"
    using demo_attempt_valid by (auto simp: validated_Inr validate_checkpoint_attempt_def bindE_eq_Inr_iff guardE_eq_Inr_iff isOK_iff)
  then show ?thesis
    by (simp add: open_attempt_def reduce_open_attempt_def edit demo_run_fields active_attempt_def
        demo_attempt_def [symmetric] demo_open_def demo_opened_run_def update_active_attempt_def)
qed

definition demo_draft :: request_action where
  "demo_draft = draft_request 1 demo_opened_run demo_attempt ''site'' ''log'' ''need it'' Rq_Released None
     (released_artifacts (request_action_id 1) ''site'' ''log'' [(''log.txt'', ''clay'')]) (request_pre demo_open demo_opened_run)"

definition demo_action :: request_action where
  "demo_action = final_request demo_open demo_opened_run demo_draft"

definition demo_asked_run :: checkpoint_run where
  "demo_asked_run = with_request demo_action demo_opened_run"

definition demo_asked :: run_state where
  "demo_asked = demo_open\<lparr>ru_checkpoints := [demo_asked_run, pending_run demo_plan],
     ru_transitions := ru_transitions demo_open @ [\<lparr>lt_transition_id = transition_id 2, lt_kind = Tk_Evidence_Request,
       lt_from = Some ''site'', lt_to = Some ''site'', lt_reason = ''Conditional evidence request released.''\<rparr>]\<rparr>"

lemma demo_opened_fields:
  "cr_checkpoint_id demo_opened_run = ''site''" "active_attempt demo_opened_run = Some demo_attempt"
  "ct_session_id demo_attempt = ''s1''" "ct_attempt_id demo_attempt = ''site.attempt-001''"
  "cr_request_actions demo_opened_run = []" "cr_request_budget demo_opened_run = 1" "cr_request_remaining demo_opened_run = 1"
  "ru_checkpoints demo_open = [demo_opened_run, pending_run demo_plan]" "ru_active demo_open = Some ''site''"
  "all_request_actions demo_open = []"
proof -
  show "active_attempt demo_opened_run = Some demo_attempt" by (simp add: active_attempt_def demo_opened_run_def demo_attempt_def new_attempt_def)
  show "ct_attempt_id demo_attempt = ''site.attempt-001''" by code_simp
qed (simp_all add: demo_opened_run_def demo_run_fields demo_open_def all_request_actions_def pending_run_def
    demo_attempt_def new_attempt_def)

lemma demo_artifacts:
  "action_artifacts (request_action_id 1) ''site'' ''log'' Rq_Released [] (Some (Inr [(''log.txt'', ''clay'')]))
     = Inr (released_artifacts (request_action_id 1) ''site'' ''log'' [(''log.txt'', ''clay'')])"
proof -
  have paths: "stays_under ''evidence_requests'' (path_of [''evidence_requests'', request_action_id 1, ''artifacts'', ''log.txt''])"
    "stays_under ''inbox'' (path_of [''inbox'', ''site'', ''requests'', ''log'', ''log.txt''])"
    "\<not> py_blank (path_of [''evidence_requests'', request_action_id 1, ''artifacts'', ''log.txt''])"
    "\<not> py_blank (path_of [''inbox'', ''site'', ''requests'', ''log'', ''log.txt''])"
    by code_simp+
  let ?a = "\<lparr>ra_path = path_of [''evidence_requests'', request_action_id 1, ''artifacts'', ''log.txt''],
     ra_workspace_path = path_of [''inbox'', ''site'', ''requests'', ''log'', ''log.txt''], ra_sha256 = sha256 ''clay''\<rparr>"
  have "isOK (validate_released_artifact ?a)"
    using paths sha256_not_blank [OF sha256_ok]
    by (simp add: validate_released_artifact_def isOK_bindE_const bindE_guardE_OK del: One_nat_def)
  then show ?thesis
    by (simp add: action_artifacts_def released_artifacts_def unit_OK isOK_bindE_const validated_OK bindE_eq_Inr_iff del: One_nat_def)
qed

lemma demo_draft_valid: "isOK (validate_request_action demo_draft)"
proof -
  have texts: "\<not> py_blank (request_action_id 1)" "\<not> py_blank ''site''" "\<not> py_blank ''log''" "\<not> py_blank ''need it''"
    "\<not> py_blank ''s1''" "\<not> py_blank ''site.attempt-001''" "is_sha256 zero_sha256"
    by code_simp+
  have "isOK (action_artifacts (request_action_id 1) ''site'' ''log'' Rq_Released [] (Some (Inr [(''log.txt'', ''clay'')])))"
    by (simp only: demo_artifacts) simp
  then have "\<forall>x\<in>set (released_artifacts (request_action_id 1) ''site'' ''log'' [(''log.txt'', ''clay'')]). isOK (validate_released_artifact x)"
    by (simp add: action_artifacts_def isOK_bindE_const validated_OK bindE_guardE_OK checked_iff Let_def del: One_nat_def)
  then show ?thesis
    using texts
    by (simp add: request_action_iff demo_draft_def draft_request_def demo_opened_fields request_pre_def
        request_projection_sha256_def payload_sha256_def request_outcome_ok_def released_artifacts_def del: One_nat_def)
qed

lemma demo_3: "request_checkpoint_evidence demo_package (\<lambda>_. Inr ()) demo_spec None ''log'' ''need it'' ''s1'' demo_open
    = Inr (demo_action, demo_asked)"
proof -
  have resolutions: "load_resolutions demo_package demo_spec = Inr [\<lparr>el_checkpoint_id = ''site'', el_request_id = ''log'',
      el_source_path = ''hidden/evidence_requests/site/log''\<rparr>]"
    by code_simp
  have copied: "copy_release demo_package (posix_parts ''hidden/evidence_requests/site/log'') = Inr [(''log.txt'', ''clay'')]"
    by code_simp
  have texts: "\<not> py_blank ''log''" "\<not> py_blank ''need it''" by code_simp+
  have valid: "validate_request_action demo_draft = Inr demo_draft"
    using demo_draft_valid validate_request_action_Inr by blast
  note edit = demo_edit [OF demo_opened_fields(8,1)]
  have asked: "cr_checkpoint_id (with_request a demo_opened_run) = ''site''" for a by (simp add: with_request_def demo_opened_fields)
  have post: "request_state_sha256 (demo_open\<lparr>ru_checkpoints := [with_request demo_draft demo_opened_run, pending_run demo_plan]\<rparr>) ''site''
      = Inr (aq_post_state demo_action)"
  proof -
    let ?s = "demo_open\<lparr>ru_checkpoints := [with_request demo_draft demo_opened_run, pending_run demo_plan]\<rparr>"
    have "index_checkpoint ?s ''site'' = Inr (with_request demo_draft demo_opened_run)"
      by (rule demo_edit(2)) (simp_all add: asked)
    moreover have "request_projection_sha256 ?s = request_projection_sha256 demo_open"
      by (rule projection_same) (simp add: same_run_def)
    ultimately show ?thesis
      by (simp add: request_state_sha256_def demo_action_def final_request_def demo_opened_fields) (simp add: with_request_def demo_opened_fields)
  qed
  have pre: "request_state_sha256 demo_open ''site'' = Inr (request_pre demo_open demo_opened_run)"
    by (simp add: request_state_sha256_def edit request_pre_def demo_opened_fields)
  have moved: "append_transition Tk_Evidence_Request ''site'' (''Conditional evidence request '' @ outcome_text Rq_Released @ ''.'')
      (demo_open\<lparr>ru_checkpoints := [demo_asked_run, pending_run demo_plan]\<rparr>) = Inr demo_asked"
  proof -
    have "\<not> py_blank (transition_id 2)" "\<not> py_blank ''Conditional evidence request released.''" by code_simp+
    moreover have "length (ru_transitions demo_open) = 1" by (simp add: demo_open_def demo_release_def)
    ultimately show ?thesis
      by (simp add: append_transition_def bindE_eq_Inr_iff record_transition_Inr demo_asked_def outcome_text_def
          validate_transition_record_def isOK_bindE_const numeral_2_eq_2)
  qed
  have final: "demo_draft\<lparr>aq_post_state := aq_post_state demo_action\<rparr> = demo_action"
    by (simp add: demo_action_def final_request_def)
  have recorded: "record_request_action demo_open ''site'' ''log'' ''need it'' ''s1'' Rq_Released None []
      (Some (Inr [(''log.txt'', ''clay'')])) = Inr (demo_action, demo_asked)"
    using demo_artifacts valid moved
    by (simp add: record_request_action_def demo_opened_fields edit pre demo_draft_def [symmetric, unfolded One_nat_def] post final Let_def
        validated_def demo_asked_run_def [symmetric])
  show ?thesis
    by (simp add: request_checkpoint_evidence_def request_evidence_def texts resolutions demo_opened_fields demo_simps edit
        demo_log_def prior_release_def released_request_ids_def resolution_key_def copied recorded)
qed

text \<open>The submission of the first checkpoint, and a branch from it.\<close>

definition demo_codec :: json_codec where
  "demo_codec = \<lparr>jc_parse = (\<lambda>_. Some []), jc_render = (\<lambda>_. ''{}'')\<rparr>"

definition demo_files :: run_files where
  "demo_files = no_files\<lparr>rf_workspace := (\<lambda>_. None)(''submissions/site.json'' := Some ''{ }'')\<rparr>"

definition demo_archived :: run_files where
  "demo_archived = demo_files\<lparr>rf_workspace := (rf_workspace demo_files)(''submissions/site.json'' := Some ''{}''),
     rf_archive := (rf_archive demo_files)(''site'' := Some ''{}'')\<rparr>"

definition demo_submitted_run :: checkpoint_run where
  "demo_submitted_run = submitted_run ''submissions/site.json'' (sha256 ''{}'') demo_asked_run"

definition demo_submit :: run_state where
  "demo_submit = demo_asked\<lparr>ru_checkpoints := [demo_submitted_run, pending_run demo_plan], ru_active := None,
     ru_status := Awaiting_Release,
     ru_transitions := ru_transitions demo_asked @ [\<lparr>lt_transition_id = transition_id 3, lt_kind = Tk_Submit,
       lt_from = Some ''site'', lt_to = None, lt_reason = ''Checkpoint submission archived.''\<rparr>]\<rparr>"

lemma demo_asked_fields:
  "cr_checkpoint_id demo_asked_run = ''site''" "cr_status demo_asked_run = Cp_Active"
  "ru_checkpoints demo_asked = [demo_asked_run, pending_run demo_plan]" "ru_active demo_asked = Some ''site''"
  "ru_status demo_asked = Awaiting_Submission" "ru_branch demo_asked = None" "length (ru_transitions demo_asked) = 2"
  by (simp_all add: demo_asked_run_def with_request_def demo_opened_run_def demo_run_fields demo_asked_def demo_open_def
      demo_release_def demo_start_def)

lemma demo_4: "submit_checkpoint demo_codec demo_spec demo_files demo_asked = Inr (demo_archived, demo_submit)"
proof -
  note edit = demo_edit [OF demo_asked_fields(3,1)]
  have unchanged: "prior_submissions_unchanged demo_files None demo_asked = Inr ()"
    by (simp add: unit_OK prior_submissions_unchanged_def check_branch_origin_def check_submitted_def isOK_bindE_const
        demo_asked_fields pending_run_def)
  have completed: "complete_submission ''site'' [] = [(''checkpoint_id'', J_Text ''site'')]" by (simp add: complete_submission_def)
  have accepted: "validate_checkpoint_submission demo_site [(''checkpoint_id'', J_Text ''site'')] = Inr ()" by code_simp
  have "\<not> py_blank (transition_id 3)" "\<not> py_blank ''Checkpoint submission archived.''" by code_simp+
  then have reduced: "reduce_submit ''site'' ''submissions/site.json'' (sha256 ''{}'') ''Checkpoint submission archived.'' demo_asked
      = Inr (demo_submit, [\<lparr>lt_transition_id = transition_id 3, lt_kind = Tk_Submit,
       lt_from = Some ''site'', lt_to = None, lt_reason = ''Checkpoint submission archived.''\<rparr>])"
    by (simp add: reduce_submit_def edit demo_asked_fields attempts_update_active demo_submitted_run_def submitted_run_def
        record_transition_Inr validate_transition_record_def isOK_bindE_const demo_submit_def pending_run_def numeral_3_eq_3)
  show ?thesis
    by (simp add: submit_checkpoint_def demo_asked_fields unchanged [unfolded demo_files_def] demo_simps demo_files_def
        demo_codec_def completed accepted Let_def reduced) (simp add: json_dict_eq_def demo_archived_def demo_files_def reduced)
qed

definition demo_lineage :: lifecycle_branch where
  "demo_lineage = \<lparr>lb_branch_id = ''b1'', lb_parent_run_dir = ''run'', lb_from_checkpoint = ''site'',
     lb_parent_submission = sha256 ''{}'', lb_parent_action_state = Some (branch_action_state_sha256 demo_submit 0 False),
     lb_reason = ''retry''\<rparr>"

definition demo_reopened :: run_state where
  "demo_reopened = branched_state demo_submit (branched_runs [] demo_submitted_run [demo_plan]) ''site'' demo_lineage"

definition demo_branch :: run_state where
  "demo_branch = demo_reopened\<lparr>ru_transitions := [\<lparr>lt_transition_id = transition_id 1, lt_kind = Tk_Branch,
     lt_from = Some ''site'', lt_to = Some ''site'', lt_reason = ''retry''\<rparr>]\<rparr>"

lemma demo_submit_fields:
  "cr_checkpoint_id demo_submitted_run = ''site''" "cr_status demo_submitted_run = Cp_Submitted"
  "cr_submission_path demo_submitted_run = Some ''submissions/site.json''"
  "cr_submission_sha256 demo_submitted_run = Some (sha256 ''{}'')"
  "ru_checkpoints demo_submit = [demo_submitted_run, pending_run demo_plan]" "ru_branch demo_submit = None"
  "ru_schema demo_submit = Schema_6" "ru_lifecycle_id demo_submit = ''demo''"
  "ru_package_sha256 demo_submit = ru_package_sha256 demo_start" "ru_spec_sha256 demo_submit = spec_sha256 demo_spec"
  by (simp_all add: demo_submitted_run_def submitted_run_def demo_asked_fields demo_submit_def demo_asked_def demo_open_def
      demo_release_def demo_start_def)

lemma demo_step: "state_ok demo_package demo_spec demo_submit"
proof -
  have start: "state_ok demo_package demo_spec demo_start"
    using initial_good [OF demo_0] by (simp add: state_ok_def)
  have "state_ok demo_package demo_spec demo_release"
    by (rule step_ok [OF demo_contract lifecycle_step.Release [OF demo_1] start])
  then have "state_ok demo_package demo_spec demo_open"
    by (rule step_ok [OF demo_contract lifecycle_step.Open [OF demo_2]])
  then have "state_ok demo_package demo_spec demo_asked"
    by (rule step_ok [OF demo_contract lifecycle_step.Request [OF demo_3]])
  then show ?thesis by (rule step_ok [OF demo_contract lifecycle_step.Submit [OF demo_4]])
qed

text \<open>The branch point is the first checkpoint, so nothing is inherited before it.\<close>

lemma demo_reopened_built: "construct_run_state demo_reopened = Inr demo_reopened"
proof -
  have runs: "ru_checkpoints demo_reopened = [reopened_run ''site'' demo_submitted_run, pending_run demo_plan]"
    by (simp add: demo_reopened_def branched_state_def branched_runs_def demo_submit_fields)
  have "has_shape demo_reopened (Busy [] (reopened_run ''site'' demo_submitted_run) [pending_run demo_plan])"
    by (simp add: runs reopened_run_def pending_run_def) (simp add: demo_reopened_def branched_state_def)
  then have phases: "isOK (check_status demo_reopened)"
    "sorted (map (\<lambda>c. phase_order (cr_status c)) (ru_checkpoints demo_reopened))"
    using shape_iff [of demo_reopened] by blast+
  have good: "run_good demo_spec demo_submit" using demo_step by (simp add: state_ok_def)
  have six: "\<forall>c\<in>set (ru_checkpoints demo_submit). cr_operation_actions c = [] \<and> cr_operation_budget c = 0 \<and> cr_operation_remaining c = 0"
    using good demo_submit_fields(7) by (simp add: run_good_def schema_ok_def)
  have "all_request_actions demo_reopened = map as_inherited_request (all_request_actions demo_submit)"
    by (simp add: all_request_actions_def runs demo_submit_fields reopened_run_def inherit_requests_def as_inherited_request_def pending_run_def)
  then have numbers: "map (\<lambda>a. (aq_sequence a, aq_action_id a)) (all_request_actions demo_reopened)
      = map (\<lambda>n. (int n, request_action_id n)) [1..<Suc (length (all_request_actions demo_reopened))]"
    using good by (simp add: run_good_def actions_numbered_def numbered_def comp_def del: upt_Suc)
  have none: "all_operation_actions demo_reopened = []"
    using six by (simp add: all_operation_actions_def runs demo_submit_fields reopened_run_def inherit_operations_def pending_run_def)
  have ids: "map cr_checkpoint_id (ru_checkpoints demo_reopened) = [''site'', ''plan'']"
    by (simp add: runs reopened_run_def pending_run_def demo_simps)
  have branch: "ru_branch demo_reopened = Some demo_lineage" "lb_from_checkpoint demo_lineage = ''site''"
    "lb_parent_action_state demo_lineage \<noteq> None"
    by (simp_all add: demo_reopened_def branched_state_def demo_lineage_def)
  have zero: "\<not> list_ex (\<lambda>c. cr_operation_budget c \<noteq> 0 \<or> cr_operation_remaining c \<noteq> 0) (ru_checkpoints demo_reopened)"
    using six by (simp add: runs demo_submit_fields reopened_run_def pending_run_def)
  have valid: "isOK (validate_run_state demo_reopened)"
    unfolding validate_run_state_def isOK_bindE_const bindE_guardE_OK isOK_guardE ids branch option.case numbers
    using phases branch none zero by simp
  have "\<not> py_blank ''demo''" by code_simp
  then have "isOK (construct_run_state demo_reopened)"
    using valid demo_digest(2) sha256_not_blank
    by (simp add: construct_run_state_def isOK_bindE_const checked_iff opt_list_def spec_sha256_def payload_sha256_def)
      (simp add: demo_reopened_def branched_state_def demo_submit_fields spec_sha256_def payload_sha256_def)
  then show ?thesis using constructed_state(1) by (auto simp: isOK_iff)
qed

definition demo_branch_files :: run_files where
  "demo_branch_files = no_files\<lparr>rf_origin := (rf_origin no_files)(''site'' := Some ''{}''),
     rf_workspace := (rf_workspace no_files)(''submissions/site.json'' := Some ''{}'')\<rparr>"

lemma demo_5: "branch_lifecycle demo_spec demo_archived ''run'' ''site'' ''b1'' ''retry'' Complete_Run False demo_submit
    = Inr (demo_branch_files, demo_branch)"
proof -
  have scope: "parent_scope demo_archived Complete_Run 0 demo_submit = Inr ()"
    by (simp add: parent_scope_def unit_OK prior_submissions_unchanged_def check_branch_origin_def check_submitted_def
        isOK_bindE_const demo_submit_fields pending_run_def demo_archived_def)
  have index: "index_checkpoint demo_submit ''site'' = Inr demo_submitted_run"
    by (rule demo_edit(2) [OF demo_submit_fields(5,1)])
  have texts: "\<not> py_blank ''b1''" "\<not> py_blank ''run''" "\<not> py_blank ''site''" "\<not> py_blank ''retry''" "\<not> py_blank (transition_id 1)"
    by code_simp+
  have lineage: "validate_branch demo_lineage = Inr demo_lineage"
    using texts sha256_not_blank [OF sha256_ok]
    by (simp add: validate_branch_def bindE_eq_Inr_iff unit_OK demo_lineage_def opt_list_def branch_action_state_sha256_def
        payload_sha256_def)
  have runs: "branch_checkpoints demo_submit 0 demo_submitted_run 0 [demo_site, demo_plan]
      = Inr (branched_runs [] demo_submitted_run [demo_plan])"
  proof -
    have reopened: "isOK (construct_checkpoint_run (reopened_run ''site'' demo_submitted_run))"
    proof -
      have good: "record_good demo_submitted_run" using demo_step demo_submit_fields(5) by (simp add: state_ok_def run_good_def)
      have "record_good (reopened_run (cr_checkpoint_id demo_submitted_run) demo_submitted_run)"
        by (rule record_taken_over [OF good demo_submit_fields(2) taken_over_runs(2)]) (simp add: reopened_run_def)
      then show ?thesis
        by (simp add: record_good_def demo_submit_fields construct_checkpoint_run_def validate_checkpoint_run_def
            isOK_bindE_const checked_iff bindE_guardE_OK)
    qed
    then show ?thesis
      using demo_pending(2) construct_checkpoint_Inr
      by (simp add: branch_checkpoint_def bindE_eq_Inr_iff validated_Inr branched_runs_def demo_submit_fields demo_simps)
  qed
  have reduced: "reduce_branch [demo_site, demo_plan] 0 demo_lineage ''site'' ''retry'' demo_submit = Inr (demo_branch, ru_transitions demo_branch)"
  proof -
    have "lookup_checkpoint demo_submit ''site'' = Inr demo_submitted_run"
      using index by (simp add: lookup_checkpoint_def index_checkpoint_def split: option.splits)
    moreover have "record_transition Tk_Branch (Some ''site'') (Some ''site'') ''retry'' demo_reopened
        = Inr (demo_branch, ru_transitions demo_branch)"
      using texts by (simp add: record_transition_Inr demo_branch_def validate_transition_record_def isOK_bindE_const)
        (simp add: demo_reopened_def branched_state_def)
    ultimately show ?thesis
      unfolding reduce_branch_def branched_state_def [symmetric]
      by (simp add: demo_simps demo_submit_fields runs demo_reopened_def [symmetric] demo_reopened_built validated_def
          del: branch_checkpoints.simps)
  qed
  show ?thesis
    using lineage
    by (simp add: branch_lifecycle_def demo_simps scope index demo_submit_fields Let_def demo_lineage_def [symmetric] validated_def
        reduced) (simp add: branch_files_def demo_simps demo_archived_def demo_branch_files_def)
qed

section \<open>Every state of it is reachable\<close>

lemma demo_reachable:
  "lifecycle_reachable demo_package demo_spec demo_start" "lifecycle_reachable demo_package demo_spec demo_asked"
  "lifecycle_reachable demo_package demo_spec demo_submit" "lifecycle_reachable demo_package demo_spec demo_branch"
proof -
  let ?step = "lifecycle_step demo_package demo_spec"
  have reach: "lifecycle_reachable demo_package demo_spec s" if "?step\<^sup>*\<^sup>* demo_start s" for s
    using that demo_0 by (auto simp: lifecycle_reachable_def)
  have asked: "?step\<^sup>*\<^sup>* demo_start demo_asked"
    using lifecycle_step.Release [OF demo_1] lifecycle_step.Open [OF demo_2, of demo_package demo_spec]
      lifecycle_step.Request [OF demo_3]
    by (meson converse_rtranclp_into_rtranclp r_into_rtranclp)
  then have submitted: "?step\<^sup>*\<^sup>* demo_start demo_submit"
    by (rule rtranclp.rtrancl_into_rtrancl) (rule lifecycle_step.Submit [OF demo_4])
  then have "?step\<^sup>*\<^sup>* demo_start demo_branch"
    by (rule rtranclp.rtrancl_into_rtrancl) (rule lifecycle_step.Branch [OF demo_5])
  then show "lifecycle_reachable demo_package demo_spec demo_start" "lifecycle_reachable demo_package demo_spec demo_asked"
    "lifecycle_reachable demo_package demo_spec demo_submit" "lifecycle_reachable demo_package demo_spec demo_branch"
    using reach asked submitted by blast+
qed

end
