(* ===== verification/Lifecycle_Properties.thy ===== *)
theory Lifecycle_Properties
  imports Lifecycle_Example
begin

text \<open>
  What a lifecycle run keeps over every history of calls. The hypotheses are those of
  \<^const>\<open>contract_ok\<close>: the contract has been validated, an operation id means one kind, and the names in the
  package tree are file names.
\<close>

section \<open>A reachable state loads\<close>



section \<open>The abstract machine\<close>

text \<open>
  C4. The handlers implement the abstract machine of phases: a step changes nothing of the phase, or it releases
  the next checkpoint, submits the active one, or branches back to a submitted one. In every reachable state
  the phase is one the machine reaches, and the run is complete exactly when all checkpoints are submitted.
\<close>

theorem lifecycle_refines_phases:
  assumes "contract_ok package spec" and "lifecycle_reachable package spec s" and "lifecycle_step package spec s s'"
  shows "(phase_step (length (ls_checkpoints spec)))\<^sup>*\<^sup>* (at_phase 0 False False) (phase_of s)
    \<and> (phase_of s' \<noteq> phase_of s \<longrightarrow> phase_step (length (ls_checkpoints spec)) (phase_of s) (phase_of s'))
    \<and> (ru_status s = Run_Complete \<longleftrightarrow> submitted_count s = length (ls_checkpoints spec))"
proof -
  note tracks = reachable_tracks [OF assms(1,2)]
  have "ru_status s = Run_Complete \<longleftrightarrow> submitted_count s = length (ls_checkpoints spec)"
    using tracks(2) by (simp add: phase_ok_def phase_of_def at_phase_def)
  then show ?thesis using tracks(3) step_phase [OF assms(1,3) tracks(1)] by blast
qed

theorem lifecycle_refines_phases_witness:
  "phase_of demo_submit \<noteq> phase_of demo_asked \<and> phase_step 2 (phase_of demo_asked) (phase_of demo_submit)"
proof -
  have "length (ls_checkpoints demo_spec) = 2" by (simp add: demo_simps)
  moreover have changed: "phase_of demo_submit \<noteq> phase_of demo_asked"
    by (simp add: phase_of_def at_phase_def demo_submit_def demo_asked_fields)
  ultimately show ?thesis
    using lifecycle_refines_phases [OF demo_contract demo_reachable(2) lifecycle_step.Submit [OF demo_4]] by simp
qed

section \<open>Budgets\<close>

lemma request_chain_count:
  "request_budget_chain i m as = Inr r \<Longrightarrow> (\<forall>a\<in>set as. isOK (validate_request_action a))
     \<Longrightarrow> r = m - int (length (filter (\<lambda>a. aq_outcome a = Rq_Released) as))"
proof (induction as arbitrary: m)
  case (Cons a as)
  have "aq_budget_after a = aq_budget_before a - (if aq_outcome a = Rq_Released then 1 else 0)"
    using Cons.prems(2) by (auto simp: request_action_iff request_outcome_ok_def split: request_outcome.splits)
  moreover have "aq_budget_before a = m" "request_budget_chain i (aq_budget_after a) as = Inr r"
    using Cons.prems(1) by (auto simp: bindE_eq_Inr_iff guardE_eq_Inr_iff)
  ultimately show ?case using Cons.IH [of "aq_budget_after a"] Cons.prems(2) by auto
qed simp

lemma operation_chain_count:
  "operation_budget_chain i m as = Inr r \<Longrightarrow> (\<forall>a\<in>set as. isOK (validate_operation_action a))
     \<Longrightarrow> r = m - int (length (filter (\<lambda>a. ao_outcome a = Oo_Completed) as))"
proof (induction as arbitrary: m)
  case (Cons a as)
  have "ao_budget_after a = ao_budget_before a - (if ao_outcome a = Oo_Completed then 1 else 0)"
    using Cons.prems(2) by (auto simp: validate_operation_action_def isOK_bindE_const bindE_guardE_OK checked_iff
        operation_outcome_ok_def split: operation_outcome.splits)
  moreover have "ao_budget_before a = m" "operation_budget_chain i (ao_budget_after a) as = Inr r"
    using Cons.prems(1) by (auto simp: bindE_eq_Inr_iff guardE_eq_Inr_iff)
  ultimately show ?case using Cons.IH [of "ao_budget_after a"] Cons.prems(2) by auto
qed simp

lemma reachable_good: "contract_ok package spec \<Longrightarrow> lifecycle_reachable package spec s \<Longrightarrow> run_good spec s"
  using reachable_tracks(1) by (simp add: state_ok_def)

text \<open>
  C5. At every checkpoint the releases and what is left of the request budget add up to the declared budget, and
  so do the completed operations: neither budget is ever exceeded, over branches too.
\<close>

theorem budgets_respected:
  assumes "contract_ok package spec" and "lifecycle_reachable package spec s" and "i < length (ls_checkpoints spec)"
  shows "int (length (filter (\<lambda>a. aq_outcome a = Rq_Released) (cr_request_actions (ru_checkpoints s ! i))))
        + cr_request_remaining (ru_checkpoints s ! i) = declared_request_budget (ls_checkpoints spec ! i)
    \<and> 0 \<le> cr_request_remaining (ru_checkpoints s ! i)
    \<and> int (length (filter (\<lambda>a. ao_outcome a = Oo_Completed) (cr_operation_actions (ru_checkpoints s ! i))))
        + cr_operation_remaining (ru_checkpoints s ! i) = declared_operation_budget (ls_checkpoints spec ! i)
    \<and> 0 \<le> cr_operation_remaining (ru_checkpoints s ! i)"
proof -
  let ?c = "ru_checkpoints s ! i" and ?d = "ls_checkpoints spec ! i"
  have good: "run_good spec s" by (rule reachable_good [OF assms(1,2)])
  have i: "i < length (ru_checkpoints s)" using assms(3) good_total [OF good] by simp
  have "record_good ?c" using good_record [OF good] i by simp
  then have chains: "requests_ok ?c" "operations_ok ?c" by (simp_all add: record_good_def checkpoint_run_iff)
  have "isOK (validate_request_checkpoint s ?c ?d)"
    using good i by (simp add: run_good_def list_all2_conv_all_nth)
  then have requests: "cr_request_budget ?c = declared_request_budget ?d" by (simp add: request_checkpoint_iff)
  have old: "ru_checkpoints s = take i (ru_checkpoints s) @ ?c # drop (Suc i) (ru_checkpoints s)"
    by (rule id_take_nth_drop [OF i])
  have ids: "distinct (map cs_checkpoint_id (ls_checkpoints spec))" using assms(1) by (simp add: contract_ok_def validated_ids)
  obtain d where d: "find_row cs_checkpoint_id (cr_checkpoint_id ?c) (ls_checkpoints spec) = Some d"
    and replay: "operations_replay s (operations_of (take i (ru_checkpoints s))) ?c d"
    using good_contract [OF good ids old] by metis
  have "map cr_checkpoint_id (ru_checkpoints s) ! i = map cs_checkpoint_id (ls_checkpoints spec) ! i"
    using good by (simp add: run_good_def)
  then have "cr_checkpoint_id ?c = cs_checkpoint_id ?d" using i assms(3) by simp
  then have "d = ?d" using d find_row_nth [OF ids assms(3)] by simp
  then have operations: "cr_operation_budget ?c = declared_operation_budget ?d" using replay by (simp add: operations_replay_def)
  have "request_budget_chain (cr_checkpoint_id ?c) (cr_request_budget ?c) (cr_request_actions ?c) = Inr (cr_request_remaining ?c)"
    "\<forall>a\<in>set (cr_request_actions ?c). isOK (validate_request_action a)" "0 \<le> cr_request_remaining ?c"
    using chains(1) unfolding requests_ok_def by blast+
  note released = request_chain_count [OF this(1,2)] this(3)
  have "operation_budget_chain (cr_checkpoint_id ?c) (cr_operation_budget ?c) (cr_operation_actions ?c) = Inr (cr_operation_remaining ?c)"
    "\<forall>a\<in>set (cr_operation_actions ?c). isOK (validate_operation_action a)" "0 \<le> cr_operation_remaining ?c"
    using chains(2) unfolding operations_ok_def by blast+
  note completed = operation_chain_count [OF this(1,2)] this(3)
  show ?thesis using released completed requests operations by linarith
qed

theorem budgets_respected_witness:
  "int (length (filter (\<lambda>a. aq_outcome a = Rq_Released) (cr_request_actions demo_asked_run)))
     + cr_request_remaining demo_asked_run = 1 \<and> 0 \<le> cr_request_remaining demo_asked_run"
  using budgets_respected [OF demo_contract demo_reachable(2), of 0]
  by (simp add: demo_asked_fields demo_simps declared_request_budget_def)

section \<open>Evidence is released in order\<close>

lemma replay_releases_justified:
  assumes "replay_requests s c conditional budget m [] (releases_of []) (as @ a # bs) = Inr r" and "aq_outcome a = Rq_Released"
  shows "\<exists>q. find_request (aq_request_id a) conditional = Some q
      \<and> set (rq_prerequisites q) \<subseteq> aq_request_id ` set (filter (\<lambda>a. aq_outcome a = Rq_Released) as)
      \<and> aq_request_id a \<notin> aq_request_id ` set (filter (\<lambda>a. aq_outcome a = Rq_Released) as)"
proof -
  have split: "\<exists>k. replay_requests s c conditional budget m [] (releases_of []) (xs @ [a]) = Inr k"
    if "replay_requests s c conditional budget m [] (releases_of []) (xs @ [a] @ ys) = Inr r" for xs ys r
    using that
  proof (induction ys arbitrary: r rule: rev_induct)
    case (snoc y ys)
    then show ?case
      using replay_requests_snoc [of s c conditional budget m "[]" "xs @ [a] @ ys" y r] by auto
  qed simp
  then obtain k where "replay_requests s c conditional budget m [] (releases_of []) (as @ [a]) = Inr k"
    using assms(1) by (metis append_Cons append_Nil)
  then obtain n where "replay_step_ok s c conditional budget n as a"
    using replay_requests_snoc [of s c conditional budget m "[]" as a k] by auto
  then have "isOK (replay_outcome c conditional n (releases_of as) a)" by (simp add: replay_step_ok_def)
  then show ?thesis
    using assms(2) by (auto simp: replay_outcome_def Let_def bindE_guardE_OK map_of_eq_None_iff releases_keys split: option.splits)
qed

text \<open>
  C10. A piece of evidence that was released was declared at its checkpoint, was released once only, and all its
  prerequisites had been released before it, at the same checkpoint.
\<close>

theorem releases_justified:
  assumes "contract_ok package spec" and "lifecycle_reachable package spec s" and "i < length (ls_checkpoints spec)"
    and "cr_request_actions (ru_checkpoints s ! i) = as @ a # bs" and "aq_outcome a = Rq_Released"
  shows "\<exists>q. find_request (aq_request_id a) (cs_evidence (ls_checkpoints spec ! i)) = Some q
      \<and> set (rq_prerequisites q) \<subseteq> aq_request_id ` set (filter (\<lambda>a. aq_outcome a = Rq_Released) as)
      \<and> aq_request_id a \<notin> aq_request_id ` set (filter (\<lambda>a. aq_outcome a = Rq_Released) as)"
proof -
  let ?c = "ru_checkpoints s ! i" and ?d = "ls_checkpoints spec ! i"
  have good: "run_good spec s" by (rule reachable_good [OF assms(1,2)])
  have "i < length (ru_checkpoints s)" using assms(3) good_total [OF good] by simp
  then have "isOK (validate_request_checkpoint s ?c ?d)" using good by (simp add: run_good_def list_all2_conv_all_nth)
  then have "replay_requests s ?c (cs_evidence ?d) (cr_request_budget ?c) (cr_request_budget ?c) [] (releases_of [])
      (as @ a # bs) = Inr (cr_request_remaining ?c)"
    unfolding request_checkpoint_iff assms(4) by blast
  then show ?thesis by (rule replay_releases_justified [OF _ assms(5)])
qed

theorem releases_justified_witness:
  "\<exists>q. find_request (aq_request_id demo_action) (cs_evidence demo_site) = Some q \<and> set (rq_prerequisites q) \<subseteq> {}"
proof -
  have "cr_request_actions demo_asked_run = [] @ demo_action # []"
    by (simp add: demo_asked_run_def with_request_def demo_opened_fields)
  moreover have "aq_outcome demo_action = Rq_Released"
    by (simp add: demo_action_def final_request_def demo_draft_def draft_request_def Let_def)
  ultimately show ?thesis
    using releases_justified [OF demo_contract demo_reachable(2), of 0 "[]" demo_action "[]"]
    by (simp add: demo_asked_fields demo_simps)
qed

section \<open>One attempt at a time\<close>

text \<open>
  C18. Over the whole run at most one attempt is active; it is an attempt of the active checkpoint and none that a
  branch has inherited.
\<close>

theorem one_active_attempt:
  assumes "contract_ok package spec" and "lifecycle_reachable package spec s"
    and "c \<in> set (ru_checkpoints s)" and "t \<in> set (cr_attempts c)" and "ct_status t = Ca_Active"
  shows "ru_active s = Some (cr_checkpoint_id c) \<and> \<not> ct_inherited t
    \<and> filter (\<lambda>u. ct_status u = Ca_Active) (concat (map cr_attempts (ru_checkpoints s))) = [t]"
proof -
  have good: "run_good spec s" by (rule reachable_good [OF assms(1,2)])
  have own: "active_is_own e" if "e \<in> set (ru_checkpoints s)" for e
    using good_record [OF good that] by (simp add: record_good_def)
  have active: "cr_status c = Cp_Active" and new: "\<not> ct_inherited t"
    using own [OF assms(3)] assms(4,5) by (auto simp: active_is_own_def)
  obtain sh where sh: "has_shape s sh" using good by (auto simp: run_good_def)
  obtain subs pend where busy: "has_shape s (Busy subs c pend)"
    using sh assms(3) active by (cases sh) auto
  have none: "filter (\<lambda>u. ct_status u = Ca_Active) (concat (map cr_attempts es)) = []"
    if "\<forall>e\<in>set es. e \<in> set (ru_checkpoints s) \<and> cr_status e \<noteq> Cp_Active" for es
    using that own by (fastforce simp: filter_empty_conv active_is_own_def)
  have "filter (\<lambda>u. ct_status u = Ca_Active) (concat (map cr_attempts (ru_checkpoints s)))
      = filter (\<lambda>u. ct_status u = Ca_Active) (cr_attempts c)"
    using busy none [of subs] none [of pend] by simp
  moreover have "length (filter (\<lambda>u. ct_status u = Ca_Active) (cr_attempts c)) \<le> 1"
    using good_record [OF good assms(3)] by (simp add: record_good_def checkpoint_run_iff attempts_ok_def)
  moreover have "t \<in> set (filter (\<lambda>u. ct_status u = Ca_Active) (cr_attempts c))" using assms(4,5) by simp
  ultimately have "filter (\<lambda>u. ct_status u = Ca_Active) (concat (map cr_attempts (ru_checkpoints s))) = [t]"
    by (cases "filter (\<lambda>u. ct_status u = Ca_Active) (cr_attempts c)") auto
  then show ?thesis using busy new by simp
qed

theorem one_active_attempt_witness:
  "ru_active demo_asked = Some (cr_checkpoint_id demo_asked_run)
    \<and> filter (\<lambda>u. ct_status u = Ca_Active) (concat (map cr_attempts (ru_checkpoints demo_asked))) = [demo_attempt]"
proof -
  have "demo_attempt \<in> set (cr_attempts demo_asked_run)" "ct_status demo_attempt = Ca_Active"
    by (simp_all add: demo_asked_run_def with_request_def demo_opened_run_def demo_attempt_def new_attempt_def)
  then show ?thesis
    using one_active_attempt [OF demo_contract demo_reachable(2), of demo_asked_run demo_attempt] by (simp add: demo_asked_fields(3))
qed

section \<open>The next checkpoint can be released\<close>

lemma sort_Nil_iff: "sort xs = [] \<longleftrightarrow> xs = []"
  by (metis length_0_conv length_sort)

lemma dependencies_earlier:
  "isOK (check_dependencies previous ds) \<Longrightarrow> i < length ds
     \<Longrightarrow> set (cs_depends_on (ds ! i)) \<subseteq> set previous \<union> set (map cs_checkpoint_id (take i ds))"
proof (induction previous ds arbitrary: i rule: check_dependencies.induct)
  case (2 previous c cs)
  have here: "set (cs_depends_on c) \<subseteq> set previous"
  proof -
    have "remdups (filter (\<lambda>d. d \<notin> set previous) (cs_depends_on c)) = []"
      using 2(2) by (simp add: Let_def isOK_bindE_const bindE_guardE_OK sort_Nil_iff)
    then show ?thesis by (auto simp: filter_empty_conv)
  qed
  have rest: "isOK (check_dependencies (cs_checkpoint_id c # previous) cs)"
    using 2(2) by (simp add: Let_def bindE_guardE_OK)
  show ?case
  proof (cases i)
    case 0
    then show ?thesis using here by simp
  next
    case (Suc j)
    then show ?thesis using 2(1) [OF refl rest] 2(3) by (auto split: if_splits)
  qed
qed simp

lemma transition_valid:
  "\<not> py_blank reason \<Longrightarrow> isOK (validate_transition_record \<lparr>lt_transition_id = transition_id n, lt_kind = k, lt_from = a,
     lt_to = b, lt_reason = reason\<rparr>)"
  by (simp add: validate_transition_record_def isOK_bindE_const transition_id_def py_blank_def is_py_space_def)



section \<open>A repeated request\<close>

lemma record_returns:
  assumes shape: "has_shape s (Busy subs c pend)" and ids: "distinct (map cr_checkpoint_id (ru_checkpoints s))"
    and t: "active_attempt c = Some t"
    and released: "action_artifacts (request_action_id (1 + length (all_request_actions s))) (cr_checkpoint_id c) request_id
      outcome artifacts source = Inr released"
    and valid: "isOK (validate_request_action (draft_request (1 + length (all_request_actions s)) c t requested request_id
      reason outcome rejection released (request_pre s c)))"
  shows "\<exists>a s'. record_request_action s requested request_id reason (ct_session_id t) outcome rejection artifacts source = Inr (a, s')"
proof -
  let ?i = "cr_checkpoint_id c"
  have middle: "ru_checkpoints s = subs @ c # pend" and active: "ru_active s = Some ?i" using shape by simp_all
  have pre: "request_state_sha256 s ?i = Inr (request_pre s c)"
    by (simp add: request_state_sha256_def index_middle [OF middle ids] request_pre_def)
  have post: "\<exists>h. request_state_sha256 (map_checkpoint ?i (with_request b) s) ?i = Inr h" for b
  proof -
    let ?s = "s\<lparr>ru_checkpoints := subs @ with_request b c # pend\<rparr>"
    have "index_checkpoint ?s (cr_checkpoint_id (with_request b c)) = Inr (with_request b c)"
      by (rule index_middle) (use ids middle in \<open>simp_all add: with_request_def\<close>)
    then show ?thesis by (simp add: request_state_sha256_def map_checkpoint_middle [OF middle ids] with_request_def)
  qed
  have logged: "\<exists>s'. append_transition Tk_Evidence_Request ?i (''Conditional evidence request '' @ x) r = Inr s'" for x r
  proof -
    have "\<not> py_blank (''Conditional evidence request '' @ x)" by (simp add: py_blank_def is_py_space_def)
    then show ?thesis
      using transition_valid by (fastforce simp: append_transition_def record_transition_Inr bindE_eq_Inr_iff)
  qed
  show ?thesis
    using valid released pre post logged
    by (simp add: record_request_action_def active index_middle [OF middle ids] t bindE_eq_Inr_iff validated_Inr
        validate_request_action_Inr Let_def guardE_eq_Inr_iff) metis
qed

lemma recorded_cost:
  assumes "has_shape s (Busy subs c pend)" and "distinct (map cr_checkpoint_id (ru_checkpoints s))"
    and "record_request_action s requested request_id reason session outcome rejection artifacts source = Inr (a, s')"
  shows "aq_budget_consumed a = (if outcome = Rq_Released then 1 else 0)"
  by (rule record_cases [OF assms]) (drule final_fields(12), assumption, simp)

lemma zero_sha256_ok: "is_sha256 zero_sha256"
  by code_simp



section \<open>The origin of a branch\<close>

text \<open>
  C19. Nothing that is done in a branch touches what it has inherited: as long as the copied submission of the
  branch point is unchanged, every later call accepts the recorded state of the parent.
\<close>

theorem branch_origin_stable:
  assumes "contract_ok package spec" and "lifecycle_reachable package spec s" and "ru_branch s = Some b"
    and "rf_origin files (lb_from_checkpoint b) = Some bytes" and "sha256 bytes = lb_parent_submission b"
  shows "check_branch_origin files s = Inr ()"
proof -
  have "origin_intact s" by (rule reachable_origin [OF assms(1,2)])
  then show ?thesis using assms(3-5) by (simp add: unit_OK check_branch_origin_def origin_intact_def isOK_bindE_const)
qed

theorem branch_origin_stable_witness: "check_branch_origin demo_branch_files demo_branch = Inr ()"
proof -
  have "ru_branch demo_branch = Some demo_lineage" by (simp add: demo_branch_def demo_reopened_def branched_state_def)
  moreover have "rf_origin demo_branch_files (lb_from_checkpoint demo_lineage) = Some ''{}''"
    "sha256 ''{}'' = lb_parent_submission demo_lineage"
    by (simp_all add: demo_branch_files_def demo_lineage_def)
  ultimately show ?thesis by (rule branch_origin_stable [OF demo_contract demo_reachable(4)])
qed

end
