(* ===== verification/Lifecycle_Episode_Properties.thy ===== *)
theory Lifecycle_Episode_Properties
  imports Lifecycle_Episode_Loop Lifecycle_Episode_Close Lifecycle_Properties
begin

text \<open>
  What \<^verbatim>\<open>run_lifecycle\<close> guarantees, for every environment that changes the run through the calls of the
  runtime only, with a concrete environment for each property.
\<close>

section \<open>An example\<close>

text \<open>A run of the small lifecycle whose environment does nothing but answer.\<close>

definition demo_setup :: run_setup where
  "demo_setup = \<lparr>rs_package = demo_package, rs_resolver = None, rs_authorization = None, rs_workspace = ''work'',
     rs_run_dir = ''run'', rs_json = demo_codec,
     rs_codec = \<lparr>dc_render_request = (\<lambda>_. ''q''), dc_parse_request = (\<lambda>_. None), dc_render_result = (\<lambda>_. ''r''),
       dc_parse_result = (\<lambda>_. None)\<rparr>,
     rs_view = \<lparr>wv_instruction = (\<lambda>_. ''Look.''), wv_operation_catalog = (\<lambda>_ _. None), wv_current_source = (\<lambda>_. None)\<rparr>\<rparr>"

definition demo_environment :: "execution_answer \<Rightarrow> episode_environment" where
  "demo_environment answer = \<lparr>en_mode = Em_Fresh_Context, en_visibility = Vp_Current_Release_Only, en_adapter = ''tool'',
     en_model = ''m'', en_max_turns = 5, en_recover = (\<lambda>_. returnS ()), en_prepare = (\<lambda>_. returnS ()),
     en_record_failure = (\<lambda>_ _ _. returnS ()), en_execute = (\<lambda>_ h. (answer, h))\<rparr>"

text \<open>The host at an open attempt, and at a fresh run.\<close>

definition demo_host :: "run_state option \<Rightarrow> host" where
  "demo_host run = \<lparr>ho_run = run, ho_files = demo_files, ho_documents = (\<lambda>_. None), ho_kept = (\<lambda>_. None)\<rparr>"

definition demo_request :: episode_request where
  "demo_request = \<lparr>er_episode_id = ''demo.site.attempt-001'', er_lifecycle_id = ''demo'', er_spec_sha256 = zero_sha256,
     er_package_sha256 = zero_sha256, er_checkpoint_id = ''site'', er_checkpoint_ids = [''site''],
     er_attempt_id = ''site.attempt-001'', er_session_id = ''s1'', er_mode = Em_Fresh_Context,
     er_visibility = Vp_Current_Release_Only, er_adapter = ''tool'', er_model = ''m'', er_max_turns = 5, er_title = ''Site'',
     er_instruction = ''Look.'', er_workspace = ''work'', er_run_dir = ''run'', er_instruction_path = ''instruction.md'',
     er_submission_path = ''submissions/site.json'', er_released_files = [''brief.txt''], er_request_catalog = None,
     er_released_artifacts = [], er_operation_catalog = None, er_current_source = None, er_operation_artifacts = [],
     er_completed = []\<rparr>"

definition demo_result :: episode_result where
  "demo_result = \<lparr>es_episode_id = ''demo.site.attempt-001'', es_attempt_id = ''site.attempt-001'', es_session_id = ''s1'',
     es_checkpoint_ids = [''site''], es_mode = Em_Fresh_Context, es_visibility = Vp_Current_Release_Only,
     es_status = Es_Completed, es_requested_adapter = ''tool'', es_requested_model = ''m'', es_max_turns = 5,
     es_adapter = ''tool'', es_resolved_model = ''m'', es_configuration = [],
     es_usage = \<lparr>us_input = 1, us_output = 1, us_cache_read = 0, us_cache_write = 0\<rparr>, es_failure_kind = None,
     es_provider_error = None\<rparr>"

lemma demo_setup_fields:
  "rs_package demo_setup = demo_package" "rs_resolver demo_setup = None" "rs_json demo_setup = demo_codec"
  "dc_render_request (rs_codec demo_setup) q = ''q''" "dc_render_result (rs_codec demo_setup) r = ''r''"
  by (simp_all add: demo_setup_def)

lemma demo_execute: "en_execute (demo_environment answer) q h = (answer, h)"
  by (simp add: demo_environment_def)

lemma demo_environment_ok: "environment_ok package spec (demo_environment answer)"
  by (auto simp: environment_ok_def run_advances_def demo_environment_def returnS_def split: option.split)

text \<open>An environment in the process is one, whatever runtime calls its executor makes.\<close>

lemma in_process_ok:
  assumes "in_process_environment executor policy mode adapter model n = Inr en"
    and "\<And>q h. run_advances package spec h (snd (executor q h))"
  shows "environment_ok package spec en"
proof -
  have run: "snd (in_process_execute executor q h) = snd (executor q h)" for q h
    by (simp add: in_process_execute_def split: prod.split execution_answer.split sum.split)
  have "run_advances package spec h h" for h by (simp add: run_advances_def split: option.split)
  then show ?thesis using assms run
    by (auto simp: in_process_environment_def bindE_eq_Inr_iff environment_ok_def returnS_def)
qed

lemma demo_setup_ok: "setup_ok demo_setup demo_spec"
proof -
  have "load_spec demo_package = Inr demo_spec"
    using demo_spec_valid by (auto simp: load_spec_def demo_package_def validated_Inr isOK_iff validate_lifecycle_spec_def
      bindE_eq_Inr_iff)
  then show ?thesis using demo_contract by (simp add: setup_ok_def demo_setup_fields)
qed

lemma demo_episode_ok: "episode_ok demo_setup demo_spec (demo_environment answer)"
  by (simp add: episode_ok_def demo_setup_ok demo_environment_ok)

lemma demo_closing_ok: "closing_ok demo_setup demo_spec (demo_environment answer)"
  by (simp add: closing_ok_def demo_episode_ok resolver_supplied_def demo_simps demo_setup_fields)

lemma demo_held: "held (rs_package demo_setup) demo_spec 0 (demo_host (Some demo_asked))" "held (rs_package demo_setup) demo_spec 0 (demo_host None)"
  using demo_reachable(2) by (simp_all add: held_def demo_host_def demo_setup_fields)

lemma demo_request_valid: "isOK (validate_episode_request demo_request)"
  by code_simp

section \<open>The loop ends\<close>

text \<open>
  C6. \<^verbatim>\<open>run_lifecycle\<close> returns, whatever the environment answers and whatever calls of the runtime it makes:
  it raises, or its result is the stored state, which is reachable and complete, with every checkpoint of the
  contract submitted. The loop has no bound of its own; each round that goes on submits a checkpoint.
\<close>

theorem run_lifecycle_returns:
  assumes "episode_ok su spec en" and "held (rs_package su) spec 0 h"
  shows "\<exists>r h'. run_lifecycle su en h = Some (r, h') \<and> held (rs_package su) spec 0 h'
    \<and> (case r of Inl e \<Rightarrow> True
       | Inr s \<Rightarrow> ho_run h' = Some s \<and> ru_status s = Run_Complete \<and> submitted_count s = length (ls_checkpoints spec))"
  using run_checkpoints_returns [OF assms, of "Suc (length (ls_checkpoints spec))"] assms(2)
  by (auto simp: run_lifecycle_def ended_def)

theorem run_lifecycle_returns_witness:
  "\<exists>en r h'. deterministic_environment (\<lambda>q h. (Answered demo_result, h)) = Inr en
    \<and> run_lifecycle demo_setup en (demo_host None) = Some (r, h') \<and> held (rs_package demo_setup) demo_spec 0 h'
    \<and> (case r of Inl e \<Rightarrow> True
       | Inr s \<Rightarrow> ho_run h' = Some s \<and> ru_status s = Run_Complete \<and> submitted_count s = length (ls_checkpoints demo_spec))"
proof -
  let ?executor = "\<lambda>q h. (Answered demo_result, h)"
  have "validate_mode_visibility Em_Fresh_Context Vp_Artifact_Memory = Inr ()" by code_simp
  then obtain en where en: "deterministic_environment ?executor = Inr en"
    by (simp add: deterministic_environment_def in_process_environment_def)
  have "environment_ok (rs_package demo_setup) demo_spec en"
    using en unfolding deterministic_environment_def
    by (rule in_process_ok) (simp add: run_advances_def split: option.split)
  then have "episode_ok demo_setup demo_spec en" by (simp add: episode_ok_def demo_setup_ok)
  from run_lifecycle_returns [OF this demo_held(2)] en show ?thesis by blast
qed

section \<open>A failed episode\<close>


lemma demo_active: "session_active ''s1'' (demo_host (Some demo_asked))"
proof -
  have "active_attempt demo_asked_run = Some demo_attempt"
    by (simp add: active_attempt_def demo_asked_run_def with_request_def demo_opened_run_def demo_attempt_def new_attempt_def)
  then show ?thesis
    using demo_asked_fields(4) demo_edit(2) [OF demo_asked_fields(3,1)] demo_opened_fields(3)
    by (simp add: session_active_def demo_host_def)
qed

lemma fail_episode_raises: "\<exists>e' h'. fail_episode su en q kind t e h = (Inl e', h')"
proof -
  have "fst (fail_episode su en q kind t e h) \<noteq> Inr x" for x
    by (auto simp: fail_episode_def bindS_apply split: prod.split sum.split)
  then show ?thesis by (metis obj_sumE prod.collapse)
qed


text \<open>
  C23. A failure whose text is white space only is not closed: the failed result does not validate, the run raises that
  validation error instead of the failure, and the host is left as the environment left it, the attempt active.
\<close>

theorem blank_failure_leaves_attempt:
  assumes "en_execute en q h = (Raised t, h')" and "t \<noteq> []" and "py_blank t"
  shows "\<exists>m. finish_checkpoint su en q [] h = (Inl (Runtime_Error (Validation_Error m)), h')"
proof -
  have "\<not> isOK (failed_result q kind (Some t))" for kind
    using assms(2,3) by (auto simp: failed_result_def validate_episode_result_def isOK_bindE_const opt_list_def)
  then obtain m where "failed_result q ''episode_environment_exception'' (Some t) = Inl m" by (auto simp: isOK_iff) (metis obj_sumE)
  then show ?thesis
    by (simp add: finish_checkpoint_def bindS_apply assms(1) accept_answer_def fail_episode_def validE_def liftE_def validated_def)
qed

theorem blank_failure_leaves_attempt_witness:
  "\<exists>m h'. finish_checkpoint demo_setup (demo_environment (Raised '' '')) demo_request [] (demo_host (Some demo_asked))
      = (Inl (Runtime_Error (Validation_Error m)), h') \<and> session_active ''s1'' h'"
proof -
  have "py_blank '' ''" by code_simp
  then show ?thesis
    using blank_failure_leaves_attempt [of "demo_environment (Raised '' '')" demo_request "demo_host (Some demo_asked)" "'' ''"
        "demo_host (Some demo_asked)" demo_setup] demo_active by (auto simp: demo_execute)
qed

section \<open>A submission\<close>

lemma ends_any: "ends P m (\<lambda>_. True) (\<lambda>_ _. True)"
  by (auto simp: ends_def split: prod.split sum.split)

lemma ends_raising: "ends P (bindS m (\<lambda>x. raiseS (f x))) (\<lambda>_. True) Q"
  by (rule ends_bindS [OF ends_any]) (simp add: ends_def)

lemma fail_episode_ends: "ends P (fail_episode su en q kind t e) (\<lambda>_. True) Q"
  unfolding ends_def using fail_episode_raises by (metis (mono_tags, lifting) case_prod_conv old.sum.simps(5))

definition durable :: "run_setup \<Rightarrow> episode_request \<Rightarrow> episode_result \<Rightarrow> host \<Rightarrow> bool" where
  "durable su q r h \<longleftrightarrow> isOK (validate_episode_result r) \<and> isOK (validate_result_identity q r)
     \<and> ho_documents h (request_key q result_document) = Some (dc_render_result (rs_codec su) r)"

lemma persist_ends:
  "ends (\<lambda>_. True) (persist_or_close su en q name r) (\<lambda>_. True)
     (\<lambda>_ h. ho_documents h (request_key q name) = Some (dc_render_result (rs_codec su) r))"
  unfolding persist_or_close_def
proof (rule ends_catchS)
  show "ends (\<lambda>_. True) (persist_result su q name r) (\<lambda>_. True)
     (\<lambda>_ h. ho_documents h (request_key q name) = Some (dc_render_result (rs_codec su) r))"
    by (auto simp: ends_def persist_result_def persist_document_def split: option.split)
qed (rule ends_raising)

lemma validated_result: "validate_episode_result r = Inr r' \<Longrightarrow> r' = r"
  by (auto simp: validate_episode_result_def bindE_eq_Inr_iff)

lemma accept_ends: "ends (\<lambda>_. True) (accept_answer su en q answer) (\<lambda>_. True) (durable su q)"
proof (cases answer)
  case (Answered r)
  have agreed: "ends (\<lambda>_. True) (bindS (persist_or_close su en q result_document r) (\<lambda>_. returnS r)) (\<lambda>_. True) (durable su q)"
    if "isOK (validate_episode_result r)" "isOK (validate_result_identity q r)"
    by (rule ends_bindS [OF persist_ends], rule ends_returnS) (simp add: durable_def that)
  have foreign: "ends (\<lambda>_. True) (bindS (persist_or_close su en q rejected_document r) (\<lambda>_. fail_episode su en q kind t e))
      (\<lambda>_. True) (durable su q)" for kind t e
    by (rule ends_bindS [OF ends_any fail_episode_ends])
  show ?thesis
  proof (cases "validate_episode_result r")
    case (Inr r')
    then show ?thesis using validated_result [OF Inr] agreed foreign
      by (cases "validate_result_identity q r") (simp_all add: accept_answer_def Answered isOK_iff)
  qed (simp add: accept_answer_def Answered fail_episode_ends)
qed (simp_all add: accept_answer_def fail_episode_ends)

lemma submit_durable:
  "ends (durable su q r) (submit_host su) (\<lambda>_. True) (\<lambda>s h. ho_run h = Some s \<and> durable su q r h)"
proof -
  have keep: "ends (durable su q r) (liftE f) (\<lambda>_. True) (\<lambda>_. durable su q r)" for f :: "host \<Rightarrow> lifecycle_error + 'a"
    by (rule ends_liftE) simp_all
  have put: "ends (durable su q r) (update_host (\<lambda>h. h\<lparr>ho_files := files, ho_run := Some s\<rparr>)) (\<lambda>_. True)
      (\<lambda>_ h. ho_run h = Some s \<and> durable su q r h)" for files s
    by (rule ends_update) (simp add: durable_def)
  show ?thesis
    unfolding submit_host_def load_host_def case_prod_unfold
    by (intro ends_bindS [OF keep] ends_bindS [OF put] ends_returnS)
qed

text \<open>
  C8. A checkpoint is submitted only after preparation has made no reserved artifact and a completed result, valid and
  with the identity of the request, is durable in the run directory.
\<close>

theorem submission_follows_result:
  assumes "finish_checkpoint su en q violations h = (Inr s, h')"
  shows "violations = [] \<and> ho_run h' = Some s \<and> (\<exists>r. isOK (validate_episode_result r) \<and> isOK (validate_result_identity q r)
    \<and> es_status r = Es_Completed
    \<and> ho_documents h' (request_key q result_document) = Some (dc_render_result (rs_codec su) r))"
proof -
  let ?Q = "\<lambda>s h. violations = [] \<and> ho_run h = Some s \<and> (\<exists>r. es_status r = Es_Completed \<and> durable su q r h)"
  have submit: "ends (durable su q r) (catchS (submit_host su) (\<lambda>_. True) (\<lambda>e.
      bindS (close_failure su en q ''episode_submission_invalid'' (Some (error_text e))) (\<lambda>notes.
      raiseS (annotated e notes)))) (\<lambda>_. True) ?Q" if "es_status r \<noteq> Es_Failed" "\<not> violations \<noteq> []" for r
    using that by (intro ends_catchS [OF ends_weaken [OF submit_durable]] ends_raising) (auto intro: episode_status.exhaust)
  have "ends (\<lambda>_. True) (finish_checkpoint su en q violations) (\<lambda>_. True) ?Q"
    unfolding finish_checkpoint_def Let_def
    by (intro ends_if fail_episode_ends ends_bindS [OF ends_any] ends_bindS [OF accept_ends] ends_raising submit)
  from endsD(2) [OF this TrueI assms] show ?thesis by (auto simp: durable_def)
qed

lemma demo_finish:
  "\<exists>h'. finish_checkpoint demo_setup (demo_environment (Answered demo_result)) demo_request [] (demo_host (Some demo_asked))
      = (Inr demo_submit, h')"
proof -
  let ?h = "(demo_host (Some demo_asked))\<lparr>ho_documents := (\<lambda>_. None)(request_key demo_request result_document := Some ''r'')\<rparr>"
  have valid: "isOK (validate_episode_result demo_result)" "validate_result_identity demo_request demo_result = Inr ()" by code_simp+
  then have parsed: "validate_episode_result demo_result = Inr demo_result" using validated_result by (auto simp: isOK_iff)
  have "held (rs_package demo_setup) demo_spec 0 ?h" using demo_held(1) held_run [of ?h "demo_host (Some demo_asked)"] by simp
  then have "load_host demo_setup ?h = (Inr (demo_spec, demo_asked), ?h)"
    using load_host_runs [OF demo_setup_ok] demo_closing_ok by (auto simp: closing_ok_def demo_host_def)
  then have submit: "submit_host demo_setup ?h = (Inr demo_submit, ?h\<lparr>ho_files := demo_archived, ho_run := Some demo_submit\<rparr>)"
    using demo_4 by (simp add: submit_host_def bindS_apply liftE_def update_host_def demo_setup_fields demo_host_def)
  have completed: "es_status demo_result = Es_Completed" by (simp add: demo_result_def)
  have "accept_answer demo_setup (demo_environment (Answered demo_result)) demo_request (Answered demo_result)
      (demo_host (Some demo_asked)) = (Inr demo_result, ?h)"
    by (simp add: accept_answer_def parsed valid persist_or_close_def persist_result_def persist_document_def catchS_def
        bindS_apply demo_setup_fields) (simp add: demo_host_def)
  then show ?thesis
    by (simp add: finish_checkpoint_def bindS_apply demo_execute completed submit catchS_def)
qed

theorem submission_follows_result_witness:
  "\<exists>h'. finish_checkpoint demo_setup (demo_environment (Answered demo_result)) demo_request [] (demo_host (Some demo_asked))
      = (Inr demo_submit, h')
    \<and> ho_documents h' (request_key demo_request result_document) = Some ''r'' \<and> ho_run h' = Some demo_submit"
proof -
  obtain h' where run: "finish_checkpoint demo_setup (demo_environment (Answered demo_result)) demo_request [] (demo_host (Some demo_asked))
      = (Inr demo_submit, h')"
    using demo_finish by blast
  then show ?thesis using submission_follows_result [OF run] by (auto simp: demo_setup_fields)
qed

section \<open>A published attempt\<close>

lemma opened_bound:
  assumes good: "run_good spec s" and spec: "distinct (map cs_checkpoint_id (ls_checkpoints spec))"
    and step: "open_attempt session mode (Some d) s = Inr s'"
  shows "\<exists>active c t. ru_active s' = Some active \<and> index_checkpoint s' active = Inr c \<and> active_attempt c = Some t
    \<and> ct_session_id t = session \<and> ct_request_sha256 t = Some d"
proof -
  obtain active where active: "ru_active s = Some active"
    using step by (auto simp: open_attempt_def split: option.splits)
  obtain subs c pend where sh: "has_shape s (Busy subs c pend)" and id: "cr_checkpoint_id c = active"
    using busyE [OF good active] by metis
  have middle: "ru_checkpoints s = subs @ c # pend" using sh by simp
  note ids = good_ids [OF good spec]
  note edit = map_checkpoint_middle [OF middle ids] index_middle [OF middle ids]
  let ?a = "new_attempt (cr_checkpoint_id c) session mode (Some d) c"
  have "s' = s \<and> (\<exists>t. active_attempt c = Some t \<and> ct_session_id t = session \<and> ct_request_sha256 t = Some d)
      \<or> s' = s\<lparr>ru_checkpoints := subs @ reopened_attempts ?a c # pend\<rparr>"
    using step active edit
    by (auto simp: open_attempt_def reduce_open_attempt_def id [symmetric] bindE_eq_Inr_iff guardE_eq_Inr_iff
        validated_Inr attempts_update_active reopened_attempts_def Let_def validate_checkpoint_attempt_def
        split: option.splits if_splits)
  then show ?thesis
  proof
    assume "s' = s\<lparr>ru_checkpoints := subs @ reopened_attempts ?a c # pend\<rparr>"
    moreover have "cr_checkpoint_id (reopened_attempts ?a c) = active" by (simp add: reopened_attempts_def id)
    ultimately have "index_checkpoint s' active = Inr (reopened_attempts ?a c)" "ru_active s' = Some active"
      using index_middle [of s' subs "reopened_attempts ?a c" pend] ids middle active by (auto simp: id)
    moreover have "active_attempt (reopened_attempts ?a c) = Some ?a"
      by (simp add: active_attempt_def reopened_attempts_def new_attempt_def)
    ultimately show ?thesis by (simp add: new_attempt_def)
  qed (use active edit id in auto)
qed

text \<open>
  C9. When an attempt is published, the request is durable and the active attempt of the run belongs to its session
  and carries the hash of exactly the bytes that are durable, whether it has been opened now or was open before.
\<close>

theorem published_attempt_bound:
  assumes "setup_ok su spec" and "held (rs_package su) spec 0 h" and "publish_attempt su q h = (Inr (), h')"
  shows "\<exists>s active c t bytes. ho_run h' = Some s \<and> ru_active s = Some active \<and> index_checkpoint s active = Inr c
    \<and> active_attempt c = Some t \<and> ct_session_id t = er_session_id q \<and> ct_request_sha256 t = Some (sha256 bytes)
    \<and> ho_documents h' (request_key q request_document) = Some bytes \<and> bytes = dc_render_request (rs_codec su) q"
proof -
  let ?key = "request_key q request_document" and ?bytes = "dc_render_request (rs_codec su) q"
  let ?B = "\<lambda>h. \<exists>s active c t. ho_run h = Some s \<and> ru_active s = Some active \<and> index_checkpoint s active = Inr c
    \<and> active_attempt c = Some t \<and> ct_session_id t = er_session_id q \<and> ct_request_sha256 t = Some (sha256 ?bytes)"
  let ?D = "\<lambda>h. ho_documents h ?key = Some ?bytes"
  obtain d h1 where persist: "persist_request su q h = (Inr d, h1)"
    using assms(3) by (auto simp: publish_attempt_def bindS_apply split: prod.splits sum.splits)
  then have d: "d = sha256 ?bytes" "?D h1" "ho_run h1 = ho_run h"
    by (auto simp: persist_request_def Let_def bindS_apply persist_document_def split: option.splits if_splits)
  obtain spec' s s' where step: "load_host su h1 = (Inr (spec', s), h1)"
    "open_attempt (er_session_id q) ''fresh_context'' (Some d) s = Inr s'" "h' = h1\<lparr>ho_run := Some s'\<rparr>"
    using assms(3) persist
    by (auto simp: publish_attempt_def open_host_def bindS_apply liftE_def store_run_def update_host_def load_host_def
        split: prod.splits sum.splits if_splits)
  have "held (rs_package su) spec 0 h1" using assms(2) held_run [OF d(3)] by simp
  then have s: "spec' = spec" "holds su spec 0 s h1"
    using endsD(2) [OF load_host_ends [OF assms(1)] _ step(1)] by auto
  show ?thesis
    using opened_bound [OF holds_good(1,2) [OF assms(1) s(2)] step(2)] step(3) d by auto
qed

text \<open>The attempt of the example is opened by the runner, with the hash of the request.\<close>

definition demo_published :: checkpoint_attempt where
  "demo_published = new_attempt ''site'' ''s1'' ''fresh_context'' (Some (sha256 ''q'')) demo_site_run"

lemma demo_publish:
  "open_attempt ''s1'' ''fresh_context'' (Some (sha256 ''q'')) demo_release
    = Inr (demo_release\<lparr>ru_checkpoints := [demo_site_run\<lparr>cr_attempts := [demo_published]\<rparr>, pending_run demo_plan]\<rparr>)"
proof -
  note edit = demo_edit [OF demo_run_fields(7,1)]
  have "\<not> py_blank (attempt_id ''site'' 1)" "\<not> py_blank ''s1''" "\<not> py_blank ''fresh_context''" by code_simp+
  then have "isOK (validate_checkpoint_attempt demo_published)"
    by (simp add: validate_checkpoint_attempt_def isOK_bindE_const demo_published_def new_attempt_def demo_run_fields
        last_attempt_def opt_list_def sha256_not_blank)
  then have "validated (validate_checkpoint_attempt demo_published) = Inr demo_published"
    by (auto simp: validated_Inr validate_checkpoint_attempt_def bindE_eq_Inr_iff guardE_eq_Inr_iff isOK_iff)
  then show ?thesis
    by (simp add: open_attempt_def reduce_open_attempt_def edit demo_run_fields active_attempt_def
        demo_published_def [symmetric] update_active_attempt_def)
qed

lemma demo_release_reachable: "lifecycle_reachable demo_package demo_spec demo_release"
  using lifecycle_step.Release [OF demo_1] demo_0 unfolding lifecycle_reachable_def by blast

theorem published_attempt_bound_witness:
  "\<exists>h' s active c t bytes. publish_attempt demo_setup demo_request (demo_host (Some demo_release)) = (Inr (), h')
    \<and> ho_run h' = Some s \<and> ru_active s = Some active \<and> index_checkpoint s active = Inr c
    \<and> active_attempt c = Some t \<and> ct_session_id t = ''s1'' \<and> ct_request_sha256 t = Some (sha256 bytes)
    \<and> ho_documents h' (request_key demo_request request_document) = Some bytes"
proof -
  let ?d = "(demo_host (Some demo_release))\<lparr>ho_documents := (\<lambda>_. None)(request_key demo_request request_document := Some ''q'')\<rparr>"
  let ?s = "demo_release\<lparr>ru_checkpoints := [demo_site_run\<lparr>cr_attempts := [demo_published]\<rparr>, pending_run demo_plan]\<rparr>"
  have held: "held (rs_package demo_setup) demo_spec 0 (demo_host (Some demo_release))"
    using demo_release_reachable by (simp add: held_def demo_host_def demo_setup_fields)
  then have "held (rs_package demo_setup) demo_spec 0 ?d" using held_run [of ?d "demo_host (Some demo_release)"] by simp
  then have load: "load_host demo_setup ?d = (Inr (demo_spec, demo_release), ?d)"
    using load_host_runs [OF demo_setup_ok] demo_closing_ok by (auto simp: closing_ok_def demo_host_def)
  have persist: "persist_request demo_setup demo_request (demo_host (Some demo_release)) = (Inr (sha256 ''q''), ?d)"
    by (simp add: persist_request_def bindS_apply persist_document_def demo_setup_fields demo_host_def Let_def)
  have "index_checkpoint ?s ''site'' = Inr (demo_site_run\<lparr>cr_attempts := [demo_published]\<rparr>)"
    by (rule demo_edit(2)) (simp_all add: demo_run_fields)
  moreover have "attempt_id ''site'' 1 = ''site.attempt-001''" by code_simp
  moreover have "er_session_id demo_request = ''s1''" "er_attempt_id demo_request = ''site.attempt-001''"
    by (simp_all add: demo_request_def)
  ultimately have run: "publish_attempt demo_setup demo_request (demo_host (Some demo_release)) = (Inr (), ?d\<lparr>ho_run := Some ?s\<rparr>)"
    by (simp add: publish_attempt_def bindS_apply persist open_host_def load liftE_def demo_publish store_run_def update_host_def
        demo_run_fields last_attempt_def) (simp add: demo_published_def new_attempt_def demo_run_fields)
  show ?thesis
    using published_attempt_bound [OF demo_setup_ok held run] run by (auto simp: demo_request_def)
qed

end
