(* ===== verification/Lifecycle_Closures.thy ===== *)
theory Lifecycle_Closures
  imports Lifecycle_Invariant_Operations
begin

text \<open>
  What the validation of the declared requests and operations guarantees, stated of the relation between the
  ids and their prerequisites: the validators decide it, every declared id can be had within the budget, and
  the two walks that collect prerequisites return the same set.
\<close>

section \<open>The worklist of the runtime\<close>

lemma closure_walk_reaches:
  "closure_walk g xs closure = Inr r \<Longrightarrow> depends g `` set closure \<subseteq> set closure \<union> set xs
     \<Longrightarrow> set r = set closure \<union> (depends g)\<^sup>* `` set xs"
proof (induction g xs closure arbitrary: r rule: closure_walk.induct)
  case (1 g closure)
  then show ?case by simp
next
  case (2 g x xs closure)
  show ?case
  proof (cases "x \<in> set closure")
    case True
    then have same: "set r = set closure \<union> (depends g)\<^sup>* `` set xs"
      using "2.IH"(1) [OF True, of r] "2.prems" by auto
    have "(depends g)\<^sup>* `` {x} \<subseteq> set r"
    proof
      fix y assume "y \<in> (depends g)\<^sup>* `` {x}"
      then have "(x, y) \<in> (depends g)\<^sup>*" by simp
      then show "y \<in> set r"
      proof (induction rule: rtrancl_induct)
        case (step y z)
        then show ?case using "2.prems"(2) True unfolding same by (auto intro: rtrancl_into_rtrancl)
      qed (simp add: True same)
    qed
    then show ?thesis using same by auto
  next
    case False
    obtain ds where ds: "map_of g x = Some ds" and rest: "closure_walk g (ds @ xs) (x # closure) = Inr r"
      using "2.prems"(1) False by (auto split: option.splits)
    have edges: "depends g `` {x} = set ds" using ds by (auto simp: depends_def)
    then have "set r = insert x (set closure) \<union> (depends g)\<^sup>* `` set (ds @ xs)"
      using "2.IH"(2) [OF False ds rest] "2.prems"(2) by auto
    moreover have "(depends g)\<^sup>* `` {x} = insert x ((depends g)\<^sup>* `` set ds)"
      using edges by (auto elim: converse_rtranclE intro: converse_rtrancl_into_rtrancl)
    ultimately show ?thesis by auto
  qed
qed

lemma closure_walk_required:
  assumes "map_of g x = Some ds" and "closure_walk g ds [] = Inr r"
  shows "set r = required_by g x"
proof -
  have "depends g `` {x} = set ds" using assms(1) by (auto simp: depends_def)
  then have "(depends g)\<^sup>* `` set ds = (depends g)\<^sup>+ `` {x}"
    by (auto dest!: tranclD intro: rtrancl_into_trancl2)
  then show ?thesis using closure_walk_reaches [OF assms(2)] by (simp add: required_by_def)
qed

section \<open>The validators decide the relation\<close>

definition graph_ok :: "int \<Rightarrow> graph \<Rightarrow> bool" where
  "graph_ok budget g \<longleftrightarrow> distinct (map fst g) \<and> budget \<le> int (length g) \<and> (\<forall>(x, ds)\<in>set g. set ds \<subseteq> fst ` set g)
     \<and> acyclic (depends g) \<and> (\<forall>x\<in>fst ` set g. int (card (required_by g x)) + 1 \<le> budget)"

lemma graph_ok_closed: "graph_ok budget g \<Longrightarrow> closed_graph g \<and> acyclic (depends g)"
  by (simp add: graph_ok_def closed_graphI)

text \<open>
  C20. The validators of the request graph and of the operation graph accept exactly the graphs that are well
  founded: the ids are unique and at least as many as the budget, every prerequisite is declared, no id
  requires itself through any chain of prerequisites, and the budget suffices for every id together with all
  it requires. The depth-first search and the memoised closure never fail for another reason.
\<close>

theorem validate_graphs_iff:
  "(isOK (validate_request_graph c) \<longleftrightarrow> graph_ok (ce_request_budget c) (request_graph c))
   \<and> (isOK (validate_operation_graph d) \<longleftrightarrow> graph_ok (co_operation_budget d) (operation_graph d))"
  by (simp add: validate_request_graph_def validate_operation_graph_def isOK_bindE_const check_graph_iff graph_ok_def)

section \<open>Every request can be had\<close>

text \<open>
  C21. Validated evidence never declares a request that cannot be had: there is a sequence of releases, each after
  all its prerequisites and none twice, that ends in the request and needs no more than the budget.
\<close>

theorem every_request_attainable:
  assumes "isOK (validate_conditional_evidence e)" and "r \<in> set (ce_requests e)"
  shows "\<exists>xs. in_order (request_graph e) {} (xs @ [rq_request_id r]) \<and> int (length (xs @ [rq_request_id r])) \<le> ce_request_budget e"
proof -
  have ok: "graph_ok (ce_request_budget e) (request_graph e)"
    using assms(1) by (simp add: validate_conditional_evidence_def validate_request_graph_def isOK_bindE_const bindE_guardE_OK
        check_graph_iff graph_ok_def)
  obtain xs where "in_order (request_graph e) {} (xs @ [rq_request_id r])"
    and "length xs = card (required_by (request_graph e) (rq_request_id r))"
    using attainable [of "request_graph e" "rq_request_id r"] graph_ok_closed [OF ok] by auto
  moreover have "rq_request_id r \<in> fst ` set (request_graph e)" using assms(2) by (force simp: request_graph_def)
  moreover from this have "int (card (required_by (request_graph e) (rq_request_id r))) + 1 \<le> ce_request_budget e"
    using ok unfolding graph_ok_def by blast
  ultimately show ?thesis by (intro exI [of _ xs]) simp
qed

text \<open>Two requests, the second after the first, with a budget for both.\<close>

definition chained_evidence :: conditional_evidence where
  "chained_evidence = \<lparr>ce_request_budget = 2, ce_requests =
     [\<lparr>rq_request_id = ''log'', rq_title = ''Log'', rq_description = ''The log.'', rq_prerequisites = []\<rparr>,
      \<lparr>rq_request_id = ''test'', rq_title = ''Test'', rq_description = ''The test.'', rq_prerequisites = [''log'']\<rparr>]\<rparr>"

theorem every_request_attainable_witness:
  "\<exists>xs. in_order (request_graph chained_evidence) {} (xs @ [''test'']) \<and> int (length (xs @ [''test''])) \<le> 2"
proof -
  have "isOK (validate_conditional_evidence chained_evidence)" by code_simp
  then show ?thesis
    using every_request_attainable [of chained_evidence "ce_requests chained_evidence ! 1"] by (simp add: chained_evidence_def)
qed

section \<open>The two walks agree\<close>

text \<open>
  For every declared operation of validated operations the walk of the runtime and the memoised closure of
  the contract return, and both return the ids that the operation requires through any chain of prerequisites.
\<close>

theorem closures_return_and_agree:
  assumes "isOK (validate_conditional_operations e)" and "cs_operations d = Some e" and "x \<in> set (co_operations e)"
  shows "\<exists>r memo. operation_closure d (op_operation_id x) = Inr r
    \<and> prerequisite_closure (operation_graph e) (length (operation_graph e)) (op_operation_id x) [] = Inr (set r, memo)
    \<and> set r = required_by (operation_graph e) (op_operation_id x)"
proof -
  let ?g = "operation_graph e" and ?i = "op_operation_id x"
  have ok: "graph_ok (co_operation_budget e) ?g"
    using assms(1) by (simp add: validate_conditional_operations_def validate_operation_graph_def isOK_bindE_const bindE_guardE_OK
        check_graph_iff graph_ok_def)
  note graph = conjunct1 [OF graph_ok_closed [OF ok]] conjunct2 [OF graph_ok_closed [OF ok]]
  have entry: "(?i, op_prerequisites x) \<in> set ?g" using assms(3) by (auto simp: operation_graph_def)
  then have deps: "map_of ?g ?i = Some (op_prerequisites x)" using ok by (simp add: graph_ok_def map_of_is_SomeI)
  obtain r where r: "operation_closure d ?i = Inr r"
    using operation_closure_total [OF assms] by (auto simp: isOK_iff)
  then have set: "set r = required_by ?g ?i"
    using closure_walk_required [OF deps] deps by (simp add: operation_closure_def assms(2))
  have "?i \<in> fst ` set ?g" using entry by force
  then obtain c memo where "prerequisite_closure ?g (length ?g) ?i [] = Inr (c, memo)"
    using closure_returns(1) [OF graph depth_bound_keys [OF graph], of ?i "[]"] by (auto simp: isOK_iff)
  moreover from this have "c = required_by ?g ?i" using closure_sound(1) [of ?g] by (simp add: memo_ok_def)
  ultimately show ?thesis using r set by metis
qed

text \<open>Three operations in a chain, at a checkpoint.\<close>

definition chained_operation :: "string \<Rightarrow> string list \<Rightarrow> operation_spec" where
  "chained_operation i ds = \<lparr>op_operation_id = i, op_kind = ''calc'', op_title = ''t'', op_description = ''d'', op_prerequisites = ds\<rparr>"

definition chained_operations :: conditional_operations where
  "chained_operations = \<lparr>co_operation_budget = 3, co_operations =
     [chained_operation ''check'' [''size''], chained_operation ''load'' [], chained_operation ''size'' [''load'']]\<rparr>"

definition chained_checkpoint :: checkpoint_spec where
  "chained_checkpoint = \<lparr>cs_checkpoint_id = ''c'', cs_title = ''C'', cs_release_path = ''releases/c'',
     cs_instruction_path = ''instructions/c.md'', cs_submission_path = ''submissions/c.json'', cs_depends_on = [],
     cs_required_fields = [], cs_allow_additional = True, cs_evidence = None, cs_operations = Some chained_operations\<rparr>"

theorem closures_return_and_agree_witness:
  "operation_closure chained_checkpoint ''check'' = Inr [''load'', ''size'']
    \<and> required_by (operation_graph chained_operations) ''check'' = {''load'', ''size''}"
proof -
  have "isOK (validate_conditional_operations chained_operations)" by code_simp
  moreover have walk: "operation_closure chained_checkpoint ''check'' = Inr [''load'', ''size'']" by code_simp
  moreover have "cs_operations chained_checkpoint = Some chained_operations" by (simp add: chained_checkpoint_def)
  moreover have "chained_operation ''check'' [''size''] \<in> set (co_operations chained_operations)"
    by (simp add: chained_operations_def)
  moreover have "op_operation_id (chained_operation ''check'' [''size'']) = ''check''" by (simp add: chained_operation_def)
  ultimately show ?thesis
    using closures_return_and_agree [of chained_operations chained_checkpoint "chained_operation ''check'' [''size'']"]
    by auto
qed

end
