(* ===== verification/Spec2Isabelle.thy ===== *)
theory Spec2Isabelle
  imports Timestamps Scheduler_Enqueue Run_Plan_Total Lifecycle_Episode_Properties Lifecycle_Closures
begin

text \<open>
  A verification development of the planning, execution and lifecycle core of \<^verbatim>\<open>aec-bench\<close>, the Python package
  under \<^verbatim>\<open>src/src/aec_bench\<close>. Paths below are relative to that directory.

  \<^bold>\<open>The program.\<close> An experiment manifest (\<^verbatim>\<open>contracts/experiment_manifest.py\<close>) selects tasks, agents and
  a number of repetitions. \<^verbatim>\<open>resolve_run_spec\<close> (\<^verbatim>\<open>contracts/resolved_run.py\<close>) fixes it, with exact task
  snapshots and agent conditions, as the requested condition of one run, and \<^verbatim>\<open>plan_run\<close>
  (\<^verbatim>\<open>contracts/run_plan.py\<close>) expands that into a plan: one trial per task, condition and repetition.
  \<^verbatim>\<open>LocalScheduler.enqueue_ready_plan\<close> (\<^verbatim>\<open>execution/scheduler.py\<close>) writes the trials and their work items
  into the operational store (\<^verbatim>\<open>execution/operational/store.py\<close>, an SQLite database), from which schedulers
  lease work under the caps of the execution policy, run it in worker threads, record attempts and backend
  submissions, retry, cancel and reconcile. \<^verbatim>\<open>execution/progress.py\<close> projects the rows of a run into a
  read-only view.

  The second part is the evidence lifecycle. A lifecycle (\<^verbatim>\<open>contracts/evidence_lifecycle.py\<close>) is a list of
  checkpoints, each of which may declare evidence requests or operations with prerequisites and a budget.
  The runtime (\<^verbatim>\<open>lifecycles/runtime/lifecycle.py\<close>) loads the state of a run, checks it against contract and
  package, replays the histories of its actions (\<^verbatim>\<open>request_protocol.py\<close>, \<^verbatim>\<open>operation_protocol.py\<close>), and
  releases a checkpoint, records attempts, requests and operations (\<^verbatim>\<open>request_store.py\<close>,
  \<^verbatim>\<open>operation_store.py\<close>), archives a submission or branches, each by a reduction of the state
  (\<^verbatim>\<open>reducer.py\<close>, \<^verbatim>\<open>state.py\<close>). \<^verbatim>\<open>run_lifecycle\<close> is the loop that drives a run to its end: for each
  checkpoint it publishes an attempt with a request, lets an episode environment work on it, validates the
  result and submits, or closes the attempt (\<^verbatim>\<open>lifecycles/runtime/episode.py\<close> is the contract with the
  environment).

  \<^bold>\<open>Theories.\<close>
  \<^item> \<open>Prelude\<close>: the error monad of the validators (a raise is \<open>Inl\<close>), the state-and-error monad of the
    methods (the state survives an exception), invariants of actions (\<open>preserves\<close>), tables as lists of rows.
  \<^item> \<open>Identity\<close> (\<^verbatim>\<open>contracts/identity.py\<close>): UUIDv7 values as 128-bit words, entity keys, portable paths,
    identities. \<open>Timestamps\<close>: the texts in which the store keeps times.
  \<^item> \<open>Execution_Policy\<close>, \<open>Runtime_Observation\<close>, \<open>Execution_Models\<close>: the contracts of
    \<^verbatim>\<open>contracts/execution_policy.py\<close>, \<^verbatim>\<open>contracts/runtime_observation.py\<close> and \<^verbatim>\<open>execution/models.py\<close>.
  \<^item> \<open>Json\<close>: values of \<^verbatim>\<open>Any\<close> fields, \<^verbatim>\<open>int()\<close> and decimal text, the secret scan. \<open>Dataset_Contracts\<close>:
    datasets, task snapshots, family releases. \<open>Experiment_Manifest\<close> and \<open>Resolved_Run\<close>: the inputs of a
    run. \<open>Run_Plan\<close>: plans and \<^verbatim>\<open>plan_run\<close>; \<open>Run_Plan_Expansion\<close> shows that its loops build the product
    and \<open>Run_Plan_Total\<close> that it succeeds on valid inputs.
  \<^item> \<open>Store_Tables\<close>: the seven tables and their constraints (\<^verbatim>\<open>schema.py\<close>), transactions, argument checks;
    \<open>Store_Schema\<close>: the invariant of the store; \<open>Store_Runs\<close>, \<open>Store_Attempts\<close>, \<open>Store_Leases\<close>: the
    methods of \<^verbatim>\<open>OperationalStore\<close>; \<open>Store_Reachable\<close>: the store as a state machine with one step per call;
    \<open>Store_Queue\<close>, \<open>Store_Contracts\<close>, \<open>Store_Lifecycle\<close>, \<open>Store_Caps\<close>: what the methods promise.
  \<^item> \<open>Scheduler\<close> (with the interface \<open>scheduler_store\<close> between the scheduler and the invariants of the
    store, and its four interpretations), \<open>Scheduler_Passes\<close>, \<open>Scheduler_Results\<close>, \<open>Scheduler_Enqueue\<close>:
    every method of \<^verbatim>\<open>LocalScheduler\<close>. \<open>Progress\<close>: \<^verbatim>\<open>project_run_progress\<close>.
  \<^item> \<open>Prerequisite_Graph\<close>: the two recursive functions that check requests and operations, and the relation
    they decide. \<open>Lifecycle_Spec\<close>: the contract. \<open>Lifecycle_State\<close>: the run state and its validators;
    \<open>Lifecycle_Reducer\<close>: the reductions. \<open>Canonical_Json\<close>: the canonical text of a payload and its hash.
    \<open>Lifecycle_Package\<close>: the package tree, its identities. \<open>Lifecycle_Requests\<close> and
    \<open>Lifecycle_Operations\<close>: replay, decision and recording. \<open>Lifecycle_Runtime\<close>: the handlers.
  \<^item> \<open>Lifecycle_Facts\<close>: lists, shapes of a run and what the validators say. \<open>Lifecycle_Invariant\<close>,
    \<open>Lifecycle_Invariant_Requests\<close>, \<open>Lifecycle_Invariant_Operations\<close>, \<open>Lifecycle_Invariant_Branch\<close>: every
    handler keeps the invariant \<open>run_good\<close>. \<open>Lifecycle_Reachable\<close>: the handlers as a step relation and the
    abstract machine of phases they simulate (locale \<open>forward_simulation\<close>). \<open>Lifecycle_Origin\<close>: what a branch
    inherits stays. \<open>Lifecycle_Example\<close>: a concrete run through all of it. \<open>Lifecycle_Closures\<close> and
    \<open>Lifecycle_Properties\<close>: what follows.
  \<^item> \<open>Lifecycle_Episode\<close>: contexts, requests and results of an episode with their validators.
    \<open>Lifecycle_Episode_Run\<close>: the host (stored state, files, documents) and the loop. \<open>Lifecycle_Episode_Facts\<close>:
    triples over the host and the state that stays reachable; \<open>Lifecycle_Episode_Loop\<close>: the loop ends;
    \<open>Lifecycle_Episode_Close\<close>: a failed attempt is closed; \<open>Lifecycle_Episode_Properties\<close>: what follows.

  \<^bold>\<open>Correspondence.\<close> A model class is a record with the fields of the class, its validators one function
  that returns the instance or the error of the first failing check; pydantic does not validate an instance
  again when it becomes a field of another, and neither do these functions. An enumeration is a
  datatype. A store row is a record, a table the list of its rows in insertion order; a method is a
  function of the store and its arguments, built from a transaction body (\<open>..._txn\<close>) that is rolled back
  when it raises. A reading of the clock, of randomness and of the environment is an argument; so are the
  caller's callbacks (identity factory, combination validator) and the answers of execution backends, which
  are not code of these files. \<^verbatim>\<open>dispatch_once\<close> runs over a list of rounds, each saying which futures are
  done, what their workers returned and what other threads did to the store meanwhile.

  \<^bold>\<open>Lemmas.\<close> Each method keeps the store invariant, is atomic, and does nothing on a read-only store.
  Over the reachable stores the properties show mutual exclusion of leases, the concurrency caps, the order
  of the queue, cancellation, retries within the policy, and that a pass of the scheduler keeps all of
  it; over the planning functions, that a plan is the product of its inputs, that planning succeeds whenever
  the combinations have different keys, that a resolved run retains no secret, and that enqueueing covers
  a plan exactly once; over the view, that its counts and its completion flag are those of the rows. Closed
  theorems exhibit the defects that modelling found.

  Over the reachable states of a lifecycle run (any sequence of handler calls, with any files at each call,
  any request and operation, and branches of branches) they show that the state always passes the next load,
  that the handlers refine the machine of phases, that budgets are exact, that evidence is released in the
  order of its prerequisites, that one attempt at most is active, that the next release is possible and
  that the origin of a branch is never disturbed. Of the loop they show, for every environment that changes the
  run by runtime calls only, that it returns, that an attempt carries the hash of the durable request, that a
  submission has a durable result behind it, and that a failed episode leaves no active attempt unless its
  failure cannot be recorded.

  \<^bold>\<open>Bounds.\<close> One function has fuel: the memoised closure of prerequisites, which stands for Python's
  recursion; the number of declared ids is enough on every graph that passed the search for cycles
  (\<open>closure_returns\<close>, \<open>depth_bound_keys\<close>). The loop of \<^verbatim>\<open>run_lifecycle\<close> is a \<open>partial_function\<close>, so that not
  returning is a value, which is then excluded (\<open>run_checkpoints_returns\<close>). Every other loop is over a finite list or has a measure. Integers of Python are \<open>int\<close>; identities
  are \<open>128 word\<close>. A character is a code point below 256. Times are microseconds; a finite float is the
  rational it denotes.

  \<^bold>\<open>Parameters.\<close> SHA-256 is computed (\<open>Canonical_Json\<close>), but the proofs use only the form of its result. The
  operation resolver of a task family is a record of functions; the invariant asks that its plans name prior
  completed actions within the public prerequisites and that its source context follows the last completed
  action (\<open>resolver_faithful\<close>), which is what the family resolvers document. The JSON parser and printer of a
  submission and the check of released files on disk are arguments. So are an episode environment (its methods may
  change the whole host; \<open>environment_ok\<close> says that they touch the run through runtime calls only), the texts
  of requests and results, and the workspace files that a context quotes.

  \<^bold>\<open>Not modelled.\<close> Of the lifecycle runtime: staging directories, file locks, ledgers, projections into the
  workspace and crash recovery of half-written transactions, local snapshots, finalization and recording; of
  the episode loop, what is not an \<^verbatim>\<open>Exception\<close> (an interrupt leaves the attempt active, for the recovery of
  the next run) and paths that are folders where a file is expected. Opening a database file and its schema version check; the threads of \<^verbatim>\<open>dispatch_once\<close>
  below the granularity of its rounds; the exact texts of messages where they quote values; the schema hooks
  and parsing of pydantic. The rest of the package (evidence ledger, lifecycle families, worlds, evolution,
  remediation, experimentation, harness, adapters, evaluation, user interfaces) is listed with its reasons
  in the manifest.
\<close>

end
